(* ===== verification/Prelude.thy ===== *)
theory Prelude
  imports Main
begin

text \<open>
  What every theory of the development shares: errors as values, the state-passing
  computations in which the controllers are written, a small Hoare logic for them, and
  generic lemmas on lists and maps.

  A Go function that talks to the cluster is a function from the world to a result and the
  next world, \<open>('w, 'a) io\<close>. The world \<open>'w\<close> is never inspected by the model: it is whatever
  stands behind the Kubernetes client, the clock and the random source. An error return is
  \<open>Inl\<close>, a normal return \<open>Inr\<close>; \<open>bindE\<close> is the idiom
  \<open>x, err := f(); if err != nil { return err }\<close>.
\<close>

named_theorems io_defs \<open>unfolding rules of the state-passing combinators\<close>
named_theorems hoare_rules \<open>introduction rules for Hoare triples over the combinators\<close>
named_theorems frame_rules \<open>facts that an operation keeps a part of its argument\<close>

section \<open>Errors and messages\<close>

text \<open>
  A message is the format string of the source with its arguments, left unformatted.
\<close>


text \<open>
  The API errors the source tells apart, and the error values it builds from them.
  \<open>ConflictErr\<close> is \<open>*backupplan.ConflictError\<close>, which callers tell apart by its type;
  \<open>Wrapped\<close> is \<open>fmt.Errorf("...: %w", err)\<close>: \<open>apierrors.IsNotFound\<close> looks through it.
\<close>

datatype api_err = ENotFound | EAlreadyExists | EOtherApi string

text \<open>
  The error values of the panel's store (\<open>internal/paneldb\<close>), which callers compare by identity, and what the
  database itself reports: a violated constraint by its name, or any other failure.
\<close>

datatype db_err = DbNotFound | DbAlreadyExists | DbEmailTaken | DbLastAdmin | DbInvalidSlug | DbLastOwner
  | DbWrongAccount | DbInvalidToken | DbUnique string | DbDriver

datatype arg = AStr string | AInt int | AErr go_err
and msg = Msg string "arg list"
and go_err = ApiErr api_err | MsgErr msg | ConflictErr msg | DbErr db_err | Wrapped string go_err

abbreviation no_msg :: msg where
  "no_msg \<equiv> Msg [] []"

text \<open>
  \<open>strings.Join(msgs, "; ")\<close> of formatted messages is the format of the joined formats with all
  the arguments.
\<close>

fun joinMsgs :: "msg list \<Rightarrow> msg" where
  "joinMsgs [] = no_msg"
| "joinMsgs [m] = m"
| "joinMsgs (Msg f as # ms) = (case joinMsgs ms of Msg g bs \<Rightarrow> Msg (f @ ''; '' @ g) (as @ bs))"

fun api_cause :: "go_err \<Rightarrow> api_err option" where
  "api_cause (ApiErr e) = Some e"
| "api_cause (MsgErr m) = None"
| "api_cause (ConflictErr m) = None"
| "api_cause (DbErr d) = None"
| "api_cause (Wrapped s e) = api_cause e"

definition is_not_found :: "go_err \<Rightarrow> bool" where
  "is_not_found e \<longleftrightarrow> api_cause e = Some ENotFound"

definition is_already_exists :: "go_err \<Rightarrow> bool" where
  "is_already_exists e \<longleftrightarrow> api_cause e = Some EAlreadyExists"

lemma is_not_found_simps [simp]:
  "is_not_found (ApiErr e) \<longleftrightarrow> e = ENotFound"
  "\<not> is_not_found (MsgErr m)"
  "\<not> is_not_found (ConflictErr m)"
  "\<not> is_not_found (DbErr d)"
  "is_not_found (Wrapped s x) \<longleftrightarrow> is_not_found x"
  by (simp_all add: is_not_found_def)

lemma is_already_exists_simps [simp]:
  "is_already_exists (ApiErr e) \<longleftrightarrow> e = EAlreadyExists"
  "\<not> is_already_exists (MsgErr m)"
  "\<not> is_already_exists (ConflictErr m)"
  "is_already_exists (Wrapped s x) \<longleftrightarrow> is_already_exists x"
  by (simp_all add: is_already_exists_def)

section \<open>State-passing computations with errors\<close>

type_synonym ('w, 'a) io = "'w \<Rightarrow> (go_err + 'a) \<times> 'w"

definition ret :: "'a \<Rightarrow> ('w, 'a) io" where
  "ret x = (\<lambda>w. (Inr x, w))"

definition throw :: "go_err \<Rightarrow> ('w, 'a) io" where
  "throw e = (\<lambda>w. (Inl e, w))"

definition bindE :: "('w, 'a) io \<Rightarrow> ('a \<Rightarrow> ('w, 'b) io) \<Rightarrow> ('w, 'b) io" where
  "bindE m f = (\<lambda>w. case m w of (Inl e, w') \<Rightarrow> (Inl e, w') | (Inr x, w') \<Rightarrow> f x w')"

abbreviation thenE :: "('w, 'a) io \<Rightarrow> ('w, 'b) io \<Rightarrow> ('w, 'b) io" where
  "thenE m n \<equiv> bindE m (\<lambda>_. n)"

text \<open>\<open>attempt m\<close> hands the error of \<open>m\<close> to the caller, as the source does when it inspects \<open>err\<close>.\<close>

definition attempt :: "('w, 'a) io \<Rightarrow> ('w, go_err + 'a) io" where
  "attempt m = (\<lambda>w. case m w of (r, w') \<Rightarrow> (Inr r, w'))"

definition wrapE :: "string \<Rightarrow> ('w, 'a) io \<Rightarrow> ('w, 'a) io" where
  "wrapE s m = (\<lambda>w. case m w of (Inl e, w') \<Rightarrow> (Inl (Wrapped s e), w') | (Inr x, w') \<Rightarrow> (Inr x, w'))"

definition liftE :: "go_err + 'a \<Rightarrow> ('w, 'a) io" where
  "liftE r = (\<lambda>w. (r, w))"

text \<open>\<open>gets f\<close> reads the world without changing it (the clock); \<open>modifyE f\<close> changes it and never fails.\<close>

definition gets :: "('w \<Rightarrow> 'a) \<Rightarrow> ('w, 'a) io" where
  "gets f = (\<lambda>w. (Inr (f w), w))"

definition modifyE :: "('w \<Rightarrow> 'w) \<Rightarrow> ('w, unit) io" where
  "modifyE f = (\<lambda>w. (Inr (), f w))"

text \<open>\<open>ignoring p m\<close> is \<open>client.IgnoreNotFound\<close> and its kin: errors that satisfy \<open>p\<close> become success.\<close>

definition ignoring :: "(go_err \<Rightarrow> bool) \<Rightarrow> ('w, 'a) io \<Rightarrow> ('w, unit) io" where
  "ignoring p m = bindE (attempt m)
     (\<lambda>r. case r of Inl e \<Rightarrow> if p e then ret () else throw e | Inr _ \<Rightarrow> ret ())"

text \<open>A loop over a list that stops at the first error.\<close>

fun forE :: "('a \<Rightarrow> ('w, unit) io) \<Rightarrow> 'a list \<Rightarrow> ('w, unit) io" where
  "forE f [] = ret ()"
| "forE f (x # xs) = thenE (f x) (forE f xs)"

lemmas io_run [io_defs] =
  ret_def throw_def bindE_def attempt_def wrapE_def liftE_def gets_def modifyE_def ignoring_def

lemma bindE_ret [simp]: "bindE (ret x) f = f x"
  by (simp add: bindE_def ret_def)

lemma bindE_throw [simp]: "bindE (throw e) f = throw e"
  by (simp add: bindE_def throw_def)

lemma bindE_gets: "bindE (gets f) g w = g (f w) w"
  by (simp add: bindE_def gets_def)

text \<open>A run that ends well ran its first part well.\<close>

lemma fst_bindE: "fst (bindE m f w) = Inr y \<longleftrightarrow> (\<exists>x w'. m w = (Inr x, w') \<and> fst (f x w') = Inr y)"
  by (auto simp: bindE_def split: prod.splits sum.splits)

lemma bindE_assoc: "bindE (bindE m f) g = bindE m (\<lambda>x. bindE (f x) g)"
  by (rule ext) (simp add: bindE_def split: prod.splits sum.splits)

lemma bindE_Inr:
  "bindE m f w = (Inr y, w') \<longleftrightarrow> (\<exists>x v. m w = (Inr x, v) \<and> f x v = (Inr y, w'))"
  by (auto simp: bindE_def split: prod.splits sum.splits)

lemma bindE_cong [fundef_cong]:
  assumes "m w = m' w'" and "\<And>x v. m' w' = (Inr x, v) \<Longrightarrow> f x v = f' x v"
  shows "bindE m f w = bindE m' f' w'"
  using assms by (auto simp: bindE_def split: prod.splits sum.splits)

section \<open>Hoare triples\<close>

text \<open>
  \<open>hoare P m Q E\<close>: from a world with \<open>P\<close>, a normal return of \<open>m\<close> satisfies \<open>Q\<close> and an
  error return satisfies \<open>E\<close>. Computations are total functions, so there is no third case.
\<close>

definition hoare :: "('w \<Rightarrow> bool) \<Rightarrow> ('w, 'a) io \<Rightarrow> ('a \<Rightarrow> 'w \<Rightarrow> bool) \<Rightarrow> (go_err \<Rightarrow> 'w \<Rightarrow> bool) \<Rightarrow> bool" where
  "hoare P m Q E \<longleftrightarrow>
     (\<forall>w. P w \<longrightarrow> (case m w of (Inl e, w') \<Rightarrow> E e w' | (Inr x, w') \<Rightarrow> Q x w'))"

lemma hoareI:
  assumes "\<And>w e w'. P w \<Longrightarrow> m w = (Inl e, w') \<Longrightarrow> E e w'"
    and "\<And>w x w'. P w \<Longrightarrow> m w = (Inr x, w') \<Longrightarrow> Q x w'"
  shows "hoare P m Q E"
  using assms by (auto simp: hoare_def split: prod.splits sum.splits)

lemma hoare_InrD: "hoare P m Q E \<Longrightarrow> P w \<Longrightarrow> m w = (Inr x, w') \<Longrightarrow> Q x w'"
  by (force simp: hoare_def)

lemma hoare_InlD: "hoare P m Q E \<Longrightarrow> P w \<Longrightarrow> m w = (Inl e, w') \<Longrightarrow> E e w'"
  by (force simp: hoare_def)

lemma hoare_pre: "hoare P' m Q E \<Longrightarrow> (\<And>w. P w \<Longrightarrow> P' w) \<Longrightarrow> hoare P m Q E"
  by (auto simp: hoare_def)

lemma hoare_post:
  "hoare P m Q' E' \<Longrightarrow> (\<And>x w. Q' x w \<Longrightarrow> Q x w) \<Longrightarrow> (\<And>e w. E' e w \<Longrightarrow> E e w) \<Longrightarrow> hoare P m Q E"
  by (fastforce simp: hoare_def split: prod.splits sum.splits)

lemma hoare_ret [hoare_rules]: "(\<And>w. P w \<Longrightarrow> Q x w) \<Longrightarrow> hoare P (ret x) Q E"
  by (simp add: hoare_def ret_def)

lemma hoare_throw [hoare_rules]: "(\<And>w. P w \<Longrightarrow> E e w) \<Longrightarrow> hoare P (throw e) Q E"
  by (simp add: hoare_def throw_def)

lemma hoare_bindE [hoare_rules]:
  "hoare P m R E \<Longrightarrow> (\<And>x. hoare (R x) (f x) Q E) \<Longrightarrow> hoare P (bindE m f) Q E"
  by (fastforce simp: hoare_def bindE_def split: prod.splits sum.splits)

lemma hoare_attempt [hoare_rules]:
  "hoare P m (\<lambda>x. Q (Inr x)) (\<lambda>e. Q (Inl e)) \<Longrightarrow> hoare P (attempt m) Q E"
proof (rule hoareI)
  fix w r w'
  assume m: "hoare P m (\<lambda>x. Q (Inr x)) (\<lambda>e. Q (Inl e))" and "P w" and "attempt m w = (Inr r, w')"
  then have "m w = (r, w')" by (simp add: attempt_def split: prod.splits)
  with m \<open>P w\<close> show "Q r w'" by (cases r) (auto dest: hoare_InlD hoare_InrD)
qed (simp add: attempt_def split: prod.splits)

lemma hoare_wrapE [hoare_rules]: "hoare P m Q (\<lambda>e. E (Wrapped s e)) \<Longrightarrow> hoare P (wrapE s m) Q E"
  by (fastforce simp: hoare_def wrapE_def split: prod.splits sum.splits)

lemma hoare_gets [hoare_rules]: "(\<And>w. P w \<Longrightarrow> Q (f w) w) \<Longrightarrow> hoare P (gets f) Q E"
  by (simp add: hoare_def gets_def)

lemma hoare_modifyE [hoare_rules]: "(\<And>w. P w \<Longrightarrow> Q () (f w)) \<Longrightarrow> hoare P (modifyE f) Q E"
  by (simp add: hoare_def modifyE_def)

lemma hoare_liftE [hoare_rules]:
  "(\<And>e w. r = Inl e \<Longrightarrow> P w \<Longrightarrow> E e w) \<Longrightarrow> (\<And>x w. r = Inr x \<Longrightarrow> P w \<Longrightarrow> Q x w) \<Longrightarrow> hoare P (liftE r) Q E"
  by (auto simp: hoare_def liftE_def split: sum.splits)

lemma hoare_if [hoare_rules]:
  "(c \<Longrightarrow> hoare P m Q E) \<Longrightarrow> (\<not> c \<Longrightarrow> hoare P n Q E) \<Longrightarrow> hoare P (if c then m else n) Q E"
  by simp

lemma hoare_case_sum [hoare_rules]:
  "(\<And>e. r = Inl e \<Longrightarrow> hoare P (f e) Q E) \<Longrightarrow> (\<And>x. r = Inr x \<Longrightarrow> hoare P (g x) Q E) \<Longrightarrow>
   hoare P (case r of Inl e \<Rightarrow> f e | Inr x \<Rightarrow> g x) Q E"
  by (cases r) auto

lemma hoare_case_option [hoare_rules]:
  "(r = None \<Longrightarrow> hoare P m Q E) \<Longrightarrow> (\<And>x. r = Some x \<Longrightarrow> hoare P (g x) Q E) \<Longrightarrow>
   hoare P (case r of None \<Rightarrow> m | Some x \<Rightarrow> g x) Q E"
  by (cases r) auto

lemma hoare_case_prod [hoare_rules]:
  "(\<And>a b. r = (a, b) \<Longrightarrow> hoare P (f a b) Q E) \<Longrightarrow> hoare P (case r of (a, b) \<Rightarrow> f a b) Q E"
  by (cases r) auto

lemma hoare_ignoring [hoare_rules]:
  assumes "hoare P m (\<lambda>_. Q ()) (\<lambda>e w. if p e then Q () w else E e w)"
  shows "hoare P (ignoring p m) Q E"
  using assms
  by (fastforce simp: hoare_def ignoring_def bindE_def attempt_def ret_def throw_def
      split: prod.splits sum.splits if_splits)

lemma hoare_forE:
  assumes "\<And>x. x \<in> set xs \<Longrightarrow> hoare I (f x) (\<lambda>_. I) E"
  shows "hoare I (forE f xs) (\<lambda>_. I) E"
  using assms
proof (induction xs)
  case Nil
  show ?case by (simp add: hoare_ret)
next
  case (Cons x xs)
  have "hoare I (f x) (\<lambda>_. I) E" and "hoare I (forE f xs) (\<lambda>_. I) E"
    using Cons by auto
  then show ?case by (simp add: hoare_bindE)
qed

section \<open>Maps with a default, lists\<close>

text \<open>Go's \<open>m[k]\<close> on a \<open>map[string]string\<close>: the empty string when the key is absent (or the map nil).\<close>

type_synonym smap = "string \<Rightarrow> string option"

definition sget :: "smap \<Rightarrow> string \<Rightarrow> string" where
  "sget m k = (case m k of None \<Rightarrow> [] | Some v \<Rightarrow> v)"

lemma sget_upd [simp]: "sget (m(k \<mapsto> v)) k' = (if k' = k then v else sget m k')"
  by (simp add: sget_def)

lemma sget_del [simp]: "sget (m(k := None)) k' = (if k' = k then [] else sget m k')"
  by (simp add: sget_def)

lemma sget_empty [simp]: "sget Map.empty k = []"
  by (simp add: sget_def)

lemma distinct_map_filter_append:
  "distinct (map f xs) \<Longrightarrow> f x \<notin> f ` set xs \<Longrightarrow> distinct (map f (xs @ [x]))"
  by simp

lemma filter_take_drop_last: "filter P xs = [] \<longleftrightarrow> (\<forall>x\<in>set xs. \<not> P x)"
  by (simp add: filter_empty_conv)

end
