(* ===== verification/Go_Strings.thy ===== *)
theory Go_Strings
  imports Prelude
begin

text \<open>
  The part of Go's \<open>strings\<close>, \<open>unicode\<close>, \<open>path\<close> and \<open>regexp\<close> packages that the source
  uses. A Go string is its bytes, a list of \<open>char\<close>. Case folding and white space are those of
  ASCII, the alphabet of every name, image reference and path the source passes to them.
\<close>

section \<open>Searching and trimming\<close>

definition hasPrefix :: "string \<Rightarrow> string \<Rightarrow> bool" where
  "hasPrefix s p \<longleftrightarrow> take (length p) s = p"

definition hasSuffix :: "string \<Rightarrow> string \<Rightarrow> bool" where
  "hasSuffix s p \<longleftrightarrow> hasPrefix (rev s) (rev p)"

definition trimPrefix :: "string \<Rightarrow> string \<Rightarrow> string" where
  "trimPrefix s p = (if hasPrefix s p then drop (length p) s else s)"

definition trimSuffix :: "string \<Rightarrow> string \<Rightarrow> string" where
  "trimSuffix s p = (if hasSuffix s p then take (length s - length p) s else s)"

fun indexByte :: "string \<Rightarrow> char \<Rightarrow> nat option" where
  "indexByte [] c = None"
| "indexByte (x # xs) c = (if x = c then Some 0 else map_option Suc (indexByte xs c))"

definition lastIndexByte :: "string \<Rightarrow> char \<Rightarrow> nat option" where
  "lastIndexByte s c = map_option (\<lambda>i. length s - Suc i) (indexByte (rev s) c)"

text \<open>\<open>strings.Cut(s, sep)\<close> for a one-byte separator: before, after, found.\<close>

definition cutByte :: "string \<Rightarrow> char \<Rightarrow> string \<times> string \<times> bool" where
  "cutByte s c = (case indexByte s c of None \<Rightarrow> (s, [], False) | Some i \<Rightarrow> (take i s, drop (Suc i) s, True))"

definition isSpace :: "char \<Rightarrow> bool" where
  "isSpace c \<longleftrightarrow> c \<in> {CHR 0x09, CHR 0x0A, CHR 0x0B, CHR 0x0C, CHR 0x0D, CHR '' ''}"

definition trimSpace :: "string \<Rightarrow> string" where
  "trimSpace s = rev (dropWhile isSpace (rev (dropWhile isSpace s)))"

definition toLowerC :: "char \<Rightarrow> char" where
  "toLowerC c = (if 65 \<le> (of_char c :: nat) \<and> (of_char c :: nat) \<le> 90 then char_of (of_char c + (32 :: nat)) else c)"

definition toLower :: "string \<Rightarrow> string" where
  "toLower s = map toLowerC s"

definition toUpperC :: "char \<Rightarrow> char" where
  "toUpperC c = (if 97 \<le> (of_char c :: nat) \<and> (of_char c :: nat) \<le> 122 then char_of (of_char c - (32 :: nat)) else c)"

definition toUpper :: "string \<Rightarrow> string" where
  "toUpper s = map toUpperC s"

text \<open>
  \<open>strings.IndexFunc(s, unicode.IsControl) >= 0\<close> over the UTF-8 bytes: C0 controls, DEL, and the
  C1 controls U+0080 to U+009F, which are \<open>C2 80\<close> to \<open>C2 9F\<close>. \<open>C2\<close> is never a continuation
  byte, so an adjacent pair always decodes as that rune.
\<close>

fun hasControl :: "string \<Rightarrow> bool" where
  "hasControl [] = False"
| "hasControl [c] = ((of_char c :: nat) < 32 \<or> (of_char c :: nat) = 127)"
| "hasControl (c # d # s) = ((of_char c :: nat) < 32 \<or> (of_char c :: nat) = 127
     \<or> (of_char c :: nat) = 194 \<and> 128 \<le> (of_char d :: nat) \<and> (of_char d :: nat) \<le> 159
     \<or> hasControl (d # s))"

section \<open>Splitting, joining, replacing\<close>

fun splitOn :: "char \<Rightarrow> string \<Rightarrow> string list" where
  "splitOn c [] = [[]]"
| "splitOn c (x # xs) = (if x = c then [] # splitOn c xs
     else (case splitOn c xs of [] \<Rightarrow> [[x]] | p # ps \<Rightarrow> (x # p) # ps))"

fun joinWith :: "char \<Rightarrow> string list \<Rightarrow> string" where
  "joinWith c [] = []"
| "joinWith c [p] = p"
| "joinWith c (p # q # ps) = p @ c # joinWith c (q # ps)"

text \<open>\<open>strings.Join\<close> with any separator.\<close>

fun joinStr :: "string \<Rightarrow> string list \<Rightarrow> string" where
  "joinStr sep [] = []"
| "joinStr sep [p] = p"
| "joinStr sep (p # q # ps) = p @ sep @ joinStr sep (q # ps)"

text \<open>\<open>strings.ReplaceAll\<close> for a non-empty pattern: leftmost, non-overlapping.\<close>

function replaceAll :: "string \<Rightarrow> string \<Rightarrow> string \<Rightarrow> string" where
  "replaceAll old new [] = []"
| "replaceAll old new (x # xs) =
     (if old \<noteq> [] \<and> hasPrefix (x # xs) old then new @ replaceAll old new (drop (length old) (x # xs))
      else x # replaceAll old new xs)"
  by pat_completeness auto
termination
  by (relation "measure (\<lambda>(old, new, s). length s)") (auto simp: Suc_le_eq)

section \<open>Character classes of the fixed regular expressions\<close>

definition isDigit :: "char \<Rightarrow> bool" where
  "isDigit c \<longleftrightarrow> 48 \<le> (of_char c :: nat) \<and> (of_char c :: nat) \<le> 57"

definition isLowerA :: "char \<Rightarrow> bool" where
  "isLowerA c \<longleftrightarrow> 97 \<le> (of_char c :: nat) \<and> (of_char c :: nat) \<le> 122"

definition isUpperA :: "char \<Rightarrow> bool" where
  "isUpperA c \<longleftrightarrow> 65 \<le> (of_char c :: nat) \<and> (of_char c :: nat) \<le> 90"

lemmas char_class_defs = isDigit_def isLowerA_def isUpperA_def

section \<open>path.Clean\<close>

definition cleanStep :: "bool \<Rightarrow> string list \<Rightarrow> string \<Rightarrow> string list" where
  "cleanStep rooted st e =
     (if e = [] \<or> e = ''.'' then st
      else if e = ''..'' then
        (case st of [] \<Rightarrow> if rooted then [] else [''..'']
                  | t # ts \<Rightarrow> if t = ''..'' then ''..'' # st else ts)
      else e # st)"

definition pathClean :: "string \<Rightarrow> string" where
  "pathClean p =
     (if p = [] then ''.''
      else let rooted = hasPrefix p ''/'';
               body = joinWith CHR ''/'' (rev (foldl (cleanStep rooted) [] (splitOn CHR ''/'' p)))
           in if rooted then ''/'' @ body else if body = [] then ''.'' else body)"

section \<open>Lemmas\<close>

lemma hasPrefix_iff: "hasPrefix s p \<longleftrightarrow> (\<exists>r. s = p @ r)"
  by (metis append_eq_conv_conj append_take_drop_id hasPrefix_def)

lemma hasPrefix_append [simp]: "hasPrefix (p @ r) p"
  by (auto simp: hasPrefix_iff)

lemma trimPrefix_append [simp]: "trimPrefix (p @ r) p = r"
  by (simp add: trimPrefix_def)

lemma indexByte_None: "indexByte s c = None \<longleftrightarrow> c \<notin> set s"
  by (induction s) auto

lemma indexByte_Some:
  "indexByte s c = Some i \<Longrightarrow> i < length s \<and> s ! i = c \<and> c \<notin> set (take i s)"
proof (induction s arbitrary: i)
  case Nil
  then show ?case by simp
next
  case (Cons x xs)
  show ?case
  proof (cases "x = c")
    case True
    with Cons.prems show ?thesis by auto
  next
    case False
    with Cons.prems obtain j where "i = Suc j" "indexByte xs c = Some j" by auto
    with Cons.IH False show ?thesis by auto
  qed
qed

lemma splitOn_ne [simp]: "splitOn c s \<noteq> []"
  by (induction s) (auto split: list.splits)

lemma splitOn_no_sep: "p \<in> set (splitOn c s) \<Longrightarrow> c \<notin> set p"
proof (induction s arbitrary: p)
  case Nil
  then show ?case by simp
next
  case (Cons x xs)
  obtain q qs where q: "splitOn c xs = q # qs" by (meson neq_Nil_conv splitOn_ne)
  with Cons show ?case by (auto split: if_splits)
qed

lemma splitOn_no_sep_id: "c \<notin> set s \<Longrightarrow> splitOn c s = [s]"
  by (induction s) auto

lemma splitOn_append_sep: "c \<notin> set p \<Longrightarrow> splitOn c (p @ c # s) = p # splitOn c s"
  by (induction p) auto

lemma splitOn_joinWith:
  "ps \<noteq> [] \<Longrightarrow> (\<And>p. p \<in> set ps \<Longrightarrow> c \<notin> set p) \<Longrightarrow> splitOn c (joinWith c ps) = ps"
  by (induction c ps rule: joinWith.induct) (auto simp: splitOn_no_sep_id splitOn_append_sep)

lemma joinWith_splitOn: "joinWith c (splitOn c s) = s"
proof (induction s)
  case Nil
  then show ?case by simp
next
  case (Cons x xs)
  obtain q qs where q: "splitOn c xs = q # qs" by (meson neq_Nil_conv splitOn_ne)
  with Cons show ?case by (cases qs) auto
qed

lemma hasControl_iff_ascii:
  "\<exists>c \<in> set s. (of_char c :: nat) < 32 \<or> (of_char c :: nat) = 127 \<Longrightarrow> hasControl s"
  by (induction s rule: hasControl.induct) auto

section \<open>Integers to text\<close>

text \<open>\<open>strconv.FormatInt\<close>; \<open>strconv.Itoa\<close> is base 10.\<close>

definition digitChar :: "nat \<Rightarrow> char" where
  "digitChar d = char_of (if d < 10 then 48 + d else 87 + d)"

fun formatNat :: "nat \<Rightarrow> nat \<Rightarrow> string" where
  "formatNat b n = (if n < b \<or> b < 2 then [digitChar n] else formatNat b (n div b) @ [digitChar (n mod b)])"

declare formatNat.simps [simp del]

definition formatInt :: "int \<Rightarrow> nat \<Rightarrow> string" where
  "formatInt i b = (if i < 0 then CHR ''-'' # formatNat b (nat (- i)) else formatNat b (nat i))"

abbreviation itoa :: "int \<Rightarrow> string" where
  "itoa i \<equiv> formatInt i 10"

lemma formatNat_length:
  assumes "2 \<le> b" shows "n < b ^ Suc k \<Longrightarrow> length (formatNat b n) \<le> Suc k"
proof (induction k arbitrary: n)
  case 0
  then show ?case by (simp add: formatNat.simps [of b n])
next
  case (Suc k)
  have "n div b < b ^ Suc k"
    using Suc.prems by (metis less_mult_imp_div_less mult.commute power_Suc)
  then show ?case using Suc.IH by (simp add: formatNat.simps [of b n])
qed

end
