(* ===== verification/Kube_Types.thy ===== *)
theory Kube_Types
  imports Go_Strings
begin

text \<open>
  The Kubernetes objects the operator reads and writes, with the fields the source uses. They are
  the data types of \<open>k8s.io/api\<close> and \<open>sigs.k8s.io/gateway-api\<close>; no behaviour is defined here.
  A time is its nanoseconds since the Unix epoch, a duration its nanoseconds, a resource quantity
  its amount in nano-units.
\<close>

type_synonym time = int
type_synonym duration = int
type_synonym quantity = int

definition second :: duration where "second = 1000000000"
definition minute :: duration where "minute = 60 * second"
definition hour :: duration where "hour = 60 * minute"

lemmas duration_defs = second_def minute_def hour_def

text \<open>\<open>metav1.Time.Unix()\<close>: whole seconds since the epoch.\<close>

definition unix :: "time \<Rightarrow> int" where
  "unix t = t div second"

text \<open>A \<open>time.Duration\<close> is an \<open>int64\<close>: sums and products that may leave the range wrap.\<close>

definition wrap64 :: "int \<Rightarrow> int" where
  "wrap64 x = signed_take_bit 63 x"

lemma wrap64_id: "- (2 ^ 63) \<le> x \<Longrightarrow> x < 2 ^ 63 \<Longrightarrow> wrap64 x = x"
  by (simp add: wrap64_def signed_take_bit_int_eq_self)

section \<open>Metadata and conditions\<close>

text \<open>
  \<open>om_deletion\<close> is the deletion timestamp (\<open>IsZero\<close> is \<open>None\<close>); \<open>om_controller\<close> is the UID of the
  controlling owner reference, when there is one.
\<close>

record object_meta =
  om_name :: string
  om_namespace :: string
  om_uid :: string
  om_generation :: int
  om_creation :: time
  om_deletion :: "time option"
  om_labels :: smap
  om_annotations :: smap
  om_finalizers :: "string list"
  om_controller :: "string option"

definition new_meta :: "string \<Rightarrow> string \<Rightarrow> object_meta" where
  "new_meta name ns = \<lparr>om_name = name, om_namespace = ns, om_uid = [], om_generation = 0,
     om_creation = 0, om_deletion = None, om_labels = Map.empty, om_annotations = Map.empty,
     om_finalizers = [], om_controller = None\<rparr>"

abbreviation is_deleting :: "object_meta \<Rightarrow> bool" where
  "is_deleting m \<equiv> om_deletion m \<noteq> None"

datatype cond_status = CondTrue | CondFalse | CondUnknown

record condition =
  cond_type :: string
  cond_status :: cond_status
  cond_reason :: string
  cond_message :: msg
  cond_obsgen :: int
  cond_transition :: time

definition new_condition :: "string \<Rightarrow> cond_status \<Rightarrow> string \<Rightarrow> msg \<Rightarrow> int \<Rightarrow> condition" where
  "new_condition t s r m g = \<lparr>cond_type = t, cond_status = s, cond_reason = r, cond_message = m,
     cond_obsgen = g, cond_transition = 0\<rparr>"

section \<open>Pods\<close>

datatype protocol = ProtoUnset | TCP | UDP | OtherProto string

record env_var =
  ev_name :: string
  ev_value :: string
  ev_secret :: "(string \<times> string) option" \<comment> \<open>name of the Secret and key, when the value comes from one\<close>

record volume_mount =
  vm_name :: string
  vm_path :: string
  vm_readonly :: bool

datatype volume_source = VolPVC string | VolSecret string | VolEmptyDir

record security_context =
  sc_privilege_escalation :: "bool option"
  sc_run_as_user :: "int option"
  sc_run_as_group :: "int option"
  sc_run_as_nonroot :: "bool option"
  sc_drop_capabilities :: "string list"

record resources =
  rs_requests :: "(string \<times> quantity) list"
  rs_limits :: "(string \<times> quantity) list"

record container_port =
  cp_name :: string
  cp_port :: int
  cp_protocol :: protocol

record container =
  ct_name :: string
  ct_image :: string
  ct_command :: "string list"
  ct_args :: "string list"
  ct_workdir :: string
  ct_env :: "env_var list"
  ct_mounts :: "volume_mount list"
  ct_security :: "security_context option"
  ct_resources :: resources
  ct_ports :: "container_port list"
  ct_prestop :: "string list option" \<comment> \<open>the command of the preStop hook\<close>
  ct_stdin :: bool

definition no_resources :: resources where
  "no_resources = \<lparr>rs_requests = [], rs_limits = []\<rparr>"

definition new_container :: "string \<Rightarrow> string \<Rightarrow> container" where
  "new_container name img = \<lparr>ct_name = name, ct_image = img, ct_command = [], ct_args = [], ct_workdir = [],
     ct_env = [], ct_mounts = [], ct_security = None, ct_resources = no_resources, ct_ports = [],
     ct_prestop = None, ct_stdin = False\<rparr>"

record terminated =
  tm_exit :: int
  tm_reason :: string
  tm_finished :: time

record container_status =
  cs_name :: string
  cs_running :: "time option" \<comment> \<open>the \<open>startedAt\<close> of a running container\<close>
  cs_terminated :: "terminated option"

datatype pod_phase = PodPhaseUnset | PodPending | PodRunning | PodSucceeded | PodFailed | PodUnknown

type_synonym node_affinity = string

record pod_spec =
  ps_init :: "container list"
  ps_containers :: "container list"
  ps_volumes :: "(string \<times> volume_source) list"
  ps_grace :: "int option"
  ps_automount :: "bool option"
  ps_fsgroup :: "int option"
  ps_seccomp_default :: bool
  ps_affinity :: "node_affinity option"
  ps_restart_never :: bool

record pod =
  pod_meta :: object_meta
  pod_spec :: pod_spec
  pod_phase :: pod_phase
  pod_containers :: "container_status list"
  pod_inits :: "container_status list"

section \<open>Jobs, volumes, secrets and the rest\<close>

datatype job_cond_type = JobComplete | JobFailed | OtherJobCond

record job =
  job_meta :: object_meta
  job_pod :: pod_spec
  job_backoff_limit :: "int option"
  job_succeeded :: int
  job_failed :: int
  job_conditions :: "(job_cond_type \<times> cond_status) list"

record pvc =
  pvc_meta :: object_meta
  pvc_size :: quantity
  pvc_class :: "string option"
  pvc_volume :: string \<comment> \<open>\<open>spec.volumeName\<close>, empty while unbound\<close>

record pv =
  pv_meta :: object_meta
  pv_affinity :: "node_affinity option" \<comment> \<open>\<open>spec.nodeAffinity.required\<close>\<close>

record secret =
  sec_meta :: object_meta
  sec_data :: smap

record configmap =
  cm_meta :: object_meta
  cm_data :: smap

record service_port =
  sp_name :: string
  sp_port :: int
  sp_target :: int
  sp_protocol :: protocol

record service =
  svc_meta :: object_meta
  svc_selector :: smap
  svc_ports :: "service_port list"

record namespace =
  ns_meta :: object_meta

datatype policy_type = Ingress | Egress

datatype np_peer =
    PodPeer smap
  | NamespacePeer smap
  | IPBlockPeer string "string list"

record np_rule =
  npr_peers :: "np_peer list"
  npr_ports :: "(protocol \<times> int) list"

record np_spec =
  np_selector :: smap
  np_types :: "policy_type list"
  np_ingress :: "np_rule list"
  np_egress :: "np_rule list"

record netpol =
  np_meta :: object_meta
  np_spec :: np_spec

record rolebinding =
  rb_meta :: object_meta
  rb_role :: string
  rb_subjects :: "(string \<times> string) list" \<comment> \<open>service accounts: name and namespace\<close>

record resource_quota =
  rq_meta :: object_meta
  rq_hard :: "(string \<times> quantity) list"

record limit_range =
  lr_meta :: object_meta
  lr_default_request :: "(string \<times> quantity) list"
  lr_default :: "(string \<times> quantity) list"

record route =
  rt_meta :: object_meta
  rt_gateway :: "string \<times> string" \<comment> \<open>name and namespace of the parent Gateway\<close>
  rt_section :: string
  rt_backend :: "string \<times> int"

record listener =
  ls_name :: string
  ls_port :: int
  ls_protocol :: protocol

record gateway =
  gw_meta :: object_meta
  gw_class :: string
  gw_listeners :: "listener list"

end
