(* ===== verification/Api_Types.thy ===== *)
theory Api_Types
  imports Kube_Types
begin

text \<open>
  The custom resources of \<open>api/v1alpha1\<close>: Egg, GameServer, GameServerBackup, GameServerRestore,
  GameServerSchedule and Tenant. One record per struct, one datatype per string enumeration, with
  the zero value of the enumeration (the field is unset) as a constructor where the code can see
  it. Pointers to optional values are \<open>option\<close>.
\<close>

section \<open>Eggs\<close>

record egg_variable =
  ev_var_name :: string
  ev_default :: string
  ev_required :: bool
  ev_user_editable :: bool
  ev_validation_regex :: string

record egg_port =
  ep_name :: string
  ep_container_port :: int
  ep_protocol :: protocol
  ep_default :: bool

record egg_install =
  ei_image :: string
  ei_entrypoint :: "string list"
  ei_script :: string

record egg_image =
  img_name :: string
  img_image :: string

record egg_startup_detection =
  sd_regex :: string
  sd_timeout_seconds :: "int option"

record egg_backup =
  eb_before :: "string list"
  eb_after :: "string list"
  eb_saved_regex :: string
  eb_timeout_seconds :: "int option"
  eb_delay_seconds :: "int option"

definition Timeout :: "egg_backup \<Rightarrow> duration" where
  "Timeout b = (case eb_timeout_seconds b of None \<Rightarrow> 60 * second | Some s \<Rightarrow> s * second)"

definition Delay :: "egg_backup \<Rightarrow> duration" where
  "Delay b = (case eb_delay_seconds b of None \<Rightarrow> 10 * second | Some s \<Rightarrow> s * second)"

definition empty_egg_backup :: egg_backup where
  "empty_egg_backup = \<lparr>eb_before = [], eb_after = [], eb_saved_regex = [],
     eb_timeout_seconds = None, eb_delay_seconds = None\<rparr>"

record egg_configure =
  ec_image :: string
  ec_entrypoint :: "string list"
  ec_script :: string

datatype egg_mods_kind = EggModsPlugin | EggModsMod | OtherModsKind string

definition KnownModLoaders :: "string list" where
  "KnownModLoaders = [''paper'', ''purpur'', ''spigot'', ''bukkit'', ''folia'', ''fabric'', ''quilt'',
     ''forge'', ''neoforge'']"

record egg_mods =
  em_kind :: egg_mods_kind
  em_loaders :: "string list"
  em_directory :: string
  em_version_variable :: string
  em_version_file :: string

datatype egg_query_protocol = EggQueryMinecraft | EggQueryA2S | OtherQuery string

record egg_query =
  eq_protocol :: egg_query_protocol
  eq_port :: string

record egg_spec =
  es_images :: "egg_image list"
  es_start_command :: string
  es_stop_command :: string
  es_console_input :: string
  es_stop_signal :: string
  es_install :: "egg_install option"
  es_variables :: "egg_variable list"
  es_ports :: "egg_port list"
  es_stop_timeout :: "int option"
  es_startup_detection :: "egg_startup_detection option"
  es_configure :: "egg_configure option"
  es_mods :: "egg_mods option"
  es_backup :: "egg_backup option"
  es_run_as_user :: "int option"
  es_query :: "egg_query option"

record egg =
  egg_meta :: object_meta
  egg_spec :: egg_spec

section \<open>GameServers\<close>

definition GameServerFinalizer :: string where
  "GameServerFinalizer = ''gameservers.hatchery.io/finalizer''"
definition RestartAnnotation :: string where
  "RestartAnnotation = ''gameservers.hatchery.io/restart-at''"
definition SpecHashAnnotation :: string where
  "SpecHashAnnotation = ''gameservers.hatchery.io/spec-hash''"
definition FilesChangedAnnotation :: string where
  "FilesChangedAnnotation = ''gameservers.hatchery.io/files-changed-at''"
definition ConditionRestartRequired :: string where
  "ConditionRestartRequired = ''RestartRequired''"
definition ConditionReady :: string where
  "ConditionReady = ''Ready''"
definition ConditionPublicExposureReady :: string where
  "ConditionPublicExposureReady = ''PublicExposureReady''"
definition ConditionCrashed :: string where
  "ConditionCrashed = ''Crashed''"

lemmas annotation_defs = RestartAnnotation_def SpecHashAnnotation_def FilesChangedAnnotation_def
lemmas condition_type_defs = ConditionRestartRequired_def ConditionReady_def
  ConditionPublicExposureReady_def ConditionCrashed_def

datatype gs_state = StateUnset | StateRunning | StateStopped

datatype egg_scope = ScopeUnset | ScopeNamespace | ScopeCatalog

record egg_ref =
  er_name :: string
  er_scope :: egg_scope

record gs_variable =
  gv_name :: string
  gv_value :: string

record extra_port =
  xp_name :: string
  xp_port :: int
  xp_protocol :: protocol

record exposure_port =
  xs_name :: string
  xs_port :: int

record exposure_status =
  ex_host :: string
  ex_ports :: "exposure_port list"

definition no_exposure :: exposure_status where
  "no_exposure = \<lparr>ex_host = [], ex_ports = []\<rparr>"

record gs_storage =
  st_size :: string
  st_class :: "string option"

record backup_target =
  bt_connection :: string
  bt_bucket :: string
  bt_prefix :: string

record gs_spec =
  gss_egg_ref :: egg_ref
  gss_state :: gs_state
  gss_display_name :: string
  gss_install_revision :: int
  gss_suspended :: bool
  gss_suspend_reason :: string
  gss_start_command :: string
  gss_auto_restart :: "bool option"
  gss_backup_target :: "backup_target option"
  gss_extra_ports :: "extra_port list"
  gss_exposure_enabled :: bool
  gss_image_name :: string
  gss_variables :: "gs_variable list"
  gss_resources :: resources
  gss_storage :: gs_storage

datatype gs_phase = PhaseUnset | PhasePending | PhaseInstalling | PhaseStarting | PhaseSuspended
  | PhaseRunning | PhaseStopping | PhaseStopped | PhaseFailed | PhaseCrashed

record gs_crash =
  cr_at :: time
  cr_exit_code :: int
  cr_reason :: string
  cr_oom_killed :: bool

record gs_status =
  gst_phase :: gs_phase
  gst_pod_name :: string
  gst_observed_generation :: int
  gst_exposure :: exposure_status
  gst_recent_crashes :: "time list"
  gst_last_crash :: "gs_crash option"
  gst_conditions :: "condition list"

record gameserver =
  gs_meta :: object_meta
  gs_spec :: gs_spec
  gs_status :: gs_status

definition CatalogNamespace :: string where
  "CatalogNamespace = ''hatchery-catalog''"

definition EggNamespace :: "gameserver \<Rightarrow> string" where
  "EggNamespace g = (if er_scope (gss_egg_ref (gs_spec g)) = ScopeCatalog then CatalogNamespace
                     else om_namespace (gs_meta g))"

text \<open>Unset means on.\<close>

definition AutoRestartEnabled :: "gameserver \<Rightarrow> bool" where
  "AutoRestartEnabled g = (case gss_auto_restart (gs_spec g) of None \<Rightarrow> True | Some b \<Rightarrow> b)"

definition CrashLogConfigMapName :: "string \<Rightarrow> string" where
  "CrashLogConfigMapName gameServer = gameServer @ ''-crash-log''"

section \<open>Backups\<close>

definition BackupExpiresAtAnnotation :: string where
  "BackupExpiresAtAnnotation = ''gameservers.hatchery.io/expires-at''"
definition BackupGameServerLabel :: string where
  "BackupGameServerLabel = ''gameservers.hatchery.io/gameserver''"
definition BackupDestinationLabel :: string where
  "BackupDestinationLabel = ''gameservers.hatchery.io/backup-destination''"
definition GameServerBackupFinalizer :: string where
  "GameServerBackupFinalizer = ''gameservers.hatchery.io/backup-finalizer''"

record s3_destination =
  s3_endpoint :: string
  s3_bucket :: string
  s3_prefix :: string
  s3_secret :: string

record backup_spec =
  bks_gameserver :: string
  bks_s3 :: s3_destination

datatype backup_phase = BkUnset | BkPending | BkRunning | BkCompleted | BkFailed | BkDeleting

definition BackupConditionQuiesced :: string where "BackupConditionQuiesced = ''Quiesced''"
definition BackupConditionResumed :: string where "BackupConditionResumed = ''Resumed''"
definition QuiesceReasonSaved :: string where "QuiesceReasonSaved = ''Saved''"
definition QuiesceReasonDelay :: string where "QuiesceReasonDelay = ''Delay''"
definition QuiesceReasonTimeout :: string where "QuiesceReasonTimeout = ''Timeout''"
definition QuiesceReasonSendFailed :: string where "QuiesceReasonSendFailed = ''SendFailed''"
definition ResumeReasonSent :: string where "ResumeReasonSent = ''Sent''"
definition ResumeReasonPodReplaced :: string where "ResumeReasonPodReplaced = ''PodReplaced''"
definition ResumeReasonNothingToSend :: string where "ResumeReasonNothingToSend = ''NothingToSend''"

lemmas quiesce_reason_defs = QuiesceReasonSaved_def QuiesceReasonDelay_def QuiesceReasonTimeout_def
  QuiesceReasonSendFailed_def ResumeReasonSent_def ResumeReasonPodReplaced_def
  ResumeReasonNothingToSend_def

record quiesce_status =
  qs_pod_uid :: string
  qs_before_sent_at :: "time option"
  qs_resumed_at :: "time option"
  qs_resume_attempts :: int

record backup_status =
  bst_phase :: backup_phase
  bst_job_name :: string
  bst_start :: "time option"
  bst_completion :: "time option"
  bst_quiesce :: "quiesce_status option"
  bst_conditions :: "condition list"

record backup =
  bk_meta :: object_meta
  bk_spec :: backup_spec
  bk_status :: backup_status

section \<open>Restores\<close>

definition GameServerRestoreFinalizer :: string where
  "GameServerRestoreFinalizer = ''gameservers.hatchery.io/restore-finalizer''"
definition RestoringAnnotation :: string where
  "RestoringAnnotation = ''gameservers.hatchery.io/restoring''"

record restore_spec =
  rss_gameserver :: string
  rss_backup :: string

datatype restore_phase = RsUnset | RsPending | RsRunning | RsCompleted | RsFailed

record restore_status =
  rst_phase :: restore_phase
  rst_job_name :: string
  rst_start :: "time option"
  rst_completion :: "time option"

record restore =
  rs_meta :: object_meta
  rs_spec :: restore_spec
  rs_status :: restore_status

section \<open>Schedules\<close>

definition ScheduleLabel :: string where
  "ScheduleLabel = ''gameservers.hatchery.io/schedule''"
definition ScheduleRunAnnotation :: string where
  "ScheduleRunAnnotation = ''gameservers.hatchery.io/schedule-run''"
definition RunNowAnnotation :: string where
  "RunNowAnnotation = ''gameservers.hatchery.io/run-now''"

datatype schedule_action = ActCommand | ActRestart | ActStart | ActStop | ActBackup | OtherAction string

record schedule_task =
  tk_action :: schedule_action
  tk_command :: string
  tk_delay_seconds :: int
  tk_keep_last :: int

record schedule_spec =
  scs_gameserver :: string
  scs_display_name :: string
  scs_cron :: string
  scs_time_zone :: string
  scs_suspend :: bool
  scs_only_when_running :: bool
  scs_tasks :: "schedule_task list"

datatype run_result = RunSucceeded | RunFailed | RunSkipped

record schedule_run =
  sr_started :: time
  sr_finished :: "time option"
  sr_result :: run_result
  sr_message :: msg

record active_run =
  ar_id :: string
  ar_started :: time
  ar_task_index :: nat
  ar_next_task_at :: time

record schedule_status =
  sst_next :: "time option"
  sst_last :: "time option"
  sst_last_run :: "schedule_run option"
  sst_active :: "active_run option"
  sst_last_run_now :: string
  sst_conditions :: "condition list"

record schedule =
  sch_meta :: object_meta
  sch_spec :: schedule_spec
  sch_status :: schedule_status

section \<open>Tenants\<close>

definition TenantFinalizer :: string where
  "TenantFinalizer = ''gameservers.hatchery.io/tenant-finalizer''"
definition TenantNamespacePrefix :: string where
  "TenantNamespacePrefix = ''hatchery-''"
definition LabelTenant :: string where
  "LabelTenant = ''gameservers.hatchery.io/tenant''"

definition TenantNamespace :: "string \<Rightarrow> string" where
  "TenantNamespace name = TenantNamespacePrefix @ name"

record tenant_backup_quota =
  tb_max_per_server :: int
  tb_max_per_org :: int
  tb_retention_days :: int

record tenant_quota =
  tq_cpu :: quantity
  tq_memory :: quantity
  tq_storage :: quantity
  tq_max_gameservers :: int
  tq_backups :: "tenant_backup_quota option"
  tq_extra_registries :: "string list"
  tq_audit_days :: "int option"

datatype tenant_phase = TnUnset | TnPending | TnActive | TnTerminating | TnFailed

record tenant_status =
  tst_phase :: tenant_phase
  tst_namespace :: string
  tst_observed_generation :: int
  tst_conditions :: "condition list"

record tenant =
  tn_meta :: object_meta
  tn_display_name :: string
  tn_quota :: tenant_quota
  tn_status :: tenant_status

section \<open>Labels\<close>

definition LabelManagedBy :: string where
  "LabelManagedBy = ''app.kubernetes.io/managed-by''"
definition LabelGameServer :: string where
  "LabelGameServer = ''gameservers.hatchery.io/gameserver''"
definition ManagedByValue :: string where
  "ManagedByValue = ''hatchery''"
definition ModpackEggLabel :: string where
  "ModpackEggLabel = ''gameservers.hatchery.io/modpack-egg''"

definition GameServerLabels :: "string \<Rightarrow> smap" where
  "GameServerLabels name = [LabelManagedBy \<mapsto> ManagedByValue, LabelGameServer \<mapsto> name]"

definition IsModpack :: "egg \<Rightarrow> bool" where
  "IsModpack e \<longleftrightarrow> sget (om_labels (egg_meta e)) ModpackEggLabel = ''true''"

text \<open>Two tenants never share a namespace.\<close>

lemma TenantNamespace_inj: "TenantNamespace a = TenantNamespace b \<Longrightarrow> a = b"
  by (simp add: TenantNamespace_def)

end
