(* ===== verification/Kube_Client.thy ===== *)
theory Kube_Client
  imports Api_Types
begin

text \<open>
  The code the operator calls and that is not part of the repository, as parameters of the model:
  the typed API client of controller-runtime, the helper functions of the Kubernetes libraries,
  the clock, the random source, \<open>pods/exec\<close>, \<open>pods/log\<close> and the Prometheus counters. A
  controller takes one record \<open>k8s\<close> of such functions. Nothing is assumed of them by the
  definitions; what a property relies on is stated as a locale's laws, and the locales are
  interpreted here on concrete functions that behave as the libraries' documentation says.
\<close>

section \<open>The typed client\<close>

text \<open>
  One bundle per kind. Every call may change the world and may fail; a write returns the object as
  the API server answers it, which is what the Go client stores back into its argument.
  \<open>r_list\<close> takes an optional namespace and the labels to match. \<open>r_patch\<close> and
  \<open>r_status_patch\<close> take the original and the modified object (\<open>client.MergeFrom\<close>).
  \<open>r_ensure\<close> is \<open>controllerutil.CreateOrUpdate\<close>: it passes the stored object (or the given
  one) to the mutate function and writes the result.
\<close>

record ('o, 'w) rest =
  r_get :: "string \<Rightarrow> string \<Rightarrow> ('w, 'o) io"
  r_list :: "string option \<Rightarrow> (string \<times> string) list \<Rightarrow> ('w, 'o list) io"
  r_create :: "'o \<Rightarrow> ('w, 'o) io"
  r_update :: "'o \<Rightarrow> ('w, 'o) io"
  r_status_update :: "'o \<Rightarrow> ('w, 'o) io"
  r_patch :: "'o \<Rightarrow> 'o \<Rightarrow> ('w, 'o) io"
  r_status_patch :: "'o \<Rightarrow> 'o \<Rightarrow> ('w, 'o) io"
  r_delete :: "'o \<Rightarrow> ('w, unit) io"
  r_ensure :: "'o \<Rightarrow> ('o \<Rightarrow> go_err + 'o) \<Rightarrow> ('w, unit) io"

section \<open>Library functions\<close>

text \<open>
  \<open>lib_set_condition\<close> is \<open>meta.SetStatusCondition\<close> (it reads the clock for the transition
  time); \<open>lib_set_controller owner m\<close> is \<open>SetControllerReference\<close>; \<open>lib_regex\<close> is
  \<open>regexp.Compile\<close> followed by \<open>MatchString\<close>, \<open>None\<close> when the pattern does not compile.
  \<open>lib_cron spec zone\<close> is the cron parser with the zone it runs in: the error, or the function
  from a time to the next fire time.
\<close>

record klib =
  lib_contains_finalizer :: "object_meta \<Rightarrow> string \<Rightarrow> bool"
  lib_add_finalizer :: "object_meta \<Rightarrow> string \<Rightarrow> object_meta"
  lib_remove_finalizer :: "object_meta \<Rightarrow> string \<Rightarrow> object_meta"
  lib_set_controller :: "object_meta \<Rightarrow> object_meta \<Rightarrow> go_err + object_meta"
  lib_is_controlled_by :: "object_meta \<Rightarrow> object_meta \<Rightarrow> bool"
  lib_set_condition :: "time \<Rightarrow> condition list \<Rightarrow> condition \<Rightarrow> condition list \<times> bool"
  lib_find_condition :: "condition list \<Rightarrow> string \<Rightarrow> condition option"
  lib_parse_quantity :: "string \<Rightarrow> quantity option"
  lib_regex :: "string \<Rightarrow> (string \<Rightarrow> bool) option"
  lib_time_zone :: "string \<Rightarrow> bool" \<comment> \<open>\<open>time.LoadLocation\<close> knows the name\<close>
  lib_ref_date :: "string \<Rightarrow> time" \<comment> \<open>\<open>time.Date(2026, 1, 1, 0, 0, 0, 0, loc)\<close>\<close>
  lib_cron :: "string \<Rightarrow> string \<Rightarrow> (time \<Rightarrow> time) option"
  lib_format_time :: "time \<Rightarrow> string" \<comment> \<open>\<open>UTC().Format(time.RFC3339)\<close>\<close>
  lib_format_nanos :: "time \<Rightarrow> string" \<comment> \<open>\<open>UTC().Format(time.RFC3339Nano)\<close>\<close>
  lib_parse_time :: "string \<Rightarrow> time option"
  lib_json_strings :: "string \<Rightarrow> string list" \<comment> \<open>\<open>json.Unmarshal\<close> into a \<open>[]string\<close>, empty on error\<close>
  lib_spec_hash :: "gs_variable list \<times> resources \<times> string \<times> string \<times> string \<Rightarrow> string"

record 'w k8s =
  k_lib :: klib
  k_now :: "'w \<Rightarrow> time"
  k_random :: "nat \<Rightarrow> ('w, string) io" \<comment> \<open>random bytes, encoded\<close>
  k_metric :: "string \<Rightarrow> string list \<Rightarrow> int \<Rightarrow> 'w \<Rightarrow> 'w" \<comment> \<open>metric, labels, value (1 for a counter)\<close>
  k_exec :: "string \<Rightarrow> string \<Rightarrow> string \<Rightarrow> string list \<Rightarrow> ('w, unit) io"
  k_tail_logs :: "string \<Rightarrow> string \<Rightarrow> string \<Rightarrow> int \<Rightarrow> ('w, string) io"
  k_logs_since :: "string \<Rightarrow> string \<Rightarrow> string \<Rightarrow> time \<Rightarrow> ('w, string) io"
  k_gs :: "(gameserver, 'w) rest"
  k_egg :: "(egg, 'w) rest"
  k_pod :: "(pod, 'w) rest"
  k_svc :: "(service, 'w) rest"
  k_pvc :: "(pvc, 'w) rest"
  k_pv :: "(pv, 'w) rest"
  k_secret :: "(secret, 'w) rest"
  k_cm :: "(configmap, 'w) rest"
  k_np :: "(netpol, 'w) rest"
  k_ns :: "(namespace, 'w) rest"
  k_backup :: "(backup, 'w) rest"
  k_restore :: "(restore, 'w) rest"
  k_job :: "(job, 'w) rest"
  k_sched :: "(schedule, 'w) rest"
  k_tenant :: "(tenant, 'w) rest"
  k_rb :: "(rolebinding, 'w) rest"
  k_rq :: "(resource_quota, 'w) rest"
  k_lr :: "(limit_range, 'w) rest"
  k_tcp :: "(route, 'w) rest"
  k_udp :: "(route, 'w) rest"
  k_gw :: "(gateway, 'w) rest"

text \<open>
  \<open>found_or_none\<close> is the shape \<open>err := Get(...); if err != nil && !IsNotFound(err) { return err }\<close>.
\<close>

definition found_or_none :: "('w, 'o) io \<Rightarrow> ('w, 'o option) io" where
  "found_or_none m = bindE (attempt m) (\<lambda>r. case r of
     Inl e \<Rightarrow> if is_not_found e then ret None else throw e
   | Inr x \<Rightarrow> ret (Some x))"

lemma found_or_none_run:
  "found_or_none m w = (case m w of
     (Inl e, w') \<Rightarrow> if is_not_found e then (Inr None, w') else (Inl e, w')
   | (Inr x, w') \<Rightarrow> (Inr (Some x), w'))"
  by (simp add: found_or_none_def io_defs split: prod.splits sum.splits)

lemma hoare_found_or_none [hoare_rules]:
  assumes "hoare P m (\<lambda>x. Q (Some x)) (\<lambda>e w. if is_not_found e then Q None w else E e w)"
  shows "hoare P (found_or_none m) Q E"
  using assms
  by (fastforce simp: hoare_def found_or_none_run split: prod.splits sum.splits if_splits)

section \<open>Contracts of the library functions\<close>

text \<open>Finalizers: membership after adding and removing, nothing else of the metadata changes.\<close>

locale finalizer_lib =
  fixes contains :: "object_meta \<Rightarrow> string \<Rightarrow> bool"
    and add :: "object_meta \<Rightarrow> string \<Rightarrow> object_meta"
    and remove :: "object_meta \<Rightarrow> string \<Rightarrow> object_meta"
  assumes contains_add: "contains (add m f) g \<longleftrightarrow> g = f \<or> contains m g"
    and contains_remove: "contains (remove m f) g \<longleftrightarrow> g \<noteq> f \<and> contains m g"
    and add_frame: "om_annotations (add m f) = om_annotations m \<and> om_deletion (add m f) = om_deletion m"
    and remove_frame: "om_annotations (remove m f) = om_annotations m \<and> om_deletion (remove m f) = om_deletion m"
begin

lemma remove_add: "contains (remove (add m f) f) g \<longleftrightarrow> g \<noteq> f \<and> contains m g"
  by (auto simp: contains_add contains_remove)

end

text \<open>
  Conditions: after setting one, looking its type up gives its status and reason, other types are
  untouched, and the change flag is down only when the stored condition already agreed.
\<close>

locale condition_lib =
  fixes set_condition :: "time \<Rightarrow> condition list \<Rightarrow> condition \<Rightarrow> condition list \<times> bool"
    and find_condition :: "condition list \<Rightarrow> string \<Rightarrow> condition option"
  assumes find_set_other:
      "t \<noteq> cond_type c \<Longrightarrow> find_condition (fst (set_condition now cs c)) t = find_condition cs t"
    and find_set_same:
      "\<exists>c'. find_condition (fst (set_condition now cs c)) (cond_type c) = Some c' \<and>
            cond_status c' = cond_status c \<and> cond_reason c' = cond_reason c"
    and unchanged:
      "\<not> snd (set_condition now cs c) \<Longrightarrow> fst (set_condition now cs c) = cs"
begin

definition status_of :: "condition list \<Rightarrow> string \<Rightarrow> (cond_status \<times> string) option" where
  "status_of cs t = map_option (\<lambda>c. (cond_status c, cond_reason c)) (find_condition cs t)"

lemma status_of_set:
  "status_of (fst (set_condition now cs c)) t =
     (if t = cond_type c then Some (cond_status c, cond_reason c) else status_of cs t)"
  using find_set_same [of now cs c] find_set_other [of t c now cs]
  by (auto simp: status_of_def)

lemma unchanged_status:
  assumes "\<not> snd (set_condition now cs c)"
  shows "status_of cs (cond_type c) = Some (cond_status c, cond_reason c)"
  using status_of_set [of now cs c "cond_type c"] unchanged [OF assms] by simp

end

text \<open>
  What else \<open>meta.SetStatusCondition\<close> promises: the stored condition equals the given one in all but
  its transition time, and setting an equal one changes nothing and says so.
\<close>

definition cond_same :: "condition \<Rightarrow> condition \<Rightarrow> bool" where
  "cond_same c d \<longleftrightarrow> cond_status c = cond_status d \<and> cond_reason c = cond_reason d \<and>
     cond_message c = cond_message d \<and> cond_obsgen c = cond_obsgen d"

locale condition_store = condition_lib +
  assumes find_set_full:
      "\<exists>d. find_condition (fst (set_condition now cs c)) (cond_type c) = Some d \<and> cond_same d c"
    and set_equal:
      "find_condition cs (cond_type c) = Some d \<Longrightarrow> cond_same d c \<Longrightarrow> set_condition now cs c = (cs, False)"
begin

text \<open>Setting two conditions of different types settles: the first one is still in place.\<close>

lemma set_again:
  assumes "find_condition cs' (cond_type c) = find_condition (fst (set_condition now cs c)) (cond_type c)"
  shows "set_condition now' cs' c = (cs', False)"
  using find_set_full [of now cs c] assms set_equal by metis

end

section \<open>The libraries as documented\<close>

definition std_contains_finalizer :: "object_meta \<Rightarrow> string \<Rightarrow> bool" where
  "std_contains_finalizer m f \<longleftrightarrow> List.member (om_finalizers m) f"

definition std_add_finalizer :: "object_meta \<Rightarrow> string \<Rightarrow> object_meta" where
  "std_add_finalizer m f = (if std_contains_finalizer m f then m else m\<lparr>om_finalizers := om_finalizers m @ [f]\<rparr>)"

definition std_remove_finalizer :: "object_meta \<Rightarrow> string \<Rightarrow> object_meta" where
  "std_remove_finalizer m f = m\<lparr>om_finalizers := filter (\<lambda>x. x \<noteq> f) (om_finalizers m)\<rparr>"

lemmas std_finalizer_defs = std_contains_finalizer_def std_add_finalizer_def std_remove_finalizer_def

interpretation std_fin: finalizer_lib std_contains_finalizer std_add_finalizer std_remove_finalizer
  by unfold_locales (auto simp: std_finalizer_defs)

fun std_find_condition :: "condition list \<Rightarrow> string \<Rightarrow> condition option" where
  "std_find_condition [] t = None"
| "std_find_condition (c # cs) t = (if cond_type c = t then Some c else std_find_condition cs t)"

text \<open>The transition time moves only when the status changes.\<close>

fun std_set_condition :: "time \<Rightarrow> condition list \<Rightarrow> condition \<Rightarrow> condition list \<times> bool" where
  "std_set_condition now [] c = ([c\<lparr>cond_transition := now\<rparr>], True)"
| "std_set_condition now (d # cs) c =
     (if cond_type d = cond_type c then
        (if cond_same d c then (d # cs, False)
         else (c\<lparr>cond_transition := (if cond_status d = cond_status c then cond_transition d else now)\<rparr> # cs, True))
      else (case std_set_condition now cs c of (cs', ch) \<Rightarrow> (d # cs', ch)))"

lemma std_find_set_other:
  "t \<noteq> cond_type c \<Longrightarrow> std_find_condition (fst (std_set_condition now cs c)) t = std_find_condition cs t"
  by (induction now cs c rule: std_set_condition.induct) (auto split: prod.splits)

lemma std_find_set_same:
  "\<exists>c'. std_find_condition (fst (std_set_condition now cs c)) (cond_type c) = Some c' \<and>
        cond_status c' = cond_status c \<and> cond_reason c' = cond_reason c"
  by (induction now cs c rule: std_set_condition.induct) (auto simp: cond_same_def split: prod.splits)

lemma std_set_unchanged:
  "\<not> snd (std_set_condition now cs c) \<Longrightarrow> fst (std_set_condition now cs c) = cs"
  by (induction now cs c rule: std_set_condition.induct) (auto split: prod.splits if_splits)

lemma std_find_set_full:
  "\<exists>d. std_find_condition (fst (std_set_condition now cs c)) (cond_type c) = Some d \<and> cond_same d c"
  by (induction now cs c rule: std_set_condition.induct) (auto simp: cond_same_def split: prod.splits)

lemma std_set_equal:
  "std_find_condition cs (cond_type c) = Some d \<Longrightarrow> cond_same d c \<Longrightarrow> std_set_condition now cs c = (cs, False)"
  by (induction now cs c rule: std_set_condition.induct) (auto split: if_splits)

interpretation std_cond: condition_store std_set_condition std_find_condition
  by unfold_locales
    (rule std_find_set_other std_find_set_same std_set_unchanged std_find_set_full std_set_equal; assumption?)+

definition std_is_controlled_by :: "object_meta \<Rightarrow> object_meta \<Rightarrow> bool" where
  "std_is_controlled_by m owner \<longleftrightarrow> om_controller m = Some (om_uid owner)"

definition std_set_controller :: "object_meta \<Rightarrow> object_meta \<Rightarrow> go_err + object_meta" where
  "std_set_controller owner m = (case om_controller m of
     None \<Rightarrow> Inr (m\<lparr>om_controller := Some (om_uid owner)\<rparr>)
   | Some u \<Rightarrow> if u = om_uid owner then Inr m
               else Inl (MsgErr (Msg ''already owned by another controller'' [])))"


text \<open>
  A client whose every call answers NotFound and changes nothing, and a library record built from
  the functions above: the base that the witnesses of the properties complete with the answers
  they need.
\<close>

definition absent_rest :: "('o, 'w) rest" where
  "absent_rest = \<lparr>r_get = (\<lambda>_ _. throw (ApiErr ENotFound)), r_list = (\<lambda>_ _. ret []),
     r_create = (\<lambda>_. throw (ApiErr ENotFound)), r_update = (\<lambda>_. throw (ApiErr ENotFound)),
     r_status_update = (\<lambda>_. throw (ApiErr ENotFound)), r_patch = (\<lambda>_ _. throw (ApiErr ENotFound)),
     r_status_patch = (\<lambda>_ _. throw (ApiErr ENotFound)), r_delete = (\<lambda>_. throw (ApiErr ENotFound)),
     r_ensure = (\<lambda>_ _. throw (ApiErr ENotFound))\<rparr>"

definition std_lib :: klib where
  "std_lib = \<lparr>lib_contains_finalizer = std_contains_finalizer, lib_add_finalizer = std_add_finalizer,
     lib_remove_finalizer = std_remove_finalizer, lib_set_controller = std_set_controller,
     lib_is_controlled_by = std_is_controlled_by, lib_set_condition = std_set_condition,
     lib_find_condition = std_find_condition, lib_parse_quantity = (\<lambda>_. Some 0),
     lib_regex = (\<lambda>p. Some (\<lambda>s. s = p)), lib_time_zone = (\<lambda>_. False), lib_ref_date = (\<lambda>_. 0),
     lib_cron = (\<lambda>_ _. None), lib_format_time = (\<lambda>_. ''t''), lib_format_nanos = (\<lambda>_. ''n''),
     lib_parse_time = (\<lambda>_. None),
     lib_json_strings = (\<lambda>_. []), lib_spec_hash = (\<lambda>_. ''h'')\<rparr>"

definition absent_k8s :: "'w k8s" where
  "absent_k8s = \<lparr>k_lib = std_lib, k_now = (\<lambda>_. 0), k_random = (\<lambda>_. ret ''r''), k_metric = (\<lambda>_ _ _ w. w),
     k_exec = (\<lambda>_ _ _ _. ret ()), k_tail_logs = (\<lambda>_ _ _ _. ret []), k_logs_since = (\<lambda>_ _ _ _. ret []),
     k_gs = absent_rest, k_egg = absent_rest, k_pod = absent_rest, k_svc = absent_rest,
     k_pvc = absent_rest, k_pv = absent_rest, k_secret = absent_rest, k_cm = absent_rest,
     k_np = absent_rest, k_ns = absent_rest, k_backup = absent_rest, k_restore = absent_rest,
     k_job = absent_rest, k_sched = absent_rest, k_tenant = absent_rest, k_rb = absent_rest,
     k_rq = absent_rest, k_lr = absent_rest, k_tcp = absent_rest, k_udp = absent_rest, k_gw = absent_rest\<rparr>"

end
