(* ===== verification/Egg_Validate.thy ===== *)
theory Egg_Validate
  imports Kube_Client
begin

text \<open>
  \<open>api/v1alpha1/egg_validate.go\<close> and \<open>consoleinput.go\<close>: the rules of an Egg's spec that the
  CRD schema cannot express, the query port, and where console lines are written. A validation
  returns its list of messages; the empty list is a valid spec.
\<close>

section \<open>Console input\<close>

definition DefaultConsoleInput :: string where
  "DefaultConsoleInput = ''/proc/1/fd/0''"

definition consolePathChar :: "char \<Rightarrow> bool" where
  "consolePathChar c \<longleftrightarrow> isUpperA c \<or> isLowerA c \<or> isDigit c \<or> c \<in> {CHR ''.'', CHR ''_'', CHR ''/'', CHR ''-''}"

text \<open>\<open>^/[A-Za-z0-9._/-]{1,255}$\<close>\<close>

definition consoleInputPattern :: "string \<Rightarrow> bool" where
  "consoleInputPattern s = (case s of [] \<Rightarrow> False
     | c # r \<Rightarrow> c = CHR ''/'' \<and> 1 \<le> length r \<and> length r \<le> 255 \<and> list_all consolePathChar r)"

definition ConsoleInputPath :: "egg_spec \<Rightarrow> string" where
  "ConsoleInputPath s = (if consoleInputPattern (es_console_input s) then es_console_input s
                         else DefaultConsoleInput)"

definition ConsoleWriteScript :: "string \<Rightarrow> string \<Rightarrow> string" where
  "ConsoleWriteScript target line =
     ''printf '' @ [CHR 0x27] @ ''%s'' @ [CHR 0x5C] @ ''n'' @ [CHR 0x27, CHR '' '', CHR 0x22] @ line @ [CHR 0x22]
     @ '' | dd of='' @ [CHR 0x22] @ target @ [CHR 0x22] @ '' conv=nocreat,notrunc status=none 2>/dev/null || printf ''
     @ [CHR 0x27] @ ''%s'' @ [CHR 0x5C] @ ''n'' @ [CHR 0x27, CHR '' '', CHR 0x22] @ line @ [CHR 0x22]
     @ '' > '' @ [CHR 0x22] @ target @ [CHR 0x22]"

definition ConsoleLineCommand :: "string \<Rightarrow> string \<Rightarrow> string list" where
  "ConsoleLineCommand path line = [''sh'', ''-c'', ConsoleWriteScript ''$1'' ''$2'', ''sh'', path, line]"

section \<open>Mods, backup and query rules\<close>

text \<open>Non-empty, relative, already clean and not escaping the base directory.\<close>

definition cleanRelative :: "string \<Rightarrow> bool" where
  "cleanRelative p \<longleftrightarrow> p \<noteq> [] \<and> p \<noteq> ''.'' \<and> \<not> hasPrefix p ''/'' \<and> pathClean p = p \<and> p \<noteq> ''..'' \<and>
     \<not> hasPrefix p ''../''"

definition validateMods :: "egg_spec \<Rightarrow> msg list" where
  "validateMods s = (case es_mods s of None \<Rightarrow> []
   | Some m \<Rightarrow>
       (if em_kind m \<noteq> EggModsPlugin \<and> em_kind m \<noteq> EggModsMod
        then [Msg ''mods.kind: must be %q or %q'' [AStr ''plugin'', AStr ''mod'']] else [])
     @ (if em_loaders m = [] then [Msg ''mods.loaders: at least one loader is required'' []] else [])
     @ map (\<lambda>l. Msg ''mods.loaders: unknown loader %q'' [AStr l])
         (filter (\<lambda>l. \<not> List.member KnownModLoaders l) (em_loaders m))
     @ (if \<not> cleanRelative (em_directory m)
        then [Msg ''mods.directory: must be a relative path inside the data directory'' []] else [])
     @ (if em_version_variable m \<noteq> [] \<and> \<not> list_ex (\<lambda>e. ev_var_name e = em_version_variable m) (es_variables s)
        then [Msg ''mods.gameVersion.variable: %q is not declared in variables'' [AStr (em_version_variable m)]]
        else [])
     @ (if em_version_file m \<noteq> [] \<and> \<not> cleanRelative (em_version_file m)
        then [Msg ''mods.gameVersion.file: must be a relative path inside the data directory'' []] else []))"

text \<open>The closure \<open>check\<close> of \<open>validateBackup\<close>: one line of 1 to 512 bytes.\<close>

fun checkCommands :: "string \<Rightarrow> int \<Rightarrow> string list \<Rightarrow> msg list" where
  "checkCommands field i [] = []"
| "checkCommands field i (c # cs) =
     (if c = [] \<or> 512 < length c \<or> hasControl c
      then [Msg ''backup.%s[%d] must be one line of 1 to 512 characters'' [AStr field, AInt i]] else [])
     @ checkCommands field (i + 1) cs"

definition validateBackup :: "klib \<Rightarrow> egg_spec \<Rightarrow> msg list" where
  "validateBackup L s = (case es_backup s of None \<Rightarrow> []
   | Some b \<Rightarrow> checkCommands ''before'' 0 (eb_before b) @ checkCommands ''after'' 0 (eb_after b)
     @ (if eb_saved_regex b \<noteq> [] \<and> lib_regex L (eb_saved_regex b) = None
        then [Msg ''backup.savedRegex: %v'' [AStr (eb_saved_regex b)]] else []))"

fun protocol_str :: "protocol \<Rightarrow> string" where
  "protocol_str ProtoUnset = []"
| "protocol_str TCP = ''TCP''"
| "protocol_str UDP = ''UDP''"
| "protocol_str (OtherProto s) = s"

fun query_protocol_str :: "egg_query_protocol \<Rightarrow> string" where
  "query_protocol_str EggQueryMinecraft = ''minecraft''"
| "query_protocol_str EggQueryA2S = ''a2s''"
| "query_protocol_str (OtherQuery s) = s"

definition queryProtocolTransport :: "egg_query_protocol \<Rightarrow> protocol option" where
  "queryProtocolTransport p = (case p of EggQueryMinecraft \<Rightarrow> Some TCP | EggQueryA2S \<Rightarrow> Some UDP
     | OtherQuery _ \<Rightarrow> None)"

text \<open>The port the query names (with its protocol defaulted) and the transport it needs, if known.\<close>

definition queryPort :: "egg_spec \<Rightarrow> egg_query \<Rightarrow> egg_port option \<times> protocol option" where
  "queryPort s q =
     (map_option (\<lambda>p. if ep_protocol p = ProtoUnset then p\<lparr>ep_protocol := TCP\<rparr> else p)
        (find (\<lambda>p. ep_name p = eq_port q) (es_ports s)),
      queryProtocolTransport (eq_protocol q))"

definition QueryPort :: "egg_spec \<Rightarrow> egg_port option" where
  "QueryPort s = (case es_query s of None \<Rightarrow> None
   | Some q \<Rightarrow> (case queryPort s q of (port, want) \<Rightarrow>
       (case port of None \<Rightarrow> None | Some p \<Rightarrow>
          (case want of None \<Rightarrow> None | Some t \<Rightarrow> if ep_protocol p = t then Some p else None))))"

definition validateQuery :: "egg_spec \<Rightarrow> msg list" where
  "validateQuery s = (case es_query s of None \<Rightarrow> []
   | Some q \<Rightarrow> (case queryPort s q of (port, want) \<Rightarrow>
       (case want of
          None \<Rightarrow> [Msg ''query.protocol: must be %q or %q'' [AStr ''minecraft'', AStr ''a2s'']]
        | Some t \<Rightarrow> (case port of
            None \<Rightarrow> [Msg ''query.port: %q is not declared in ports'' [AStr (eq_port q)]]
          | Some p \<Rightarrow> if ep_protocol p \<noteq> t
              then [Msg ''query.port: %q is %s, but %s needs %s'' [AStr (eq_port q), AStr (protocol_str (ep_protocol p)),
                     AStr (query_protocol_str (eq_protocol q)), AStr (protocol_str t)]] else []))))"

definition Validate :: "klib \<Rightarrow> egg_spec \<Rightarrow> msg list" where
  "Validate L s =
     (case es_startup_detection s of None \<Rightarrow> []
      | Some d \<Rightarrow> if lib_regex L (sd_regex d) = None then [Msg ''startupDetection.regex: %v'' [AStr (sd_regex d)]] else [])
   @ (if es_console_input s \<noteq> [] \<and> \<not> consoleInputPattern (es_console_input s)
      then [Msg ''consoleInput: must be an absolute path of letters, digits, '.', '_', '-' and '/' (at most 256)'' []] else [])
   @ validateMods s @ validateBackup L s @ validateQuery s"

section \<open>Lemmas\<close>

text \<open>The stack of \<open>pathClean\<close>: components hold no slash, none is empty or a dot, dot-dots are at the bottom.\<close>

definition clean_stack :: "bool \<Rightarrow> string list \<Rightarrow> bool" where
  "clean_stack rooted st \<longleftrightarrow>
     (\<exists>n ys. st = ys @ replicate n ''..'' \<and> (rooted \<longrightarrow> n = 0) \<and>
        (\<forall>e \<in> set ys. e \<noteq> [] \<and> e \<noteq> ''.'' \<and> e \<noteq> ''..'' \<and> CHR ''/'' \<notin> set e))"

lemma cleanStep_clean_stack:
  assumes "clean_stack rooted st" and "CHR ''/'' \<notin> set e"
  shows "clean_stack rooted (cleanStep rooted st e)"
proof -
  from assms(1) obtain n ys where st: "st = ys @ replicate n ''..''" and n: "rooted \<longrightarrow> n = 0"
    and ys: "\<forall>e \<in> set ys. e \<noteq> [] \<and> e \<noteq> ''.'' \<and> e \<noteq> ''..'' \<and> CHR ''/'' \<notin> set e"
    by (auto simp: clean_stack_def)
  consider (skip) "e = [] \<or> e = ''.''" | (up) "e = ''..''" | (push) "e \<notin> {[], ''.'', ''..''}" by auto
  then show ?thesis
  proof cases
    case skip
    with assms(1) show ?thesis by (auto simp: cleanStep_def)
  next
    case push
    then have "cleanStep rooted st e = (e # ys) @ replicate n ''..''" by (simp add: cleanStep_def st)
    moreover have "\<forall>x \<in> set (e # ys). x \<noteq> [] \<and> x \<noteq> ''.'' \<and> x \<noteq> ''..'' \<and> CHR ''/'' \<notin> set x"
      using push ys assms(2) by auto
    ultimately show ?thesis using n unfolding clean_stack_def by blast
  next
    case up
    show ?thesis
    proof (cases ys)
      case Nil
      then have "cleanStep rooted st e = (if rooted then [] else replicate (Suc n) ''..'')"
        using up n by (cases n) (auto simp: cleanStep_def st)
      then show ?thesis unfolding clean_stack_def
        by (intro exI [of _ "if rooted then 0 else Suc n"] exI [of _ "[]"]) auto
    next
      case (Cons y zs)
      then have "cleanStep rooted st e = zs @ replicate n ''..''"
        using up ys by (auto simp: cleanStep_def st)
      then show ?thesis using n ys Cons unfolding clean_stack_def by auto
    qed
  qed
qed

lemma foldl_cleanStep_clean_stack:
  "clean_stack rooted st \<Longrightarrow> (\<And>e. e \<in> set es \<Longrightarrow> CHR ''/'' \<notin> set e) \<Longrightarrow>
   clean_stack rooted (foldl (cleanStep rooted) st es)"
  by (induction es arbitrary: st) (auto intro: cleanStep_clean_stack)

lemma clean_stack_split: "clean_stack rooted (foldl (cleanStep rooted) [] (splitOn CHR ''/'' p))"
proof (rule foldl_cleanStep_clean_stack)
  show "clean_stack rooted []" by (auto simp: clean_stack_def)
qed (rule splitOn_no_sep)

text \<open>
  The components of a clean relative path: the path is its cleaned stack, and a leading dot-dot
  is refused, so no component is empty, a dot or a dot-dot.
\<close>

lemma cleanRelative_components:
  assumes "cleanRelative p" and "e \<in> set (splitOn CHR ''/'' p)"
  shows "e \<noteq> [] \<and> e \<noteq> ''.'' \<and> e \<noteq> ''..''"
proof -
  define st where "st = foldl (cleanStep False) [] (splitOn CHR ''/'' p)"
  from assms(1) have rel: "\<not> hasPrefix p ''/''" and ne: "p \<noteq> []" "p \<noteq> ''.''"
    and cl: "pathClean p = p" and dd: "p \<noteq> ''..''" "\<not> hasPrefix p ''../''"
    by (auto simp: cleanRelative_def)
  have p: "p = joinWith CHR ''/'' (rev st)" and ne_st: "rev st \<noteq> []"
    using cl rel ne by (auto simp: pathClean_def st_def Let_def split: if_splits)
  obtain n ys where st: "st = ys @ replicate n ''..''"
    and ys: "\<forall>e \<in> set ys. e \<noteq> [] \<and> e \<noteq> ''.'' \<and> e \<noteq> ''..'' \<and> CHR ''/'' \<notin> set e"
    using clean_stack_split [of False p] by (auto simp: clean_stack_def st_def)
  have "n = 0"
  proof (rule ccontr)
    assume "n \<noteq> 0"
    then obtain m where rev: "rev st = ''..'' # replicate m ''..'' @ rev ys" by (cases n) (auto simp: st replicate_append_same)
    show False
    proof (cases "replicate m ''..'' @ rev ys")
      case Nil
      with rev p dd show False by simp
    next
      case (Cons q qs)
      with rev p have "p = ''../'' @ joinWith CHR ''/'' (q # qs)" by simp
      with dd show False by (metis hasPrefix_append)
    qed
  qed
  then have "splitOn CHR ''/'' p = rev ys"
    unfolding p using ne_st ys by (subst splitOn_joinWith) (auto simp: st)
  with assms(2) ys show ?thesis by auto
qed

lemma consolePathChar_default: "consoleInputPattern DefaultConsoleInput"
  by (simp add: consoleInputPattern_def DefaultConsoleInput_def consolePathChar_def char_class_defs)

lemma ConsoleInputPath_safe: "consoleInputPattern (ConsoleInputPath s)"
  by (simp add: ConsoleInputPath_def consolePathChar_default)

lemma validateQuery_QueryPort:
  "es_query s = Some q \<Longrightarrow> validateQuery s = [] \<longleftrightarrow> QueryPort s \<noteq> None"
  by (auto simp: validateQuery_def QueryPort_def split: option.splits prod.splits)

lemma QueryPort_declared:
  assumes "QueryPort s = Some p"
  shows "\<exists>q p'. es_query s = Some q \<and> p' \<in> set (es_ports s) \<and> ep_name p' = eq_port q \<and>
           ep_name p = eq_port q \<and> ep_container_port p = ep_container_port p' \<and>
           queryProtocolTransport (eq_protocol q) = Some (ep_protocol p)"
  using assms
  by (auto simp: QueryPort_def queryPort_def find_Some_iff split: option.splits if_splits) (metis nth_mem)+

end
