(* ===== verification/Image_Policy.thy ===== *)
theory Image_Policy
  imports Egg_Validate "HOL-Library.Sublist"
begin

text \<open>
  \<open>api/v1alpha1/imagepolicy.go\<close>: image references normalized to full repository names and
  matched, by whole path segments, against an allowlist of registries.
\<close>

definition looksLikeHost :: "string \<Rightarrow> bool" where
  "looksLikeHost s \<longleftrightarrow> list_ex (\<lambda>c. c = CHR ''.'' \<or> c = CHR '':'') s \<or> s = ''localhost''"

definition withRegistry :: "string \<Rightarrow> string" where
  "withRegistry name = (case cutByte name CHR ''/'' of (first, rest, hasSlash) \<Rightarrow>
     if first = ''index.docker.io'' then ''docker.io/'' @ rest
     else if looksLikeHost first then name
     else if \<not> hasSlash then ''docker.io/library/'' @ name
     else ''docker.io/'' @ name)"

text \<open>\<open>strings.IndexByte\<close> and \<open>LastIndexByte\<close> return -1 when the byte is absent.\<close>

definition idx :: "nat option \<Rightarrow> int" where
  "idx i = (case i of None \<Rightarrow> -1 | Some n \<Rightarrow> int n)"

definition dropDigest :: "string \<Rightarrow> string" where
  "dropDigest name = (case indexByte name CHR ''@'' of None \<Rightarrow> name | Some i \<Rightarrow> take i name)"

definition dropTag :: "string \<Rightarrow> string" where
  "dropTag name =
     (let i = idx (lastIndexByte name CHR '':'')
      in if i > idx (lastIndexByte name CHR ''/'') then take (nat i) name else name)"

definition NormalizeImage :: "string \<Rightarrow> string" where
  "NormalizeImage img = withRegistry (dropTag (dropDigest (toLower (trimSpace img))))"

definition NormalizeRegistryEntry :: "string \<Rightarrow> string" where
  "NormalizeRegistryEntry entry =
     (let e = trimSuffix (toLower (trimSpace entry)) ''/''
      in if e = [] then []
         else if CHR ''/'' \<notin> set e \<and> \<not> looksLikeHost e then ''docker.io/'' @ e
         else withRegistry e)"

definition ImageAllowed :: "string \<Rightarrow> string list \<Rightarrow> bool" where
  "ImageAllowed img allowed \<longleftrightarrow> allowed = [] \<or>
     list_ex (\<lambda>a. let p = NormalizeRegistryEntry a
                  in p \<noteq> [] \<and> (NormalizeImage img = p \<or> hasPrefix (NormalizeImage img) (p @ ''/''))) allowed"

definition ImageRefs :: "egg_spec \<Rightarrow> string list" where
  "ImageRefs s =
     filter (\<lambda>i. i \<noteq> []) (map img_image (es_images s))
   @ (case es_install s of None \<Rightarrow> [] | Some i \<Rightarrow> if ei_image i \<noteq> [] then [ei_image i] else [])
   @ (case es_configure s of None \<Rightarrow> [] | Some c \<Rightarrow> if ec_image c \<noteq> [] then [ec_image c] else [])"

section \<open>Lemmas\<close>

definition segments :: "string \<Rightarrow> string list" where
  "segments s = splitOn CHR ''/'' s"

lemma segments_append_slash: "segments (p @ ''/'' @ r) = segments p @ segments r"
proof (induction p)
  case Nil
  then show ?case by (simp add: segments_def)
next
  case (Cons x xs)
  obtain q qs where "splitOn CHR ''/'' xs = q # qs" by (meson neq_Nil_conv splitOn_ne)
  with Cons show ?case by (simp add: segments_def)
qed

lemma joinWith_append:
  "ps \<noteq> [] \<Longrightarrow> qs \<noteq> [] \<Longrightarrow> joinWith c (ps @ qs) = joinWith c ps @ c # joinWith c qs"
  by (induction c ps rule: joinWith.induct) (auto simp: neq_Nil_conv)

text \<open>Equal or prefix-with-a-slash is exactly prefix on path segments.\<close>

lemma segment_prefix_iff: "s = p \<or> hasPrefix s (p @ ''/'') \<longleftrightarrow> prefix (segments p) (segments s)"
proof
  assume "s = p \<or> hasPrefix s (p @ ''/'')"
  then consider "s = p" | r where "s = p @ ''/'' @ r" by (auto simp: hasPrefix_iff)
  then show "prefix (segments p) (segments s)"
  proof cases
    case 1
    then show ?thesis by simp
  next
    case 2
    then show ?thesis unfolding 2 segments_append_slash by simp
  qed
next
  assume "prefix (segments p) (segments s)"
  then obtain zs where zs: "segments s = segments p @ zs" by (auto simp: prefix_def)
  have join: "joinWith CHR ''/'' (segments x) = x" for x by (simp add: segments_def joinWith_splitOn)
  show "s = p \<or> hasPrefix s (p @ ''/'')"
  proof (cases "zs = []")
    case True
    with zs have "joinWith CHR ''/'' (segments s) = joinWith CHR ''/'' (segments p)" by simp
    then show ?thesis by (simp add: join)
  next
    case False
    have "joinWith CHR ''/'' (segments s) = joinWith CHR ''/'' (segments p) @ CHR ''/'' # joinWith CHR ''/'' zs"
      unfolding zs using False by (intro joinWith_append) (simp_all add: segments_def)
    then have "s = (p @ ''/'') @ joinWith CHR ''/'' zs" by (simp add: join)
    then show ?thesis by (metis hasPrefix_append)
  qed
qed

lemma ImageAllowed_iff:
  "ImageAllowed img allowed \<longleftrightarrow> allowed = [] \<or>
     (\<exists>a \<in> set allowed. NormalizeRegistryEntry a \<noteq> [] \<and>
        prefix (segments (NormalizeRegistryEntry a)) (segments (NormalizeImage img)))"
  by (simp add: ImageAllowed_def list_ex_iff Let_def segment_prefix_iff)

lemma cutByte_segments:
  "cutByte s CHR ''/'' = (first, rest, b) \<Longrightarrow> hd (segments s) = first"
proof -
  assume c: "cutByte s CHR ''/'' = (first, rest, b)"
  show "hd (segments s) = first"
  proof (cases "indexByte s CHR ''/''")
    case None
    with c show ?thesis
      by (simp add: cutByte_def segments_def indexByte_None splitOn_no_sep_id)
  next
    case (Some i)
    have i: "i < length s" "s ! i = CHR ''/''" "CHR ''/'' \<notin> set (take i s)"
      using indexByte_Some [OF Some] by auto
    have "s = take i s @ CHR ''/'' # drop (Suc i) s" using i id_take_nth_drop by metis
    then have "segments s = take i s # segments (drop (Suc i) s)"
      using splitOn_append_sep [OF i(3)] unfolding segments_def by metis
    with c Some show ?thesis by (simp add: cutByte_def)
  qed
qed

lemma looksLikeHost_docker: "looksLikeHost ''docker.io''"
  by (simp add: looksLikeHost_def)

lemma hd_segments_docker: "hd (segments (''docker.io/'' @ r)) = ''docker.io''"
  using segments_append_slash [of "''docker.io''" r] by (simp add: segments_def)

text \<open>A normalized reference names its registry: the first segment looks like a host.\<close>

lemma withRegistry_host: "looksLikeHost (hd (segments (withRegistry name)))"
proof -
  obtain first rest b where c: "cutByte name CHR ''/'' = (first, rest, b)" by (metis prod_cases3)
  have h: "hd (segments name) = first" by (rule cutByte_segments [OF c])
  have lib: "''docker.io/library/'' @ name = ''docker.io/'' @ (''library/'' @ name)" by simp
  consider "first = ''index.docker.io''" | "first \<noteq> ''index.docker.io''" "looksLikeHost first"
    | "first \<noteq> ''index.docker.io''" "\<not> looksLikeHost first" by blast
  then show ?thesis
  proof cases
    case 1
    then have "withRegistry name = ''docker.io/'' @ rest" by (simp add: withRegistry_def c)
    then show ?thesis using hd_segments_docker [of rest] looksLikeHost_docker by simp
  next
    case 2
    then have "withRegistry name = name" by (simp add: withRegistry_def c)
    with 2 h show ?thesis by simp
  next
    case 3
    then have "withRegistry name = ''docker.io/'' @ (if b then name else ''library/'' @ name)"
      by (simp add: withRegistry_def c)
    then show ?thesis using hd_segments_docker looksLikeHost_docker by metis
  qed
qed

lemma lastIndexByte_None: "c \<notin> set s \<Longrightarrow> lastIndexByte s c = None"
  by (simp add: lastIndexByte_def indexByte_None)

lemma indexByte_append: "c \<notin> set p \<Longrightarrow> indexByte (p @ c # q) c = Some (length p)"
  by (induction p) auto

lemma lastIndexByte_append:
  "c \<notin> set t \<Longrightarrow> lastIndexByte (s @ c # t) c = Some (length s)"
proof -
  assume "c \<notin> set t"
  then have "c \<notin> set (rev t)" by simp
  then have "indexByte (rev t @ c # rev s) c = Some (length (rev t))"
    by (rule indexByte_append)
  then show ?thesis by (simp add: lastIndexByte_def)
qed

end
