(* ===== verification/Schedule_Spec.thy ===== *)
theory Schedule_Spec
  imports Egg_Validate
begin

text \<open>
  \<open>api/v1alpha1/schedule.go\<close>: the next fire time of a schedule and the checks of its spec that
  need the cron expression. The cron parser and the time-zone database are parameters.
\<close>

definition minScheduleInterval :: duration where
  "minScheduleInterval = 5 * minute"

definition minBackupScheduleInterval :: duration where
  "minBackupScheduleInterval = hour"

definition scheduleLocation :: "klib \<Rightarrow> string \<Rightarrow> string option" where
  "scheduleLocation L tz = (if tz = [] then Some ''UTC'' else if lib_time_zone L tz then Some tz else None)"

text \<open>The first fire time strictly after \<open>after\<close>; an error when the zone or the cron does not parse.\<close>

definition NextRun :: "klib \<Rightarrow> schedule_spec \<Rightarrow> time \<Rightarrow> time option" where
  "NextRun L spec after = (case scheduleLocation L (scs_time_zone spec) of None \<Rightarrow> None
     | Some loc \<Rightarrow> map_option (\<lambda>nxt. nxt after) (lib_cron L (scs_cron spec) loc))"

definition taskDelay :: "schedule_task \<Rightarrow> duration" where
  "taskDelay t = tk_delay_seconds t * second"

text \<open>The body of the loop over the tasks.\<close>

definition validateTask :: "int \<Rightarrow> schedule_task \<Rightarrow> msg list" where
  "validateTask i t =
     (if tk_delay_seconds t < 0 \<or> 900 < tk_delay_seconds t
      then [Msg ''tasks[%d].delaySeconds must be between 0 and 900'' [AInt i]] else [])
   @ (case tk_action t of
        ActCommand \<Rightarrow>
          (if trimSpace (tk_command t) = [] then [Msg ''tasks[%d].command is required for Command'' [AInt i]] else [])
        @ (if 512 < length (tk_command t) \<or> hasControl (tk_command t)
           then [Msg ''tasks[%d].command must be one line of at most 512 characters'' [AInt i]] else [])
      | OtherAction a \<Rightarrow>
          [Msg ''tasks[%d].action %q is not one of Command, Restart, Start, Stop, Backup'' [AInt i, AStr a]]
      | _ \<Rightarrow> if tk_command t \<noteq> [] then [Msg ''tasks[%d].command is only for Command'' [AInt i]] else [])
   @ (if tk_action t \<noteq> ActBackup \<and> tk_keep_last t \<noteq> 0
      then [Msg ''tasks[%d].keepLast is only for Backup'' [AInt i]] else [])"

fun validateTasks :: "int \<Rightarrow> schedule_task list \<Rightarrow> msg list" where
  "validateTasks i [] = []"
| "validateTasks i (t # ts) = validateTask i t @ validateTasks (i + 1) ts"

text \<open>The shortest of \<open>n\<close> successive gaps after \<open>prev\<close>, and no more than \<open>g\<close>.\<close>

fun minGapLoop :: "nat \<Rightarrow> (time \<Rightarrow> time) \<Rightarrow> time \<Rightarrow> duration \<Rightarrow> duration" where
  "minGapLoop 0 nxt prev g = g"
| "minGapLoop (Suc n) nxt prev g =
     (let nx = nxt prev; gap = nx - prev in minGapLoop n nxt nx (if gap < g then gap else g))"

definition totalDelay :: "schedule_spec \<Rightarrow> duration" where
  "totalDelay spec = wrap64 (sum_list (map taskDelay (scs_tasks spec)))"

definition hasBackup :: "schedule_spec \<Rightarrow> bool" where
  "hasBackup spec \<longleftrightarrow> list_ex (\<lambda>t. tk_action t = ActBackup) (scs_tasks spec)"

definition gapChecks :: "(time \<Rightarrow> time) \<Rightarrow> time \<Rightarrow> schedule_spec \<Rightarrow> msg list" where
  "gapChecks nxt ref spec =
     (let minGap = minGapLoop 50 nxt (nxt ref) (2 ^ 62 - 1);
          limit = (if hasBackup spec then minBackupScheduleInterval else minScheduleInterval)
      in (if minGap < limit then [Msg ''runs may be at most every %s (this cron fires every %s)'' [AInt limit, AInt minGap]] else [])
       @ (if minGap \<le> totalDelay spec
          then [Msg ''the task delays add up to %s, which does not fit between runs (%s)'' [AInt (totalDelay spec), AInt minGap]]
          else []))"

definition ValidateSchedule :: "klib \<Rightarrow> schedule_spec \<Rightarrow> msg list" where
  "ValidateSchedule L spec =
     (let loc = scheduleLocation L (scs_time_zone spec);
          zone = (case loc of None \<Rightarrow> ''UTC'' | Some z \<Rightarrow> z);
          parsed = lib_cron L (scs_cron spec) zone
      in (if loc = None then [Msg ''timeZone %q is not a known IANA time zone'' [AStr (scs_time_zone spec)]] else [])
       @ (if parsed = None then [Msg ''cron %q: %v'' [AStr (scs_cron spec)]] else [])
       @ (if scs_tasks spec = [] then [Msg ''at least one task is required'' []] else [])
       @ (if 10 < length (scs_tasks spec) then [Msg ''at most 10 tasks'' []] else [])
       @ validateTasks 0 (scs_tasks spec)
       @ (case parsed of None \<Rightarrow> [] | Some nxt \<Rightarrow> gapChecks nxt (lib_ref_date L zone) spec))"

section \<open>Lemmas\<close>

lemma minGapLoop_le: "minGapLoop n nxt prev g \<le> g"
proof (induction n nxt prev g rule: minGapLoop.induct)
  case (2 n nxt prev g)
  show ?case using 2 [OF refl refl] by (auto simp: Let_def split: if_splits)
qed simp

lemma minGapLoop_bound:
  "i < n \<Longrightarrow> minGapLoop n nxt prev g \<le> (nxt ^^ Suc i) prev - (nxt ^^ i) prev"
proof (induction n nxt prev g arbitrary: i rule: minGapLoop.induct)
  case (2 n nxt prev g)
  let ?gap = "nxt prev - prev"
  let ?m = "if ?gap < g then ?gap else g"
  show ?case
  proof (cases i)
    case 0
    have "minGapLoop n nxt (nxt prev) ?m \<le> ?m" by (rule minGapLoop_le)
    also have "?m \<le> ?gap" by simp
    finally show ?thesis using 0 by (simp add: Let_def)
  next
    case (Suc j)
    with 2(2) have "minGapLoop n nxt (nxt prev) ?m \<le> (nxt ^^ Suc j) (nxt prev) - (nxt ^^ j) (nxt prev)"
      by (intro 2(1) [OF refl refl]) auto
    then show ?thesis by (simp add: Let_def Suc funpow_swap1)
  qed
qed simp

lemma validateTasks_ok: "validateTasks i ts = [] \<Longrightarrow> t \<in> set ts \<Longrightarrow> \<exists>j. validateTask j t = []"
  by (induction ts arbitrary: i) auto

lemma validateTask_delay: "validateTask i t = [] \<Longrightarrow> 0 \<le> tk_delay_seconds t \<and> tk_delay_seconds t \<le> 900"
  by (auto simp: validateTask_def split: if_splits)

lemma ValidateSchedule_parsed:
  assumes "ValidateSchedule L spec = []"
  shows "\<exists>loc nxt. scheduleLocation L (scs_time_zone spec) = Some loc \<and>
           lib_cron L (scs_cron spec) loc = Some nxt \<and> gapChecks nxt (lib_ref_date L loc) spec = [] \<and>
           scs_tasks spec \<noteq> [] \<and> length (scs_tasks spec) \<le> 10 \<and> validateTasks 0 (scs_tasks spec) = []"
  using assms by (auto simp: ValidateSchedule_def Let_def split: option.splits if_splits)

end
