(* ===== verification/Client_Log.thy ===== *)
theory Client_Log
  imports Kube_Client
begin

text \<open>
  A client that records what it is asked. \<open>logging k\<close> answers every call as \<open>k\<close> does, in the world
  of \<open>k\<close> paired with the list of the calls made so far and how they ended. A statement about the
  log of \<open>f (logging k)\<close> for every \<open>k\<close> is a statement about what \<open>f\<close> does against any cluster,
  with any failures: which writes it makes, with what, and in which order.
\<close>

datatype obj =
    OGs gameserver | OEgg egg | OPod pod | OSvc service | OPvc pvc | OPv pv | OSecret secret
  | OCm configmap | ONp netpol | ONs namespace | OBackup backup | ORestore restore | OJob job
  | OSched schedule | OTenant tenant | ORb rolebinding | ORq resource_quota | OLr limit_range
  | OTcp route | OUdp route | OGw gateway

text \<open>The kinds, by the names the API gives them.\<close>

fun obj_kind :: "obj \<Rightarrow> string" where
  "obj_kind (OGs _) = ''GameServer''"
| "obj_kind (OEgg _) = ''Egg''"
| "obj_kind (OPod _) = ''Pod''"
| "obj_kind (OSvc _) = ''Service''"
| "obj_kind (OPvc _) = ''PersistentVolumeClaim''"
| "obj_kind (OPv _) = ''PersistentVolume''"
| "obj_kind (OSecret _) = ''Secret''"
| "obj_kind (OCm _) = ''ConfigMap''"
| "obj_kind (ONp _) = ''NetworkPolicy''"
| "obj_kind (ONs _) = ''Namespace''"
| "obj_kind (OBackup _) = ''GameServerBackup''"
| "obj_kind (ORestore _) = ''GameServerRestore''"
| "obj_kind (OJob _) = ''Job''"
| "obj_kind (OSched _) = ''GameServerSchedule''"
| "obj_kind (OTenant _) = ''Tenant''"
| "obj_kind (ORb _) = ''RoleBinding''"
| "obj_kind (ORq _) = ''ResourceQuota''"
| "obj_kind (OLr _) = ''LimitRange''"
| "obj_kind (OTcp _) = ''TCPRoute''"
| "obj_kind (OUdp _) = ''UDPRoute''"
| "obj_kind (OGw _) = ''Gateway''"

text \<open>The flag of a write is whether the call succeeded.\<close>

datatype event =
    EvGot string string obj
  | EvGetFailed string string bool \<comment> \<open>whether the answer was NotFound\<close>
  | EvListed string "string option" "(string \<times> string) list" "obj list" \<comment> \<open>the kind asked for\<close>
  | EvCreate obj bool
  | EvUpdate obj bool
  | EvStatusUpdate obj bool
  | EvPatch obj obj bool
  | EvStatusPatch obj obj bool
  | EvDelete obj bool
  | EvEnsure obj bool
  | EvExec string string string "string list" bool
  | EvLogs string string bool
  | EvRandom bool
  | EvMetric string "string list"

type_synonym 'w logged = "'w \<times> event list"

definition record_ev :: "(go_err + 'a \<Rightarrow> event list) \<Rightarrow> ('w, 'a) io \<Rightarrow> ('w logged, 'a) io" where
  "record_ev ev m = (\<lambda>(w, l). case m w of (r, w') \<Rightarrow> (r, (w', l @ ev r)))"

fun succeeded :: "go_err + 'a \<Rightarrow> bool" where
  "succeeded (Inl e) = False"
| "succeeded (Inr x) = True"

definition log_got :: "('o \<Rightarrow> obj) \<Rightarrow> string \<Rightarrow> string \<Rightarrow> go_err + 'o \<Rightarrow> event list" where
  "log_got I ns n r = (case r of Inl e \<Rightarrow> [EvGetFailed ns n (is_not_found e)] | Inr x \<Rightarrow> [EvGot ns n (I x)])"

definition log_listed :: "('o \<Rightarrow> obj) \<Rightarrow> string option \<Rightarrow> (string \<times> string) list \<Rightarrow> go_err + 'o list \<Rightarrow> event list" where
  "log_listed I ns sel r = (case r of Inl e \<Rightarrow> [] | Inr xs \<Rightarrow> [EvListed (obj_kind (I undefined)) ns sel (map I xs)])"

definition log_rest :: "('o \<Rightarrow> obj) \<Rightarrow> ('o, 'w) rest \<Rightarrow> ('o, 'w logged) rest" where
  "log_rest I R = \<lparr>
     r_get = (\<lambda>ns n. record_ev (log_got I ns n) (r_get R ns n)),
     r_list = (\<lambda>ns sel. record_ev (log_listed I ns sel) (r_list R ns sel)),
     r_create = (\<lambda>x. record_ev (\<lambda>r. [EvCreate (I x) (succeeded r)]) (r_create R x)),
     r_update = (\<lambda>x. record_ev (\<lambda>r. [EvUpdate (I x) (succeeded r)]) (r_update R x)),
     r_status_update = (\<lambda>x. record_ev (\<lambda>r. [EvStatusUpdate (I x) (succeeded r)]) (r_status_update R x)),
     r_patch = (\<lambda>x y. record_ev (\<lambda>r. [EvPatch (I x) (I y) (succeeded r)]) (r_patch R x y)),
     r_status_patch = (\<lambda>x y. record_ev (\<lambda>r. [EvStatusPatch (I x) (I y) (succeeded r)]) (r_status_patch R x y)),
     r_delete = (\<lambda>x. record_ev (\<lambda>r. [EvDelete (I x) (succeeded r)]) (r_delete R x)),
     r_ensure = (\<lambda>x f. record_ev (\<lambda>r. [EvEnsure (I x) (succeeded r)]) (r_ensure R x f))\<rparr>"

definition logging :: "'w k8s \<Rightarrow> 'w logged k8s" where
  "logging k = \<lparr>k_lib = k_lib k, k_now = (\<lambda>(w, l). k_now k w),
     k_random = (\<lambda>n. record_ev (\<lambda>r. [EvRandom (succeeded r)]) (k_random k n)),
     k_metric = (\<lambda>m ls v (w, l). (k_metric k m ls v w, l @ [EvMetric m ls])),
     k_exec = (\<lambda>ns p c cmd. record_ev (\<lambda>r. [EvExec ns p c cmd (succeeded r)]) (k_exec k ns p c cmd)),
     k_tail_logs = (\<lambda>ns p c n. record_ev (\<lambda>r. [EvLogs ns p (succeeded r)]) (k_tail_logs k ns p c n)),
     k_logs_since = (\<lambda>ns p c t. record_ev (\<lambda>r. [EvLogs ns p (succeeded r)]) (k_logs_since k ns p c t)),
     k_gs = log_rest OGs (k_gs k), k_egg = log_rest OEgg (k_egg k), k_pod = log_rest OPod (k_pod k),
     k_svc = log_rest OSvc (k_svc k), k_pvc = log_rest OPvc (k_pvc k), k_pv = log_rest OPv (k_pv k),
     k_secret = log_rest OSecret (k_secret k), k_cm = log_rest OCm (k_cm k), k_np = log_rest ONp (k_np k),
     k_ns = log_rest ONs (k_ns k), k_backup = log_rest OBackup (k_backup k),
     k_restore = log_rest ORestore (k_restore k), k_job = log_rest OJob (k_job k),
     k_sched = log_rest OSched (k_sched k), k_tenant = log_rest OTenant (k_tenant k),
     k_rb = log_rest ORb (k_rb k), k_rq = log_rest ORq (k_rq k), k_lr = log_rest OLr (k_lr k),
     k_tcp = log_rest OTcp (k_tcp k), k_udp = log_rest OUdp (k_udp k), k_gw = log_rest OGw (k_gw k)\<rparr>"

lemma k_lib_logging [simp]: "k_lib (logging k) = k_lib k"
  by (simp add: logging_def)

lemma k_now_logging [simp]: "k_now (logging k) s = k_now k (fst s)"
  by (simp add: logging_def split: prod.splits)

lemma logging_kinds [simp]:
  "k_gs (logging k) = log_rest OGs (k_gs k)" "k_egg (logging k) = log_rest OEgg (k_egg k)"
  "k_pod (logging k) = log_rest OPod (k_pod k)" "k_svc (logging k) = log_rest OSvc (k_svc k)"
  "k_pvc (logging k) = log_rest OPvc (k_pvc k)" "k_pv (logging k) = log_rest OPv (k_pv k)"
  "k_secret (logging k) = log_rest OSecret (k_secret k)" "k_cm (logging k) = log_rest OCm (k_cm k)"
  "k_np (logging k) = log_rest ONp (k_np k)" "k_ns (logging k) = log_rest ONs (k_ns k)"
  "k_backup (logging k) = log_rest OBackup (k_backup k)"
  "k_restore (logging k) = log_rest ORestore (k_restore k)"
  "k_job (logging k) = log_rest OJob (k_job k)" "k_sched (logging k) = log_rest OSched (k_sched k)"
  "k_tenant (logging k) = log_rest OTenant (k_tenant k)" "k_rb (logging k) = log_rest ORb (k_rb k)"
  "k_rq (logging k) = log_rest ORq (k_rq k)" "k_lr (logging k) = log_rest OLr (k_lr k)"
  "k_tcp (logging k) = log_rest OTcp (k_tcp k)" "k_udp (logging k) = log_rest OUdp (k_udp k)"
  "k_gw (logging k) = log_rest OGw (k_gw k)"
  by (simp_all add: logging_def)

section \<open>Triples over the log\<close>

text \<open>
  \<open>logs P m Q E\<close> speaks of the log only: from a log with \<open>P\<close>, the log after a normal return has \<open>Q\<close>,
  and after an error \<open>E\<close>.
\<close>

definition logs ::
  "(event list \<Rightarrow> bool) \<Rightarrow> ('w logged, 'a) io \<Rightarrow> ('a \<Rightarrow> event list \<Rightarrow> bool) \<Rightarrow> (go_err \<Rightarrow> event list \<Rightarrow> bool) \<Rightarrow> bool" where
  "logs P m Q E \<longleftrightarrow> hoare (\<lambda>s. P (snd s)) m (\<lambda>x s. Q x (snd s)) (\<lambda>e s. E e (snd s))"

lemma logs_pre: "logs P' m Q E \<Longrightarrow> (\<And>l. P l \<Longrightarrow> P' l) \<Longrightarrow> logs P m Q E"
  unfolding logs_def by (erule hoare_pre) simp

lemma logs_post:
  "logs P m Q' E' \<Longrightarrow> (\<And>x l. Q' x l \<Longrightarrow> Q x l) \<Longrightarrow> (\<And>e l. E' e l \<Longrightarrow> E e l) \<Longrightarrow> logs P m Q E"
  unfolding logs_def by (erule hoare_post) simp_all

lemma logs_ret: "(\<And>l. P l \<Longrightarrow> Q x l) \<Longrightarrow> logs P (ret x) Q E"
  by (simp add: logs_def hoare_ret)

lemma logs_throw: "(\<And>l. P l \<Longrightarrow> E e l) \<Longrightarrow> logs P (throw e) Q E"
  by (simp add: logs_def hoare_throw)

lemma logs_bindE: "logs P m R E \<Longrightarrow> (\<And>x. logs (R x) (f x) Q E) \<Longrightarrow> logs P (bindE m f) Q E"
  unfolding logs_def by (rule hoare_bindE)

lemma logs_attempt: "logs P m (\<lambda>x. Q (Inr x)) (\<lambda>e. Q (Inl e)) \<Longrightarrow> logs P (attempt m) Q E"
  unfolding logs_def by (rule hoare_attempt)

lemma logs_wrapE: "logs P m Q (\<lambda>e. E (Wrapped s e)) \<Longrightarrow> logs P (wrapE s m) Q E"
  unfolding logs_def by (rule hoare_wrapE)

lemma logs_gets: "(\<And>l x. P l \<Longrightarrow> Q x l) \<Longrightarrow> logs P (gets f) Q E"
  by (simp add: logs_def hoare_gets)

lemma logs_liftE: "(\<And>e l. r = Inl e \<Longrightarrow> P l \<Longrightarrow> E e l) \<Longrightarrow> (\<And>l x. r = Inr x \<Longrightarrow> P l \<Longrightarrow> Q x l) \<Longrightarrow> logs P (liftE r) Q E"
  by (simp add: logs_def hoare_liftE)

lemma logs_ignoring:
  assumes "logs P m (\<lambda>_. Q ()) (\<lambda>e l. if p e then Q () l else E e l)"
  shows "logs P (ignoring p m) Q E"
  using assms unfolding logs_def by (rule hoare_ignoring)

lemma logs_found_or_none:
  assumes "logs P m (\<lambda>x. Q (Some x)) (\<lambda>e l. if is_not_found e then Q None l else E e l)"
  shows "logs P (found_or_none m) Q E"
  using assms unfolding logs_def by (rule hoare_found_or_none)

lemma logs_if: "(c \<Longrightarrow> logs P m Q E) \<Longrightarrow> (\<not> c \<Longrightarrow> logs P n Q E) \<Longrightarrow> logs P (if c then m else n) Q E"
  by simp

lemma logs_case_sum:
  "(\<And>e. r = Inl e \<Longrightarrow> logs P (f e) Q E) \<Longrightarrow> (\<And>x. r = Inr x \<Longrightarrow> logs P (g x) Q E) \<Longrightarrow>
   logs P (case r of Inl e \<Rightarrow> f e | Inr x \<Rightarrow> g x) Q E"
  by (cases r) auto

lemma logs_case_option:
  "(r = None \<Longrightarrow> logs P m Q E) \<Longrightarrow> (\<And>x. r = Some x \<Longrightarrow> logs P (g x) Q E) \<Longrightarrow>
   logs P (case r of None \<Rightarrow> m | Some x \<Rightarrow> g x) Q E"
  by (cases r) auto

lemma logs_case_prod:
  "(\<And>a b. r = (a, b) \<Longrightarrow> logs P (f a b) Q E) \<Longrightarrow> logs P (case r of (a, b) \<Rightarrow> f a b) Q E"
  by (cases r) auto

text \<open>A part of the precondition that does not speak of the log is a hypothesis.\<close>

lemma logs_fact: "(A \<Longrightarrow> logs P m Q E) \<Longrightarrow> logs (\<lambda>l. P l \<and> A) m Q E"
  by (cases A) (simp_all add: logs_def hoare_def)

lemma logs_forE:
  assumes "\<And>x. x \<in> set xs \<Longrightarrow> logs I (f x) (\<lambda>_. I) E"
  shows "logs I (forE f xs) (\<lambda>_. I) E"
  using assms unfolding logs_def by (rule hoare_forE)

lemmas logs_rules = logs_ret logs_throw logs_bindE logs_attempt logs_wrapE logs_gets logs_liftE
  logs_ignoring logs_found_or_none logs_if logs_case_sum logs_case_option logs_case_prod

lemma logs_record_ev:
  assumes "\<And>l x. P l \<Longrightarrow> Q x (l @ ev (Inr x))" and "\<And>l e. P l \<Longrightarrow> E e (l @ ev (Inl e))"
  shows "logs P (record_ev ev m) Q E"
  using assms by (auto simp: logs_def hoare_def record_ev_def split: prod.splits sum.splits)

lemma logs_ops:
  "\<lbrakk>\<And>l x. P l \<Longrightarrow> Q x (l @ [EvGot ns n (I x)]); \<And>e l. P l \<Longrightarrow> E e (l @ [EvGetFailed ns n (is_not_found e)])\<rbrakk> \<Longrightarrow> logs P (r_get (log_rest I R) ns n) Q E"
  "\<lbrakk>\<And>l xs. P l \<Longrightarrow> Q' xs (l @ [EvListed (obj_kind (I undefined)) nso sel (map I xs)]); \<And>e l. P l \<Longrightarrow> E e l\<rbrakk> \<Longrightarrow> logs P (r_list (log_rest I R) nso sel) Q' E"
  "\<lbrakk>\<And>l y. P l \<Longrightarrow> Q y (l @ [EvCreate (I x) True]); \<And>e l. P l \<Longrightarrow> E e (l @ [EvCreate (I x) False])\<rbrakk> \<Longrightarrow>
     logs P (r_create (log_rest I R) x) Q E"
  "\<lbrakk>\<And>l y. P l \<Longrightarrow> Q y (l @ [EvUpdate (I x) True]); \<And>e l. P l \<Longrightarrow> E e (l @ [EvUpdate (I x) False])\<rbrakk> \<Longrightarrow>
     logs P (r_update (log_rest I R) x) Q E"
  "\<lbrakk>\<And>l y. P l \<Longrightarrow> Q y (l @ [EvStatusUpdate (I x) True]); \<And>e l. P l \<Longrightarrow> E e (l @ [EvStatusUpdate (I x) False])\<rbrakk> \<Longrightarrow>
     logs P (r_status_update (log_rest I R) x) Q E"
  "\<lbrakk>\<And>l z. P l \<Longrightarrow> Q z (l @ [EvPatch (I x) (I y) True]); \<And>e l. P l \<Longrightarrow> E e (l @ [EvPatch (I x) (I y) False])\<rbrakk> \<Longrightarrow>
     logs P (r_patch (log_rest I R) x y) Q E"
  "\<lbrakk>\<And>l z. P l \<Longrightarrow> Q z (l @ [EvStatusPatch (I x) (I y) True]); \<And>e l. P l \<Longrightarrow> E e (l @ [EvStatusPatch (I x) (I y) False])\<rbrakk> \<Longrightarrow>
     logs P (r_status_patch (log_rest I R) x y) Q E"
  "\<lbrakk>\<And>l u. P l \<Longrightarrow> Qu u (l @ [EvDelete (I x) True]); \<And>e l. P l \<Longrightarrow> E e (l @ [EvDelete (I x) False])\<rbrakk> \<Longrightarrow>
     logs P (r_delete (log_rest I R) x) Qu E"
  "\<lbrakk>\<And>l u. P l \<Longrightarrow> Qu u (l @ [EvEnsure (I x) True]); \<And>e l. P l \<Longrightarrow> E e (l @ [EvEnsure (I x) False])\<rbrakk> \<Longrightarrow>
     logs P (r_ensure (log_rest I R) x f) Qu E"
  by (simp_all add: log_rest_def logs_record_ev log_got_def log_listed_def)

lemma logs_world_ops:
  "\<lbrakk>\<And>l x. P l \<Longrightarrow> Q x (l @ [EvRandom True]); \<And>e l. P l \<Longrightarrow> E e (l @ [EvRandom False])\<rbrakk> \<Longrightarrow> logs P (k_random (logging k) n) Q E"
  "\<lbrakk>\<And>l x. P l \<Longrightarrow> Qu x (l @ [EvExec ns p c cmd True]); \<And>e l. P l \<Longrightarrow> E e (l @ [EvExec ns p c cmd False])\<rbrakk> \<Longrightarrow>
     logs P (k_exec (logging k) ns p c cmd) Qu E"
  "\<lbrakk>\<And>l x. P l \<Longrightarrow> Q x (l @ [EvLogs ns p True]); \<And>e l. P l \<Longrightarrow> E e (l @ [EvLogs ns p False])\<rbrakk> \<Longrightarrow>
     logs P (k_tail_logs (logging k) ns p c i) Q E"
  "\<lbrakk>\<And>l x. P l \<Longrightarrow> Q x (l @ [EvLogs ns p True]); \<And>e l. P l \<Longrightarrow> E e (l @ [EvLogs ns p False])\<rbrakk> \<Longrightarrow>
     logs P (k_logs_since (logging k) ns p c t) Q E"
  by (simp_all add: logging_def logs_record_ev)

lemma logs_metric:
  "(\<And>l. P l \<Longrightarrow> Q () (l @ [EvMetric m ls])) \<Longrightarrow> logs P (modifyE (k_metric (logging k) m ls v)) Q E"
  by (auto simp: logs_def hoare_def modifyE_def logging_def)

lemmas log_rules = logs_ops logs_world_ops logs_metric

text \<open>What a computation leaves in the log, from an empty one.\<close>

definition trace :: "('w logged, 'a) io \<Rightarrow> 'w \<Rightarrow> event list" where
  "trace m w = snd (snd (m (w, [])))"

lemma trace_logs:
  assumes "logs (\<lambda>l. l = []) m (\<lambda>_. Q) (\<lambda>_. Q)"
  shows "Q (trace m w)"
proof -
  obtain r s where m: "m (w, []) = (r, s)" by (cases "m (w, [])") auto
  with assms show ?thesis
    by (cases r) (auto simp: trace_def logs_def dest: hoare_InlD [where w = "(w, [])"] hoare_InrD [where w = "(w, [])"])
qed

section \<open>What a computation may ask for\<close>

text \<open>\<open>only A m\<close>: every call \<open>m\<close> makes, from any world, is one that \<open>A\<close> allows.\<close>

definition only :: "(event \<Rightarrow> bool) \<Rightarrow> ('w logged, 'a) io \<Rightarrow> bool" where
  "only A m \<longleftrightarrow> (\<forall>w l. \<exists>es. snd (snd (m (w, l))) = l @ es \<and> list_all A es)"

lemma onlyI: "(\<And>w l. \<exists>es. snd (snd (m (w, l))) = l @ es \<and> list_all A es) \<Longrightarrow> only A m"
  by (simp add: only_def)

lemma only_snd: "only A m \<Longrightarrow> \<exists>es. snd (snd (m s)) = snd s @ es \<and> list_all A es"
  unfolding only_def by (cases s) auto

lemma only_ret: "only A (ret x)"
  by (auto simp: only_def ret_def)

lemma only_throw: "only A (throw e)"
  by (auto simp: only_def throw_def)

lemma only_gets: "only A (gets f)"
  by (auto simp: only_def gets_def)

lemma only_liftE: "only A (liftE r)"
  by (auto simp: only_def liftE_def)

lemma only_bindE:
  assumes m: "only A m" and f: "\<And>x. only A (f x)"
  shows "only A (bindE m f)"
proof (rule onlyI)
  fix w l
  obtain es where es: "snd (snd (m (w, l))) = l @ es" "list_all A es"
    using only_snd [OF m, of "(w, l)"] by auto
  show "\<exists>es. snd (snd (bindE m f (w, l))) = l @ es \<and> list_all A es"
  proof (cases "fst (m (w, l))")
    case (Inl e)
    then show ?thesis using es by (simp add: bindE_def split_beta)
  next
    case (Inr x)
    obtain es' where "snd (snd (f x (snd (m (w, l))))) = snd (snd (m (w, l))) @ es'" "list_all A es'"
      using only_snd [OF f] by metis
    then show ?thesis using es Inr by (intro exI [of _ "es @ es'"]) (simp add: bindE_def split_beta)
  qed
qed

lemma only_attempt: "only A m \<Longrightarrow> only A (attempt m)"
  by (simp add: only_def attempt_def split_beta)

lemma only_wrapE: "only A m \<Longrightarrow> only A (wrapE s m)"
  by (simp add: only_def wrapE_def split_beta split: sum.splits)

lemma only_case_sum: "(\<And>e. r = Inl e \<Longrightarrow> only A (f e)) \<Longrightarrow> (\<And>x. r = Inr x \<Longrightarrow> only A (g x)) \<Longrightarrow>
    only A (case r of Inl e \<Rightarrow> f e | Inr x \<Rightarrow> g x)"
  by (cases r) auto

lemma only_case_option: "(r = None \<Longrightarrow> only A m) \<Longrightarrow> (\<And>x. r = Some x \<Longrightarrow> only A (g x)) \<Longrightarrow>
    only A (case r of None \<Rightarrow> m | Some x \<Rightarrow> g x)"
  by (cases r) auto

lemma only_case_prod: "(\<And>a b. r = (a, b) \<Longrightarrow> only A (f a b)) \<Longrightarrow> only A (case r of (a, b) \<Rightarrow> f a b)"
  by (cases r) auto

lemma only_if: "(c \<Longrightarrow> only A m) \<Longrightarrow> (\<not> c \<Longrightarrow> only A n) \<Longrightarrow> only A (if c then m else n)"
  by simp

lemma only_ignoring: "only A m \<Longrightarrow> only A (ignoring p m)"
  unfolding ignoring_def
  by (intro only_bindE only_attempt only_case_sum only_if only_ret only_throw)

lemma only_found_or_none: "only A m \<Longrightarrow> only A (found_or_none m)"
  unfolding found_or_none_def
  by (intro only_bindE only_attempt only_case_sum only_if only_ret only_throw)

lemma only_forE: "(\<And>x. x \<in> set xs \<Longrightarrow> only A (f x)) \<Longrightarrow> only A (forE f xs)"
  by (induction xs) (auto intro!: only_ret only_bindE)

lemma only_record_ev: "(\<And>r. list_all A (ev r)) \<Longrightarrow> only A (record_ev ev m)"
  by (auto simp: only_def record_ev_def split: prod.splits)

lemmas only_rules = only_ret only_throw only_gets only_liftE only_bindE only_attempt only_wrapE
  only_case_sum only_case_option only_case_prod only_if only_ignoring only_found_or_none

lemma only_ops:
  "(\<And>x. A (EvGot ns n (I x))) \<Longrightarrow> (\<And>b. A (EvGetFailed ns n b)) \<Longrightarrow> only A (r_get (log_rest I R) ns n)"
  "(\<And>xs. A (EvListed (obj_kind (I undefined)) nso sel (map I xs))) \<Longrightarrow> only A (r_list (log_rest I R) nso sel)"
  "(\<And>b. A (EvCreate (I x) b)) \<Longrightarrow> only A (r_create (log_rest I R) x)"
  "(\<And>b. A (EvUpdate (I x) b)) \<Longrightarrow> only A (r_update (log_rest I R) x)"
  "(\<And>b. A (EvStatusUpdate (I x) b)) \<Longrightarrow> only A (r_status_update (log_rest I R) x)"
  "(\<And>b. A (EvPatch (I x) (I y) b)) \<Longrightarrow> only A (r_patch (log_rest I R) x y)"
  "(\<And>b. A (EvStatusPatch (I x) (I y) b)) \<Longrightarrow> only A (r_status_patch (log_rest I R) x y)"
  "(\<And>b. A (EvDelete (I x) b)) \<Longrightarrow> only A (r_delete (log_rest I R) x)"
  "(\<And>b. A (EvEnsure (I x) b)) \<Longrightarrow> only A (r_ensure (log_rest I R) x f)"
  by (auto simp: log_rest_def log_got_def log_listed_def intro!: only_record_ev split: sum.splits)

lemma only_world_ops:
  "(\<And>b. A (EvRandom b)) \<Longrightarrow> only A (k_random (logging k) m)"
  "(\<And>b. A (EvExec ns p c cmd b)) \<Longrightarrow> only A (k_exec (logging k) ns p c cmd)"
  "(\<And>b. A (EvLogs ns p b)) \<Longrightarrow> only A (k_tail_logs (logging k) ns p c i)"
  "(\<And>b. A (EvLogs ns p b)) \<Longrightarrow> only A (k_logs_since (logging k) ns p c t)"
  by (simp_all add: logging_def only_record_ev)

lemma only_metric: "A (EvMetric m ls) \<Longrightarrow> only A (modifyE (k_metric (logging k) m ls v))"
  by (auto simp: only_def modifyE_def logging_def)

lemmas only_calls = only_ops only_world_ops only_metric

lemma only_trace: "only A m \<Longrightarrow> list_all A (trace m w)"
  using only_snd [of A m "(w, [])"] by (auto simp: trace_def)

lemma only_mono: "only A m \<Longrightarrow> (\<And>e. A e \<Longrightarrow> B e) \<Longrightarrow> only B m"
  unfolding only_def by (meson list.pred_mono_strong)

text \<open>An assertion that no allowed call can falsify holds after the computation.\<close>

lemma logs_only:
  assumes "only A m" and "\<And>l e. P l \<Longrightarrow> A e \<Longrightarrow> P (l @ [e])"
  shows "logs P m (\<lambda>_. P) (\<lambda>_. P)"
proof -
  have ext: "P l \<Longrightarrow> list_all A es \<Longrightarrow> P (l @ es)" for l es
    by (induction es arbitrary: l) (auto dest: assms(2), metis append.assoc append_Cons append_Nil assms(2))
  have step: "P (snd (snd (m s)))" if "P (snd s)" for s
    using only_snd [OF assms(1), of s] ext [OF that] by auto
  show ?thesis unfolding logs_def
  proof (rule hoareI)
    fix s e s' assume "P (snd s)" and "m s = (Inl e, s')"
    then show "P (snd s')" using step [of s] by simp
  next
    fix s x s' assume "P (snd s)" and "m s = (Inr x, s')"
    then show "P (snd s')" using step [of s] by simp
  qed
qed

section \<open>Rules about what precedes a call\<close>

text \<open>\<open>guarded G l\<close>: every call \<open>e\<close> of the log satisfies \<open>G before e\<close>, with \<open>before\<close> the calls made before it.\<close>

definition guarded :: "(event set \<Rightarrow> event \<Rightarrow> bool) \<Rightarrow> event list \<Rightarrow> bool" where
  "guarded G l \<longleftrightarrow> (\<forall>i < length l. G (set (take i l)) (l ! i))"

lemma guarded_Nil [simp]: "guarded G []"
  by (simp add: guarded_def)

lemma guarded_snoc [simp]: "guarded G (l @ [e]) \<longleftrightarrow> guarded G l \<and> G (set l) e"
  unfolding guarded_def by (auto simp: nth_append less_Suc_eq all_conj_distrib)

lemma logs_guarded_only:
  assumes "only A m" and "\<And>S e. A e \<Longrightarrow> G S e"
  shows "logs (guarded G) m (\<lambda>_. guarded G) (\<lambda>_. guarded G)"
  by (rule logs_only [OF assms(1)]) (simp add: assms(2))

text \<open>The same with a set of calls already made, which only grows.\<close>

lemma logs_guarded_since:
  assumes "only A m" and "\<And>S e. A e \<Longrightarrow> H S \<Longrightarrow> G S e" and "\<And>S e. H S \<Longrightarrow> H (insert e S)"
  shows "logs (\<lambda>l. guarded G l \<and> H (set l)) m (\<lambda>_ l. guarded G l \<and> H (set l)) (\<lambda>_ l. guarded G l \<and> H (set l))"
  by (rule logs_only [OF assms(1)]) (simp add: assms(2,3))

lemma trace_guarded:
  assumes "logs (guarded G) m (\<lambda>_. guarded G) (\<lambda>_. guarded G)"
  shows "guarded G (trace m w)"
  by (rule trace_logs, rule logs_pre [OF assms]) simp

section \<open>Status writes that answer what was written\<close>

text \<open>
  Under optimistic concurrency a status write either fails with a conflict or stores the object as
  given; the answer the client copies back is then the object itself.
\<close>

locale status_store =
  fixes upd :: "'o \<Rightarrow> ('w, 'o) io"
  assumes echo: "upd x w = (Inr y, w') \<Longrightarrow> y = x"
begin

lemma logs_echo:
  assumes "\<And>l. P l \<Longrightarrow> Q x (l @ [EvStatusUpdate (I x) True])"
    and "\<And>e l. P l \<Longrightarrow> E e (l @ [EvStatusUpdate (I x) False])"
  shows "logs P (record_ev (\<lambda>r. [EvStatusUpdate (I x) (succeeded r)]) (upd x)) Q E"
  using assms echo by (fastforce simp: logs_def hoare_def record_ev_def split: prod.splits sum.splits)

end

text \<open>A client that accepts every write and answers what was written.\<close>

definition accept_rest :: "('o, 'w) rest" where
  "accept_rest = absent_rest\<lparr>r_create := ret, r_update := ret, r_status_update := ret,
     r_patch := (\<lambda>_ x. ret x), r_status_patch := (\<lambda>_ x. ret x), r_delete := (\<lambda>_. ret ()), r_ensure := (\<lambda>_ _. ret ())\<rparr>"

interpretation accept_status: status_store "r_status_update accept_rest"
  by unfold_locales (simp add: accept_rest_def ret_def)

lemma r_status_update_log: "r_status_update (log_rest I R) x =
    record_ev (\<lambda>r. [EvStatusUpdate (I x) (succeeded r)]) (r_status_update R x)"
  by (simp add: log_rest_def)

lemma succeededE:
  assumes "succeeded (fst p)" obtains x w where "p = (Inr x, w)"
  using assms by (cases p; cases "fst p") auto

end
