(* ===== verification/Samples.thy ===== *)
theory Samples
  imports Client_Log
begin

text \<open>
  One concrete object per kind. The witnesses of the properties take them, or change the field they
  are about, and evaluate the definitions on them.
\<close>

definition ex_meta :: object_meta where
  "ex_meta = (new_meta ''mc'' ''hatchery-acme'')\<lparr>om_uid := ''u1'', om_finalizers := [GameServerFinalizer]\<rparr>"

definition ex_egg :: egg where
  "ex_egg = \<lparr>egg_meta = new_meta ''minecraft'' ''hatchery-catalog'',
     egg_spec = \<lparr>es_images = [\<lparr>img_name = ''java21'', img_image = ''docker.io/library/mc''\<rparr>],
       es_start_command = ''run'', es_stop_command = [], es_console_input = [], es_stop_signal = [],
       es_install = None,
       es_variables = [\<lparr>ev_var_name = ''A'', ev_default = ''1'', ev_required = True, ev_user_editable = True,
                        ev_validation_regex = []\<rparr>],
       es_ports = [\<lparr>ep_name = ''game'', ep_container_port = 25565, ep_protocol = ProtoUnset, ep_default = True\<rparr>],
       es_stop_timeout = None, es_startup_detection = None, es_configure = None, es_mods = None,
       es_backup = None, es_run_as_user = None, es_query = None\<rparr>\<rparr>"

definition ex_gs :: gameserver where
  "ex_gs = \<lparr>gs_meta = ex_meta,
     gs_spec = \<lparr>gss_egg_ref = \<lparr>er_name = ''minecraft'', er_scope = ScopeCatalog\<rparr>, gss_state = StateRunning,
       gss_display_name = [], gss_install_revision = 0, gss_suspended = False, gss_suspend_reason = [],
       gss_start_command = [], gss_auto_restart = None,
       gss_backup_target = Some \<lparr>bt_connection = ''platform'', bt_bucket = [], bt_prefix = []\<rparr>,
       gss_extra_ports = [], gss_exposure_enabled = False, gss_image_name = [], gss_variables = [],
       gss_resources = no_resources, gss_storage = \<lparr>st_size = ''1Gi'', st_class = None\<rparr>\<rparr>,
     gs_status = \<lparr>gst_phase = PhaseUnset, gst_pod_name = [], gst_observed_generation = 0,
       gst_exposure = no_exposure, gst_recent_crashes = [], gst_last_crash = None, gst_conditions = []\<rparr>\<rparr>"

definition ex_pod_spec :: pod_spec where
  "ex_pod_spec = \<lparr>ps_init = [], ps_containers = [], ps_volumes = [], ps_grace = None, ps_automount = None,
     ps_fsgroup = None, ps_seccomp_default = False, ps_affinity = None, ps_restart_never = True\<rparr>"

definition ex_term :: terminated where
  "ex_term = \<lparr>tm_exit = 1, tm_reason = ''Error'', tm_finished = 5000000000\<rparr>"

text \<open>A Pod whose game container is running, and one whose game container ended with exit code 1.\<close>

definition ex_pod :: pod where
  "ex_pod = \<lparr>pod_meta = new_meta ''mc'' ''hatchery-acme'', pod_spec = ex_pod_spec, pod_phase = PodRunning,
     pod_containers = [\<lparr>cs_name = ''server'', cs_running = Some 1000000000, cs_terminated = None\<rparr>],
     pod_inits = []\<rparr>"

definition ex_crashed_pod :: pod where
  "ex_crashed_pod = ex_pod\<lparr>pod_containers := [\<lparr>cs_name = ''server'', cs_running = None, cs_terminated = Some ex_term\<rparr>]\<rparr>"

definition ex_tenant :: tenant where
  "ex_tenant = \<lparr>tn_meta = new_meta ''acme'' [],
     tn_display_name = ''Acme'', tn_quota = \<lparr>tq_cpu = 4, tq_memory = 8, tq_storage = 16, tq_max_gameservers = 3,
       tq_backups = Some \<lparr>tb_max_per_server = 2, tb_max_per_org = 5, tb_retention_days = 7\<rparr>,
       tq_extra_registries = [], tq_audit_days = None\<rparr>,
     tn_status = \<lparr>tst_phase = TnUnset, tst_namespace = [], tst_observed_generation = 0, tst_conditions = []\<rparr>\<rparr>"

definition ex_backup :: backup where
  "ex_backup = \<lparr>bk_meta = (new_meta ''mc-1'' ''hatchery-acme'')\<lparr>om_finalizers := [GameServerBackupFinalizer]\<rparr>,
     bk_spec = \<lparr>bks_gameserver = ''mc'',
       bks_s3 = \<lparr>s3_endpoint = ''s3'', s3_bucket = ''b'', s3_prefix = ''acme/mc'', s3_secret = ''sec''\<rparr>\<rparr>,
     bk_status = \<lparr>bst_phase = BkUnset, bst_job_name = [], bst_start = None, bst_completion = None,
       bst_quiesce = None, bst_conditions = []\<rparr>\<rparr>"

definition ex_restore :: restore where
  "ex_restore = \<lparr>rs_meta = (new_meta ''mc-r'' ''hatchery-acme'')\<lparr>om_finalizers := [GameServerRestoreFinalizer]\<rparr>,
     rs_spec = \<lparr>rss_gameserver = ''mc'', rss_backup = ''mc-1''\<rparr>,
     rs_status = \<lparr>rst_phase = RsUnset, rst_job_name = [], rst_start = None, rst_completion = None\<rparr>\<rparr>"

definition ex_task :: schedule_task where
  "ex_task = \<lparr>tk_action = ActCommand, tk_command = ''say hi'', tk_delay_seconds = 0, tk_keep_last = 0\<rparr>"

definition ex_schedule :: schedule where
  "ex_schedule = \<lparr>sch_meta = new_meta ''nightly'' ''hatchery-acme'',
     sch_spec = \<lparr>scs_gameserver = ''mc'', scs_display_name = ''Nightly'', scs_cron = ''0 4 * * *'', scs_time_zone = [], scs_suspend = False,
       scs_only_when_running = False, scs_tasks = [ex_task]\<rparr>,
     sch_status = \<lparr>sst_next = None, sst_last = None, sst_last_run = None, sst_active = None,
       sst_last_run_now = [], sst_conditions = []\<rparr>\<rparr>"

lemmas ex_defs = ex_meta_def ex_egg_def ex_gs_def ex_pod_spec_def ex_term_def ex_pod_def ex_crashed_pod_def
  ex_tenant_def ex_backup_def ex_restore_def ex_task_def ex_schedule_def new_meta_def

end
