(* ===== verification/Backup_Plan.thy ===== *)
theory Backup_Plan
  imports Samples
begin

text \<open>
  \<open>internal/backupplan/plan.go\<close>: where a server's next backup goes, the limits of the platform's
  own storage, and the credentials the backup is taken with. The Panel and the operator's
  schedules share it.
\<close>

definition PlatformSecret :: string where
  "PlatformSecret = ''hatchery-backup-platform''"
definition ConnectionSecretPrefix :: string where
  "ConnectionSecretPrefix = ''hatchery-s3-''"
definition ConnectionLabel :: string where
  "ConnectionLabel = ''gameservers.hatchery.io/backup-connection''"
definition PlatformConnection :: string where
  "PlatformConnection = ''platform''"

definition ConnectionSecretName :: "string \<Rightarrow> string" where
  "ConnectionSecretName name = ConnectionSecretPrefix @ name"

record platform =
  pf_endpoint :: string
  pf_bucket :: string
  pf_secret_ns :: string
  pf_secret_name :: string

definition Enabled :: "platform \<Rightarrow> bool" where
  "Enabled p \<longleftrightarrow> pf_bucket p \<noteq> [] \<and> pf_secret_name p \<noteq> []"

definition OrgLimits :: "'w k8s \<Rightarrow> platform \<Rightarrow> string \<Rightarrow> ('w, tenant_backup_quota option) io" where
  "OrgLimits k P orgSlug = (if \<not> Enabled P then ret None
     else bindE (found_or_none (r_get (k_tenant k) [] orgSlug)) (\<lambda>r. case r of
         None \<Rightarrow> ret None
       | Some t \<Rightarrow> ret (tq_backups (tn_quota t))))"

definition CountsForLimits :: "backup \<Rightarrow> bool" where
  "CountsForLimits b \<longleftrightarrow> sget (om_labels (bk_meta b)) BackupDestinationLabel = PlatformConnection \<and>
     bst_phase (bk_status b) \<noteq> BkFailed \<and> om_deletion (bk_meta b) = None"

definition ConnectionBuckets :: "klib \<Rightarrow> secret \<Rightarrow> string \<times> string list" where
  "ConnectionBuckets L sec = (sget (sec_data sec) ''endpoint'', lib_json_strings L (sget (sec_data sec) ''buckets''))"

definition ObjectName :: "string \<Rightarrow> time \<Rightarrow> string" where
  "ObjectName server now = take 40 server @ ''-'' @ formatInt (unix now) 36"

definition RandomToken :: "'w k8s \<Rightarrow> nat \<Rightarrow> ('w, string) io" where
  "RandomToken k n = k_random k n"

text \<open>The org's copy of the platform's credentials; its restic password is made once.\<close>

definition ensurePlatformBackupSecret :: "'w k8s \<Rightarrow> platform \<Rightarrow> string \<Rightarrow> ('w, unit) io" where
  "ensurePlatformBackupSecret k P ns =
     bindE (r_get (k_secret k) (pf_secret_ns P) (pf_secret_name P)) (\<lambda>src.
     let access = sget (sec_data src) ''access-key''; secret = sget (sec_data src) ''secret-key'' in
     if access = [] \<or> secret = [] then
       throw (MsgErr (Msg ''secret %s/%s needs access-key and secret-key'' [AStr (pf_secret_ns P), AStr (pf_secret_name P)]))
     else bindE (found_or_none (r_get (k_secret k) ns PlatformSecret)) (\<lambda>r. case r of
         None \<Rightarrow> bindE (RandomToken k 24) (\<lambda>password.
           thenE (r_create (k_secret k)
             \<lparr>sec_meta = new_meta PlatformSecret ns,
              sec_data = [''access-key'' \<mapsto> access, ''secret-key'' \<mapsto> secret, ''restic-password'' \<mapsto> password]\<rparr>)
             (ret ()))
       | Some dst \<Rightarrow>
           if sget (sec_data dst) ''access-key'' \<noteq> access \<or> sget (sec_data dst) ''secret-key'' \<noteq> secret
           then thenE (r_update (k_secret k)
             (dst\<lparr>sec_data := (sec_data dst)(''access-key'' \<mapsto> access, ''secret-key'' \<mapsto> secret)\<rparr>)) (ret ())
           else ret ()))"

definition perOrg :: "backup list \<Rightarrow> int" where
  "perOrg items = int (length (filter CountsForLimits items))"

definition perServer :: "string \<Rightarrow> backup list \<Rightarrow> int" where
  "perServer server items =
     int (length (filter (\<lambda>b. CountsForLimits b \<and> sget (om_labels (bk_meta b)) BackupGameServerLabel = server) items))"

text \<open>The branch of \<open>Plan\<close> for the platform's storage: the destination and the annotations.\<close>

definition planPlatform ::
  "'w k8s \<Rightarrow> platform \<Rightarrow> string \<Rightarrow> string \<Rightarrow> string \<Rightarrow> ('w, s3_destination \<times> smap) io" where
  "planPlatform k P ns server orgSlug =
     bindE (OrgLimits k P orgSlug) (\<lambda>lim. case lim of
       None \<Rightarrow> throw (ConflictErr (Msg ''the platform's backup storage is not available for this organization'' []))
     | Some limits \<Rightarrow>
       bindE (r_list (k_backup k) (Some ns) []) (\<lambda>items.
       if tb_max_per_server limits \<le> perServer server items then
         throw (ConflictErr (Msg ''backup limit reached: this server may keep at most %d backup(s) on the platform's storage; delete one first'' [AInt (tb_max_per_server limits)]))
       else if tb_max_per_org limits \<le> perOrg items then
         throw (ConflictErr (Msg ''backup limit reached: the organization may keep at most %d backup(s) on the platform's storage; delete one first'' [AInt (tb_max_per_org limits)]))
       else thenE (wrapE ''could not prepare the platform's backup credentials: '' (ensurePlatformBackupSecret k P ns))
         (bindE (gets (k_now k)) (\<lambda>now.
           ret (\<lparr>s3_endpoint = pf_endpoint P, s3_bucket = pf_bucket P, s3_prefix = orgSlug @ ''/'' @ server,
                 s3_secret = PlatformSecret\<rparr>,
                [BackupExpiresAtAnnotation \<mapsto>
                   lib_format_time (k_lib k) (now + wrap64 (tb_retention_days limits * 24 * hour))])))))"

text \<open>The branch for one of the organization's S3 connections.\<close>

definition planConnection :: "'w k8s \<Rightarrow> string \<Rightarrow> string \<Rightarrow> backup_target \<Rightarrow> ('w, s3_destination \<times> smap) io" where
  "planConnection k ns server target =
     bindE (found_or_none (r_get (k_secret k) ns (ConnectionSecretName (bt_connection target)))) (\<lambda>r. case r of
       None \<Rightarrow> throw (ConflictErr (Msg ''the connection %q no longer exists: choose this server's backup destination again'' [AStr (bt_connection target)]))
     | Some sec \<Rightarrow>
       (case ConnectionBuckets (k_lib k) sec of (endpoint, buckets) \<Rightarrow>
        if \<not> List.member buckets (bt_bucket target) then
          throw (ConflictErr (Msg ''bucket %q is no longer one of connection %q: choose this server's backup destination again'' [AStr (bt_bucket target), AStr (bt_connection target)]))
        else ret (\<lparr>s3_endpoint = endpoint, s3_bucket = bt_bucket target,
                   s3_prefix = (if bt_prefix target = [] then server else bt_prefix target),
                   s3_secret = om_name (sec_meta sec)\<rparr>, Map.empty)))"

definition Plan :: "'w k8s \<Rightarrow> platform \<Rightarrow> gameserver \<Rightarrow> string \<Rightarrow> ('w, backup) io" where
  "Plan k P gs orgSlug =
     (let ns = om_namespace (gs_meta gs); server = om_name (gs_meta gs);
          missing = throw (ConflictErr (Msg ''choose where this server's backups go first'' [])) in
      case gss_backup_target (gs_spec gs) of
        None \<Rightarrow> missing
      | Some target \<Rightarrow>
        if bt_connection target = [] then missing
        else bindE (if bt_connection target = PlatformConnection then planPlatform k P ns server orgSlug
                    else planConnection k ns server target) (\<lambda>(s3, annotations).
          bindE (gets (k_now k)) (\<lambda>now.
          ret \<lparr>bk_meta = (new_meta (ObjectName server now) ns)\<lparr>om_annotations := annotations,
                  om_labels := [BackupGameServerLabel \<mapsto> server, BackupDestinationLabel \<mapsto> bt_connection target]\<rparr>,
               bk_spec = \<lparr>bks_gameserver = server, bks_s3 = s3\<rparr>,
               bk_status = \<lparr>bst_phase = BkUnset, bst_job_name = [], bst_start = None, bst_completion = None,
                            bst_quiesce = None, bst_conditions = []\<rparr>\<rparr>)))"

text \<open>One retry, with a random suffix, when the name is taken.\<close>

definition retryName :: "backup \<Rightarrow> string \<Rightarrow> backup" where
  "retryName b suffix = b\<lparr>bk_meta := (bk_meta b)\<lparr>om_name := om_name (bk_meta b) @ ''-'' @
     toLower (filter (\<lambda>c. c \<noteq> CHR ''-'' \<and> c \<noteq> CHR ''_'') suffix)\<rparr>\<rparr>"

definition Create :: "'w k8s \<Rightarrow> backup \<Rightarrow> ('w, backup) io" where
  "Create k bkp = bindE (attempt (r_create (k_backup k) bkp)) (\<lambda>r. case r of
      Inr b \<Rightarrow> ret b
    | Inl e \<Rightarrow> if is_already_exists e then
        bindE (attempt (RandomToken k 3)) (\<lambda>t.
          r_create (k_backup k) (retryName bkp (case t of Inl _ \<Rightarrow> [] | Inr s \<Rightarrow> s)))
      else throw e)"

section \<open>Lemmas\<close>

text \<open>A backup's name is also its Job's: it stays within the 63 characters of a label value.\<close>

lemma ObjectName_length:
  assumes "0 \<le> now" and "now < 2 ^ 63" shows "length (ObjectName server now) \<le> 63"
proof -
  have "nat (unix now) < 36 ^ Suc 11"
    using assms by (simp add: unix_def second_def nat_less_iff)
  moreover have "0 \<le> unix now" using assms by (simp add: unix_def second_def)
  ultimately show ?thesis
    using formatNat_length [of 36 "nat (unix now)" 11] by (simp add: ObjectName_def formatInt_def)
qed

text \<open>
  What the planner writes is at most the org's platform Secret: it is created, with a fresh restic
  password, only after a lookup answered NotFound, and an existing one keeps every key but the two
  it was asked to rotate.
\<close>

definition password_rule :: "string \<Rightarrow> event set \<Rightarrow> event \<Rightarrow> bool" where
  "password_rule ns before e \<longleftrightarrow>
     (\<forall>s ok. e = EvUpdate (OSecret s) ok \<longrightarrow>
        (\<exists>dst. EvGot ns PlatformSecret (OSecret dst) \<in> before \<and> sec_meta s = sec_meta dst \<and>
           (\<forall>key. key \<notin> {''access-key'', ''secret-key''} \<longrightarrow> sec_data s key = sec_data dst key))) \<and>
     (\<forall>s ok. e = EvCreate (OSecret s) ok \<longrightarrow> EvGetFailed ns PlatformSecret True \<in> before)"

abbreviation keeps_password :: "string \<Rightarrow> event list \<Rightarrow> bool" where
  "keeps_password ns \<equiv> guarded (password_rule ns)"

lemma ensurePlatformBackupSecret_keeps:
  "logs (keeps_password ns) (ensurePlatformBackupSecret (logging k) P ns) (\<lambda>_. keeps_password ns) (\<lambda>_. keeps_password ns)"
  unfolding ensurePlatformBackupSecret_def Let_def RandomToken_def logging_kinds
  apply (rule logs_bindE [where R = "\<lambda>_. keeps_password ns"])
   apply (rule log_rules; simp add: password_rule_def)
  apply (rule logs_if)
   apply (rule logs_throw, simp)
  apply (rule logs_bindE [where R = "\<lambda>r l. keeps_password ns l \<and> (case r of
      None \<Rightarrow> EvGetFailed ns PlatformSecret True \<in> set l
    | Some dst \<Rightarrow> EvGot ns PlatformSecret (OSecret dst) \<in> set l)"])
   apply (rule logs_found_or_none, rule log_rules; simp add: password_rule_def)
  apply (rule logs_case_option)
   apply (rule logs_bindE [where R = "\<lambda>_ l. keeps_password ns l \<and> EvGetFailed ns PlatformSecret True \<in> set l"])
    apply (rule log_rules; simp add: password_rule_def)
   apply (rule logs_bindE [where R = "\<lambda>_. keeps_password ns"])
    apply (rule log_rules; simp add: password_rule_def)
   apply (rule logs_ret, simp)
  apply (rule logs_if)
   apply (rule logs_bindE [where R = "\<lambda>_. keeps_password ns"])
    apply (rule log_rules; auto simp: password_rule_def)
   apply (rule logs_ret, simp)
  apply (rule logs_ret, simp)
  done

lemma planPlatform_ok:
  assumes "planPlatform k P ns server org w = (Inr (s3, anns), w')"
  shows "\<exists>lim items w1 w2. OrgLimits k P org w = (Inr (Some lim), w1) \<and>
           r_list (k_backup k) (Some ns) [] w1 = (Inr items, w2) \<and>
           perServer server items < tb_max_per_server lim \<and> perOrg items < tb_max_per_org lim \<and>
           s3_secret s3 = PlatformSecret \<and> s3_bucket s3 = pf_bucket P \<and> s3_prefix s3 = org @ ''/'' @ server"
  using assms unfolding planPlatform_def
  by (fastforce simp: bindE_Inr throw_def ret_def gets_def split: option.splits if_splits)

text \<open>A call that writes no Secret leaves the assertion alone.\<close>

definition no_secret_write :: "event \<Rightarrow> bool" where
  "no_secret_write e \<longleftrightarrow> (case e of EvUpdate (OSecret s) ok \<Rightarrow> False | EvCreate (OSecret s) ok \<Rightarrow> False | _ \<Rightarrow> True)"

lemma keeps_password_quiet:
  "only no_secret_write m \<Longrightarrow> logs (keeps_password ns) m (\<lambda>_. keeps_password ns) (\<lambda>_. keeps_password ns)"
  by (erule logs_guarded_only) (auto simp: no_secret_write_def password_rule_def)

lemma OrgLimits_quiet: "only no_secret_write (OrgLimits (logging k) P org)"
  unfolding OrgLimits_def logging_kinds
  by (intro only_rules only_calls) (simp_all add: no_secret_write_def)

lemma planConnection_quiet: "only no_secret_write (planConnection (logging k) ns server target)"
  unfolding planConnection_def logging_kinds
  by (intro only_rules only_calls) (simp_all add: no_secret_write_def)

lemma planPlatform_keeps:
  "logs (keeps_password ns) (planPlatform (logging k) P ns server org)
     (\<lambda>_. keeps_password ns) (\<lambda>_. keeps_password ns)"
  unfolding planPlatform_def
  apply (rule logs_bindE [OF keeps_password_quiet [OF OrgLimits_quiet]])
  apply (rule logs_case_option, rule logs_throw, assumption)
  apply (rule logs_bindE [where R = "\<lambda>_. keeps_password ns"])
   apply (simp, rule log_rules; simp add: password_rule_def)
  apply (intro logs_if logs_throw, assumption, assumption)
  apply (rule logs_bindE [where R = "\<lambda>_. keeps_password ns"])
   apply (intro logs_wrapE ensurePlatformBackupSecret_keeps)
  apply (rule keeps_password_quiet)
  apply (intro only_rules)
  done

text \<open>
  Whatever the API server answers, planning a backup never regenerates the organization's
  restic password: the platform Secret is created only after a lookup of it answered NotFound, and
  an update of it keeps the metadata and every key but the access and secret key.
\<close>

theorem Plan_password:
  "guarded (password_rule (om_namespace (gs_meta gs))) (trace (Plan (logging k) P gs org) w)"
proof (rule trace_guarded)
  let ?I = "keeps_password (om_namespace (gs_meta gs))"
  show "logs ?I (Plan (logging k) P gs org) (\<lambda>_. ?I) (\<lambda>_. ?I)"
    unfolding Plan_def Let_def
    by (intro logs_case_option logs_if logs_bindE [where R = "\<lambda>_. ?I"] logs_case_prod logs_throw logs_ret logs_gets
        planPlatform_keeps keeps_password_quiet [OF planConnection_quiet]) auto
qed

text \<open>
  C37: a backup planned for the platform's storage is within both limits the organization has there:
  when \<open>Plan\<close> succeeds, the backups it listed that count for the limits, of the server and of the
  whole organization, are fewer than the maximum, and the destination is the platform's bucket under
  the organization's and the server's own prefix.
\<close>

theorem Plan_limits:
  assumes "Plan k P gs org w = (Inr b, w')"
    and "gss_backup_target (gs_spec gs) = Some t" and "bt_connection t = PlatformConnection"
  shows "\<exists>lim items w1 w2. OrgLimits k P org w = (Inr (Some lim), w1) \<and>
           r_list (k_backup k) (Some (om_namespace (gs_meta gs))) [] w1 = (Inr items, w2) \<and>
           perServer (om_name (gs_meta gs)) items < tb_max_per_server lim \<and> perOrg items < tb_max_per_org lim \<and>
           s3_secret (bks_s3 (bk_spec b)) = PlatformSecret \<and> s3_bucket (bks_s3 (bk_spec b)) = pf_bucket P \<and>
           s3_prefix (bks_s3 (bk_spec b)) = org @ ''/'' @ om_name (gs_meta gs)"
proof -
  from assms obtain s3 anns v where
    "planPlatform k P (om_namespace (gs_meta gs)) (om_name (gs_meta gs)) org w = (Inr (s3, anns), v)"
    and "bks_s3 (bk_spec b) = s3"
    by (auto simp: Plan_def Let_def bindE_Inr ret_def throw_def split: if_splits)
  then show ?thesis using planPlatform_ok by metis
qed

section \<open>Concrete instances\<close>

text \<open>The properties applied to concrete objects, where their hypotheses hold.\<close>

definition plan_k8s :: "unit k8s" where
  "plan_k8s = absent_k8s\<lparr>k_tenant := accept_rest\<lparr>r_get := (\<lambda>_ _. ret ex_tenant)\<rparr>, k_backup := accept_rest,
     k_secret := accept_rest\<lparr>r_get := (\<lambda>ns n. ret \<lparr>sec_meta = new_meta n ns,
       sec_data = [''access-key'' \<mapsto> ''a'', ''secret-key'' \<mapsto> ''s'']\<rparr>)\<rparr>\<rparr>"

definition ex_platform :: platform where
  "ex_platform = \<lparr>pf_endpoint = ''s3'', pf_bucket = ''b'', pf_secret_ns = ''hatchery-system'', pf_secret_name = ''platform''\<rparr>"

theorem Plan_limits_witness:
  "\<exists>b w' lim. Plan plan_k8s ex_platform ex_gs ''acme'' () = (Inr b, w') \<and>
     OrgLimits plan_k8s ex_platform ''acme'' () = (Inr (Some lim), ()) \<and> s3_prefix (bks_s3 (bk_spec b)) = ''acme/mc''"
proof -
  have "succeeded (fst (Plan plan_k8s ex_platform ex_gs ''acme'' ()))" by code_simp
  then obtain b w' where b: "Plan plan_k8s ex_platform ex_gs ''acme'' () = (Inr b, w')" by (rule succeededE)
  have t: "gss_backup_target (gs_spec ex_gs) = Some \<lparr>bt_connection = ''platform'', bt_bucket = [], bt_prefix = []\<rparr>"
    "om_name (gs_meta ex_gs) = ''mc''" by (simp_all add: ex_defs)
  from Plan_limits [OF b t(1)] b t(2) show ?thesis by (fastforce simp: PlatformConnection_def)
qed

end
