(* ===== verification/Ports.thy ===== *)
theory Ports
  imports Egg_Validate
begin

text \<open>
  \<open>api/v1alpha1/extraports.go\<close>: the ports a server listens on, the Egg's and its own extra
  ports, and the check the webhook and the Panel make of the extra ports. A Go
  \<open>map[string]bool\<close> used as a set is a set of its keys.
\<close>

definition MaxExtraPorts :: nat where
  "MaxExtraPorts = 5"

definition sftpPort :: int where
  "sftpPort = 2022"

text \<open>\<open>^[a-z]([a-z0-9-]{0,13}[a-z0-9])?$\<close>\<close>

definition extraPortName :: "string \<Rightarrow> bool" where
  "extraPortName s = (case s of [] \<Rightarrow> False
     | c # r \<Rightarrow> isLowerA c \<and> length r \<le> 14 \<and>
         (r = [] \<or> (isLowerA (last r) \<or> isDigit (last r)) \<and>
            list_all (\<lambda>x. isLowerA x \<or> isDigit x \<or> x = CHR ''-'') (butlast r)))"

definition eggPortProtocol :: "egg_port \<Rightarrow> protocol" where
  "eggPortProtocol p = (if ep_protocol p = ProtoUnset then TCP else ep_protocol p)"

definition normEggPort :: "egg_port \<Rightarrow> egg_port" where
  "normEggPort p = p\<lparr>ep_protocol := eggPortProtocol p\<rparr>"

type_synonym port_key = "int \<times> protocol"

definition eggPortKey :: "egg_port \<Rightarrow> port_key" where
  "eggPortKey p = (ep_container_port p, ep_protocol p)"

definition extraPortKey :: "extra_port \<Rightarrow> port_key" where
  "extraPortKey x = (xp_port x, xp_protocol x)"

text \<open>The second loop of \<open>EffectivePorts\<close>: an extra port whose name or number is taken is dropped.\<close>

fun addExtraPorts :: "string set \<Rightarrow> port_key set \<Rightarrow> extra_port list \<Rightarrow> egg_port list" where
  "addExtraPorts names numbers [] = []"
| "addExtraPorts names numbers (x # xs) =
     (if xp_name x \<in> names \<or> extraPortKey x \<in> numbers then addExtraPorts names numbers xs
      else \<lparr>ep_name = xp_name x, ep_container_port = xp_port x, ep_protocol = xp_protocol x, ep_default = False\<rparr>
           # addExtraPorts (insert (xp_name x) names) (insert (extraPortKey x) numbers) xs)"

definition EffectivePorts :: "egg \<Rightarrow> gameserver \<Rightarrow> egg_port list" where
  "EffectivePorts e gs =
     (let eggs = map normEggPort (es_ports (egg_spec e))
      in eggs @ addExtraPorts (ep_name ` set eggs) (eggPortKey ` set eggs) (gss_extra_ports (gs_spec gs)))"

text \<open>
  The maps of \<open>ValidateExtraPorts\<close> remember who owns a name or a number, for the message.
\<close>

fun validateExtras :: "(string \<Rightarrow> string option) \<Rightarrow> (port_key \<Rightarrow> msg option) \<Rightarrow> extra_port list \<Rightarrow> msg list" where
  "validateExtras names numbers [] = []"
| "validateExtras names numbers (x # xs) =
     (if \<not> extraPortName (xp_name x) then
        [Msg ''%q: name must be lowercase letters, digits and '-', start with a letter and have at most 15 characters''
           [AStr (xp_name x)]] else [])
   @ (if xp_port x < 1024 \<or> 65535 < xp_port x then
        [Msg ''%q: port must be between 1024 and 65535'' [AStr (xp_name x)]] else [])
   @ (if xp_protocol x \<noteq> TCP \<and> xp_protocol x \<noteq> UDP then
        [Msg ''%q: protocol must be TCP or UDP'' [AStr (xp_name x)]] else [])
   @ (case names (xp_name x) of None \<Rightarrow> []
      | Some owner \<Rightarrow> [Msg ''%q: name already used by %s'' [AStr (xp_name x), AStr owner]])
   @ (case numbers (extraPortKey x) of None \<Rightarrow> []
      | Some (Msg f as) \<Rightarrow> [Msg ''%q: %d/%s is already used by %s''
           ([AStr (xp_name x), AInt (xp_port x), AStr (protocol_str (xp_protocol x)), AStr f] @ as)])
   @ validateExtras (names(xp_name x \<mapsto> ''another extra port''))
       (numbers(extraPortKey x \<mapsto> Msg ''extra port %q'' [AStr (xp_name x)])) xs"

definition eggNameOwners :: "egg_port list \<Rightarrow> string \<Rightarrow> string option" where
  "eggNameOwners ps = foldl (\<lambda>m p. m(ep_name p \<mapsto> ''a port of the Egg'')) Map.empty ps"

definition eggNumberOwners :: "egg_port list \<Rightarrow> port_key \<Rightarrow> msg option" where
  "eggNumberOwners ps = foldl (\<lambda>m p. m((ep_container_port p, eggPortProtocol p) \<mapsto> Msg ''the Egg's port %q'' [AStr (ep_name p)]))
     [(sftpPort, TCP) \<mapsto> Msg ''the SFTP port'' []] ps"

definition ValidateExtraPorts :: "egg \<Rightarrow> extra_port list \<Rightarrow> msg list" where
  "ValidateExtraPorts e extras =
     (if MaxExtraPorts < length extras then [Msg ''at most %d extra ports'' [AInt (int MaxExtraPorts)]] else [])
   @ validateExtras (eggNameOwners (es_ports (egg_spec e))) (eggNumberOwners (es_ports (egg_spec e))) extras"

section \<open>Lemmas\<close>

lemma dom_foldl_upd: "dom (foldl (\<lambda>m p. m(f p \<mapsto> g p)) m ps) = dom m \<union> f ` set ps"
  by (induction ps arbitrary: m) auto

lemma dom_eggNameOwners: "dom (eggNameOwners ps) = ep_name ` set ps"
  by (simp add: eggNameOwners_def dom_foldl_upd)

lemma dom_eggNumberOwners:
  "dom (eggNumberOwners ps) = insert (sftpPort, TCP) ((\<lambda>p. (ep_container_port p, eggPortProtocol p)) ` set ps)"
  by (simp add: eggNumberOwners_def dom_foldl_upd)

lemma normEggPort_simps [simp]:
  "ep_name (normEggPort p) = ep_name p"
  "eggPortKey (normEggPort p) = (ep_container_port p, eggPortProtocol p)"
  by (simp_all add: normEggPort_def eggPortKey_def)

text \<open>No output of the second loop collides with what came before it, nor with another output.\<close>

lemma addExtraPorts_fresh:
  "p \<in> set (addExtraPorts names numbers xs) \<Longrightarrow> ep_name p \<notin> names \<and> eggPortKey p \<notin> numbers"
  by (induction names numbers xs rule: addExtraPorts.induct)
     (auto simp: eggPortKey_def extraPortKey_def split: if_splits)

lemma addExtraPorts_disjoint:
  "names \<inter> set (map ep_name (addExtraPorts names numbers xs)) = {}"
  "numbers \<inter> set (map eggPortKey (addExtraPorts names numbers xs)) = {}"
  using addExtraPorts_fresh by auto

lemma addExtraPorts_distinct:
  "distinct (map ep_name (addExtraPorts names numbers xs)) \<and>
   distinct (map eggPortKey (addExtraPorts names numbers xs))"
proof (induction names numbers xs rule: addExtraPorts.induct)
  case (2 names numbers x xs)
  then show ?case
    by (auto simp: eggPortKey_def extraPortKey_def dest: addExtraPorts_fresh)
qed simp

lemma addExtraPorts_subset:
  "p \<in> set (addExtraPorts names numbers xs) \<Longrightarrow>
   \<exists>x \<in> set xs. ep_name p = xp_name x \<and> eggPortKey p = extraPortKey x"
  by (induction names numbers xs rule: addExtraPorts.induct)
     (auto simp: eggPortKey_def extraPortKey_def split: if_splits)

lemma validateExtras_Nil [simp]:
  "validateExtras nm num (x # xs) = [] \<longleftrightarrow>
     extraPortName (xp_name x) \<and> 1024 \<le> xp_port x \<and> xp_port x \<le> 65535 \<and> xp_protocol x \<in> {TCP, UDP} \<and>
     nm (xp_name x) = None \<and> num (extraPortKey x) = None \<and>
     validateExtras (nm(xp_name x \<mapsto> ''another extra port''))
       (num(extraPortKey x \<mapsto> Msg ''extra port %q'' [AStr (xp_name x)])) xs = []"
  by (cases "nm (xp_name x)"; cases "num (extraPortKey x)") (auto split: msg.splits)

declare validateExtras.simps(2) [simp del]

lemma addExtraPorts_all:
  assumes "validateExtras nm num xs = []" and "names \<subseteq> dom nm" and "numbers \<subseteq> dom num"
  shows "length (addExtraPorts names numbers xs) = length xs"
  using assms
proof (induction xs arbitrary: nm num names numbers)
  case (Cons x xs)
  have "nm (xp_name x) = None" "num (extraPortKey x) = None" using Cons.prems(1) by simp_all
  with Cons.prems(2,3) have new: "xp_name x \<notin> names" "extraPortKey x \<notin> numbers" by auto
  have "length (addExtraPorts (insert (xp_name x) names) (insert (extraPortKey x) numbers) xs) = length xs"
    by (rule Cons.IH [where nm = "nm(xp_name x \<mapsto> ''another extra port'')" and
          num = "num(extraPortKey x \<mapsto> Msg ''extra port %q'' [AStr (xp_name x)])"])
       (use Cons.prems in \<open>auto simp del: fun_upd_apply\<close>)
  with new show ?case by simp
qed simp

lemma validateExtras_ok:
  assumes "validateExtras nm num xs = []" and "x \<in> set xs"
  shows "extraPortName (xp_name x) \<and> 1024 \<le> xp_port x \<and> xp_port x \<le> 65535 \<and> xp_protocol x \<in> {TCP, UDP} \<and>
         xp_name x \<notin> dom nm \<and> extraPortKey x \<notin> dom num"
  using assms
proof (induction xs arbitrary: nm num)
  case (Cons y ys)
  show ?case
  proof (cases "x = y")
    case True
    with Cons.prems(1) show ?thesis by (simp add: domIff)
  next
    case False
    then have "x \<in> set ys" using Cons.prems by simp
    have "validateExtras (nm(xp_name y \<mapsto> ''another extra port''))
        (num(extraPortKey y \<mapsto> Msg ''extra port %q'' [AStr (xp_name y)])) ys = []"
      using Cons.prems(1) by (simp only: validateExtras_Nil)
    from Cons.IH [OF this \<open>x \<in> set ys\<close>] show ?thesis by (simp del: fun_upd_apply)
  qed
qed simp

lemma EffectivePorts_distinct_names:
  assumes "distinct (map ep_name (es_ports (egg_spec e)))"
  shows "distinct (map ep_name (EffectivePorts e gs))"
proof -
  let ?E = "map normEggPort (es_ports (egg_spec e))"
  let ?A = "addExtraPorts (ep_name ` set ?E) (eggPortKey ` set ?E) (gss_extra_ports (gs_spec gs))"
  have "map ep_name ?E = map ep_name (es_ports (egg_spec e))" by simp
  with assms have E: "distinct (map ep_name ?E)" by (simp only:)
  have A: "distinct (map ep_name ?A)" using addExtraPorts_distinct by blast
  have EA: "set (map ep_name ?E) \<inter> set (map ep_name ?A) = {}"
    unfolding set_map [of ep_name ?E] by (rule addExtraPorts_disjoint)
  show ?thesis
    unfolding EffectivePorts_def Let_def map_append distinct_append by (intro conjI E A EA)
qed

lemma EffectivePorts_distinct_keys:
  assumes "distinct (map (\<lambda>p. (ep_container_port p, eggPortProtocol p)) (es_ports (egg_spec e)))"
  shows "distinct (map eggPortKey (EffectivePorts e gs))"
proof -
  let ?E = "map normEggPort (es_ports (egg_spec e))"
  let ?A = "addExtraPorts (ep_name ` set ?E) (eggPortKey ` set ?E) (gss_extra_ports (gs_spec gs))"
  have "map eggPortKey ?E = map (\<lambda>p. (ep_container_port p, eggPortProtocol p)) (es_ports (egg_spec e))"
    by simp
  with assms have E: "distinct (map eggPortKey ?E)" by (simp only:)
  have A: "distinct (map eggPortKey ?A)" using addExtraPorts_distinct by blast
  have EA: "set (map eggPortKey ?E) \<inter> set (map eggPortKey ?A) = {}"
    unfolding set_map [of eggPortKey ?E] by (rule addExtraPorts_disjoint)
  show ?thesis
    unfolding EffectivePorts_def Let_def map_append distinct_append by (intro conjI E A EA)
qed

lemma EffectivePorts_all:
  assumes "ValidateExtraPorts e (gss_extra_ports (gs_spec gs)) = []"
  shows "length (EffectivePorts e gs) = length (es_ports (egg_spec e)) + length (gss_extra_ports (gs_spec gs))"
proof -
  let ?ps = "es_ports (egg_spec e)"
  have v: "validateExtras (eggNameOwners ?ps) (eggNumberOwners ?ps) (gss_extra_ports (gs_spec gs)) = []"
    using assms by (simp add: ValidateExtraPorts_def)
  have "length (addExtraPorts (ep_name ` set (map normEggPort ?ps)) (eggPortKey ` set (map normEggPort ?ps))
          (gss_extra_ports (gs_spec gs))) = length (gss_extra_ports (gs_spec gs))"
    by (rule addExtraPorts_all [OF v])
       (auto simp: dom_eggNameOwners dom_eggNumberOwners image_image)
  then show ?thesis by (simp add: EffectivePorts_def Let_def)
qed

end
