(* ===== verification/Egg_Variables.thy ===== *)
theory Egg_Variables
  imports Egg_Validate
begin

text \<open>
  \<open>api/v1alpha1/images.go\<close>, \<open>startcommand.go\<close> and \<open>variables.go\<close>: choosing the Egg's image,
  checking a start command against the declared variables, checking a server's variable
  overrides.
\<close>

section \<open>Images\<close>

definition ResolveImage :: "egg \<Rightarrow> string \<Rightarrow> string option" where
  "ResolveImage e name = (case es_images (egg_spec e) of [] \<Rightarrow> None
     | i # _ \<Rightarrow> if name = [] then Some (img_image i)
                else map_option img_image (find (\<lambda>j. img_name j = name) (es_images (egg_spec e))))"

section \<open>Start commands\<close>

definition MaxStartCommandLength :: nat where
  "MaxStartCommandLength = 4096"

definition identStart :: "char \<Rightarrow> bool" where
  "identStart c \<longleftrightarrow> isUpperA c \<or> isLowerA c \<or> c = CHR ''_''"

definition identChar :: "char \<Rightarrow> bool" where
  "identChar c \<longleftrightarrow> identStart c \<or> isDigit c"

text \<open>
  One match of \<open>\{\{([A-Za-z_][A-Za-z0-9_]*)\}\}\<close> at the start of the string: the name and what follows.
  A brace is no identifier character, so the greedy name is the only candidate.
\<close>

definition matchPlaceholder :: "string \<Rightarrow> (string \<times> string) option" where
  "matchPlaceholder s =
     (if hasPrefix s ''{{'' then
        (let r = drop 2 s; name = takeWhile identChar r; rest = dropWhile identChar r
         in if name \<noteq> [] \<and> identStart (hd name) \<and> hasPrefix rest ''}}'' then Some (name, drop 2 rest) else None)
      else None)"

lemma matchPlaceholder_shorter:
  "matchPlaceholder s = Some (name, rest) \<Longrightarrow> length rest < length s"
proof -
  assume "matchPlaceholder s = Some (name, rest)"
  then have p: "hasPrefix s ''{{''" and r: "rest = drop 2 (dropWhile identChar (drop 2 s))"
    by (auto simp: matchPlaceholder_def Let_def split: if_splits)
  have "length (dropWhile identChar (drop 2 s)) \<le> length (drop 2 s)" by (rule length_dropWhile_le)
  moreover have "2 \<le> length s" using p by (auto simp: hasPrefix_iff)
  ultimately show ?thesis using r by simp
qed

text \<open>\<open>FindAllStringSubmatch(cmd, -1)\<close>: the names, leftmost first, without overlaps.\<close>

function placeholders :: "string \<Rightarrow> string list" where
  "placeholders [] = []"
| "placeholders (c # s) = (case matchPlaceholder (c # s) of
     None \<Rightarrow> placeholders s | Some (name, rest) \<Rightarrow> name # placeholders rest)"
  by pat_completeness auto
termination
  by (relation "measure length") (auto dest: matchPlaceholder_shorter)

definition EffectiveStartCommand :: "egg \<Rightarrow> string \<Rightarrow> string" where
  "EffectiveStartCommand e override = (if override \<noteq> [] then override else es_start_command (egg_spec e))"

text \<open>The first rune the loop refuses: a line break, or another control character.\<close>

definition singleLineMsg :: string where
  "singleLineMsg = ''start command must be a single line (use bash -c '' @ [CHR 0x27, CHR 0xE2, CHR 0x80, CHR 0xA6, CHR 0x27]
     @ '' for several steps)''"

fun firstBadRune :: "string \<Rightarrow> msg option" where
  "firstBadRune [] = None"
| "firstBadRune (c # s) =
     (if c = CHR 0x0A \<or> c = CHR 0x0D then Some (Msg singleLineMsg [])
      else if hasControl (c # take 1 s) \<and> \<not> hasControl (take 1 s) \<or> (of_char c :: nat) < 32 \<or> (of_char c :: nat) = 127
        then Some (Msg ''start command must not contain control characters'' [])
      else firstBadRune s)"

text \<open>The names used and not declared, each reported once.\<close>

fun undeclared :: "string set \<Rightarrow> string set \<Rightarrow> string list \<Rightarrow> string list" where
  "undeclared declared seen [] = []"
| "undeclared declared seen (n # ns) =
     (if n \<notin> declared \<and> n \<notin> seen then n # undeclared declared (insert n seen) ns
      else undeclared declared seen ns)"

definition ValidateStartCommand :: "egg \<Rightarrow> string \<Rightarrow> msg list" where
  "ValidateStartCommand e cmd =
     (if cmd = [] then []
      else if MaxStartCommandLength < length cmd
        then [Msg ''start command must have at most %d characters'' [AInt (int MaxStartCommandLength)]]
      else case firstBadRune cmd of Some m \<Rightarrow> [m]
        | None \<Rightarrow> map (\<lambda>n. Msg ''placeholder {{%s}} is not a variable declared by egg %q'' [AStr n, AStr (om_name (egg_meta e))])
            (undeclared (ev_var_name ` set (es_variables (egg_spec e))) {} (placeholders cmd)))"

section \<open>Variables\<close>

definition declaredVars :: "egg_variable list \<Rightarrow> string \<Rightarrow> egg_variable option" where
  "declaredVars vs = foldl (\<lambda>m v. m(ev_var_name v \<mapsto> v)) Map.empty vs"

definition defaultVars :: "egg_variable list \<Rightarrow> smap" where
  "defaultVars vs = foldl (\<lambda>m v. m(ev_var_name v \<mapsto> ev_default v)) Map.empty vs"

text \<open>The loop over the overrides: its messages and the resolved values it leaves.\<close>

fun checkOverrides :: "klib \<Rightarrow> string \<Rightarrow> (string \<Rightarrow> egg_variable option) \<Rightarrow> string set \<Rightarrow> smap \<Rightarrow>
    gs_variable list \<Rightarrow> msg list \<times> smap" where
  "checkOverrides L egg declared seen resolved [] = ([], resolved)"
| "checkOverrides L egg declared seen resolved (v # vs) =
     (case declared (gv_name v) of
        None \<Rightarrow> (case checkOverrides L egg declared seen resolved vs of (ms, r) \<Rightarrow>
          (Msg ''variable %q is not declared by egg %q'' [AStr (gv_name v), AStr egg] # ms, r))
      | Some d \<Rightarrow>
          if gv_name v \<in> seen then
            (case checkOverrides L egg declared seen resolved vs of (ms, r) \<Rightarrow>
              (Msg ''variable %q is set more than once'' [AStr (gv_name v)] # ms, r))
          else if \<not> ev_user_editable d then
            (case checkOverrides L egg declared seen resolved vs of (ms, r) \<Rightarrow>
              (Msg ''variable %q is not editable'' [AStr (gv_name v)] # ms, r))
          else
            (case checkOverrides L egg declared (insert (gv_name v) seen) (resolved(gv_name v \<mapsto> gv_value v)) vs of (ms, r) \<Rightarrow>
              ((if ev_validation_regex d = [] \<or> gv_value v = [] then []
                else case lib_regex L (ev_validation_regex d) of
                    None \<Rightarrow> [Msg ''variable %q has an invalid validationRegex in egg %q'' [AStr (gv_name v), AStr egg]]
                  | Some match \<Rightarrow> if \<not> match (gv_value v)
                      then [Msg ''variable %q does not match %s'' [AStr (gv_name v), AStr (ev_validation_regex d)]]
                      else [])
               @ ms, r)))"

definition ValidateVariableOverrides :: "klib \<Rightarrow> egg \<Rightarrow> gs_variable list \<Rightarrow> msg list" where
  "ValidateVariableOverrides L e vars =
     (let vs = es_variables (egg_spec e)
      in case checkOverrides L (om_name (egg_meta e)) (declaredVars vs) {} (defaultVars vs) vars of (ms, resolved) \<Rightarrow>
           ms @ map (\<lambda>d. Msg ''variable %q is required and cannot be empty'' [AStr (ev_var_name d)])
                  (filter (\<lambda>d. ev_required d \<and> sget resolved (ev_var_name d) = []) vs))"

section \<open>Lemmas\<close>

lemma ResolveImage_default:
  "es_images (egg_spec e) = i # is \<Longrightarrow> ResolveImage e [] = Some (img_image i)"
  by (simp add: ResolveImage_def)

lemma ResolveImage_declared:
  "ResolveImage e name = Some img \<Longrightarrow> img \<in> img_image ` set (es_images (egg_spec e))"
  by (auto simp: ResolveImage_def find_Some_iff split: list.splits if_splits)

lemma undeclared_Nil: "undeclared declared seen ns = [] \<longleftrightarrow> set ns \<subseteq> declared \<union> seen"
  by (induction ns arbitrary: seen) auto

lemma undeclared_distinct:
  "distinct (undeclared declared seen ns) \<and> set (undeclared declared seen ns) = set ns - declared - seen"
  by (induction ns arbitrary: seen) auto

lemma firstBadRune_control: "firstBadRune s = None \<Longrightarrow> \<not> hasControl s"
proof (induction s rule: hasControl.induct)
  case (3 c d s)
  then show ?case by (auto split: if_splits)
qed (auto split: if_splits)

text \<open>With no message, every override was applied in order: the resolved map is the fold of the overrides.\<close>

lemma checkOverrides_resolved:
  assumes "checkOverrides L egg declared seen resolved vs = ([], r)"
  shows "r = foldl (\<lambda>m v. m(gv_name v \<mapsto> gv_value v)) resolved vs \<and>
         distinct (map gv_name vs) \<and> gv_name ` set vs \<inter> seen = {} \<and>
         (\<forall>v \<in> set vs. \<exists>d. declared (gv_name v) = Some d \<and> ev_user_editable d \<and>
            (ev_validation_regex d = [] \<or> gv_value v = [] \<or>
             (\<exists>f. lib_regex L (ev_validation_regex d) = Some f \<and> f (gv_value v))))"
  using assms
proof (induction vs arbitrary: seen resolved)
  case (Cons v vs)
  from Cons.prems obtain d where d: "declared (gv_name v) = Some d" and ns: "gv_name v \<notin> seen" "ev_user_editable d"
    by (auto split: option.splits if_splits prod.splits)
  let ?c = "checkOverrides L egg declared (insert (gv_name v) seen) (resolved(gv_name v \<mapsto> gv_value v)) vs"
  obtain ms r' where c: "?c = (ms, r')" by (cases ?c)
  have rx: "ev_validation_regex d = [] \<or> gv_value v = [] \<or>
      (\<exists>f. lib_regex L (ev_validation_regex d) = Some f \<and> f (gv_value v))" and "ms = []" "r' = r"
    using Cons.prems d ns c by (auto split: option.splits if_splits)
  with c have "?c = ([], r)" by simp
  from Cons.IH [OF this] d ns rx show ?case by auto
qed simp

end
