(* ===== verification/GameServer_Pod.thy ===== *)
theory GameServer_Pod
  imports Ports Egg_Variables Samples "HOL-Library.AList" "HOL-Library.Multiset"
    "HOL-Library.List_Lexorder" "HOL-Library.Char_ord"
begin

text \<open>
  The Pod of a GameServer: \<open>internal/sftpagent/spec.go\<close> and the pure half of
  \<open>internal/controller/gameserver_controller.go\<close> (\<open>buildPod\<close> and what it calls, the spec hash,
  the restart stamp). A Go map that is iterated is an association list with distinct keys; the
  order in which a \<open>range\<close> loop visits it is the parameter \<open>ord\<close>, one permutation per loop.
\<close>

abbreviation NL :: string where "NL \<equiv> [CHR 0x0A]"
abbreviation DQ :: string where "DQ \<equiv> [CHR 0x22]"
abbreviation SQ :: string where "SQ \<equiv> [CHR 0x27]"

section \<open>The SFTP sidecar\<close>

definition DefaultDataVolumeName :: string where "DefaultDataVolumeName = ''data''"
definition DefaultDataMountPath :: string where "DefaultDataMountPath = ''/data''"
definition ContainerName :: string where "ContainerName = ''sftp-agent''"
definition Port :: int where "Port = 2022"
definition PortName :: string where "PortName = ''sftp''"
definition secretVolumeName :: string where "secretVolumeName = ''sftp-hmac''"
definition secretMountPath :: string where "secretMountPath = ''/etc/hatchery/sftp''"
definition secretFileName :: string where "secretFileName = ''hmac-key''"
definition HMACKeyFileEnv :: string where "HMACKeyFileEnv = ''HATCHERY_SFTP_HMAC_KEY_FILE''"

lemmas sftp_const_defs = DefaultDataVolumeName_def DefaultDataMountPath_def ContainerName_def Port_def
  PortName_def secretVolumeName_def secretMountPath_def secretFileName_def HMACKeyFileEnv_def

definition SecretData :: "string \<Rightarrow> smap" where
  "SecretData hmacKey = [secretFileName \<mapsto> hmacKey]"

definition SecretName :: "string \<Rightarrow> string" where
  "SecretName gameServerName = gameServerName @ ''-sftp''"

definition sftpContainer :: "string \<Rightarrow> string \<Rightarrow> string \<Rightarrow> string \<Rightarrow> container" where
  "sftpContainer img serverUUID dataVolume dataMount =
     (new_container ContainerName img)\<lparr>
       ct_args := [''--root='' @ dataMount, ''--listen=:'' @ itoa Port, ''--server-uuid='' @ serverUUID],
       ct_env := [\<lparr>ev_name = HMACKeyFileEnv, ev_value = secretMountPath @ ''/'' @ secretFileName, ev_secret = None\<rparr>],
       ct_ports := [\<lparr>cp_name = PortName, cp_port = Port, cp_protocol = TCP\<rparr>],
       ct_mounts := [\<lparr>vm_name = dataVolume, vm_path = dataMount, vm_readonly = False\<rparr>,
                     \<lparr>vm_name = secretVolumeName, vm_path = secretMountPath, vm_readonly = True\<rparr>],
       ct_security := Some \<lparr>sc_privilege_escalation = Some False, sc_run_as_user = None, sc_run_as_group = None,
                            sc_run_as_nonroot = Some True, sc_drop_capabilities = [''ALL'']\<rparr>\<rparr>"

definition SecretVolume :: "string \<Rightarrow> string \<times> volume_source" where
  "SecretVolume secretName = (secretVolumeName, VolSecret secretName)"

definition SharedFSGroup :: int where "SharedFSGroup = 1000"

definition ServicePort :: service_port where
  "ServicePort = \<lparr>sp_name = PortName, sp_port = Port, sp_target = Port, sp_protocol = TCP\<rparr>"

section \<open>Restart stamp and spec hash\<close>

definition restartRequested :: "gameserver \<Rightarrow> pod \<Rightarrow> bool" where
  "restartRequested gs p =
     (let want = sget (om_annotations (gs_meta gs)) RestartAnnotation
      in want \<noteq> [] \<and> want \<noteq> sget (om_annotations (pod_meta p)) RestartAnnotation)"

definition specHash :: "klib \<Rightarrow> gameserver \<Rightarrow> string" where
  "specHash L gs = lib_spec_hash L
     (sort_key gv_name (gss_variables (gs_spec gs)), gss_resources (gs_spec gs), gss_image_name (gs_spec gs),
      gss_start_command (gs_spec gs), sget (om_annotations (gs_meta gs)) FilesChangedAnnotation)"

definition restartRequiredCondition :: "klib \<Rightarrow> gameserver \<Rightarrow> pod option \<Rightarrow> condition" where
  "restartRequiredCondition L gs p =
     (let upToDate = new_condition ConditionRestartRequired CondFalse ''UpToDate'' no_msg (om_generation (gs_meta gs)) in
      case p of None \<Rightarrow> upToDate
      | Some pod \<Rightarrow>
        let h = sget (om_annotations (pod_meta pod)) SpecHashAnnotation in
        if h \<noteq> [] \<and> h \<noteq> specHash L gs
        then new_condition ConditionRestartRequired CondTrue ''SpecChanged''
          (Msg ''the running server was started before the last variable or resource change'' []) (om_generation (gs_meta gs))
        else upToDate)"

definition podAnnotations :: "klib \<Rightarrow> gameserver \<Rightarrow> smap" where
  "podAnnotations L gs =
     (let ann = [SpecHashAnnotation \<mapsto> specHash L gs]; v = sget (om_annotations (gs_meta gs)) RestartAnnotation
      in if v \<noteq> [] then ann(RestartAnnotation \<mapsto> v) else ann)"

section \<open>Security contexts and ownership\<close>

definition gameContainerSecurityContext :: security_context where
  "gameContainerSecurityContext = \<lparr>sc_privilege_escalation = Some False, sc_run_as_user = None,
     sc_run_as_group = None, sc_run_as_nonroot = None, sc_drop_capabilities = []\<rparr>"

definition gameContainerSecurityContextFor :: "egg \<Rightarrow> security_context" where
  "gameContainerSecurityContextFor e = (case es_run_as_user (egg_spec e) of
     None \<Rightarrow> gameContainerSecurityContext
   | Some uid \<Rightarrow> gameContainerSecurityContext\<lparr>sc_run_as_user := Some uid, sc_run_as_group := Some uid\<rparr>)"

definition rootSecurityContext :: security_context where
  "rootSecurityContext = gameContainerSecurityContext\<lparr>sc_run_as_user := Some 0, sc_run_as_group := Some 0\<rparr>"

definition installRevisionEnv :: string where "installRevisionEnv = ''HATCHERY_INSTALL_REVISION''"
definition stopCommandEnv :: string where "stopCommandEnv = ''HATCHERY_STOP_COMMAND''"
definition defaultStopTimeoutSeconds :: int where "defaultStopTimeoutSeconds = 60"
definition installMarker :: string where "installMarker = DefaultDataMountPath @ ''/.hatchery-installed''"

definition fixOwnerScript :: string where
  "fixOwnerScript =
     ''want='' @ DQ @ ''${HATCHERY_OWNER}:${HATCHERY_INSTALL_REVISION}'' @ DQ @ NL
   @ ''if [ '' @ DQ @ ''$(cat /data/.hatchery-owner 2>/dev/null)'' @ DQ @ '' != '' @ DQ @ ''$want'' @ DQ @ '' ]; then'' @ NL
   @ ''  echo '' @ DQ @ ''hatchery: chown -R ${HATCHERY_OWNER} /data'' @ DQ @ NL
   @ ''  chown -R '' @ DQ @ ''${HATCHERY_OWNER}'' @ DQ @ '' /data && echo '' @ DQ @ ''$want'' @ DQ
   @ '' > /data/.hatchery-owner && chown '' @ DQ @ ''${HATCHERY_OWNER}'' @ DQ @ '' /data/.hatchery-owner'' @ NL @ ''fi''"

definition literal_env :: "string \<Rightarrow> string \<Rightarrow> env_var" where
  "literal_env n v = \<lparr>ev_name = n, ev_value = v, ev_secret = None\<rparr>"

definition fixOwnerContainer :: "string \<Rightarrow> int \<Rightarrow> int \<Rightarrow> volume_mount list \<Rightarrow> container" where
  "fixOwnerContainer img uid installRevision mounts =
     (new_container ''fix-owner'' img)\<lparr>
       ct_workdir := DefaultDataMountPath, ct_command := [''/bin/sh'', ''-c'', fixOwnerScript],
       ct_env := [literal_env ''HATCHERY_OWNER'' (itoa uid @ '':'' @ itoa uid),
                  literal_env installRevisionEnv (itoa installRevision)],
       ct_mounts := mounts, ct_security := Some rootSecurityContext\<rparr>"

section \<open>Commands\<close>

definition installCommand :: "egg_install \<Rightarrow> string list" where
  "installCommand i = (if ei_entrypoint i \<noteq> [] then ei_entrypoint i @ [ei_script i]
                       else [''/bin/sh'', ''-c'', ei_script i])"

definition installWrapper :: string where
  "installWrapper =
     ''if [ '' @ DQ @ ''$(cat '' @ installMarker @ '' 2>/dev/null)'' @ DQ @ '' = '' @ DQ @ ''$'' @ installRevisionEnv @ DQ @ '' ]; then'' @ NL
   @ ''  echo '' @ DQ @ ''install already done (revision $'' @ installRevisionEnv @ ''), skipping'' @ DQ @ NL
   @ ''  exit 0'' @ NL @ ''fi'' @ NL
   @ DQ @ ''$@'' @ DQ @ '' || exit $?'' @ NL
   @ ''printf '' @ SQ @ ''%s'' @ SQ @ '' '' @ DQ @ ''$'' @ installRevisionEnv @ DQ @ '' > '' @ installMarker @ NL"

definition onceInstallCommand :: "egg_install \<Rightarrow> string list" where
  "onceInstallCommand i = [''/bin/sh'', ''-c'', installWrapper, ''hatchery-install''] @ installCommand i"

text \<open>\<open>^[A-Z0-9]{1,10}$\<close>\<close>

definition signalName :: "string \<Rightarrow> bool" where
  "signalName s \<longleftrightarrow> 1 \<le> length s \<and> length s \<le> 10 \<and> list_all (\<lambda>c. isUpperA c \<or> isDigit c) s"

text \<open>The command of the preStop hook, when there is anything to do.\<close>

definition stopLifecycle :: "egg \<Rightarrow> string list option" where
  "stopLifecycle e =
     (let wait = ''while kill -0 1 2>/dev/null; do sleep 1; done'';
          sig = trimPrefix (toUpper (es_stop_signal (egg_spec e))) ''SIG'' in
      if es_stop_command (egg_spec e) \<noteq> [] then
        Some [''/bin/sh'', ''-c'', ConsoleWriteScript (ConsoleInputPath (egg_spec e)) (''$'' @ stopCommandEnv) @ ''; '' @ wait]
      else if sig \<noteq> [] \<and> sig \<noteq> ''TERM'' \<and> signalName sig then
        Some [''/bin/sh'', ''-c'', ''kill -'' @ sig @ '' 1; '' @ wait]
      else None)"

section \<open>Variables and the start command\<close>

type_synonym vars = "(string \<times> string) list"

definition resolvedVars :: "egg \<Rightarrow> gameserver \<Rightarrow> vars" where
  "resolvedVars e gs =
     foldl (\<lambda>m x. AList.update (gv_name x) (gv_value x) m)
       (foldl (\<lambda>m v. AList.update (ev_var_name v) (ev_default v) m) [] (es_variables (egg_spec e)))
       (gss_variables (gs_spec gs))"

definition resolveVariables :: "egg \<Rightarrow> gameserver \<Rightarrow> go_err + vars" where
  "resolveVariables e gs =
     (let resolved = resolvedVars e gs in
      case find (\<lambda>v. ev_required v \<and> sget (map_of resolved) (ev_var_name v) = []) (es_variables (egg_spec e)) of
        Some v \<Rightarrow> Inl (MsgErr (Msg ''variable %q is required by egg %q but has no value''
                            [AStr (ev_var_name v), AStr (om_name (egg_meta e))]))
      | None \<Rightarrow> Inr resolved)"

text \<open>The loop of \<open>renderStartCommand\<close>, in the order the map is visited.\<close>

definition renderStartCommand :: "string \<Rightarrow> vars \<Rightarrow> string" where
  "renderStartCommand template vs =
     foldl (\<lambda>r (name, value). replaceAll (''{{'' @ name @ ''}}'') value r) template vs"

section \<open>The Pod\<close>

definition servicePorts :: "egg_port list \<Rightarrow> service_port list" where
  "servicePorts ps = map (\<lambda>p. \<lparr>sp_name = ep_name p, sp_port = ep_container_port p, sp_target = ep_container_port p,
     sp_protocol = eggPortProtocol p\<rparr>) ps"

definition containerPorts :: "egg_port list \<Rightarrow> container_port list" where
  "containerPorts ps = map (\<lambda>p. \<lparr>cp_name = ep_name p, cp_port = ep_container_port p, cp_protocol = eggPortProtocol p\<rparr>) ps"

definition orImage :: "string \<Rightarrow> string \<Rightarrow> string" where
  "orImage img fallback = (if img = [] then fallback else img)"

definition initContainersFor ::
  "gameserver \<Rightarrow> egg \<Rightarrow> string \<Rightarrow> env_var list \<Rightarrow> volume_mount list \<Rightarrow> container list" where
  "initContainersFor gs e serverImage env mounts =
     (case es_install (egg_spec e) of None \<Rightarrow> []
      | Some i \<Rightarrow> [(new_container ''install'' (orImage (ei_image i) serverImage))\<lparr>
          ct_workdir := DefaultDataMountPath, ct_command := onceInstallCommand i,
          ct_env := env @ [literal_env installRevisionEnv (itoa (gss_install_revision (gs_spec gs)))],
          ct_mounts := mounts, ct_security := Some gameContainerSecurityContext,
          ct_resources := gss_resources (gs_spec gs)\<rparr>])
   @ (case es_run_as_user (egg_spec e) of None \<Rightarrow> []
      | Some uid \<Rightarrow> [fixOwnerContainer serverImage uid (gss_install_revision (gs_spec gs)) mounts])
   @ (case es_configure (egg_spec e) of None \<Rightarrow> []
      | Some c \<Rightarrow> [(new_container ''configure'' (orImage (ec_image c) serverImage))\<lparr>
          ct_workdir := DefaultDataMountPath,
          ct_command := (if ec_entrypoint c = [] then [''/bin/sh'', ''-c''] else ec_entrypoint c) @ [ec_script c],
          ct_env := env, ct_mounts := mounts, ct_security := Some (gameContainerSecurityContextFor e)\<rparr>])"

definition buildPod :: "klib \<Rightarrow> (nat \<Rightarrow> vars \<Rightarrow> vars) \<Rightarrow> gameserver \<Rightarrow> egg \<Rightarrow> string \<Rightarrow> go_err + pod" where
  "buildPod L ord gs e sftpAgentImage = (case resolveVariables e gs of
     Inl err \<Rightarrow> Inl err
   | Inr vars \<Rightarrow>
     (let env = map (\<lambda>(n, v). literal_env n v) (ord 0 vars);
          mounts = [\<lparr>vm_name = DefaultDataVolumeName, vm_path = DefaultDataMountPath, vm_readonly = False\<rparr>];
          secretName = SecretName (om_name (gs_meta gs)) in
      case ResolveImage e (gss_image_name (gs_spec gs)) of
        None \<Rightarrow> Inl (MsgErr (Msg ''egg %q does not declare image %q''
                     [AStr (om_name (egg_meta e)), AStr (gss_image_name (gs_spec gs))]))
      | Some serverImage \<Rightarrow>
        Inr \<lparr>pod_meta = (new_meta (om_name (gs_meta gs)) (om_namespace (gs_meta gs)))\<lparr>
               om_labels := GameServerLabels (om_name (gs_meta gs)), om_annotations := podAnnotations L gs\<rparr>,
             pod_spec = \<lparr>
               ps_init = initContainersFor gs e serverImage env mounts,
               ps_containers =
                 [(new_container ''server'' serverImage)\<lparr>
                    ct_command := [''/bin/sh'', ''-c'', ''exec '' @
                      renderStartCommand (EffectiveStartCommand e (gss_start_command (gs_spec gs))) (ord 1 vars)],
                    ct_workdir := DefaultDataMountPath,
                    ct_env := (if es_stop_command (egg_spec e) \<noteq> []
                               then env @ [literal_env stopCommandEnv (es_stop_command (egg_spec e))] else env),
                    ct_prestop := stopLifecycle e,
                    ct_ports := containerPorts (EffectivePorts e gs),
                    ct_resources := gss_resources (gs_spec gs),
                    ct_mounts := mounts, ct_stdin := True,
                    ct_security := Some (gameContainerSecurityContextFor e)\<rparr>,
                  sftpContainer sftpAgentImage (om_uid (gs_meta gs)) DefaultDataVolumeName DefaultDataMountPath],
               ps_volumes = [(DefaultDataVolumeName, VolPVC (om_name (gs_meta gs))), SecretVolume secretName],
               ps_grace = Some (case es_stop_timeout (egg_spec e) of None \<Rightarrow> defaultStopTimeoutSeconds | Some t \<Rightarrow> t),
               ps_automount = Some False, ps_fsgroup = Some SharedFSGroup, ps_seccomp_default = True,
               ps_affinity = None, ps_restart_never = True\<rparr>,
             pod_phase = PodPhaseUnset, pod_containers = [], pod_inits = []\<rparr>))"

section \<open>Lemmas\<close>

lemma map_of_foldl_update:
  "map_of (foldl (\<lambda>m x. AList.update (f x) (g x) m) m0 xs) = foldl (\<lambda>m x. m(f x \<mapsto> g x)) (map_of m0) xs"
  by (induction xs arbitrary: m0) (simp_all add: update_conv')

lemma distinct_foldl_update:
  "distinct (map fst m0) \<Longrightarrow> distinct (map fst (foldl (\<lambda>m x. AList.update (f x) (g x) m) m0 xs))"
  by (induction xs arbitrary: m0) (simp_all add: distinct_update)

lemma map_of_resolvedVars:
  "map_of (resolvedVars e gs) =
     foldl (\<lambda>m v. m(gv_name v \<mapsto> gv_value v)) (defaultVars (es_variables (egg_spec e))) (gss_variables (gs_spec gs))"
  by (simp add: resolvedVars_def map_of_foldl_update defaultVars_def)

lemma distinct_resolvedVars: "distinct (map fst (resolvedVars e gs))"
  by (simp add: resolvedVars_def distinct_foldl_update)

lemma resolveVariables_ok:
  assumes "ValidateVariableOverrides L e (gss_variables (gs_spec gs)) = []"
  shows "\<exists>vs. resolveVariables e gs = Inr vs \<and> distinct (map fst vs) \<and>
           map_of vs = foldl (\<lambda>m v. m(gv_name v \<mapsto> gv_value v)) (defaultVars (es_variables (egg_spec e)))
                         (gss_variables (gs_spec gs)) \<and>
           (\<forall>v \<in> set (es_variables (egg_spec e)). ev_required v \<longrightarrow> sget (map_of vs) (ev_var_name v) \<noteq> [])"
proof -
  let ?vs = "es_variables (egg_spec e)"
  obtain r where c: "checkOverrides L (om_name (egg_meta e)) (declaredVars ?vs) {} (defaultVars ?vs)
        (gss_variables (gs_spec gs)) = ([], r)"
    and req: "filter (\<lambda>d. ev_required d \<and> sget r (ev_var_name d) = []) ?vs = []"
    using assms by (auto simp: ValidateVariableOverrides_def Let_def split: prod.splits)
  from checkOverrides_resolved [OF c] have r: "r = map_of (resolvedVars e gs)"
    by (simp add: map_of_resolvedVars)
  have "find (\<lambda>v. ev_required v \<and> sget (map_of (resolvedVars e gs)) (ev_var_name v) = []) ?vs = None"
    using req r by (auto simp: find_None_iff filter_empty_conv)
  then show ?thesis
    using req r distinct_resolvedVars [of e gs] map_of_resolvedVars [of e gs]
    by (auto simp: resolveVariables_def filter_empty_conv)
qed

text \<open>
  Overrides that pass \<open>ValidateVariableOverrides\<close> can always be resolved: the operator never fails
  to build the Pod of an admitted server for a missing variable, and the resolved map is the Egg's
  defaults overwritten by the overrides in order.
\<close>

theorem resolveVariables_validated:
  assumes "ValidateVariableOverrides L e (gss_variables (gs_spec gs)) = []"
  shows "\<exists>vs. resolveVariables e gs = Inr vs \<and> distinct (map fst vs) \<and>
           map_of vs = foldl (\<lambda>m v. m(gv_name v \<mapsto> gv_value v)) (defaultVars (es_variables (egg_spec e)))
                         (gss_variables (gs_spec gs)) \<and>
           (\<forall>v \<in> set (es_variables (egg_spec e)). ev_required v \<longrightarrow> sget (map_of vs) (ev_var_name v) \<noteq> [])"
  using assms by (rule resolveVariables_ok)

text \<open>
  The fingerprint of a server's spec does not depend on the order its variables are written in.
\<close>

theorem specHash_order:
  assumes "mset (gss_variables (gs_spec gs)) = mset vs" and "distinct (map gv_name vs)"
  shows "specHash L gs = specHash L (gs\<lparr>gs_spec := (gs_spec gs)\<lparr>gss_variables := vs\<rparr>\<rparr>)"
proof -
  have "sort_key gv_name (gss_variables (gs_spec gs)) = sort_key gv_name vs"
  proof (rule sort_key_eq_sort_key)
    show "mset (gss_variables (gs_spec gs)) = mset vs" by (rule assms)
    show "inj_on gv_name (set (gss_variables (gs_spec gs)))"
      using assms by (metis distinct_map mset_eq_setD)
  qed
  then show ?thesis by (simp add: specHash_def)
qed

lemma buildPod_cases:
  assumes "buildPod L ord gs e img = Inr p"
  obtains vs serverImage where "resolveVariables e gs = Inr vs"
    "ResolveImage e (gss_image_name (gs_spec gs)) = Some serverImage"
    "om_annotations (pod_meta p) = podAnnotations L gs"
    "om_name (pod_meta p) = om_name (gs_meta gs)" "om_namespace (pod_meta p) = om_namespace (gs_meta gs)"
  using assms by (auto simp: buildPod_def new_meta_def Let_def split: sum.splits option.splits)

lemma podAnnotations_stamp:
  "sget (podAnnotations L gs) RestartAnnotation = sget (om_annotations (gs_meta gs)) RestartAnnotation"
  "sget (podAnnotations L gs) SpecHashAnnotation = specHash L gs"
  by (auto simp: podAnnotations_def Let_def annotation_defs)

text \<open>
  A Pod that was just built is neither restarted again nor reported as needing a restart: the
  stamps \<open>buildPod\<close> puts on it agree with the server it was built from.
\<close>

theorem buildPod_fresh:
  assumes "buildPod L ord gs e img = Inr p"
  shows "\<not> restartRequested gs p \<and> cond_status (restartRequiredCondition L gs (Some p)) = CondFalse"
  using assms
  by (rule buildPod_cases)
    (simp add: restartRequested_def restartRequiredCondition_def podAnnotations_stamp new_condition_def Let_def)

definition unprivileged :: "container \<Rightarrow> bool" where
  "unprivileged c \<longleftrightarrow> (case ct_security c of None \<Rightarrow> False
     | Some s \<Rightarrow> sc_privilege_escalation s = Some False \<and> sc_drop_capabilities s \<in> {[], [''ALL'']})"

definition runs_as_root :: "container \<Rightarrow> bool" where
  "runs_as_root c \<longleftrightarrow> (case ct_security c of None \<Rightarrow> False | Some s \<Rightarrow> sc_run_as_user s = Some 0)"

lemmas container_defs = new_container_def sftpContainer_def fixOwnerContainer_def unprivileged_def
  runs_as_root_def gameContainerSecurityContext_def gameContainerSecurityContextFor_def rootSecurityContext_def


section \<open>Rendering the start command\<close>

text \<open>
  A start command without stray braces is a sequence of literals and placeholders. On such a
  template, and with values that hold no braces, the loop is one simultaneous substitution,
  whatever order the map is visited in.
\<close>

datatype token = Lit string | Var string

fun untok :: "token \<Rightarrow> string" where
  "untok (Lit s) = s"
| "untok (Var n) = ''{{'' @ n @ ''}}''"

definition no_braces :: "string \<Rightarrow> bool" where
  "no_braces s \<longleftrightarrow> CHR ''{'' \<notin> set s \<and> CHR ''}'' \<notin> set s"

fun token_ok :: "token \<Rightarrow> bool" where
  "token_ok (Lit s) = no_braces s"
| "token_ok (Var n) = no_braces n"

definition untokens :: "token list \<Rightarrow> string" where
  "untokens ts = concat (map untok ts)"

fun subst_token :: "(string \<Rightarrow> string option) \<Rightarrow> token \<Rightarrow> token" where
  "subst_token m (Lit s) = Lit s"
| "subst_token m (Var n) = (case m n of None \<Rightarrow> Var n | Some v \<Rightarrow> Lit v)"

lemma replaceAll_skip:
  "CHR ''{'' \<notin> set l \<Longrightarrow> replaceAll (CHR ''{'' # old) new (l @ s) = l @ replaceAll (CHR ''{'' # old) new s"
  by (induction l) (auto simp: hasPrefix_def)

lemma brace_free_prefix_eq:
  assumes "no_braces m" "no_braces n" "take (length (n @ ''}}'')) (m @ ''}}'' @ s) = n @ ''}}''"
  shows "m = n"
  using assms
proof (induction m arbitrary: n)
  case Nil
  then show ?case by (cases n) (auto simp: no_braces_def)
next
  case (Cons c m)
  then show ?case by (cases n) (auto simp: no_braces_def)
qed

lemma replaceAll_token:
  assumes "no_braces n" "token_ok t"
  shows "replaceAll (''{{'' @ n @ ''}}'') v (untok t @ s) = untok (subst_token [n \<mapsto> v] t) @ replaceAll (''{{'' @ n @ ''}}'') v s"
proof (cases t)
  case (Lit l)
  then show ?thesis using assms replaceAll_skip [of l "CHR ''{'' # n @ ''}}''" v s] by (simp add: no_braces_def)
next
  case (Var m)
  let ?p = "''{{'' @ n @ ''}}''"
  have m: "no_braces m" using assms Var by simp
  show ?thesis
  proof (cases "m = n")
    case True
    then show ?thesis using Var by (simp add: hasPrefix_def)
  next
    case False
    have no0: "\<not> hasPrefix (''{{'' @ m @ ''}}'' @ s) ?p"
      using brace_free_prefix_eq [OF m assms(1), of s] False by (auto simp: hasPrefix_def)
    have no1: "\<not> hasPrefix (''{'' @ m @ ''}}'' @ s) ?p"
      using m by (cases m) (auto simp: hasPrefix_def no_braces_def)
    have "replaceAll ?p v (''{{'' @ m @ ''}}'' @ s) = ''{{'' @ replaceAll ?p v ((m @ ''}}'') @ s)"
      using no0 no1 by simp
    also have "replaceAll ?p v ((m @ ''}}'') @ s) = (m @ ''}}'') @ replaceAll ?p v s"
      using replaceAll_skip [of "m @ ''}}''" "CHR ''{'' # n @ ''}}''" v s] m by (simp add: no_braces_def)
    finally show ?thesis using Var False by simp
  qed
qed

lemma replaceAll_tokens:
  assumes "no_braces n" "list_all token_ok ts"
  shows "replaceAll (''{{'' @ n @ ''}}'') v (untokens ts) = untokens (map (subst_token [n \<mapsto> v]) ts)"
  using assms(2)
proof (induction ts)
  case (Cons t ts)
  let ?s = "subst_token [n \<mapsto> v]"
  have split: "untokens (t # ts) = untok t @ untokens ts" and join: "untok (?s t) @ untokens (map ?s ts) = untokens (map ?s (t # ts))"
    by (simp_all only: untokens_def list.map concat.simps)
  have t: "token_ok t" using Cons.prems by simp
  have ih: "replaceAll (''{{'' @ n @ ''}}'') v (untokens ts) = untokens (map ?s ts)"
    using Cons.prems by (intro Cons.IH) simp
  show ?case by (simp only: split replaceAll_token [OF assms(1) t] ih join)
qed (simp add: untokens_def)

lemma subst_token_ok: "token_ok t \<Longrightarrow> (\<And>n v. m n = Some v \<Longrightarrow> no_braces v) \<Longrightarrow> token_ok (subst_token m t)"
  by (cases t) (auto split: option.splits)

lemma subst_token_comp:
  "n \<notin> dom m \<Longrightarrow> subst_token m (subst_token [n \<mapsto> v] t) = subst_token (m(n \<mapsto> v)) t"
  by (cases t) (auto split: option.splits)

text \<open>
  Rendering a start command made of literals and placeholders replaces every placeholder of a
  resolved variable by its value, simultaneously; the result depends on the variables as a map only,
  so the random order of Go's \<open>range\<close> does not show. The values and names hold no braces.
\<close>

theorem renderStartCommand_tokens:
  assumes "list_all token_ok ts" and "distinct (map fst vs)"
    and "list_all (\<lambda>(n, v). no_braces n \<and> no_braces v) vs"
  shows "renderStartCommand (untokens ts) vs = untokens (map (subst_token (map_of vs)) ts)"
  using assms
proof (induction vs arbitrary: ts)
  case Nil
  have "map (subst_token Map.empty) ts = ts"
    by (rule map_idI) (metis subst_token.simps option.simps(4) token.exhaust)
  then show ?case by (simp add: renderStartCommand_def)
next
  case (Cons nv vs)
  obtain n v where nv: "nv = (n, v)" by (cases nv)
  with Cons.prems have nb: "no_braces n" "no_braces v" and d: "n \<notin> dom (map_of vs)"
    by (auto simp: dom_map_of_conv_image_fst)
  let ?ts = "map (subst_token [n \<mapsto> v]) ts"
  have ok: "list_all token_ok ?ts"
    using Cons.prems(1) nb by (auto simp: list_all_iff intro!: subst_token_ok split: if_splits)
  have "renderStartCommand (untokens ts) (nv # vs) = renderStartCommand (untokens ?ts) vs"
    using replaceAll_tokens [OF nb(1) Cons.prems(1), of v] by (simp add: renderStartCommand_def nv)
  also have "\<dots> = untokens (map (subst_token (map_of vs)) ?ts)"
    using Cons.IH [OF ok] Cons.prems nv by simp
  also have "map (subst_token (map_of vs)) ?ts = map (subst_token (map_of (nv # vs))) ts"
    unfolding map_map comp_def subst_token_comp [OF d] nv map_of.simps fst_conv snd_conv ..
  finally show ?case .
qed

text \<open>
  Without that condition the order shows: with a value that itself names a variable, two
  iteration orders of the same map render different commands.
\<close>

theorem renderStartCommand_order_matters:
  "\<exists>t vs vs'. mset vs = mset vs' \<and> distinct (map fst vs) \<and> renderStartCommand t vs \<noteq> renderStartCommand t vs'"
proof (intro exI conjI)
  let ?vs = "[(''A'', ''{{B}}''), (''B'', ''x'')]" and ?vs' = "[(''B'', ''x''), (''A'', ''{{B}}'')]"
  show "mset ?vs = mset ?vs'" by simp
  show "distinct (map fst ?vs)" by simp
  show "renderStartCommand ''{{A}}'' ?vs \<noteq> renderStartCommand ''{{A}}'' ?vs'"
    by (simp add: renderStartCommand_def hasPrefix_def)
qed

section \<open>Concrete instances\<close>

text \<open>The properties applied to concrete objects, where their hypotheses hold.\<close>

theorem resolveVariables_validated_witness:
  "\<exists>vs. resolveVariables ex_egg ex_gs = Inr vs \<and> distinct (map fst vs)"
proof -
  have "ValidateVariableOverrides std_lib ex_egg (gss_variables (gs_spec ex_gs)) = []" by code_simp
  from resolveVariables_validated [OF this] show ?thesis by blast
qed

definition two_vars :: "gs_variable list" where
  "two_vars = [\<lparr>gv_name = ''B'', gv_value = ''2''\<rparr>, \<lparr>gv_name = ''A'', gv_value = ''1''\<rparr>]"

theorem specHash_order_witness:
  "specHash std_lib (ex_gs\<lparr>gs_spec := (gs_spec ex_gs)\<lparr>gss_variables := rev two_vars\<rparr>\<rparr>) =
   specHash std_lib (ex_gs\<lparr>gs_spec := (gs_spec ex_gs)\<lparr>gss_variables := two_vars\<rparr>\<rparr>)"
  using specHash_order [of "ex_gs\<lparr>gs_spec := (gs_spec ex_gs)\<lparr>gss_variables := rev two_vars\<rparr>\<rparr>" two_vars std_lib]
  by (simp add: two_vars_def)

lemma ex_buildPod: obtains p where "buildPod std_lib (\<lambda>_. id) ex_gs ex_egg ''sftp'' = Inr p"
proof -
  have "succeeded (buildPod std_lib (\<lambda>_. id) ex_gs ex_egg ''sftp'')" by code_simp
  then show thesis using that by (cases "buildPod std_lib (\<lambda>_. id) ex_gs ex_egg ''sftp''") auto
qed

theorem buildPod_fresh_witness:
  "\<exists>p. buildPod std_lib (\<lambda>_. id) ex_gs ex_egg ''sftp'' = Inr p \<and> \<not> restartRequested ex_gs p"
  using ex_buildPod buildPod_fresh by metis


theorem renderStartCommand_tokens_witness:
  "renderStartCommand (untokens [Lit ''java -Xmx'', Var ''MEM'', Lit '' -jar '', Var ''JAR'']) [(''JAR'', ''s.jar''), (''MEM'', ''2G'')] =
     ''java -Xmx2G -jar s.jar''"
proof -
  have "list_all token_ok [Lit ''java -Xmx'', Var ''MEM'', Lit '' -jar '', Var ''JAR'']" by code_simp
  moreover have "distinct (map fst [(''JAR'', ''s.jar''), (''MEM'', ''2G'')])" by code_simp
  moreover have "list_all (\<lambda>(n, v). no_braces n \<and> no_braces v) [(''JAR'', ''s.jar''), (''MEM'', ''2G'')]" by code_simp
  ultimately have "renderStartCommand (untokens [Lit ''java -Xmx'', Var ''MEM'', Lit '' -jar '', Var ''JAR'']) [(''JAR'', ''s.jar''), (''MEM'', ''2G'')] =
     untokens (map (subst_token (map_of [(''JAR'', ''s.jar''), (''MEM'', ''2G'')])) [Lit ''java -Xmx'', Var ''MEM'', Lit '' -jar '', Var ''JAR''])"
    by (rule renderStartCommand_tokens)
  also have "\<dots> = ''java -Xmx2G -jar s.jar''" by (simp add: untokens_def)
  finally show ?thesis .
qed

end
