(* ===== verification/Crash.thy ===== *)
theory Crash
  imports GameServer_Pod
begin

text \<open>
  \<open>internal/controller/crash.go\<close> and \<open>gameserver_crash.go\<close>: what the operator does about a game
  process that ended on its own, and the bound on automatic restarts.
\<close>

section \<open>The decision\<close>

record crash_policy =
  cp_limit :: int
  cp_window :: duration

definition DefaultCrashPolicy :: crash_policy where
  "DefaultCrashPolicy = \<lparr>cp_limit = 3, cp_window = 10 * minute\<rparr>"

definition orDefault :: "crash_policy \<Rightarrow> crash_policy" where
  "orDefault p = (if cp_limit p < 1 \<or> cp_window p \<le> 0 then DefaultCrashPolicy else p)"

definition crashRestartDelays :: "duration list" where
  "crashRestartDelays = [10 * second, 30 * second]"

definition restartDelay :: "nat \<Rightarrow> duration" where
  "restartDelay crashes =
     (let c = (if crashes < 1 then 1 else crashes);
          c' = (if length crashRestartDelays < c then length crashRestartDelays else c)
      in crashRestartDelays ! (c' - 1))"

definition crashLogLines :: int where "crashLogLines = 200"
definition crashLogMaxBytes :: nat where "crashLogMaxBytes = 65536"

definition trimCrashLog :: "string \<Rightarrow> string" where
  "trimCrashLog s = (if length s \<le> crashLogMaxBytes then s
     else let t = drop (length s - crashLogMaxBytes) s in
       (case indexByte t (CHR 0x0A) of None \<Rightarrow> t | Some i \<Rightarrow> drop (Suc i) t))"

text \<open>The action with the fields that only it uses.\<close>

datatype crash_action = CrashCleanExit | CrashRestart time | CrashGiveUp string

record crash_decision =
  cd_action :: crash_action
  cd_recent :: "time list"

definition isOOMKilled :: "terminated \<Rightarrow> bool" where
  "isOOMKilled t \<longleftrightarrow> tm_reason t = ''OOMKilled''"

definition crashWindow :: "time \<Rightarrow> duration \<Rightarrow> time list \<Rightarrow> time list" where
  "crashWindow at window recent =
     (let kept = filter (\<lambda>t. at - t < window) recent
      in if list_ex (\<lambda>t. unix t = unix at) kept then kept else kept @ [at])"

definition decideCrash :: "terminated \<Rightarrow> bool \<Rightarrow> time list \<Rightarrow> crash_policy \<Rightarrow> crash_decision" where
  "decideCrash term autoRestart recent p0 =
     (if tm_exit term = 0 \<and> \<not> isOOMKilled term then \<lparr>cd_action = CrashCleanExit, cd_recent = recent\<rparr>
      else
        let p = orDefault p0; at = tm_finished term; kept = crashWindow at (cp_window p) recent in
        \<lparr>cd_action =
           (if \<not> autoRestart then CrashGiveUp ''AutoRestartDisabled''
            else if cp_limit p \<le> int (length kept) then CrashGiveUp ''CrashLoop''
            else CrashRestart (at + restartDelay (length kept))),
         cd_recent = kept\<rparr>)"

definition crashMessage :: "string \<Rightarrow> time list \<Rightarrow> terminated \<Rightarrow> crash_policy \<Rightarrow> msg" where
  "crashMessage reason recent term p =
     (if reason = ''AutoRestartDisabled'' then
        Msg ''crashed with exit code %d%s; automatic restart is off''
          [AInt (tm_exit term), AStr (if isOOMKilled term then '' (out of memory)'' else [])]
      else Msg ''stopped after %d crashes in %s; last exit code %d''
          [AInt (int (length recent)), AInt (cp_window (orDefault p)), AInt (tm_exit term)])"

section \<open>Handling\<close>

record gs_config =
  gc_sftp_image :: string
  gc_log_reader :: bool \<comment> \<open>whether a \<open>LogReader\<close> is set\<close>
  gc_crash_policy :: crash_policy

definition serverContainerName :: string where
  "serverContainerName = ''server''"

definition serverTerminated :: "pod \<Rightarrow> terminated option" where
  "serverTerminated p = (case find (\<lambda>c. cs_name c = serverContainerName) (pod_containers p) of
     None \<Rightarrow> None | Some c \<Rightarrow> cs_terminated c)"

definition crashedPod :: "gameserver \<Rightarrow> pod option \<Rightarrow> terminated option" where
  "crashedPod gs p = (case p of None \<Rightarrow> None
   | Some pod \<Rightarrow>
     if is_deleting (pod_meta pod) \<or> gss_state (gs_spec gs) \<noteq> StateRunning \<or> gss_suspended (gs_spec gs)
        \<or> restartRequested gs pod then None
     else serverTerminated pod)"

definition stopAfterExit :: "'w k8s \<Rightarrow> gameserver \<Rightarrow> pod \<Rightarrow> ('w, gameserver) io" where
  "stopAfterExit k gs pod =
     bindE (r_update (k_gs k) (gs\<lparr>gs_spec := (gs_spec gs)\<lparr>gss_state := StateStopped\<rparr>\<rparr>)) (\<lambda>gs'.
     thenE (ignoring is_not_found (r_delete (k_pod k) pod)) (ret gs'))"

definition crashLogKeys :: "klib \<Rightarrow> gs_crash \<Rightarrow> string \<Rightarrow> smap" where
  "crashLogKeys L crash out = [''log'' \<mapsto> out, ''at'' \<mapsto> lib_format_time L (cr_at crash),
     ''exitCode'' \<mapsto> itoa (cr_exit_code crash), ''reason'' \<mapsto> cr_reason crash,
     ''oomKilled'' \<mapsto> (if cr_oom_killed crash then ''true'' else ''false'')]"

definition saveCrashLog :: "'w k8s \<Rightarrow> gs_config \<Rightarrow> gameserver \<Rightarrow> pod \<Rightarrow> gs_crash \<Rightarrow> ('w, unit) io" where
  "saveCrashLog k C gs pod crash =
     bindE (if gc_log_reader C then
         bindE (attempt (k_tail_logs k (om_namespace (pod_meta pod)) (om_name (pod_meta pod)) serverContainerName crashLogLines))
           (\<lambda>r. case r of Inl e \<Rightarrow> ret [] | Inr s \<Rightarrow> ret (trimCrashLog s))
       else ret []) (\<lambda>out.
     bindE (liftE (lib_set_controller (k_lib k) (gs_meta gs)
             (new_meta (CrashLogConfigMapName (om_name (gs_meta gs))) (om_namespace (gs_meta gs))))) (\<lambda>m.
     let cm = \<lparr>cm_meta = m, cm_data = crashLogKeys (k_lib k) crash out\<rparr> in
     bindE (attempt (r_create (k_cm k) cm)) (\<lambda>r. case r of
         Inr x \<Rightarrow> ret ()
       | Inl e \<Rightarrow> if is_already_exists e then thenE (r_update (k_cm k) cm) (ret ()) else throw e)))"

text \<open>The status the decision leaves, before it is written.\<close>

definition crashStatus :: "klib \<Rightarrow> time \<Rightarrow> gameserver \<Rightarrow> terminated \<Rightarrow> crash_policy \<Rightarrow> crash_decision \<Rightarrow> gs_crash \<Rightarrow> gs_status" where
  "crashStatus L now gs term policy d crash =
     (let st = (gs_status gs)\<lparr>gst_last_crash := Some crash, gst_recent_crashes := cd_recent d\<rparr> in
      case cd_action d of
        CrashGiveUp reason \<Rightarrow> st\<lparr>gst_conditions := fst (lib_set_condition L now (gst_conditions st)
          (new_condition ConditionCrashed CondTrue reason (crashMessage reason (cd_recent d) term policy)
             (om_generation (gs_meta gs))))\<rparr>
      | _ \<Rightarrow> st)"

definition countCrash :: "'w k8s \<Rightarrow> string \<Rightarrow> ('w, unit) io" where
  "countCrash k result = modifyE (k_metric k ''hatchery_gameserver_crashes_total'' [result] 1)"

text \<open>First time this crash is seen: the console is kept before the Pod may go.\<close>

definition newCrash :: "gameserver \<Rightarrow> gs_crash \<Rightarrow> bool" where
  "newCrash gs crash = (case gst_last_crash (gs_status gs) of
     None \<Rightarrow> True | Some c \<Rightarrow> unix (cr_at c) \<noteq> unix (cr_at crash))"

definition actOnCrash :: "'w k8s \<Rightarrow> gameserver \<Rightarrow> pod \<Rightarrow> crash_action \<Rightarrow> ('w, gameserver \<times> duration) io" where
  "actOnCrash k gs pod a = (case a of
     CrashRestart restartAt \<Rightarrow>
       bindE (gets (k_now k)) (\<lambda>now.
         if 0 < restartAt - now then ret (gs, restartAt - now)
         else thenE (ignoring is_not_found (r_delete (k_pod k) pod))
                (thenE (countCrash k ''restarted'') (ret (gs, 0))))
   | _ \<Rightarrow> bindE (stopAfterExit k gs pod) (\<lambda>gs'.
            thenE (countCrash k (if a = CrashCleanExit then ''clean_exit'' else ''gave_up'')) (ret (gs', 0))))"

definition crashOf :: "terminated \<Rightarrow> gs_crash" where
  "crashOf term = \<lparr>cr_at = tm_finished term, cr_exit_code = tm_exit term, cr_reason = tm_reason term,
     cr_oom_killed = isOOMKilled term\<rparr>"

definition reconcileCrash :: "'w k8s \<Rightarrow> gs_config \<Rightarrow> gameserver \<Rightarrow> pod option \<Rightarrow> ('w, gameserver \<times> duration) io" where
  "reconcileCrash k C gs p = (case (p, crashedPod gs p) of
     (Some pod, Some term) \<Rightarrow>
       (let policy = orDefault (gc_crash_policy C);
            d = decideCrash term (AutoRestartEnabled gs) (gst_recent_crashes (gs_status gs)) policy in
        if cd_action d = CrashCleanExit then actOnCrash k gs pod CrashCleanExit
        else
          let crash = crashOf term in
          thenE (if newCrash gs crash then saveCrashLog k C gs pod crash else ret ())
          (bindE (gets (k_now k)) (\<lambda>now.
            let st = crashStatus (k_lib k) now gs term policy d crash in
            bindE (if st = gs_status gs then ret gs
                   else r_status_update (k_gs k) (gs\<lparr>gs_status := st\<rparr>)) (\<lambda>gs'.
            actOnCrash k gs' pod (cd_action d)))))
   | _ \<Rightarrow> ret (gs, 0))"

section \<open>Lemmas\<close>

lemma orDefault_idem [simp]: "orDefault (orDefault p) = orDefault p"
  by (simp add: orDefault_def DefaultCrashPolicy_def duration_defs)

lemma orDefault_pos: "1 \<le> cp_limit (orDefault p) \<and> 0 < cp_window (orDefault p)"
  by (simp add: orDefault_def DefaultCrashPolicy_def duration_defs)

lemma restartDelay_values: "restartDelay n = (if n \<le> 1 then 10 * second else 30 * second)"
  by (auto simp: restartDelay_def crashRestartDelays_def Let_def nth_Cons' split: if_splits)

lemma crashWindow_idem:
  "0 < window \<Longrightarrow> crashWindow at window (crashWindow at window recent) = crashWindow at window recent"
  by (auto simp: crashWindow_def Let_def list_ex_iff)

lemma crashWindow_member: "0 < window \<Longrightarrow> list_ex (\<lambda>t. unix t = unix at) (crashWindow at window recent)"
  by (auto simp: crashWindow_def Let_def list_ex_iff)

text \<open>
  Deciding about the same container again, with the window the first decision stored, gives the
  same decision: a repeated reconcile neither counts the crash twice nor moves the restart time.
\<close>

theorem decideCrash_idempotent:
  "decideCrash term a (cd_recent (decideCrash term a recent p)) p = decideCrash term a recent p"
  using orDefault_pos [of p] by (auto simp: decideCrash_def Let_def crashWindow_idem)


lemma indexByte_nth: "indexByte s c = Some i \<Longrightarrow> i < length s \<and> s ! i = c"
  by (induction s arbitrary: i) (auto split: if_splits simp: nth_Cons')

text \<open>
  The kept console is at most 64 KiB, is a suffix of the console, and when something was cut and
  a line break remained, it starts right after a line break.
\<close>

theorem trimCrashLog_suffix:
  "length (trimCrashLog s) \<le> 65536 \<and>
   (\<exists>pre. s = pre @ trimCrashLog s \<and>
      (pre = [] \<or> last pre = CHR 0x0A \<or> CHR 0x0A \<notin> set (trimCrashLog s)))"
proof (cases "length s \<le> crashLogMaxBytes")
  case True
  then show ?thesis by (simp add: trimCrashLog_def crashLogMaxBytes_def)
next
  case False
  define t where "t = drop (length s - crashLogMaxBytes) s"
  have t: "length t = 65536" "s = take (length s - crashLogMaxBytes) s @ t"
    using False by (simp_all add: t_def crashLogMaxBytes_def)
  show ?thesis
  proof (cases "indexByte t (CHR 0x0A)")
    case None
    then have "trimCrashLog s = t" using False by (simp add: trimCrashLog_def t_def)
    then show ?thesis using None t by (auto simp: indexByte_None)
  next
    case (Some i)
    then have r: "trimCrashLog s = drop (Suc i) t" using False by (simp add: trimCrashLog_def t_def)
    from indexByte_nth [OF Some] have i: "i < length t" "t ! i = CHR 0x0A" by auto
    have "t = take (Suc i) t @ drop (Suc i) t" by simp
    then have "s = (take (length s - crashLogMaxBytes) s @ take (Suc i) t) @ trimCrashLog s"
      using t(2) r by simp
    moreover have "last (take (length s - crashLogMaxBytes) s @ take (Suc i) t) = CHR 0x0A"
      using i by (simp add: take_Suc_conv_app_nth)
    ultimately show ?thesis using r t(1) by (metis diff_le_self length_drop)
  qed
qed

section \<open>What is written before the Pod goes\<close>

definition crash_log_written :: "event set \<Rightarrow> bool" where
  "crash_log_written S \<longleftrightarrow> (\<exists>cm. EvCreate (OCm cm) True \<in> S \<or> EvUpdate (OCm cm) True \<in> S)"

definition crash_recorded :: "gameserver \<Rightarrow> gs_crash \<Rightarrow> event set \<Rightarrow> bool" where
  "crash_recorded gs crash S \<longleftrightarrow> gst_last_crash (gs_status gs) = Some crash \<or>
     (\<exists>g. EvStatusUpdate (OGs g) True \<in> S \<and> gst_last_crash (gs_status g) = Some crash)"

definition crash_rule :: "gameserver \<Rightarrow> gs_crash \<Rightarrow> event set \<Rightarrow> event \<Rightarrow> bool" where
  "crash_rule gs crash before e \<longleftrightarrow> (\<forall>p ok. e = EvDelete (OPod p) ok \<longrightarrow>
     (newCrash gs crash \<longrightarrow> crash_log_written before) \<and> crash_recorded gs crash before)"

definition no_pod_delete :: "event \<Rightarrow> bool" where
  "no_pod_delete e \<longleftrightarrow> (\<forall>p ok. e \<noteq> EvDelete (OPod p) ok)"

lemma saveCrashLog_writes:
  "logs (guarded (crash_rule gs crash)) (saveCrashLog (logging k) C gs pod cr)
     (\<lambda>_ l. guarded (crash_rule gs crash) l \<and> crash_log_written (set l)) (\<lambda>_. guarded (crash_rule gs crash))"
  unfolding saveCrashLog_def logging_kinds Let_def
  apply (rule logs_bindE [where R = "\<lambda>_. guarded (crash_rule gs crash)"])
   apply (rule logs_guarded_only [where A = no_pod_delete])
    apply (intro only_rules only_calls; simp add: no_pod_delete_def)
   apply (simp add: crash_rule_def no_pod_delete_def)
  apply (rule logs_bindE [where R = "\<lambda>_. guarded (crash_rule gs crash)"])
   apply (rule logs_liftE; simp)
  apply (rule logs_bindE [where R = "\<lambda>r l. guarded (crash_rule gs crash) l \<and>
      (case r of Inl e \<Rightarrow> True | Inr x \<Rightarrow> crash_log_written (set l))"])
   apply (rule logs_attempt, rule log_rules; auto simp: crash_rule_def crash_log_written_def)
  apply (rule logs_case_sum)
   apply (rule logs_if)
    apply (rule logs_bindE [where R = "\<lambda>_ l. guarded (crash_rule gs crash) l \<and> crash_log_written (set l)"])
     apply (rule log_rules; auto simp: crash_rule_def crash_log_written_def)
    apply (rule logs_ret, simp)
   apply (rule logs_throw, simp)
  apply (rule logs_ret, simp)
  done

lemma actOnCrash_only: "only (\<lambda>_. True) (actOnCrash (logging k) gs pod a)"
  unfolding actOnCrash_def stopAfterExit_def countCrash_def logging_kinds
  by (cases a) (auto intro!: only_rules only_calls)

lemma actOnCrash_after:
  assumes "\<And>S e. H S \<Longrightarrow> H (insert e S)"
    and "\<And>S. H S \<Longrightarrow> (newCrash gs crash \<longrightarrow> crash_log_written S) \<and> crash_recorded gs crash S"
  shows "logs (\<lambda>l. guarded (crash_rule gs crash) l \<and> H (set l)) (actOnCrash (logging k) gs' pod a)
    (\<lambda>_. guarded (crash_rule gs crash)) (\<lambda>_. guarded (crash_rule gs crash))"
  by (rule logs_post [OF logs_guarded_since [OF actOnCrash_only, where H = H]])
    (simp_all add: crash_rule_def assms)

lemma crashStatus_last: "gst_last_crash (crashStatus L now gs term policy d crash) = Some crash"
  by (simp add: crashStatus_def Let_def split: crash_action.splits)


section \<open>Concrete instances\<close>


definition log_config :: gs_config where
  "log_config = \<lparr>gc_sftp_image = ''sftp'', gc_log_reader = True, gc_crash_policy = DefaultCrashPolicy\<rparr>"


theorem trimCrashLog_suffix_witness:
  "trimCrashLog ''boom'' = ''boom'' \<and> (\<exists>pre. ''boom'' = pre @ trimCrashLog ''boom'' \<and> pre = [])"
proof -
  have "trimCrashLog ''boom'' = ''boom''" by (simp add: trimCrashLog_def crashLogMaxBytes_def)
  with trimCrashLog_suffix [of "''boom''"] show ?thesis by auto
qed

end
