(* ===== verification/GameServer_Status.thy ===== *)
theory GameServer_Status
  imports Crash
begin

text \<open>
  \<open>internal/controller/gameserver_status.go\<close>: the phase and the Ready condition the controller
  derives from a server's spec and Pod, with the startup detection that reads the console.
\<close>

definition startupLogLines :: int where "startupLogLines = 500"
definition startupPollInterval :: duration where "startupPollInterval = 3 * second"
definition defaultStartupTimeout :: duration where "defaultStartupTimeout = 600 * second"

record observation =
  ob_phase :: gs_phase
  ob_pod_name :: string
  ob_ready :: condition
  ob_requeue :: duration

definition readyCondition :: "gameserver \<Rightarrow> cond_status \<Rightarrow> string \<Rightarrow> condition" where
  "readyCondition gs status reason = new_condition ConditionReady status reason no_msg (om_generation (gs_meta gs))"

definition observed :: "gameserver \<Rightarrow> gs_phase \<Rightarrow> string \<Rightarrow> cond_status \<Rightarrow> string \<Rightarrow> duration \<Rightarrow> observation" where
  "observed gs phase podName status reason requeue =
     \<lparr>ob_phase = phase, ob_pod_name = podName, ob_ready = readyCondition gs status reason, ob_requeue = requeue\<rparr>"

text \<open>The start of the running game container: the last matching entry wins.\<close>

definition startedAt :: "pod \<Rightarrow> time option" where
  "startedAt p = foldl (\<lambda>acc c. if cs_name c = serverContainerName \<and> cs_running c \<noteq> None then cs_running c else acc)
     None (pod_containers p)"

definition startupTimeout :: "egg_startup_detection \<Rightarrow> duration" where
  "startupTimeout det = (case sd_timeout_seconds det of None \<Rightarrow> defaultStartupTimeout | Some s \<Rightarrow> s * second)"

text \<open>A Ready condition carried over counts only for the container run it was recorded in.\<close>

definition readyCarried :: "klib \<Rightarrow> gameserver \<Rightarrow> time \<Rightarrow> bool" where
  "readyCarried L gs started = (case lib_find_condition L (gst_conditions (gs_status gs)) ConditionReady of
     None \<Rightarrow> False
   | Some c \<Rightarrow> cond_status c = CondTrue \<and> cond_reason c = ''StartupDetected'' \<and> started \<le> cond_transition c)"

definition observeRunning :: "'w k8s \<Rightarrow> gs_config \<Rightarrow> gameserver \<Rightarrow> egg \<Rightarrow> pod \<Rightarrow> ('w, observation) io" where
  "observeRunning k C gs e pod =
     (let name = om_name (pod_meta pod);
          running = (\<lambda>status reason. ret (observed gs PhaseRunning name status reason 0));
          starting = ret (observed gs PhaseStarting name CondFalse ''Starting'' startupPollInterval) in
      case es_startup_detection (egg_spec e) of
        None \<Rightarrow> running CondTrue ''NoStartupDetection''
      | Some det \<Rightarrow>
        if \<not> gc_log_reader C then running CondTrue ''NoStartupDetection''
        else case lib_regex (k_lib k) (sd_regex det) of
          None \<Rightarrow> running CondTrue ''NoStartupDetection''
        | Some match \<Rightarrow>
          (case startedAt pod of
             None \<Rightarrow> starting
           | Some started \<Rightarrow>
             if readyCarried (k_lib k) gs started then running CondTrue ''StartupDetected''
             else bindE (gets (k_now k)) (\<lambda>now.
               if startupTimeout det < now - started then running CondFalse ''StartupTimeout''
               else bindE (attempt (k_tail_logs k (om_namespace (pod_meta pod)) name serverContainerName startupLogLines))
                 (\<lambda>r. case r of
                    Inl err \<Rightarrow> starting
                  | Inr out \<Rightarrow> if match out then running CondTrue ''StartupDetected'' else starting))))"

definition gsStopped :: "gameserver \<Rightarrow> bool" where
  "gsStopped gs \<longleftrightarrow> gss_state (gs_spec gs) = StateStopped \<or> gss_suspended (gs_spec gs)"

definition observe :: "'w k8s \<Rightarrow> gs_config \<Rightarrow> gameserver \<Rightarrow> egg \<Rightarrow> pod option \<Rightarrow> ('w, observation) io" where
  "observe k C gs e p = (case p of
     None \<Rightarrow>
       if gss_suspended (gs_spec gs) then ret (observed gs PhaseSuspended [] CondFalse ''Suspended'' 0)
       else if gsStopped gs then ret (observed gs PhaseStopped [] CondFalse ''NotRunning'' 0)
       else ret (observed gs PhasePending [] CondFalse ''NotRunning'' 0)
   | Some pod \<Rightarrow>
       let name = om_name (pod_meta pod) in
       if is_deleting (pod_meta pod) \<or> gsStopped gs \<or> restartRequested gs pod
         then ret (observed gs PhaseStopping name CondFalse ''Stopping'' 0)
       else if serverTerminated pod \<noteq> None then ret (observed gs PhaseCrashed name CondFalse ''Crashed'' 0)
       else case pod_phase pod of
           PodFailed \<Rightarrow> ret (observed gs PhaseFailed name CondFalse ''Failed'' 0)
         | PodRunning \<Rightarrow> observeRunning k C gs e pod
         | _ \<Rightarrow> if list_ex (\<lambda>c. cs_running c \<noteq> None) (pod_inits pod)
                then ret (observed gs PhaseInstalling name CondFalse ''Installing'' 0)
                else ret (observed gs PhasePending name CondFalse ''Pending'' 0))"

section \<open>Lemmas\<close>

lemma observed_sel [simp]:
  "ob_phase (observed gs ph n s r q) = ph" "ob_pod_name (observed gs ph n s r q) = n"
  "cond_status (ob_ready (observed gs ph n s r q)) = s" "cond_reason (ob_ready (observed gs ph n s r q)) = r"
  "cond_type (ob_ready (observed gs ph n s r q)) = ConditionReady" "ob_requeue (observed gs ph n s r q) = q"
  by (simp_all add: observed_def readyCondition_def new_condition_def)

lemma observeRunning_type: "observeRunning k C gs e pod w = (Inr obs, w') \<Longrightarrow> cond_type (ob_ready obs) = ConditionReady"
  by (auto simp: observeRunning_def io_defs Let_def split: option.splits prod.splits sum.splits if_splits)

lemma observe_type: "observe k C gs e p w = (Inr obs, w') \<Longrightarrow> cond_type (ob_ready obs) = ConditionReady"
  by (cases p) (auto simp: observe_def ret_def Let_def observeRunning_type split: pod_phase.splits if_splits)

text \<open>
  Observing a server never fails, whatever the console read answers, and Ready is only reported
  true for a server that is in phase Running, is meant to run, and whose live Pod is running with
  the game container not ended and no restart pending.
\<close>

theorem observe_ready:
  "\<exists>ob w'. observe k C gs e p w = (Inr ob, w') \<and>
     (cond_status (ob_ready ob) = CondTrue \<longrightarrow>
        ob_phase ob = PhaseRunning \<and> \<not> gsStopped gs \<and>
        (\<exists>pod. p = Some pod \<and> \<not> is_deleting (pod_meta pod) \<and> pod_phase pod = PodRunning \<and>
           serverTerminated pod = None \<and> \<not> restartRequested gs pod))"
proof -
  have running: "\<exists>ob w'. observeRunning k C gs e pod w = (Inr ob, w') \<and>
      (cond_status (ob_ready ob) = CondTrue \<longrightarrow> ob_phase ob = PhaseRunning)" for pod w
    by (auto simp: observeRunning_def io_defs Let_def split: option.splits prod.splits sum.splits)
  show ?thesis
    using running
    by (cases p) (auto simp: observe_def ret_def Let_def split: pod_phase.splits)
qed

text \<open>
  With startup detection on, Ready becomes true by detection only when the console tail read just
  now matches the Egg's pattern, or was detected earlier in the same run of the game container; and a
  server still starting is looked at again after three seconds.
\<close>

theorem observeRunning_detected:
  assumes "es_startup_detection (egg_spec e) = Some det" and "gc_log_reader C"
    and "lib_regex (k_lib k) (sd_regex det) = Some match"
    and "observeRunning k C gs e pod w = (Inr ob, w')"
  shows "(cond_status (ob_ready ob) = CondTrue \<longleftrightarrow>
           (\<exists>t. startedAt pod = Some t \<and> (readyCarried (k_lib k) gs t \<or>
              k_now k w - t \<le> startupTimeout det \<and>
              (\<exists>out. k_tail_logs k (om_namespace (pod_meta pod)) (om_name (pod_meta pod)) ''server'' 500 w = (Inr out, w') \<and>
                 match out)))) \<and>
         (ob_phase ob = PhaseStarting \<longleftrightarrow> ob_requeue ob = 3 * second)"
  using assms
  by (auto simp: observeRunning_def io_defs Let_def startupLogLines_def serverContainerName_def startupPollInterval_def
      duration_defs split: option.splits prod.splits sum.splits if_splits)

section \<open>Concrete instances\<close>

text \<open>The properties applied to concrete objects, where their hypotheses hold.\<close>

definition detecting_egg :: egg where
  "detecting_egg = ex_egg\<lparr>egg_spec := (egg_spec ex_egg)\<lparr>es_startup_detection :=
     Some \<lparr>sd_regex = [], sd_timeout_seconds = None\<rparr>\<rparr>\<rparr>"

theorem observe_ready_witness:
  "\<exists>ob. fst (observe (absent_k8s :: unit k8s) log_config ex_gs ex_egg (Some ex_pod) ()) = Inr ob \<and>
     cond_status (ob_ready ob) = CondTrue \<and> ob_phase ob = PhaseRunning"
proof -
  obtain ob w' where o: "observe (absent_k8s :: unit k8s) log_config ex_gs ex_egg (Some ex_pod) () = (Inr ob, w')"
    and r: "cond_status (ob_ready ob) = CondTrue \<longrightarrow> ob_phase ob = PhaseRunning"
    using observe_ready [of "absent_k8s :: unit k8s" log_config ex_gs ex_egg "Some ex_pod" "()"] by blast
  have "case fst (observe (absent_k8s :: unit k8s) log_config ex_gs ex_egg (Some ex_pod) ()) of
      Inr ob \<Rightarrow> cond_status (ob_ready ob) = CondTrue | _ \<Rightarrow> False" by code_simp
  with o r show ?thesis by simp
qed

theorem observeRunning_detected_witness:
  "\<exists>ob. fst (observeRunning (absent_k8s :: unit k8s) log_config ex_gs detecting_egg ex_pod ()) = Inr ob \<and>
     cond_status (ob_ready ob) = CondTrue"
proof -
  let ?k = "absent_k8s :: unit k8s"
  have "succeeded (fst (observeRunning ?k log_config ex_gs detecting_egg ex_pod ()))" by code_simp
  then obtain ob w' where o: "observeRunning ?k log_config ex_gs detecting_egg ex_pod () = (Inr ob, w')" by (rule succeededE)
  have d: "es_startup_detection (egg_spec detecting_egg) = Some \<lparr>sd_regex = [], sd_timeout_seconds = None\<rparr>"
    by (simp add: detecting_egg_def)
  have c: "gc_log_reader log_config" by (simp add: log_config_def)
  have m: "lib_regex (k_lib ?k) (sd_regex \<lparr>sd_regex = [], sd_timeout_seconds = None\<rparr>) = Some (\<lambda>s. s = [])"
    by (simp add: absent_k8s_def std_lib_def)
  have t: "startedAt ex_pod = Some 1000000000" "k_now ?k () = 0" "w' = ()" by (code_simp, code_simp, simp)
  have "\<exists>out. k_tail_logs ?k (om_namespace (pod_meta ex_pod)) (om_name (pod_meta ex_pod)) ''server'' 500 () = (Inr out, w') \<and> out = []"
    by (simp add: absent_k8s_def ret_def)
  with observeRunning_detected [OF d c m o] o t show ?thesis by (auto simp: startupTimeout_def defaultStartupTimeout_def duration_defs)
qed

end
