(* ===== verification/GameServer_Controller.thy ===== *)
theory GameServer_Controller
  imports GameServer_Status
begin

text \<open>
  \<open>internal/controller/gameserver_controller.go\<close> and \<open>metrics.go\<close>: the reconcile loop of a
  GameServer. A \<open>ctrl.Result\<close> is its \<open>RequeueAfter\<close>; a handler that changes the GameServer through
  its pointer returns the changed one.
\<close>

section \<open>Metrics\<close>

fun phase_str :: "gs_phase \<Rightarrow> string" where
  "phase_str PhaseUnset = []"
| "phase_str PhasePending = ''Pending''"
| "phase_str PhaseInstalling = ''Installing''"
| "phase_str PhaseStarting = ''Starting''"
| "phase_str PhaseSuspended = ''Suspended''"
| "phase_str PhaseRunning = ''Running''"
| "phase_str PhaseStopping = ''Stopping''"
| "phase_str PhaseStopped = ''Stopped''"
| "phase_str PhaseFailed = ''Failed''"
| "phase_str PhaseCrashed = ''Crashed''"

definition phaseMetric :: "'w k8s \<Rightarrow> gameserver \<Rightarrow> gs_phase \<Rightarrow> int \<Rightarrow> ('w, unit) io" where
  "phaseMetric k gs ph v = modifyE (k_metric k ''hatchery_gameserver_phase''
     [om_namespace (gs_meta gs), om_name (gs_meta gs), phase_str ph] v)"

definition recordGameServerPhase :: "'w k8s \<Rightarrow> gameserver \<Rightarrow> gs_phase \<Rightarrow> gs_phase \<Rightarrow> ('w, unit) io" where
  "recordGameServerPhase k gs old new =
     thenE (if old \<noteq> PhaseUnset \<and> old \<noteq> new then phaseMetric k gs old 0 else ret ())
           (if new \<noteq> PhaseUnset then phaseMetric k gs new 1 else ret ())"

text \<open>The series of every phase of the server go: a partial match on the first two labels.\<close>

definition removeGameServerMetrics :: "'w k8s \<Rightarrow> string \<Rightarrow> string \<Rightarrow> ('w, unit) io" where
  "removeGameServerMetrics k ns name = modifyE (k_metric k ''delete:hatchery_gameserver_phase'' [ns, name] 0)"

section \<open>The server's objects\<close>

definition reconcileDelete :: "'w k8s \<Rightarrow> gameserver \<Rightarrow> ('w, duration) io" where
  "reconcileDelete k gs =
     (if \<not> lib_contains_finalizer (k_lib k) (gs_meta gs) GameServerFinalizer then ret 0
      else thenE (removeGameServerMetrics k (om_namespace (gs_meta gs)) (om_name (gs_meta gs)))
        (thenE (wrapE ''removing finalizer: '' (r_update (k_gs k)
            (gs\<lparr>gs_meta := lib_remove_finalizer (k_lib k) (gs_meta gs) GameServerFinalizer\<rparr>)))
          (ret 0)))"

definition reconcilePVC :: "'w k8s \<Rightarrow> gameserver \<Rightarrow> ('w, unit) io" where
  "reconcilePVC k gs =
     (let ns = om_namespace (gs_meta gs); name = om_name (gs_meta gs) in
      bindE (found_or_none (r_get (k_pvc k) ns name)) (\<lambda>r. case r of
        Some _ \<Rightarrow> ret ()
      | None \<Rightarrow>
        (case lib_parse_quantity (k_lib k) (st_size (gss_storage (gs_spec gs))) of
          None \<Rightarrow> throw (MsgErr (Msg ''parsing spec.storage.size %q: %w'' [AStr (st_size (gss_storage (gs_spec gs)))]))
        | Some sz \<Rightarrow>
          bindE (liftE (lib_set_controller (k_lib k) (gs_meta gs)
              ((new_meta name ns)\<lparr>om_labels := GameServerLabels name\<rparr>))) (\<lambda>m.
          thenE (r_create (k_pvc k) \<lparr>pvc_meta = m, pvc_size = sz, pvc_class = st_class (gss_storage (gs_spec gs)),
              pvc_volume = []\<rparr>) (ret ())))))"

definition reconcileSecret :: "'w k8s \<Rightarrow> gameserver \<Rightarrow> ('w, unit) io" where
  "reconcileSecret k gs =
     (let ns = om_namespace (gs_meta gs); name = SecretName (om_name (gs_meta gs)) in
      bindE (found_or_none (r_get (k_secret k) ns name)) (\<lambda>r. case r of
        Some _ \<Rightarrow> ret ()
      | None \<Rightarrow>
        bindE (wrapE ''generating sftp hmac key: '' (k_random k 32)) (\<lambda>key.
        bindE (liftE (lib_set_controller (k_lib k) (gs_meta gs)
            ((new_meta name ns)\<lparr>om_labels := GameServerLabels (om_name (gs_meta gs))\<rparr>))) (\<lambda>m.
        thenE (r_create (k_secret k) \<lparr>sec_meta = m, sec_data = SecretData key\<rparr>) (ret ())))))"

text \<open>No ports means no rule: an empty port list would mean every port.\<close>

definition gameIngressPolicySpec :: "string \<Rightarrow> egg_port list \<Rightarrow> np_spec" where
  "gameIngressPolicySpec gsName ports =
     \<lparr>np_selector = GameServerLabels gsName, np_types = [Ingress],
      np_ingress = (if ports = [] then []
        else [\<lparr>npr_peers = [], npr_ports = map (\<lambda>p. (eggPortProtocol p, ep_container_port p)) ports\<rparr>]),
      np_egress = []\<rparr>"

definition no_np_spec :: np_spec where
  "no_np_spec = \<lparr>np_selector = Map.empty, np_types = [], np_ingress = [], np_egress = []\<rparr>"

definition mutatePolicy :: "klib \<Rightarrow> gameserver \<Rightarrow> np_spec \<Rightarrow> netpol \<Rightarrow> go_err + netpol" where
  "mutatePolicy L gs spec np = (case lib_set_controller L (gs_meta gs) (np_meta np) of
     Inl e \<Rightarrow> Inl e | Inr m \<Rightarrow> Inr (np\<lparr>np_meta := m, np_spec := spec\<rparr>))"

definition reconcileNetworkPolicy :: "'w k8s \<Rightarrow> gameserver \<Rightarrow> egg \<Rightarrow> ('w, unit) io" where
  "reconcileNetworkPolicy k gs e =
     (let ns = om_namespace (gs_meta gs); name = om_name (gs_meta gs) in
      bindE (r_get (k_ns k) [] ns) (\<lambda>n.
        if sget (om_labels (ns_meta n)) LabelTenant = [] then ret ()
        else r_ensure (k_np k)
          \<lparr>np_meta = new_meta (name @ ''-game'') ns, np_spec = no_np_spec\<rparr>
          (mutatePolicy (k_lib k) gs (gameIngressPolicySpec name (EffectivePorts e gs)))))"

definition mutateService :: "klib \<Rightarrow> gameserver \<Rightarrow> service_port list \<Rightarrow> service \<Rightarrow> go_err + service" where
  "mutateService L gs ports s = (case lib_set_controller L (gs_meta gs) (svc_meta s) of
     Inl e \<Rightarrow> Inl e
   | Inr m \<Rightarrow> Inr (s\<lparr>svc_meta := m, svc_selector := GameServerLabels (om_name (gs_meta gs)), svc_ports := ports\<rparr>))"

definition reconcileService :: "'w k8s \<Rightarrow> gameserver \<Rightarrow> egg \<Rightarrow> ('w, unit) io" where
  "reconcileService k gs e =
     (let name = om_name (gs_meta gs); ports = servicePorts (EffectivePorts e gs) @ [ServicePort] in
      r_ensure (k_svc k)
        \<lparr>svc_meta = (new_meta name (om_namespace (gs_meta gs)))\<lparr>om_labels := GameServerLabels name\<rparr>,
         svc_selector = Map.empty, svc_ports = []\<rparr>
        (mutateService (k_lib k) gs ports))"

text \<open>A deletion that finds the Pod gone already counts as no Pod.\<close>

definition deletePod :: "'w k8s \<Rightarrow> pod \<Rightarrow> ('w, pod option) io" where
  "deletePod k pod = bindE (attempt (r_delete (k_pod k) pod)) (\<lambda>r. case r of
     Inr _ \<Rightarrow> ret (Some pod) | Inl e \<Rightarrow> if is_not_found e then ret None else throw e)"

definition reconcilePod ::
  "'w k8s \<Rightarrow> gs_config \<Rightarrow> (nat \<Rightarrow> vars \<Rightarrow> vars) \<Rightarrow> gameserver \<Rightarrow> egg \<Rightarrow> ('w, pod option) io" where
  "reconcilePod k C ord gs e =
     bindE (found_or_none (r_get (k_pod k) (om_namespace (gs_meta gs)) (om_name (gs_meta gs)))) (\<lambda>r.
       if gsStopped gs then (case r of
           Some pod \<Rightarrow> if is_deleting (pod_meta pod) then ret (Some pod) else deletePod k pod
         | None \<Rightarrow> ret None)
       else (case r of
           Some pod \<Rightarrow> if \<not> is_deleting (pod_meta pod) \<and> restartRequested gs pod then deletePod k pod
                       else ret (Some pod)
         | None \<Rightarrow>
             bindE (liftE (buildPod (k_lib k) ord gs e (gc_sftp_image C))) (\<lambda>desired.
             bindE (liftE (lib_set_controller (k_lib k) (gs_meta gs) (pod_meta desired))) (\<lambda>m.
             bindE (r_create (k_pod k) (desired\<lparr>pod_meta := m\<rparr>)) (\<lambda>created. ret (Some created))))))"

section \<open>Status\<close>

text \<open>The conditions and the crash count \<open>updateStatus\<close> computes, and whether they changed.\<close>

definition statusConditions :: "klib \<Rightarrow> time \<Rightarrow> gameserver \<Rightarrow> observation \<Rightarrow> pod option \<Rightarrow> gs_status \<times> bool" where
  "statusConditions L now gs obs p =
     (let st = gs_status gs;
          (c1, ch1) = lib_set_condition L now (gst_conditions st) (ob_ready obs);
          (c2, ch2) = lib_set_condition L now c1 (restartRequiredCondition L gs p) in
      if gss_state (gs_spec gs) = StateRunning \<and> \<not> gss_suspended (gs_spec gs) then
        (let (c3, ch3) = lib_set_condition L now c2
               (new_condition ConditionCrashed CondFalse ''NotCrashed'' no_msg (om_generation (gs_meta gs)))
         in (st\<lparr>gst_conditions := c3\<rparr>, ch1 \<or> ch2 \<or> ch3))
      else if gst_recent_crashes st \<noteq> [] then (st\<lparr>gst_conditions := c2, gst_recent_crashes := []\<rparr>, True)
      else (st\<lparr>gst_conditions := c2\<rparr>, ch1 \<or> ch2))"

definition updateStatus :: "'w k8s \<Rightarrow> gs_config \<Rightarrow> gameserver \<Rightarrow> egg \<Rightarrow> pod option \<Rightarrow> ('w, duration) io" where
  "updateStatus k C gs e p =
     bindE (observe k C gs e p) (\<lambda>obs.
     bindE (gets (k_now k)) (\<lambda>now.
       (case statusConditions (k_lib k) now gs obs p of (st, changed) \<Rightarrow>
        if \<not> changed \<and> gst_phase st = ob_phase obs \<and> gst_pod_name st = ob_pod_name obs
           \<and> gst_observed_generation st = om_generation (gs_meta gs) then ret (ob_requeue obs)
        else bindE (r_status_update (k_gs k) (gs\<lparr>gs_status := st\<lparr>gst_phase := ob_phase obs,
                 gst_pod_name := ob_pod_name obs, gst_observed_generation := om_generation (gs_meta gs)\<rparr>\<rparr>)) (\<lambda>gs'.
          thenE (recordGameServerPhase k gs' (gst_phase (gs_status gs)) (ob_phase obs)) (ret (ob_requeue obs))))))"

definition setPhase :: "'w k8s \<Rightarrow> gameserver \<Rightarrow> gs_phase \<Rightarrow> ('w, duration) io" where
  "setPhase k gs phase =
     (if gst_phase (gs_status gs) = phase then ret 0
      else bindE (r_status_update (k_gs k) (gs\<lparr>gs_status := (gs_status gs)\<lparr>gst_phase := phase\<rparr>\<rparr>)) (\<lambda>gs'.
        thenE (recordGameServerPhase k gs' (gst_phase (gs_status gs)) phase) (ret 0)))"

section \<open>Reconcile\<close>

definition reconcileLive ::
  "'w k8s \<Rightarrow> gs_config \<Rightarrow> (nat \<Rightarrow> vars \<Rightarrow> vars) \<Rightarrow> gameserver \<Rightarrow> egg \<Rightarrow> ('w, duration) io" where
  "reconcileLive k C ord gs e =
     thenE (wrapE ''reconciling pvc: '' (reconcilePVC k gs))
     (thenE (wrapE ''reconciling service: '' (reconcileService k gs e))
     (thenE (wrapE ''reconciling network policy: '' (reconcileNetworkPolicy k gs e))
     (bindE (wrapE ''reconciling pod: '' (reconcilePod k C ord gs e)) (\<lambda>p.
      bindE (wrapE ''handling crash: '' (reconcileCrash k C gs p)) (\<lambda>(gs', crashWait).
      bindE (updateStatus k C gs' e p) (\<lambda>res.
        ret (if 0 < crashWait \<and> (res = 0 \<or> crashWait < res) then crashWait else res)))))))"

definition reconcileBody ::
  "'w k8s \<Rightarrow> gs_config \<Rightarrow> (nat \<Rightarrow> vars \<Rightarrow> vars) \<Rightarrow> string \<Rightarrow> string \<Rightarrow> ('w, duration) io" where
  "reconcileBody k C ord ns name =
     bindE (found_or_none (r_get (k_gs k) ns name)) (\<lambda>r. case r of None \<Rightarrow> ret 0
     | Some gs \<Rightarrow>
       if is_deleting (gs_meta gs) then reconcileDelete k gs
       else if \<not> lib_contains_finalizer (k_lib k) (gs_meta gs) GameServerFinalizer then
         thenE (wrapE ''adding finalizer: '' (r_update (k_gs k)
             (gs\<lparr>gs_meta := lib_add_finalizer (k_lib k) (gs_meta gs) GameServerFinalizer\<rparr>))) (ret 0)
       else thenE (wrapE ''reconciling sftp secret: '' (reconcileSecret k gs))
         (bindE (found_or_none (r_get (k_egg k) (EggNamespace gs) (er_name (gss_egg_ref (gs_spec gs))))) (\<lambda>re. case re of
            None \<Rightarrow> setPhase k gs PhaseFailed
          | Some e \<Rightarrow>
            if ResolveImage e (gss_image_name (gs_spec gs)) = None then setPhase k gs PhaseFailed
            else reconcileLive k C ord gs e)))"

text \<open>The deferred function counts the outcome and observes the duration.\<close>

definition Reconcile ::
  "'w k8s \<Rightarrow> gs_config \<Rightarrow> (nat \<Rightarrow> vars \<Rightarrow> vars) \<Rightarrow> string \<Rightarrow> string \<Rightarrow> ('w, duration) io" where
  "Reconcile k C ord ns name =
     bindE (gets (k_now k)) (\<lambda>start.
     bindE (attempt (reconcileBody k C ord ns name)) (\<lambda>r.
       let outcome = (case r of Inl _ \<Rightarrow> ''error'' | Inr _ \<Rightarrow> ''success'') in
       thenE (modifyE (k_metric k ''hatchery_gameserver_reconcile_total'' [outcome] 1))
       (bindE (gets (k_now k)) (\<lambda>t.
        thenE (modifyE (k_metric k ''hatchery_gameserver_reconcile_duration_seconds'' [outcome] (t - start)))
        (liftE r)))))"

section \<open>When a Pod is created or deleted\<close>

text \<open>
  What must have happened before: a Pod is created only for a server that was read, is not being
  deleted and is meant to run, when the lookup of its Pod answered NotFound, after its Service is in
  place and, in a tenant namespace, its network policy. A Pod is deleted only when the server read is
  stopped or suspended, asks for a restart that this Pod has not served, or its game process ended.
\<close>

definition live_server :: "string \<Rightarrow> string \<Rightarrow> gameserver \<Rightarrow> event set \<Rightarrow> bool" where
  "live_server ns name gs S \<longleftrightarrow> EvGot ns name (OGs gs) \<in> S \<and> \<not> is_deleting (gs_meta gs)"

definition service_ready :: "event set \<Rightarrow> bool" where
  "service_ready S \<longleftrightarrow> (\<exists>s. EvEnsure (OSvc s) True \<in> S)"

definition policy_ready :: "gameserver \<Rightarrow> event set \<Rightarrow> bool" where
  "policy_ready gs S \<longleftrightarrow> (\<exists>n. EvGot [] (om_namespace (gs_meta gs)) (ONs n) \<in> S \<and>
     (sget (om_labels (ns_meta n)) LabelTenant = [] \<or> (\<exists>np. EvEnsure (ONp np) True \<in> S)))"

definition may_create_pod :: "string \<Rightarrow> string \<Rightarrow> event set \<Rightarrow> bool" where
  "may_create_pod ns name S \<longleftrightarrow> (\<exists>gs. live_server ns name gs S \<and> \<not> gsStopped gs \<and> service_ready S \<and>
     policy_ready gs S \<and> EvGetFailed (om_namespace (gs_meta gs)) (om_name (gs_meta gs)) True \<in> S)"

definition may_delete_pod :: "string \<Rightarrow> string \<Rightarrow> event set \<Rightarrow> pod \<Rightarrow> bool" where
  "may_delete_pod ns name S p \<longleftrightarrow> (\<exists>gs. live_server ns name gs S \<and> \<not> is_deleting (pod_meta p) \<and>
     (gsStopped gs \<or> restartRequested gs p \<or> crashedPod gs (Some p) \<noteq> None))"

definition pod_rule :: "string \<Rightarrow> string \<Rightarrow> event set \<Rightarrow> event \<Rightarrow> bool" where
  "pod_rule ns name before e \<longleftrightarrow>
     (\<forall>p ok. e = EvCreate (OPod p) ok \<longrightarrow> may_create_pod ns name before) \<and>
     (\<forall>p ok. e = EvDelete (OPod p) ok \<longrightarrow> may_delete_pod ns name before p)"

definition no_pod_write :: "event \<Rightarrow> bool" where
  "no_pod_write e \<longleftrightarrow> (\<forall>p ok. e \<noteq> EvCreate (OPod p) ok \<and> e \<noteq> EvDelete (OPod p) ok)"

lemma pod_rule_quiet: "no_pod_write e \<Longrightarrow> pod_rule ns name S e"
  by (auto simp: pod_rule_def no_pod_write_def)

lemmas pod_rule_defs = may_create_pod_def may_delete_pod_def live_server_def service_ready_def policy_ready_def

lemma quiet_ops:
  "only no_pod_write (reconcilePVC (logging k) gs)"
  "only no_pod_write (reconcileSecret (logging k) gs)"
  "only no_pod_write (reconcileService (logging k) gs e)"
  "only no_pod_write (reconcileNetworkPolicy (logging k) gs e)"
  "only no_pod_write (reconcileDelete (logging k) gs)"
  "only no_pod_write (recordGameServerPhase (logging k) gs p q)"
  "only no_pod_write (saveCrashLog (logging k) C gs pod crash)"
  unfolding reconcilePVC_def reconcileSecret_def reconcileService_def reconcileNetworkPolicy_def
    reconcileDelete_def removeGameServerMetrics_def recordGameServerPhase_def phaseMetric_def saveCrashLog_def
    logging_kinds Let_def
  by (intro only_rules only_calls; simp add: no_pod_write_def)+

lemma observe_quiet: "only no_pod_write (observe (logging k) C gs e p)"
  unfolding observe_def observeRunning_def Let_def
  by (intro only_rules only_calls allI impI; (simp add: no_pod_write_def)?) (auto intro!: only_rules only_calls simp: no_pod_write_def split: pod_phase.splits)

lemma status_quiet:
  "only no_pod_write (setPhase (logging k) gs ph)"
  "only no_pod_write (updateStatus (logging k) C gs e p)"
  unfolding setPhase_def updateStatus_def logging_kinds Let_def
  by (intro only_rules only_calls quiet_ops observe_quiet; simp add: no_pod_write_def)+

lemma quiet_logs:
  assumes "only no_pod_write m"
  shows "logs (guarded (pod_rule ns name)) m (\<lambda>_. guarded (pod_rule ns name)) (\<lambda>_. guarded (pod_rule ns name))"
  by (rule logs_guarded_only [OF assms pod_rule_quiet])

text \<open>Facts about earlier calls survive later ones.\<close>

lemma quiet_keeps:
  assumes "only no_pod_write m" and "\<And>S e. H S \<Longrightarrow> H (insert e S)"
  shows "logs (\<lambda>l. guarded (pod_rule ns name) l \<and> H (set l)) m
           (\<lambda>_ l. guarded (pod_rule ns name) l \<and> H (set l)) (\<lambda>_. guarded (pod_rule ns name))"
  by (rule logs_post [OF logs_guarded_since [OF assms(1) pod_rule_quiet, where H = H]])
    (simp_all add: assms(2))

lemma deletePod_logs:
  assumes "\<And>S. H S \<Longrightarrow> may_delete_pod ns name S pod" and "\<And>S e. H S \<Longrightarrow> H (insert e S)"
  shows "logs (\<lambda>l. guarded (pod_rule ns name) l \<and> H (set l)) (deletePod (logging k) pod)
           (\<lambda>_ l. guarded (pod_rule ns name) l \<and> H (set l)) (\<lambda>_. guarded (pod_rule ns name))"
  unfolding deletePod_def logging_kinds
  apply (rule logs_bindE [where R = "\<lambda>_ l. guarded (pod_rule ns name) l \<and> H (set l)"])
   apply (rule logs_attempt, rule log_rules; auto simp: pod_rule_def assms)
  apply (intro logs_case_sum logs_if logs_ret logs_throw; simp)
  done

lemma reconcileService_logs:
  assumes "\<And>S e. H S \<Longrightarrow> H (insert e S)"
  shows "logs (\<lambda>l. guarded (pod_rule ns name) l \<and> H (set l)) (reconcileService (logging k) gs e)
     (\<lambda>_ l. guarded (pod_rule ns name) l \<and> H (set l) \<and> service_ready (set l)) (\<lambda>_. guarded (pod_rule ns name))"
  unfolding reconcileService_def Let_def logging_kinds
  by (rule log_rules) (auto simp: assms pod_rule_def service_ready_def)

lemma reconcileNetworkPolicy_logs:
  assumes "\<And>S e. H S \<Longrightarrow> H (insert e S)"
  shows "logs (\<lambda>l. guarded (pod_rule ns name) l \<and> H (set l)) (reconcileNetworkPolicy (logging k) gs e)
     (\<lambda>_ l. guarded (pod_rule ns name) l \<and> H (set l) \<and> policy_ready gs (set l)) (\<lambda>_. guarded (pod_rule ns name))"
  unfolding reconcileNetworkPolicy_def Let_def logging_kinds
  apply (rule logs_bindE [where R = "\<lambda>n l. guarded (pod_rule ns name) l \<and> H (set l) \<and>
      EvGot [] (om_namespace (gs_meta gs)) (ONs n) \<in> set l"])
   apply (rule log_rules; auto simp: assms pod_rule_def)
  apply (rule logs_if)
   apply (rule logs_ret, auto simp: policy_ready_def)
  apply (rule log_rules; auto simp: assms pod_rule_def policy_ready_def)
  done

lemma reconcilePod_logs:
  "logs (\<lambda>l. guarded (pod_rule ns name) l \<and> live_server ns name gs (set l) \<and> service_ready (set l) \<and> policy_ready gs (set l))
     (reconcilePod (logging k) C ord gs e)
     (\<lambda>_ l. guarded (pod_rule ns name) l \<and> live_server ns name gs (set l)) (\<lambda>_. guarded (pod_rule ns name))"
proof -
  let ?I = "guarded (pod_rule ns name)"
  let ?H = "\<lambda>S. live_server ns name gs S \<and> service_ready S \<and> policy_ready gs S"
  let ?L = "live_server ns name gs"
  have grow: "?L S \<Longrightarrow> ?L (insert x S)" for S x by (auto simp: pod_rule_defs)
  have growH: "?H S \<Longrightarrow> ?H (insert x S)" for S x by (auto simp: pod_rule_defs)
  let ?R = "\<lambda>r l. ?I l \<and> ?H (set l) \<and> (r = None \<longrightarrow> EvGetFailed (om_namespace (gs_meta gs)) (om_name (gs_meta gs)) True \<in> set l)"
  have get: "logs (\<lambda>l. ?I l \<and> ?H (set l))
      (found_or_none (r_get (log_rest OPod (k_pod k)) (om_namespace (gs_meta gs)) (om_name (gs_meta gs)))) ?R (\<lambda>_. ?I)"
    by (rule logs_found_or_none, rule log_rules) (auto simp: pod_rule_def pod_rule_defs)
  have del: "logs (\<lambda>l. ?I l \<and> ?L (set l)) (deletePod (logging k) pod) (\<lambda>_ l. ?I l \<and> ?L (set l)) (\<lambda>_. ?I)"
    if "\<not> is_deleting (pod_meta pod)" "gsStopped gs \<or> restartRequested gs pod" for pod
    by (rule deletePod_logs [where H = ?L]) (use that grow in \<open>auto simp: may_delete_pod_def\<close>)
  have create: "logs (?R None) (r_create (log_rest OPod (k_pod k)) pod) (\<lambda>_ l. ?I l \<and> ?L (set l)) (\<lambda>_. ?I)"
    if "\<not> gsStopped gs" for pod
    by (rule log_rules) (use that grow in \<open>auto simp: pod_rule_def may_create_pod_def\<close>)
  show ?thesis
    unfolding reconcilePod_def logging_kinds
    apply (rule logs_bindE [OF get])
    apply (rule logs_if)
     apply (rule logs_case_option, rule logs_ret, simp)
     apply (rule logs_if, rule logs_ret, simp)
     apply (rule logs_pre [OF del], simp, simp, simp)
    apply (rule logs_case_option)
     apply (rule logs_bindE [where R = "\<lambda>_. ?R None"], rule logs_liftE; simp)
     apply (rule logs_bindE [where R = "\<lambda>_. ?R None"], rule logs_liftE; simp)
     apply (rule logs_bindE [where R = "\<lambda>_ l. ?I l \<and> ?L (set l)"])
      apply (rule logs_pre [OF create], simp, simp)
     apply (rule logs_ret, simp)
    apply (rule logs_if)
     apply (rule logs_pre [OF del], simp, simp, simp)
    apply (rule logs_ret, simp)
    done
qed

lemma podDelete_logs:
  assumes "\<And>S. H S \<Longrightarrow> may_delete_pod ns name S pod" and "\<And>S e. H S \<Longrightarrow> H (insert e S)"
  shows "logs (\<lambda>l. guarded (pod_rule ns name) l \<and> H (set l)) (ignoring is_not_found (r_delete (log_rest OPod (k_pod k)) pod))
           (\<lambda>_ l. guarded (pod_rule ns name) l \<and> H (set l)) (\<lambda>_. guarded (pod_rule ns name))"
  by (rule logs_ignoring, rule log_rules) (auto simp: pod_rule_def assms)

lemma actOnCrash_logs:
  assumes "crashedPod gs (Some pod) \<noteq> None"
  shows "logs (\<lambda>l. guarded (pod_rule ns name) l \<and> live_server ns name gs (set l)) (actOnCrash (logging k) gs' pod a)
           (\<lambda>_. guarded (pod_rule ns name)) (\<lambda>_. guarded (pod_rule ns name))"
proof -
  let ?I = "guarded (pod_rule ns name)"
  let ?L = "live_server ns name gs"
  have grow: "?L S \<Longrightarrow> ?L (insert x S)" for S x by (auto simp: live_server_def)
  have pod: "\<not> is_deleting (pod_meta pod)" using assms by (auto simp: crashedPod_def split: if_splits)
  have del: "logs (\<lambda>l. ?I l \<and> ?L (set l)) (ignoring is_not_found (r_delete (log_rest OPod (k_pod k)) pod))
      (\<lambda>_ l. ?I l \<and> ?L (set l)) (\<lambda>_. ?I)"
    by (rule podDelete_logs [where H = ?L]) (use assms pod grow in \<open>auto simp: may_delete_pod_def\<close>)
  have stop: "logs (\<lambda>l. ?I l \<and> ?L (set l)) (stopAfterExit (logging k) gs' pod) (\<lambda>_. ?I) (\<lambda>_. ?I)"
    unfolding stopAfterExit_def logging_kinds
    apply (rule logs_bindE [where R = "\<lambda>_ l. ?I l \<and> ?L (set l)"])
     apply (rule log_rules; use grow in \<open>auto simp: pod_rule_def\<close>)
    apply (rule logs_bindE [OF del], rule logs_ret, simp)
    done
  have count: "logs (\<lambda>l. ?I l) (thenE (countCrash (logging k) c) (ret x)) (\<lambda>_. ?I) (\<lambda>_. ?I)" for c and x :: "gameserver \<times> duration"
    unfolding countCrash_def
    by (rule quiet_logs, intro only_rules only_calls) (simp add: no_pod_write_def)
  have giveUp: "logs (\<lambda>l. ?I l \<and> ?L (set l)) (bindE (stopAfterExit (logging k) gs' pod)
      (\<lambda>g. thenE (countCrash (logging k) c) (ret (g, 0 :: duration)))) (\<lambda>_. ?I) (\<lambda>_. ?I)" for c
    by (rule logs_bindE [OF stop count])
  have restart: "logs (\<lambda>l. ?I l \<and> ?L (set l)) (bindE (gets (k_now (logging k))) (\<lambda>t0.
         if 0 < r - t0 then ret (gs', r - t0)
         else thenE (ignoring is_not_found (r_delete (log_rest OPod (k_pod k)) pod))
                (thenE (countCrash (logging k) ''restarted'') (ret (gs', 0))))) (\<lambda>_. ?I) (\<lambda>_. ?I)" for r
    apply (rule logs_bindE [OF logs_gets], assumption)
    apply (rule logs_if, rule logs_ret, simp)
    apply (rule logs_bindE [OF del], rule logs_pre [OF count], simp)
    done
  show ?thesis
    unfolding actOnCrash_def logging_kinds by (cases a) (simp_all only: crash_action.case giveUp restart)
qed

lemma reconcileCrash_logs:
  "logs (\<lambda>l. guarded (pod_rule ns name) l \<and> live_server ns name gs (set l)) (reconcileCrash (logging k) C gs p)
     (\<lambda>_. guarded (pod_rule ns name)) (\<lambda>_. guarded (pod_rule ns name))"
proof (cases "\<exists>pod term. p = Some pod \<and> crashedPod gs p = Some term")
  case False
  then have "reconcileCrash (logging k) C gs p = ret (gs, 0)"
    by (cases p; cases "crashedPod gs p") (auto simp: reconcileCrash_def crashedPod_def)
  then show ?thesis by (simp only:) (rule logs_ret, simp)
next
  case True
  then obtain pod "term" where p: "p = Some pod" and c: "crashedPod gs (Some pod) = Some term" by auto
  let ?I = "guarded (pod_rule ns name)"
  let ?L = "live_server ns name gs"
  let ?IL = "\<lambda>l. ?I l \<and> ?L (set l)"
  have grow: "?L S \<Longrightarrow> ?L (insert x S)" for S x by (auto simp: live_server_def)
  have act: "logs ?IL (actOnCrash (logging k) gs' pod a) (\<lambda>_. ?I) (\<lambda>_. ?I)" for gs' a
    by (rule actOnCrash_logs) (simp add: c)
  have quiet': "only no_pod_write m \<Longrightarrow> logs ?IL m (\<lambda>_. ?IL) (\<lambda>_. ?I)" for m :: "('a logged, gameserver) io"
    by (rule quiet_keeps [where H = ?L]) (auto intro: grow)
  show ?thesis
    unfolding reconcileCrash_def p c Let_def prod.case option.case logging_kinds
    apply (rule logs_if [OF act])
    apply (rule logs_bindE [where R = "\<lambda>_. ?IL"])
     apply (rule logs_if, rule quiet_keeps [where H = ?L], rule quiet_ops, erule grow, rule logs_ret, assumption)
    apply (rule logs_bindE [where R = "\<lambda>_. ?IL"], rule logs_gets, assumption)
    apply (rule logs_bindE [OF quiet' act], intro only_rules only_calls, simp add: no_pod_write_def)
    done
qed

text \<open>
  C1: over any run of the reconcile loop, whatever calls fail, the operator creates a server's Pod only
  when the server it read is to run and is not being deleted, its Pod is known not to exist, and its
  Service and (in a tenant namespace) its network policy are in place; and it deletes a Pod only for a
  server that is stopped, suspended, asks for a restart that Pod has not served, or whose game ended.
\<close>

theorem Reconcile_pod_rule: "guarded (pod_rule ns name) (trace (Reconcile (logging k) C ord ns name) w)"
proof (rule trace_guarded)
  let ?I = "guarded (pod_rule ns name)"
  have quiet: "only no_pod_write m \<Longrightarrow> logs (\<lambda>l. ?I l \<and> live_server ns name gs (set l)) m
      (\<lambda>_ l. ?I l \<and> live_server ns name gs (set l)) (\<lambda>_. ?I)" for m :: "('a logged, unit) io" and gs
    by (rule quiet_keeps [where H = "live_server ns name gs"]) (auto simp: live_server_def)
  have live: "logs (\<lambda>l. ?I l \<and> live_server ns name gs (set l)) (reconcileLive (logging k) C ord gs e) (\<lambda>_. ?I) (\<lambda>_. ?I)" for gs e
    unfolding reconcileLive_def
    apply (rule logs_bindE, rule logs_wrapE, rule quiet [OF quiet_ops(1)])
    apply (rule logs_bindE, rule logs_wrapE, rule reconcileService_logs [where H = "live_server ns name gs"])
     apply (simp add: live_server_def)
    apply (rule logs_bindE, rule logs_wrapE,
        rule reconcileNetworkPolicy_logs [where H = "\<lambda>S. live_server ns name gs S \<and> service_ready S", simplified])
     apply (auto simp: live_server_def service_ready_def)[1]
    apply (rule logs_bindE, rule logs_wrapE, rule logs_pre [OF reconcilePod_logs], simp)
    apply (rule logs_bindE, rule logs_wrapE, rule reconcileCrash_logs)
    apply (rule logs_case_prod)
    apply (rule quiet_logs, intro only_rules status_quiet)
    done
  have body: "logs ?I (reconcileBody (logging k) C ord ns name) (\<lambda>_. ?I) (\<lambda>_. ?I)"
    unfolding reconcileBody_def logging_kinds
    apply (rule logs_bindE [where R = "\<lambda>r l. ?I l \<and> (\<forall>gs. r = Some gs \<longrightarrow> EvGot ns name (OGs gs) \<in> set l)"])
     apply (rule logs_found_or_none, rule log_rules; auto simp: pod_rule_def)
    apply (rule logs_case_option, rule logs_ret, simp)
    apply (rule logs_if, rule logs_pre [OF quiet_logs [OF quiet_ops(5)]], simp)
    apply (rule logs_if, rule logs_pre [OF quiet_logs], intro only_rules only_calls, simp add: no_pod_write_def, simp)
    subgoal for r gs
      apply (rule logs_bindE [where R = "\<lambda>_ l. ?I l \<and> live_server ns name gs (set l)"])
       apply (rule logs_wrapE, rule logs_pre [OF quiet [OF quiet_ops(2)]], simp add: live_server_def)
      apply (rule logs_bindE [where R = "\<lambda>_ l. ?I l \<and> live_server ns name gs (set l)"])
       apply (rule quiet_keeps [where H = "live_server ns name gs"], intro only_rules only_calls)
         apply (simp_all add: no_pod_write_def live_server_def)[3]
      apply (rule logs_case_option, rule logs_pre [OF quiet_logs [OF status_quiet(1)]], simp)
      apply (rule logs_if, rule logs_pre [OF quiet_logs [OF status_quiet(1)]], simp)
      apply (rule live)
      done
    done
  show "logs ?I (Reconcile (logging k) C ord ns name) (\<lambda>_. ?I) (\<lambda>_. ?I)"
    unfolding Reconcile_def Let_def
    apply (rule logs_bindE [where R = "\<lambda>_. ?I"], rule logs_gets, assumption)
    apply (rule logs_bindE [where R = "\<lambda>_. ?I"], rule logs_attempt, rule body)
    apply (rule quiet_logs, intro only_rules only_calls)
     apply (simp_all add: no_pod_write_def)
    done
qed

section \<open>The status settles\<close>

definition settled :: "klib \<Rightarrow> time \<Rightarrow> gameserver \<Rightarrow> observation \<Rightarrow> pod option \<Rightarrow> gameserver" where
  "settled L now gs obs p = gs\<lparr>gs_status := (fst (statusConditions L now gs obs p))\<lparr>gst_phase := ob_phase obs,
     gst_pod_name := ob_pod_name obs, gst_observed_generation := om_generation (gs_meta gs)\<rparr>\<rparr>"

lemma restartRequiredCondition_type [simp]: "cond_type (restartRequiredCondition L gs p) = ConditionRestartRequired"
  by (auto simp: restartRequiredCondition_def new_condition_def Let_def split: option.splits)

lemma restartRequiredCondition_status [simp]:
  "restartRequiredCondition L (gs\<lparr>gs_status := st\<rparr>) p = restartRequiredCondition L gs p"
  by (auto simp: restartRequiredCondition_def specHash_def Let_def split: option.splits)

lemma statusConditions_settles:
  assumes store: "condition_store (lib_set_condition L) (lib_find_condition L)"
    and ready: "cond_type (ob_ready obs) = ConditionReady"
  shows "statusConditions L now' (settled L now gs obs p) obs p = (gs_status (settled L now gs obs p), False)"
proof -
  let ?set = "lib_set_condition L" and ?find = "lib_find_condition L"
  let ?rr = "restartRequiredCondition L gs p"
  let ?cr = "new_condition ConditionCrashed CondFalse ''NotCrashed'' no_msg (om_generation (gs_meta gs))"
  let ?c0 = "gst_conditions (gs_status gs)"
  let ?c1 = "fst (?set now ?c0 (ob_ready obs))"
  let ?c2 = "fst (?set now ?c1 ?rr)"
  let ?c3 = "fst (?set now ?c2 ?cr)"
  have ty: "cond_type ?cr = ConditionCrashed" by (simp add: new_condition_def)
  note other = condition_lib.find_set_other [OF condition_store.axioms(1) [OF store]]
  have r2: "?find ?c2 ConditionReady = ?find ?c1 ConditionReady"
    by (rule other) (simp add: condition_type_defs)
  have r3: "?find ?c3 ConditionReady = ?find ?c2 ConditionReady"
    by (rule other) (simp add: ty, simp add: condition_type_defs)
  have q3: "?find ?c3 ConditionRestartRequired = ?find ?c2 ConditionRestartRequired"
    by (rule other) (simp add: ty, simp add: condition_type_defs)
  note again = condition_store.set_again [OF store]
  have a: "?set now' ?c3 (ob_ready obs) = (?c3, False)" "?set now' ?c2 (ob_ready obs) = (?c2, False)"
    by (rule again [where now = now and cs = ?c0], simp add: ready r3 r2)+
  have b: "?set now' ?c3 ?rr = (?c3, False)" "?set now' ?c2 ?rr = (?c2, False)"
    by (rule again [where now = now and cs = ?c1], simp add: q3)+
  have c: "?set now' ?c3 ?cr = (?c3, False)"
    by (rule again [where now = now and cs = ?c2], rule refl)
  show ?thesis
    using a b c by (simp add: statusConditions_def settled_def Let_def split_beta)
qed

text \<open>
  C34: the status update settles: once the status it computes is stored, an \<open>updateStatus\<close> that
  observes the same again makes no write and changes nothing, at any later time; so the controller's
  own status writes do not keep waking it.
\<close>

theorem updateStatus_settles:
  assumes "condition_store (lib_set_condition (k_lib k)) (lib_find_condition (k_lib k))"
    and "observe k C (settled (k_lib k) now gs obs p) e p w = (Inr obs, w')"
  shows "updateStatus k C (settled (k_lib k) now gs obs p) e p w = (Inr (ob_requeue obs), w')"
proof -
  from statusConditions_settles [OF assms(1) observe_type [OF assms(2)]]
  have "\<And>now'. statusConditions (k_lib k) now' (settled (k_lib k) now gs obs p) obs p =
      (gs_status (settled (k_lib k) now gs obs p), False)" .
  then show ?thesis
    using assms(2) by (simp add: updateStatus_def io_defs) (simp add: settled_def)
qed

section \<open>Ports\<close>

text \<open>
  The Service, the network policy and the game container agree: the ports the policy opens to any
  source are those the container declares and those the Service targets beside the SFTP port, and the
  policy never holds a rule with an empty port list, which would open every port.
\<close>

theorem ports_agree:
  assumes "buildPod L ord gs e img = Inr p"
    and "mutateService L gs (servicePorts (EffectivePorts e gs) @ [ServicePort]) s = Inr s'"
  shows "let rules = np_ingress (gameIngressPolicySpec (om_name (gs_meta gs)) (EffectivePorts e gs));
             open = set (concat (map npr_ports rules)) in
         open = (\<lambda>c. (cp_protocol c, cp_port c)) ` set (ct_ports (hd (ps_containers (pod_spec p)))) \<and>
         insert (TCP, 2022) open = (\<lambda>q. (sp_protocol q, sp_target q)) ` set (svc_ports s') \<and>
         (\<forall>r \<in> set rules. npr_ports r \<noteq> [])"
proof -
  have p: "ct_ports (hd (ps_containers (pod_spec p))) = containerPorts (EffectivePorts e gs)"
    using assms(1) by (auto simp: buildPod_def new_container_def Let_def split: sum.splits option.splits)
  have s: "svc_ports s' = servicePorts (EffectivePorts e gs) @ [ServicePort]"
    using assms(2) by (auto simp: mutateService_def split: sum.splits)
  show ?thesis
    unfolding Let_def p s
    by (auto simp: gameIngressPolicySpec_def containerPorts_def servicePorts_def ServicePort_def Port_def image_image)
qed

text \<open>
  The check of the extra ports lets a server take the name of the SFTP port: the Service the
  operator then asks for has two ports with one name.
\<close>

theorem extra_port_sftp_name_clash:
  "\<exists>e gs. ValidateExtraPorts e (gss_extra_ports (gs_spec gs)) = [] \<and>
     \<not> distinct (map sp_name (servicePorts (EffectivePorts e gs) @ [ServicePort]))"
proof (intro exI conjI)
  let ?gs = "ex_gs\<lparr>gs_spec := (gs_spec ex_gs)\<lparr>gss_extra_ports :=
      [\<lparr>xp_name = ''sftp'', xp_port = 25566, xp_protocol = TCP\<rparr>]\<rparr>\<rparr>"
  show "ValidateExtraPorts ex_egg (gss_extra_ports (gs_spec ?gs)) = []"
    by (simp add: ValidateExtraPorts_def MaxExtraPorts_def eggNameOwners_def eggNumberOwners_def ex_defs
        extraPortName_def extraPortKey_def eggPortProtocol_def sftpPort_def char_class_defs)
  show "\<not> distinct (map sp_name (servicePorts (EffectivePorts ex_egg ?gs) @ [ServicePort]))"
    by (simp add: EffectivePorts_def servicePorts_def ServicePort_def PortName_def ex_defs extraPortKey_def
        eggPortKey_def normEggPort_def eggPortProtocol_def Let_def)
qed

section \<open>Concrete instances\<close>

text \<open>The properties applied to concrete objects, where their hypotheses hold.\<close>

theorem updateStatus_settles_witness:
  "\<exists>obs. updateStatus (absent_k8s :: unit k8s) log_config (settled std_lib 0 ex_gs obs (Some ex_pod)) ex_egg (Some ex_pod) () =
     (Inr (ob_requeue obs), ())"
proof -
  let ?k = "absent_k8s :: unit k8s"
  define obs where "obs = observed ex_gs PhaseRunning ''mc'' CondTrue ''NoStartupDetection'' 0"
  have k: "k_lib ?k = std_lib" by (simp add: absent_k8s_def)
  have "condition_store (lib_set_condition (k_lib ?k)) (lib_find_condition (k_lib ?k))"
    unfolding k by (simp add: std_lib_def std_cond.condition_store_axioms)
  moreover have "observe ?k log_config (settled (k_lib ?k) 0 ex_gs obs (Some ex_pod)) ex_egg (Some ex_pod) () = (Inr obs, ())"
    unfolding obs_def by code_simp
  ultimately show ?thesis using updateStatus_settles k by metis
qed

theorem ports_agree_witness:
  "\<exists>p (s' :: service). buildPod std_lib (\<lambda>_. id) ex_gs ex_egg ''sftp'' = Inr p \<and>
     insert (TCP, 2022) ((\<lambda>c. (cp_protocol c, cp_port c)) ` set (ct_ports (hd (ps_containers (pod_spec p))))) =
       (\<lambda>q. (sp_protocol q, sp_target q)) ` set (svc_ports s')"
proof -
  let ?s = "\<lparr>svc_meta = new_meta ''mc'' ''hatchery-acme'', svc_selector = Map.empty, svc_ports = []\<rparr>"
  obtain p where p: "buildPod std_lib (\<lambda>_. id) ex_gs ex_egg ''sftp'' = Inr p" by (rule ex_buildPod)
  have "succeeded (mutateService std_lib ex_gs (servicePorts (EffectivePorts ex_egg ex_gs) @ [ServicePort]) ?s)" by code_simp
  then obtain s' where s: "mutateService std_lib ex_gs (servicePorts (EffectivePorts ex_egg ex_gs) @ [ServicePort]) ?s = Inr s'"
    by (cases "mutateService std_lib ex_gs (servicePorts (EffectivePorts ex_egg ex_gs) @ [ServicePort]) ?s") auto
  from ports_agree [OF p s] have
    a: "set (concat (map npr_ports (np_ingress (gameIngressPolicySpec (om_name (gs_meta ex_gs)) (EffectivePorts ex_egg ex_gs))))) =
      (\<lambda>c. (cp_protocol c, cp_port c)) ` set (ct_ports (hd (ps_containers (pod_spec p))))" and
    b: "insert (TCP, 2022) (set (concat (map npr_ports (np_ingress (gameIngressPolicySpec (om_name (gs_meta ex_gs)) (EffectivePorts ex_egg ex_gs)))))) =
      (\<lambda>q. (sp_protocol q, sp_target q)) ` set (svc_ports s')"
    unfolding Let_def by blast+
  from p b [unfolded a] show ?thesis by (intro exI [of _ p] exI [of _ s'] conjI)
qed

end
