(* ===== verification/Schedule_Controller.thy ===== *)
theory Schedule_Controller
  imports Schedule_Spec Backup_Plan GameServer_Controller "HOL-Library.Product_Lexorder"
begin

text \<open>
  \<open>internal/controller/gameserverschedule_controller.go\<close>: when a schedule runs, its tasks in order,
  the rotation of the backups it made. A loop that catches up with missed fire times has no bound in
  the code: it is a partial function, and a \<open>Reconcile\<close> that never comes out of it is the outcome
  \<open>Hangs\<close>.
\<close>

definition missedRunWindow :: duration where
  "missedRunWindow = 5 * minute"

text \<open>\<open>sc_exec\<close>: whether \<open>Exec\<close> is set. \<open>sc_backups\<close>: the planner's platform, when a planner is set.\<close>

record sched_config =
  sc_exec :: bool
  sc_backups :: "platform option"

text \<open>Go's zero time, January 1 of year 1.\<close>

definition zero_time :: time where
  "zero_time = - 62135596800 * second"

section \<open>Status\<close>

definition setReady :: "'w k8s \<Rightarrow> schedule \<Rightarrow> cond_status \<Rightarrow> string \<Rightarrow> msg \<Rightarrow> ('w, schedule) io" where
  "setReady k s status reason m = bindE (gets (k_now k)) (\<lambda>now.
     ret (s\<lparr>sch_status := (sch_status s)\<lparr>sst_conditions := fst (lib_set_condition (k_lib k) now
       (sst_conditions (sch_status s)) (new_condition ''Ready'' status reason m (om_generation (sch_meta s))))\<rparr>\<rparr>))"

definition patchStatus :: "'w k8s \<Rightarrow> schedule \<Rightarrow> schedule \<Rightarrow> ('w, unit) io" where
  "patchStatus k orig s = thenE (r_status_patch (k_sched k) orig s) (ret ())"

definition ensureOwner :: "'w k8s \<Rightarrow> schedule \<Rightarrow> gameserver \<Rightarrow> ('w, bool \<times> schedule) io" where
  "ensureOwner k s gs =
     (if lib_is_controlled_by (k_lib k) (sch_meta s) (gs_meta gs) then ret (False, s)
      else bindE (liftE (lib_set_controller (k_lib k) (gs_meta gs) (sch_meta s))) (\<lambda>m.
        bindE (r_update (k_sched k) (s\<lparr>sch_meta := m\<rparr>)) (\<lambda>s'. ret (True, s'))))"

fun run_result_str :: "run_result \<Rightarrow> string" where
  "run_result_str RunSucceeded = ''Succeeded''"
| "run_result_str RunFailed = ''Failed''"
| "run_result_str RunSkipped = ''Skipped''"

definition finished :: "schedule \<Rightarrow> time \<Rightarrow> time \<Rightarrow> run_result \<Rightarrow> msg \<Rightarrow> schedule" where
  "finished s started now result m = s\<lparr>sch_status := (sch_status s)\<lparr>sst_active := None,
     sst_last_run := Some \<lparr>sr_started = started, sr_finished = Some now, sr_result = result, sr_message = m\<rparr>\<rparr>\<rparr>"

definition finish :: "'w k8s \<Rightarrow> schedule \<Rightarrow> time \<Rightarrow> time \<Rightarrow> run_result \<Rightarrow> msg \<Rightarrow> ('w, schedule) io" where
  "finish k s started now result m =
     thenE (modifyE (k_metric k ''hatchery_schedule_runs_total'' [run_result_str result] 1))
           (ret (finished s started now result m))"

section \<open>Starting a run\<close>

text \<open>Why the server cannot take a run, if it cannot.\<close>

definition skipReason :: "schedule \<Rightarrow> gameserver \<Rightarrow> string option" where
  "skipReason s gs =
     (if gss_suspended (gs_spec gs) then Some ''server is suspended''
      else if sget (om_annotations (gs_meta gs)) RestoringAnnotation = ''true'' then Some ''a restore is in progress''
      else if scs_only_when_running (sch_spec s) \<and> gst_phase (gs_status gs) \<noteq> PhaseRunning
        then Some ''server is not running''
      else None)"

text \<open>The tasks are not empty: \<open>Reconcile\<close> has validated the spec.\<close>

definition start :: "'w k8s \<Rightarrow> schedule \<Rightarrow> gameserver \<Rightarrow> time \<Rightarrow> ('w, schedule) io" where
  "start k s gs now = (case skipReason s gs of
     Some why \<Rightarrow> finish k s now now RunSkipped (Msg why [])
   | None \<Rightarrow> ret (s\<lparr>sch_status := (sch_status s)\<lparr>sst_active := Some
       \<lparr>ar_id = lib_format_time (k_lib k) now, ar_started = now, ar_task_index = 0,
        ar_next_task_at = now + taskDelay (hd (scs_tasks (sch_spec s)))\<rparr>\<rparr>\<rparr>))"

text \<open>The loop over the missed fire times; \<open>None\<close> when it never ends.\<close>

partial_function (option) catchUp :: "(time \<Rightarrow> time option) \<Rightarrow> time \<Rightarrow> time \<Rightarrow> time option" where
  "catchUp nxt now latest = (case nxt latest of
     None \<Rightarrow> Some latest
   | Some n \<Rightarrow> if now < n then Some latest else catchUp nxt now n)"

text \<open>\<open>maybeStart\<close>: \<open>None\<close> when it does not return.\<close>

definition maybeStart :: "'w k8s \<Rightarrow> schedule \<Rightarrow> gameserver \<Rightarrow> time \<Rightarrow> ('w, schedule option) io" where
  "maybeStart k s gs now =
     (let v = sget (om_annotations (sch_meta s)) RunNowAnnotation; st = sch_status s;
          nxt = NextRun (k_lib k) (sch_spec s) in
      if v \<noteq> [] \<and> v \<noteq> sst_last_run_now st then
        bindE (start k (s\<lparr>sch_status := st\<lparr>sst_last_run_now := v\<rparr>\<rparr>) gs now) (\<lambda>s'. ret (Some s'))
      else if scs_suspend (sch_spec s) then ret (Some s)
      else
        let from = (case sst_last st of None \<Rightarrow> om_creation (sch_meta s) | Some t \<Rightarrow> t) in
        case nxt from of
          None \<Rightarrow> ret (Some s)
        | Some due \<Rightarrow>
          if now < due then ret (Some s)
          else case catchUp nxt now due of
            None \<Rightarrow> ret None
          | Some latest \<Rightarrow>
            let s1 = s\<lparr>sch_status := st\<lparr>sst_last := Some latest\<rparr>\<rparr> in
            if missedRunWindow < now - latest then
              bindE (finish k s1 now now RunSkipped
                (Msg ''missed the %s run (the operator was not running)'' [AStr (lib_format_time (k_lib k) latest)]))
                (\<lambda>s'. ret (Some s'))
            else bindE (start k s1 gs now) (\<lambda>s'. ret (Some s')))"

section \<open>The tasks\<close>

definition listRunBackups :: "'w k8s \<Rightarrow> schedule \<Rightarrow> ('w, backup list) io" where
  "listRunBackups k s = r_list (k_backup k) (Some (om_namespace (sch_meta s))) [(ScheduleLabel, om_name (sch_meta s))]"

definition stampBackup :: "schedule \<Rightarrow> string \<Rightarrow> backup \<Rightarrow> backup" where
  "stampBackup s runID b = b\<lparr>bk_meta := (bk_meta b)\<lparr>
     om_labels := (om_labels (bk_meta b))(ScheduleLabel \<mapsto> om_name (sch_meta s)),
     om_annotations := (om_annotations (bk_meta b))(ScheduleRunAnnotation \<mapsto> runID)\<rparr>\<rparr>"

definition runBackup :: "'w k8s \<Rightarrow> sched_config \<Rightarrow> schedule \<Rightarrow> gameserver \<Rightarrow> string \<Rightarrow> ('w, unit) io" where
  "runBackup k C s gs runID = (case sc_backups C of
     None \<Rightarrow> throw (MsgErr (Msg ''backups are not configured in the operator'' []))
   | Some P \<Rightarrow>
     bindE (listRunBackups k s) (\<lambda>existing.
       if list_ex (\<lambda>b. sget (om_annotations (bk_meta b)) ScheduleRunAnnotation = runID) existing then ret ()
       else bindE (r_get (k_ns k) [] (om_namespace (sch_meta s))) (\<lambda>ns.
         bindE (Plan k P gs (sget (om_labels (ns_meta ns)) LabelTenant)) (\<lambda>bkp.
         thenE (Create k (stampBackup s runID bkp)) (ret ())))))"

definition runCommand :: "'w k8s \<Rightarrow> sched_config \<Rightarrow> gameserver \<Rightarrow> string \<Rightarrow> ('w, unit) io" where
  "runCommand k C gs cmd =
     (let running = gst_phase (gs_status gs) = PhaseRunning \<or> gst_phase (gs_status gs) = PhaseStarting in
      if \<not> running \<or> gst_pod_name (gs_status gs) = [] then throw (MsgErr (Msg ''server is not running'' []))
      else if \<not> sc_exec C then throw (MsgErr (Msg ''running commands is not configured in the operator'' []))
      else bindE (found_or_none (r_get (k_egg k) (EggNamespace gs) (er_name (gss_egg_ref (gs_spec gs))))) (\<lambda>r.
        let console = (case r of None \<Rightarrow> DefaultConsoleInput | Some e \<Rightarrow> ConsoleInputPath (egg_spec e)) in
        k_exec k (om_namespace (gs_meta gs)) (gst_pod_name (gs_status gs)) serverContainerName
          (ConsoleLineCommand console cmd)))"

definition runRestart :: "'w k8s \<Rightarrow> gameserver \<Rightarrow> ('w, gameserver) io" where
  "runRestart k gs =
     (if \<not> (gst_phase (gs_status gs) = PhaseRunning \<or> gst_phase (gs_status gs) = PhaseStarting) then ret gs
      else bindE (gets (k_now k)) (\<lambda>now.
        r_patch (k_gs k) gs (gs\<lparr>gs_meta := (gs_meta gs)\<lparr>om_annotations :=
          (om_annotations (gs_meta gs))(RestartAnnotation \<mapsto> lib_format_nanos (k_lib k) now)\<rparr>\<rparr>)))"

definition runState :: "'w k8s \<Rightarrow> gameserver \<Rightarrow> gs_state \<Rightarrow> ('w, gameserver) io" where
  "runState k gs want =
     (if gss_suspended (gs_spec gs) then throw (MsgErr (Msg ''server is suspended'' []))
      else if sget (om_annotations (gs_meta gs)) RestoringAnnotation = ''true''
        then throw (MsgErr (Msg ''a restore is in progress'' []))
      else if gss_state (gs_spec gs) = want then ret gs
      else r_patch (k_gs k) gs (gs\<lparr>gs_spec := (gs_spec gs)\<lparr>gss_state := want\<rparr>\<rparr>))"

definition runTask ::
  "'w k8s \<Rightarrow> sched_config \<Rightarrow> schedule \<Rightarrow> schedule_task \<Rightarrow> string \<Rightarrow> gameserver \<Rightarrow> ('w, gameserver) io" where
  "runTask k C s t runID gs = (case tk_action t of
     ActCommand \<Rightarrow> thenE (runCommand k C gs (tk_command t)) (ret gs)
   | ActRestart \<Rightarrow> runRestart k gs
   | ActStart \<Rightarrow> runState k gs StateRunning
   | ActStop \<Rightarrow> runState k gs StateStopped
   | ActBackup \<Rightarrow> thenE (runBackup k C s gs runID) (ret gs)
   | OtherAction a \<Rightarrow> throw (MsgErr (Msg ''unknown action %q'' [AStr a])))"

fun action_str :: "schedule_action \<Rightarrow> string" where
  "action_str ActCommand = ''Command''"
| "action_str ActRestart = ''Restart''"
| "action_str ActStart = ''Start''"
| "action_str ActStop = ''Stop''"
| "action_str ActBackup = ''Backup''"
| "action_str (OtherAction a) = a"

definition taskFailed :: "nat \<Rightarrow> schedule_task \<Rightarrow> go_err \<Rightarrow> msg" where
  "taskFailed i t e = Msg ''task %d (%s): %v'' [AInt (int i + 1), AStr (action_str (tk_action t)), AErr e]"

definition withActive :: "schedule \<Rightarrow> active_run \<Rightarrow> schedule" where
  "withActive s a = s\<lparr>sch_status := (sch_status s)\<lparr>sst_active := Some a\<rparr>\<rparr>"

text \<open>The loop of \<open>advance\<close>; \<open>ts\<close> are the tasks from \<open>TaskIndex\<close> on.\<close>

fun advanceFrom :: "'w k8s \<Rightarrow> sched_config \<Rightarrow> schedule \<Rightarrow> time \<Rightarrow> active_run \<Rightarrow> gameserver \<Rightarrow> schedule_task list \<Rightarrow>
    ('w, schedule) io" where
  "advanceFrom k C s now a gs [] =
     (if now < ar_next_task_at a then ret (withActive s a)
      else finish k s (ar_started a) now RunSucceeded no_msg)"
| "advanceFrom k C s now a gs (t # ts) =
     (if now < ar_next_task_at a then ret (withActive s a)
      else bindE (attempt (runTask k C s t (ar_id a) gs)) (\<lambda>r. case r of
          Inl e \<Rightarrow> finish k s (ar_started a) now RunFailed (taskFailed (ar_task_index a) t e)
        | Inr gs' \<Rightarrow> (case ts of
            [] \<Rightarrow> finish k s (ar_started a) now RunSucceeded no_msg
          | t' # _ \<Rightarrow> advanceFrom k C s now
              (a\<lparr>ar_task_index := Suc (ar_task_index a), ar_next_task_at := now + taskDelay t'\<rparr>) gs' ts)))"

definition advance :: "'w k8s \<Rightarrow> sched_config \<Rightarrow> schedule \<Rightarrow> gameserver \<Rightarrow> time \<Rightarrow> ('w, schedule) io" where
  "advance k C s gs now = (case sst_active (sch_status s) of
     None \<Rightarrow> ret s
   | Some a \<Rightarrow> advanceFrom k C s now a gs (drop (ar_task_index a) (scs_tasks (sch_spec s))))"

section \<open>Rotation\<close>

definition keepCount :: "schedule \<Rightarrow> int" where
  "keepCount s = foldl (\<lambda>keep t. if tk_action t = ActBackup \<and> keep < tk_keep_last t then tk_keep_last t else keep)
     0 (scs_tasks (sch_spec s))"

text \<open>Newest first; the name breaks ties.\<close>

definition newestFirst :: "backup list \<Rightarrow> backup list" where
  "newestFirst items = rev (sort_key (\<lambda>b. (om_creation (bk_meta b), om_name (bk_meta b))) items)"

definition isKeepable :: "backup \<Rightarrow> bool" where
  "isKeepable b \<longleftrightarrow> bst_phase (bk_status b) = BkCompleted \<and> \<not> is_deleting (bk_meta b)"

definition toRotate :: "int \<Rightarrow> backup list \<Rightarrow> backup list" where
  "toRotate keep items = (case newestFirst items of
     [] \<Rightarrow> []
   | b # bs \<Rightarrow> if bst_phase (bk_status b) \<noteq> BkCompleted then []
               else drop (nat keep) (filter isKeepable (b # bs)))"

definition rotateBackups :: "'w k8s \<Rightarrow> schedule \<Rightarrow> ('w, unit) io" where
  "rotateBackups k s =
     (let keep = keepCount s in
      if keep = 0 then ret ()
      else bindE (listRunBackups k s) (\<lambda>items.
        forE (\<lambda>b. ignoring is_not_found (r_delete (k_backup k) b)) (toRotate keep items)))"

section \<open>Reconcile\<close>

datatype outcome = Requeue duration | Hangs

definition wakeAfter :: "schedule \<Rightarrow> time \<Rightarrow> time \<Rightarrow> duration" where
  "wakeAfter s nxt now =
     (let wake = nxt - now;
          wake' = (case sst_active (sch_status s) of None \<Rightarrow> wake
                   | Some a \<Rightarrow> if ar_next_task_at a - now < wake then ar_next_task_at a - now else wake)
      in if wake' < second then second else wake')"

definition reconcileRun ::
  "'w k8s \<Rightarrow> sched_config \<Rightarrow> schedule \<Rightarrow> schedule \<Rightarrow> gameserver \<Rightarrow> time \<Rightarrow> ('w, outcome) io" where
  "reconcileRun k C orig s gs now =
     bindE (if sst_active (sch_status s) = None then maybeStart k s gs now else ret (Some s)) (\<lambda>r. case r of
       None \<Rightarrow> ret Hangs
     | Some s1 \<Rightarrow>
       bindE (advance k C s1 gs now) (\<lambda>s2.
         let nxt = (case NextRun (k_lib k) (sch_spec s2) now of None \<Rightarrow> zero_time | Some t \<Rightarrow> t);
             s3 = s2\<lparr>sch_status := (sch_status s2)\<lparr>sst_next := Some nxt\<rparr>\<rparr> in
         bindE (setReady k s3 CondTrue ''Scheduled'' no_msg) (\<lambda>s4.
         thenE (patchStatus k orig s4) (ret (Requeue (wakeAfter s4 nxt now))))))"

definition scheduleReconcile :: "'w k8s \<Rightarrow> sched_config \<Rightarrow> string \<Rightarrow> string \<Rightarrow> ('w, outcome) io" where
  "scheduleReconcile k C ns name =
     bindE (found_or_none (r_get (k_sched k) ns name)) (\<lambda>r. case r of None \<Rightarrow> ret (Requeue 0)
     | Some s \<Rightarrow>
       if is_deleting (sch_meta s) then ret (Requeue 0)
       else bindE (gets (k_now k)) (\<lambda>now.
         let msgs = ValidateSchedule (k_lib k) (sch_spec s) in
         if msgs \<noteq> [] then
           bindE (setReady k s CondFalse ''InvalidSpec'' (joinMsgs msgs)) (\<lambda>s'.
             thenE (patchStatus k s s') (ret (Requeue 0)))
         else bindE (found_or_none (r_get (k_gs k) (om_namespace (sch_meta s)) (scs_gameserver (sch_spec s)))) (\<lambda>rg. case rg of
             None \<Rightarrow>
               bindE (setReady k s CondFalse ''GameServerMissing''
                   (Msg ''game server %s does not exist'' [AStr (scs_gameserver (sch_spec s))])) (\<lambda>s'.
               thenE (patchStatus k s s') (ret (Requeue minute)))
           | Some gs \<Rightarrow>
               bindE (ensureOwner k s gs) (\<lambda>(changed, s1).
               let orig = (if changed then s1 else s) in
               thenE (rotateBackups k s1) (reconcileRun k C orig s1 gs now)))))"

section \<open>The catch-up loop\<close>

text \<open>
  What the loop relies on: the next fire time is strictly after the time given. Times are whole
  nanoseconds, so the loop passes \<open>now\<close> after finitely many steps.
\<close>

locale cron =
  fixes nxt :: "time \<Rightarrow> time option"
  assumes later: "nxt t = Some n \<Longrightarrow> t < n"
begin

lemma catchUp_returns:
  "latest \<le> now \<Longrightarrow> \<exists>l. catchUp nxt now latest = Some l \<and> latest \<le> l \<and> l \<le> now \<and> (\<forall>n. nxt l = Some n \<longrightarrow> now < n)"
proof (induction "nat (now - latest)" arbitrary: latest rule: less_induct)
  case less
  show ?case
  proof (cases "nxt latest")
    case None
    then show ?thesis using less.prems by (simp add: catchUp.simps)
  next
    case (Some n)
    show ?thesis
    proof (cases "now < n")
      case True
      then show ?thesis using Some less.prems by (simp add: catchUp.simps)
    next
      case False
      have "latest < n" by (rule later [OF Some])
      then have "nat (now - n) < nat (now - latest)" using False by simp
      from less.hyps [OF this] False obtain l where
        "catchUp nxt now n = Some l" "n \<le> l" "l \<le> now" "\<forall>m. nxt l = Some m \<longrightarrow> now < m" by auto
      then show ?thesis using Some False \<open>latest < n\<close> by (intro exI [of _ l]) (simp add: catchUp.simps [of nxt now latest])
    qed
  qed
qed

end

text \<open>The cron parser as documented, for the expression that fires every five minutes.\<close>

definition five_minute_lib :: klib where
  "five_minute_lib = std_lib\<lparr>lib_cron := (\<lambda>spec zone. Some (\<lambda>t. (t div (5 * minute) + 1) * (5 * minute)))\<rparr>"

lemma five_minute_next: "NextRun five_minute_lib spec t = Some n \<Longrightarrow> t < n"
proof -
  assume "NextRun five_minute_lib spec t = Some n"
  then have n: "n = (t div (5 * minute) + 1) * (5 * minute)"
    by (auto simp: NextRun_def five_minute_lib_def split: option.splits)
  have "t mod (5 * minute) < 5 * minute" by (simp add: duration_defs)
  then show ?thesis using n div_mult_mod_eq [of t "5 * minute"] by (simp add: algebra_simps)
qed

interpretation five_minute: cron "NextRun five_minute_lib spec" for spec
  by unfold_locales (rule five_minute_next)

text \<open>What a started or skipped run leaves: the clock of the schedule is untouched.\<close>

lemma finish_run: "finish k s started now r m w = (Inr (finished s started now r m), k_metric k ''hatchery_schedule_runs_total'' [run_result_str r] 1 w)"
  by (simp add: finish_def io_defs)

lemma start_run: "\<exists>s' w'. start k s gs now w = (Inr s', w') \<and> sst_last (sch_status s') = sst_last (sch_status s) \<and>
    sch_spec s' = sch_spec s \<and> (sst_active (sch_status s') \<noteq> None \<longrightarrow> skipReason s gs = None)"
  by (cases "skipReason s gs") (auto simp: start_def finish_run finished_def ret_def)


section \<open>The tasks run in order\<close>

fun runAll :: "'w k8s \<Rightarrow> sched_config \<Rightarrow> schedule \<Rightarrow> string \<Rightarrow> gameserver \<Rightarrow> schedule_task list \<Rightarrow> ('w, gameserver) io" where
  "runAll k C s runID gs [] = ret gs"
| "runAll k C s runID gs (t # ts) = bindE (runTask k C s t runID gs) (\<lambda>gs'. runAll k C s runID gs' ts)"

lemma advanceFrom_finishes: "\<exists>s' w'. advanceFrom k C s now a gs ts w = (Inr s', w')"
proof (induction k C s now a gs ts arbitrary: w rule: advanceFrom.induct)
  case (1 k C s now a gs)
  then show ?case by (simp add: finish_run ret_def)
next
  case (2 k C s now a gs t ts)
  show ?case
  proof (cases "now < ar_next_task_at a")
    case True
    then show ?thesis by (simp add: ret_def)
  next
    case False
    obtain r v where r: "runTask k C s t (ar_id a) gs w = (r, v)" by (cases "runTask k C s t (ar_id a) gs w")
    show ?thesis
    proof (cases r)
      case (Inl e)
      then show ?thesis using False r by (simp add: bindE_def attempt_def finish_run)
    next
      case (Inr g)
      show ?thesis
      proof (cases ts)
        case Nil
        then show ?thesis using False r Inr by (simp add: bindE_def attempt_def finish_run)
      next
        case (Cons t' ts')
        then show ?thesis using False r Inr 2 [OF False Cons] by (simp add: bindE_def attempt_def)
      qed
    qed
  qed
qed

text \<open>
  C36: \<open>advance\<close> runs the due tasks of a run in their order and stops at the first failure. It ends in
  one of three ways: some first tasks ran and the run waits for the next one, recorded with its index
  and a start time still to come; all tasks ran and the run is recorded as Succeeded; or the first
  tasks ran, the next one failed and the run is recorded as Failed, with no later task run.
\<close>

theorem advance_in_order:
  assumes "advanceFrom k C s now a gs ts w = (Inr s', w')" and "ts \<noteq> []"
  shows "(\<exists>n gs' a'. n < length ts \<and> runAll k C s (ar_id a) gs (take n ts) w = (Inr gs', w') \<and>
            s' = withActive s a' \<and> ar_task_index a' = ar_task_index a + n \<and> ar_id a' = ar_id a \<and> now < ar_next_task_at a') \<or>
         (\<exists>gs' v. runAll k C s (ar_id a) gs ts w = (Inr gs', v) \<and>
            s' = finished s (ar_started a) now RunSucceeded no_msg) \<or>
         (\<exists>n gs' v e v'. n < length ts \<and> runAll k C s (ar_id a) gs (take n ts) w = (Inr gs', v) \<and>
            runTask k C s (ts ! n) (ar_id a) gs' v = (Inl e, v') \<and>
            s' = finished s (ar_started a) now RunFailed (taskFailed (ar_task_index a + n) (ts ! n) e))"
  using assms
proof (induction k C s now a gs ts arbitrary: w rule: advanceFrom.induct)
  case (2 k C s now a gs t ts)
  show ?case
  proof (cases "now < ar_next_task_at a")
    case True
    then show ?thesis using 2(2) by (intro disjI1 exI [of _ 0]) (auto simp: ret_def)
  next
    case due: False
    obtain r v where r: "runTask k C s t (ar_id a) gs w = (r, v)" by (cases "runTask k C s t (ar_id a) gs w")
    show ?thesis
    proof (cases r)
      case (Inl e)
      then show ?thesis using due r 2(2)
        by (intro disjI2 exI [of _ 0]) (auto simp: bindE_def attempt_def finish_run ret_def)
    next
      case (Inr g)
      show ?thesis
      proof (cases ts)
        case Nil
        then show ?thesis using due r Inr 2(2)
          by (intro disjI2 disjI1) (auto simp: bindE_def attempt_def finish_run ret_def)
      next
        case (Cons t' ts')
        let ?a = "a\<lparr>ar_task_index := Suc (ar_task_index a), ar_next_task_at := now + taskDelay t'\<rparr>"
        have adv: "advanceFrom k C s now ?a g ts v = (Inr s', w')"
          using due r Inr Cons 2(2) by (simp add: bindE_def attempt_def)
        have step: "runAll k C s i gs (t # us) w = runAll k C s i g us v" if "i = ar_id a" for i us
          using r Inr that by (simp add: bindE_def)
        have head: "take (Suc n) (t # ts) = t # take n ts" "(t # ts) ! Suc n = ts ! n" for n by simp_all
        from 2(1) [OF due Cons adv] Cons
        consider (wait) n gs' a' where "n < length ts" "runAll k C s (ar_id a) g (take n ts) v = (Inr gs', w')"
            "s' = withActive s a'" "ar_task_index a' = Suc (ar_task_index a) + n" "ar_id a' = ar_id a" "now < ar_next_task_at a'"
          | (ok) gs' u where "runAll k C s (ar_id a) g ts v = (Inr gs', u)" "s' = finished s (ar_started a) now RunSucceeded no_msg"
          | (bad) n gs' u e u' where "n < length ts" "runAll k C s (ar_id a) g (take n ts) v = (Inr gs', u)"
            "runTask k C s (ts ! n) (ar_id a) gs' u = (Inl e, u')"
            "s' = finished s (ar_started a) now RunFailed (taskFailed (Suc (ar_task_index a) + n) (ts ! n) e)"
          by auto
        then show ?thesis
        proof cases
          case wait
          then show ?thesis
            by (intro disjI1 exI [of _ "Suc n"] exI [of _ gs'] exI [of _ a'])
              (simp add: step head del: runAll.simps)
        next
          case ok
          then show ?thesis by (intro disjI2 disjI1) (simp add: step del: runAll.simps)
        next
          case bad
          then show ?thesis
            by (intro disjI2 exI [of _ "Suc n"] exI [of _ gs'] exI [of _ u] exI [of _ e] exI [of _ u'])
              (simp add: step head del: runAll.simps)
        qed
      qed
    qed
  qed
qed simp

section \<open>One backup per run\<close>

definition run_fresh :: "schedule \<Rightarrow> string \<Rightarrow> event set \<Rightarrow> bool" where
  "run_fresh s runID before \<longleftrightarrow>
     (\<exists>xs. EvListed ''GameServerBackup'' (Some (om_namespace (sch_meta s))) [(ScheduleLabel, om_name (sch_meta s))] (map OBackup xs) \<in> before \<and>
        (\<forall>x \<in> set xs. sget (om_annotations (bk_meta x)) ScheduleRunAnnotation \<noteq> runID))"

definition run_backup_rule :: "schedule \<Rightarrow> string \<Rightarrow> event set \<Rightarrow> event \<Rightarrow> bool" where
  "run_backup_rule s runID before e \<longleftrightarrow> (\<forall>b ok. e = EvCreate (OBackup b) ok \<longrightarrow>
     sget (om_annotations (bk_meta b)) ScheduleRunAnnotation = runID \<and>
     sget (om_labels (bk_meta b)) ScheduleLabel = om_name (sch_meta s) \<and> run_fresh s runID before)"

definition no_backup_create :: "event \<Rightarrow> bool" where
  "no_backup_create e \<longleftrightarrow> (\<forall>b ok. e \<noteq> EvCreate (OBackup b) ok)"

lemma ensurePlatform_no_backup: "only no_backup_create (ensurePlatformBackupSecret (logging k) P ns)"
  unfolding ensurePlatformBackupSecret_def RandomToken_def logging_kinds Let_def
  by (intro only_rules only_calls; simp add: no_backup_create_def)

lemma Plan_no_backup: "only no_backup_create (Plan (logging k) P gs org)"
  unfolding Plan_def planPlatform_def planConnection_def OrgLimits_def logging_kinds Let_def
  by (intro only_rules only_calls ensurePlatform_no_backup; simp add: no_backup_create_def)

lemma run_no_backup:
  "only no_backup_create (runCommand (logging k) C gs cmd)"
  "only no_backup_create (runRestart (logging k) gs)"
  "only no_backup_create (runState (logging k) gs want)"
  unfolding runCommand_def runRestart_def runState_def logging_kinds Let_def
  by (intro only_rules only_calls; simp add: no_backup_create_def)+

lemma stamp_kept:
  "sget (om_annotations (bk_meta (stampBackup s runID b))) ScheduleRunAnnotation = runID"
  "sget (om_labels (bk_meta (stampBackup s runID b))) ScheduleLabel = om_name (sch_meta s)"
  "om_annotations (bk_meta (retryName b x)) = om_annotations (bk_meta b)"
  "om_labels (bk_meta (retryName b x)) = om_labels (bk_meta b)"
  by (simp_all add: stampBackup_def retryName_def)

abbreviation run_ok :: "schedule \<Rightarrow> string \<Rightarrow> event list \<Rightarrow> bool" where
  "run_ok s runID \<equiv> guarded (run_backup_rule s runID)"

lemma run_fresh_insert: "run_fresh s runID S \<Longrightarrow> run_fresh s runID (insert e S)"
  by (auto simp: run_fresh_def)

lemma run_quiet: "only no_backup_create m \<Longrightarrow> logs (run_ok s runID) m (\<lambda>_. run_ok s runID) (\<lambda>_. run_ok s runID)"
  by (erule logs_guarded_only) (simp add: run_backup_rule_def no_backup_create_def)

lemma run_keeps:
  "only no_backup_create m \<Longrightarrow> logs (\<lambda>l. run_ok s runID l \<and> run_fresh s runID (set l)) m
     (\<lambda>_ l. run_ok s runID l \<and> run_fresh s runID (set l)) (\<lambda>_ l. run_ok s runID l \<and> run_fresh s runID (set l))"
  by (erule logs_guarded_since) (simp_all add: run_backup_rule_def no_backup_create_def run_fresh_insert)

lemma run_create:
  assumes "sget (om_annotations (bk_meta b)) ScheduleRunAnnotation = runID"
    and "sget (om_labels (bk_meta b)) ScheduleLabel = om_name (sch_meta s)"
  shows "logs (\<lambda>l. run_ok s runID l \<and> run_fresh s runID (set l)) (r_create (log_rest OBackup (k_backup k)) b)
     (\<lambda>_. run_ok s runID) (\<lambda>_ l. run_ok s runID l \<and> run_fresh s runID (set l))"
  by (rule log_rules) (use assms in \<open>auto simp: run_backup_rule_def run_fresh_insert\<close>)

lemma Create_stamped:
  "logs (\<lambda>l. run_ok s runID l \<and> run_fresh s runID (set l)) (Create (logging k) (stampBackup s runID b))
     (\<lambda>_. run_ok s runID) (\<lambda>_. run_ok s runID)"
  unfolding Create_def RandomToken_def logging_kinds
  apply (rule logs_bindE [where R = "\<lambda>r l. run_ok s runID l \<and> (\<forall>e. r = Inl e \<longrightarrow> run_fresh s runID (set l))"])
   apply (rule logs_attempt, rule logs_post [OF run_create]; simp add: stamp_kept)
  apply (rule logs_case_sum)
   apply (rule logs_if)
    apply (rule logs_bindE [where R = "\<lambda>_ l. run_ok s runID l \<and> run_fresh s runID (set l)"])
     apply (rule logs_attempt, rule logs_pre [OF run_keeps])
      apply (rule only_world_ops, simp add: no_backup_create_def)
     apply simp
    apply (rule logs_post [OF run_create]; simp add: stamp_kept)
   apply (rule logs_throw, simp)
  apply (rule logs_ret, simp)
  done

lemma runBackup_once:
  "logs (run_ok s runID) (runBackup (logging k) C s gs runID) (\<lambda>_. run_ok s runID) (\<lambda>_. run_ok s runID)"
  unfolding runBackup_def listRunBackups_def logging_kinds
  apply (rule logs_case_option, rule logs_throw, assumption)
  apply (rule logs_bindE [where R = "\<lambda>xs l. run_ok s runID l \<and>
      EvListed ''GameServerBackup'' (Some (om_namespace (sch_meta s))) [(ScheduleLabel, om_name (sch_meta s))] (map OBackup xs) \<in> set l"])
   apply (rule log_rules; simp add: run_backup_rule_def)
  apply (rule logs_if, rule logs_ret, simp)
  apply (rule logs_pre [where P' = "\<lambda>l. run_ok s runID l \<and> run_fresh s runID (set l)"])
   apply (rule logs_bindE [where R = "\<lambda>_ l. run_ok s runID l \<and> run_fresh s runID (set l)"])
    apply (rule logs_post [OF run_keeps], rule only_ops; simp add: no_backup_create_def)
   apply (rule logs_bindE [where R = "\<lambda>_ l. run_ok s runID l \<and> run_fresh s runID (set l)"])
    apply (rule logs_post [OF run_keeps [OF Plan_no_backup]]; simp)
   apply (rule logs_bindE [OF Create_stamped], rule logs_ret, assumption)
  apply (auto simp: run_fresh_def list_ex_iff)
  done

text \<open>
  C31: a backup task makes at most one backup per run: it creates one only after listing the
  schedule's backups and finding none with this run's ID, and whatever it creates carries the
  schedule's label and this ID, so a later listing finds it.
\<close>

theorem runTask_one_backup:
  "guarded (run_backup_rule s runID) (trace (runTask (logging k) C s t runID gs) w)"
proof (rule trace_guarded)
  let ?I = "run_ok s runID"
  have cmd: "logs ?I (thenE (runCommand (logging k) C gs c) (ret gs)) (\<lambda>_. ?I) (\<lambda>_. ?I)" for c
    by (rule run_quiet) (intro only_rules run_no_backup)
  have bk: "logs ?I (thenE (runBackup (logging k) C s gs runID) (ret gs)) (\<lambda>_. ?I) (\<lambda>_. ?I)"
    by (rule logs_bindE [OF runBackup_once], rule logs_ret)
  have bad: "logs ?I (throw e :: ('a logged, gameserver) io) (\<lambda>_. ?I) (\<lambda>_. ?I)" for e
    by (rule logs_throw)
  show "logs ?I (runTask (logging k) C s t runID gs) (\<lambda>_. ?I) (\<lambda>_. ?I)"
    unfolding runTask_def
    by (cases "tk_action t") (simp_all only: schedule_action.case cmd bk bad run_quiet [OF run_no_backup(2)] run_quiet [OF run_no_backup(3)])
qed

section \<open>Rotation keeps the newest\<close>

abbreviation bk_key :: "backup \<Rightarrow> time \<times> string" where
  "bk_key b \<equiv> (om_creation (bk_meta b), om_name (bk_meta b))"

lemma newestFirst_sorted: "sorted_wrt (\<lambda>x y. bk_key y \<le> bk_key x) (newestFirst xs)"
proof -
  have "sorted (map bk_key (sort_key bk_key xs))" by simp
  then show ?thesis by (simp add: newestFirst_def sorted_wrt_rev sorted_map)
qed

lemma mset_newestFirst [simp]: "mset (newestFirst xs) = mset xs" and set_newestFirst [simp]: "set (newestFirst xs) = set xs"
  by (simp_all add: newestFirst_def)

lemma length_filter_newestFirst: "length (filter P (newestFirst xs)) = length (filter P xs)"
proof -
  have "mset (filter P (newestFirst xs)) = mset (filter P xs)" by simp
  then show ?thesis by (rule mset_eq_length)
qed

lemma length_filter_take: "length (filter P (take n xs)) \<le> length (filter P xs)"
proof -
  have "length (filter P xs) = length (filter P (take n xs)) + length (filter P (drop n xs))"
    by (simp flip: filter_append length_append)
  then show ?thesis by simp
qed

lemma toRotate_newer:
  assumes "b \<in> set (toRotate keep xs)"
  shows "b \<in> set xs \<and> isKeepable b \<and>
         keep < int (length (filter (\<lambda>c. isKeepable c \<and> bk_key b \<le> bk_key c) xs)) \<and>
         (\<exists>c \<in> set xs. bst_phase (bk_status c) = BkCompleted \<and> (\<forall>d \<in> set xs. bk_key d \<le> bk_key c))"
proof -
  obtain c cs where n: "newestFirst xs = c # cs" and c: "bst_phase (bk_status c) = BkCompleted"
    and b: "b \<in> set (drop (nat keep) (filter isKeepable (newestFirst xs)))"
  proof (cases "newestFirst xs")
    case Nil
    then show ?thesis using assms by (simp add: toRotate_def)
  next
    case (Cons c cs)
    then have "bst_phase (bk_status c) = BkCompleted \<and> b \<in> set (drop (nat keep) (filter isKeepable (c # cs)))"
      using assms unfolding toRotate_def Cons list.case by (metis empty_iff empty_set)
    then show ?thesis using that [OF Cons] Cons by metis
  qed
  let ?F = "filter isKeepable (newestFirst xs)"
  from b obtain i where i: "nat keep \<le> i" "i < length ?F" "b = ?F ! i"
    by (auto simp: in_set_conv_nth) (metis add.commute le_add1 less_diff_conv)
  have srt: "sorted_wrt (\<lambda>x y. bk_key y \<le> bk_key x) ?F"
    by (rule sorted_wrt_filter [OF newestFirst_sorted])
  have up: "bk_key b \<le> bk_key x" if "x \<in> set (take (Suc i) ?F)" for x
  proof -
    from that obtain j where "j \<le> i" "x = ?F ! j" by (auto simp: in_set_conv_nth less_Suc_eq_le)
    then show ?thesis using srt i by (cases "j = i") (auto simp: sorted_wrt_iff_nth_less)
  qed
  have "Suc i = length (take (Suc i) ?F)" using i(2) by simp
  also have "\<dots> = length (filter (\<lambda>c. bk_key b \<le> bk_key c) (take (Suc i) ?F))"
    using up by (simp add: filter_id_conv [THEN iffD2])
  also have "\<dots> \<le> length (filter (\<lambda>c. bk_key b \<le> bk_key c) ?F)"
    by (rule length_filter_take)
  also have "\<dots> = length (filter (\<lambda>c. isKeepable c \<and> bk_key b \<le> bk_key c) (newestFirst xs))"
    by (simp only: filter_filter)
  also have "\<dots> = length (filter (\<lambda>c. isKeepable c \<and> bk_key b \<le> bk_key c) xs)"
    by (rule length_filter_newestFirst)
  finally have "keep < int (length (filter (\<lambda>c. isKeepable c \<and> bk_key b \<le> bk_key c) xs))"
    using i(1) by linarith
  moreover have "b \<in> set ?F" unfolding i(3) by (rule nth_mem [OF i(2)])
  moreover have "bk_key d \<le> bk_key c" if "d \<in> set xs" for d
  proof -
    have "d \<in> set (c # cs)" using that n by (metis set_newestFirst)
    then show ?thesis using newestFirst_sorted [of xs] n by auto
  qed
  moreover have "c \<in> set xs" using n by (metis list.set_intros(1) set_newestFirst)
  ultimately show ?thesis using c by auto
qed

definition rotate_rule :: "schedule \<Rightarrow> event set \<Rightarrow> event \<Rightarrow> bool" where
  "rotate_rule s before e \<longleftrightarrow> (\<forall>b ok. e = EvDelete (OBackup b) ok \<longrightarrow> (\<exists>xs.
     EvListed ''GameServerBackup'' (Some (om_namespace (sch_meta s))) [(ScheduleLabel, om_name (sch_meta s))] (map OBackup xs) \<in> before \<and>
     b \<in> set xs \<and> isKeepable b \<and>
     keepCount s < int (length (filter (\<lambda>c. isKeepable c \<and> bk_key b \<le> bk_key c) xs)) \<and>
     (\<exists>c \<in> set xs. bst_phase (bk_status c) = BkCompleted \<and> (\<forall>d \<in> set xs. bk_key d \<le> bk_key c))))"

text \<open>
  C32: the rotation deletes only Completed backups of this schedule that are not yet being deleted,
  each with at least \<open>keepLast\<close> other Completed ones that are newer, and only when the newest backup
  of the schedule is itself Completed.
\<close>

theorem rotateBackups_keeps_newest: "guarded (rotate_rule s) (trace (rotateBackups (logging k) s) w)"
proof (rule trace_guarded)
  let ?I = "guarded (rotate_rule s)"
  let ?sel = "[(ScheduleLabel, om_name (sch_meta s))]"
  let ?J = "\<lambda>xs l. ?I l \<and> EvListed ''GameServerBackup'' (Some (om_namespace (sch_meta s))) ?sel (map OBackup xs) \<in> set l"
  have del: "logs (?J xs) (ignoring is_not_found (r_delete (log_rest OBackup (k_backup k)) b)) (\<lambda>_. ?J xs) (\<lambda>_. ?J xs)"
    if "b \<in> set (toRotate (keepCount s) xs)" for b xs
    using toRotate_newer [OF that]
    by (intro logs_ignoring log_rules) (auto simp: rotate_rule_def)
  show "logs ?I (rotateBackups (logging k) s) (\<lambda>_. ?I) (\<lambda>_. ?I)"
    unfolding rotateBackups_def Let_def listRunBackups_def logging_kinds
    apply (rule logs_if, rule logs_ret, assumption)
    apply (rule logs_bindE [where R = ?J])
     apply (rule log_rules; simp add: rotate_rule_def)
    apply (rule logs_post [OF logs_forE [OF del]]; simp)
    done
qed

section \<open>Concrete instances\<close>


definition ex_run :: active_run where
  "ex_run = \<lparr>ar_id = ''t'', ar_started = 0, ar_task_index = 0, ar_next_task_at = 0\<rparr>"

theorem advance_in_order_witness:
  "\<exists>s'. fst (advanceFrom (absent_k8s :: unit k8s) \<lparr>sc_exec = False, sc_backups = None\<rparr> ex_schedule 0 ex_run ex_gs [ex_task] ()) = Inr s' \<and>
     ((\<exists>a'. s' = withActive ex_schedule a') \<or> (\<exists>r m. s' = finished ex_schedule 0 0 r m))"
proof -
  let ?m = "advanceFrom (absent_k8s :: unit k8s) \<lparr>sc_exec = False, sc_backups = None\<rparr> ex_schedule 0 ex_run ex_gs [ex_task] ()"
  have "succeeded (fst ?m)" by code_simp
  then obtain s' w' where m: "?m = (Inr s', w')" by (rule succeededE)
  have r: "ar_started ex_run = 0" by (simp add: ex_run_def)
  from advance_in_order [OF m] m r show ?thesis by auto
qed

end
