(* ===== verification/Backup_Job.thy ===== *)
theory Backup_Job
  imports GameServer_Pod
begin

text \<open>
  \<open>internal/backup/job.go\<close>, \<open>internal/volumes/affinity.go\<close> and
  \<open>internal/controller/volumeaffinity.go\<close>: the restic Jobs of backups, restores and cleanups, and the
  node they must run on.
\<close>

definition ResticImage :: string where
  "ResticImage = ''restic/restic:0.18.1''"

definition BackupTag :: "string \<Rightarrow> string" where
  "BackupTag backupName = ''gsbackup-'' @ backupName"

definition repositoryURL :: "s3_destination \<Rightarrow> string" where
  "repositoryURL dest =
     (let endpoint = (if s3_endpoint dest = [] then ''s3.amazonaws.com'' else s3_endpoint dest);
          repo = ''s3:'' @ endpoint @ ''/'' @ s3_bucket dest
      in if s3_prefix dest \<noteq> [] then repo @ ''/'' @ s3_prefix dest else repo)"

definition secret_env :: "s3_destination \<Rightarrow> string \<Rightarrow> string \<Rightarrow> env_var" where
  "secret_env dest n key = \<lparr>ev_name = n, ev_value = [], ev_secret = Some (s3_secret dest, key)\<rparr>"

definition resticEnv :: "s3_destination \<Rightarrow> string \<Rightarrow> env_var list" where
  "resticEnv dest tag =
     [literal_env ''RESTIC_REPOSITORY'' (repositoryURL dest),
      secret_env dest ''RESTIC_PASSWORD'' ''restic-password'',
      secret_env dest ''AWS_ACCESS_KEY_ID'' ''access-key'',
      secret_env dest ''AWS_SECRET_ACCESS_KEY'' ''secret-key'',
      literal_env ''TAG'' tag]"

definition jobBackoffLimit :: int where
  "jobBackoffLimit = 2"

definition resticJob :: "string \<Rightarrow> string \<Rightarrow> string \<Rightarrow> volume_source \<Rightarrow> bool \<Rightarrow> env_var list \<Rightarrow> node_affinity option \<Rightarrow> job" where
  "resticJob name ns script vol readOnlyData env aff =
     \<lparr>job_meta = new_meta name ns,
      job_pod = \<lparr>ps_init = [],
        ps_containers = [(new_container ''restic'' ResticImage)\<lparr>
          ct_command := [''/bin/sh'', ''-c'', script], ct_env := env,
          ct_mounts := [\<lparr>vm_name = ''data'', vm_path = ''/data'', vm_readonly = readOnlyData\<rparr>]\<rparr>],
        ps_volumes = [(''data'', vol)], ps_grace = None, ps_automount = Some False, ps_fsgroup = None,
        ps_seccomp_default = False, ps_affinity = aff, ps_restart_never = True\<rparr>,
      job_backoff_limit = Some jobBackoffLimit, job_succeeded = 0, job_failed = 0, job_conditions = []\<rparr>"

definition backupScript :: string where
  "backupScript = ''set -e'' @ NL @ ''restic init >/dev/null 2>&1 || true'' @ NL
     @ ''restic backup --tag '' @ DQ @ ''$TAG'' @ DQ @ '' /data'' @ NL"

definition BackupJob :: "backup \<Rightarrow> string \<Rightarrow> node_affinity option \<Rightarrow> job" where
  "BackupJob b pvcName aff =
     resticJob (om_name (bk_meta b)) (om_namespace (bk_meta b)) backupScript (VolPVC pvcName) True
       (resticEnv (bks_s3 (bk_spec b)) (BackupTag (om_name (bk_meta b)))) aff"

definition CleanupJobName :: "string \<Rightarrow> string" where
  "CleanupJobName backupName = backupName @ ''-cleanup''"

definition cleanupScript :: string where
  "cleanupScript = ''restic init >/dev/null 2>&1 || true'' @ NL
     @ ''ids=$(restic snapshots --tag '' @ DQ @ ''$TAG'' @ DQ @ '' --json 2>/dev/null | grep -o '' @ SQ @ DQ @ ''short_id'' @ DQ @ '':'' @ DQ
     @ ''[^'' @ DQ @ '']*'' @ DQ @ SQ @ '' | cut -d'' @ SQ @ DQ @ SQ @ '' -f4)'' @ NL
     @ ''if [ -n '' @ DQ @ ''$ids'' @ DQ @ '' ]; then'' @ NL
     @ ''  restic forget --prune $ids'' @ NL @ ''else'' @ NL
     @ ''  echo '' @ DQ @ ''no snapshots found for tag $TAG, nothing to prune'' @ DQ @ NL @ ''fi'' @ NL"

definition CleanupJob :: "backup \<Rightarrow> job" where
  "CleanupJob b =
     resticJob (CleanupJobName (om_name (bk_meta b))) (om_namespace (bk_meta b)) cleanupScript VolEmptyDir False
       (resticEnv (bks_s3 (bk_spec b)) (BackupTag (om_name (bk_meta b)))) None"

definition restoreScript :: string where
  "restoreScript = ''set -e'' @ NL @ ''restic restore latest --tag '' @ DQ @ ''$TAG'' @ DQ @ '' --target /'' @ NL"

definition RestoreJob :: "restore \<Rightarrow> s3_destination \<Rightarrow> string \<Rightarrow> string \<Rightarrow> node_affinity option \<Rightarrow> job" where
  "RestoreJob r dest backupName pvcName aff =
     resticJob (om_name (rs_meta r)) (om_namespace (rs_meta r)) restoreScript (VolPVC pvcName) False
       (resticEnv dest (BackupTag backupName)) aff"

section \<open>Where the volume is\<close>

definition NodeAffinity :: "'w k8s \<Rightarrow> string \<Rightarrow> string \<Rightarrow> ('w, node_affinity option) io" where
  "NodeAffinity k ns pvcName =
     bindE (wrapE ''looking up pvc: '' (r_get (k_pvc k) ns pvcName)) (\<lambda>c.
       if pvc_volume c = [] then ret None
       else bindE (wrapE ''looking up persistentvolume %q: '' (r_get (k_pv k) [] (pvc_volume c))) (\<lambda>v.
         ret (pv_affinity v)))"

text \<open>A Job may land on another node when the affinity cannot be read; that is only logged.\<close>

definition volumeAffinity :: "'w k8s \<Rightarrow> string \<Rightarrow> string \<Rightarrow> ('w, node_affinity option) io" where
  "volumeAffinity k ns pvcName = bindE (attempt (NodeAffinity k ns pvcName)) (\<lambda>r. case r of
     Inl e \<Rightarrow> ret None | Inr a \<Rightarrow> ret a)"

definition jobIsFinished :: "job \<Rightarrow> bool" where
  "jobIsFinished j \<longleftrightarrow>
     list_ex (\<lambda>(t, s). (t = JobFailed \<or> t = JobComplete) \<and> s = CondTrue) (job_conditions j) \<or>
     (job_failed j > 0 \<and> (case job_backoff_limit j of None \<Rightarrow> False | Some l \<Rightarrow> job_failed j > l))"

definition backupJobPollInterval :: duration where
  "backupJobPollInterval = 5 * second"

section \<open>Lemmas\<close>

lemma BackupTag_inj: "BackupTag a = BackupTag b \<longleftrightarrow> a = b"
  by (simp add: BackupTag_def)

text \<open>
  The three Jobs of one backup meet in restic: the backup, the cleanup and a restore of it address
  the same repository with the same tag and credentials, which no other backup's Jobs use; and only the
  restore can write to the server's volume.
\<close>

theorem jobs_same_snapshot:
  "ct_env (hd (ps_containers (job_pod (BackupJob b pvc aff)))) = ct_env (hd (ps_containers (job_pod (CleanupJob b)))) \<and>
   ct_env (hd (ps_containers (job_pod (RestoreJob r (bks_s3 (bk_spec b)) (om_name (bk_meta b)) pvc aff)))) =
     ct_env (hd (ps_containers (job_pod (BackupJob b pvc aff)))) \<and>
   (ct_env (hd (ps_containers (job_pod (BackupJob b pvc aff)))) = ct_env (hd (ps_containers (job_pod (BackupJob b' pvc' aff')))) \<longrightarrow>
      om_name (bk_meta b) = om_name (bk_meta b')) \<and>
   list_all vm_readonly (ct_mounts (hd (ps_containers (job_pod (BackupJob b pvc aff))))) \<and>
   (\<forall>v \<in> set (ps_volumes (job_pod (CleanupJob b))). snd v = VolEmptyDir)"
  by (auto simp: BackupJob_def CleanupJob_def RestoreJob_def resticJob_def resticEnv_def literal_env_def
      BackupTag_def new_container_def)

section \<open>Concrete instances\<close>

text \<open>The properties applied to concrete objects, where their hypotheses hold.\<close>

theorem jobs_same_snapshot_witness:
  "ct_env (hd (ps_containers (job_pod (RestoreJob ex_restore (bks_s3 (bk_spec ex_backup)) ''mc-1'' ''mc'' None)))) =
     ct_env (hd (ps_containers (job_pod (BackupJob ex_backup ''mc'' None)))) \<and>
   ct_env (hd (ps_containers (job_pod (BackupJob ex_backup ''mc'' None)))) =
     ct_env (hd (ps_containers (job_pod (BackupJob ex_backup ''other'' None))))"
proof -
  have n: "om_name (bk_meta ex_backup) = ''mc-1''" by (simp add: ex_defs)
  have e: "ct_env (hd (ps_containers (job_pod (BackupJob ex_backup ''mc'' None)))) =
     ct_env (hd (ps_containers (job_pod (BackupJob ex_backup ''other'' None))))" by code_simp
  show ?thesis using jobs_same_snapshot [of ex_backup "''mc''" None ex_restore ex_backup "''other''" None] n e by simp
qed

end
