(* ===== verification/Backup_Controller.thy ===== *)
theory Backup_Controller
  imports Backup_Job GameServer_Status
begin

text \<open>
  \<open>internal/controller/gameserverbackup_controller.go\<close>, \<open>gameserverbackup_quiesce.go\<close> and
  \<open>backup_quiesce.go\<close>: a backup's phases, the pause of world saving around it, its retention and the
  cleanup of its snapshot. A \<open>ctrl.Result\<close> is its \<open>RequeueAfter\<close>.
\<close>

record backup_config =
  bc_exec :: bool \<comment> \<open>whether \<open>Exec\<close> is set\<close>
  bc_logs :: bool \<comment> \<open>whether \<open>Logs\<close> is set\<close>

definition quiescePollInterval :: duration where "quiescePollInterval = 3 * second"
definition resumeMaxAttempts :: int where "resumeMaxAttempts = 5"
definition resumeRetryStep :: duration where "resumeRetryStep = 10 * second"

section \<open>The decisions\<close>

text \<open>\<open>Inl reason\<close>: the wait is over; \<open>Inr wait\<close>: keep waiting.\<close>

definition quiesceWait :: "egg_backup \<Rightarrow> time \<Rightarrow> time \<Rightarrow> bool \<Rightarrow> string + duration" where
  "quiesceWait h sentAt now matched =
     (if eb_saved_regex h \<noteq> [] then
        (if matched then Inl QuiesceReasonSaved
         else let deadline = sentAt + Timeout h in
           if \<not> now < deadline then Inl QuiesceReasonTimeout
           else Inr (min quiescePollInterval (deadline - now)))
      else let deadline = sentAt + Delay h in
        if \<not> now < deadline then Inl QuiesceReasonDelay else Inr (deadline - now))"

datatype resume_action = ResumeNone | ResumeSkip | ResumeSend

definition resumeDecision :: "quiesce_status option \<Rightarrow> egg_backup option \<Rightarrow> string \<Rightarrow> resume_action" where
  "resumeDecision q h currentPodUID = (case q of None \<Rightarrow> ResumeNone
   | Some s \<Rightarrow>
     if qs_before_sent_at s = None \<or> qs_resumed_at s \<noteq> None then ResumeNone
     else case h of None \<Rightarrow> ResumeSkip
       | Some b \<Rightarrow> if eb_after b = [] \<or> currentPodUID = [] \<or> currentPodUID \<noteq> qs_pod_uid s then ResumeSkip else ResumeSend)"

section \<open>The game behind the backup\<close>

type_synonym target = "egg_backup option \<times> string \<times> pod option"

definition runningPod :: "pod \<Rightarrow> bool" where
  "runningPod p \<longleftrightarrow> \<not> is_deleting (pod_meta p) \<and>
     list_ex (\<lambda>c. cs_name c = serverContainerName \<and> cs_running c \<noteq> None) (pod_containers p)"

definition gameTarget :: "'w k8s \<Rightarrow> backup \<Rightarrow> ('w, target) io" where
  "gameTarget k b =
     bindE (found_or_none (r_get (k_gs k) (om_namespace (bk_meta b)) (bks_gameserver (bk_spec b)))) (\<lambda>rg. case rg of
       None \<Rightarrow> ret (None, [], None)
     | Some gs \<Rightarrow>
       bindE (found_or_none (r_get (k_egg k) (EggNamespace gs) (er_name (gss_egg_ref (gs_spec gs))))) (\<lambda>re.
       let hooks = (case re of None \<Rightarrow> None | Some e \<Rightarrow> es_backup (egg_spec e));
           console = (case re of None \<Rightarrow> DefaultConsoleInput | Some e \<Rightarrow> ConsoleInputPath (egg_spec e)) in
       if gst_pod_name (gs_status gs) = [] then ret (hooks, console, None)
       else bindE (found_or_none (r_get (k_pod k) (om_namespace (gs_meta gs)) (gst_pod_name (gs_status gs)))) (\<lambda>rp.
         ret (hooks, console, (case rp of None \<Rightarrow> None | Some p \<Rightarrow> if runningPod p then Some p else None)))))"

text \<open>The commands go to the console one by one; the first failure stops.\<close>

fun sendCommands :: "'w k8s \<Rightarrow> pod \<Rightarrow> string \<Rightarrow> string list \<Rightarrow> ('w, unit) io" where
  "sendCommands k p console [] = ret ()"
| "sendCommands k p console (c # cs) =
     thenE (wrapE ''sending %q: '' (k_exec k (om_namespace (pod_meta p)) (om_name (pod_meta p)) serverContainerName
              (ConsoleLineCommand console c)))
       (sendCommands k p console cs)"

definition setCondition :: "klib \<Rightarrow> time \<Rightarrow> backup \<Rightarrow> string \<Rightarrow> cond_status \<Rightarrow> string \<Rightarrow> msg \<Rightarrow> backup" where
  "setCondition L now b t status reason m = b\<lparr>bk_status := (bk_status b)\<lparr>bst_conditions :=
     fst (lib_set_condition L now (bst_conditions (bk_status b))
       (new_condition t status reason m (om_generation (bk_meta b))))\<rparr>\<rparr>"

definition withQuiesce :: "backup \<Rightarrow> quiesce_status \<Rightarrow> backup" where
  "withQuiesce b q = b\<lparr>bk_status := (bk_status b)\<lparr>bst_quiesce := Some q\<rparr>\<rparr>"

section \<open>The pause before the backup\<close>

text \<open>\<open>Proceed\<close>: \<open>done\<close>, with the backup as updated; \<open>Wait\<close>: come back later.\<close>

datatype quiesce_result = Proceed backup | Wait duration

text \<open>What is known after the \<open>Before\<close> commands: the console since then, and the decision.\<close>

definition savedMatched :: "'w k8s \<Rightarrow> backup_config \<Rightarrow> egg_backup \<Rightarrow> pod option \<Rightarrow> quiesce_status \<Rightarrow> time \<Rightarrow> ('w, bool) io" where
  "savedMatched k C h p q sentAt = (case p of
     Some pod \<Rightarrow>
       if eb_saved_regex h \<noteq> [] \<and> om_uid (pod_meta pod) = qs_pod_uid q \<and> bc_logs C then
         (case lib_regex (k_lib k) (eb_saved_regex h) of
            None \<Rightarrow> ret False
          | Some match \<Rightarrow>
            bindE (attempt (k_logs_since k (om_namespace (pod_meta pod)) (om_name (pod_meta pod)) serverContainerName sentAt))
              (\<lambda>r. ret (case r of Inl e \<Rightarrow> False | Inr out \<Rightarrow> match out)))
       else ret False
   | None \<Rightarrow> ret False)"

definition awaitSaved :: "'w k8s \<Rightarrow> backup_config \<Rightarrow> backup \<Rightarrow> egg_backup option \<Rightarrow> pod option \<Rightarrow> quiesce_status \<Rightarrow> time \<Rightarrow>
    ('w, quiesce_result) io" where
  "awaitSaved k C b hooks p q sentAt =
     (let h = (case hooks of None \<Rightarrow> empty_egg_backup | Some x \<Rightarrow> x) in
      bindE (savedMatched k C h p q sentAt) (\<lambda>matched.
      bindE (gets (k_now k)) (\<lambda>now.
        case quiesceWait h sentAt now matched of
          Inr wait \<Rightarrow> ret (Wait wait)
        | Inl reason \<Rightarrow>
          let b' = (if reason = QuiesceReasonTimeout
                    then setCondition (k_lib k) now b BackupConditionQuiesced CondFalse reason
                           (Msg ''the game did not confirm the save in time; backed up anyway'' [])
                    else setCondition (k_lib k) now b BackupConditionQuiesced CondTrue reason no_msg) in
          bindE (r_status_update (k_backup k) b') (\<lambda>b''. ret (Proceed b'')))))"

text \<open>What is left of a nil dereference once controller-runtime has recovered the panic.\<close>

definition nilPanic :: go_err where
  "nilPanic = MsgErr (Msg ''panic: invalid memory address or nil pointer dereference'' [])"

text \<open>The first time: the pause is recorded before it is sent.\<close>

definition startPause ::
  "'w k8s \<Rightarrow> backup_config \<Rightarrow> backup \<Rightarrow> egg_backup \<Rightarrow> string \<Rightarrow> pod \<Rightarrow> ('w, quiesce_result) io" where
  "startPause k C b h console pod = bindE (gets (k_now k)) (\<lambda>now.
     let s = \<lparr>qs_pod_uid = om_uid (pod_meta pod), qs_before_sent_at = Some now, qs_resumed_at = None,
              qs_resume_attempts = 0\<rparr> in
     bindE (r_status_update (k_backup k) (withQuiesce b s)) (\<lambda>b1.
     bindE (attempt (sendCommands k pod console (eb_before h))) (\<lambda>r. case r of
         Inl e \<Rightarrow>
           bindE (gets (k_now k)) (\<lambda>t.
           bindE (r_status_update (k_backup k) (setCondition (k_lib k) t b1 BackupConditionQuiesced CondFalse
               QuiesceReasonSendFailed (Msg ''%v'' [AErr e]))) (\<lambda>b2. ret (Proceed b2)))
       | Inr _ \<Rightarrow>
           (case bst_quiesce (bk_status b1) of
              None \<Rightarrow> throw nilPanic
            | Some s1 \<Rightarrow> (case qs_before_sent_at s1 of
                None \<Rightarrow> throw nilPanic
              | Some t \<Rightarrow> awaitSaved k C b1 (Some h) (Some pod) s1 t)))))"

text \<open>When the status says the commands were sent.\<close>

definition pauseSent :: "backup \<Rightarrow> (quiesce_status \<times> time) option" where
  "pauseSent b = (case bst_quiesce (bk_status b) of None \<Rightarrow> None
     | Some q \<Rightarrow> (case qs_before_sent_at q of None \<Rightarrow> None | Some t \<Rightarrow> Some (q, t)))"

definition quiesce :: "'w k8s \<Rightarrow> backup_config \<Rightarrow> backup \<Rightarrow> ('w, quiesce_result) io" where
  "quiesce k C b =
     (if \<not> bc_exec C \<or> lib_find_condition (k_lib k) (bst_conditions (bk_status b)) BackupConditionQuiesced \<noteq> None
      then ret (Proceed b)
      else bindE (gameTarget k b) (\<lambda>(hooks, console, p). case pauseSent b of
          Some (q, t) \<Rightarrow> awaitSaved k C b hooks p q t
        | None \<Rightarrow>
          (case hooks of None \<Rightarrow> ret (Proceed b)
           | Some h \<Rightarrow>
             if eb_before h = [] then ret (Proceed b)
             else (case p of None \<Rightarrow> ret (Proceed b) | Some pod \<Rightarrow> startPause k C b h console pod))))"

section \<open>Resuming world saving\<close>

text \<open>\<open>Pending res\<close>: come back after \<open>res\<close>; \<open>Settled\<close>: go on, with the backup as updated.\<close>

datatype resume_result = Pending duration | Settled backup

definition withResumed :: "backup \<Rightarrow> time \<Rightarrow> backup" where
  "withResumed b now = (case bst_quiesce (bk_status b) of None \<Rightarrow> b
     | Some q \<Rightarrow> withQuiesce b (q\<lparr>qs_resumed_at := Some now\<rparr>))"

definition noteResumed :: "'w k8s \<Rightarrow> backup \<Rightarrow> time \<Rightarrow> cond_status \<Rightarrow> string \<Rightarrow> msg \<Rightarrow> ('w, resume_result) io" where
  "noteResumed k b now status reason m = bindE (gets (k_now k)) (\<lambda>t.
     bindE (r_status_update (k_backup k)
         (setCondition (k_lib k) t (withResumed b now) BackupConditionResumed status reason m))
       (\<lambda>b'. ret (Settled b')))"

definition sendAfter ::
  "'w k8s \<Rightarrow> backup \<Rightarrow> quiesce_status \<Rightarrow> time \<Rightarrow> egg_backup \<Rightarrow> string \<Rightarrow> pod \<Rightarrow> ('w, resume_result) io" where
  "sendAfter k b q now h console pod =
     bindE (attempt (sendCommands k pod console (eb_after h))) (\<lambda>r. case r of
         Inr _ \<Rightarrow> noteResumed k b now CondTrue ResumeReasonSent no_msg
       | Inl e \<Rightarrow>
           let n = qs_resume_attempts q + 1; b1 = withQuiesce b (q\<lparr>qs_resume_attempts := n\<rparr>) in
           if n < resumeMaxAttempts then
             thenE (r_status_update (k_backup k) b1) (ret (Pending (n * resumeRetryStep)))
           else noteResumed k b1 now CondFalse QuiesceReasonSendFailed
             (Msg ''world saving may still be paused: restart the server or run the Egg's after commands in the console (%v)'' [AErr e]))"

text \<open>The switch over the decision.\<close>

definition resumeTo ::
  "'w k8s \<Rightarrow> backup \<Rightarrow> quiesce_status \<Rightarrow> egg_backup option \<Rightarrow> string \<Rightarrow> pod option \<Rightarrow> time \<Rightarrow> ('w, resume_result) io" where
  "resumeTo k b q hooks console p now =
     (case resumeDecision (Some q) hooks (case p of None \<Rightarrow> [] | Some pod \<Rightarrow> om_uid (pod_meta pod)) of
        ResumeNone \<Rightarrow> ret (Settled b)
      | ResumeSkip \<Rightarrow> noteResumed k b now CondTrue
          (if (case hooks of None \<Rightarrow> True | Some h \<Rightarrow> eb_after h = []) then ResumeReasonNothingToSend
           else ResumeReasonPodReplaced) no_msg
      | ResumeSend \<Rightarrow> (case (hooks, p) of
            (Some h, Some pod) \<Rightarrow> sendAfter k b q now h console pod
          | _ \<Rightarrow> throw nilPanic))"

definition resume :: "'w k8s \<Rightarrow> backup_config \<Rightarrow> backup \<Rightarrow> ('w, resume_result) io" where
  "resume k C b = (case bst_quiesce (bk_status b) of
     None \<Rightarrow> ret (Settled b)
   | Some q \<Rightarrow>
     if \<not> bc_exec C \<or> qs_before_sent_at q = None \<or> qs_resumed_at q \<noteq> None then ret (Settled b)
     else bindE (gameTarget k b) (\<lambda>(hooks, console, p).
       bindE (gets (k_now k)) (\<lambda>now. resumeTo k b q hooks console p now)))"

section \<open>The Job and the phases\<close>

definition backupComplete :: "'w k8s \<Rightarrow> backup \<Rightarrow> backup_phase \<Rightarrow> ('w, duration) io" where
  "backupComplete k b phase = bindE (gets (k_now k)) (\<lambda>now.
     thenE (r_status_update (k_backup k)
       (b\<lparr>bk_status := (bk_status b)\<lparr>bst_phase := phase, bst_completion := Some now\<rparr>\<rparr>)) (ret 0))"

definition backupStart :: "'w k8s \<Rightarrow> backup_config \<Rightarrow> backup \<Rightarrow> ('w, duration) io" where
  "backupStart k C b0 =
     bindE (quiesce k C b0) (\<lambda>res. case res of Wait d \<Rightarrow> ret d
     | Proceed b \<Rightarrow>
       let ns = om_namespace (bk_meta b); pvcName = bks_gameserver (bk_spec b) in
       bindE (found_or_none (r_get (k_pvc k) ns pvcName)) (\<lambda>rp. case rp of
         None \<Rightarrow> backupComplete k b BkFailed
       | Some _ \<Rightarrow>
         bindE (volumeAffinity k ns pvcName) (\<lambda>aff.
         let j = BackupJob b pvcName aff in
         bindE (liftE (lib_set_controller (k_lib k) (bk_meta b) (job_meta j))) (\<lambda>m.
         thenE (wrapE ''creating backup job: '' (ignoring is_already_exists (r_create (k_job k) (j\<lparr>job_meta := m\<rparr>))))
         (bindE (gets (k_now k)) (\<lambda>now.
           thenE (r_status_update (k_backup k) (b\<lparr>bk_status := (bk_status b)\<lparr>bst_phase := BkRunning,
               bst_job_name := om_name (job_meta j), bst_start := Some now\<rparr>\<rparr>))
             (ret backupJobPollInterval)))))))"

definition backupPoll :: "'w k8s \<Rightarrow> backup \<Rightarrow> ('w, duration) io" where
  "backupPoll k b =
     bindE (found_or_none (r_get (k_job k) (om_namespace (bk_meta b)) (bst_job_name (bk_status b)))) (\<lambda>r. case r of
       None \<Rightarrow> backupComplete k b BkFailed
     | Some j \<Rightarrow>
         if job_succeeded j > 0 then backupComplete k b BkCompleted
         else if job_failed j > 0 \<and> jobIsFinished j then backupComplete k b BkFailed
         else ret backupJobPollInterval)"

section \<open>Retention and deletion\<close>

definition maxRetentionWait :: duration where
  "maxRetentionWait = hour"

definition enforceRetention :: "'w k8s \<Rightarrow> backup \<Rightarrow> ('w, duration) io" where
  "enforceRetention k b =
     (let raw = sget (om_annotations (bk_meta b)) BackupExpiresAtAnnotation in
      if raw = [] then ret 0
      else case lib_parse_time (k_lib k) raw of
        None \<Rightarrow> ret 0
      | Some expiresAt \<Rightarrow>
        bindE (gets (k_now k)) (\<lambda>now.
          if 0 < expiresAt - now then ret (min (expiresAt - now + second) maxRetentionWait)
          else thenE (ignoring is_not_found (r_delete (k_backup k) b)) (ret 0)))"

definition releaseBackup :: "'w k8s \<Rightarrow> backup \<Rightarrow> ('w, duration) io" where
  "releaseBackup k b = thenE (r_update (k_backup k)
     (b\<lparr>bk_meta := lib_remove_finalizer (k_lib k) (bk_meta b) GameServerBackupFinalizer\<rparr>)) (ret 0)"

definition backupDelete :: "'w k8s \<Rightarrow> backup_config \<Rightarrow> backup \<Rightarrow> ('w, duration) io" where
  "backupDelete k C b0 =
     (if \<not> lib_contains_finalizer (k_lib k) (bk_meta b0) GameServerBackupFinalizer then ret 0
      else bindE (resume k C b0) (\<lambda>rr. case rr of Pending d \<Rightarrow> ret d
      | Settled b \<Rightarrow>
        if bst_phase (bk_status b) \<noteq> BkCompleted \<and> bst_phase (bk_status b) \<noteq> BkDeleting then releaseBackup k b
        else bindE (found_or_none (r_get (k_job k) (om_namespace (bk_meta b)) (CleanupJobName (om_name (bk_meta b))))) (\<lambda>r. case r of
            None \<Rightarrow>
              let j = CleanupJob b in
              bindE (liftE (lib_set_controller (k_lib k) (bk_meta b) (job_meta j))) (\<lambda>m.
              thenE (wrapE ''creating cleanup job: '' (ignoring is_already_exists (r_create (k_job k) (j\<lparr>job_meta := m\<rparr>))))
              (thenE (r_status_update (k_backup k) (b\<lparr>bk_status := (bk_status b)\<lparr>bst_phase := BkDeleting\<rparr>\<rparr>))
                (ret backupJobPollInterval)))
          | Some j \<Rightarrow>
              if job_succeeded j > 0 \<or> (job_failed j > 0 \<and> jobIsFinished j) then releaseBackup k b
              else ret backupJobPollInterval)))"

definition backupReconcile :: "'w k8s \<Rightarrow> backup_config \<Rightarrow> string \<Rightarrow> string \<Rightarrow> ('w, duration) io" where
  "backupReconcile k C ns name =
     bindE (found_or_none (r_get (k_backup k) ns name)) (\<lambda>r. case r of None \<Rightarrow> ret 0
     | Some b \<Rightarrow>
       if is_deleting (bk_meta b) then backupDelete k C b
       else if \<not> lib_contains_finalizer (k_lib k) (bk_meta b) GameServerBackupFinalizer then
         thenE (wrapE ''adding finalizer: '' (r_update (k_backup k)
           (b\<lparr>bk_meta := lib_add_finalizer (k_lib k) (bk_meta b) GameServerBackupFinalizer\<rparr>))) (ret 0)
       else (case bst_phase (bk_status b) of
           BkUnset \<Rightarrow> backupStart k C b
         | BkPending \<Rightarrow> backupStart k C b
         | BkRunning \<Rightarrow> backupPoll k b
         | _ \<Rightarrow> bindE (resume k C b) (\<lambda>rr. case rr of
               Pending d \<Rightarrow> ret d
             | Settled b' \<Rightarrow> enforceRetention k b')))"

section \<open>Lemmas\<close>

text \<open>
  The wait for the world save is bounded: it never sleeps past the deadline the Egg sets (its
  timeout with a pattern, its delay without one), always sleeps a positive time, and from the deadline
  on it is over.
\<close>

theorem quiesceWait_bounded:
  "let deadline = sentAt + (if eb_saved_regex h \<noteq> [] then Timeout h else Delay h) in
   (\<forall>wait. quiesceWait h sentAt now matched = Inr wait \<longrightarrow> 0 < wait \<and> now + wait \<le> deadline) \<and>
   (deadline \<le> now \<longrightarrow> (\<exists>reason. quiesceWait h sentAt now matched = Inl reason))"
  by (auto simp: quiesceWait_def quiescePollInterval_def duration_defs Let_def)

text \<open>The log of the pause: commands only after the pause is on record.\<close>

definition pause_recorded :: "event set \<Rightarrow> bool" where
  "pause_recorded S \<longleftrightarrow> (\<exists>b. EvStatusUpdate (OBackup b) True \<in> S \<and> pauseSent b \<noteq> None)"

definition pause_rule :: "backup \<Rightarrow> event set \<Rightarrow> event \<Rightarrow> bool" where
  "pause_rule b before e \<longleftrightarrow>
     (\<forall>ns p c cmd ok. e = EvExec ns p c cmd ok \<longrightarrow> pauseSent b = None \<and> pause_recorded before)"

definition no_exec :: "event \<Rightarrow> bool" where
  "no_exec e \<longleftrightarrow> (\<forall>ns p c cmd ok. e \<noteq> EvExec ns p c cmd ok)"

lemma gameTarget_quiet: "only no_exec (gameTarget (logging k) b)"
  unfolding gameTarget_def logging_kinds Let_def
  by (intro only_rules only_calls; simp add: no_exec_def)

lemma awaitSaved_quiet: "only no_exec (awaitSaved (logging k) C b hooks p q t)"
  unfolding awaitSaved_def savedMatched_def logging_kinds Let_def
  by (intro only_rules only_calls; simp add: no_exec_def)

lemma pause_quiet:
  assumes "only no_exec m"
  shows "logs (guarded (pause_rule b)) m (\<lambda>_. guarded (pause_rule b)) (\<lambda>_. guarded (pause_rule b))"
  using assms by (rule logs_guarded_only) (simp add: pause_rule_def no_exec_def)

lemma sendCommands_logs:
  assumes "\<And>l cmd ok. P l \<Longrightarrow> P (l @ [EvExec (om_namespace (pod_meta p)) (om_name (pod_meta p)) serverContainerName cmd ok])"
  shows "logs P (sendCommands (logging k) p console cs) (\<lambda>_. P) (\<lambda>_. P)"
proof (induction cs)
  case Nil
  then show ?case by (simp add: logs_ret)
next
  case (Cons c cs)
  have "logs P (wrapE ''sending %q: '' (k_exec (logging k) (om_namespace (pod_meta p)) (om_name (pod_meta p))
      serverContainerName (ConsoleLineCommand console c))) (\<lambda>_. P) (\<lambda>_. P)"
    by (intro logs_wrapE log_rules assms)
  then show ?case using Cons by (simp add: logs_bindE)
qed

lemma startPause_logs:
  assumes "pauseSent b = None"
  shows "logs (guarded (pause_rule b)) (startPause (logging k) C b h console pod)
           (\<lambda>_. guarded (pause_rule b)) (\<lambda>_. guarded (pause_rule b))"
proof -
  let ?I = "guarded (pause_rule b)"
  let ?S = "\<lambda>l. ?I l \<and> pause_recorded (set l)"
  have send: "logs ?S (sendCommands (logging k) pod console cs) (\<lambda>_. ?I) (\<lambda>_. ?I)" for cs
    by (rule logs_post [OF sendCommands_logs [where P = ?S]]) (use assms in \<open>auto simp: pause_rule_def pause_recorded_def\<close>)
  show ?thesis
    unfolding startPause_def Let_def logging_kinds k_lib_logging
    apply (rule logs_bindE [where R = "\<lambda>_. ?I"], rule logs_gets, assumption)
    apply (rule logs_bindE [where R = "\<lambda>_. ?S"])
     apply (rule log_rules; auto simp: pause_rule_def pause_recorded_def withQuiesce_def pauseSent_def)
    apply (rule logs_bindE [where R = "\<lambda>_. ?I"], rule logs_attempt, rule send)
    apply (rule pause_quiet, intro only_rules only_calls awaitSaved_quiet; simp add: no_exec_def)
    done
qed

text \<open>
  The commands that pause world saving are sent at most once per backup: they reach the console
  only when the status read has no record of them, and only after a status write that records them has
  succeeded; an operator restarted at any point finds that record and sends nothing again.
\<close>

theorem quiesce_sends_once: "guarded (pause_rule b) (trace (quiesce (logging k) C b) w)"
proof (rule trace_guarded)
  let ?I = "guarded (pause_rule b)"
  note quiet = pause_quiet [OF awaitSaved_quiet] pause_quiet [OF only_ret]
  show "logs ?I (quiesce (logging k) C b) (\<lambda>_. ?I) (\<lambda>_. ?I)"
    unfolding quiesce_def
    by (intro logs_if logs_bindE [OF pause_quiet [OF gameTarget_quiet]] logs_case_prod logs_case_option quiet startPause_logs)
qed

section \<open>Resuming is bounded and aimed at the same Pod\<close>

lemma noteResumed_settles [simp]: "noteResumed k b now st reason m u \<noteq> (Inr (Pending d), w')"
  by (auto simp: noteResumed_def bindE_Inr gets_def ret_def)

lemma resumeTo_pending:
  assumes "resumeTo k b q hooks console p now u = (Inr (Pending d), w')"
  obtains h pod where "om_uid (pod_meta pod) = qs_pod_uid q" "sendAfter k b q now h console pod u = (Inr (Pending d), w')"
  using assms
  by (auto simp: resumeTo_def resumeDecision_def ret_def throw_def split: option.splits if_splits)

lemma sendAfter_pending:
  assumes "sendAfter k b q now h console pod u = (Inr (Pending d), w')"
  shows "qs_resume_attempts q + 1 < 5 \<and> d = (qs_resume_attempts q + 1) * (10 * second) \<and>
         (\<exists>e v b'. sendCommands k pod console (eb_after h) u = (Inl e, v) \<and>
            r_status_update (k_backup k) (withQuiesce b (q\<lparr>qs_resume_attempts := qs_resume_attempts q + 1\<rparr>)) v = (Inr b', w'))"
proof -
  obtain r v where r: "sendCommands k pod console (eb_after h) u = (r, v)" by (cases "sendCommands k pod console (eb_after h) u")
  show ?thesis
  proof (cases r)
    case (Inr x)
    then show ?thesis using assms r by (auto simp: sendAfter_def bindE_def attempt_def)
  next
    case (Inl e)
    then show ?thesis
      using assms r
      by (auto simp: sendAfter_def bindE_Inr attempt_def ret_def Let_def resumeMaxAttempts_def resumeRetryStep_def
          split: if_splits)
  qed
qed

text \<open>
  Resuming world saving is tried at most five times: an attempt that asks to come back was not the
  fifth, records one more attempt and waits ten seconds per attempt made; every other return leaves
  the backup settled.
\<close>

theorem resume_bounded:
  assumes "resume k C b w = (Inr (Pending d), w')"
  shows "\<exists>q pod console (h :: egg_backup) e u v b'. bst_quiesce (bk_status b) = Some q \<and> qs_resume_attempts q + 1 < 5 \<and>
           d = (qs_resume_attempts q + 1) * (10 * second) \<and>
           om_uid (pod_meta pod) = qs_pod_uid q \<and> sendCommands k pod console (eb_after h) u = (Inl e, v) \<and>
           r_status_update (k_backup k) (withQuiesce b (q\<lparr>qs_resume_attempts := qs_resume_attempts q + 1\<rparr>)) v = (Inr b', w')"
proof -
  obtain q hooks console p now u where q: "bst_quiesce (bk_status b) = Some q"
    and r: "resumeTo k b q hooks console p now u = (Inr (Pending d), w')"
    using assms by (auto simp: resume_def bindE_Inr gets_def ret_def split: option.splits if_splits)
  obtain h pod where hp: "om_uid (pod_meta pod) = qs_pod_uid q"
    and s: "sendAfter k b q now h console pod u = (Inr (Pending d), w')"
    using r by (rule resumeTo_pending)
  from sendAfter_pending [OF s] obtain e v b' where
    "qs_resume_attempts q + 1 < 5" "d = (qs_resume_attempts q + 1) * (10 * second)"
    "sendCommands k pod console (eb_after h) u = (Inl e, v)"
    "r_status_update (k_backup k) (withQuiesce b (q\<lparr>qs_resume_attempts := qs_resume_attempts q + 1\<rparr>)) v = (Inr b', w')"
    by blast
  with q hp show ?thesis
    by (intro exI [of _ q] exI [of _ pod] exI [of _ console] exI [of _ h] exI [of _ e] exI [of _ u] exI [of _ v]
        exI [of _ b'] conjI)
qed

section \<open>The same Pod\<close>

definition after_rule :: "backup \<Rightarrow> event set \<Rightarrow> event \<Rightarrow> bool" where
  "after_rule b before e \<longleftrightarrow> (\<forall>ns p c cmd ok. e = EvExec ns p c cmd ok \<longrightarrow>
     (\<exists>q n m pod. bst_quiesce (bk_status b) = Some q \<and> qs_before_sent_at q \<noteq> None \<and> qs_resumed_at q = None \<and>
        EvGot n m (OPod pod) \<in> before \<and> runningPod pod \<and> om_uid (pod_meta pod) = qs_pod_uid q \<and>
        ns = om_namespace (pod_meta pod) \<and> p = om_name (pod_meta pod) \<and> c = serverContainerName))"

definition got_running :: "pod option \<Rightarrow> event set \<Rightarrow> bool" where
  "got_running p S \<longleftrightarrow> (\<forall>pod. p = Some pod \<longrightarrow> runningPod pod \<and> (\<exists>n m. EvGot n m (OPod pod) \<in> S))"

lemma gameTarget_pod:
  assumes "\<And>S e. no_exec e \<Longrightarrow> G S e"
  shows "logs (guarded G) (gameTarget (logging k) b)
    (\<lambda>(hooks, console, p) l. guarded G l \<and> got_running p (set l)) (\<lambda>_. guarded G)"
proof -
  have got: "logs (guarded G) (found_or_none (r_get (log_rest OPod (k_pod k)) n m))
      (\<lambda>r l. guarded G l \<and> (\<forall>p. r = Some p \<longrightarrow> EvGot n m (OPod p) \<in> set l)) (\<lambda>_. guarded G)" for n m
    by (rule logs_found_or_none, rule log_rules) (auto simp: assms no_exec_def)
  have quiet: "logs (guarded G) (found_or_none (r_get (log_rest I R) n m)) (\<lambda>_. guarded G) (\<lambda>_. guarded G)"
    for I :: "gameserver \<Rightarrow> obj" and R :: "(gameserver, 'a) rest" and n m
    by (rule logs_found_or_none, rule log_rules) (auto simp: assms no_exec_def)
  have quiet2: "logs (guarded G) (found_or_none (r_get (log_rest I R) n m)) (\<lambda>_. guarded G) (\<lambda>_. guarded G)"
    for I :: "egg \<Rightarrow> obj" and R :: "(egg, 'a) rest" and n m
    by (rule logs_found_or_none, rule log_rules) (auto simp: assms no_exec_def)
  show ?thesis
    unfolding gameTarget_def logging_kinds Let_def
    apply (rule logs_bindE [OF quiet], rule logs_case_option, rule logs_ret, simp add: got_running_def)
    apply (rule logs_bindE [OF quiet2], rule logs_if, rule logs_ret, simp add: got_running_def)
    apply (rule logs_bindE [OF got], rule logs_ret, auto simp: got_running_def split: option.splits)
    done
qed

lemma after_quiet:
  assumes "only no_exec m"
  shows "logs (guarded (after_rule b)) m (\<lambda>_. guarded (after_rule b)) (\<lambda>_. guarded (after_rule b))"
  using assms by (rule logs_guarded_only) (simp add: after_rule_def no_exec_def)

lemma noteResumed_quiet: "only no_exec (noteResumed (logging k) b now st reason m)"
  unfolding noteResumed_def logging_kinds by (intro only_rules only_calls; simp add: no_exec_def)

text \<open>
  The commands that resume world saving go only to a running Pod with the UID that got the pausing
  commands, read in the same pass, and only while the status says they were sent and not yet answered:
  a Pod that was replaced meanwhile never gets them.
\<close>

theorem resume_same_pod: "guarded (after_rule b) (trace (resume (logging k) C b) w)"
proof (rule trace_guarded)
  let ?I = "guarded (after_rule b)"
  have send: "logs (\<lambda>l. ?I l \<and> got_running (Some pod) (set l)) (sendAfter (logging k) b q now h console pod) (\<lambda>_. ?I) (\<lambda>_. ?I)"
    if "bst_quiesce (bk_status b) = Some q" "qs_before_sent_at q \<noteq> None" "qs_resumed_at q = None"
      "om_uid (pod_meta pod) = qs_pod_uid q" for q now h console pod
  proof -
    have cmds: "logs (\<lambda>l. ?I l \<and> got_running (Some pod) (set l)) (sendCommands (logging k) pod console cs) (\<lambda>_. ?I) (\<lambda>_. ?I)" for cs
      by (rule logs_post [OF sendCommands_logs [where P = "\<lambda>l. ?I l \<and> got_running (Some pod) (set l)"]])
        (use that in \<open>auto simp: after_rule_def got_running_def\<close>)
    show ?thesis
      unfolding sendAfter_def Let_def logging_kinds
      apply (rule logs_bindE [where R = "\<lambda>_. ?I"], rule logs_attempt, rule cmds)
      apply (rule after_quiet, intro only_rules only_calls noteResumed_quiet; simp add: no_exec_def)
      done
  qed
  have to: "logs (\<lambda>l. ?I l \<and> got_running p (set l)) (resumeTo (logging k) b q hooks console p now) (\<lambda>_. ?I) (\<lambda>_. ?I)"
    if q: "bst_quiesce (bk_status b) = Some q" "qs_before_sent_at q \<noteq> None" "qs_resumed_at q = None" for q hooks console p now
  proof (cases "resumeDecision (Some q) hooks (case p of None \<Rightarrow> [] | Some pod \<Rightarrow> om_uid (pod_meta pod))")
    case ResumeSend
    then obtain h pod where "hooks = Some h" "p = Some pod" "om_uid (pod_meta pod) = qs_pod_uid q"
      by (auto simp: resumeDecision_def split: option.splits if_splits)
    then show ?thesis using ResumeSend send [OF q] by (simp add: resumeTo_def)
  next
    case ResumeNone
    then show ?thesis by (simp add: resumeTo_def) (rule logs_ret, simp)
  next
    case ResumeSkip
    then have "resumeTo (logging k) b q hooks console p now = noteResumed (logging k) b now CondTrue
          (if (case hooks of None \<Rightarrow> True | Some h \<Rightarrow> eb_after h = []) then ResumeReasonNothingToSend
           else ResumeReasonPodReplaced) no_msg" by (simp add: resumeTo_def)
    then show ?thesis by (simp only:) (rule logs_pre [OF after_quiet [OF noteResumed_quiet]], simp)
  qed
  show "logs ?I (resume (logging k) C b) (\<lambda>_. ?I) (\<lambda>_. ?I)"
    unfolding resume_def
    apply (rule logs_case_option, rule logs_ret, assumption)
    apply (rule logs_if, rule logs_ret, assumption)
    apply (rule logs_bindE [OF gameTarget_pod])
     apply (simp add: after_rule_def no_exec_def)
    apply (rule logs_case_prod)+
    subgoal for q r hooks r2 console p
      apply (rule logs_bindE [where R = "\<lambda>_ l. ?I l \<and> got_running p (set l)"], rule logs_gets, simp)
      apply (rule to; simp)
      done
    done
qed

section \<open>Deletion waits for the cleanup\<close>

definition release_rule :: "klib \<Rightarrow> event set \<Rightarrow> event \<Rightarrow> bool" where
  "release_rule L before e \<longleftrightarrow> (\<forall>b' ok. e = EvUpdate (OBackup b') ok \<longrightarrow>
     (\<exists>b. b' = b\<lparr>bk_meta := lib_remove_finalizer L (bk_meta b) GameServerBackupFinalizer\<rparr> \<and>
       (bst_phase (bk_status b) \<notin> {BkCompleted, BkDeleting} \<or>
        (\<exists>j. EvGot (om_namespace (bk_meta b)) (CleanupJobName (om_name (bk_meta b))) (OJob j) \<in> before \<and>
           (job_succeeded j > 0 \<or> job_failed j > 0 \<and> jobIsFinished j)))))"

definition no_backup_update :: "event \<Rightarrow> bool" where
  "no_backup_update e \<longleftrightarrow> (\<forall>b ok. e \<noteq> EvUpdate (OBackup b) ok)"

lemma release_quiet:
  assumes "only no_backup_update m"
  shows "logs (guarded (release_rule L)) m (\<lambda>_. guarded (release_rule L)) (\<lambda>_. guarded (release_rule L))"
  using assms by (rule logs_guarded_only) (simp add: release_rule_def no_backup_update_def)

lemma sendCommands_no_update: "only no_backup_update (sendCommands (logging k) p console cs)"
  by (induction cs) (auto intro!: only_rules only_calls simp: no_backup_update_def)

lemma resume_no_update: "only no_backup_update (resume (logging k) C b)"
  unfolding resume_def gameTarget_def resumeTo_def sendAfter_def noteResumed_def logging_kinds Let_def
  by (auto intro!: only_rules only_calls sendCommands_no_update simp: no_backup_update_def split: resume_action.splits)

text \<open>
  C33: a backup being deleted is released only after its snapshot was dealt with: its finalizer is
  removed when it never completed, or when its cleanup Job, read in the same pass, has succeeded or
  given up retrying.
\<close>

theorem backupDelete_prunes_first: "guarded (release_rule (k_lib k)) (trace (backupDelete (logging k) C b) w)"
proof (rule trace_guarded)
  let ?I = "guarded (release_rule (k_lib k))"
  have release: "logs P (releaseBackup (logging k) b') (\<lambda>_. ?I) (\<lambda>_. ?I)"
    if "\<And>l. P l \<Longrightarrow> ?I l \<and> (bst_phase (bk_status b') \<notin> {BkCompleted, BkDeleting} \<or>
        (\<exists>j. EvGot (om_namespace (bk_meta b')) (CleanupJobName (om_name (bk_meta b'))) (OJob j) \<in> set l \<and>
           (job_succeeded j > 0 \<or> job_failed j > 0 \<and> jobIsFinished j)))" for P b'
    unfolding releaseBackup_def logging_kinds k_lib_logging
    apply (rule logs_bindE [where R = "\<lambda>_. ?I"])
     apply (rule log_rules; frule that; simp add: release_rule_def; blast)
    apply (rule logs_ret, simp)
    done
  show "logs ?I (backupDelete (logging k) C b) (\<lambda>_. ?I) (\<lambda>_. ?I)"
    unfolding backupDelete_def Let_def logging_kinds
    apply (rule logs_if, rule logs_ret, assumption)
    apply (rule logs_bindE [OF release_quiet [OF resume_no_update]])
    subgoal for r
      apply (cases r)
       apply (simp, rule logs_ret, assumption)
      apply (simp only: resume_result.case)
      apply (rule logs_if, rule release, simp)
      subgoal for b'
        apply (rule logs_bindE [where R = "\<lambda>r l. ?I l \<and> (\<forall>j. r = Some j \<longrightarrow>
            EvGot (om_namespace (bk_meta b')) (CleanupJobName (om_name (bk_meta b'))) (OJob j) \<in> set l)"])
         apply (rule logs_found_or_none, rule log_rules; auto simp: release_rule_def)
        apply (rule logs_case_option)
         apply (rule logs_pre [OF release_quiet], intro only_rules only_calls; simp add: no_backup_update_def)
        apply (rule logs_if, rule release, blast, rule logs_ret, simp)
        done
      done
    done
qed

section \<open>The phases\<close>

text \<open>One status write of the controller, as a step of the phase.\<close>

inductive backup_step :: "backup_phase \<Rightarrow> backup_phase \<Rightarrow> bool" where
  stay: "backup_step p p"
| started: "p \<in> {BkUnset, BkPending} \<Longrightarrow> backup_step p BkRunning"
| no_volume: "p \<in> {BkUnset, BkPending} \<Longrightarrow> backup_step p BkFailed"
| completed: "backup_step BkRunning BkCompleted"
| failed: "backup_step BkRunning BkFailed"
| pruning: "p \<in> {BkCompleted, BkDeleting} \<Longrightarrow> backup_step p BkDeleting"

inductive_cases backup_step_from_completed: "backup_step BkCompleted p"
inductive_cases backup_step_from_failed: "backup_step BkFailed p"
inductive_cases backup_step_from_deleting: "backup_step BkDeleting p"

lemma backup_step_reachable:
  "backup_step\<^sup>*\<^sup>* p q \<Longrightarrow> (p = BkFailed \<longrightarrow> q = BkFailed) \<and> (p \<in> {BkCompleted, BkDeleting} \<longrightarrow> q \<in> {BkCompleted, BkDeleting})"
  by (induction rule: rtranclp_induct)
    (auto elim: backup_step_from_completed backup_step_from_failed backup_step_from_deleting)

abbreviation bk_phase :: "backup \<Rightarrow> backup_phase" where
  "bk_phase b \<equiv> bst_phase (bk_status b)"

definition backup_read :: "string \<Rightarrow> string \<Rightarrow> backup_phase \<Rightarrow> event set \<Rightarrow> bool" where
  "backup_read ns name ph S \<longleftrightarrow> (\<exists>b. EvGot ns name (OBackup b) \<in> S \<and> bk_phase b = ph)"

definition phase_rule :: "string \<Rightarrow> string \<Rightarrow> event set \<Rightarrow> event \<Rightarrow> bool" where
  "phase_rule ns name before e \<longleftrightarrow> (\<forall>b' ok. e = EvStatusUpdate (OBackup b') ok \<longrightarrow>
     (\<exists>ph. backup_read ns name ph before \<and> backup_step ph (bk_phase b') \<and>
        (bk_phase b' = BkRunning \<and> ph \<noteq> BkRunning \<longrightarrow> (\<exists>j ok. EvCreate (OJob j) ok \<in> before)) \<and>
        (bk_phase b' = BkCompleted \<and> ph = BkRunning \<longrightarrow> (\<exists>n m j. EvGot n m (OJob j) \<in> before \<and> job_succeeded j > 0)) \<and>
        (bk_phase b' = BkDeleting \<and> ph = BkCompleted \<longrightarrow> (\<exists>j ok. EvCreate (OJob j) ok \<in> before))))"

definition no_backup_status :: "event \<Rightarrow> bool" where
  "no_backup_status e \<longleftrightarrow> (\<forall>b ok. e \<noteq> EvStatusUpdate (OBackup b) ok)"

lemma backup_read_insert: "backup_read ns name ph S \<Longrightarrow> backup_read ns name ph (insert e S)"
  by (auto simp: backup_read_def)

abbreviation phase_ok :: "string \<Rightarrow> string \<Rightarrow> event list \<Rightarrow> bool" where
  "phase_ok ns name \<equiv> guarded (phase_rule ns name)"

abbreviation phase_at :: "string \<Rightarrow> string \<Rightarrow> backup_phase \<Rightarrow> event list \<Rightarrow> bool" where
  "phase_at ns name ph l \<equiv> guarded (phase_rule ns name) l \<and> backup_read ns name ph (set l)"

lemma phase_keeps:
  assumes "only no_backup_status m"
  shows "logs (phase_at ns name ph) m (\<lambda>_. phase_at ns name ph) (\<lambda>_. phase_at ns name ph)"
  by (rule logs_post [OF logs_guarded_since [OF assms, where H = "backup_read ns name ph"]])
    (auto simp: phase_rule_def no_backup_status_def backup_read_insert)

lemma phase_quiet:
  assumes "only no_backup_status m"
  shows "logs (phase_at ns name ph) m (\<lambda>_. phase_at ns name ph) (\<lambda>_. phase_ok ns name)"
  by (rule logs_post [OF phase_keeps [OF assms]]) simp_all

lemma phase_idle:
  assumes "only no_backup_status m" and "\<And>l. P l \<Longrightarrow> phase_at ns name ph l"
  shows "logs P m (\<lambda>_. phase_ok ns name) (\<lambda>_. phase_ok ns name)"
  by (rule logs_pre [OF logs_post [OF phase_keeps [OF assms(1), where ns = ns and name = name and ph = ph]]]) (simp_all add: assms(2))

lemma gameTarget_status: "only no_backup_status (gameTarget (logging k) b)"
  unfolding gameTarget_def logging_kinds Let_def
  by (intro only_rules only_calls; simp add: no_backup_status_def)

lemma savedMatched_status: "only no_backup_status (savedMatched (logging k) C h p q t)"
  unfolding savedMatched_def logging_kinds
  by (intro only_rules only_calls; simp add: no_backup_status_def)

lemma sendCommands_status: "only no_backup_status (sendCommands (logging k) p console cs)"
  by (induction cs) (auto intro!: only_rules only_calls simp: no_backup_status_def)

lemma setCondition_phase [simp]: "bk_phase (setCondition L t b c st r m) = bk_phase b"
  by (simp add: setCondition_def)

lemma withQuiesce_phase [simp]: "bk_phase (withQuiesce b q) = bk_phase b"
  by (simp add: withQuiesce_def)

lemma withResumed_phase [simp]: "bk_phase (withResumed b t) = bk_phase b"
  by (simp add: withResumed_def split: option.splits)

lemma status_same:
  assumes "status_store (r_status_update R)" and "bk_phase x = ph"
  shows "logs (phase_at ns name ph) (r_status_update (log_rest OBackup R) x)
           (\<lambda>y l. phase_at ns name ph l \<and> bk_phase y = ph) (\<lambda>_. phase_ok ns name)"
  unfolding r_status_update_log
  by (rule logs_post [OF status_store.logs_echo [OF assms(1), where P = "phase_at ns name ph"
        and Q = "\<lambda>y l. phase_at ns name ph l \<and> bk_phase y = ph" and E = "\<lambda>_. phase_ok ns name"]])
    (use assms(2) in \<open>auto simp: phase_rule_def backup_read_insert intro: backup_step.stay\<close>)

lemma awaitSaved_phase:
  assumes "status_store (r_status_update (k_backup k))" and "bk_phase b = ph"
  shows "logs (phase_at ns name ph) (awaitSaved (logging k) C b hooks p q t)
           (\<lambda>r l. phase_at ns name ph l \<and> (\<forall>b'. r = Proceed b' \<longrightarrow> bk_phase b' = ph)) (\<lambda>_. phase_ok ns name)"
  unfolding awaitSaved_def Let_def logging_kinds k_lib_logging
  apply (rule logs_bindE [OF phase_quiet [OF savedMatched_status]])
  apply (rule logs_bindE [where R = "\<lambda>_. phase_at ns name ph"], rule logs_gets, assumption)
  apply (rule logs_case_sum)
   apply (rule logs_bindE [OF status_same [OF assms(1)]], simp add: assms(2), rule logs_ret, simp)
  apply (rule logs_ret, simp)
  done

lemma startPause_phase:
  assumes "status_store (r_status_update (k_backup k))" and "bk_phase b = ph"
  shows "logs (phase_at ns name ph) (startPause (logging k) C b h console pod)
           (\<lambda>r l. phase_at ns name ph l \<and> (\<forall>b'. r = Proceed b' \<longrightarrow> bk_phase b' = ph)) (\<lambda>_. phase_ok ns name)"
  unfolding startPause_def Let_def logging_kinds k_lib_logging
  apply (rule logs_bindE [where R = "\<lambda>_. phase_at ns name ph"], rule logs_gets, assumption)
  apply (rule logs_bindE [OF status_same [OF assms(1)]], simp add: assms(2), rule logs_fact)
  apply (rule logs_bindE [where R = "\<lambda>_. phase_at ns name ph"], rule logs_attempt,
      rule phase_keeps [OF sendCommands_status])
  apply (rule logs_case_sum)
   apply (rule logs_bindE [where R = "\<lambda>_. phase_at ns name ph"], rule logs_gets, assumption)
   apply (rule logs_bindE [OF status_same [OF assms(1)]], simp, rule logs_ret, simp)
  apply (intro logs_case_option logs_throw awaitSaved_phase [OF assms(1)], simp_all)
  done

lemma quiesce_phase:
  assumes "status_store (r_status_update (k_backup k))" and "bk_phase b = ph"
  shows "logs (phase_at ns name ph) (quiesce (logging k) C b)
           (\<lambda>r l. phase_at ns name ph l \<and> (\<forall>b'. r = Proceed b' \<longrightarrow> bk_phase b' = ph)) (\<lambda>_. phase_ok ns name)"
  unfolding quiesce_def
  apply (rule logs_if, rule logs_ret, simp add: assms(2))
  apply (rule logs_bindE [OF phase_quiet [OF gameTarget_status]])
  apply (intro logs_case_prod logs_case_option logs_if awaitSaved_phase startPause_phase assms)
    apply (rule logs_ret, simp add: assms(2))+
  done

lemma noteResumed_phase:
  assumes "status_store (r_status_update (k_backup k))" and "bk_phase b = ph"
  shows "logs (phase_at ns name ph) (noteResumed (logging k) b now st reason m)
           (\<lambda>r l. phase_at ns name ph l \<and> (\<forall>b'. r = Settled b' \<longrightarrow> bk_phase b' = ph)) (\<lambda>_. phase_ok ns name)"
  unfolding noteResumed_def logging_kinds
  apply (rule logs_bindE [where R = "\<lambda>_. phase_at ns name ph"], rule logs_gets, assumption)
  apply (rule logs_bindE [OF status_same [OF assms(1)]], simp add: assms(2), rule logs_ret, simp)
  done

lemma sendAfter_phase:
  assumes "status_store (r_status_update (k_backup k))" and "bk_phase b = ph"
  shows "logs (phase_at ns name ph) (sendAfter (logging k) b q now h console pod)
           (\<lambda>r l. phase_at ns name ph l \<and> (\<forall>b'. r = Settled b' \<longrightarrow> bk_phase b' = ph)) (\<lambda>_. phase_ok ns name)"
  unfolding sendAfter_def Let_def logging_kinds
  apply (rule logs_bindE [where R = "\<lambda>_. phase_at ns name ph"], rule logs_attempt, rule phase_keeps [OF sendCommands_status])
  apply (rule logs_case_sum)
   apply (rule logs_if)
    apply (rule logs_bindE [OF status_same [OF assms(1)]], simp add: assms(2), rule logs_ret, simp)
   apply (rule noteResumed_phase [OF assms(1)], simp add: assms(2))
  apply (rule noteResumed_phase [OF assms])
  done

lemma resume_phase:
  assumes "status_store (r_status_update (k_backup k))" and "bk_phase b = ph"
  shows "logs (phase_at ns name ph) (resume (logging k) C b)
           (\<lambda>r l. phase_at ns name ph l \<and> (\<forall>b'. r = Settled b' \<longrightarrow> bk_phase b' = ph)) (\<lambda>_. phase_ok ns name)"
proof -
  have to: "logs (phase_at ns name ph) (resumeTo (logging k) b q hooks console p now)
           (\<lambda>r l. phase_at ns name ph l \<and> (\<forall>b'. r = Settled b' \<longrightarrow> bk_phase b' = ph)) (\<lambda>_. phase_ok ns name)" for q hooks console p now
    unfolding resumeTo_def
    by (cases "resumeDecision (Some q) hooks (case p of None \<Rightarrow> [] | Some pod \<Rightarrow> om_uid (pod_meta pod))")
      (simp_all only: resume_action.case,
        (intro logs_case_prod logs_case_option logs_ret logs_throw noteResumed_phase sendAfter_phase assms; simp add: assms(2))+)
  show ?thesis
    unfolding resume_def
    apply (rule logs_case_option, rule logs_ret, simp add: assms(2))
    apply (rule logs_if, rule logs_ret, simp add: assms(2))
    apply (rule logs_bindE [OF phase_quiet [OF gameTarget_status]])
    apply (intro logs_case_prod, rule logs_bindE [where R = "\<lambda>_. phase_at ns name ph"], rule logs_gets, assumption)
    apply (rule to)
    done
qed

text \<open>A status write that moves the phase, with what it needs in the log.\<close>

lemma complete_phase:
  assumes "\<And>l. P l \<Longrightarrow> phase_at ns name ph l \<and> backup_step ph phase \<and> phase \<noteq> BkRunning \<and> phase \<noteq> BkDeleting \<and>
      (phase = BkCompleted \<longrightarrow> (\<exists>n m j. EvGot n m (OJob j) \<in> set l \<and> job_succeeded j > 0))"
  shows "logs P (backupComplete (logging k) b phase) (\<lambda>_. phase_ok ns name) (\<lambda>_. phase_ok ns name)"
  unfolding backupComplete_def logging_kinds
  apply (rule logs_bindE [where R = "\<lambda>_. P"], rule logs_gets, assumption)
  apply (rule logs_bindE [where R = "\<lambda>_. phase_ok ns name"])
   apply (rule log_rules; frule assms; simp add: phase_rule_def; blast)
  apply (rule logs_ret, assumption)
  done

lemma volumeAffinity_status: "only no_backup_status (volumeAffinity (logging k) ns n)"
  unfolding volumeAffinity_def NodeAffinity_def logging_kinds Let_def
  by (intro only_rules only_calls; simp add: no_backup_status_def)

definition job_created :: "event set \<Rightarrow> bool" where
  "job_created S \<longleftrightarrow> (\<exists>j ok. EvCreate (OJob j) ok \<in> S)"

lemma create_job_phase:
  "logs (phase_at ns name ph) (wrapE s (ignoring p (r_create (log_rest OJob R) j)))
     (\<lambda>_ l. phase_at ns name ph l \<and> job_created (set l)) (\<lambda>_. phase_ok ns name)"
  by (intro logs_wrapE logs_ignoring log_rules) (auto simp: phase_rule_def job_created_def backup_read_insert)

lemma moved_phase:
  assumes "backup_step ph (bk_phase x)" and "bk_phase x \<noteq> BkCompleted"
  shows "logs (\<lambda>l. phase_at ns name ph l \<and> job_created (set l)) (r_status_update (log_rest OBackup R) x)
     (\<lambda>_. phase_ok ns name) (\<lambda>_. phase_ok ns name)"
  by (rule log_rules) (use assms in \<open>auto simp: phase_rule_def job_created_def\<close>)

lemma backupStart_phase:
  assumes "status_store (r_status_update (k_backup k))" and "bk_phase b = ph" and "ph \<in> {BkUnset, BkPending}"
  shows "logs (phase_at ns name ph) (backupStart (logging k) C b) (\<lambda>_. phase_ok ns name) (\<lambda>_. phase_ok ns name)"
  unfolding backupStart_def Let_def logging_kinds k_lib_logging
  apply (rule logs_bindE [OF quiesce_phase [OF assms(1,2)]])
  subgoal for res
    apply (cases res; simp only: quiesce_result.case)
     apply (rule logs_bindE [where R = "\<lambda>_. phase_at ns name ph"])
      apply (rule logs_found_or_none, rule log_rules; simp add: phase_rule_def backup_read_insert)
     apply (rule logs_case_option, rule complete_phase [where ph = ph])
      apply (use assms(3) in \<open>auto intro: backup_step.no_volume\<close>)[1]
     apply (rule logs_bindE [OF phase_quiet [OF volumeAffinity_status]])
     apply (rule logs_bindE [where R = "\<lambda>_. phase_at ns name ph"], rule logs_liftE, simp, simp)
     apply (rule logs_bindE [OF create_job_phase])
     apply (rule logs_bindE [where R = "\<lambda>_ l. phase_at ns name ph l \<and> job_created (set l)"], rule logs_gets, assumption)
     apply (rule logs_bindE [OF moved_phase])
       apply (use assms(3) in \<open>auto intro: backup_step.started\<close>)[2]
     apply (rule logs_ret, assumption)
    apply (rule logs_ret, simp)
    done
  done

lemma backupPoll_phase:
  "logs (phase_at ns name BkRunning) (backupPoll (logging k) b) (\<lambda>_. phase_ok ns name) (\<lambda>_. phase_ok ns name)"
  unfolding backupPoll_def logging_kinds
  apply (rule logs_bindE [where R = "\<lambda>r l. phase_at ns name BkRunning l \<and> (\<forall>j. r = Some j \<longrightarrow> (\<exists>n m. EvGot n m (OJob j) \<in> set l))"])
   apply (rule logs_found_or_none, rule log_rules; auto simp: phase_rule_def backup_read_insert)
  apply (intro logs_case_option logs_if complete_phase logs_ret; auto intro: backup_step.intros)
  done

lemma backupDelete_phase:
  assumes "status_store (r_status_update (k_backup k))" and "bk_phase b = ph"
  shows "logs (phase_at ns name ph) (backupDelete (logging k) C b) (\<lambda>_. phase_ok ns name) (\<lambda>_. phase_ok ns name)"
  unfolding backupDelete_def releaseBackup_def Let_def logging_kinds k_lib_logging
  apply (rule logs_if, rule logs_ret, simp)
  apply (rule logs_bindE [OF resume_phase [OF assms]])
  subgoal for r
    apply (cases r; simp only: resume_result.case)
     apply (rule logs_ret, simp)
    subgoal for b'
      apply (rule logs_if)
       apply (rule phase_idle, (intro only_rules only_calls; simp add: no_backup_status_def), blast)
      apply (rule logs_bindE [where R = "\<lambda>_ l. phase_at ns name ph l \<and> bk_phase b' = ph"])
       apply (rule logs_found_or_none, rule log_rules; simp add: phase_rule_def backup_read_insert)
      apply (rule logs_case_option, rule logs_fact)
       apply (rule logs_bindE [where R = "\<lambda>_. phase_at ns name ph"], rule logs_liftE, simp, simp)
       apply (rule logs_bindE [OF create_job_phase])
       apply (rule logs_bindE [OF moved_phase])
         apply (auto intro: backup_step.pruning)[2]
       apply (rule logs_ret, assumption)
      apply (rule phase_idle, (intro only_rules only_calls; simp add: no_backup_status_def), blast)
      done
    done
  done

lemma enforceRetention_status: "only no_backup_status (enforceRetention (logging k) b)"
  unfolding enforceRetention_def logging_kinds Let_def
  by (intro only_rules only_calls; simp add: no_backup_status_def)

lemma reconcile_rest_phase:
  assumes "status_store (r_status_update (k_backup k))" and "bk_phase b = ph"
  shows "logs (phase_at ns name ph)
     (bindE (resume (logging k) C b) (\<lambda>rr. case rr of Pending d \<Rightarrow> ret d | Settled b' \<Rightarrow> enforceRetention (logging k) b'))
     (\<lambda>_. phase_ok ns name) (\<lambda>_. phase_ok ns name)"
  apply (rule logs_bindE [OF resume_phase [OF assms]])
  subgoal for rr
    by (cases rr; simp only: resume_result.case; rule phase_idle [where ph = ph])
      (auto intro: only_ret enforceRetention_status)
  done

text \<open>
  C5: against any cluster in which a status write stores what it is given, every status the controller
  writes is a step of the phase machine from the phase it read in the same pass: \<open>Running\<close> is written
  only after a Job was asked for, \<open>Completed\<close> only from \<open>Running\<close> after reading a Job that succeeded,
  and \<open>Deleting\<close> only after the cleanup Job was asked for.
\<close>

theorem backupReconcile_phases:
  assumes "status_store (r_status_update (k_backup k))"
  shows "guarded (phase_rule ns name) (trace (backupReconcile (logging k) C ns name) w)"
proof (rule trace_guarded)
  show "logs (phase_ok ns name) (backupReconcile (logging k) C ns name) (\<lambda>_. phase_ok ns name) (\<lambda>_. phase_ok ns name)"
    unfolding backupReconcile_def logging_kinds k_lib_logging
    apply (rule logs_bindE [where R = "\<lambda>r l. phase_ok ns name l \<and> (\<forall>b. r = Some b \<longrightarrow> backup_read ns name (bk_phase b) (set l))"])
     apply (rule logs_found_or_none, rule log_rules; auto simp: phase_rule_def backup_read_def)
    apply (rule logs_case_option, rule logs_ret, simp)
    subgoal for r b
      apply (simp only: option.inject simp_thms)
      apply (rule logs_pre [where P' = "phase_at ns name (bk_phase b)"])
       apply (rule logs_if, rule backupDelete_phase [OF assms refl])
       apply (rule logs_if, rule phase_idle, (intro only_rules only_calls; simp add: no_backup_status_def), blast)
       apply (cases "bk_phase b"; simp only: backup_phase.case)
            apply (intro backupStart_phase backupPoll_phase reconcile_rest_phase assms; simp)+
      apply simp
      done
    done
qed

text \<open>
  Whatever number of such writes follow one another, a failed backup stays failed, and a completed
  one is never run again: it stays completed or is being deleted.
\<close>

theorem backup_phase_final:
  "(backup_step\<^sup>*\<^sup>* BkFailed p \<longleftrightarrow> p = BkFailed) \<and>
   (backup_step\<^sup>*\<^sup>* BkCompleted p \<longleftrightarrow> p = BkCompleted \<or> p = BkDeleting)"
  by (auto dest: backup_step_reachable intro: backup_step.pruning)

section \<open>Concrete instances\<close>

text \<open>The properties applied to concrete objects, where their hypotheses hold.\<close>

theorem quiesceWait_bounded_witness:
  "\<exists>wait. quiesceWait empty_egg_backup 0 0 False = Inr wait \<and> 0 < wait"
proof -
  have "case quiesceWait empty_egg_backup 0 0 False of Inr _ \<Rightarrow> True | _ \<Rightarrow> False" by code_simp
  then obtain wait where "quiesceWait empty_egg_backup 0 0 False = Inr wait" by (auto split: sum.splits)
  with quiesceWait_bounded [of 0 empty_egg_backup 0 False] show ?thesis by (auto simp: Let_def)
qed

definition paused_backup :: backup where
  "paused_backup = ex_backup\<lparr>bk_status := (bk_status ex_backup)\<lparr>bst_phase := BkCompleted, bst_quiesce :=
     Some \<lparr>qs_pod_uid = ''p'', qs_before_sent_at = Some 0, qs_resumed_at = None, qs_resume_attempts = 1\<rparr>\<rparr>\<rparr>"

definition resume_k8s :: "unit k8s" where
  "resume_k8s = absent_k8s\<lparr>
     k_gs := accept_rest\<lparr>r_get := (\<lambda>_ _. ret (ex_gs\<lparr>gs_status := (gs_status ex_gs)\<lparr>gst_pod_name := ''mc''\<rparr>\<rparr>))\<rparr>,
     k_egg := accept_rest\<lparr>r_get := (\<lambda>_ _. ret (ex_egg\<lparr>egg_spec := (egg_spec ex_egg)\<lparr>es_backup :=
       Some (empty_egg_backup\<lparr>eb_after := [''save-on'']\<rparr>)\<rparr>\<rparr>))\<rparr>,
     k_pod := accept_rest\<lparr>r_get := (\<lambda>_ _. ret (ex_pod\<lparr>pod_meta := (pod_meta ex_pod)\<lparr>om_uid := ''p''\<rparr>\<rparr>))\<rparr>,
     k_backup := accept_rest, k_exec := (\<lambda>_ _ _ _. throw (MsgErr (Msg ''exec failed'' [])))\<rparr>"

theorem resume_bounded_witness:
  "\<exists>d. fst (resume resume_k8s \<lparr>bc_exec = True, bc_logs = True\<rparr> paused_backup ()) = Inr (Pending d) \<and> d \<le> 40 * second"
proof -
  let ?m = "resume resume_k8s \<lparr>bc_exec = True, bc_logs = True\<rparr> paused_backup ()"
  have "case fst ?m of Inr (Pending d) \<Rightarrow> True | _ \<Rightarrow> False" by code_simp
  then obtain d where d: "fst ?m = Inr (Pending d)" by (auto split: sum.splits resume_result.splits)
  then have m: "?m = (Inr (Pending d), ())" by (metis prod.collapse old.unit.exhaust)
  from resume_bounded [OF m] d show ?thesis by (auto simp: duration_defs)
qed

theorem backupReconcile_phases_witness:
  "guarded (phase_rule ''hatchery-acme'' ''mc-1'') (trace (backupReconcile (logging resume_k8s) \<lparr>bc_exec = True, bc_logs = True\<rparr>
     ''hatchery-acme'' ''mc-1'') ())"
proof (rule backupReconcile_phases)
  show "status_store (r_status_update (k_backup resume_k8s))"
    by (simp add: resume_k8s_def accept_status.status_store_axioms)
qed

end
