(* ===== verification/Restore_Controller.thy ===== *)
theory Restore_Controller
  imports Backup_Controller
begin

text \<open>
  \<open>internal/controller/gameserverrestore_controller.go\<close>: a restore's phases and the annotation that
  keeps its target from being started meanwhile. The messages that are only logged are left out.
\<close>

section \<open>The annotation\<close>

definition restoring_meta :: "object_meta \<Rightarrow> bool" where
  "restoring_meta m \<longleftrightarrow> sget (om_annotations m) RestoringAnnotation = ''true''"

definition withRestoring :: "gameserver \<Rightarrow> bool \<Rightarrow> gameserver" where
  "withRestoring gs restoring = gs\<lparr>gs_meta := (gs_meta gs)\<lparr>om_annotations :=
     (if restoring then (om_annotations (gs_meta gs))(RestoringAnnotation \<mapsto> ''true'')
      else (om_annotations (gs_meta gs))(RestoringAnnotation := None))\<rparr>\<rparr>"

definition setRestoringAnnotation :: "'w k8s \<Rightarrow> string \<Rightarrow> string \<Rightarrow> bool \<Rightarrow> ('w, unit) io" where
  "setRestoringAnnotation k ns gsName restoring =
     bindE (found_or_none (r_get (k_gs k) ns gsName)) (\<lambda>r. case r of None \<Rightarrow> ret ()
     | Some gs \<Rightarrow>
       if restoring_meta (gs_meta gs) = restoring then ret ()
       else thenE (r_update (k_gs k) (withRestoring gs restoring)) (ret ()))"

section \<open>The Job and the phases\<close>

definition restoreComplete :: "'w k8s \<Rightarrow> restore \<Rightarrow> restore_phase \<Rightarrow> ('w, duration) io" where
  "restoreComplete k r phase =
     thenE (wrapE ''releasing target gameserver lock: ''
         (setRestoringAnnotation k (om_namespace (rs_meta r)) (rss_gameserver (rs_spec r)) False))
     (bindE (gets (k_now k)) (\<lambda>now.
     bindE (r_status_update (k_restore k)
         (r\<lparr>rs_status := (rs_status r)\<lparr>rst_phase := phase, rst_completion := Some now\<rparr>\<rparr>)) (\<lambda>r1.
       if lib_contains_finalizer (k_lib k) (rs_meta r1) GameServerRestoreFinalizer then
         thenE (r_update (k_restore k)
             (r1\<lparr>rs_meta := lib_remove_finalizer (k_lib k) (rs_meta r1) GameServerRestoreFinalizer\<rparr>)) (ret 0)
       else ret 0)))"

definition restoreStart :: "'w k8s \<Rightarrow> restore \<Rightarrow> ('w, duration) io" where
  "restoreStart k r =
     (let ns = om_namespace (rs_meta r); pvcName = rss_gameserver (rs_spec r) in
      bindE (found_or_none (r_get (k_backup k) ns (rss_backup (rs_spec r)))) (\<lambda>rb. case rb of
        None \<Rightarrow> restoreComplete k r RsFailed
      | Some bkp \<Rightarrow>
      bindE (found_or_none (r_get (k_pvc k) ns pvcName)) (\<lambda>rp. case rp of
        None \<Rightarrow> restoreComplete k r RsFailed
      | Some _ \<Rightarrow>
      thenE (wrapE ''locking target gameserver: '' (setRestoringAnnotation k ns (rss_gameserver (rs_spec r)) True))
      (bindE (volumeAffinity k ns pvcName) (\<lambda>aff.
        let j = RestoreJob r (bks_s3 (bk_spec bkp)) (om_name (bk_meta bkp)) pvcName aff in
        bindE (liftE (lib_set_controller (k_lib k) (rs_meta r) (job_meta j))) (\<lambda>m.
        thenE (wrapE ''creating restore job: '' (ignoring is_already_exists (r_create (k_job k) (j\<lparr>job_meta := m\<rparr>))))
        (bindE (gets (k_now k)) (\<lambda>now.
          thenE (r_status_update (k_restore k) (r\<lparr>rs_status := (rs_status r)\<lparr>rst_phase := RsRunning,
              rst_job_name := om_name (job_meta j), rst_start := Some now\<rparr>\<rparr>))
            (ret backupJobPollInterval)))))))))"

definition restorePoll :: "'w k8s \<Rightarrow> restore \<Rightarrow> ('w, duration) io" where
  "restorePoll k r =
     bindE (found_or_none (r_get (k_job k) (om_namespace (rs_meta r)) (rst_job_name (rs_status r)))) (\<lambda>rj. case rj of
       None \<Rightarrow> restoreComplete k r RsFailed
     | Some j \<Rightarrow>
         if job_succeeded j > 0 then restoreComplete k r RsCompleted
         else if job_failed j > 0 \<and> jobIsFinished j then restoreComplete k r RsFailed
         else ret backupJobPollInterval)"

definition restoreDelete :: "'w k8s \<Rightarrow> restore \<Rightarrow> ('w, duration) io" where
  "restoreDelete k r =
     (if \<not> lib_contains_finalizer (k_lib k) (rs_meta r) GameServerRestoreFinalizer then ret 0
      else thenE (wrapE ''releasing target gameserver lock: ''
          (setRestoringAnnotation k (om_namespace (rs_meta r)) (rss_gameserver (rs_spec r)) False))
        (thenE (r_update (k_restore k)
          (r\<lparr>rs_meta := lib_remove_finalizer (k_lib k) (rs_meta r) GameServerRestoreFinalizer\<rparr>)) (ret 0)))"

definition restoreReconcile :: "'w k8s \<Rightarrow> string \<Rightarrow> string \<Rightarrow> ('w, duration) io" where
  "restoreReconcile k ns name =
     bindE (found_or_none (r_get (k_restore k) ns name)) (\<lambda>rr. case rr of None \<Rightarrow> ret 0
     | Some r \<Rightarrow>
       if is_deleting (rs_meta r) then restoreDelete k r
       else if \<not> lib_contains_finalizer (k_lib k) (rs_meta r) GameServerRestoreFinalizer then
         thenE (wrapE ''adding finalizer: '' (r_update (k_restore k)
           (r\<lparr>rs_meta := lib_add_finalizer (k_lib k) (rs_meta r) GameServerRestoreFinalizer\<rparr>))) (ret 0)
       else (case rst_phase (rs_status r) of
           RsUnset \<Rightarrow> restoreStart k r
         | RsPending \<Rightarrow> restoreStart k r
         | RsRunning \<Rightarrow> restorePoll k r
         | _ \<Rightarrow> ret 0))"

section \<open>The lock around the Job\<close>

text \<open>What the log shows of the target: held, released, or no such GameServer.\<close>

definition gs_gone :: "string \<Rightarrow> string \<Rightarrow> event set \<Rightarrow> bool" where
  "gs_gone ns gsName S \<longleftrightarrow> EvGetFailed ns gsName True \<in> S"

definition gs_lock_seen :: "bool \<Rightarrow> string \<Rightarrow> string \<Rightarrow> event set \<Rightarrow> bool" where
  "gs_lock_seen held ns gsName S \<longleftrightarrow> gs_gone ns gsName S \<or>
     (\<exists>gs. EvGot ns gsName (OGs gs) \<in> S \<and>
        (restoring_meta (gs_meta gs) = held \<or> EvUpdate (OGs (withRestoring gs held)) True \<in> S))"

lemma restoring_withRestoring [simp]: "restoring_meta (gs_meta (withRestoring gs held)) = held"
  by (simp add: restoring_meta_def withRestoring_def)

text \<open>After the annotation was set or cleared, the log shows it; only the target was written.\<close>

definition lock_call :: "event \<Rightarrow> bool" where
  "lock_call e \<longleftrightarrow> (\<forall>x ok. e \<noteq> EvCreate x ok \<and> e \<noteq> EvStatusUpdate x ok)"

lemma setRestoring_logs:
  assumes "\<And>S e. lock_call e \<Longrightarrow> H S \<Longrightarrow> G S e" and "\<And>S e. H S \<Longrightarrow> H (insert e S)"
  shows "logs (\<lambda>l. guarded G l \<and> H (set l)) (wrapE s (setRestoringAnnotation (logging k) ns n held))
    (\<lambda>_ l. guarded G l \<and> H (set l) \<and> gs_lock_seen held ns n (set l)) (\<lambda>_. guarded G)"
  unfolding setRestoringAnnotation_def logging_kinds
  apply (rule logs_wrapE, rule logs_bindE [where R = "\<lambda>r l. guarded G l \<and> H (set l) \<and>
      (case r of None \<Rightarrow> gs_gone ns n (set l) | Some gs \<Rightarrow> EvGot ns n (OGs gs) \<in> set l)"])
   apply (rule logs_found_or_none, rule log_rules; simp add: assms gs_gone_def lock_call_def)
  apply (rule logs_case_option, rule logs_ret, simp add: gs_lock_seen_def)
  subgoal for gs
    apply (rule logs_if, rule logs_ret, force simp: gs_lock_seen_def)
    apply (rule logs_bindE [where R = "\<lambda>_ l. guarded G l \<and> H (set l) \<and> gs_lock_seen held ns n (set l)"])
     apply (rule log_rules; auto simp: assms lock_call_def gs_lock_seen_def)
    apply (rule logs_ret, simp)
    done
  done

text \<open>
  A Job is asked for only with the lock seen; a terminal phase is written only with the lock seen
  released after it was held.
\<close>

definition restore_write :: "restore \<Rightarrow> event set \<Rightarrow> event \<Rightarrow> bool" where
  "restore_write r before e \<longleftrightarrow>
     (\<forall>j ok. e = EvCreate (OJob j) ok \<longrightarrow>
        gs_lock_seen True (om_namespace (rs_meta r)) (rss_gameserver (rs_spec r)) before) \<and>
     (\<forall>r' ok. e = EvStatusUpdate (ORestore r') ok \<longrightarrow>
        (rst_phase (rs_status r') = RsRunning \<and> rst_phase (rs_status r) \<in> {RsUnset, RsPending} \<and>
           gs_lock_seen True (om_namespace (rs_meta r)) (rss_gameserver (rs_spec r)) before \<and>
           (\<exists>j ok. EvCreate (OJob j) ok \<in> before)) \<or>
        (rst_phase (rs_status r') = RsFailed \<and> rst_phase (rs_status r) \<in> {RsUnset, RsPending, RsRunning} \<and>
           gs_lock_seen False (om_namespace (rs_meta r)) (rss_gameserver (rs_spec r)) before) \<or>
        (rst_phase (rs_status r') = RsCompleted \<and> rst_phase (rs_status r) = RsRunning \<and>
           gs_lock_seen False (om_namespace (rs_meta r)) (rss_gameserver (rs_spec r)) before \<and>
           (\<exists>j. EvGot (om_namespace (rs_meta r)) (rst_job_name (rs_status r)) (OJob j) \<in> before \<and> job_succeeded j > 0)))"

definition restore_rule :: "string \<Rightarrow> string \<Rightarrow> event set \<Rightarrow> event \<Rightarrow> bool" where
  "restore_rule ns name before e \<longleftrightarrow>
     (\<exists>j ok. e = EvCreate (OJob j) ok) \<or> (\<exists>r' ok. e = EvStatusUpdate (ORestore r') ok) \<longrightarrow>
     (\<exists>r. EvGot ns name (ORestore r) \<in> before \<and> restore_write r before e)"

abbreviation restore_ok :: "string \<Rightarrow> string \<Rightarrow> event list \<Rightarrow> bool" where
  "restore_ok ns name \<equiv> guarded (restore_rule ns name)"

lemma restore_quiet:
  assumes "only lock_call m" and "\<And>l. P l \<Longrightarrow> restore_ok ns name l"
  shows "logs P m (\<lambda>_. restore_ok ns name) (\<lambda>_. restore_ok ns name)"
  by (rule logs_pre [OF logs_guarded_only [OF assms(1)]]) (auto simp: restore_rule_def lock_call_def assms(2))

lemma restore_quiet_since:
  assumes "only lock_call m" and "\<And>S e. H S \<Longrightarrow> H (insert e S)"
  shows "logs (\<lambda>l. restore_ok ns name l \<and> H (set l)) m
     (\<lambda>_ l. restore_ok ns name l \<and> H (set l)) (\<lambda>_. restore_ok ns name)"
  by (rule logs_post [OF logs_guarded_since [OF assms(1), where H = H]])
    (auto simp: restore_rule_def lock_call_def assms(2))

lemma restoreComplete_logs:
  assumes "phase = RsFailed \<and> rst_phase (rs_status r) \<in> {RsUnset, RsPending, RsRunning} \<or>
      phase = RsCompleted \<and> rst_phase (rs_status r) = RsRunning"
    and "\<And>S e. H S \<Longrightarrow> H (insert e S)"
    and "\<And>S. H S \<Longrightarrow> EvGot ns name (ORestore r) \<in> S"
    and "\<And>S. phase = RsCompleted \<Longrightarrow> H S \<Longrightarrow>
      \<exists>j. EvGot (om_namespace (rs_meta r)) (rst_job_name (rs_status r)) (OJob j) \<in> S \<and> job_succeeded j > 0"
  shows "logs (\<lambda>l. restore_ok ns name l \<and> H (set l)) (restoreComplete (logging k) r phase)
     (\<lambda>_. restore_ok ns name) (\<lambda>_. restore_ok ns name)"
  unfolding restoreComplete_def logging_kinds k_lib_logging
  apply (rule logs_bindE [OF setRestoring_logs [where H = H]])
    apply (simp add: restore_rule_def lock_call_def)
   apply (rule assms(2), assumption)
  apply (rule logs_bindE [where R = "\<lambda>_ l. restore_ok ns name l \<and> H (set l) \<and>
      gs_lock_seen False (om_namespace (rs_meta r)) (rss_gameserver (rs_spec r)) (set l)"], rule logs_gets, assumption)
  apply (rule logs_bindE [where R = "\<lambda>_. restore_ok ns name"])
   apply (rule log_rules; use assms(1) in \<open>force simp: restore_rule_def restore_write_def dest: assms(3,4)\<close>)
  apply (rule restore_quiet, intro only_rules only_calls; simp add: lock_call_def)
  done

lemma volumeAffinity_lock: "only lock_call (volumeAffinity (logging k) ns n)"
  unfolding volumeAffinity_def NodeAffinity_def logging_kinds Let_def
  by (intro only_rules only_calls; simp add: lock_call_def)

abbreviation restore_from :: "string \<Rightarrow> string \<Rightarrow> restore \<Rightarrow> event list \<Rightarrow> bool" where
  "restore_from ns name r l \<equiv> guarded (restore_rule ns name) l \<and> EvGot ns name (ORestore r) \<in> set l"

lemma restore_got:
  "logs (restore_from ns name r) (found_or_none (r_get (log_rest I R) n m))
     (\<lambda>x l. restore_from ns name r l \<and> (\<forall>y. x = Some y \<longrightarrow> EvGot n m (I y) \<in> set l)) (\<lambda>_. restore_ok ns name)"
  by (rule logs_found_or_none, rule log_rules) (auto simp: restore_rule_def)

lemma restoreStart_logs:
  assumes "rst_phase (rs_status r) \<in> {RsUnset, RsPending}"
  shows "logs (restore_from ns name r) (restoreStart (logging k) r) (\<lambda>_. restore_ok ns name) (\<lambda>_. restore_ok ns name)"
proof -
  let ?n = "om_namespace (rs_meta r)" and ?m = "rss_gameserver (rs_spec r)"
  let ?H = "\<lambda>S. EvGot ns name (ORestore r) \<in> S" and ?L = "\<lambda>S. gs_lock_seen True ?n ?m S \<and> EvGot ns name (ORestore r) \<in> S"
  have fail: "logs P (restoreComplete (logging k) r RsFailed) (\<lambda>_. restore_ok ns name) (\<lambda>_. restore_ok ns name)"
    if "\<And>l. P l \<Longrightarrow> restore_from ns name r l" for P
    by (rule logs_pre [OF restoreComplete_logs [where H = ?H and ns = ns and name = name]])
      (use assms that in \<open>auto simp: gs_gone_def\<close>)
  show ?thesis
    unfolding restoreStart_def Let_def logging_kinds k_lib_logging
    apply (rule logs_bindE [OF restore_got], rule logs_case_option, rule fail, blast)
    apply (rule logs_bindE [where R = "\<lambda>_. restore_from ns name r"])
     apply (rule logs_pre [OF logs_post [OF restore_got]]; blast)
    apply (rule logs_case_option, rule fail, blast)
    apply (rule logs_bindE [OF setRestoring_logs [where H = ?H]])
      apply (simp add: restore_rule_def lock_call_def)
     apply simp
    apply (rule logs_bindE [where R = "\<lambda>_ l. restore_ok ns name l \<and> ?L (set l)"])
     apply (rule logs_pre [OF restore_quiet_since [where H = ?L, OF volumeAffinity_lock]])
      apply (auto simp: gs_lock_seen_def gs_gone_def)[2]
    apply (rule logs_bindE [where R = "\<lambda>_ l. restore_ok ns name l \<and> ?L (set l)"], rule logs_liftE, simp, simp)
    apply (rule logs_bindE [where R = "\<lambda>_ l. restore_ok ns name l \<and> ?L (set l) \<and> job_created (set l)"])
     apply (rule logs_wrapE, rule logs_ignoring, rule log_rules)
      apply (force simp: restore_rule_def restore_write_def job_created_def gs_lock_seen_def gs_gone_def)
     apply (force simp: restore_rule_def restore_write_def job_created_def gs_lock_seen_def gs_gone_def)
    apply (rule logs_bindE [where R = "\<lambda>_ l. restore_ok ns name l \<and> ?L (set l) \<and> job_created (set l)"], rule logs_gets, assumption)
    apply (rule logs_bindE [where R = "\<lambda>_. restore_ok ns name"])
     apply (rule log_rules; use assms in \<open>force simp: restore_rule_def restore_write_def job_created_def\<close>)
    apply (rule logs_ret, assumption)
    done
qed

lemma restorePoll_logs:
  assumes "rst_phase (rs_status r) = RsRunning"
  shows "logs (restore_from ns name r) (restorePoll (logging k) r) (\<lambda>_. restore_ok ns name) (\<lambda>_. restore_ok ns name)"
proof -
  let ?J = "\<lambda>j S. EvGot ns name (ORestore r) \<in> S \<and> EvGot (om_namespace (rs_meta r)) (rst_job_name (rs_status r)) (OJob j) \<in> S"
  have fail: "logs P (restoreComplete (logging k) r RsFailed) (\<lambda>_. restore_ok ns name) (\<lambda>_. restore_ok ns name)"
    if "\<And>l. P l \<Longrightarrow> restore_from ns name r l" for P
    by (rule logs_pre [OF restoreComplete_logs [where H = "\<lambda>S. EvGot ns name (ORestore r) \<in> S" and ns = ns and name = name]])
      (use assms that in auto)
  show ?thesis
    unfolding restorePoll_def logging_kinds
    apply (rule logs_bindE [OF restore_got], rule logs_case_option, rule fail, blast)
    subgoal for rj j
      apply (rule logs_if, rule logs_pre [OF restoreComplete_logs [where H = "?J j" and ns = ns and name = name]])
          apply (use assms in auto)[5]
      apply (rule logs_if, rule fail, blast, rule logs_ret, simp)
      done
    done
qed


section \<open>Two restores of one server\<close>

text \<open>A cluster that is one GameServer and the restores of its namespace.\<close>

type_synonym lock_world = "gameserver \<times> (string \<Rightarrow> restore option)"

definition lock_rest :: "(restore, lock_world) rest" where
  "lock_rest = accept_rest\<lparr>
     r_get := (\<lambda>ns n (g, m). case m n of None \<Rightarrow> (Inl (ApiErr ENotFound), (g, m)) | Some r \<Rightarrow> (Inr r, (g, m))),
     r_update := (\<lambda>r (g, m). (Inr r, (g, m(om_name (rs_meta r) \<mapsto> r)))),
     r_status_update := (\<lambda>r (g, m). (Inr r, (g, m(om_name (rs_meta r) \<mapsto> r))))\<rparr>"

definition lock_gs_rest :: "(gameserver, lock_world) rest" where
  "lock_gs_rest = accept_rest\<lparr>r_get := (\<lambda>ns n (g, m). (Inr g, (g, m))), r_update := (\<lambda>g' (g, m). (Inr g', (g', m)))\<rparr>"

definition lock_k8s :: "lock_world k8s" where
  "lock_k8s = absent_k8s\<lparr>k_gs := lock_gs_rest, k_restore := lock_rest\<rparr>"

text \<open>\<open>mc-old\<close> completed and gave up its finalizer; \<open>mc-new\<close> is running and holds the lock.\<close>

definition lock_start :: lock_world where
  "lock_start = (withRestoring ex_gs True, Map.empty(
     ''mc-old'' \<mapsto> ex_restore\<lparr>rs_meta := new_meta ''mc-old'' ''hatchery-acme'',
        rs_status := (rs_status ex_restore)\<lparr>rst_phase := RsCompleted\<rparr>\<rparr>,
     ''mc-new'' \<mapsto> ex_restore\<lparr>rs_meta := (rs_meta ex_restore)\<lparr>om_name := ''mc-new''\<rparr>,
        rs_status := (rs_status ex_restore)\<lparr>rst_phase := RsRunning\<rparr>\<rparr>))"

text \<open>A \<open>kubectl delete\<close>: the object stays until its finalizers are gone.\<close>

definition mark_deleted :: "string \<Rightarrow> lock_world \<Rightarrow> lock_world" where
  "mark_deleted n w = (fst w, case snd w n of None \<Rightarrow> snd w
     | Some r \<Rightarrow> (snd w)(n \<mapsto> r\<lparr>rs_meta := (rs_meta r)\<lparr>om_deletion := Some 0\<rparr>\<rparr>))"

definition lock_after :: lock_world where
  "lock_after =
     snd (restoreReconcile lock_k8s ''hatchery-acme'' ''mc-old'' (mark_deleted ''mc-old''
       (snd (restoreReconcile lock_k8s ''hatchery-acme'' ''mc-old'' lock_start))))"

text \<open>
  The lock does not belong to the restore that took it: a completed restore gets its finalizer back
  on the next pass, and deleting it then clears the annotation that a second, running restore of the
  same server relies on.
\<close>

theorem restore_lock_stolen:
  "restoring_meta (gs_meta (fst lock_start)) \<and>
   map_option (\<lambda>r. rst_phase (rs_status r)) (snd lock_after ''mc-new'') = Some RsRunning \<and>
   \<not> restoring_meta (gs_meta (fst lock_after))"
  by code_simp

end
