(* ===== verification/Gateway_Exposure.thy ===== *)
theory Gateway_Exposure
  imports GameServer_Controller
begin

text \<open>
  \<open>internal/controller/publicexposure.go\<close> and \<open>gatewayexposure_controller.go\<close>: the pool of public
  ports, the routes of an exposed GameServer and the listeners of the shared Gateway. Port numbers are
  \<open>int\<close>: the range comes from \<open>parsePublicPortRange\<close>, which keeps it within 1 to 65535, so the
  \<open>int32\<close> counter of the scan never wraps.
\<close>

record 'w gateway_config =
  gx_reader :: "(gameserver, 'w) rest option" \<comment> \<open>\<open>APIReader\<close>\<close>
  gx_min :: int
  gx_max :: int
  gx_host :: string
  gx_name :: string
  gx_namespace :: string
  gx_class :: string

definition reader :: "'w k8s \<Rightarrow> 'w gateway_config \<Rightarrow> (gameserver, 'w) rest" where
  "reader k C = (case gx_reader C of Some R \<Rightarrow> R | None \<Rightarrow> k_gs k)"

section \<open>The pool\<close>

function allocatePublicPort :: "int \<Rightarrow> int \<Rightarrow> int set \<Rightarrow> int option" where
  "allocatePublicPort p hi used =
     (if p \<le> hi then (if p \<notin> used then Some p else allocatePublicPort (p + 1) hi used) else None)"
  by pat_completeness auto
termination by (relation "measure (\<lambda>(p, hi, used). nat (hi + 1 - p))") auto

declare allocatePublicPort.simps [simp del]

definition exposedPorts :: "gameserver \<Rightarrow> exposure_port list" where
  "exposedPorts gs = ex_ports (gst_exposure (gs_status gs))"

definition portsOf :: "gameserver list \<Rightarrow> int list" where
  "portsOf items = concat (map (\<lambda>gs. map xs_port (exposedPorts gs)) items)"

definition usedPublicPorts :: "(gameserver, 'w) rest \<Rightarrow> ('w, int set) io" where
  "usedPublicPorts R = bindE (wrapE ''listing GameServers: '' (r_list R None [])) (\<lambda>items. ret (set (portsOf items)))"

text \<open>The loop over the ports without a public one: \<open>False\<close> when the pool ran out on the way.\<close>

fun allocateMissing :: "int \<Rightarrow> int \<Rightarrow> int set \<Rightarrow> egg_port list \<Rightarrow> exposure_port list \<Rightarrow> bool \<Rightarrow>
    exposure_port list \<times> bool \<times> bool" where
  "allocateMissing lo hi used [] ps changed = (ps, changed, True)"
| "allocateMissing lo hi used (ep # eps) ps changed = (case allocatePublicPort lo hi used of
     None \<Rightarrow> (ps, changed, False)
   | Some port \<Rightarrow> allocateMissing lo hi (insert port used) eps (ps @ [\<lparr>xs_name = ep_name ep, xs_port = port\<rparr>]) True)"

section \<open>Routes\<close>

definition routeName :: "gameserver \<Rightarrow> egg_port \<Rightarrow> string" where
  "routeName gs p = om_name (gs_meta gs) @ ''-'' @ ep_name p"

definition mutateRoute :: "klib \<Rightarrow> 'w gateway_config \<Rightarrow> gameserver \<Rightarrow> egg_port \<Rightarrow> route \<Rightarrow> go_err + route" where
  "mutateRoute L C gs p r = (case lib_set_controller L (gs_meta gs) (rt_meta r) of
     Inl e \<Rightarrow> Inl e
   | Inr m \<Rightarrow> Inr (r\<lparr>rt_meta := m, rt_gateway := (gx_name C, gx_namespace C), rt_section := routeName gs p,
        rt_backend := (om_name (gs_meta gs), ep_container_port p)\<rparr>))"

definition emptyRoute :: "string \<Rightarrow> string \<Rightarrow> route" where
  "emptyRoute name ns = \<lparr>rt_meta = new_meta name ns, rt_gateway = ([], []), rt_section = [], rt_backend = ([], 0)\<rparr>"

definition applyRoutes :: "'w k8s \<Rightarrow> 'w gateway_config \<Rightarrow> gameserver \<Rightarrow> egg \<Rightarrow> ('w, unit) io" where
  "applyRoutes k C gs e = forE (\<lambda>p.
     let r = emptyRoute (routeName gs p) (om_namespace (gs_meta gs)) in
     if ep_protocol p = UDP then
       wrapE ''reconciling UDPRoute %s: '' (r_ensure (k_udp k) r (mutateRoute (k_lib k) C gs p))
     else wrapE ''reconciling TCPRoute %s: '' (r_ensure (k_tcp k) r (mutateRoute (k_lib k) C gs p)))
   (EffectivePorts e gs)"

text \<open>\<open>keep\<close> is the empty set where the source passes nil.\<close>

definition pruneKind :: "klib \<Rightarrow> (route, 'w) rest \<Rightarrow> gameserver \<Rightarrow> string set \<Rightarrow> route list \<Rightarrow> ('w, unit) io" where
  "pruneKind L R gs keep = forE (\<lambda>r.
     if om_name (rt_meta r) \<in> keep \<or> \<not> lib_is_controlled_by L (rt_meta r) (gs_meta gs) then ret ()
     else wrapE ''deleting stale route %s: '' (ignoring is_not_found (r_delete R r)))"

definition pruneRoutes :: "'w k8s \<Rightarrow> gameserver \<Rightarrow> string set \<Rightarrow> ('w, unit) io" where
  "pruneRoutes k gs keep =
     bindE (r_list (k_tcp k) (Some (om_namespace (gs_meta gs))) []) (\<lambda>tcp.
     bindE (r_list (k_udp k) (Some (om_namespace (gs_meta gs))) []) (\<lambda>udp.
       thenE (pruneKind (k_lib k) (k_tcp k) gs keep tcp) (pruneKind (k_lib k) (k_udp k) gs keep udp)))"

section \<open>One GameServer\<close>

definition withExposure :: "gameserver \<Rightarrow> exposure_status \<Rightarrow> gameserver" where
  "withExposure gs x = gs\<lparr>gs_status := (gs_status gs)\<lparr>gst_exposure := x\<rparr>\<rparr>"

definition withConditions :: "gameserver \<Rightarrow> condition list \<Rightarrow> gameserver" where
  "withConditions gs cs = gs\<lparr>gs_status := (gs_status gs)\<lparr>gst_conditions := cs\<rparr>\<rparr>"

definition exposureCondition :: "klib \<Rightarrow> time \<Rightarrow> gameserver \<Rightarrow> cond_status \<Rightarrow> string \<Rightarrow> msg \<Rightarrow> bool \<times> gameserver" where
  "exposureCondition L now gs st reason m =
     (case lib_set_condition L now (gst_conditions (gs_status gs))
        (new_condition ConditionPublicExposureReady st reason m (om_generation (gs_meta gs))) of
      (cs, ch) \<Rightarrow> (ch, withConditions gs cs))"

definition setExposureDisabled :: "klib \<Rightarrow> time \<Rightarrow> gameserver \<Rightarrow> bool \<times> gameserver" where
  "setExposureDisabled L now gs =
     (if lib_find_condition L (gst_conditions (gs_status gs)) ConditionPublicExposureReady = None then (False, gs)
      else exposureCondition L now gs CondFalse ''Disabled'' (Msg ''public exposure is disabled'' []))"

text \<open>The ports that stay, those the Egg no longer declares dropped, and those without a public port.\<close>

definition keptPorts :: "gameserver \<Rightarrow> egg_port list \<Rightarrow> exposure_port list" where
  "keptPorts gs ports = filter (\<lambda>p. xs_name p \<in> ep_name ` set ports) (exposedPorts gs)"

definition missingPorts :: "gameserver \<Rightarrow> egg_port list \<Rightarrow> egg_port list" where
  "missingPorts gs ports = filter (\<lambda>p. ep_name p \<notin> xs_name ` set (keptPorts gs ports)) ports"

text \<open>The allocation: the ports, whether they changed, and whether the pool sufficed.\<close>

definition allocatePorts :: "'w k8s \<Rightarrow> 'w gateway_config \<Rightarrow> gameserver \<Rightarrow> egg_port list \<Rightarrow>
    ('w, exposure_port list \<times> bool \<times> bool) io" where
  "allocatePorts k C gs ports =
     (let kept = keptPorts gs ports; dropped = kept \<noteq> exposedPorts gs in
      if missingPorts gs ports = [] then ret (kept, dropped, True)
      else bindE (usedPublicPorts (reader k C)) (\<lambda>used.
        case allocateMissing (gx_min C) (gx_max C) used (missingPorts gs ports) kept dropped of (ps, changed, enough) \<Rightarrow>
          ret (if enough then sort_key xs_name ps else ps, changed, enough)))"

definition reconcileOne :: "'w k8s \<Rightarrow> 'w gateway_config \<Rightarrow> gameserver \<Rightarrow> egg \<Rightarrow> ('w, bool \<times> gameserver) io" where
  "reconcileOne k C gs e =
     (if \<not> gss_exposure_enabled (gs_spec gs) then
        thenE (pruneRoutes k gs {}) (bindE (gets (k_now k)) (\<lambda>now.
          let changed = exposedPorts gs \<noteq> [] \<or> ex_host (gst_exposure (gs_status gs)) \<noteq> [];
              (ch, gs') = setExposureDisabled (k_lib k) now (withExposure gs no_exposure) in
          ret (ch \<or> changed, gs')))
      else
        let ports = EffectivePorts e gs; host = ex_host (gst_exposure (gs_status gs)) in
        bindE (allocatePorts k C gs ports) (\<lambda>(ps, changed, enough).
          if \<not> enough then bindE (gets (k_now k)) (\<lambda>now.
            let (cond, gs') = exposureCondition (k_lib k) now (withExposure gs \<lparr>ex_host = host, ex_ports = ps\<rparr>) CondFalse
                  ''PoolExhausted'' (Msg ''no public port is free in the configured range'' []) in
            ret (changed \<or> cond, gs'))
          else
            let gs1 = withExposure gs \<lparr>ex_host = gx_host C, ex_ports = ps\<rparr> in
            thenE (applyRoutes k C gs1 e)
            (thenE (pruneRoutes k gs1 (routeName gs1 ` set ports))
            (bindE (gets (k_now k)) (\<lambda>now.
              let (cond, gs') = exposureCondition (k_lib k) now gs1 CondTrue ''Allocated''
                    (Msg ''%d port(s) allocated'' [AInt (int (length ps))]) in
              ret (changed \<or> host \<noteq> gx_host C \<or> cond, gs'))))))"

section \<open>The shared Gateway\<close>

text \<open>The map by section name is kept as an association list with one entry per name.\<close>

definition allocatedPort :: "gameserver \<Rightarrow> string \<Rightarrow> int option" where
  "allocatedPort gs = map_of (rev (map (\<lambda>p. (xs_name p, xs_port p)) (exposedPorts gs)))"

definition portListener :: "gameserver \<Rightarrow> egg_port \<Rightarrow> int \<Rightarrow> listener" where
  "portListener gs ep port = \<lparr>ls_name = routeName gs ep, ls_port = port,
     ls_protocol = (if ep_protocol ep = ProtoUnset then TCP else ep_protocol ep)\<rparr>"

definition serverListeners :: "gameserver \<Rightarrow> egg \<Rightarrow> (string \<times> listener) list" where
  "serverListeners gs e = concat (map (\<lambda>ep. case allocatedPort gs (ep_name ep) of None \<Rightarrow> []
     | Some port \<Rightarrow> [(routeName gs ep, portListener gs ep port)]) (EffectivePorts e gs))"

definition addListeners :: "(string \<times> listener) list \<Rightarrow> (string \<times> listener) list \<Rightarrow> (string \<times> listener) list" where
  "addListeners new m = foldl (\<lambda>m (n, l). AList.update n l m) m new"

fun collectListeners :: "'w k8s \<Rightarrow> gameserver list \<Rightarrow> (string \<times> listener) list \<Rightarrow> ('w, (string \<times> listener) list) io" where
  "collectListeners k [] m = ret m"
| "collectListeners k (gs # items) m =
     (if \<not> gss_exposure_enabled (gs_spec gs) \<or> exposedPorts gs = [] then collectListeners k items m
      else bindE (attempt (r_get (k_egg k) (EggNamespace gs) (er_name (gss_egg_ref (gs_spec gs))))) (\<lambda>r. case r of
          Inl _ \<Rightarrow> collectListeners k items m
        | Inr e \<Rightarrow> collectListeners k items (addListeners (serverListeners gs e) m)))"

definition mutateGateway :: "string \<Rightarrow> listener list \<Rightarrow> gateway \<Rightarrow> go_err + gateway" where
  "mutateGateway cls ls g = Inr (g\<lparr>gw_class := cls, gw_listeners := ls\<rparr>)"

definition rebuildGateway :: "'w k8s \<Rightarrow> 'w gateway_config \<Rightarrow> ('w, unit) io" where
  "rebuildGateway k C =
     bindE (r_list (reader k C) None []) (\<lambda>items.
     bindE (collectListeners k items []) (\<lambda>byName.
       let listeners = map snd (sort_key fst byName);
           gw = \<lparr>gw_meta = new_meta (gx_name C) (gx_namespace C), gw_class = [], gw_listeners = []\<rparr> in
       if listeners = [] then ignoring is_not_found (r_delete (k_gw k) gw)
       else r_ensure (k_gw k) gw (mutateGateway (gx_class C) listeners)))"

section \<open>Reconcile\<close>

definition exposureReconcile :: "'w k8s \<Rightarrow> 'w gateway_config \<Rightarrow> string \<Rightarrow> string \<Rightarrow> ('w, unit) io" where
  "exposureReconcile k C ns name =
     bindE (found_or_none (r_get (k_gs k) ns name)) (\<lambda>rg. case rg of
       None \<Rightarrow> wrapE ''rebuilding shared Gateway after delete: '' (rebuildGateway k C)
     | Some gs \<Rightarrow>
       if is_deleting (gs_meta gs) then ret ()
       else bindE (found_or_none (r_get (k_egg k) (EggNamespace gs) (er_name (gss_egg_ref (gs_spec gs))))) (\<lambda>re. case re of
         None \<Rightarrow> ret ()
       | Some e \<Rightarrow>
         bindE (reconcileOne k C gs e) (\<lambda>(changed, gs').
         thenE (if changed then bindE (r_status_update (k_gs k) gs') (\<lambda>_. ret ()) else ret ())
         (wrapE ''rebuilding shared Gateway: '' (rebuildGateway k C)))))"

text \<open>The reconciler registered when no port range is configured.\<close>

definition unavailableReconcile :: "'w k8s \<Rightarrow> string \<Rightarrow> string \<Rightarrow> ('w, unit) io" where
  "unavailableReconcile k ns name =
     bindE (found_or_none (r_get (k_gs k) ns name)) (\<lambda>rg. case rg of
       None \<Rightarrow> ret ()
     | Some gs \<Rightarrow>
       if is_deleting (gs_meta gs) then ret ()
       else bindE (gets (k_now k)) (\<lambda>now.
         let (changed, gs') = (if gss_exposure_enabled (gs_spec gs)
               then exposureCondition (k_lib k) now gs CondFalse ''NotConfigured''
                 (Msg ''public exposure is not configured on this platform (operator started without --public-port-range)'' [])
               else setExposureDisabled (k_lib k) now gs) in
         if changed then bindE (r_status_update (k_gs k) gs') (\<lambda>_. ret ()) else ret ()))"

section \<open>The pool never hands out a port twice\<close>

lemma allocatePublicPort_Some:
  "allocatePublicPort p hi used = Some q \<longleftrightarrow> p \<le> q \<and> q \<le> hi \<and> q \<notin> used \<and> {p..<q} \<subseteq> used"
proof (induction p hi used rule: allocatePublicPort.induct)
  case (1 p hi used)
  have "{p..<q} = insert p {p + 1..<q}" if "p < q" using that by auto
  with 1 show ?case
    by (subst allocatePublicPort.simps) (cases "p < q"; cases "p \<in> used"; auto)
qed

lemma allocatePublicPort_None: "allocatePublicPort p hi used = None \<longleftrightarrow> {p..hi} \<subseteq> used"
proof (induction p hi used rule: allocatePublicPort.induct)
  case (1 p hi used)
  have "{p..hi} = insert p {p + 1..hi}" if "p \<le> hi" using that by auto
  with 1 show ?case by (subst allocatePublicPort.simps) auto
qed

text \<open>What an allocation appends: fresh numbers of the range, one per missing port, all different.\<close>

lemma allocateMissing_spec:
  assumes "allocateMissing lo hi used eps ps changed = (ps', changed', enough)"
  obtains new where "ps' = ps @ new" "distinct (map xs_port new)" "set (map xs_port new) \<subseteq> {lo..hi} - used"
    "map xs_name new = map ep_name (take (length new) eps)" "enough \<longleftrightarrow> length new = length eps"
    "changed' \<longleftrightarrow> changed \<or> new \<noteq> []" "\<not> enough \<Longrightarrow> {lo..hi} \<subseteq> used \<union> set (map xs_port new)"
  using assms
proof (induction lo hi used eps ps changed arbitrary: thesis rule: allocateMissing.induct)
  case (1 lo hi used ps changed)
  from 1(1) [of "[]"] 1(2) show ?case by simp
next
  case (2 lo hi used ep eps ps changed)
  show ?case
  proof (cases "allocatePublicPort lo hi used")
    case None
    then have "{lo..hi} \<subseteq> used" by (simp only: allocatePublicPort_None)
    then show ?thesis using 2(2) [of "[]"] 2(3) by (auto simp: None)
  next
    case (Some q)
    let ?x = "\<lparr>xs_name = ep_name ep, xs_port = q\<rparr>"
    have "allocateMissing lo hi (insert q used) eps (ps @ [?x]) True = (ps', changed', enough)"
      using 2(3) Some by simp
    from 2(1) [OF Some _ this] obtain new where n: "ps' = (ps @ [?x]) @ new" "distinct (map xs_port new)"
      "set (map xs_port new) \<subseteq> {lo..hi} - insert q used" "map xs_name new = map ep_name (take (length new) eps)"
      "enough \<longleftrightarrow> length new = length eps" "changed'" "\<not> enough \<Longrightarrow> {lo..hi} \<subseteq> insert q used \<union> set (map xs_port new)"
      by blast
    have q: "lo \<le> q" "q \<le> hi" "q \<notin> used" using Some by (auto simp: allocatePublicPort_Some)
    show ?thesis
      by (rule 2(2) [of "?x # new"]) (use n q in auto)
  qed
qed

text \<open>What \<open>allocatePorts\<close> answers: the kept ports and new ones that the pool had free.\<close>

definition fresh_ports :: "'w k8s \<Rightarrow> 'w gateway_config \<Rightarrow> exposure_port list \<Rightarrow> bool" where
  "fresh_ports k C new \<longleftrightarrow> new = [] \<or>
     (\<exists>v items v'. r_list (reader k C) None [] v = (Inr items, v') \<and> distinct (map xs_port new) \<and>
        set (map xs_port new) \<subseteq> {gx_min C..gx_max C} - set (portsOf items))"

definition pool_full :: "'w k8s \<Rightarrow> 'w gateway_config \<Rightarrow> exposure_port list \<Rightarrow> bool" where
  "pool_full k C ps \<longleftrightarrow> (\<exists>v items v'. r_list (reader k C) None [] v = (Inr items, v') \<and>
     {gx_min C..gx_max C} \<subseteq> set (portsOf items) \<union> set (map xs_port ps))"

lemma allocatePorts_spec:
  assumes "allocatePorts k C gs ports w = (Inr (ps, changed, enough), w')"
  obtains new where "mset ps = mset (keptPorts gs ports @ new)" "fresh_ports k C new"
    "map xs_name new = map ep_name (take (length new) (missingPorts gs ports))"
    "enough \<longleftrightarrow> length new = length (missingPorts gs ports)" "enough \<or> pool_full k C ps"
proof (cases "missingPorts gs ports = []")
  case True
  then show ?thesis using assms that [of "[]"] by (simp add: allocatePorts_def Let_def ret_def fresh_ports_def)
next
  case False
  let ?K = "keptPorts gs ports"
  from assms False obtain items v where r: "r_list (reader k C) None [] w = (Inr items, v)"
    by (auto simp: allocatePorts_def Let_def bindE_def usedPublicPorts_def wrapE_def ret_def split: prod.splits sum.splits)
  obtain ps1 ch1 en1 where a: "allocateMissing (gx_min C) (gx_max C) (set (portsOf items)) (missingPorts gs ports) ?K
      (?K \<noteq> exposedPorts gs) = (ps1, ch1, en1)"
    by (metis prod_cases3)
  have ps: "ps = (if enough then sort_key xs_name ps1 else ps1)" "en1 = enough"
    using assms False r a by (auto simp: allocatePorts_def Let_def bindE_def usedPublicPorts_def wrapE_def ret_def)
  from a obtain new where n: "ps1 = ?K @ new" "distinct (map xs_port new)"
    "set (map xs_port new) \<subseteq> {gx_min C..gx_max C} - set (portsOf items)"
    "map xs_name new = map ep_name (take (length new) (missingPorts gs ports))"
    "en1 \<longleftrightarrow> length new = length (missingPorts gs ports)"
    "\<not> en1 \<Longrightarrow> {gx_min C..gx_max C} \<subseteq> set (portsOf items) \<union> set (map xs_port new)"
    by (rule allocateMissing_spec) blast
  have "mset ps = mset (?K @ new)" unfolding ps(1) n(1) by simp
  moreover have "fresh_ports k C new" unfolding fresh_ports_def using r n(2,3) by blast
  moreover have "enough \<or> pool_full k C ps"
  proof (cases enough)
    case False
    then have "{gx_min C..gx_max C} \<subseteq> set (portsOf items) \<union> set (map xs_port ps)"
      using n(6) ps n(1) by fastforce
    then show ?thesis unfolding pool_full_def using r by blast
  qed simp
  ultimately show ?thesis using n(4,5) unfolding ps(2) by (intro that)
qed

lemma exposureCondition_keeps [simp]:
  "gst_exposure (gs_status (snd (exposureCondition L now gs st r m))) = gst_exposure (gs_status gs)"
  "gs_meta (snd (exposureCondition L now gs st r m)) = gs_meta gs"
  "gs_spec (snd (exposureCondition L now gs st r m)) = gs_spec gs"
  by (simp_all add: exposureCondition_def withConditions_def split_beta)

lemma withExposure_ports [simp]: "exposedPorts (withExposure gs x) = ex_ports x"
  by (simp add: withExposure_def exposedPorts_def)

lemma reconcileOne_allocates:
  assumes "gss_exposure_enabled (gs_spec gs)" and "reconcileOne k C gs e w = (Inr (changed, gs'), w')"
  obtains enough u ch where "allocatePorts k C gs (EffectivePorts e gs) w = (Inr (exposedPorts gs', ch, enough), u)"
proof -
  from assms obtain ps ch enough u where a: "allocatePorts k C gs (EffectivePorts e gs) w = (Inr (ps, ch, enough), u)"
    by (auto simp: reconcileOne_def Let_def bindE_Inr)
  then have "exposedPorts gs' = ps"
    using assms
    by (cases enough) (auto simp: reconcileOne_def Let_def bindE_Inr gets_def ret_def exposedPorts_def withExposure_def split_beta)
  with a show ?thesis using that by blast
qed

text \<open>
  What an exposed server ends up with: every port it keeps, and new ones only from the configured
  range, different from each other and from every port any server of the cluster held in the uncached
  list read for it; each new one is for a declared port that had none.
\<close>

theorem reconcileOne_fresh:
  assumes "gss_exposure_enabled (gs_spec gs)" and "reconcileOne k C gs e w = (Inr (changed, gs'), w')"
  shows "\<exists>new. mset (exposedPorts gs') = mset (keptPorts gs (EffectivePorts e gs) @ new) \<and> fresh_ports k C new \<and>
           set (map xs_name new) \<subseteq> set (map ep_name (missingPorts gs (EffectivePorts e gs)))"
proof -
  from assms obtain enough u ch where "allocatePorts k C gs (EffectivePorts e gs) w = (Inr (exposedPorts gs', ch, enough), u)"
    by (rule reconcileOne_allocates)
  then obtain new where "mset (exposedPorts gs') = mset (keptPorts gs (EffectivePorts e gs) @ new)" "fresh_ports k C new"
    "map xs_name new = map ep_name (take (length new) (missingPorts gs (EffectivePorts e gs)))"
    by (rule allocatePorts_spec)
  moreover from this(3) have "set (map xs_name new) \<subseteq> set (map ep_name (missingPorts gs (EffectivePorts e gs)))"
    by (simp only: set_map) (metis image_mono set_map set_take_subset)
  ultimately show ?thesis by blast
qed

text \<open>
  An exposed server has a public port for exactly the ports it declares, unless the pool is full:
  then every port of the range is held by some server of the list read, or by this one now.
\<close>

theorem reconcileOne_complete:
  assumes "gss_exposure_enabled (gs_spec gs)" and "reconcileOne k C gs e w = (Inr (changed, gs'), w')"
  shows "xs_name ` set (exposedPorts gs') = ep_name ` set (EffectivePorts e gs) \<or> pool_full k C (exposedPorts gs')"
proof -
  let ?P = "EffectivePorts e gs"
  from assms obtain enough u ch where "allocatePorts k C gs ?P w = (Inr (exposedPorts gs', ch, enough), u)"
    by (rule reconcileOne_allocates)
  then obtain new where m: "mset (exposedPorts gs') = mset (keptPorts gs ?P @ new)" and "fresh_ports k C new"
    and n: "map xs_name new = map ep_name (take (length new) (missingPorts gs ?P))"
    and en: "enough \<longleftrightarrow> length new = length (missingPorts gs ?P)" and full: "enough \<or> pool_full k C (exposedPorts gs')"
    by (rule allocatePorts_spec)
  show ?thesis
  proof (cases enough)
    case True
    with n en have "map xs_name new = map ep_name (missingPorts gs ?P)" by simp
    then have new: "xs_name ` set new = ep_name ` set (missingPorts gs ?P)" by (metis set_map)
    have "set (exposedPorts gs') = set (keptPorts gs ?P) \<union> set new" using m by (metis mset_eq_setD set_append)
    then have "xs_name ` set (exposedPorts gs') = xs_name ` set (keptPorts gs ?P) \<union> ep_name ` set (missingPorts gs ?P)"
      using new by (simp add: image_Un)
    then show ?thesis by (auto simp: keptPorts_def missingPorts_def)
  qed (use full in simp)
qed

lemma portsOf_split:
  "distinct (portsOf (xs @ g # ys)) \<longleftrightarrow> distinct (map xs_port (exposedPorts g)) \<and> distinct (portsOf (xs @ ys)) \<and>
     set (map xs_port (exposedPorts g)) \<inter> set (portsOf (xs @ ys)) = {}"
proof -
  have "mset (portsOf (xs @ g # ys)) = mset (map xs_port (exposedPorts g) @ portsOf (xs @ ys))"
    by (simp add: portsOf_def)
  then have "distinct (portsOf (xs @ g # ys)) \<longleftrightarrow> distinct (map xs_port (exposedPorts g) @ portsOf (xs @ ys))"
    by (rule mset_eq_imp_distinct_iff)
  then show ?thesis by (simp only: distinct_append)
qed

lemma portsOf_sub: "set (portsOf (xs @ ys)) \<subseteq> set (portsOf (xs @ g # ys))"
  by (auto simp: portsOf_def)

text \<open>
  C29: no public port is ever held twice: if the list the pool is read from shows every server, this one
  included, and no port twice, then it still shows none twice with this server as reconciled.
\<close>

theorem reconcileOne_keeps_pool:
  assumes "reconcileOne k C gs e w = (Inr (changed, gs'), w')"
    and "\<And>v items v'. r_list (reader k C) None [] v = (Inr items, v') \<Longrightarrow> items = xs @ gs # ys"
    and "distinct (portsOf (xs @ gs # ys))"
  shows "distinct (portsOf (xs @ gs' # ys))"
proof (cases "gss_exposure_enabled (gs_spec gs)")
  case False
  then have "exposedPorts gs' = []"
    using assms(1)
    by (auto simp: reconcileOne_def Let_def bindE_Inr gets_def ret_def exposedPorts_def withExposure_def no_exposure_def
        setExposureDisabled_def split_beta split: if_splits)
  then show ?thesis using assms(3) unfolding portsOf_split by simp
next
  case True
  let ?K = "keptPorts gs (EffectivePorts e gs)"
  from True assms(1) obtain enough u ch where
    "allocatePorts k C gs (EffectivePorts e gs) w = (Inr (exposedPorts gs', ch, enough), u)"
    by (rule reconcileOne_allocates)
  then obtain new where m: "mset (exposedPorts gs') = mset (?K @ new)" and f: "fresh_ports k C new"
    by (rule allocatePorts_spec)
  from f assms(2) have new: "distinct (map xs_port new)" "set (map xs_port new) \<inter> set (portsOf (xs @ gs # ys)) = {}"
    unfolding fresh_ports_def by (cases "new = []"; fastforce)+
  have m': "mset (map xs_port (exposedPorts gs')) = mset (map xs_port (?K @ new))"
    using m by (metis mset_map)
  have K: "distinct (map xs_port ?K)" "set (map xs_port ?K) \<subseteq> set (map xs_port (exposedPorts gs))"
    using assms(3) by (auto simp: portsOf_def keptPorts_def distinct_map inj_on_def)
  have d: "distinct (map xs_port (exposedPorts gs'))"
    using m' K new by (subst mset_eq_imp_distinct_iff [OF m']) (auto simp: portsOf_def)
  have "set (map xs_port (exposedPorts gs')) = set (map xs_port ?K) \<union> set (map xs_port new)"
    using mset_eq_setD [OF m'] by simp
  then have "set (map xs_port (exposedPorts gs')) \<inter> set (portsOf (xs @ ys)) = {}"
    using K(2) new(2) portsOf_sub [of xs ys gs] assms(3) [unfolded portsOf_split] by blast
  with d show ?thesis using assms(3) unfolding portsOf_split by blast
qed

section \<open>The listeners\<close>

text \<open>The pure content of the loop: each exposed server with the Egg the client answered for it.\<close>

lemma addListeners_map:
  "map_of (addListeners new m) = map_of m ++ map_of (rev new)"
  "distinct (map fst m) \<Longrightarrow> distinct (map fst (addListeners new m))"
  unfolding addListeners_def
  by (induction new arbitrary: m) (auto simp: update_conv' distinct_update map_add_def fun_eq_iff split: option.splits prod.splits)

lemma collectListeners_sound:
  assumes "collectListeners k items m w = (Inr m', w')" and "distinct (map fst m)"
  shows "distinct (map fst m') \<and> (\<forall>x \<in> set m'. x \<in> set m \<or>
    (\<exists>gs \<in> set items. \<exists>e. gss_exposure_enabled (gs_spec gs) \<and> x \<in> set (serverListeners gs e)))"
  using assms
proof (induction items arbitrary: m w)
  case (Cons gs items)
  show ?case
  proof (cases "\<not> gss_exposure_enabled (gs_spec gs) \<or> exposedPorts gs = []")
    case True
    with Cons show ?thesis by fastforce
  next
    case False
    with Cons.prems(1) obtain r v where r: "r_get (k_egg k) (EggNamespace gs) (er_name (gss_egg_ref (gs_spec gs))) w = (r, v)"
      and c: "collectListeners k items (case r of Inl _ \<Rightarrow> m | Inr e \<Rightarrow> addListeners (serverListeners gs e) m) v = (Inr m', w')"
      by (auto simp: bindE_Inr attempt_def split: prod.splits sum.splits)
    show ?thesis
    proof (cases r)
      case (Inl e)
      with Cons.IH [OF c] Cons.prems(2) show ?thesis by fastforce
    next
      case (Inr e)
      let ?m = "addListeners (serverListeners gs e) m"
      have d: "distinct (map fst ?m)" by (rule addListeners_map(2) [OF Cons.prems(2)])
      have "set ?m \<subseteq> set m \<union> set (serverListeners gs e)"
      proof
        fix x assume "x \<in> set ?m"
        then have "map_of ?m (fst x) = Some (snd x)" using d by (simp add: map_of_eq_Some_iff)
        then show "x \<in> set m \<union> set (serverListeners gs e)"
          by (auto simp: addListeners_map(1) map_add_def split: option.splits dest!: map_of_SomeD)
      qed
      then show ?thesis using Cons.IH [OF c [unfolded Inr sum.case] d] False by fastforce
    qed
  qed
qed (auto simp: ret_def)

text \<open>With every Egg readable, the loop is a fold over the exposed servers.\<close>

definition exposed :: "gameserver \<Rightarrow> bool" where
  "exposed gs \<longleftrightarrow> gss_exposure_enabled (gs_spec gs) \<and> exposedPorts gs \<noteq> []"

lemma collectListeners_fold:
  assumes "collectListeners k items m w = (Inr m', w')"
    and "\<And>gs v. gs \<in> set items \<Longrightarrow> \<exists>v'. r_get (k_egg k) (EggNamespace gs) (er_name (gss_egg_ref (gs_spec gs))) v = (Inr (E gs), v')"
  shows "map_of m' = map_of m ++ map_of (rev (concat (map (\<lambda>gs. serverListeners gs (E gs)) (filter exposed items))))"
  using assms
proof (induction items arbitrary: m w)
  case (Cons gs items)
  show ?case
  proof (cases "exposed gs")
    case False
    with Cons.prems(1) have "collectListeners k items m w = (Inr m', w')" by (auto simp: exposed_def)
    from Cons.IH [OF this] Cons.prems(2) False show ?thesis by simp
  next
    case True
    obtain v where "r_get (k_egg k) (EggNamespace gs) (er_name (gss_egg_ref (gs_spec gs))) w = (Inr (E gs), v)"
      using Cons.prems(2) by fastforce
    with True Cons.prems(1) have "collectListeners k items (addListeners (serverListeners gs (E gs)) m) v = (Inr m', w')"
      by (simp add: exposed_def bindE_def attempt_def)
    from Cons.IH [OF this] Cons.prems(2) True show ?thesis by (simp add: addListeners_map(1))
  qed
qed (simp add: ret_def)

lemma serverListeners_mem:
  "(n, l) \<in> set (serverListeners gs e) \<longleftrightarrow> (\<exists>p \<in> set (EffectivePorts e gs). \<exists>port.
     allocatedPort gs (ep_name p) = Some port \<and> n = routeName gs p \<and> l = portListener gs p port)"
proof -
  have "x \<in> set (case allocatedPort gs (ep_name p) of None \<Rightarrow> [] | Some port \<Rightarrow> [(routeName gs p, portListener gs p port)]) \<longleftrightarrow>
      (\<exists>port. allocatedPort gs (ep_name p) = Some port \<and> x = (routeName gs p, portListener gs p port))" for x p
    by (cases "allocatedPort gs (ep_name p)") auto
  then show ?thesis by (simp add: serverListeners_def)
qed

lemma allocatedPort_in:
  assumes "distinct (map xs_name (exposedPorts gs))" and "x \<in> set (exposedPorts gs)"
  shows "allocatedPort gs (xs_name x) = Some (xs_port x)"
proof -
  have "map fst (rev (map (\<lambda>p. (xs_name p, xs_port p)) (exposedPorts gs))) = rev (map xs_name (exposedPorts gs))"
    by (simp add: rev_map comp_def)
  then show ?thesis unfolding allocatedPort_def using assms
    by (intro map_of_is_SomeI) simp_all
qed

lemma allocatedPort_SomeD: "allocatedPort gs n = Some port \<Longrightarrow> \<exists>x \<in> set (exposedPorts gs). xs_name x = n \<and> xs_port x = port"
  by (auto simp: allocatedPort_def dest!: map_of_SomeD)

text \<open>
  As long as no two ports of exposed servers share a section name, the rebuilt Gateway listens on
  every public port: each allocated port of each exposed server has the listener named after it, with
  that port number.
\<close>

theorem listeners_complete:
  assumes "collectListeners k items [] w = (Inr m, w')"
    and "\<And>gs v. gs \<in> set items \<Longrightarrow> \<exists>v'. r_get (k_egg k) (EggNamespace gs) (er_name (gss_egg_ref (gs_spec gs))) v = (Inr (E gs), v')"
    and "\<And>g h p q. \<lbrakk>g \<in> set items; h \<in> set items; p \<in> set (EffectivePorts (E g) g); q \<in> set (EffectivePorts (E h) h);
        routeName g p = routeName h q\<rbrakk> \<Longrightarrow> g = h \<and> p = q"
    and "gs \<in> set items" and "gss_exposure_enabled (gs_spec gs)" and "distinct (map xs_name (exposedPorts gs))"
    and "x \<in> set (exposedPorts gs)" and "p \<in> set (EffectivePorts (E gs) gs)" and "xs_name x = ep_name p"
  shows "\<exists>l. (routeName gs p, l) \<in> set m \<and> ls_port l = xs_port x"
proof -
  let ?L = "concat (map (\<lambda>gs. serverListeners gs (E gs)) (filter exposed items))"
  have "(routeName gs p, portListener gs p (xs_port x)) \<in> set (serverListeners gs (E gs))"
    using allocatedPort_in [OF assms(6,7)] assms(8,9) by (auto simp: serverListeners_mem)
  moreover have "exposed gs" using assms(5,7) by (auto simp: exposed_def)
  ultimately have "routeName gs p \<in> fst ` set (rev ?L)" using assms(4) by force
  then obtain l where l: "map_of (rev ?L) (routeName gs p) = Some l"
    by (metis map_of_eq_None_iff not_Some_eq)
  then have m: "(routeName gs p, l) \<in> set m"
    using collectListeners_fold [OF assms(1,2)] by (intro map_of_SomeD) simp
  from l obtain h where h: "h \<in> set items" "(routeName gs p, l) \<in> set (serverListeners h (E h))"
    by (auto dest!: map_of_SomeD)
  from h(2) obtain q port where q: "q \<in> set (EffectivePorts (E h) h)" "routeName gs p = routeName h q"
    "allocatedPort h (ep_name q) = Some port" "l = portListener h q port" by (auto simp: serverListeners_mem)
  from assms(3) [OF assms(4) h(1) assms(8) q(1,2)] have "h = gs" "q = p" by auto
  with q(3) allocatedPort_in [OF assms(6,7)] assms(9) have "port = xs_port x" by simp
  with m q(4) show ?thesis by (auto simp: portListener_def)
qed

definition gateway_k8s :: "unit k8s" where
  "gateway_k8s = absent_k8s\<lparr>k_egg := absent_rest\<lparr>r_get := (\<lambda>ns n. ret ex_egg)\<rparr>\<rparr>"

definition exposedIn :: "string \<Rightarrow> int \<Rightarrow> gameserver" where
  "exposedIn ns port = withExposure (ex_gs\<lparr>gs_meta := (gs_meta ex_gs)\<lparr>om_namespace := ns\<rparr>,
     gs_spec := (gs_spec ex_gs)\<lparr>gss_exposure_enabled := True\<rparr>\<rparr>)
     \<lparr>ex_host = ''play.example'', ex_ports = map (\<lambda>p. \<lparr>xs_name = ep_name p, xs_port = port\<rparr>) (es_ports (egg_spec ex_egg))\<rparr>"

text \<open>
  The section name leaves the namespace out: of two tenants that both expose the port of a server
  with the same name, the rebuilt Gateway serves only one; the other's public port is allocated and
  published in its status, and nothing listens on it.
\<close>

theorem listeners_collide:
  "map (\<lambda>x. ls_port (snd x)) (case collectListeners gateway_k8s
      [exposedIn ''hatchery-acme'' 30000, exposedIn ''hatchery-other'' 30001] [] () of (Inr m, _) \<Rightarrow> m | _ \<Rightarrow> []) = [30001]"
  by code_simp

section \<open>Concrete instances\<close>

text \<open>The properties applied to concrete objects, where their hypotheses hold.\<close>

definition pool_config :: "unit gateway_config" where
  "pool_config = \<lparr>gx_reader = None, gx_min = 30000, gx_max = 30001, gx_host = ''play.example'', gx_name = ''gw'',
     gx_namespace = ''hatchery-system'', gx_class = ''c''\<rparr>"

definition open_gs :: gameserver where
  "open_gs = ex_gs\<lparr>gs_spec := (gs_spec ex_gs)\<lparr>gss_exposure_enabled := True\<rparr>\<rparr>"

definition pool_k8s :: "unit k8s" where
  "pool_k8s = absent_k8s\<lparr>k_gs := accept_rest\<lparr>r_list := (\<lambda>_ _. ret [exposedIn ''hatchery-other'' 30000, open_gs])\<rparr>,
     k_tcp := accept_rest, k_udp := accept_rest, k_gw := accept_rest\<rparr>"

lemma pool_run: obtains changed gs' where "reconcileOne pool_k8s pool_config open_gs ex_egg () = (Inr (changed, gs'), ())"
proof -
  have "succeeded (fst (reconcileOne pool_k8s pool_config open_gs ex_egg ()))" by code_simp
  then obtain x w where "reconcileOne pool_k8s pool_config open_gs ex_egg () = (Inr x, w)" by (rule succeededE)
  then show thesis using that by (cases x) auto
qed

lemma open_enabled: "gss_exposure_enabled (gs_spec open_gs)"
  by (simp add: open_gs_def)

theorem reconcileOne_fresh_witness:
  "\<exists>changed gs'. reconcileOne pool_k8s pool_config open_gs ex_egg () = (Inr (changed, gs'), ()) \<and>
     (\<exists>new. mset (exposedPorts gs') = mset (keptPorts open_gs (EffectivePorts ex_egg open_gs) @ new) \<and>
        fresh_ports pool_k8s pool_config new)"
proof -
  obtain changed gs' where r: "reconcileOne pool_k8s pool_config open_gs ex_egg () = (Inr (changed, gs'), ())" by (rule pool_run)
  with reconcileOne_fresh [OF open_enabled r] show ?thesis by blast
qed

theorem reconcileOne_complete_witness:
  "\<exists>changed gs'. reconcileOne pool_k8s pool_config open_gs ex_egg () = (Inr (changed, gs'), ()) \<and>
     (xs_name ` set (exposedPorts gs') = {''game''} \<or> pool_full pool_k8s pool_config (exposedPorts gs'))"
proof -
  obtain changed gs' where r: "reconcileOne pool_k8s pool_config open_gs ex_egg () = (Inr (changed, gs'), ())" by (rule pool_run)
  have "ep_name ` set (EffectivePorts ex_egg open_gs) = {''game''}" by code_simp
  with reconcileOne_complete [OF open_enabled r] r show ?thesis by auto
qed

theorem reconcileOne_keeps_pool_witness:
  "\<exists>changed gs'. reconcileOne pool_k8s pool_config open_gs ex_egg () = (Inr (changed, gs'), ()) \<and>
     distinct (portsOf [exposedIn ''hatchery-other'' 30000, gs'])"
proof -
  obtain changed gs' where r: "reconcileOne pool_k8s pool_config open_gs ex_egg () = (Inr (changed, gs'), ())" by (rule pool_run)
  have l: "r_list (reader pool_k8s pool_config) None [] v = (Inr items, v') \<Longrightarrow> items = [exposedIn ''hatchery-other'' 30000] @ open_gs # []"
    for v items v' by (simp add: reader_def pool_config_def pool_k8s_def ret_def)
  have "distinct (portsOf ([exposedIn ''hatchery-other'' 30000] @ open_gs # []))" by code_simp
  with reconcileOne_keeps_pool [OF r l] r show ?thesis by auto
qed

theorem listeners_complete_witness:
  "\<exists>m l. collectListeners gateway_k8s [exposedIn ''hatchery-acme'' 30000] [] () = (Inr m, ()) \<and>
     (''mc-game'', l) \<in> set m \<and> ls_port l = 30000"
proof -
  let ?g = "exposedIn ''hatchery-acme'' 30000"
  have "succeeded (fst (collectListeners gateway_k8s [?g] [] ()))" by code_simp
  then obtain m w' where m: "collectListeners gateway_k8s [?g] [] () = (Inr m, w')" by (rule succeededE)
  let ?p = "\<lparr>ep_name = ''game'', ep_container_port = 25565, ep_protocol = TCP, ep_default = True\<rparr>"
  have ports: "EffectivePorts ex_egg ?g = [?p]" by code_simp
  have x: "exposedPorts ?g = [\<lparr>xs_name = ''game'', xs_port = 30000\<rparr>]" by code_simp
  have rn: "routeName ?g ?p = ''mc-game''" by code_simp
  have en: "gss_exposure_enabled (gs_spec ?g)" by (simp add: exposedIn_def withExposure_def)
  have egg: "\<exists>v'. r_get (k_egg gateway_k8s) n m v = (Inr ex_egg, v')" for n m v by (simp add: gateway_k8s_def ret_def)
  have "\<exists>l. (routeName ?g ?p, l) \<in> set m \<and> ls_port l = xs_port \<lparr>xs_name = ''game'', xs_port = 30000\<rparr>"
    by (rule listeners_complete [OF m, where E = "\<lambda>_. ex_egg"]) (use egg ports x en in auto)
  with m rn show ?thesis by auto
qed

end
