(* ===== verification/Tenant_Controller.thy ===== *)
theory Tenant_Controller
  imports GameServer_Pod
begin

text \<open>
  \<open>internal/controller/tenant_controller.go\<close> and \<open>tenant_resources.go\<close>: one isolated namespace per
  Tenant, with its quota, its defaults, its network policies and the panel's role, and the deletion
  that waits for the namespace to be empty.
\<close>

definition tenantDeleteRequeue :: duration where "tenantDeleteRequeue = 10 * second"

text \<open>\<open>PanelServiceAccount\<close> as name and namespace, and \<open>EgressExceptCIDRs\<close>.\<close>

record tenant_config =
  tc_panel_name :: string
  tc_panel_namespace :: string
  tc_egress_except :: "string list"

section \<open>The objects of a tenant\<close>

definition panelSFTPPolicyName :: string where "panelSFTPPolicyName = ''allow-panel-sftp''"
definition tenantQuotaName :: string where "tenantQuotaName = ''tenant-quota''"
definition tenantLimitRangeName :: string where "tenantLimitRangeName = ''tenant-defaults''"
definition panelTenantClusterRole :: string where "panelTenantClusterRole = ''hatchery-panel-tenant''"
definition panelRoleBindingName :: string where "panelRoleBindingName = ''hatchery-panel''"
definition gameServerCountResource :: string where
  "gameServerCountResource = ''count/gameservers.gameservers.hatchery.io''"

definition tenantQuotaHard :: "tenant_quota \<Rightarrow> (string \<times> quantity) list" where
  "tenantQuotaHard q = [(''requests.cpu'', tq_cpu q), (''requests.memory'', tq_memory q),
     (''requests.storage'', tq_storage q), (gameServerCountResource, tq_max_gameservers q * 1000000000)]"

text \<open>100m and 128Mi by default, 1 and 1Gi at most, in nano-units.\<close>

definition defaultRequests :: "(string \<times> quantity) list" where
  "defaultRequests = [(''cpu'', 100000000), (''memory'', 128 * 2 ^ 20 * 1000000000)]"
definition defaultLimits :: "(string \<times> quantity) list" where
  "defaultLimits = [(''cpu'', 1000000000), (''memory'', 2 ^ 30 * 1000000000)]"

definition defaultEgressExceptCIDRs :: "string list" where
  "defaultEgressExceptCIDRs = [''10.0.0.0/8'', ''172.16.0.0/12'', ''192.168.0.0/16'', ''169.254.0.0/16'', ''100.64.0.0/10'']"

definition np_of :: "string \<Rightarrow> string \<Rightarrow> policy_type list \<Rightarrow> np_rule list \<Rightarrow> np_rule list \<Rightarrow> netpol" where
  "np_of ns name types ing eg = \<lparr>np_meta = new_meta name ns,
     np_spec = \<lparr>np_selector = Map.empty, np_types = types, np_ingress = ing, np_egress = eg\<rparr>\<rparr>"

definition inNamespace :: "string \<Rightarrow> np_peer" where
  "inNamespace ns = NamespacePeer [''kubernetes.io/metadata.name'' \<mapsto> ns]"

definition tenantNetworkPolicies :: "string \<Rightarrow> string \<Rightarrow> string list \<Rightarrow> netpol list" where
  "tenantNetworkPolicies ns panelNamespace extraExcept =
     [np_of ns ''default-deny'' [Ingress, Egress] [] [],
      np_of ns ''allow-dns-egress'' [Egress] []
        [\<lparr>npr_peers = [inNamespace ''kube-system''], npr_ports = [(UDP, 53), (TCP, 53)]\<rparr>],
      np_of ns ''allow-internet-egress'' [Egress] []
        [\<lparr>npr_peers = [IPBlockPeer ''0.0.0.0/0'' (defaultEgressExceptCIDRs @ extraExcept)], npr_ports = []\<rparr>],
      np_of ns ''allow-same-namespace'' [Ingress, Egress]
        [\<lparr>npr_peers = [PodPeer Map.empty], npr_ports = []\<rparr>] [\<lparr>npr_peers = [PodPeer Map.empty], npr_ports = []\<rparr>]] @
     (if panelNamespace \<noteq> [] then
        [np_of ns panelSFTPPolicyName [Ingress]
          [\<lparr>npr_peers = [inNamespace panelNamespace], npr_ports = [(TCP, Port)]\<rparr>] []]
      else [])"

section \<open>The steps\<close>

definition nsOf :: "tenant \<Rightarrow> string" where
  "nsOf t = TenantNamespace (om_name (tn_meta t))"

definition tenantLabels :: "string \<Rightarrow> smap \<Rightarrow> smap" where
  "tenantLabels name m = m(LabelTenant \<mapsto> name, LabelManagedBy \<mapsto> ManagedByValue,
     ''pod-security.kubernetes.io/enforce'' \<mapsto> ''baseline'', ''pod-security.kubernetes.io/warn'' \<mapsto> ''restricted'',
     ''pod-security.kubernetes.io/audit'' \<mapsto> ''restricted'')"

definition reconcileNamespace :: "'w k8s \<Rightarrow> tenant \<Rightarrow> ('w, unit) io" where
  "reconcileNamespace k t =
     (let name = nsOf t in
      bindE (found_or_none (r_get (k_ns k) [] name)) (\<lambda>r.
        let m = (case r of None \<Rightarrow> new_meta name [] | Some n \<Rightarrow> ns_meta n) in
        if r \<noteq> None \<and> \<not> lib_is_controlled_by (k_lib k) m (tn_meta t) then
          throw (MsgErr (Msg ''namespace %q already exists and is not owned by tenant %q'' [AStr name, AStr (om_name (tn_meta t))]))
        else if r \<noteq> None \<and> is_deleting m then
          throw (MsgErr (Msg ''namespace %q is terminating'' [AStr name]))
        else
          bindE (liftE (lib_set_controller (k_lib k) (tn_meta t)
              (m\<lparr>om_labels := tenantLabels (om_name (tn_meta t)) (om_labels m)\<rparr>))) (\<lambda>m'.
          let n' = \<lparr>ns_meta = m'\<rparr> in
          if r = None then thenE (r_create (k_ns k) n') (ret ()) else thenE (r_update (k_ns k) n') (ret ()))))"

definition mutateQuota :: "klib \<Rightarrow> tenant \<Rightarrow> resource_quota \<Rightarrow> go_err + resource_quota" where
  "mutateQuota L t q = (case lib_set_controller L (tn_meta t) (rq_meta q) of
     Inl e \<Rightarrow> Inl e | Inr m \<Rightarrow> Inr (q\<lparr>rq_meta := m, rq_hard := tenantQuotaHard (tn_quota t)\<rparr>))"

definition reconcileQuota :: "'w k8s \<Rightarrow> tenant \<Rightarrow> ('w, unit) io" where
  "reconcileQuota k t = r_ensure (k_rq k) \<lparr>rq_meta = new_meta tenantQuotaName (nsOf t), rq_hard = []\<rparr>
     (mutateQuota (k_lib k) t)"

definition mutateLimits :: "klib \<Rightarrow> tenant \<Rightarrow> limit_range \<Rightarrow> go_err + limit_range" where
  "mutateLimits L t q = (case lib_set_controller L (tn_meta t) (lr_meta q) of
     Inl e \<Rightarrow> Inl e
   | Inr m \<Rightarrow> Inr (q\<lparr>lr_meta := m, lr_default_request := defaultRequests, lr_default := defaultLimits\<rparr>))"

definition reconcileLimitRange :: "'w k8s \<Rightarrow> tenant \<Rightarrow> ('w, unit) io" where
  "reconcileLimitRange k t = r_ensure (k_lr k)
     \<lparr>lr_meta = new_meta tenantLimitRangeName (nsOf t), lr_default_request = [], lr_default = []\<rparr>
     (mutateLimits (k_lib k) t)"

definition pruneIfControlled :: "klib \<Rightarrow> ('o, 'w) rest \<Rightarrow> ('o \<Rightarrow> object_meta) \<Rightarrow> tenant \<Rightarrow> string \<Rightarrow> ('w, unit) io" where
  "pruneIfControlled L R meta t name =
     bindE (found_or_none (r_get R (nsOf t) name)) (\<lambda>r. case r of None \<Rightarrow> ret ()
     | Some x \<Rightarrow> if \<not> lib_is_controlled_by L (meta x) (tn_meta t) then ret ()
                 else ignoring is_not_found (r_delete R x))"

definition mutateTenantPolicy :: "klib \<Rightarrow> tenant \<Rightarrow> np_spec \<Rightarrow> netpol \<Rightarrow> go_err + netpol" where
  "mutateTenantPolicy L t spec np = (case lib_set_controller L (tn_meta t) (np_meta np) of
     Inl e \<Rightarrow> Inl e | Inr m \<Rightarrow> Inr (np\<lparr>np_meta := m, np_spec := spec\<rparr>))"

definition reconcileNetworkPolicies :: "'w k8s \<Rightarrow> tenant_config \<Rightarrow> tenant \<Rightarrow> ('w, unit) io" where
  "reconcileNetworkPolicies k C t =
     thenE (if tc_panel_namespace C = [] then pruneIfControlled (k_lib k) (k_np k) np_meta t panelSFTPPolicyName else ret ())
       (forE (\<lambda>want. r_ensure (k_np k)
            (want\<lparr>np_spec := \<lparr>np_selector = Map.empty, np_types = [], np_ingress = [], np_egress = []\<rparr>\<rparr>)
            (mutateTenantPolicy (k_lib k) t (np_spec want)))
          (tenantNetworkPolicies (nsOf t) (tc_panel_namespace C) (tc_egress_except C)))"

definition mutateRoleBinding :: "klib \<Rightarrow> tenant_config \<Rightarrow> tenant \<Rightarrow> rolebinding \<Rightarrow> go_err + rolebinding" where
  "mutateRoleBinding L C t rb = (case lib_set_controller L (tn_meta t) (rb_meta rb) of
     Inl e \<Rightarrow> Inl e
   | Inr m \<Rightarrow> Inr (rb\<lparr>rb_meta := m, rb_role := panelTenantClusterRole,
        rb_subjects := [(tc_panel_name C, tc_panel_namespace C)]\<rparr>))"

definition reconcileRoleBinding :: "'w k8s \<Rightarrow> tenant_config \<Rightarrow> tenant \<Rightarrow> ('w, unit) io" where
  "reconcileRoleBinding k C t =
     (if tc_panel_name C = [] \<or> tc_panel_namespace C = [] then
        pruneIfControlled (k_lib k) (k_rb k) rb_meta t panelRoleBindingName
      else r_ensure (k_rb k) \<lparr>rb_meta = new_meta panelRoleBindingName (nsOf t), rb_role = [], rb_subjects = []\<rparr>
        (mutateRoleBinding (k_lib k) C t))"

section \<open>Status, deletion, reconcile\<close>

definition withTenantStatus :: "klib \<Rightarrow> time \<Rightarrow> tenant \<Rightarrow> tenant_phase \<Rightarrow> cond_status \<Rightarrow> string \<Rightarrow> msg \<Rightarrow> tenant" where
  "withTenantStatus L now t phase ready reason m = t\<lparr>tn_status := (tn_status t)\<lparr>tst_phase := phase,
     tst_observed_generation := om_generation (tn_meta t),
     tst_conditions := fst (lib_set_condition L now (tst_conditions (tn_status t))
       (new_condition ''Ready'' ready reason m (om_generation (tn_meta t))))\<rparr>\<rparr>"

definition setStatus :: "'w k8s \<Rightarrow> tenant \<Rightarrow> tenant_phase \<Rightarrow> cond_status \<Rightarrow> string \<Rightarrow> go_err option \<Rightarrow> msg \<Rightarrow> ('w, unit) io" where
  "setStatus k t phase ready reason cause m = bindE (gets (k_now k)) (\<lambda>now.
     thenE (r_status_update (k_tenant k) (withTenantStatus (k_lib k) now t phase ready reason m))
       (case cause of None \<Rightarrow> ret () | Some e \<Rightarrow> throw e))"

definition tenantDelete :: "'w k8s \<Rightarrow> tenant \<Rightarrow> ('w, duration) io" where
  "tenantDelete k t =
     (let nsName = nsOf t in
      if \<not> lib_contains_finalizer (k_lib k) (tn_meta t) TenantFinalizer then ret 0
      else bindE (r_list (k_gs k) (Some nsName) []) (\<lambda>servers.
        bindE (r_list (k_backup k) (Some nsName) []) (\<lambda>backups.
        bindE (r_list (k_restore k) (Some nsName) []) (\<lambda>restores.
          if length servers + length backups + length restores > 0 then
            thenE (setStatus k t TnTerminating CondFalse ''DeletionBlocked'' None
              (Msg ''deletion blocked: %d GameServer(s), %d backup(s) and %d restore(s) remain in %s''
                [AInt (int (length servers)), AInt (int (length backups)), AInt (int (length restores)), AStr nsName]))
              (ret tenantDeleteRequeue)
          else bindE (found_or_none (r_get (k_ns k) [] nsName)) (\<lambda>r.
            thenE (case r of None \<Rightarrow> ret ()
                | Some n \<Rightarrow> if lib_is_controlled_by (k_lib k) (ns_meta n) (tn_meta t) \<and> \<not> is_deleting (ns_meta n)
                    then ignoring is_not_found (r_delete (k_ns k) n) else ret ())
              (thenE (r_update (k_tenant k) (t\<lparr>tn_meta := lib_remove_finalizer (k_lib k) (tn_meta t) TenantFinalizer\<rparr>))
                (ret 0)))))))"

text \<open>The steps after the namespace, in their order; the first failure stops.\<close>

definition tenantSteps :: "'w k8s \<Rightarrow> tenant_config \<Rightarrow> tenant \<Rightarrow> ('w, unit) io" where
  "tenantSteps k C t = forE (\<lambda>step. step)
     [reconcileQuota k t, reconcileLimitRange k t, reconcileNetworkPolicies k C t, reconcileRoleBinding k C t]"

definition tenantProvision :: "'w k8s \<Rightarrow> tenant_config \<Rightarrow> tenant \<Rightarrow> ('w, unit) io" where
  "tenantProvision k C t =
     (let failed = (\<lambda>x e. setStatus k x TnFailed CondFalse ''ReconcileFailed'' (Some e) (Msg ''%v'' [AErr e])) in
      bindE (attempt (reconcileNamespace k t)) (\<lambda>r. case r of Inl e \<Rightarrow> failed t e
      | Inr _ \<Rightarrow>
        let t1 = t\<lparr>tn_status := (tn_status t)\<lparr>tst_namespace := nsOf t\<rparr>\<rparr> in
        bindE (attempt (tenantSteps k C t1)) (\<lambda>r. case r of Inl e \<Rightarrow> failed t1 e
        | Inr _ \<Rightarrow> setStatus k t1 TnActive CondTrue ''Provisioned'' None (Msg ''namespace and policies are in place'' []))))"

definition tenantReconcile :: "'w k8s \<Rightarrow> tenant_config \<Rightarrow> string \<Rightarrow> ('w, duration) io" where
  "tenantReconcile k C name =
     bindE (found_or_none (r_get (k_tenant k) [] name)) (\<lambda>r. case r of None \<Rightarrow> ret 0
     | Some t \<Rightarrow>
       if is_deleting (tn_meta t) then tenantDelete k t
       else bindE (if lib_contains_finalizer (k_lib k) (tn_meta t) TenantFinalizer then ret t
            else r_update (k_tenant k) (t\<lparr>tn_meta := lib_add_finalizer (k_lib k) (tn_meta t) TenantFinalizer\<rparr>)) (\<lambda>t1.
         thenE (tenantProvision k C t1) (ret 0)))"

section \<open>A namespace is never adopted\<close>

text \<open>The namespace of an object of a tenant.\<close>

fun obj_ns :: "obj \<Rightarrow> string option" where
  "obj_ns (ORq x) = Some (om_namespace (rq_meta x))"
| "obj_ns (OLr x) = Some (om_namespace (lr_meta x))"
| "obj_ns (ONp x) = Some (om_namespace (np_meta x))"
| "obj_ns (ORb x) = Some (om_namespace (rb_meta x))"
| "obj_ns _ = None"

definition ns_written :: "event set \<Rightarrow> bool" where
  "ns_written S \<longleftrightarrow> (\<exists>n. EvCreate (ONs n) True \<in> S \<or> EvUpdate (ONs n) True \<in> S)"

definition tenant_rule :: "klib \<Rightarrow> tenant \<Rightarrow> event set \<Rightarrow> event \<Rightarrow> bool" where
  "tenant_rule L t before e \<longleftrightarrow>
     (\<forall>n ok. e = EvCreate (ONs n) ok \<longrightarrow> EvGetFailed [] (nsOf t) True \<in> before) \<and>
     (\<forall>n ok. e = EvUpdate (ONs n) ok \<longrightarrow> (\<exists>n0. EvGot [] (nsOf t) (ONs n0) \<in> before \<and>
        lib_is_controlled_by L (ns_meta n0) (tn_meta t) \<and> \<not> is_deleting (ns_meta n0))) \<and>
     (\<forall>n ok. e \<noteq> EvDelete (ONs n) ok) \<and>
     (\<forall>x ok. e = EvEnsure x ok \<longrightarrow> obj_ns x = Some (nsOf t) \<and> ns_written before) \<and>
     (\<forall>t' ok. e = EvStatusUpdate (OTenant t') ok \<and> tst_phase (tn_status t') = TnActive \<longrightarrow> ns_written before)"

abbreviation tenant_ok :: "klib \<Rightarrow> tenant \<Rightarrow> event list \<Rightarrow> bool" where
  "tenant_ok L t \<equiv> guarded (tenant_rule L t)"

text \<open>What the steps after the namespace may ask for.\<close>

definition step_call :: "tenant \<Rightarrow> event \<Rightarrow> bool" where
  "step_call t e \<longleftrightarrow> (\<exists>n m x. e = EvGot n m x) \<or> (\<exists>n m b. e = EvGetFailed n m b) \<or>
     (\<exists>x ok. e = EvDelete x ok \<and> obj_ns x \<noteq> None) \<or> (\<exists>x ok. e = EvEnsure x ok \<and> obj_ns x = Some (nsOf t))"

lemma np_of_namespace: "want \<in> set (tenantNetworkPolicies ns p ex) \<Longrightarrow> om_namespace (np_meta want) = ns"
  by (auto simp: tenantNetworkPolicies_def np_of_def new_meta_def split: if_splits)

lemma steps_calls: "only (step_call t) (tenantSteps (logging k) C t)"
proof -
  have np: "only (step_call t) (reconcileNetworkPolicies (logging k) C t)"
    unfolding reconcileNetworkPolicies_def pruneIfControlled_def logging_kinds k_lib_logging
    by (intro only_rules only_forE only_calls; auto simp: step_call_def dest: np_of_namespace)
  have q: "only (step_call t) (reconcileQuota (logging k) t)" "only (step_call t) (reconcileLimitRange (logging k) t)"
    unfolding reconcileQuota_def reconcileLimitRange_def logging_kinds
    by (intro only_calls; simp add: step_call_def new_meta_def)+
  have rb: "only (step_call t) (reconcileRoleBinding (logging k) C t)"
    unfolding reconcileRoleBinding_def pruneIfControlled_def logging_kinds
    by (intro only_rules only_calls; simp add: step_call_def new_meta_def)
  show ?thesis unfolding tenantSteps_def by (rule only_forE) (use np q rb in auto)
qed

lemma nsOf_status [simp]: "nsOf (t\<lparr>tn_status := st\<rparr>) = nsOf t"
  by (simp add: nsOf_def)

lemma steps_logs:
  assumes "nsOf t1 = nsOf t"
  shows "logs (\<lambda>l. tenant_ok L t l \<and> ns_written (set l)) (tenantSteps (logging k) C t1)
     (\<lambda>_ l. tenant_ok L t l \<and> ns_written (set l)) (\<lambda>_ l. tenant_ok L t l \<and> ns_written (set l))"
  by (rule logs_guarded_since [OF steps_calls])
    (auto simp: step_call_def tenant_rule_def ns_written_def assms)

lemma setStatus_logs:
  assumes "\<And>l. P l \<Longrightarrow> tenant_ok L t l \<and> (phase = TnActive \<longrightarrow> ns_written (set l))"
  shows "logs P (setStatus (logging k) x phase ready reason cause m) (\<lambda>_. tenant_ok L t) (\<lambda>_. tenant_ok L t)"
  unfolding setStatus_def logging_kinds
  apply (rule logs_bindE [where R = "\<lambda>_. P"], rule logs_gets, assumption)
  apply (rule logs_bindE [where R = "\<lambda>_. tenant_ok L t"])
   apply (rule log_rules; frule assms; simp add: tenant_rule_def withTenantStatus_def)
  apply (intro logs_case_option logs_ret logs_throw; assumption)
  done

lemma reconcileNamespace_logs:
  "logs (tenant_ok (k_lib k) t) (reconcileNamespace (logging k) t)
     (\<lambda>_ l. tenant_ok (k_lib k) t l \<and> ns_written (set l)) (\<lambda>_. tenant_ok (k_lib k) t)"
  unfolding reconcileNamespace_def Let_def logging_kinds k_lib_logging
  apply (rule logs_bindE [where R = "\<lambda>r l. tenant_ok (k_lib k) t l \<and>
      (case r of None \<Rightarrow> EvGetFailed [] (nsOf t) True \<in> set l | Some n \<Rightarrow> EvGot [] (nsOf t) (ONs n) \<in> set l)"])
   apply (rule logs_found_or_none, rule log_rules; simp add: tenant_rule_def)
  subgoal for r
    apply (rule logs_if, rule logs_throw, simp, rule logs_if, rule logs_throw, simp)
    apply (rule logs_bindE [where R = "\<lambda>_ l. tenant_ok (k_lib k) t l \<and>
        (case r of None \<Rightarrow> EvGetFailed [] (nsOf t) True \<in> set l | Some n \<Rightarrow> EvGot [] (nsOf t) (ONs n) \<in> set l)"])
     apply (rule logs_liftE; simp)
    apply (rule logs_if)
     apply (rule logs_bindE [where R = "\<lambda>_ l. tenant_ok (k_lib k) t l \<and> ns_written (set l)"])
      apply (rule log_rules; auto simp: tenant_rule_def ns_written_def)
     apply (rule logs_ret, assumption)
    apply (rule logs_bindE [where R = "\<lambda>_ l. tenant_ok (k_lib k) t l \<and> ns_written (set l)"])
     apply (rule log_rules; auto simp: tenant_rule_def ns_written_def)
    apply (rule logs_ret, assumption)
    done
  done

text \<open>
  Provisioning a tenant never takes over a namespace: it is created only when there was none,
  updated only when it was read as controlled by the tenant and not terminating, and never deleted;
  the quota, the defaults, the policies and the role binding are all written inside that namespace, and
  only after it was written with success; so is the report that the tenant is active.
\<close>

theorem tenantProvision_owns: "guarded (tenant_rule (k_lib k) t) (trace (tenantProvision (logging k) C t) w)"
proof (rule trace_guarded)
  let ?I = "tenant_ok (k_lib k) t"
  show "logs ?I (tenantProvision (logging k) C t) (\<lambda>_. ?I) (\<lambda>_. ?I)"
    unfolding tenantProvision_def Let_def
    apply (rule logs_bindE [where R = "\<lambda>r l. ?I l \<and> (r = Inr () \<longrightarrow> ns_written (set l))"])
     apply (rule logs_attempt, rule logs_post [OF reconcileNamespace_logs]; simp)
    apply (rule logs_case_sum, rule setStatus_logs, simp)
    apply (rule logs_bindE [where R = "\<lambda>_ l. ?I l \<and> ns_written (set l)"])
     apply (rule logs_attempt, rule logs_pre [OF steps_logs]; simp)
    apply (rule logs_case_sum; rule setStatus_logs; simp)
    done
qed

section \<open>A namespace is deleted only when it is empty\<close>

text \<open>The three lists of what keeps a namespace, all answered empty.\<close>

definition emptied :: "tenant \<Rightarrow> event set \<Rightarrow> bool" where
  "emptied t S \<longleftrightarrow> EvListed ''GameServer'' (Some (nsOf t)) [] [] \<in> S \<and>
     EvListed ''GameServerBackup'' (Some (nsOf t)) [] [] \<in> S \<and>
     EvListed ''GameServerRestore'' (Some (nsOf t)) [] [] \<in> S"

text \<open>The namespace is gone, not the tenant's, terminating already, or its deletion was asked for.\<close>

definition ns_left :: "klib \<Rightarrow> tenant \<Rightarrow> event set \<Rightarrow> bool" where
  "ns_left L t S \<longleftrightarrow> EvGetFailed [] (nsOf t) True \<in> S \<or> (\<exists>n. EvGot [] (nsOf t) (ONs n) \<in> S \<and>
     (\<not> lib_is_controlled_by L (ns_meta n) (tn_meta t) \<or> is_deleting (ns_meta n) \<or> (\<exists>ok. EvDelete (ONs n) ok \<in> S)))"

definition tenant_delete_rule :: "klib \<Rightarrow> tenant \<Rightarrow> event set \<Rightarrow> event \<Rightarrow> bool" where
  "tenant_delete_rule L t before e \<longleftrightarrow>
     (\<forall>x ok. e = EvDelete x ok \<longrightarrow> (\<exists>n. x = ONs n \<and> emptied t before \<and> EvGot [] (nsOf t) (ONs n) \<in> before \<and>
        lib_is_controlled_by L (ns_meta n) (tn_meta t) \<and> \<not> is_deleting (ns_meta n))) \<and>
     (\<forall>x ok. e = EvUpdate x ok \<longrightarrow>
        x = OTenant (t\<lparr>tn_meta := lib_remove_finalizer L (tn_meta t) TenantFinalizer\<rparr>) \<and>
        emptied t before \<and> ns_left L t before) \<and>
     (\<forall>x ok. e \<noteq> EvCreate x ok) \<and> (\<forall>x ok. e \<noteq> EvEnsure x ok) \<and>
     (\<forall>t' ok. e = EvStatusUpdate (OTenant t') ok \<longrightarrow> tst_phase (tn_status t') = TnTerminating)"

lemma tenantDelete_logs:
  fixes k t
  defines "G \<equiv> guarded (tenant_delete_rule (k_lib k) t)"
  shows "logs G (tenantDelete (logging k) t) (\<lambda>_. G) (\<lambda>_. G)"
proof -
  let ?L = "\<lambda>kd xs S. EvListed kd (Some (nsOf t)) [] xs \<in> S"
  have st: "logs G (setStatus (logging k) t TnTerminating ready reason None m) (\<lambda>_. G) (\<lambda>_. G)" for ready reason m
    unfolding setStatus_def logging_kinds option.case
    apply (rule logs_bindE [where R = "\<lambda>_. G"], rule logs_gets, assumption)
    apply (rule logs_bindE [where R = "\<lambda>_. G"])
     apply (rule log_rules; simp add: tenant_delete_rule_def withTenantStatus_def G_def)
    apply (rule logs_ret, assumption)
    done
  show ?thesis
    unfolding tenantDelete_def Let_def logging_kinds k_lib_logging
    apply (rule logs_if, rule logs_ret, assumption)
    apply (rule logs_bindE [where R = "\<lambda>xs l. G l \<and> ?L ''GameServer'' (map OGs xs) (set l)"])
     apply (rule log_rules; simp add: tenant_delete_rule_def G_def)
    subgoal for servers
    apply (rule logs_bindE [where R = "\<lambda>xs l. G l \<and> ?L ''GameServer'' (map OGs servers) (set l) \<and>
        ?L ''GameServerBackup'' (map OBackup xs) (set l)"])
     apply (rule log_rules; simp add: tenant_delete_rule_def G_def)
    subgoal for backups
    apply (rule logs_bindE [where R = "\<lambda>xs l. G l \<and> ?L ''GameServer'' (map OGs servers) (set l) \<and>
        ?L ''GameServerBackup'' (map OBackup backups) (set l) \<and> ?L ''GameServerRestore'' (map ORestore xs) (set l)"])
     apply (rule log_rules; simp add: tenant_delete_rule_def G_def)
    subgoal for restores
    apply (rule logs_if)
     apply (rule logs_bindE [where R = "\<lambda>_. G"], rule logs_pre [OF st], simp, rule logs_ret, assumption)
    apply (rule logs_pre [where P' = "\<lambda>l. G l \<and> emptied t (set l)"])
     apply (rule logs_bindE [where R = "\<lambda>r l. G l \<and> emptied t (set l) \<and>
        (case r of None \<Rightarrow> EvGetFailed [] (nsOf t) True \<in> set l | Some n \<Rightarrow> EvGot [] (nsOf t) (ONs n) \<in> set l)"])
      apply (rule logs_found_or_none, rule log_rules; simp add: tenant_delete_rule_def emptied_def G_def)
    subgoal for r
      apply (rule logs_bindE [where R = "\<lambda>_ l. G l \<and> emptied t (set l) \<and> ns_left (k_lib k) t (set l)"])
       apply (rule logs_case_option, rule logs_ret, simp add: ns_left_def)
       apply (rule logs_if)
        apply (rule logs_ignoring, rule log_rules; auto simp: tenant_delete_rule_def emptied_def ns_left_def G_def)
       apply (rule logs_ret, auto simp: ns_left_def)[1]
      apply (rule logs_bindE [where R = "\<lambda>_. G"])
       apply (rule log_rules; auto simp: tenant_delete_rule_def G_def)
      apply (rule logs_ret, assumption)
      done
    apply (auto simp: emptied_def)
    done done done done
qed

text \<open>
  C3: deleting a tenant deletes nothing but its namespace, which was read as controlled by the tenant, and only after
  the game servers, the backups and the restores of that namespace were all listed and found absent in the
  same pass; the finalizer is removed only after that too, and only when the namespace is gone, is not
  the tenant's, is terminating, or its deletion was asked for.
\<close>

theorem tenantDelete_empties: "guarded (tenant_delete_rule (k_lib k) t) (trace (tenantDelete (logging k) t) w)"
  by (rule trace_guarded, rule tenantDelete_logs)

section \<open>What the policies of a tenant let through\<close>

text \<open>
  What a NetworkPolicy means, as the API documents it: the other end of a connection is an address and,
  when it is a Pod, its namespace with its labels and its own labels. \<open>inCIDR\<close> is whether an
  address lies in a block.
\<close>

record endpoint =
  ep_ip :: string
  ep_pod :: "(string \<times> smap \<times> smap) option" \<comment> \<open>namespace, its labels, the Pod's labels\<close>

fun peer_matches :: "(string \<Rightarrow> string \<Rightarrow> bool) \<Rightarrow> string \<Rightarrow> np_peer \<Rightarrow> endpoint \<Rightarrow> bool" where
  "peer_matches inCIDR ns (PodPeer sel) ep = (case ep_pod ep of None \<Rightarrow> False
     | Some (pns, nsl, pl) \<Rightarrow> pns = ns \<and> sel \<subseteq>\<^sub>m pl)"
| "peer_matches inCIDR ns (NamespacePeer sel) ep = (case ep_pod ep of None \<Rightarrow> False
     | Some (pns, nsl, pl) \<Rightarrow> sel \<subseteq>\<^sub>m nsl)"
| "peer_matches inCIDR ns (IPBlockPeer cidr except) ep =
     (inCIDR cidr (ep_ip ep) \<and> \<not> list_ex (\<lambda>c. inCIDR c (ep_ip ep)) except)"

definition rule_matches :: "(string \<Rightarrow> string \<Rightarrow> bool) \<Rightarrow> string \<Rightarrow> endpoint \<Rightarrow> protocol \<Rightarrow> int \<Rightarrow> np_rule \<Rightarrow> bool" where
  "rule_matches inCIDR ns ep proto port r \<longleftrightarrow>
     (npr_peers r = [] \<or> list_ex (\<lambda>p. peer_matches inCIDR ns p ep) (npr_peers r)) \<and>
     (npr_ports r = [] \<or> (proto, port) \<in> set (npr_ports r))"

text \<open>A Pod no policy of the direction selects is open; otherwise one of their rules has to match.\<close>

definition traffic_allowed ::
  "(string \<Rightarrow> string \<Rightarrow> bool) \<Rightarrow> netpol list \<Rightarrow> policy_type \<Rightarrow> string \<Rightarrow> smap \<Rightarrow> endpoint \<Rightarrow> protocol \<Rightarrow> int \<Rightarrow> bool" where
  "traffic_allowed inCIDR pols dir ns labels ep proto port =
     (let sel = filter (\<lambda>np. om_namespace (np_meta np) = ns \<and> np_selector (np_spec np) \<subseteq>\<^sub>m labels \<and>
                dir \<in> set (np_types (np_spec np))) pols;
          rules = concat (map (\<lambda>np. if dir = Egress then np_egress (np_spec np) else np_ingress (np_spec np)) sel)
      in sel = [] \<or> list_ex (rule_matches inCIDR ns ep proto port) rules)"

definition same_ns :: "string \<Rightarrow> endpoint \<Rightarrow> bool" where
  "same_ns ns ep = (case ep_pod ep of None \<Rightarrow> False | Some (pns, _) \<Rightarrow> pns = ns)"

text \<open>The name a namespace carries as a label, set by the API server.\<close>

definition in_ns_named :: "string \<Rightarrow> endpoint \<Rightarrow> bool" where
  "in_ns_named name ep = (case ep_pod ep of None \<Rightarrow> False
     | Some (_, nsl, _) \<Rightarrow> nsl ''kubernetes.io/metadata.name'' = Some name)"

lemma peer_matches_pods [simp]:
  "peer_matches inCIDR ns (PodPeer Map.empty) ep = same_ns ns ep"
  "peer_matches inCIDR ns (inNamespace name) ep = in_ns_named name ep"
  by (auto simp: same_ns_def in_ns_named_def inNamespace_def map_le_def split: option.splits prod.splits)

lemmas traffic_simps = traffic_allowed_def tenantNetworkPolicies_def np_of_def new_meta_def rule_matches_def


end
