(* ===== verification/Webhooks.thy ===== *)
theory Webhooks
  imports GameServer_Pod Image_Policy Schedule_Spec Samples
begin

text \<open>
  The validating webhooks of \<open>internal/webhook/v1alpha1\<close>: what the API server asks the operator before
  it stores a GameServer, an Egg, a GameServerRestore or a GameServerSchedule. \<open>Inr\<close> admits, \<open>Inl\<close>
  denies with the error; no webhook returns warnings.
\<close>

definition prefixMsgs :: "string \<Rightarrow> msg list \<Rightarrow> go_err" where
  "prefixMsgs field ms = (case joinMsgs ms of Msg f as \<Rightarrow> MsgErr (Msg (field @ f) as))"

definition denyIf :: "bool \<Rightarrow> go_err \<Rightarrow> go_err + unit" where
  "denyIf c e = (if c then Inl e else Inr ())"

section \<open>GameServer\<close>

definition validateDisplayName :: "string \<Rightarrow> go_err + unit" where
  "validateDisplayName name =
     denyIf (hasControl name) (MsgErr (Msg ''spec.displayName: must not contain control characters'' []))"

definition validateStartCommand :: "egg \<Rightarrow> gameserver \<Rightarrow> go_err + unit" where
  "validateStartCommand e gs =
     (let msgs = ValidateStartCommand e (gss_start_command (gs_spec gs))
      in denyIf (msgs \<noteq> []) (prefixMsgs ''spec.startCommand: '' msgs))"

definition validateImage :: "egg \<Rightarrow> gameserver \<Rightarrow> go_err + unit" where
  "validateImage e gs = denyIf (ResolveImage e (gss_image_name (gs_spec gs)) = None)
     (MsgErr (Msg ''spec.imageName: egg %q does not declare image %q''
        [AStr (om_name (egg_meta e)), AStr (gss_image_name (gs_spec gs))]))"

definition validateExtraPorts :: "egg \<Rightarrow> gameserver \<Rightarrow> go_err + unit" where
  "validateExtraPorts e gs =
     (let msgs = ValidateExtraPorts e (gss_extra_ports (gs_spec gs))
      in denyIf (msgs \<noteq> []) (prefixMsgs ''spec.extraPorts: '' msgs))"

definition validateVariables :: "klib \<Rightarrow> egg \<Rightarrow> gameserver \<Rightarrow> go_err + unit" where
  "validateVariables L e gs =
     (let msgs = ValidateVariableOverrides L e (gss_variables (gs_spec gs))
      in denyIf (msgs \<noteq> []) (prefixMsgs ''spec.variables: '' msgs))"

definition lookupEgg :: "'w k8s \<Rightarrow> gameserver \<Rightarrow> ('w, egg) io" where
  "lookupEgg k gs =
     (let ns = EggNamespace gs; name = er_name (gss_egg_ref (gs_spec gs));
          wher = (if er_scope (gss_egg_ref (gs_spec gs)) = ScopeCatalog then Msg ''the global catalog'' []
                  else Msg ''namespace %q'' [AStr ns]) in
      bindE (attempt (r_get (k_egg k) ns name)) (\<lambda>r. case r of
        Inl err \<Rightarrow> if is_not_found err
          then throw (case wher of Msg f as \<Rightarrow> MsgErr (Msg (''spec.eggRef.name: egg %q not found in '' @ f) (AStr name # as)))
          else throw (Wrapped ''spec.eggRef.name: looking up egg %q: '' err)
      | Inr e \<Rightarrow> ret e))"

definition gsValidateCreate :: "'w k8s \<Rightarrow> gameserver \<Rightarrow> ('w, unit) io" where
  "gsValidateCreate k gs =
     bindE (lookupEgg k gs) (\<lambda>e.
     thenE (liftE (validateDisplayName (gss_display_name (gs_spec gs))))
     (thenE (liftE (validateImage e gs))
     (thenE (liftE (validateStartCommand e gs))
     (if gss_suspended (gs_spec gs) \<and> gss_state (gs_spec gs) = StateRunning
      then throw (MsgErr (Msg ''spec.state: a suspended GameServer cannot be Running'' []))
      else thenE (liftE (validateExtraPorts e gs)) (liftE (validateVariables (k_lib k) e gs))))))"

text \<open>What depends on the Egg is checked again only when the part of the spec it is about changed.\<close>

definition recheckEgg :: "'w k8s \<Rightarrow> gameserver \<Rightarrow> gameserver \<Rightarrow> ('w, unit) io" where
  "recheckEgg k old new =
     (let varsChanged = gss_variables (gs_spec old) \<noteq> gss_variables (gs_spec new);
          imageChanged = gss_image_name (gs_spec old) \<noteq> gss_image_name (gs_spec new);
          cmdChanged = gss_start_command (gs_spec old) \<noteq> gss_start_command (gs_spec new);
          portsChanged = gss_extra_ports (gs_spec old) \<noteq> gss_extra_ports (gs_spec new);
          check = (\<lambda>c r. if c then liftE r else ret ()) in
      if varsChanged \<or> imageChanged \<or> cmdChanged \<or> portsChanged then
        bindE (lookupEgg k new) (\<lambda>e.
        thenE (check imageChanged (validateImage e new))
        (thenE (check (cmdChanged \<or> varsChanged) (validateStartCommand e new))
        (thenE (check portsChanged (validateExtraPorts e new))
        (check varsChanged (validateVariables (k_lib k) e new)))))
      else ret ())"

definition gsValidateUpdate :: "'w k8s \<Rightarrow> gameserver \<Rightarrow> gameserver \<Rightarrow> ('w, unit) io" where
  "gsValidateUpdate k old new =
     (if gss_state (gs_spec new) = StateRunning \<and> sget (om_annotations (gs_meta new)) RestoringAnnotation = ''true'' then
        throw (MsgErr (Msg ''spec.state: cannot start this GameServer while a restore is in progress'' []))
      else if gss_suspended (gs_spec new) \<and> gss_state (gs_spec new) = StateRunning then
        throw (MsgErr (Msg ''spec.state: cannot start this GameServer while it is suspended'' []))
      else thenE (liftE (validateDisplayName (gss_display_name (gs_spec new)))) (recheckEgg k old new))"

section \<open>Egg\<close>

text \<open>The defaults with the tenant's extras, and whether the namespace is a tenant's.\<close>

definition AllowedRegistriesFor :: "'w k8s \<Rightarrow> string \<Rightarrow> string list \<Rightarrow> ('w, string list \<times> bool) io" where
  "AllowedRegistriesFor k ns defaults =
     bindE (r_get (k_ns k) [] ns) (\<lambda>n.
       let tenantName = sget (om_labels (ns_meta n)) LabelTenant in
       if tenantName = [] then ret ([], False)
       else bindE (found_or_none (r_get (k_tenant k) [] tenantName)) (\<lambda>r. case r of
         None \<Rightarrow> ret (defaults, True)
       | Some t \<Rightarrow> ret (defaults @ tq_extra_registries (tn_quota t), True)))"

definition eggValidate :: "'w k8s \<Rightarrow> string list \<Rightarrow> egg \<Rightarrow> ('w, unit) io" where
  "eggValidate k defaults e =
     (let msgs = Validate (k_lib k) (egg_spec e) in
      if msgs \<noteq> [] then throw (prefixMsgs [] msgs)
      else if defaults = [] \<or> om_namespace (egg_meta e) = CatalogNamespace then ret ()
      else bindE (AllowedRegistriesFor k (om_namespace (egg_meta e)) defaults) (\<lambda>(allowed, isTenant).
        if \<not> isTenant then ret ()
        else let denied = filter (\<lambda>img. \<not> ImageAllowed img allowed) (ImageRefs (egg_spec e)) in
          if denied \<noteq> [] then
            throw (MsgErr (Msg ''image(s) %s are not from an allowed registry (allowed: %s)''
              [AStr (joinStr '', '' denied), AStr (joinStr '', '' allowed)]))
          else ret ()))"

section \<open>GameServerRestore and GameServerSchedule\<close>

definition phase_str :: "backup_phase \<Rightarrow> string" where
  "phase_str p = (case p of BkUnset \<Rightarrow> [] | BkPending \<Rightarrow> ''Pending'' | BkRunning \<Rightarrow> ''Running''
     | BkCompleted \<Rightarrow> ''Completed'' | BkFailed \<Rightarrow> ''Failed'' | BkDeleting \<Rightarrow> ''Deleting'')"

definition state_str :: "gs_state \<Rightarrow> string" where
  "state_str s = (case s of StateUnset \<Rightarrow> [] | StateRunning \<Rightarrow> ''Running'' | StateStopped \<Rightarrow> ''Stopped'')"

text \<open>A lookup whose NotFound is answered with a message of its own.\<close>

definition orNotFound :: "go_err \<Rightarrow> ('w, 'a) io \<Rightarrow> ('w, 'a) io" where
  "orNotFound e m = bindE (attempt m) (\<lambda>r. case r of
     Inl err \<Rightarrow> throw (if is_not_found err then e else err) | Inr x \<Rightarrow> ret x)"

definition restoreValidateCreate :: "'w k8s \<Rightarrow> restore \<Rightarrow> ('w, unit) io" where
  "restoreValidateCreate k r =
     (let ns = om_namespace (rs_meta r); gsName = rss_gameserver (rs_spec r); bkName = rss_backup (rs_spec r) in
      bindE (orNotFound (MsgErr (Msg ''spec.gameServerRef.name: gameserver %q not found'' [AStr gsName]))
          (r_get (k_gs k) ns gsName)) (\<lambda>gs.
      if gss_state (gs_spec gs) \<noteq> StateStopped then
        throw (MsgErr (Msg ''spec.gameServerRef.name: gameserver %q must be Stopped before it can be restored (current state: %s)''
          [AStr (om_name (gs_meta gs)), AStr (state_str (gss_state (gs_spec gs)))]))
      else if sget (om_annotations (gs_meta gs)) RestoringAnnotation = ''true'' then
        throw (MsgErr (Msg ''spec.gameServerRef.name: gameserver %q already has a restore in progress'' [AStr (om_name (gs_meta gs))]))
      else bindE (orNotFound (MsgErr (Msg ''spec.backupRef.name: backup %q not found'' [AStr bkName]))
          (r_get (k_backup k) ns bkName)) (\<lambda>b.
        if bst_phase (bk_status b) \<noteq> BkCompleted then
          throw (MsgErr (Msg ''spec.backupRef.name: backup %q has not completed (phase: %q)''
            [AStr (om_name (bk_meta b)), AStr (phase_str (bst_phase (bk_status b)))]))
        else ret ())))"

definition scheduleSpecOk :: "klib \<Rightarrow> schedule_spec \<Rightarrow> go_err + unit" where
  "scheduleSpecOk L spec = (let msgs = ValidateSchedule L spec in denyIf (msgs \<noteq> []) (prefixMsgs [] msgs))"

definition scheduleValidateCreate :: "'w k8s \<Rightarrow> schedule \<Rightarrow> ('w, unit) io" where
  "scheduleValidateCreate k s =
     (let gsName = scs_gameserver (sch_spec s) in
      thenE (orNotFound (MsgErr (Msg ''spec.gameServerRef.name: gameserver %q not found'' [AStr gsName]))
          (r_get (k_gs k) (om_namespace (sch_meta s)) gsName))
        (liftE (scheduleSpecOk (k_lib k) (sch_spec s))))"

definition scheduleValidateUpdate :: "klib \<Rightarrow> schedule \<Rightarrow> schedule \<Rightarrow> go_err + unit" where
  "scheduleValidateUpdate L old new = scheduleSpecOk L (sch_spec new)"

section \<open>Lemmas\<close>

lemma denyIf_Inr [simp]: "denyIf c e = Inr u \<longleftrightarrow> \<not> c"
  by (simp add: denyIf_def)

lemma io_effects:
  "liftE r w = (r, w)" "ret x w = (Inr x, w)" "throw e w = (Inl e, w)" "attempt m w = (Inr (fst (m w)), snd (m w))"
  by (auto simp: liftE_def ret_def throw_def attempt_def split: prod.splits)

lemmas io_run = fst_bindE io_effects

lemma orNotFound_run: "orNotFound e m w = (Inr x, w') \<longleftrightarrow> m w = (Inr x, w')"
  by (cases "m w") (auto simp: orNotFound_def bindE_def attempt_def throw_def ret_def split: sum.splits)

lemma lookupEgg_run: "lookupEgg k gs w = (Inr e, w') \<longleftrightarrow>
    r_get (k_egg k) (EggNamespace gs) (er_name (gss_egg_ref (gs_spec gs))) w = (Inr e, w')"
  by (cases "r_get (k_egg k) (EggNamespace gs) (er_name (gss_egg_ref (gs_spec gs))) w")
    (auto simp: lookupEgg_def Let_def bindE_def attempt_def throw_def ret_def split: sum.splits)

lemmas check_defs = validateDisplayName_def validateImage_def validateStartCommand_def validateExtraPorts_def
  validateVariables_def Let_def

lemma gsValidateCreate_iff:
  "fst (gsValidateCreate k gs w) = Inr () \<longleftrightarrow> (\<exists>e w'.
     r_get (k_egg k) (EggNamespace gs) (er_name (gss_egg_ref (gs_spec gs))) w = (Inr e, w') \<and>
     \<not> hasControl (gss_display_name (gs_spec gs)) \<and> ResolveImage e (gss_image_name (gs_spec gs)) \<noteq> None \<and>
     ValidateStartCommand e (gss_start_command (gs_spec gs)) = [] \<and>
     \<not> (gss_suspended (gs_spec gs) \<and> gss_state (gs_spec gs) = StateRunning) \<and>
     ValidateExtraPorts e (gss_extra_ports (gs_spec gs)) = [] \<and>
     ValidateVariableOverrides (k_lib k) e (gss_variables (gs_spec gs)) = [])"
  unfolding gsValidateCreate_def
  by (auto simp: io_run lookupEgg_run check_defs)

section \<open>An admitted server can be built\<close>

lemma buildPod_total:
  assumes "ValidateVariableOverrides L' e (gss_variables (gs_spec gs)) = []" and "ResolveImage e (gss_image_name (gs_spec gs)) \<noteq> None"
  shows "\<exists>p. buildPod L ord gs e agent = Inr p"
  using resolveVariables_ok [OF assms(1)] assms(2) by (auto simp: buildPod_def Let_def)

lemma ValidateStartCommand_declared:
  assumes "ValidateStartCommand e cmd = []"
  shows "\<not> hasControl cmd \<and> set (placeholders cmd) \<subseteq> ev_var_name ` set (es_variables (egg_spec e))"
proof (cases "cmd = []")
  case True then show ?thesis by simp
next
  case False
  with assms show ?thesis
    by (auto simp: ValidateStartCommand_def undeclared_Nil dest: firstBadRune_control split: if_splits option.splits)
qed


section \<open>Updates and restores\<close>

lemma recheckEgg_unchanged:
  assumes "gss_variables (gs_spec old) = gss_variables (gs_spec new)" and "gss_image_name (gs_spec old) = gss_image_name (gs_spec new)"
    and "gss_start_command (gs_spec old) = gss_start_command (gs_spec new)" and "gss_extra_ports (gs_spec old) = gss_extra_ports (gs_spec new)"
  shows "recheckEgg k old new = ret ()"
  by (simp add: recheckEgg_def assms)

definition restoring :: "gameserver \<Rightarrow> bool" where
  "restoring gs \<longleftrightarrow> sget (om_annotations (gs_meta gs)) RestoringAnnotation = ''true''"

text \<open>What the API server may store of one server: what a create or an update admits.\<close>

inductive stored :: "'w k8s \<Rightarrow> gameserver \<Rightarrow> bool" for k where
  created: "\<lbrakk>fst (gsValidateCreate k gs w) = Inr (); \<not> restoring gs\<rbrakk> \<Longrightarrow> stored k gs"
| updated: "\<lbrakk>stored k old; fst (gsValidateUpdate k old new w) = Inr ()\<rbrakk> \<Longrightarrow> stored k new"

lemma gsValidateUpdate_admits:
  "fst (gsValidateUpdate k old new w) = Inr () \<Longrightarrow>
     \<not> hasControl (gss_display_name (gs_spec new)) \<and>
     (gss_state (gs_spec new) \<noteq> StateRunning \<or> \<not> restoring new \<and> \<not> gss_suspended (gs_spec new))"
  by (auto simp: gsValidateUpdate_def io_run validateDisplayName_def restoring_def split: if_splits)


text \<open>
  An update that changes only metadata or status is admitted without reading anything, so a
  changed or deleted Egg never stops the controller from writing its annotations and finalizers to a stored server.
\<close>

theorem gsValidateUpdate_metadata:
  assumes "stored k gs" and "gs_spec new = gs_spec gs" and "restoring new \<longrightarrow> gss_state (gs_spec gs) \<noteq> StateRunning"
  shows "gsValidateUpdate k gs new w = (Inr (), w)"
proof -
  have "gss_state (gs_spec gs) \<noteq> StateRunning \<or> \<not> gss_suspended (gs_spec gs)" "\<not> hasControl (gss_display_name (gs_spec gs))"
    using assms(1) by (cases rule: stored.cases; auto simp: gsValidateCreate_iff dest: gsValidateUpdate_admits)+
  with assms(2,3) show ?thesis
    by (auto simp: gsValidateUpdate_def recheckEgg_unchanged restoring_def validateDisplayName_def denyIf_def
        bindE_def liftE_def ret_def)
qed

text \<open>
  A restore is admitted exactly when its server exists, is stopped and holds no restore lock, and
  its backup exists and has completed, as the two lookups answer in this order.
\<close>

theorem restoreValidateCreate_iff:
  "fst (restoreValidateCreate k r w) = Inr () \<longleftrightarrow> (\<exists>gs w1 b w2.
     r_get (k_gs k) (om_namespace (rs_meta r)) (rss_gameserver (rs_spec r)) w = (Inr gs, w1) \<and>
     gss_state (gs_spec gs) = StateStopped \<and> \<not> restoring gs \<and>
     r_get (k_backup k) (om_namespace (rs_meta r)) (rss_backup (rs_spec r)) w1 = (Inr b, w2) \<and>
     bst_phase (bk_status b) = BkCompleted)"
  by (auto simp: restoreValidateCreate_def Let_def io_run orNotFound_run restoring_def)

section \<open>Images\<close>

lemma AllowedRegistriesFor_run:
  "AllowedRegistriesFor k ns defaults w = (Inr (allowed, True), w') \<Longrightarrow> set defaults \<subseteq> set allowed"
  by (auto simp: AllowedRegistriesFor_def Let_def bindE_def ret_def split: prod.splits sum.splits if_splits option.splits)

text \<open>The registries of a namespace as the objects read at the same moment say.\<close>

definition tenant_registries :: "tenant option \<Rightarrow> string list" where
  "tenant_registries t = (case t of None \<Rightarrow> [] | Some x \<Rightarrow> tq_extra_registries (tn_quota x))"

lemma eggValidate_run:
  assumes ok: "fst (eggValidate k defaults e w) = Inr ()" and d: "defaults \<noteq> []"
    and ns: "om_namespace (egg_meta e) \<noteq> CatalogNamespace"
    and n: "r_get (k_ns k) [] (om_namespace (egg_meta e)) w = (Inr n, w1)"
    and l: "sget (om_labels (ns_meta n)) LabelTenant \<noteq> []"
  shows "\<exists>t w2. found_or_none (r_get (k_tenant k) [] (sget (om_labels (ns_meta n)) LabelTenant)) w1 = (Inr t, w2) \<and>
    (\<forall>img \<in> set (ImageRefs (egg_spec e)). ImageAllowed img (defaults @ tenant_registries t))"
proof -
  from ok d ns obtain allowed isT w2 where A: "AllowedRegistriesFor k (om_namespace (egg_meta e)) defaults w = (Inr (allowed, isT), w2)"
    and B: "isT \<longrightarrow> (\<forall>img \<in> set (ImageRefs (egg_spec e)). ImageAllowed img allowed)"
    by (auto simp: eggValidate_def Let_def io_run filter_empty_conv split: if_splits)
  from A n l show ?thesis using B
    by (auto simp: AllowedRegistriesFor_def Let_def bindE_def ret_def tenant_registries_def
        split: prod.splits sum.splits option.splits)
qed


text \<open>A kind that cannot be read: every get fails.\<close>

definition unreadable :: "('o, 'w) rest \<Rightarrow> bool" where
  "unreadable R \<longleftrightarrow> (\<forall>ns n w. \<exists>e w'. r_get R ns n w = (Inl e, w'))"

lemma unreadableD: "unreadable R \<Longrightarrow> r_get R ns n w \<noteq> (Inr x, w')"
  unfolding unreadable_def by (metis Inl_Inr_False Pair_inject)


section \<open>Concrete instances\<close>

text \<open>A cluster with one Egg, in a namespace labelled with a tenant that does not exist any more.\<close>

definition hook_ns :: namespace where
  "hook_ns = \<lparr>ns_meta = (new_meta ''hatchery-acme'' [])\<lparr>om_labels := [LabelTenant \<mapsto> ''acme'']\<rparr>\<rparr>"

definition hook_k8s :: "unit k8s" where
  "hook_k8s = absent_k8s\<lparr>k_egg := absent_rest\<lparr>r_get := (\<lambda>ns n. ret ex_egg)\<rparr>,
     k_ns := absent_rest\<lparr>r_get := (\<lambda>ns n. ret hook_ns)\<rparr>\<rparr>"

definition tenant_egg :: egg where
  "tenant_egg = ex_egg\<lparr>egg_meta := new_meta ''minecraft'' ''hatchery-acme''\<rparr>"

lemma hook_created: "fst (gsValidateCreate hook_k8s ex_gs ()) = Inr ()"
proof -
  have "succeeded (fst (gsValidateCreate hook_k8s ex_gs ()))" by code_simp
  then show ?thesis by (auto elim: succeededE)
qed

lemma hook_stored: "stored hook_k8s ex_gs"
proof (rule stored.created [OF hook_created])
  show "\<not> restoring ex_gs" by code_simp
qed



theorem gsValidateUpdate_metadata_witness:
  "gsValidateUpdate hook_k8s ex_gs (ex_gs\<lparr>gs_meta := (gs_meta ex_gs)\<lparr>om_finalizers := [''f'']\<rparr>\<rparr>) () = (Inr (), ())"
proof (rule gsValidateUpdate_metadata [OF hook_stored])
  show "restoring (ex_gs\<lparr>gs_meta := (gs_meta ex_gs)\<lparr>om_finalizers := [''f'']\<rparr>\<rparr>) \<longrightarrow> gss_state (gs_spec ex_gs) \<noteq> StateRunning"
    by code_simp
qed simp


lemma unreadable_absent: "unreadable absent_rest"
  by (simp add: unreadable_def absent_rest_def throw_def)


end
