(* ===== verification/Go_Strconv.thy ===== *)
theory Go_Strconv
  imports Go_Strings
begin

text \<open>
  \<open>strconv.ParseUint\<close>, \<open>ParseInt\<close> and \<open>Atoi\<close> in base 10 with their bounds, and \<open>strings.SplitN(s, sep, 2)\<close>
  on a one-byte separator: how the operator and the panel read numbers out of flags, requests and addresses.
\<close>

datatype num_err = ErrSyntax | ErrRange

definition digitVal :: "char \<Rightarrow> nat" where
  "digitVal c = of_char c - 48"

fun parseDigits :: "nat \<Rightarrow> nat \<Rightarrow> string \<Rightarrow> num_err + nat" where
  "parseDigits hi n [] = Inr n"
| "parseDigits hi n (c # s) =
     (if \<not> isDigit c then Inl ErrSyntax
      else if hi < n * 10 + digitVal c then Inl ErrRange
      else parseDigits hi (n * 10 + digitVal c) s)"

definition parseUint :: "nat \<Rightarrow> string \<Rightarrow> num_err + nat" where
  "parseUint bits s = (if s = [] then Inl ErrSyntax else parseDigits (2 ^ bits - 1) 0 s)"

definition parseInt :: "nat \<Rightarrow> string \<Rightarrow> num_err + int" where
  "parseInt bits s =
     (let neg = hasPrefix s ''-''; digits = (if neg \<or> hasPrefix s ''+'' then tl s else s) in
      case parseUint bits digits of
        Inl e \<Rightarrow> Inl e
      | Inr un \<Rightarrow> if \<not> neg \<and> 2 ^ (bits - 1) \<le> un then Inl ErrRange
          else if neg \<and> 2 ^ (bits - 1) < un then Inl ErrRange
          else Inr (if neg then - int un else int un))"

definition atoi :: "string \<Rightarrow> num_err + int" where
  "atoi = parseInt 64"

definition splitN2 :: "string \<Rightarrow> char \<Rightarrow> string list" where
  "splitN2 s c = (case cutByte s c of (before, after, found) \<Rightarrow> if found then [before, after] else [s])"

section \<open>Lemmas\<close>

lemma parseDigits_append:
  "parseDigits hi n (s @ t) = (case parseDigits hi n s of Inl e \<Rightarrow> Inl e | Inr m \<Rightarrow> parseDigits hi m t)"
  by (induction hi n s rule: parseDigits.induct) auto

lemma digitChar_digit:
  "d < 10 \<Longrightarrow> isDigit (digitChar d) \<and> digitVal (digitChar d) = d"
  by (simp add: isDigit_def digitChar_def digitVal_def)

lemma formatNat_digits: "c \<in> set (formatNat 10 n) \<Longrightarrow> isDigit c"
proof (induction n arbitrary: c rule: less_induct)
  case (less n)
  show ?case
  proof (cases "n < 10")
    case True
    with less.prems show ?thesis by (simp add: formatNat.simps [of 10 n] digitChar_digit)
  next
    case False
    with less.prems consider "c \<in> set (formatNat 10 (n div 10))" | "c = digitChar (n mod 10)"
      by (auto simp: formatNat.simps [of 10 n])
    then show ?thesis
      by cases (use False less.IH [of "n div 10"] in \<open>auto simp: digitChar_digit\<close>)
  qed
qed

lemma formatNat_nonempty [simp]: "formatNat b n \<noteq> []"
  by (simp add: formatNat.simps [of b n])

lemma parseDigits_formatNat: "n \<le> hi \<Longrightarrow> parseDigits hi 0 (formatNat 10 n) = Inr n"
proof (induction n rule: less_induct)
  case (less n)
  show ?case
  proof (cases "n < 10")
    case True
    with less.prems show ?thesis by (simp add: formatNat.simps [of 10 n] digitChar_digit)
  next
    case False
    then have "parseDigits hi 0 (formatNat 10 (n div 10)) = Inr (n div 10)"
      using less by (intro less.IH) auto
    with False less.prems show ?thesis
      by (simp add: formatNat.simps [of 10 n] parseDigits_append digitChar_digit)
  qed
qed

lemma parseUint_formatNat: "n < 2 ^ bits \<Longrightarrow> parseUint bits (formatNat 10 n) = Inr n"
  by (simp add: parseUint_def parseDigits_formatNat)

lemma hasPrefix_hd: "s \<noteq> [] \<Longrightarrow> hasPrefix s [c] \<longleftrightarrow> hd s = c"
  by (cases s) (simp_all add: hasPrefix_def)

lemma formatNat_no_sign: "\<not> hasPrefix (formatNat 10 n) ''-''" "\<not> hasPrefix (formatNat 10 n) ''+''"
  using formatNat_digits [of "hd (formatNat 10 n)" n] by (auto simp: hasPrefix_hd isDigit_def)

lemma parseInt_itoa:
  assumes "0 < bits" and "- (2 ^ (bits - 1)) \<le> i" and "i < 2 ^ (bits - 1)"
  shows "parseInt bits (itoa i) = Inr i"
proof -
  have two: "(2 :: nat) ^ (bits - 1) < 2 ^ bits" using assms(1) by simp
  show ?thesis
  proof (cases "i < 0")
    case True
    have le: "nat (- i) \<le> 2 ^ (bits - 1)" using assms(2) by (simp add: nat_le_iff)
    have "parseUint bits (formatNat 10 (nat (- i))) = Inr (nat (- i))"
      by (rule parseUint_formatNat [OF le_less_trans [OF le two]])
    with True le show ?thesis by (simp add: formatInt_def parseInt_def hasPrefix_hd Let_def)
  next
    case False
    have lt: "nat i < 2 ^ (bits - 1)" using assms(3) False by (simp add: nat_less_iff)
    have "parseUint bits (formatNat 10 (nat i)) = Inr (nat i)"
      by (rule parseUint_formatNat [OF less_trans [OF lt two]])
    with False lt show ?thesis by (simp add: formatInt_def parseInt_def formatNat_no_sign Let_def)
  qed
qed

lemma parseInt_bounds:
  "0 < bits \<Longrightarrow> parseInt bits s = Inr i \<Longrightarrow> - (2 ^ (bits - 1)) \<le> i \<and> i < 2 ^ (bits - 1)"
  by (auto simp: parseInt_def Let_def of_nat_less_iff [symmetric] of_nat_le_iff [symmetric]
      simp del: of_nat_less_iff of_nat_le_iff intro: order_trans [of _ 0] le_less_trans [of _ 0] split: sum.splits if_splits)

lemma splitN2_sep: "c \<notin> set a \<Longrightarrow> splitN2 (a @ c # b) c = [a, b]"
proof -
  assume "c \<notin> set a"
  then have "indexByte (a @ c # b) c = Some (length a)" by (induction a) auto
  then show ?thesis by (simp add: splitN2_def cutByte_def)
qed

end
