(* ===== verification/Go_Net.thy ===== *)
theory Go_Net
  imports Go_Strconv
begin

text \<open>
  What the source uses of Go's \<open>net\<close> package: \<open>SplitHostPort\<close>, \<open>ParseIP\<close>, \<open>ParseCIDR\<close>,
  \<open>IPNet.Contains\<close> and \<open>IP.String\<close>. An address is the list of its 16 bytes, as \<open>ParseIP\<close> returns it; an
  IPv4 address is the mapped form, which \<open>To4\<close> recognises.
\<close>

type_synonym ip = "nat list"

section \<open>Parsing\<close>

text \<open>One decimal field of an IPv4 address: no leading zero, at most 255.\<close>

definition octet :: "string \<Rightarrow> nat option" where
  "octet s = (if s = [] \<or> length s > 3 \<or> (length s > 1 \<and> hd s = CHR ''0'') then None
     else case parseDigits 255 0 s of Inl e \<Rightarrow> None | Inr n \<Rightarrow> Some n)"

definition parseIPv4 :: "string \<Rightarrow> nat list option" where
  "parseIPv4 s = (case map octet (splitOn CHR ''.'' s) of
     [Some a, Some b, Some c, Some d] \<Rightarrow> Some [a, b, c, d] | _ \<Rightarrow> None)"

definition v4InV6Prefix :: "nat list" where
  "v4InV6Prefix = replicate 10 0 @ [255, 255]"

definition hexVal :: "char \<Rightarrow> nat option" where
  "hexVal c = (let n = (of_char c :: nat) in
     if 48 \<le> n \<and> n \<le> 57 then Some (n - 48) else if 97 \<le> n \<and> n \<le> 102 then Some (n - 87)
     else if 65 \<le> n \<and> n \<le> 70 then Some (n - 55) else None)"

definition hexRun :: "string \<Rightarrow> string" where
  "hexRun s = takeWhile (\<lambda>c. hexVal c \<noteq> None) s"

definition hexNum :: "string \<Rightarrow> nat" where
  "hexNum s = foldl (\<lambda>n c. n * 16 + (case hexVal c of None \<Rightarrow> 0 | Some d \<Rightarrow> d)) 0 s"

text \<open>The groups of an IPv6 address: the bytes so far, where \<open>::\<close> stood, and the rest of the text.\<close>

function groups6 :: "nat list \<Rightarrow> nat option \<Rightarrow> string \<Rightarrow> (nat list \<times> nat option) option" where
  "groups6 ip el s =
     (if 16 \<le> length ip then (if s = [] then Some (ip, el) else None)
      else let h = hexRun s; r = drop (length h) s in
        if h = [] \<or> length h > 4 then None
        else if hasPrefix r ''.'' then
          (if (el = None \<and> length ip \<noteq> 12) \<or> 12 < length ip then None
           else map_option (\<lambda>v4. (ip @ v4, el)) (parseIPv4 s))
        else let ip' = ip @ [hexNum h div 256, hexNum h mod 256] in
          if r = [] then Some (ip', el)
          else if hd r \<noteq> CHR '':'' \<or> length r = 1 then None
          else if hd (tl r) = CHR '':'' then
            (if el \<noteq> None then None
             else if length r = 2 then Some (ip', Some (length ip'))
             else groups6 ip' (Some (length ip')) (drop 2 r))
          else groups6 ip' el (tl r))"
  by pat_completeness auto
termination
  by (relation "measure (\<lambda>(ip, el, s). length s)") (auto simp: hexRun_def length_drop neq_Nil_conv takeWhile_eq_Nil_iff)

definition expand6 :: "nat list \<times> nat option \<Rightarrow> ip option" where
  "expand6 g = (case g of (bytes, el) \<Rightarrow>
     if length bytes < 16 then
       (case el of None \<Rightarrow> None
        | Some e \<Rightarrow> Some (take e bytes @ replicate (16 - length bytes) 0 @ drop e bytes))
     else if el = None then Some bytes else None)"

text \<open>A zone (\<open>%eth0\<close>) is an address to \<open>netip\<close> and none to \<open>ParseIP\<close>.\<close>

definition parseIPv6 :: "string \<Rightarrow> ip option" where
  "parseIPv6 s =
     (if CHR ''%'' \<in> set s then None
      else if hasPrefix s ''::'' then
        (if s = ''::'' then Some (replicate 16 0) else Option.bind (groups6 [] (Some 0) (drop 2 s)) expand6)
      else Option.bind (groups6 [] None s) expand6)"

datatype addr = V4 "nat list" | V6 "nat list"

definition ParseAddr :: "string \<Rightarrow> addr option" where
  "ParseAddr s = (case find (\<lambda>c. c \<in> {CHR ''.'', CHR '':'', CHR ''%''}) s of
     Some c \<Rightarrow> if c = CHR ''.'' then map_option V4 (parseIPv4 s)
               else if c = CHR '':'' then map_option V6 (parseIPv6 s) else None
   | None \<Rightarrow> None)"

fun as16 :: "addr \<Rightarrow> ip" where
  "as16 (V4 b) = v4InV6Prefix @ b"
| "as16 (V6 b) = b"

definition ParseIP :: "string \<Rightarrow> ip option" where
  "ParseIP s = map_option as16 (ParseAddr s)"

definition To4 :: "ip \<Rightarrow> nat list option" where
  "To4 i = (if length i = 4 then Some i else if take 12 i = v4InV6Prefix \<and> length i = 16 then Some (drop 12 i) else None)"

section \<open>Networks\<close>

text \<open>The network number with as many bytes as its family, and the length of its prefix.\<close>

record ipnet =
  in_bytes :: "nat list"
  in_ones :: nat

definition bits_of :: "nat list \<Rightarrow> bool list" where
  "bits_of bs = concat (map (\<lambda>b. map (\<lambda>i. odd (b div 2 ^ i)) [7, 6, 5, 4, 3, 2, 1, 0]) bs)"

definition maskByte :: "nat \<Rightarrow> nat \<Rightarrow> nat" where
  "maskByte ones b = (if 8 \<le> ones then b else b div 2 ^ (8 - ones) * 2 ^ (8 - ones))"

definition maskIP :: "nat \<Rightarrow> nat list \<Rightarrow> nat list" where
  "maskIP ones bs = map (\<lambda>(i, b). maskByte (ones - 8 * i) b) (enumerate 0 bs)"

definition ParseCIDR :: "string \<Rightarrow> ipnet option" where
  "ParseCIDR s = (case cutByte s CHR ''/'' of (a, m, found) \<Rightarrow>
     if \<not> found then None
     else case ParseAddr a of None \<Rightarrow> None
       | Some ad \<Rightarrow> let b = (case ad of V4 x \<Rightarrow> x | V6 x \<Rightarrow> x) in
         if m = [] \<or> \<not> list_all isDigit m then None
         else case parseDigits 16777214 0 m of Inl e \<Rightarrow> None
           | Inr n \<Rightarrow> if length b * 8 < n then None else Some \<lparr>in_bytes = maskIP n b, in_ones = n\<rparr>)"

text \<open>\<open>Contains\<close> compares the masked bytes of two addresses of one family; a mapped IPv6 address is an IPv4 one.\<close>

definition canon :: "nat list \<Rightarrow> nat list" where
  "canon i = (case To4 i of Some b \<Rightarrow> b | None \<Rightarrow> i)"

definition Contains :: "ipnet \<Rightarrow> ip \<Rightarrow> bool" where
  "Contains n i =
     (let nn = in_bytes n; wasV6 = (length nn = 16); c = canon nn;
          ones = (if wasV6 \<and> length c = 4 then in_ones n - 96 else in_ones n) in
      length (canon i) = length c \<and> take ones (bits_of (canon i)) = take ones (bits_of c))"

section \<open>Printing\<close>

definition ipv4String :: "nat list \<Rightarrow> string" where
  "ipv4String b = joinWith CHR ''.'' (map (formatNat 10) b)"

fun u16s :: "nat list \<Rightarrow> nat list" where
  "u16s (a # b # r) = (a * 256 + b) # u16s r"
| "u16s _ = []"

text \<open>The first longest run of at least two zero groups: where it starts and ends.\<close>

definition zeroRun :: "nat list \<Rightarrow> nat \<times> nat" where
  "zeroRun g = foldl (\<lambda>(zs, ze) i. let l = length (takeWhile (\<lambda>x. x = 0) (drop i g))
     in if 2 \<le> l \<and> ze - zs < l then (i, i + l) else (zs, ze)) (255, 255) [0..<8]"

definition ipv6String :: "nat list \<Rightarrow> string" where
  "ipv6String b = (let g = u16s b; hex = (\<lambda>xs. joinWith CHR '':'' (map (formatNat 16) xs)) in
     case zeroRun g of (zs, ze) \<Rightarrow>
       if zs = 255 then hex g else hex (take zs g) @ ''::'' @ hex (drop ze g))"

definition ipString :: "ip \<Rightarrow> string" where
  "ipString i = (case To4 i of Some b \<Rightarrow> ipv4String b | None \<Rightarrow> ipv6String i)"

section \<open>SplitHostPort\<close>

datatype addr_err = MissingPort | TooManyColons | MissingBracket | UnexpectedOpen | UnexpectedClose

definition SplitHostPort :: "string \<Rightarrow> addr_err + string \<times> string" where
  "SplitHostPort hp = (case lastIndexByte hp CHR '':'' of None \<Rightarrow> Inl MissingPort
   | Some i \<Rightarrow>
     (let finish = (\<lambda>host j k.
        if CHR ''['' \<in> set (drop j hp) then Inl UnexpectedOpen
        else if CHR '']'' \<in> set (drop k hp) then Inl UnexpectedClose
        else Inr (host, drop (Suc i) hp)) in
      if hasPrefix hp ''['' then
        (case indexByte hp CHR '']'' of None \<Rightarrow> Inl MissingBracket
         | Some e \<Rightarrow>
           if Suc e = length hp then Inl MissingPort
           else if Suc e \<noteq> i then (if hp ! Suc e = CHR '':'' then Inl TooManyColons else Inl MissingPort)
           else finish (drop 1 (take e hp)) 1 (Suc e))
      else if CHR '':'' \<in> set (take i hp) then Inl TooManyColons
      else finish (take i hp) 0 0))"

end
