(* ===== verification/Operator_Flags.thy ===== *)
theory Operator_Flags
  imports Go_Net Crash
begin

text \<open>
  \<open>cmd/flags.go\<close>: how the operator reads its flags. A wrong flag stops the operator at boot, so what the
  reconcilers are configured with has passed here.
\<close>

definition parseServiceAccount :: "string \<Rightarrow> go_err + string \<times> string" where
  "parseServiceAccount v =
     (if v = [] then Inr ([], [])
      else case splitOn CHR ''/'' v of
        [ns, name] \<Rightarrow> if ns = [] \<or> name = [] then Inl (MsgErr (Msg ''expected <namespace>/<name>, got %q'' [AStr v]))
                      else Inr (ns, name)
      | _ \<Rightarrow> Inl (MsgErr (Msg ''expected <namespace>/<name>, got %q'' [AStr v])))"

definition splitCSV :: "string \<Rightarrow> string list" where
  "splitCSV v = filter (\<lambda>p. p \<noteq> []) (map trimSpace (splitOn CHR '','' v))"

definition parseCIDRList :: "string \<Rightarrow> go_err + string list" where
  "parseCIDRList v =
     (let cidrs = splitCSV v in
      case find (\<lambda>c. ParseCIDR c = None) cidrs of
        Some c \<Rightarrow> Inl (MsgErr (Msg ''invalid CIDR %q: %w'' [AStr c]))
      | None \<Rightarrow> Inr cidrs)"

definition parseRegistryList :: "string \<Rightarrow> string list" where
  "parseRegistryList s = splitCSV s"

definition crashPolicyFromFlags :: "int \<Rightarrow> duration \<Rightarrow> go_err + crash_policy" where
  "crashPolicyFromFlags limit window =
     (if limit < 1 then Inl (MsgErr (Msg ''--crash-restart-limit must be at least 1, got %d'' [AInt limit]))
      else if window \<le> 0 then Inl (MsgErr (Msg ''--crash-restart-window must be positive, got %s'' [AInt window]))
      else Inr \<lparr>cp_limit = limit, cp_window = window\<rparr>)"

definition envOr :: "(string \<Rightarrow> string) \<Rightarrow> string \<Rightarrow> string \<Rightarrow> string" where
  "envOr getenv key fallback = (if getenv key \<noteq> [] then getenv key else fallback)"

definition parsePublicPortRange :: "string \<Rightarrow> go_err + int \<times> int" where
  "parsePublicPortRange v =
     (if v = [] then Inr (0, 0)
      else case splitN2 v CHR ''-'' of
        [a, b] \<Rightarrow>
          (case parseInt 32 a of
             Inl e \<Rightarrow> Inl (MsgErr (Msg ''invalid min port %q: %w'' [AStr a]))
           | Inr lo \<Rightarrow>
             (case parseInt 32 b of
                Inl e \<Rightarrow> Inl (MsgErr (Msg ''invalid max port %q: %w'' [AStr b]))
              | Inr hi \<Rightarrow>
                if lo \<le> 0 \<or> hi \<le> 0 \<or> hi < lo \<or> 65535 < hi
                then Inl (MsgErr (Msg ''invalid port range %q: must be 1-65535 and min <= max'' [AStr v]))
                else Inr (lo, hi)))
      | _ \<Rightarrow> Inl (MsgErr (Msg ''expected <min>-<max>, got %q'' [AStr v])))"

section \<open>Lemmas\<close>

lemma splitN2_cases: "splitN2 v c = [v] \<or> (\<exists>a b. splitN2 v c = [a, b] \<and> v = a @ c # b \<and> c \<notin> set a)"
proof (cases "indexByte v c")
  case None then show ?thesis by (simp add: splitN2_def cutByte_def)
next
  case (Some i)
  from indexByte_Some [OF Some] have "i < length v" "v ! i = c" "c \<notin> set (take i v)" by auto
  with Some show ?thesis by (auto simp: splitN2_def cutByte_def id_take_nth_drop [symmetric])
qed

lemma dash_not_digit: "CHR ''-'' \<notin> set (formatNat 10 n)"
  using formatNat_digits [of "CHR ''-''" n] by (auto simp: isDigit_def)

text \<open>
  The port range reads back what it is printed as: for every range inside 1 to 65535 the text
  \<open><min>-<max>\<close> is read as that range, and whatever text is accepted gives such a range, or the pair of
  zeros that turns the exposure off, for the empty text only.
\<close>

theorem parsePublicPortRange_roundtrip:
  "(1 \<le> lo \<and> lo \<le> hi \<and> hi \<le> 65535 \<longrightarrow> parsePublicPortRange (itoa lo @ ''-'' @ itoa hi) = Inr (lo, hi)) \<and>
   (parsePublicPortRange v = Inr (a, b) \<longrightarrow> v = [] \<and> a = 0 \<and> b = 0 \<or> v \<noteq> [] \<and> 1 \<le> a \<and> a \<le> b \<and> b \<le> 65535)"
proof (intro conjI impI)
  assume r: "1 \<le> lo \<and> lo \<le> hi \<and> hi \<le> 65535"
  then have "parseInt 32 (itoa lo) = Inr lo" "parseInt 32 (itoa hi) = Inr hi" by (simp_all add: parseInt_itoa)
  moreover have "splitN2 (itoa lo @ ''-'' @ itoa hi) CHR ''-'' = [itoa lo, itoa hi]"
    using r dash_not_digit by (simp add: splitN2_sep formatInt_def)
  ultimately show "parsePublicPortRange (itoa lo @ ''-'' @ itoa hi) = Inr (lo, hi)"
    using r by (simp add: parsePublicPortRange_def)
next
  assume "parsePublicPortRange v = Inr (a, b)"
  then show "v = [] \<and> a = 0 \<and> b = 0 \<or> v \<noteq> [] \<and> 1 \<le> a \<and> a \<le> b \<and> b \<le> 65535"
    using splitN2_cases [of v "CHR ''-''"]
    by (auto simp: parsePublicPortRange_def split: if_splits sum.splits)
qed

text \<open>Every entry of a list is trimmed, not empty and without a comma, in the order of the text.\<close>

lemma splitOn_part: "p \<in> set (splitOn c s) \<Longrightarrow> c \<notin> set p"
  by (induction c s arbitrary: p rule: splitOn.induct) (auto split: if_splits list.splits)

lemma set_trimSpace: "set (trimSpace p) \<subseteq> set p"
  by (auto simp: trimSpace_def dest!: set_dropWhileD)

lemma dropWhile_idem: "dropWhile P (dropWhile P xs) = dropWhile P xs"
  by (induction xs) auto

lemma dropWhile_rev_keeps:
  assumes "dropWhile P xs = xs" shows "dropWhile P (rev (dropWhile P (rev xs))) = rev (dropWhile P (rev xs))"
proof (cases "rev (dropWhile P (rev xs))")
  case (Cons y ys)
  obtain zs where "rev xs = zs @ dropWhile P (rev xs)" by (metis takeWhile_dropWhile_id)
  then have "xs = rev (dropWhile P (rev xs)) @ rev zs" by (metis rev_append rev_rev_ident)
  with Cons have "xs = y # ys @ rev zs" by simp
  with assms have "\<not> P y" by (metis dropWhile_eq_self_iff list.sel(1) list.distinct(1))
  then show ?thesis by (simp add: Cons)
qed (metis dropWhile.simps(1))

lemma trimSpace_idem: "trimSpace (trimSpace s) = trimSpace s"
  by (simp add: trimSpace_def dropWhile_rev_keeps dropWhile_idem)

lemma splitCSV_entry: "p \<in> set (splitCSV v) \<Longrightarrow> p \<noteq> [] \<and> CHR '','' \<notin> set p \<and> trimSpace p = p"
  unfolding splitCSV_def using set_trimSpace splitOn_part trimSpace_idem by fastforce

lemma parseCIDRList_valid: "parseCIDRList v = Inr cidrs \<Longrightarrow> c \<in> set cidrs \<Longrightarrow> ParseCIDR c \<noteq> None"
  by (auto simp: parseCIDRList_def Let_def find_None_iff split: option.splits)

section \<open>Concrete instances\<close>

theorem parsePublicPortRange_roundtrip_witness:
  "parsePublicPortRange (itoa 30000 @ ''-'' @ itoa 40000) = Inr (30000, 40000)"
  using parsePublicPortRange_roundtrip [of 30000 40000 "[]" 0 0] by simp

end
