(* ===== verification/Catalog.thy ===== *)
theory Catalog
  imports Client_Log Go_Strings
begin

text \<open>
  \<open>internal/controller/catalog.go\<close>: the operator makes the namespace of the global Egg catalog at start,
  seeds the Eggs of a directory that are missing, and gives the panel access to it.
\<close>

definition panelCatalogClusterRole :: string where
  "panelCatalogClusterRole = ''hatchery-panel-catalog''"

text \<open>
  The directory of manifests: \<open>os.ReadDir\<close>, \<open>os.ReadFile\<close>, and what the YAML decoder yields of a file:
  the documents it decodes before the end of the file or before an error.
\<close>

record 'w seed_fs =
  fs_read_dir :: "string \<Rightarrow> ('w, string list) io"
  fs_read_file :: "string \<Rightarrow> ('w, string) io"
  fs_decode :: "string \<Rightarrow> egg list \<times> go_err option"

record 'w catalog_config =
  ca_panel_name :: string
  ca_panel_namespace :: string
  ca_seed_dir :: string
  ca_fs :: "'w seed_fs"

definition isManifest :: "string \<Rightarrow> bool" where
  "isManifest name \<longleftrightarrow> \<not> (hasPrefix name ''..'' \<or> (\<not> hasSuffix name ''.yaml'' \<and> \<not> hasSuffix name ''.yml''))"

definition catalogEgg :: "egg \<Rightarrow> egg" where
  "catalogEgg e = e\<lparr>egg_meta := (egg_meta e)\<lparr>om_namespace := CatalogNamespace\<rparr>\<rparr>"

definition seedEgg :: "'w k8s \<Rightarrow> egg \<Rightarrow> ('w, unit) io" where
  "seedEgg k e = (if om_name (egg_meta e) = [] then ret ()
     else wrapE ''%s: creating Egg %s: '' (ignoring is_already_exists (r_create (k_egg k) (catalogEgg e))))"

definition seedFile :: "'w k8s \<Rightarrow> 'w catalog_config \<Rightarrow> string \<Rightarrow> ('w, unit) io" where
  "seedFile k C name =
     (if \<not> isManifest name then ret ()
      else bindE (fs_read_file (ca_fs C) (pathClean (ca_seed_dir C @ ''/'' @ name))) (\<lambda>raw.
        case fs_decode (ca_fs C) raw of (docs, err) \<Rightarrow>
          thenE (forE (seedEgg k) docs)
            (case err of None \<Rightarrow> ret () | Some e \<Rightarrow> throw (Wrapped ''%s: '' e))))"

definition seedEggs :: "'w k8s \<Rightarrow> 'w catalog_config \<Rightarrow> ('w, unit) io" where
  "seedEggs k C =
     (if ca_seed_dir C = [] then ret ()
      else bindE (fs_read_dir (ca_fs C) (ca_seed_dir C)) (forE (seedFile k C)))"

definition mutateCatalogNs :: "namespace \<Rightarrow> go_err + namespace" where
  "mutateCatalogNs n = Inr (n\<lparr>ns_meta := (ns_meta n)\<lparr>om_labels := (om_labels (ns_meta n))
     (LabelManagedBy \<mapsto> ManagedByValue, ''pod-security.kubernetes.io/enforce'' \<mapsto> ''restricted'')\<rparr>\<rparr>)"

definition mutateCatalogBinding :: "'w catalog_config \<Rightarrow> rolebinding \<Rightarrow> go_err + rolebinding" where
  "mutateCatalogBinding C rb = Inr (rb\<lparr>rb_role := panelCatalogClusterRole,
     rb_subjects := [(ca_panel_name C, ca_panel_namespace C)]\<rparr>)"

definition Ensure :: "'w k8s \<Rightarrow> 'w catalog_config \<Rightarrow> ('w, unit) io" where
  "Ensure k C =
     thenE (r_ensure (k_ns k) \<lparr>ns_meta = new_meta CatalogNamespace []\<rparr> mutateCatalogNs)
     (thenE (wrapE ''seeding catalog Eggs from %s: '' (seedEggs k C))
     (if ca_panel_name C = [] \<or> ca_panel_namespace C = [] then ret ()
      else r_ensure (k_rb k) \<lparr>rb_meta = new_meta panelCatalogClusterRole CatalogNamespace, rb_role = [], rb_subjects = []\<rparr>
        (mutateCatalogBinding C)))"

section \<open>Seeding only adds\<close>

text \<open>What the catalog step asks of the API server: its namespace and its binding, and new Eggs of the catalog.\<close>

definition catalog_call :: "event \<Rightarrow> bool" where
  "catalog_call e \<longleftrightarrow>
     (\<exists>x ok. e = EvCreate (OEgg x) ok \<and> om_namespace (egg_meta x) = CatalogNamespace \<and> om_name (egg_meta x) \<noteq> []) \<or>
     (\<exists>n ok. e = EvEnsure (ONs n) ok \<and> om_name (ns_meta n) = CatalogNamespace) \<or>
     (\<exists>b ok. e = EvEnsure (ORb b) ok \<and> om_namespace (rb_meta b) = CatalogNamespace)"

lemma seedEggs_only:
  assumes d: "\<And>p. only catalog_call (fs_read_dir (ca_fs C) p)" and f: "\<And>p. only catalog_call (fs_read_file (ca_fs C) p)"
  shows "only catalog_call (seedEggs (logging k) C)"
proof -
  have e: "only catalog_call (seedEgg (logging k) x)" for x
    unfolding seedEgg_def logging_kinds
    by (intro only_rules only_calls; simp add: catalog_call_def catalogEgg_def)
  show ?thesis
    unfolding seedEggs_def seedFile_def
    by (intro only_rules only_forE d f e)
qed

text \<open>The files are read in the world of the logging client, without a call to it.\<close>

definition lift_config :: "'w catalog_config \<Rightarrow> 'w logged catalog_config" where
  "lift_config C = \<lparr>ca_panel_name = ca_panel_name C, ca_panel_namespace = ca_panel_namespace C, ca_seed_dir = ca_seed_dir C,
     ca_fs = \<lparr>fs_read_dir = (\<lambda>p. record_ev (\<lambda>_. []) (fs_read_dir (ca_fs C) p)),
       fs_read_file = (\<lambda>p. record_ev (\<lambda>_. []) (fs_read_file (ca_fs C) p)), fs_decode = fs_decode (ca_fs C)\<rparr>\<rparr>"

text \<open>
  Whatever the mounted directory holds, seeding only ever creates Eggs, named ones, in the catalog
  namespace: no Egg is updated or deleted, so what was changed through the panel survives restarts.
\<close>

theorem Ensure_only_adds: "list_all catalog_call (trace (Ensure (logging k) (lift_config C)) w)"
proof -
  have "only catalog_call (Ensure (logging k) (lift_config C))"
    unfolding Ensure_def logging_kinds
    by (intro only_rules only_calls seedEggs_only) (simp_all add: lift_config_def only_record_ev catalog_call_def new_meta_def)
  then show ?thesis by (rule only_trace)
qed

end
