(* ===== verification/Game_Query.thy ===== *)
theory Game_Query
  imports Go_Net Kube_Types "HOL-Library.Word"
begin

unbundle bit_operations_syntax

text \<open>
  \<open>internal/gamequery\<close>: the status protocols of game servers. A packet is its bytes, words of 8 bits;
  \<open>goString\<close> and \<open>bytes\<close> go between bytes and Go strings. What a connection does is the parameter
  \<open>conn\<close>; JSON decoding is \<open>decode\<close>.
\<close>

type_synonym byte = "8 word"

definition bytes :: "string \<Rightarrow> byte list" where
  "bytes s = map of_char s"

definition goString :: "byte list \<Rightarrow> string" where
  "goString bs = map (\<lambda>b. char_of (unat b)) bs"

definition MaxPlayers :: nat where "MaxPlayers = 50"

record query_result =
  qr_online :: int
  qr_max :: int
  qr_players :: "string list"

definition appendName :: "string list \<Rightarrow> string \<Rightarrow> string list" where
  "appendName names n = (if n = [] \<or> MaxPlayers \<le> length names then names else names @ [n])"

section \<open>VarInt\<close>

function writeVarU :: "32 word \<Rightarrow> byte list" where
  "writeVarU u = (if u AND NOT 0x7F = 0 then [ucast u]
     else ucast (u AND 0x7F OR 0x80) # writeVarU (drop_bit 7 u))"
  by pat_completeness auto
termination
proof (relation "measure unat")
  fix u :: "32 word"
  assume "u AND NOT 0x7F \<noteq> 0"
  then have "u \<noteq> 0" by auto
  then have "0 < unat u" by (simp add: unat_gt_0)
  moreover have "unat (drop_bit 7 u) = unat u div 128"
    using unat_drop_bit_eq [of 7 u] drop_bit_eq_div [of 7 "unat u"] by simp
  ultimately show "(drop_bit 7 u, u) \<in> measure unat" by simp
qed simp

declare writeVarU.simps [simp del]

text \<open>An \<open>int32\<close> is its 32 bits.\<close>

definition writeVarInt :: "32 word \<Rightarrow> byte list" where
  "writeVarInt v = writeVarU v"

text \<open>The rounds left, the round \<open>i\<close>, the bits read so far; the result and the bytes not read.\<close>

fun readVarLoop :: "nat \<Rightarrow> nat \<Rightarrow> 32 word \<Rightarrow> byte list \<Rightarrow> (go_err + 32 word) \<times> byte list" where
  "readVarLoop 0 i v bs = (Inl (MsgErr (Msg ''varint too long'' [])), bs)"
| "readVarLoop (Suc n) i v [] = (Inl (MsgErr (Msg ''EOF'' [])), [])"
| "readVarLoop (Suc n) i v (b # bs) =
     (let v' = v OR push_bit (7 * i) (ucast (b AND 0x7F)) in
      if b AND 0x80 = 0 then (Inr v', bs) else readVarLoop n (Suc i) v' bs)"

definition readVarInt :: "byte list \<Rightarrow> (go_err + 32 word) \<times> byte list" where
  "readVarInt bs = readVarLoop 5 0 0 bs"

lemma bit_127: "bit (0x7F :: 'a::len word) n \<longleftrightarrow> n < 7 \<and> n < LENGTH('a)"
proof -
  have "(0x7F :: 'a word) = mask 7" by (simp add: mask_eq_exp_minus_1)
  then show ?thesis by (simp only: bit_mask_iff possible_bit_word conj_commute)
qed

lemma bit_128: "bit (0x80 :: 'a::len word) n \<longleftrightarrow> n = 7 \<and> n < LENGTH('a)"
proof -
  have "(0x80 :: 'a word) = 2 ^ 7" by simp
  then show ?thesis by (simp only: bit_exp_iff possible_bit_word conj_commute)
qed

lemma bit_int_masks [simp]: "bit (127 :: int) n \<longleftrightarrow> n < 7" "bit (128 :: int) n \<longleftrightarrow> n = 7"
proof -
  have "(127 :: int) = mask 7" by (simp add: mask_eq_exp_minus_1)
  then show "bit (127 :: int) n \<longleftrightarrow> n < 7" by (simp only: bit_mask_iff possible_bit_int) simp
  have "(128 :: int) = 2 ^ 7" by simp
  then show "bit (128 :: int) n \<longleftrightarrow> n = 7" by (simp only: bit_exp_iff possible_bit_int) auto
qed

lemma bit_nat_masks [simp]: "bit (127 :: nat) n \<longleftrightarrow> n < 7" "bit (128 :: nat) n \<longleftrightarrow> n = 7"
proof -
  have "(127 :: nat) = mask 7" by (simp add: mask_eq_exp_minus_1)
  then show "bit (127 :: nat) n \<longleftrightarrow> n < 7" by (simp only: bit_mask_iff possible_bit_def) simp
  have "(128 :: nat) = 2 ^ 7" by simp
  then show "bit (128 :: nat) n \<longleftrightarrow> n = 7" by (simp only: bit_exp_iff possible_bit_def) auto
qed

text \<open>The mask as \<open>simp\<close> writes it.\<close>

lemma small_iff: "(u :: 32 word) AND - 128 = 0 \<longleftrightarrow> (\<forall>n. bit u n \<longrightarrow> n < 7)"
proof -
  have m: "(- 128 :: 32 word) = NOT 0x7F" by simp
  have b: "bit (u AND - 128) n \<longleftrightarrow> bit u n \<and> \<not> n < 7" for n
    unfolding m using bit_imp_le_length [of u n] by (simp only: bit_and_iff bit_not_iff bit_127 possible_bit_word) auto
  show ?thesis
    using b by (metis bit_0_eq bot_apply bit_word_eqI bot_bool_def)
qed

lemma readVarLoop_write:
  assumes "\<And>n. bit u n \<Longrightarrow> n < 32 - 7 * i" and "k + i = 5" and "0 < k"
  shows "readVarLoop k i v (writeVarU u @ rest) = (Inr (v OR push_bit (7 * i) u), rest)"
  using assms
proof (induction u arbitrary: k i v rule: writeVarU.induct)
  case (1 u)
  obtain k' where k: "k = Suc k'" using "1.prems"(3) by (cases k) auto
  show ?case
  proof (cases "u AND NOT 0x7F = 0")
    case True
    then have small: "\<forall>n. bit u n \<longrightarrow> n < 7" by (simp add: small_iff)
    have "(ucast (ucast u AND (0x7F :: byte)) :: 32 word) = u"
      by (rule bit_word_eqI) (use small in \<open>auto simp: bit_simps bit_127 dest!: spec\<close>)
    moreover have "(ucast u :: byte) AND 0x80 = 0"
      by (rule bit_word_eqI) (use small in \<open>auto simp: bit_simps bit_128\<close>)
    moreover have "writeVarU u = [ucast u]" by (subst writeVarU.simps) (simp only: True if_True simp_thms)
    ultimately show ?thesis by (simp add: k Let_def)
  next
    case False
    let ?b = "ucast (u AND 0x7F OR 0x80) :: byte"
    have c: "?b AND 0x80 \<noteq> 0"
    proof
      assume "?b AND 0x80 = 0"
      then have "\<not> bit (?b AND 0x80) 7" by simp
      then show False by (simp add: bit_simps bit_128)
    qed
    have e: "(ucast (?b AND 0x7F) :: 32 word) = u AND 0x7F"
      by (rule bit_word_eqI) (auto simp: bit_simps bit_127 bit_128)
    have d: "(v OR push_bit (7 * i) (ucast (?b AND 0x7F))) OR push_bit (7 * Suc i) (drop_bit 7 u) = v OR push_bit (7 * i) u"
      unfolding e
    proof (rule bit_word_eqI)
      fix n assume "n < LENGTH(32)"
      moreover have "7 + (n - (7 + 7 * i)) = n - 7 * i" if "7 + 7 * i \<le> n" using that by simp
      ultimately show "bit ((v OR push_bit (7 * i) (u AND 0x7F)) OR push_bit (7 * Suc i) (drop_bit 7 u)) n =
          bit (v OR push_bit (7 * i) u) n"
        by (cases "7 + 7 * i \<le> n") (auto simp: bit_or_iff bit_push_bit_iff bit_drop_bit_eq bit_and_iff bit_127 possible_bit_word)
    qed
    have "i < 4"
    proof (rule ccontr)
      assume "\<not> i < 4"
      then have "\<forall>n. bit u n \<longrightarrow> n < 7" using "1.prems"(1) by fastforce
      with False show False by (simp add: small_iff)
    qed
    with "1.prems"(2) k have k': "k' + Suc i = 5" "0 < k'" by auto
    have b7: "bit (drop_bit 7 u) n \<Longrightarrow> n < 32 - 7 * Suc i" for n
      using "1.prems"(1) [of "7 + n"] by (auto simp: bit_drop_bit_eq)
    have "readVarLoop k' (Suc i) (v OR push_bit (7 * i) (ucast (?b AND 0x7F))) (writeVarU (drop_bit 7 u) @ rest) =
        (Inr ((v OR push_bit (7 * i) (ucast (?b AND 0x7F))) OR push_bit (7 * Suc i) (drop_bit 7 u)), rest)"
      by (rule "1.IH" [OF False _ k']) (rule b7)
    moreover have "writeVarU u = ?b # writeVarU (drop_bit 7 u)" by (subst writeVarU.simps) (simp only: False if_False)
    ultimately show ?thesis using c d by (simp add: k Let_def)
  qed
qed

lemma readVarInt_write: "readVarInt (writeVarInt v @ rest) = (Inr v, rest)"
proof -
  have "bit v n \<Longrightarrow> n < 32 - 7 * 0" for n using bit_imp_le_length [of v n] by simp
  from readVarLoop_write [where i = 0 and k = 5 and v = 0 and u = v and rest = rest] this show ?thesis by (simp add: readVarInt_def writeVarInt_def)
qed

lemma writeVarU_length: "(\<And>n. bit u n \<Longrightarrow> n < 7 * Suc k) \<Longrightarrow> length (writeVarU u) \<le> Suc k"
proof (induction k arbitrary: u)
  case 0
  then have "u AND NOT 0x7F = 0" by (simp add: small_iff)
  then show ?case by (simp add: writeVarU.simps [of u])
next
  case (Suc k)
  have "bit (drop_bit 7 u) n \<Longrightarrow> n < 7 * Suc k" for n
    using Suc.prems [of "7 + n"] by (simp add: bit_drop_bit_eq)
  then show ?case using Suc.IH [of "drop_bit 7 u"] by (simp add: writeVarU.simps [of u])
qed

text \<open>
  C40: a VarInt reads back the number it was written from, for every 32-bit number and whatever follows
  it, consuming its own bytes only; it takes one to five bytes, so the reader's bound of five rounds is never met by what the
  writer produces, and a reader never consumes more than five.
\<close>

theorem varInt_roundtrip:
  "readVarInt (writeVarInt v @ rest) = (Inr v, rest) \<and> 1 \<le> length (writeVarInt v) \<and> length (writeVarInt v) \<le> 5"
proof -
  have "bit v n \<Longrightarrow> n < 7 * Suc 4" for n using bit_imp_le_length [of v n] by simp
  then have "length (writeVarU v) \<le> Suc 4" by (rule writeVarU_length)
  moreover have "writeVarU v \<noteq> []" by (simp add: writeVarU.simps [of v])
  ultimately show ?thesis using readVarInt_write by (simp add: writeVarInt_def Suc_le_eq)
qed

section \<open>Server List Ping\<close>

definition maxStatusBytes :: int where "maxStatusBytes = 2 ^ 20"

definition zeroUUID :: string where
  "zeroUUID = ''00000000-0000-0000-0000-000000000000''"

text \<open>\<open>slpStatus\<close>; a sample entry is its name and id.\<close>

record slp_status =
  slp_max :: int
  slp_online :: int
  slp_sample :: "(string \<times> string) list"

text \<open>What the source uses of a connection: writing, one read, and everything up to the end of the stream.\<close>

record 'w conn =
  cn_write :: "byte list \<Rightarrow> ('w, unit) io"
  cn_read :: "('w, byte list) io"
  cn_stream :: "('w, byte list) io"

definition slpRequest :: "string \<Rightarrow> nat \<Rightarrow> byte list" where
  "slpRequest host port =
     (let hs = writeVarInt 0 @ writeVarInt (- 1) @ writeVarInt (of_nat (length host)) @ bytes host
             @ [of_nat (port div 256), of_nat (port mod 256)] @ writeVarInt 1
      in writeVarInt (of_nat (length hs)) @ hs @ [1, 0])"

definition slpResult :: "slp_status \<Rightarrow> query_result" where
  "slpResult st = \<lparr>qr_online = slp_online st, qr_max = slp_max st,
     qr_players = foldl (\<lambda>ps (name, uid). if uid = zeroUUID then ps else appendName ps name) [] (slp_sample st)\<rparr>"

definition slpReply :: "(string \<Rightarrow> go_err + slp_status) \<Rightarrow> byte list \<Rightarrow> go_err + query_result" where
  "slpReply decode stream = (case readVarInt stream of
     (Inl e, _) \<Rightarrow> Inl e
   | (Inr len, r) \<Rightarrow>
     if sint len \<le> 0 \<or> maxStatusBytes < sint len then Inl (MsgErr (Msg ''status response of %d bytes'' [AInt (sint len)]))
     else let br = take (nat (sint len)) r in
       (case readVarInt br of
          (Inl e, _) \<Rightarrow> Inl (MsgErr (Msg ''unexpected status packet'' []))
        | (Inr pid, br1) \<Rightarrow>
          if pid \<noteq> 0 then Inl (MsgErr (Msg ''unexpected status packet'' []))
          else (case readVarInt br1 of
            (Inl e, _) \<Rightarrow> Inl (MsgErr (Msg ''bad status string length'' []))
          | (Inr n, br2) \<Rightarrow>
            if sint n < 0 \<or> maxStatusBytes < sint n then Inl (MsgErr (Msg ''bad status string length'' []))
            else if length br2 < nat (sint n) then Inl (MsgErr (Msg ''unexpected EOF'' []))
            else (case decode (goString (take (nat (sint n)) br2)) of
                Inl e \<Rightarrow> Inl (Wrapped ''decoding status: '' e)
              | Inr st \<Rightarrow> Inr (slpResult st)))))"

definition Minecraft :: "(string \<Rightarrow> go_err + slp_status) \<Rightarrow> (string \<Rightarrow> ('w, 'w conn) io) \<Rightarrow> string \<Rightarrow> ('w, query_result) io" where
  "Minecraft decode dial addr = (case SplitHostPort addr of
     Inl e \<Rightarrow> throw (MsgErr (Msg ''address %s'' [AStr addr]))
   | Inr (host, portStr) \<Rightarrow> (case parseUint 16 portStr of
       Inl e \<Rightarrow> throw (MsgErr (Msg ''bad port %q'' [AStr portStr]))
     | Inr port \<Rightarrow>
       bindE (dial addr) (\<lambda>c.
       thenE (cn_write c (slpRequest host port))
       (bindE (cn_stream c) (\<lambda>s. liftE (slpReply decode s))))))"

section \<open>A2S\<close>

definition a2sHeader :: "byte list" where "a2sHeader = [0xFF, 0xFF, 0xFF, 0xFF]"
definition a2sSplit :: "byte list" where "a2sSplit = [0xFE, 0xFF, 0xFF, 0xFF]"
definition a2sChallenge :: byte where "a2sChallenge = 0x41"
definition a2sInfoReply :: byte where "a2sInfoReply = 0x49"
definition a2sPlayerReply :: byte where "a2sPlayerReply = 0x44"

record a2s_reader =
  rd_b :: "byte list"
  rd_err :: "go_err option"

definition shortReply :: go_err where
  "shortReply = MsgErr (Msg ''short A2S reply'' [])"

definition rdByte :: "a2s_reader \<Rightarrow> byte \<times> a2s_reader" where
  "rdByte r = (if rd_err r \<noteq> None \<or> length (rd_b r) < 1 then (0, r\<lparr>rd_err := Some shortReply\<rparr>)
     else (hd (rd_b r), r\<lparr>rd_b := tl (rd_b r)\<rparr>))"

definition rdSkip :: "nat \<Rightarrow> a2s_reader \<Rightarrow> a2s_reader" where
  "rdSkip n r = (if rd_err r \<noteq> None \<or> length (rd_b r) < n then r\<lparr>rd_err := Some shortReply\<rparr>
     else r\<lparr>rd_b := drop n (rd_b r)\<rparr>)"

definition rdCstring :: "a2s_reader \<Rightarrow> string \<times> a2s_reader" where
  "rdCstring r = (if rd_err r \<noteq> None then ([], r)
     else if 0 \<notin> set (rd_b r) then ([], r\<lparr>rd_err := Some (MsgErr (Msg ''unterminated string'' []))\<rparr>)
     else (goString (takeWhile (\<lambda>b. b \<noteq> 0) (rd_b r)), r\<lparr>rd_b := tl (dropWhile (\<lambda>b. b \<noteq> 0) (rd_b r))\<rparr>))"

definition parseA2SInfo :: "byte list \<Rightarrow> go_err + query_result" where
  "parseA2SInfo body =
     (let r0 = \<lparr>rd_b = body, rd_err = None\<rparr>;
          r1 = snd (rdByte r0);
          r2 = snd (rdCstring r1);
          r3 = snd (rdCstring r2);
          r4 = snd (rdCstring r3);
          r5 = snd (rdCstring r4);
          r6 = rdSkip 2 r5;
          (players, r7) = rdByte r6;
          (mx, r8) = rdByte r7 in
      case rd_err r8 of Some e \<Rightarrow> Inl e
      | None \<Rightarrow> Inr \<lparr>qr_online = uint players, qr_max = uint mx, qr_players = []\<rparr>)"

fun playerLoop :: "nat \<Rightarrow> a2s_reader \<Rightarrow> string list \<Rightarrow> string list" where
  "playerLoop 0 r names = names"
| "playerLoop (Suc n) r names =
     (let (name, r2) = rdCstring (snd (rdByte r)); r3 = rdSkip 8 r2 in
      if rd_err r3 \<noteq> None then names else playerLoop n r3 (appendName names name))"

definition parseA2SPlayers :: "byte list \<Rightarrow> string list" where
  "parseA2SPlayers body =
     (let (count, r) = rdByte \<lparr>rd_b = body, rd_err = None\<rparr> in playerLoop (unat count) r [])"

text \<open>The rounds left, and the challenge to answer with.\<close>

fun a2sRounds :: "nat \<Rightarrow> 'w conn \<Rightarrow> (byte list option \<Rightarrow> byte list) \<Rightarrow> byte \<Rightarrow> byte list option \<Rightarrow> ('w, byte list) io" where
  "a2sRounds 0 c build want ch = throw (MsgErr (Msg ''challenged twice'' []))"
| "a2sRounds (Suc n) c build want ch =
     thenE (cn_write c (build ch)) (bindE (cn_read c) (\<lambda>reply.
       if take 4 reply = a2sSplit then throw (MsgErr (Msg ''split A2S response (not reassembled)'' []))
       else if length reply < 5 \<or> take 4 reply \<noteq> a2sHeader then throw (MsgErr (Msg ''malformed reply'' []))
       else if reply ! 4 = a2sChallenge then
         (if length reply < 9 then throw (MsgErr (Msg ''short challenge'' []))
          else a2sRounds n c build want (Some (take 4 (drop 5 reply))))
       else if reply ! 4 = want then ret (drop 5 reply)
       else throw (MsgErr (Msg ''unexpected reply type 0x%02x'' [AInt (uint (reply ! 4))]))))"

definition a2sExchange :: "'w conn \<Rightarrow> (byte list option \<Rightarrow> byte list) \<Rightarrow> byte \<Rightarrow> ('w, byte list) io" where
  "a2sExchange c build want = a2sRounds 2 c build want None"

definition infoRequest :: "byte list option \<Rightarrow> byte list" where
  "infoRequest ch = a2sHeader @ [0x54] @ bytes (''Source Engine Query'' @ [CHR 0x00]) @ (case ch of None \<Rightarrow> [] | Some c \<Rightarrow> c)"

definition playersRequest :: "byte list option \<Rightarrow> byte list" where
  "playersRequest ch = a2sHeader @ [0x55] @ (case ch of None \<Rightarrow> a2sHeader | Some c \<Rightarrow> c)"

definition A2S :: "(string \<Rightarrow> ('w, 'w conn) io) \<Rightarrow> string \<Rightarrow> ('w, query_result) io" where
  "A2S dial addr =
     bindE (dial addr) (\<lambda>c.
     bindE (wrapE ''A2S_INFO: '' (a2sExchange c infoRequest a2sInfoReply)) (\<lambda>info.
     bindE (liftE (parseA2SInfo info)) (\<lambda>res.
     bindE (attempt (a2sExchange c playersRequest a2sPlayerReply)) (\<lambda>r. case r of
       Inl e \<Rightarrow> ret res
     | Inr players \<Rightarrow> ret (res\<lparr>qr_players := parseA2SPlayers players\<rparr>)))))"

definition Query :: "(string \<Rightarrow> go_err + slp_status) \<Rightarrow> (string \<Rightarrow> string \<Rightarrow> ('w, 'w conn) io) \<Rightarrow> string \<Rightarrow> string \<Rightarrow> ('w, query_result) io" where
  "Query decode dial protocol addr =
     (if protocol = ''minecraft'' then Minecraft decode (dial ''tcp'') addr
      else if protocol = ''a2s'' then A2S (dial ''udp'') addr
      else throw (MsgErr (Msg ''unknown query protocol %q'' [AStr protocol])))"

section \<open>What a reply gives\<close>

definition named :: "string list \<Rightarrow> bool" where
  "named ps \<longleftrightarrow> length ps \<le> MaxPlayers \<and> [] \<notin> set ps"

lemma named_Nil [simp]: "named []"
  by (simp add: named_def)

lemma named_append: "named ps \<Longrightarrow> named (appendName ps n)"
  by (auto simp: named_def appendName_def)

lemma named_slp: "named (qr_players (slpResult st))"
proof -
  have "named ps \<Longrightarrow> named (foldl (\<lambda>ps (name, uid). if uid = zeroUUID then ps else appendName ps name) ps xs)" for ps xs
  proof (induction xs arbitrary: ps)
    case (Cons x xs)
    then show ?case by (cases x) (auto simp: named_append)
  qed simp
  then show ?thesis by (simp add: slpResult_def)
qed

lemma named_players: "named ps \<Longrightarrow> named (playerLoop n r ps)"
  by (induction n r ps rule: playerLoop.induct) (auto simp: Let_def named_append split: prod.splits)

lemma slpReply_named: "slpReply decode s = Inr res \<Longrightarrow> named (qr_players res)"
  by (auto simp: slpReply_def Let_def named_slp split: prod.splits sum.splits if_splits)

lemma parseA2SInfo_named: "parseA2SInfo body = Inr res \<Longrightarrow> named (qr_players res)"
  by (auto simp: parseA2SInfo_def Let_def split: prod.splits option.splits)

lemma named_parsed: "named (parseA2SPlayers body)"
  by (auto simp: parseA2SPlayers_def named_players split: prod.splits)

lemma A2S_named:
  fixes w :: 'w
  assumes "fst (A2S dial addr w) = Inr res" shows "named (qr_players res)"
proof -
  from assms obtain info and w1 :: 'w and res0 and w2 :: 'w and r :: "go_err + byte list" and w3 :: 'w where p: "liftE (parseA2SInfo info) w1 = (Inr res0, w2)"
    and q: "fst ((case r of Inl e \<Rightarrow> ret res0 | Inr players \<Rightarrow> ret (res0\<lparr>qr_players := parseA2SPlayers players\<rparr>)) w3) = Inr res"
    unfolding A2S_def fst_bindE by blast
  from p have "named (qr_players res0)" by (intro parseA2SInfo_named [of info]) (simp add: liftE_def)
  then show ?thesis using q named_parsed by (cases r) (auto simp: ret_def)
qed

text \<open>
  Whatever a game server answers, a query reports at most fifty player names and none of them
  empty, for both protocols and any number the reply claims.
\<close>

theorem Query_named:
  assumes "fst (Query decode dial protocol addr w) = Inr res"
  shows "length (qr_players res) \<le> MaxPlayers \<and> [] \<notin> set (qr_players res)"
proof -
  have "named (qr_players res)"
    using assms by (auto simp: Query_def Minecraft_def fst_bindE liftE_def throw_def
        intro: slpReply_named A2S_named split: if_splits sum.split_asm prod.splits)
  then show ?thesis by (simp add: named_def)
qed

lemma sint_small: "n \<le> 2 ^ 20 \<Longrightarrow> sint (of_nat n :: 32 word) = int n"
  by (simp add: signed_of_nat signed_take_bit_int_eq_self_iff)

text \<open>
  A status packet laid out as the protocol says is read back whatever follows it: its length, the
  packet id 0, the length of the text and the text; the result is what the text decodes to.
\<close>

theorem slpReply_packet:
  fixes raw :: "byte list"
  defines "body \<equiv> writeVarInt 0 @ writeVarInt (of_nat (length raw)) @ raw"
  assumes "length body \<le> 2 ^ 20"
  shows "slpReply decode (writeVarInt (of_nat (length body)) @ body @ rest) =
    (case decode (goString raw) of Inl e \<Rightarrow> Inl (Wrapped ''decoding status: '' e) | Inr st \<Rightarrow> Inr (slpResult st))"
proof -
  have raw: "length raw \<le> 2 ^ 20" using assms by simp
  have "writeVarInt 0 \<noteq> []" by (simp add: writeVarInt_def writeVarU.simps [of 0])
  then have pos: "0 < length body" by (simp add: body_def)
  have len: "sint (of_nat (length body) :: 32 word) = int (length body)" by (rule sint_small [OF assms(2)])
  have n: "sint (of_nat (length raw) :: 32 word) = int (length raw)" by (rule sint_small [OF raw])
  show ?thesis
    unfolding slpReply_def readVarInt_write
    using pos assms(2) raw by (simp add: len n maxStatusBytes_def Let_def) (use raw in \<open>simp add: body_def readVarInt_write n maxStatusBytes_def\<close>)
qed

section \<open>The layout of A2S_INFO\<close>

abbreviation rd :: "byte list \<Rightarrow> a2s_reader" where
  "rd b \<equiv> \<lparr>rd_b = b, rd_err = None\<rparr>"

lemma while_zero [simp]:
  "0 \<notin> set n \<Longrightarrow> takeWhile (\<lambda>b. b \<noteq> 0) (n @ 0 # b) = n"
  "0 \<notin> set n \<Longrightarrow> dropWhile (\<lambda>b. b \<noteq> 0) (n @ 0 # b) = 0 # b"
  for n :: "byte list"
  by (induction n) auto

lemma rd_ops [simp]:
  "rdByte (rd (x # b)) = (x, rd b)"
  "0 \<notin> set n \<Longrightarrow> rdCstring (rd (n @ 0 # b)) = (goString n, rd b)"
  "rdSkip 2 (rd (x # y # b)) = rd b"
  by (simp_all add: rdByte_def rdCstring_def rdSkip_def)

text \<open>An operation that ends without an error met what it reads.\<close>

lemma rd_inv:
  "rdByte r = (x, r') \<Longrightarrow> rd_err r' = None \<Longrightarrow> \<exists>b. r = rd (x # b) \<and> r' = rd b"
  "r' = snd (rdCstring r) \<Longrightarrow> rd_err r' = None \<Longrightarrow> \<exists>n b. 0 \<notin> set n \<and> r = rd (n @ 0 # b) \<and> r' = rd b"
  "r' = rdSkip 2 r \<Longrightarrow> rd_err r' = None \<Longrightarrow> \<exists>x y b. r = rd (x # y # b) \<and> r' = rd b"
proof -
  assume "rdByte r = (x, r')" "rd_err r' = None"
  then show "\<exists>b. r = rd (x # b) \<and> r' = rd b"
    by (cases r; cases "rd_b r") (auto simp: rdByte_def split: if_splits)
next
  assume r': "r' = snd (rdCstring r)" "rd_err r' = None"
  then have "rd_err r = None" and z: "0 \<in> set (rd_b r)" by (auto simp: rdCstring_def split: if_splits)
  from split_list_first [OF z] obtain n b where "rd_b r = n @ 0 # b" "0 \<notin> set n" by blast
  with \<open>rd_err r = None\<close> r'(1) show "\<exists>n b. 0 \<notin> set n \<and> r = rd (n @ 0 # b) \<and> r' = rd b"
    by (cases r) (auto simp: rdCstring_def)
next
  assume r': "r' = rdSkip 2 r" "rd_err r' = None"
  then have e: "rd_err r = None" "2 \<le> length (rd_b r)" by (auto simp: rdSkip_def split: if_splits)
  then obtain x y b where "rd_b r = x # y # b" by (metis Suc_le_length_iff numeral_2_eq_2)
  with e r'(1) show "\<exists>x y b. r = rd (x # y # b) \<and> r' = rd b" by (cases r) (auto simp: rdSkip_def)
qed

text \<open>
  An A2S_INFO body gives counts exactly when it is laid out as the protocol says: a byte, four
  strings that end in a zero byte, two bytes, then the number of players and the most there may be; every other body, each truncation included, is an error.
\<close>

theorem parseA2SInfo_iff:
  "parseA2SInfo body = Inr res \<longleftrightarrow> (\<exists>p n m f g a b pl mx rest.
     0 \<notin> set n \<union> set m \<union> set f \<union> set g \<and>
     body = p # n @ 0 # m @ 0 # f @ 0 # g @ 0 # a # b # pl # mx # rest \<and>
     res = \<lparr>qr_online = uint pl, qr_max = uint mx, qr_players = []\<rparr>)"
proof
  assume L: "parseA2SInfo body = Inr res"
  define r1 where "r1 = snd (rdByte (rd body))"
  define r2 where "r2 = snd (rdCstring r1)"
  define r3 where "r3 = snd (rdCstring r2)"
  define r4 where "r4 = snd (rdCstring r3)"
  define r5 where "r5 = snd (rdCstring r4)"
  define r6 where "r6 = rdSkip 2 r5"
  from L obtain pl r7 mx r8 where r7: "rdByte r6 = (pl, r7)" and r8: "rdByte r7 = (mx, r8)" and e: "rd_err r8 = None"
    and res: "res = \<lparr>qr_online = uint pl, qr_max = uint mx, qr_players = []\<rparr>"
    by (auto simp: parseA2SInfo_def Let_def r1_def r2_def r3_def r4_def r5_def r6_def split: prod.splits option.splits)
  from rd_inv(1) [OF r8 e] obtain b8 where b7: "r7 = rd (mx # b8)" by blast
  with rd_inv(1) [OF r7] have b6: "r6 = rd (pl # mx # b8)" by auto
  with rd_inv(3) [OF r6_def] obtain a b where b5: "r5 = rd (a # b # pl # mx # b8)" by auto
  with rd_inv(2) [OF r5_def] obtain g where g: "0 \<notin> set g" "r4 = rd (g @ 0 # a # b # pl # mx # b8)" by auto
  with rd_inv(2) [OF r4_def] obtain f where f: "0 \<notin> set f" "r3 = rd (f @ 0 # g @ 0 # a # b # pl # mx # b8)" by auto
  with rd_inv(2) [OF r3_def] obtain m where m: "0 \<notin> set m" "r2 = rd (m @ 0 # f @ 0 # g @ 0 # a # b # pl # mx # b8)" by auto
  with rd_inv(2) [OF r2_def] obtain n where n: "0 \<notin> set n"
    "r1 = rd (n @ 0 # m @ 0 # f @ 0 # g @ 0 # a # b # pl # mx # b8)" by auto
  obtain p r1' where "rdByte (rd body) = (p, r1')" by (cases "rdByte (rd body)") auto
  with r1_def have "rdByte (rd body) = (p, r1)" by simp
  from rd_inv(1) [OF this] n(2) have "body = p # n @ 0 # m @ 0 # f @ 0 # g @ 0 # a # b # pl # mx # b8" by auto
  with f(1) g(1) m(1) n(1) res show "\<exists>p n m f g a b pl mx rest. 0 \<notin> set n \<union> set m \<union> set f \<union> set g \<and>
      body = p # n @ 0 # m @ 0 # f @ 0 # g @ 0 # a # b # pl # mx # rest \<and>
      res = \<lparr>qr_online = uint pl, qr_max = uint mx, qr_players = []\<rparr>" by blast
next
  assume "\<exists>p n m f g a b pl mx rest. 0 \<notin> set n \<union> set m \<union> set f \<union> set g \<and>
      body = p # n @ 0 # m @ 0 # f @ 0 # g @ 0 # a # b # pl # mx # rest \<and>
      res = \<lparr>qr_online = uint pl, qr_max = uint mx, qr_players = []\<rparr>"
  then show "parseA2SInfo body = Inr res" by (auto simp: parseA2SInfo_def Let_def)
qed

section \<open>Concrete instances\<close>

definition ping_conn :: "unit conn" where
  "ping_conn = \<lparr>cn_write = (\<lambda>_. ret ()), cn_read = ret [], cn_stream = ret [4, 0, 2, 0x7B, 0x7D]\<rparr>"

definition ping_decode :: "string \<Rightarrow> go_err + slp_status" where
  "ping_decode _ = Inr \<lparr>slp_max = 20, slp_online = 2, slp_sample = [(''motd'', zeroUUID), (''alex'', ''1''), ([], ''2'')]\<rparr>"

definition ping_result :: query_result where
  "ping_result = \<lparr>qr_online = 2, qr_max = 20, qr_players = [''alex'']\<rparr>"

lemma ping_decoded: "(case ping_decode s of Inl e \<Rightarrow> Inl (Wrapped ''decoding status: '' e) | Inr st \<Rightarrow> Inr (slpResult st)) = Inr ping_result"
  by (simp add: ping_decode_def ping_result_def slpResult_def appendName_def MaxPlayers_def zeroUUID_def)

lemma readVarInt_one: "b AND 0x80 = 0 \<Longrightarrow> readVarInt (b # bs) = (Inr (ucast (b AND 0x7F)), bs)"
proof -
  assume "b AND 0x80 = 0"
  moreover have "(5 :: nat) = Suc 4" by simp
  ultimately show ?thesis by (simp only: readVarInt_def readVarLoop.simps Let_def) simp
qed

lemma ping_reply: "slpReply ping_decode [4, 0, 2, 0x7B, 0x7D] = Inr ping_result"
  using ping_decoded by (simp add: slpReply_def readVarInt_one maxStatusBytes_def)

theorem Query_named_witness:
  "fst (Query ping_decode (\<lambda>_ _. ret ping_conn) ''minecraft'' ''mc:25565'' ()) = Inr ping_result \<and>
     length (qr_players ping_result) \<le> MaxPlayers"
proof -
  have a: "SplitHostPort ''mc:25565'' = Inr (''mc'', ''25565'')" "parseUint 16 ''25565'' = Inr 25565"
    by code_simp (simp add: parseUint_def isDigit_def digitVal_def)
  have "fst (Query ping_decode (\<lambda>_ _. ret ping_conn) ''minecraft'' ''mc:25565'' ()) = Inr ping_result"
    using ping_reply by (simp add: Query_def Minecraft_def a ping_conn_def bindE_def ret_def liftE_def)
  from this Query_named [OF this] show ?thesis by simp
qed

theorem slpReply_packet_witness:
  "slpReply ping_decode (writeVarInt 2 @ (writeVarInt 0 @ writeVarInt 0) @ [7]) = Inr ping_result"
proof -
  have z: "writeVarInt 0 = [0]" by (simp add: writeVarInt_def writeVarU.simps [of 0])
  show ?thesis
    using slpReply_packet [of "[]" ping_decode "[7]"] ping_decoded by (simp add: z)
qed

end
