(* ===== verification/Panel_Db.thy ===== *)
theory Panel_Db
  imports Go_Strings Kube_Types "HOL-Library.List_Lexorder" "HOL-Library.Char_ord"
begin

text \<open>
  The database of the panel (\<open>internal/paneldb\<close>, tables of \<open>internal/paneldb/migrations\<close>) as a state that
  SQL statements read and change. Every statement may fail in the driver: \<open>db_faults\<close> says which of the
  next ones do, so a theorem over all states covers every pattern of failures. A transaction that ends in
  an error leaves the tables as they were. Each operation of the store runs as one step: the source takes
  row locks (\<open>FOR UPDATE\<close>) where two of them could interfere. Text is ordered by its bytes.
\<close>

section \<open>Rows\<close>

record profile =
  pf_display_name :: string
  pf_locale :: string
  pf_time_zone :: string
  pf_discord :: string
  pf_minecraft :: string
  pf_steam :: string

definition no_profile :: profile where
  "no_profile = \<lparr>pf_display_name = [], pf_locale = [], pf_time_zone = [], pf_discord = [], pf_minecraft = [], pf_steam = []\<rparr>"

record user_row =
  ur_id :: int
  ur_username :: string
  ur_email :: string
  ur_hash :: string
  ur_admin :: bool
  ur_created :: time
  ur_updated :: time
  ur_profile :: profile
  ur_notify :: bool
  ur_discord_id :: "string option"
  ur_discord_name :: string
  ur_totp_secret :: "string option"
  ur_totp_enabled :: "time option"
  ur_totp_step :: int

record session_row =
  sn_hash :: string
  sn_user :: int
  sn_expires :: time
  sn_revoked :: "time option"

datatype token_purpose = PurposePasswordReset | PurposeEmailChange

record token_row =
  tk_hash :: string
  tk_user :: int
  tk_purpose :: token_purpose
  tk_new_email :: "string option"
  tk_expires :: time
  tk_used :: "time option"

datatype role = RoleOwner | RoleAdmin | RoleMember | OtherRole string

record org =
  og_id :: int
  og_slug :: string
  og_name :: string
  og_created :: time
  og_require2fa :: bool

record member_row =
  mb_org :: int
  mb_user :: int
  mb_role :: role

record grant_row =
  gr_org :: int
  gr_user :: int
  gr_gameserver :: string
  gr_permission :: string

record invite_row =
  iv_id :: int
  iv_org :: int
  iv_email :: string
  iv_role :: role
  iv_hash :: string
  iv_locale :: string
  iv_invited_by :: "int option"
  iv_created :: time
  iv_expires :: time

text \<open>The Discord server of an organization, its notifications, and the audit log.\<close>

record guild_row =
  gd_org :: int
  gd_guild :: string
  gd_name :: string
  gd_linked_by :: int

record audit_event =
  ae_org_slug :: string
  ae_actor :: "int option"
  ae_actor_name :: string
  ae_action :: string
  ae_target_type :: string
  ae_target :: string
  ae_outcome :: string
  ae_ip :: string
  ae_meta :: string

record audit_row =
  ar_id :: int
  ar_event :: audit_event
  ar_created :: time

record tables =
  tb_users :: "user_row list"
  tb_sessions :: "session_row list"
  tb_tokens :: "token_row list"
  tb_codes :: "(int \<times> string) list" \<comment> \<open>\<open>user_recovery_codes\<close>\<close>
  tb_orgs :: "org list"
  tb_members :: "member_row list"
  tb_grants :: "grant_row list" \<comment> \<open>\<open>member_permissions\<close>\<close>
  tb_invites :: "invite_row list"
  tb_guilds :: "guild_row list" \<comment> \<open>\<open>org_discord_guilds\<close>\<close>
  tb_notify :: "(int \<times> string option) list" \<comment> \<open>\<open>org_notification_settings\<close>\<close>
  tb_muted :: "(int \<times> string) list" \<comment> \<open>\<open>org_notification_muted\<close>\<close>
  tb_settings :: "(string \<times> string) list" \<comment> \<open>\<open>platform_settings\<close>\<close>
  tb_audit :: "audit_row list" \<comment> \<open>\<open>audit_events\<close>\<close>

text \<open>The clock, the failures to come, the random tokens to come, and the next number of the sequences.\<close>

record pdb =
  db_t :: tables
  db_now :: time
  db_faults :: "bool list"
  db_random :: "string list"
  db_seq :: int

text \<open>SHA-256 in hexadecimal, and bcrypt: a hash of a password (or its refusal), and the check against one.\<close>

record crypto =
  cr_sha :: "string \<Rightarrow> string"
  cr_bcrypt :: "string \<Rightarrow> go_err + string"
  cr_match :: "string \<Rightarrow> string \<Rightarrow> bool"

section \<open>Statements and transactions\<close>

type_synonym 'a db = "(pdb, 'a) io"

definition stmt :: "'a db \<Rightarrow> 'a db" where
  "stmt f = (\<lambda>s. case db_faults s of [] \<Rightarrow> f s
     | b # fs \<Rightarrow> if b then (Inl (DbErr DbDriver), s\<lparr>db_faults := fs\<rparr>) else f (s\<lparr>db_faults := fs\<rparr>))"

lemma stmt_run:
  "stmt f s = (Inl (DbErr DbDriver), s\<lparr>db_faults := tl (db_faults s)\<rparr>) \<or> stmt f s = f (s\<lparr>db_faults := tl (db_faults s)\<rparr>)"
  by (cases s) (auto simp: stmt_def split: list.splits)

text \<open>A query answers from the tables; \<open>exec\<close> changes them; \<open>insertRow\<close> also takes a number, which a failure does not give back.\<close>

definition query :: "(pdb \<Rightarrow> go_err + 'a) \<Rightarrow> 'a db" where
  "query f = stmt (\<lambda>s. (f s, s))"

definition exec :: "(pdb \<Rightarrow> go_err + 'a \<times> tables) \<Rightarrow> 'a db" where
  "exec f = stmt (\<lambda>s. case f s of Inl e \<Rightarrow> (Inl e, s) | Inr (x, t) \<Rightarrow> (Inr x, s\<lparr>db_t := t\<rparr>))"

definition insertRow :: "(int \<Rightarrow> pdb \<Rightarrow> go_err + 'a \<times> tables) \<Rightarrow> 'a db" where
  "insertRow f = stmt (\<lambda>s. let s' = s\<lparr>db_seq := db_seq s + 1\<rparr> in
     case f (db_seq s) s of Inl e \<Rightarrow> (Inl e, s') | Inr (x, t) \<Rightarrow> (Inr x, s'\<lparr>db_t := t\<rparr>))"

definition tx :: "'a db \<Rightarrow> 'a db" where
  "tx m = thenE (stmt (ret ())) (\<lambda>s. case bindE m (\<lambda>x. thenE (stmt (ret ())) (ret x)) s of
     (Inl e, s') \<Rightarrow> (Inl e, s'\<lparr>db_t := db_t s\<rparr>) | (Inr x, s') \<Rightarrow> (Inr x, s'))"

text \<open>\<open>newToken\<close>: a random token and its hash.\<close>

definition newToken :: "crypto \<Rightarrow> (string \<times> string) db" where
  "newToken C = (\<lambda>s. case db_random s of [] \<Rightarrow> (Inl (MsgErr (Msg ''rand'' [])), s)
     | raw # rest \<Rightarrow> (Inr (raw, cr_sha C raw), s\<lparr>db_random := rest\<rparr>))"

definition affectedOne :: "nat \<Rightarrow> go_err + unit" where
  "affectedOne n = (if n = 0 then Inl (DbErr DbNotFound) else Inr ())"

text \<open>An error replaced by what the callers tell apart.\<close>

definition mapErr :: "(go_err \<Rightarrow> go_err) \<Rightarrow> 'a db \<Rightarrow> 'a db" where
  "mapErr g m = (\<lambda>s. case m s of (Inl e, s') \<Rightarrow> (Inl (g e), s') | (Inr x, s') \<Rightarrow> (Inr x, s'))"

text \<open>Rows changed in place, and how many.\<close>

definition updateWhere :: "('r \<Rightarrow> bool) \<Rightarrow> ('r \<Rightarrow> 'r) \<Rightarrow> 'r list \<Rightarrow> 'r list" where
  "updateWhere p f rows = map (\<lambda>r. if p r then f r else r) rows"

definition countWhere :: "('r \<Rightarrow> bool) \<Rightarrow> 'r list \<Rightarrow> nat" where
  "countWhere p rows = length (filter p rows)"

section \<open>Operations that fail cleanly\<close>

text \<open>What an operation that returns an error leaves of the tables: all of them.\<close>

definition clean :: "'a db \<Rightarrow> bool" where
  "clean m \<longleftrightarrow> (\<forall>s e s'. m s = (Inl e, s') \<longrightarrow> db_t s' = db_t s)"

text \<open>An operation that only reads.\<close>

definition reads :: "'a db \<Rightarrow> bool" where
  "reads m \<longleftrightarrow> (\<forall>s. db_t (snd (m s)) = db_t s)"

lemma reads_clean: "reads m \<Longrightarrow> clean m"
  unfolding reads_def clean_def by (metis snd_conv)

lemma reads_rules:
  "reads (ret x)" "reads (throw e)" "reads (liftE r)" "reads (newToken C)" "reads (query f)" "reads (gets g)"
  by (auto simp: reads_def ret_def throw_def liftE_def newToken_def query_def stmt_def gets_def split: list.splits)

lemma clean_exec: "clean (exec f)" "clean (insertRow g)"
  by (auto simp: clean_def exec_def insertRow_def stmt_def Let_def split: list.splits if_splits sum.splits prod.splits)

lemma reads_bindE: "reads m \<Longrightarrow> (\<And>x. reads (f x)) \<Longrightarrow> reads (bindE m f)"
  by (auto simp: reads_def bindE_def split: prod.splits sum.splits) (metis snd_conv)+

lemma clean_bindE:
  assumes "reads m" and "\<And>x. clean (f x)"
  shows "clean (bindE m f)"
  unfolding clean_def
proof (intro allI impI)
  fix s e s' assume r: "bindE m f s = (Inl e, s')"
  obtain x s1 where m: "m s = (x, s1)" by (cases "m s") auto
  with assms(1) have t: "db_t s1 = db_t s" unfolding reads_def by (metis snd_conv)
  show "db_t s' = db_t s"
  proof (cases x)
    case (Inl e1) with r m t show ?thesis by (simp add: bindE_def)
  next
    case (Inr y)
    with r m have "f y s1 = (Inl e, s')" by (simp add: bindE_def)
    with assms(2) t show ?thesis unfolding clean_def by metis
  qed
qed

lemma clean_mapErr: "clean m \<Longrightarrow> clean (mapErr g m)"
  by (force simp: clean_def mapErr_def split: prod.splits sum.splits)

lemma clean_tx: "clean (tx m)"
  by (auto simp: clean_def tx_def bindE_def stmt_def ret_def split: prod.splits sum.splits list.splits if_splits)

text \<open>After its last change an operation may only answer.\<close>

lemma clean_bindE_ret: "clean m \<Longrightarrow> clean (bindE m (\<lambda>x. ret (g x)))"
  by (auto simp: clean_def bindE_def ret_def split: prod.splits sum.splits)

lemma clean_case_sum: "(\<And>e. clean (f e)) \<Longrightarrow> (\<And>x. clean (g x)) \<Longrightarrow> clean (case r of Inl e \<Rightarrow> f e | Inr x \<Rightarrow> g x)"
  by (cases r) auto

lemma reads_case_sum: "(\<And>e. reads (f e)) \<Longrightarrow> (\<And>x. reads (g x)) \<Longrightarrow> reads (case r of Inl e \<Rightarrow> f e | Inr x \<Rightarrow> g x)"
  by (cases r) auto

lemma bindE_if: "bindE (if b then m else n) f = (if b then bindE m f else bindE n f)"
  by simp

lemma clean_if: "clean m \<Longrightarrow> clean n \<Longrightarrow> clean (if b then m else n)"
  by simp

section \<open>Invariants of the tables\<close>

text \<open>
  \<open>keeps W I m\<close>: whatever \<open>m\<close> answers from tables with \<open>W\<close>, \<open>I\<close> of the next number and the tables holds
  after it when it held before, and no number is given back. \<open>W\<close> is what the operation has read before.
  \<open>numbered I\<close>: skipping numbers, as a rollback does, keeps \<open>I\<close>.
\<close>

definition keeps :: "(tables \<Rightarrow> bool) \<Rightarrow> (int \<Rightarrow> tables \<Rightarrow> bool) \<Rightarrow> 'a db \<Rightarrow> bool" where
  "keeps W I m \<longleftrightarrow> (\<forall>s. W (db_t s) \<longrightarrow>
     db_seq s \<le> db_seq (snd (m s)) \<and> (I (db_seq s) (db_t s) \<longrightarrow> I (db_seq (snd (m s))) (db_t (snd (m s)))))"

definition numbered :: "(int \<Rightarrow> tables \<Rightarrow> bool) \<Rightarrow> bool" where
  "numbered I \<longleftrightarrow> (\<forall>n m t. I n t \<longrightarrow> n \<le> m \<longrightarrow> I m t)"

lemma keepsI:
  "(\<And>s r s'. W (db_t s) \<Longrightarrow> m s = (r, s') \<Longrightarrow>
     db_seq s \<le> db_seq s' \<and> (I (db_seq s) (db_t s) \<longrightarrow> I (db_seq s') (db_t s'))) \<Longrightarrow> keeps W I m"
  unfolding keeps_def by (metis prod.collapse)

lemma keepsD:
  "keeps W I m \<Longrightarrow> W (db_t s) \<Longrightarrow> m s = (r, s') \<Longrightarrow>
     db_seq s \<le> db_seq s' \<and> (I (db_seq s) (db_t s) \<longrightarrow> I (db_seq s') (db_t s'))"
  unfolding keeps_def by (metis snd_conv)

lemma keeps_rules:
  "keeps W I (ret x)" "keeps W I (throw e)" "keeps W I (liftE r)" "keeps W I (newToken C)" "keeps W I (query f)" "keeps W I (gets g)"
  by (auto simp: keeps_def ret_def throw_def liftE_def newToken_def query_def stmt_def gets_def split: list.splits)

lemma keeps_stmt:
  assumes "keeps W I f"
  shows "keeps W I (stmt f)"
proof (rule keepsI)
  fix s r s' assume "W (db_t s)" and r: "stmt f s = (r, s')"
  then have w: "W (db_t (s\<lparr>db_faults := tl (db_faults s)\<rparr>))" by simp
  show "db_seq s \<le> db_seq s' \<and> (I (db_seq s) (db_t s) \<longrightarrow> I (db_seq s') (db_t s'))"
  proof (rule disjE [OF stmt_run [of f s]])
    assume "stmt f s = f (s\<lparr>db_faults := tl (db_faults s)\<rparr>)"
    with r have "f (s\<lparr>db_faults := tl (db_faults s)\<rparr>) = (r, s')" by simp
    from keepsD [OF assms w this] show ?thesis by simp
  qed (use r in auto)
qed

lemma keeps_exec:
  assumes "\<And>s x t. W (db_t s) \<Longrightarrow> I (db_seq s) (db_t s) \<Longrightarrow> f s = Inr (x, t) \<Longrightarrow> I (db_seq s) t"
  shows "keeps W I (exec f)"
  unfolding exec_def
proof (rule keeps_stmt, rule keepsI)
  fix s r s' assume w: "W (db_t s)"
    and r: "(case f s of Inl e \<Rightarrow> (Inl e, s) | Inr (x, t) \<Rightarrow> (Inr x, s\<lparr>db_t := t\<rparr>)) = (r, s')"
  then show "db_seq s \<le> db_seq s' \<and> (I (db_seq s) (db_t s) \<longrightarrow> I (db_seq s') (db_t s'))"
    using assms [of s] by (auto split: sum.splits prod.splits)
qed

lemma keeps_insertRow:
  assumes "numbered I" and f: "\<And>s x t. I (db_seq s) (db_t s) \<Longrightarrow> f (db_seq s) s = Inr (x, t) \<Longrightarrow> I (db_seq s + 1) t"
  shows "keeps W I (insertRow f)"
  unfolding insertRow_def Let_def
proof (rule keeps_stmt, rule keepsI)
  fix s r s' assume r: "(case f (db_seq s) s of Inl e \<Rightarrow> (Inl e, s\<lparr>db_seq := db_seq s + 1\<rparr>)
      | Inr (x, t) \<Rightarrow> (Inr x, s\<lparr>db_seq := db_seq s + 1, db_t := t\<rparr>)) = (r, s')"
  have "I (db_seq s) (db_t s) \<Longrightarrow> I (db_seq s + 1) (db_t s)" using assms(1) unfolding numbered_def by force
  with r f [of s] show "db_seq s \<le> db_seq s' \<and> (I (db_seq s) (db_t s) \<longrightarrow> I (db_seq s') (db_t s'))"
    by (auto split: sum.splits prod.splits)
qed

lemma keeps_bindE:
  assumes m: "keeps W I m" and f: "\<And>x. keeps (\<lambda>_. True) I (f x)"
  shows "keeps W I (bindE m f)"
proof (rule keepsI)
  fix s r s' assume w: "W (db_t s)" and b: "bindE m f s = (r, s')"
  obtain x s1 where 1: "m s = (x, s1)" by (cases "m s") auto
  note k1 = keepsD [OF m w 1]
  show "db_seq s \<le> db_seq s' \<and> (I (db_seq s) (db_t s) \<longrightarrow> I (db_seq s') (db_t s'))"
  proof (cases x)
    case (Inl e) with b 1 k1 show ?thesis by (simp add: bindE_def)
  next
    case (Inr y)
    with b 1 have "f y s1 = (r, s')" by (simp add: bindE_def)
    from keepsD [OF f TrueI this] k1 show ?thesis by auto
  qed
qed

text \<open>What a query has seen still holds for the statement after it.\<close>

lemma keeps_query:
  assumes "\<And>x. keeps (\<lambda>t. W t \<and> (\<exists>s. db_t s = t \<and> f s = Inr x)) I (g x)"
  shows "keeps W I (bindE (query f) g)"
proof (rule keepsI)
  fix s r s' assume w: "W (db_t s)" and b: "bindE (query f) g s = (r, s')"
  let ?s = "s\<lparr>db_faults := tl (db_faults s)\<rparr>"
  have "query f s = (Inl (DbErr DbDriver), ?s) \<or> query f s = (f ?s, ?s)" unfolding query_def by (rule stmt_run)
  with b consider "s' = ?s" | x where "f ?s = Inr x" "g x ?s = (r, s')"
    by (auto simp: bindE_def split: sum.splits)
  then show "db_seq s \<le> db_seq s' \<and> (I (db_seq s) (db_t s) \<longrightarrow> I (db_seq s') (db_t s'))"
  proof cases
    case (2 x)
    from w have "W (db_t ?s)" by simp
    with 2(1) have "W (db_t ?s) \<and> (\<exists>s1. db_t s1 = db_t ?s \<and> f s1 = Inr x)" by blast
    from keepsD [OF assms this 2(2)] show ?thesis by simp
  qed simp
qed

lemma keeps_tx:
  assumes "numbered I" and m: "keeps W I m"
  shows "keeps W I (tx m)"
proof -
  have b: "stmt (ret ()) = query (\<lambda>_. Inr ())" by (simp add: query_def ret_def)
  let ?m = "bindE m (\<lambda>x. thenE (stmt (ret ())) (ret x))"
  have k: "keeps W I ?m" unfolding b by (intro keeps_bindE m keeps_rules)
  have "keeps W I (\<lambda>s. case ?m s of (Inl e, s') \<Rightarrow> (Inl e, s'\<lparr>db_t := db_t s\<rparr>) | (Inr x, s') \<Rightarrow> (Inr x, s'))"
  proof (rule keepsI)
    fix s r s' assume w: "W (db_t s)"
      and r: "(case ?m s of (Inl e, s') \<Rightarrow> (Inl e, s'\<lparr>db_t := db_t s\<rparr>) | (Inr x, s') \<Rightarrow> (Inr x, s')) = (r, s')"
    obtain x s1 where 1: "?m s = (x, s1)" by (cases "?m s") auto
    from keepsD [OF k w 1] r 1 assms(1) show "db_seq s \<le> db_seq s' \<and> (I (db_seq s) (db_t s) \<longrightarrow> I (db_seq s') (db_t s'))"
      unfolding numbered_def by (cases x) auto
  qed
  then show ?thesis unfolding tx_def b by (intro keeps_query) (simp add: keeps_def)
qed

lemma keeps_mapErr: "keeps W I m \<Longrightarrow> keeps W I (mapErr g m)"
  unfolding keeps_def mapErr_def by (auto split: prod.splits sum.splits)

lemma keeps_case_sum: "(\<And>e. keeps W I (f e)) \<Longrightarrow> (\<And>x. keeps W I (g x)) \<Longrightarrow> keeps W I (case r of Inl e \<Rightarrow> f e | Inr x \<Rightarrow> g x)"
  by (cases r) auto

lemma keeps_case_option: "keeps W I f \<Longrightarrow> (\<And>x. keeps W I (g x)) \<Longrightarrow> keeps W I (case r of None \<Rightarrow> f | Some x \<Rightarrow> g x)"
  by (cases r) auto

lemma keeps_case_prod: "(\<And>a b. keeps W I (f a b)) \<Longrightarrow> keeps W I (case r of (a, b) \<Rightarrow> f a b)"
  by (cases r) auto

lemma keeps_if: "(b \<Longrightarrow> keeps W I m) \<Longrightarrow> (\<not> b \<Longrightarrow> keeps W I n) \<Longrightarrow> keeps W I (if b then m else n)"
  by simp

lemma keeps_forE: "(\<And>x. x \<in> set xs \<Longrightarrow> keeps (\<lambda>_. True) I (f x)) \<Longrightarrow> keeps (\<lambda>_. True) I (forE f xs)"
  by (induction xs) (auto intro: keeps_rules keeps_bindE)

section \<open>Runs that return\<close>

fun returns :: "go_err + 'a \<Rightarrow> bool" where
  "returns (Inl e) \<longleftrightarrow> False"
| "returns (Inr x) \<longleftrightarrow> True"

lemma returnsE: "returns (fst (m s)) \<Longrightarrow> (\<And>x. m s = (Inr x, snd (m s)) \<Longrightarrow> P) \<Longrightarrow> P"
  by (cases "m s"; cases "fst (m s)") auto

lemma not_returnsE: "\<not> returns (fst (m s)) \<Longrightarrow> (\<And>e. m s = (Inl e, snd (m s)) \<Longrightarrow> P) \<Longrightarrow> P"
  by (cases "m s"; cases "fst (m s)") auto

end
