(* ===== verification/Panel_Users.thy ===== *)
theory Panel_Users
  imports Panel_Db
begin

text \<open>
  Accounts, sessions, single-use links and two-factor secrets of the panel: \<open>internal/paneldb/users.go\<close>,
  \<open>sessions.go\<close>, \<open>tokens.go\<close> and \<open>twofactor.go\<close>.
\<close>

section \<open>Users\<close>

record user =
  us_id :: int
  us_username :: string
  us_email :: string
  us_admin :: bool
  us_created :: time
  us_notify :: bool
  us_discord_id :: string
  us_discord_name :: string
  us_two_factor :: bool
  us_profile :: profile

definition NormalizeEmail :: "string \<Rightarrow> string" where
  "NormalizeEmail s = toLower (trimSpace s)"

text \<open>\<open>scanUser\<close>: the columns of a row; NULL reads as the empty text.\<close>

definition scanUser :: "user_row \<Rightarrow> user" where
  "scanUser r = \<lparr>us_id = ur_id r, us_username = ur_username r, us_email = ur_email r, us_admin = ur_admin r,
     us_created = ur_created r, us_notify = ur_notify r,
     us_discord_id = (case ur_discord_id r of None \<Rightarrow> [] | Some d \<Rightarrow> d), us_discord_name = ur_discord_name r,
     us_two_factor = (ur_totp_enabled r \<noteq> None), us_profile = ur_profile r\<rparr>"

definition hashPassword :: "crypto \<Rightarrow> string \<Rightarrow> go_err + string" where
  "hashPassword C password = (case cr_bcrypt C password of Inl e \<Rightarrow> Inl (Wrapped ''hashing password: '' e) | Inr h \<Rightarrow> Inr h)"

fun userInsertError :: "go_err \<Rightarrow> go_err" where
  "userInsertError (DbErr (DbUnique c)) = (if c = ''users_email_key'' then DbErr DbEmailTaken else DbErr DbAlreadyExists)"
| "userInsertError e = e"

definition usersOf :: "pdb \<Rightarrow> user_row list" where
  "usersOf s = tb_users (db_t s)"

definition newUserRow :: "int \<Rightarrow> time \<Rightarrow> string \<Rightarrow> string \<Rightarrow> string \<Rightarrow> bool \<Rightarrow> user_row" where
  "newUserRow n now username email hash isAdmin = \<lparr>ur_id = n, ur_username = username, ur_email = email, ur_hash = hash,
     ur_admin = isAdmin, ur_created = now, ur_updated = now, ur_profile = no_profile, ur_notify = True, ur_discord_id = None,
     ur_discord_name = [], ur_totp_secret = None, ur_totp_enabled = None, ur_totp_step = 0\<rparr>"

definition emailTaken :: "string \<Rightarrow> (user_row \<Rightarrow> bool) \<Rightarrow> user_row list \<Rightarrow> bool" where
  "emailTaken email other us = list_ex (\<lambda>u. other u \<and> ur_email u = email) us"

definition insertUser :: "string \<Rightarrow> string \<Rightarrow> string \<Rightarrow> bool \<Rightarrow> user db" where
  "insertUser username email hash isAdmin = insertRow (\<lambda>n s.
     let r = newUserRow n (db_now s) username email hash isAdmin; t = db_t s in
     if list_ex (\<lambda>u. ur_username u = username) (tb_users t) then Inl (DbErr (DbUnique ''users_username_key''))
     else if emailTaken email (\<lambda>_. True) (tb_users t) then Inl (DbErr (DbUnique ''users_email_key''))
     else Inr (scanUser r, t\<lparr>tb_users := tb_users t @ [r]\<rparr>))"

definition createUser :: "crypto \<Rightarrow> string \<Rightarrow> string \<Rightarrow> string \<Rightarrow> bool \<Rightarrow> user db" where
  "createUser C username email password isAdmin =
     bindE (liftE (hashPassword C password)) (\<lambda>hash.
       mapErr userInsertError (insertUser username (NormalizeEmail email) hash isAdmin))"

definition CreateUser :: "crypto \<Rightarrow> string \<Rightarrow> string \<Rightarrow> string \<Rightarrow> bool \<Rightarrow> user db" where
  "CreateUser C username email password isAdmin = createUser C username email password isAdmin"

text \<open>\<open>INSERT ... ON CONFLICT (username) DO UPDATE\<close>.\<close>

definition upsertRow :: "string \<Rightarrow> string \<Rightarrow> string \<Rightarrow> bool \<Rightarrow> user db" where
  "upsertRow username email hash isAdmin = insertRow (\<lambda>n s.
     let t = db_t s; r = newUserRow n (db_now s) username email hash isAdmin;
         upd = (\<lambda>u. u\<lparr>ur_email := email, ur_hash := hash, ur_admin := isAdmin, ur_updated := db_now s\<rparr>) in
     case find (\<lambda>u. ur_username u = username) (tb_users t) of
       Some u \<Rightarrow> if emailTaken email (\<lambda>v. ur_username v \<noteq> username) (tb_users t) then Inl (DbErr (DbUnique ''users_email_key''))
         else Inr (scanUser (upd u), t\<lparr>tb_users := updateWhere (\<lambda>v. ur_username v = username) upd (tb_users t)\<rparr>)
     | None \<Rightarrow> if emailTaken email (\<lambda>_. True) (tb_users t) then Inl (DbErr (DbUnique ''users_email_key''))
         else Inr (scanUser r, t\<lparr>tb_users := tb_users t @ [r]\<rparr>))"

definition UpsertUser :: "crypto \<Rightarrow> string \<Rightarrow> string \<Rightarrow> string \<Rightarrow> bool \<Rightarrow> user db" where
  "UpsertUser C username email password isAdmin =
     bindE (liftE (hashPassword C password)) (\<lambda>hash.
       mapErr userInsertError (upsertRow username (NormalizeEmail email) hash isAdmin))"

definition findUser :: "(user_row \<Rightarrow> bool) \<Rightarrow> user_row db" where
  "findUser p = query (\<lambda>s. case find p (usersOf s) of None \<Rightarrow> Inl (DbErr DbNotFound) | Some u \<Rightarrow> Inr u)"

text \<open>Whichever way it fails, the answer is \<open>ErrNotFound\<close>; the comparison with a dummy hash only takes time.\<close>

definition VerifyPassword :: "crypto \<Rightarrow> string \<Rightarrow> string \<Rightarrow> user db" where
  "VerifyPassword C login password =
     bindE (findUser (\<lambda>u. if CHR 0x40 \<in> set login then ur_email u = NormalizeEmail login else ur_username u = login)) (\<lambda>u.
       if cr_match C (ur_hash u) password then ret (scanUser u) else throw (DbErr DbNotFound))"

definition VerifyUserPassword :: "crypto \<Rightarrow> int \<Rightarrow> string \<Rightarrow> unit db" where
  "VerifyUserPassword C userID password =
     bindE (findUser (\<lambda>u. ur_id u = userID)) (\<lambda>u.
       if cr_match C (ur_hash u) password then ret () else throw (DbErr DbNotFound))"

definition GetUser :: "int \<Rightarrow> user db" where
  "GetUser uid = bindE (findUser (\<lambda>u. ur_id u = uid)) (\<lambda>u. ret (scanUser u))"

definition GetUserByUsername :: "string \<Rightarrow> user db" where
  "GetUserByUsername username = bindE (findUser (\<lambda>u. ur_username u = username)) (\<lambda>u. ret (scanUser u))"

definition GetUserByEmail :: "string \<Rightarrow> user db" where
  "GetUserByEmail email = bindE (findUser (\<lambda>u. ur_email u = NormalizeEmail email)) (\<lambda>u. ret (scanUser u))"

definition ListUsers :: "user list db" where
  "ListUsers = query (\<lambda>s. Inr (map scanUser (sort_key ur_username (usersOf s))))"

text \<open>\<open>UPDATE users ... WHERE id = $1\<close>, and the number of rows it changed.\<close>

definition updateUser :: "int \<Rightarrow> (time \<Rightarrow> user_row \<Rightarrow> user_row) \<Rightarrow> nat db" where
  "updateUser uid f = exec (\<lambda>s. let p = (\<lambda>u. ur_id u = uid); t = db_t s in
     Inr (countWhere p (tb_users t), t\<lparr>tb_users := updateWhere p (f (db_now s)) (tb_users t)\<rparr>))"

definition UpdateProfile :: "int \<Rightarrow> profile \<Rightarrow> unit db" where
  "UpdateProfile userID p =
     bindE (updateUser userID (\<lambda>now u. u\<lparr>ur_profile := p, ur_updated := now\<rparr>)) (\<lambda>n. liftE (affectedOne n))"

definition setPassword :: "crypto \<Rightarrow> int \<Rightarrow> string \<Rightarrow> unit db" where
  "setPassword C userID password =
     bindE (liftE (hashPassword C password)) (\<lambda>hash.
     bindE (updateUser userID (\<lambda>now u. u\<lparr>ur_hash := hash, ur_updated := now\<rparr>)) (\<lambda>n. liftE (affectedOne n)))"

definition SetPassword :: "crypto \<Rightarrow> int \<Rightarrow> string \<Rightarrow> unit db" where
  "SetPassword C userID password = setPassword C userID password"

text \<open>\<open>UPDATE users SET email = $2 WHERE id = $1 RETURNING ...\<close>.\<close>

definition updateEmail :: "int \<Rightarrow> string \<Rightarrow> user db" where
  "updateEmail userID email = exec (\<lambda>s.
     let t = db_t s; upd = (\<lambda>u. u\<lparr>ur_email := email, ur_updated := db_now s\<rparr>) in
     case find (\<lambda>u. ur_id u = userID) (tb_users t) of
       None \<Rightarrow> Inl (DbErr DbNotFound)
     | Some u \<Rightarrow> if emailTaken email (\<lambda>v. ur_id v \<noteq> userID) (tb_users t) then Inl (DbErr (DbUnique ''users_email_key''))
         else Inr (scanUser (upd u), t\<lparr>tb_users := updateWhere (\<lambda>v. ur_id v = userID) upd (tb_users t)\<rparr>))"

definition SetEmail :: "int \<Rightarrow> string \<Rightarrow> user db" where
  "SetEmail userID email = mapErr userInsertError (updateEmail userID (NormalizeEmail email))"

definition SetAdmin :: "int \<Rightarrow> bool \<Rightarrow> unit db" where
  "SetAdmin userID isAdmin = tx (thenE
     (if isAdmin then ret ()
      else bindE (query (\<lambda>s. Inr (map ur_id (filter ur_admin (usersOf s))))) (\<lambda>admins.
        if admins = [userID] then throw (DbErr DbLastAdmin) else ret ()))
     (bindE (updateUser userID (\<lambda>now u. u\<lparr>ur_admin := isAdmin, ur_updated := now\<rparr>)) (\<lambda>n. liftE (affectedOne n))))"

text \<open>\<open>DELETE FROM users\<close> with what the foreign keys cascade to.\<close>

definition deleteUserRow :: "int \<Rightarrow> tables \<Rightarrow> tables" where
  "deleteUserRow uid t = t\<lparr>tb_users := filter (\<lambda>u. ur_id u \<noteq> uid) (tb_users t),
     tb_sessions := filter (\<lambda>x. sn_user x \<noteq> uid) (tb_sessions t),
     tb_tokens := filter (\<lambda>x. tk_user x \<noteq> uid) (tb_tokens t),
     tb_codes := filter (\<lambda>x. fst x \<noteq> uid) (tb_codes t),
     tb_members := filter (\<lambda>m. mb_user m \<noteq> uid) (tb_members t),
     tb_grants := filter (\<lambda>g. gr_user g \<noteq> uid) (tb_grants t),
     tb_invites := map (\<lambda>i. if iv_invited_by i = Some uid then i\<lparr>iv_invited_by := None\<rparr> else i) (tb_invites t)\<rparr>"

definition ownersOf :: "int \<Rightarrow> tables \<Rightarrow> member_row list" where
  "ownersOf orgID t = filter (\<lambda>m. mb_org m = orgID \<and> mb_role m = RoleOwner) (tb_members t)"

text \<open>Whether the user is the only owner of some organization.\<close>

definition soleOwner :: "int \<Rightarrow> tables \<Rightarrow> bool" where
  "soleOwner uid t = list_ex (\<lambda>m. mb_user m = uid \<and> mb_role m = RoleOwner \<and> length (ownersOf (mb_org m) t) = 1) (tb_members t)"

definition DeleteUser :: "int \<Rightarrow> unit db" where
  "DeleteUser uid = tx (thenE (query (\<lambda>s. Inr ()))
     (bindE (query (\<lambda>s. Inr (soleOwner uid (db_t s)))) (\<lambda>sole.
       if sole then throw (DbErr DbLastOwner)
       else bindE (exec (\<lambda>s. Inr (countWhere (\<lambda>u. ur_id u = uid) (usersOf s), deleteUserRow uid (db_t s)))) (\<lambda>n.
         liftE (affectedOne n)))))"

definition HasAdmin :: "bool db" where
  "HasAdmin = query (\<lambda>s. Inr (list_ex ur_admin (usersOf s)))"

section \<open>Sessions\<close>

definition CreateSession :: "crypto \<Rightarrow> int \<Rightarrow> duration \<Rightarrow> (string \<times> time) db" where
  "CreateSession C userID ttl = bindE (newToken C) (\<lambda>(token, hash).
     bindE (gets (\<lambda>s. db_now s + ttl)) (\<lambda>expiresAt.
     thenE (exec (\<lambda>s. let t = db_t s in
         if list_ex (\<lambda>x. sn_hash x = hash) (tb_sessions t) then Inl (DbErr (DbUnique ''sessions_pkey''))
         else if \<not> list_ex (\<lambda>u. ur_id u = userID) (tb_users t) then Inl (DbErr DbDriver)
         else Inr ((), t\<lparr>tb_sessions := tb_sessions t @
           [\<lparr>sn_hash = hash, sn_user = userID, sn_expires = expiresAt, sn_revoked = None\<rparr>]\<rparr>)))
       (ret (token, expiresAt))))"

definition liveSession :: "time \<Rightarrow> string \<Rightarrow> session_row \<Rightarrow> bool" where
  "liveSession now hash x \<longleftrightarrow> sn_hash x = hash \<and> sn_revoked x = None \<and> now < sn_expires x"

definition ValidateSession :: "crypto \<Rightarrow> string \<Rightarrow> user db" where
  "ValidateSession C token = query (\<lambda>s.
     case find (liveSession (db_now s) (cr_sha C token)) (tb_sessions (db_t s)) of
       None \<Rightarrow> Inl (DbErr DbNotFound)
     | Some x \<Rightarrow> (case find (\<lambda>u. ur_id u = sn_user x) (usersOf s) of
         None \<Rightarrow> Inl (DbErr DbNotFound) | Some u \<Rightarrow> Inr (scanUser u)))"

definition revokeWhere :: "(session_row \<Rightarrow> bool) \<Rightarrow> unit db" where
  "revokeWhere p = exec (\<lambda>s. let t = db_t s in
     Inr ((), t\<lparr>tb_sessions := updateWhere (\<lambda>x. sn_revoked x = None \<and> p x) (\<lambda>x. x\<lparr>sn_revoked := Some (db_now s)\<rparr>) (tb_sessions t)\<rparr>))"

definition RevokeSession :: "crypto \<Rightarrow> string \<Rightarrow> unit db" where
  "RevokeSession C token = revokeWhere (\<lambda>x. sn_hash x = cr_sha C token)"

definition revokeUserSessions :: "crypto \<Rightarrow> int \<Rightarrow> string \<Rightarrow> unit db" where
  "revokeUserSessions C userID exceptToken =
     (let except = (if exceptToken \<noteq> [] then cr_sha C exceptToken else [])
      in revokeWhere (\<lambda>x. sn_user x = userID \<and> sn_hash x \<noteq> except))"

definition RevokeUserSessions :: "crypto \<Rightarrow> int \<Rightarrow> string \<Rightarrow> unit db" where
  "RevokeUserSessions C userID exceptToken = revokeUserSessions C userID exceptToken"

section \<open>Single-use links\<close>

definition IssueUserToken :: "crypto \<Rightarrow> int \<Rightarrow> token_purpose \<Rightarrow> string \<Rightarrow> duration \<Rightarrow> string db" where
  "IssueUserToken C userID purpose newEmail ttl = bindE (newToken C) (\<lambda>(raw, hash). tx (
     thenE (exec (\<lambda>s. let t = db_t s in Inr ((), t\<lparr>tb_tokens := filter (\<lambda>x.
         \<not> (tk_user x = userID \<and> tk_purpose x = purpose \<and> tk_used x = None)) (tb_tokens t)\<rparr>)))
     (thenE (exec (\<lambda>s. let t = db_t s in
         if list_ex (\<lambda>x. tk_hash x = hash) (tb_tokens t) then Inl (DbErr (DbUnique ''user_tokens_pkey''))
         else if \<not> list_ex (\<lambda>u. ur_id u = userID) (tb_users t) then Inl (DbErr DbDriver)
         else Inr ((), t\<lparr>tb_tokens := tb_tokens t @ [\<lparr>tk_hash = hash, tk_user = userID, tk_purpose = purpose,
           tk_new_email = (if newEmail \<noteq> [] then Some (NormalizeEmail newEmail) else None),
           tk_expires = db_now s + ttl, tk_used = None\<rparr>]\<rparr>)))
     (ret raw))))"

definition liveToken :: "time \<Rightarrow> string \<Rightarrow> token_purpose \<Rightarrow> token_row \<Rightarrow> bool" where
  "liveToken now hash purpose x \<longleftrightarrow> tk_hash x = hash \<and> tk_purpose x = purpose \<and> tk_used x = None \<and> now < tk_expires x"

text \<open>\<open>UPDATE user_tokens SET used_at ... RETURNING\<close>: the user and the new address.\<close>

definition consumeUserToken :: "crypto \<Rightarrow> string \<Rightarrow> token_purpose \<Rightarrow> (int \<times> string) db" where
  "consumeUserToken C token purpose = exec (\<lambda>s. let t = db_t s; p = liveToken (db_now s) (cr_sha C token) purpose in
     case find p (tb_tokens t) of
       None \<Rightarrow> Inl (DbErr DbInvalidToken)
     | Some x \<Rightarrow> Inr ((tk_user x, case tk_new_email x of None \<Rightarrow> [] | Some e \<Rightarrow> e),
         t\<lparr>tb_tokens := updateWhere p (\<lambda>y. y\<lparr>tk_used := Some (db_now s)\<rparr>) (tb_tokens t)\<rparr>))"

definition ResetPassword :: "crypto \<Rightarrow> string \<Rightarrow> string \<Rightarrow> user db" where
  "ResetPassword C token newPassword = tx (
     bindE (consumeUserToken C token PurposePasswordReset) (\<lambda>(userID, _).
     thenE (setPassword C userID newPassword)
     (thenE (revokeUserSessions C userID [])
     (GetUser userID))))"

definition ConfirmEmailChange :: "crypto \<Rightarrow> string \<Rightarrow> user db" where
  "ConfirmEmailChange C token = tx (
     bindE (consumeUserToken C token PurposeEmailChange) (\<lambda>(userID, newEmail).
       mapErr userInsertError (updateEmail userID newEmail)))"

section \<open>Two-factor authentication\<close>

definition GetTOTP :: "int \<Rightarrow> (string \<times> bool) db" where
  "GetTOTP userID = bindE (findUser (\<lambda>u. ur_id u = userID)) (\<lambda>u.
     ret (case ur_totp_secret u of None \<Rightarrow> [] | Some x \<Rightarrow> x, ur_totp_enabled u \<noteq> None))"

definition insertCode :: "int \<Rightarrow> string \<Rightarrow> unit db" where
  "insertCode userID h = exec (\<lambda>s. let t = db_t s in
     if (userID, h) \<in> set (tb_codes t) then Inl (DbErr (DbUnique ''user_recovery_codes_pkey''))
     else if \<not> list_ex (\<lambda>u. ur_id u = userID) (tb_users t) then Inl (DbErr DbDriver)
     else Inr ((), t\<lparr>tb_codes := tb_codes t @ [(userID, h)]\<rparr>))"

definition replaceRecoveryCodes :: "int \<Rightarrow> string list \<Rightarrow> unit db" where
  "replaceRecoveryCodes userID hashes =
     thenE (exec (\<lambda>s. let t = db_t s in Inr ((), t\<lparr>tb_codes := filter (\<lambda>c. fst c \<noteq> userID) (tb_codes t)\<rparr>)))
       (forE (insertCode userID) hashes)"

definition EnableTOTP :: "int \<Rightarrow> string \<Rightarrow> int \<Rightarrow> string list \<Rightarrow> unit db" where
  "EnableTOTP userID secretEnc step codeHashes = tx (
     thenE (updateUser userID (\<lambda>now u. u\<lparr>ur_totp_secret := Some secretEnc, ur_totp_enabled := Some now, ur_totp_step := step\<rparr>))
       (replaceRecoveryCodes userID codeHashes))"

definition DisableTOTP :: "int \<Rightarrow> unit db" where
  "DisableTOTP userID = tx (
     thenE (updateUser userID (\<lambda>now u. u\<lparr>ur_totp_secret := None, ur_totp_enabled := None, ur_totp_step := 0\<rparr>))
       (replaceRecoveryCodes userID []))"

definition AcceptTOTPStep :: "int \<Rightarrow> int \<Rightarrow> bool db" where
  "AcceptTOTPStep userID step = exec (\<lambda>s. let t = db_t s; p = (\<lambda>u. ur_id u = userID \<and> ur_totp_step u < step) in
     Inr (countWhere p (tb_users t) = 1, t\<lparr>tb_users := updateWhere p (\<lambda>u. u\<lparr>ur_totp_step := step\<rparr>) (tb_users t)\<rparr>))"

definition ReplaceRecoveryCodes :: "int \<Rightarrow> string list \<Rightarrow> unit db" where
  "ReplaceRecoveryCodes userID hashes = tx (replaceRecoveryCodes userID hashes)"

definition UseRecoveryCode :: "int \<Rightarrow> string \<Rightarrow> bool db" where
  "UseRecoveryCode userID hash = exec (\<lambda>s. let t = db_t s in
     Inr (countWhere (\<lambda>c. c = (userID, hash)) (tb_codes t) = 1, t\<lparr>tb_codes := filter (\<lambda>c. c \<noteq> (userID, hash)) (tb_codes t)\<rparr>))"

definition CountRecoveryCodes :: "int \<Rightarrow> nat db" where
  "CountRecoveryCodes userID = query (\<lambda>s. Inr (countWhere (\<lambda>c. fst c = userID) (tb_codes (db_t s))))"

end
