(* ===== verification/Panel_Orgs.thy ===== *)
theory Panel_Orgs
  imports Panel_Users
begin

text \<open>
  Organizations, memberships, grants and invitations of the panel: \<open>internal/paneldb/orgs.go\<close>,
  \<open>permissions.go\<close>, \<open>invitations.go\<close> and the organization part of \<open>twofactor.go\<close>.
\<close>

section \<open>Roles and slugs\<close>

definition roleRank :: "role \<Rightarrow> nat" where
  "roleRank r = (case r of RoleMember \<Rightarrow> 1 | RoleAdmin \<Rightarrow> 2 | RoleOwner \<Rightarrow> 3 | OtherRole _ \<Rightarrow> 0)"

definition validRole :: "role \<Rightarrow> bool" where
  "validRole r \<longleftrightarrow> 0 < roleRank r"

definition AtLeast :: "role \<Rightarrow> role \<Rightarrow> bool" where
  "AtLeast r m \<longleftrightarrow> 0 < roleRank r \<and> roleRank m \<le> roleRank r"

text \<open>\<open>^[a-z0-9]([-a-z0-9]{0,30}[a-z0-9])?$\<close>, less the two reserved names.\<close>

definition slugEnd :: "char \<Rightarrow> bool" where
  "slugEnd c \<longleftrightarrow> isLowerA c \<or> isDigit c"

definition ValidSlug :: "string \<Rightarrow> bool" where
  "ValidSlug s \<longleftrightarrow> s \<noteq> [] \<and> length s \<le> 32 \<and> slugEnd (hd s) \<and> slugEnd (last s) \<and>
     list_all (\<lambda>c. slugEnd c \<or> c = CHR ''-'') s \<and> s \<noteq> ''system'' \<and> s \<noteq> ''catalog''"

section \<open>Organizations\<close>

definition insertOrg :: "string \<Rightarrow> string \<Rightarrow> org db" where
  "insertOrg slug name = insertRow (\<lambda>n s. let t = db_t s;
     g = \<lparr>og_id = n, og_slug = slug, og_name = name, og_created = db_now s, og_require2fa = False\<rparr> in
     if list_ex (\<lambda>x. og_slug x = slug) (tb_orgs t) then Inl (DbErr (DbUnique ''organizations_slug_key''))
     else Inr (g, t\<lparr>tb_orgs := tb_orgs t @ [g]\<rparr>))"

text \<open>\<open>INSERT INTO memberships\<close>: the row exists once, its organization and user exist, its role is known.\<close>

definition insertMember :: "int \<Rightarrow> int \<Rightarrow> role \<Rightarrow> bool \<Rightarrow> unit db" where
  "insertMember orgID userID r doNothing = exec (\<lambda>s. let t = db_t s in
     if \<not> validRole r \<or> \<not> list_ex (\<lambda>x. og_id x = orgID) (tb_orgs t) \<or> \<not> list_ex (\<lambda>u. ur_id u = userID) (tb_users t)
     then Inl (DbErr DbDriver)
     else if list_ex (\<lambda>m. mb_org m = orgID \<and> mb_user m = userID) (tb_members t)
     then (if doNothing then Inr ((), t) else Inl (DbErr (DbUnique ''memberships_pkey'')))
     else Inr ((), t\<lparr>tb_members := tb_members t @ [\<lparr>mb_org = orgID, mb_user = userID, mb_role = r\<rparr>]\<rparr>))"

fun uniqueIs :: "go_err \<Rightarrow> go_err \<Rightarrow> go_err" where
  "uniqueIs e (DbErr (DbUnique c)) = e"
| "uniqueIs e x = x"

definition CreateOrg :: "string \<Rightarrow> string \<Rightarrow> int \<Rightarrow> org db" where
  "CreateOrg slug name ownerUserID =
     (if \<not> ValidSlug slug then throw (DbErr DbInvalidSlug)
      else tx (bindE (mapErr (uniqueIs (DbErr DbAlreadyExists)) (insertOrg slug name)) (\<lambda>g.
        thenE (if ownerUserID \<noteq> 0 then insertMember (og_id g) ownerUserID RoleOwner False else ret ()) (ret g))))"

definition GetOrgBySlug :: "string \<Rightarrow> org db" where
  "GetOrgBySlug slug = query (\<lambda>s. case find (\<lambda>x. og_slug x = slug) (tb_orgs (db_t s)) of
     None \<Rightarrow> Inl (DbErr DbNotFound) | Some g \<Rightarrow> Inr g)"

definition ListOrgsForUser :: "int \<Rightarrow> (org \<times> role) list db" where
  "ListOrgsForUser userID = query (\<lambda>s. let t = db_t s in
     Inr (sort_key (\<lambda>x. og_slug (fst x)) (concat (map (\<lambda>g. map (\<lambda>m. (g, mb_role m))
       (filter (\<lambda>m. mb_org m = og_id g \<and> mb_user m = userID) (tb_members t))) (tb_orgs t)))))"

definition ListAllOrgs :: "org list db" where
  "ListAllOrgs = query (\<lambda>s. Inr (sort_key og_slug (tb_orgs (db_t s))))"

definition deleteOrgRows :: "(int \<Rightarrow> bool) \<Rightarrow> tables \<Rightarrow> tables" where
  "deleteOrgRows p t = t\<lparr>tb_orgs := filter (\<lambda>x. \<not> p (og_id x)) (tb_orgs t),
     tb_members := filter (\<lambda>m. \<not> p (mb_org m)) (tb_members t),
     tb_grants := filter (\<lambda>g. \<not> p (gr_org g)) (tb_grants t),
     tb_invites := filter (\<lambda>i. \<not> p (iv_org i)) (tb_invites t),
     tb_guilds := filter (\<lambda>g. \<not> p (gd_org g)) (tb_guilds t),
     tb_notify := filter (\<lambda>x. \<not> p (fst x)) (tb_notify t),
     tb_muted := filter (\<lambda>x. \<not> p (fst x)) (tb_muted t)\<rparr>"

definition DeleteOrg :: "string \<Rightarrow> unit db" where
  "DeleteOrg slug = bindE (exec (\<lambda>s. let t = db_t s; gone = filter (\<lambda>x. og_slug x = slug) (tb_orgs t) in
       Inr (length gone, deleteOrgRows (\<lambda>i. i \<in> set (map og_id gone)) t))) (\<lambda>n. liftE (affectedOne n))"

definition SetOrgRequire2FA :: "int \<Rightarrow> bool \<Rightarrow> unit db" where
  "SetOrgRequire2FA orgID on = exec (\<lambda>s. let t = db_t s in
     Inr ((), t\<lparr>tb_orgs := updateWhere (\<lambda>x. og_id x = orgID) (\<lambda>x. x\<lparr>og_require2fa := on\<rparr>) (tb_orgs t)\<rparr>))"

section \<open>Members\<close>

record member =
  me_user :: user
  me_role :: role

definition roleOf :: "int \<Rightarrow> int \<Rightarrow> tables \<Rightarrow> role option" where
  "roleOf orgID userID t = map_option mb_role (find (\<lambda>m. mb_org m = orgID \<and> mb_user m = userID) (tb_members t))"

definition GetMembership :: "int \<Rightarrow> int \<Rightarrow> role db" where
  "GetMembership orgID userID = query (\<lambda>s. case roleOf orgID userID (db_t s) of
     None \<Rightarrow> Inl (DbErr DbNotFound) | Some r \<Rightarrow> Inr r)"

definition ListMembers :: "int \<Rightarrow> member list db" where
  "ListMembers orgID = query (\<lambda>s. let t = db_t s in
     Inr (sort_key (\<lambda>x. us_username (me_user x)) (concat (map (\<lambda>m. map (\<lambda>u. \<lparr>me_user = scanUser u, me_role = mb_role m\<rparr>)
       (filter (\<lambda>u. ur_id u = mb_user m) (tb_users t))) (filter (\<lambda>m. mb_org m = orgID) (tb_members t))))))"

definition CountMembersWithout2FA :: "int \<Rightarrow> nat db" where
  "CountMembersWithout2FA orgID = query (\<lambda>s. let t = db_t s in
     Inr (length (concat (map (\<lambda>m. filter (\<lambda>u. ur_id u = mb_user m \<and> ur_totp_enabled u = None) (tb_users t))
       (filter (\<lambda>m. mb_org m = orgID) (tb_members t))))))"

definition AddMember :: "int \<Rightarrow> int \<Rightarrow> role \<Rightarrow> unit db" where
  "AddMember orgID userID r = mapErr (uniqueIs (DbErr DbAlreadyExists)) (insertMember orgID userID r False)"

definition requireAnotherOwner :: "int \<Rightarrow> unit db" where
  "requireAnotherOwner orgID = bindE (query (\<lambda>s. Inr (length (ownersOf orgID (db_t s))))) (\<lambda>owners.
     if owners < 2 then throw (DbErr DbLastOwner) else ret ())"

definition changeMembership :: "int \<Rightarrow> int \<Rightarrow> (role \<Rightarrow> unit db) \<Rightarrow> unit db" where
  "changeMembership orgID userID apply = tx (thenE (query (\<lambda>s. Inr ()))
     (bindE (GetMembership orgID userID) apply))"

definition SetMemberRole :: "int \<Rightarrow> int \<Rightarrow> role \<Rightarrow> unit db" where
  "SetMemberRole orgID userID r = changeMembership orgID userID (\<lambda>current.
     thenE (if current = RoleOwner \<and> r \<noteq> RoleOwner then requireAnotherOwner orgID else ret ())
       (exec (\<lambda>s. let t = db_t s in
          if \<not> validRole r then Inl (DbErr DbDriver)
          else Inr ((), t\<lparr>tb_members := updateWhere (\<lambda>m. mb_org m = orgID \<and> mb_user m = userID) (\<lambda>m. m\<lparr>mb_role := r\<rparr>) (tb_members t)\<rparr>))))"

definition deleteMemberRow :: "int \<Rightarrow> int \<Rightarrow> tables \<Rightarrow> tables" where
  "deleteMemberRow orgID userID t = t\<lparr>tb_members := filter (\<lambda>m. \<not> (mb_org m = orgID \<and> mb_user m = userID)) (tb_members t),
     tb_grants := filter (\<lambda>g. \<not> (gr_org g = orgID \<and> gr_user g = userID)) (tb_grants t)\<rparr>"

definition RemoveMember :: "int \<Rightarrow> int \<Rightarrow> unit db" where
  "RemoveMember orgID userID = changeMembership orgID userID (\<lambda>current.
     thenE (if current = RoleOwner then requireAnotherOwner orgID else ret ())
       (exec (\<lambda>s. Inr ((), deleteMemberRow orgID userID (db_t s)))))"

section \<open>Grants\<close>

definition AllPermissions :: "string list" where
  "AllPermissions = [''console.read'', ''console.write'', ''power'', ''files.read'', ''files.write'', ''backups.read'',
     ''backups.manage'', ''schedules'']"

definition AllServers :: string where "AllServers = ''*''"

definition validPermission :: "string \<Rightarrow> bool" where
  "validPermission p \<longleftrightarrow> list_ex (\<lambda>q. p = q) AllPermissions"

definition permOrder :: "string \<Rightarrow> nat" where
  "permOrder p = length (takeWhile (\<lambda>q. p \<noteq> q) AllPermissions)"

record grant =
  gn_gameserver :: string
  gn_permissions :: "string list"

text \<open>One grant per server, the one for all servers first, then by name, each with its permissions in their fixed order.\<close>

definition ListMemberGrants :: "int \<Rightarrow> int \<Rightarrow> grant list db" where
  "ListMemberGrants orgID userID = query (\<lambda>s.
     let rows = filter (\<lambda>g. gr_org g = orgID \<and> gr_user g = userID) (tb_grants (db_t s));
         names = remdups (map gr_gameserver rows);
         servers = filter (\<lambda>n. n = AllServers) names @ sort (filter (\<lambda>n. n \<noteq> AllServers) names) in
     Inr (map (\<lambda>n. \<lparr>gn_gameserver = n, gn_permissions =
       sort_key permOrder (map gr_permission (filter (\<lambda>g. gr_gameserver g = n) rows))\<rparr>) servers))"

text \<open>The pairs the loop inserts: each once.\<close>

definition grantPairs :: "grant list \<Rightarrow> (string \<times> string) list" where
  "grantPairs grants = rev (remdups (rev (concat (map (\<lambda>g. map (Pair (gn_gameserver g)) (gn_permissions g)) grants))))"

definition insertGrant :: "int \<Rightarrow> int \<Rightarrow> string \<times> string \<Rightarrow> unit db" where
  "insertGrant orgID userID = (\<lambda>(server, perm). exec (\<lambda>s. let t = db_t s;
       g = \<lparr>gr_org = orgID, gr_user = userID, gr_gameserver = server, gr_permission = perm\<rparr> in
     if roleOf orgID userID t = None then Inl (DbErr DbDriver)
     else if g \<in> set (tb_grants t) then Inl (DbErr (DbUnique ''member_permissions_pkey''))
     else Inr ((), t\<lparr>tb_grants := tb_grants t @ [g]\<rparr>)))"

definition SetMemberGrants :: "int \<Rightarrow> int \<Rightarrow> grant list \<Rightarrow> unit db" where
  "SetMemberGrants orgID userID grants = tx (
     thenE (exec (\<lambda>s. let t = db_t s in
         Inr ((), t\<lparr>tb_grants := filter (\<lambda>g. \<not> (gr_org g = orgID \<and> gr_user g = userID)) (tb_grants t)\<rparr>)))
       (forE (insertGrant orgID userID) (grantPairs grants)))"

definition DeleteGameServerGrants :: "int \<Rightarrow> string \<Rightarrow> unit db" where
  "DeleteGameServerGrants orgID gameserver = exec (\<lambda>s. let t = db_t s in
     Inr ((), t\<lparr>tb_grants := filter (\<lambda>g. \<not> (gr_org g = orgID \<and> gr_gameserver g = gameserver)) (tb_grants t)\<rparr>))"

section \<open>Invitations\<close>

record invitation =
  in_id :: int
  in_org :: int
  in_org_slug :: string
  in_org_name :: string
  in_email :: string
  in_role :: role
  in_locale :: string
  in_invited_by :: string
  in_created :: time
  in_expires :: time
  in_expired :: bool

text \<open>\<open>invitationSelect\<close> joins the organization, and the name of who invited when the account still exists.\<close>

definition scanInvitation :: "pdb \<Rightarrow> invite_row \<Rightarrow> invitation option" where
  "scanInvitation s i = map_option (\<lambda>g. \<lparr>in_id = iv_id i, in_org = iv_org i, in_org_slug = og_slug g, in_org_name = og_name g,
     in_email = iv_email i, in_role = iv_role i, in_locale = iv_locale i,
     in_invited_by = (case find (\<lambda>u. Some (ur_id u) = iv_invited_by i) (usersOf s) of None \<Rightarrow> [] | Some u \<Rightarrow> ur_username u),
     in_created = iv_created i, in_expires = iv_expires i, in_expired = (iv_expires i \<le> db_now s)\<rparr>)
     (find (\<lambda>g. og_id g = iv_org i) (tb_orgs (db_t s)))"

definition selectInvitation :: "go_err \<Rightarrow> (time \<Rightarrow> invite_row \<Rightarrow> bool) \<Rightarrow> invitation db" where
  "selectInvitation none p = query (\<lambda>s. case Option.bind (find (p (db_now s)) (tb_invites (db_t s))) (scanInvitation s) of
     None \<Rightarrow> Inl none | Some i \<Rightarrow> Inr i)"

text \<open>\<open>INSERT ... ON CONFLICT (org_id, email) DO UPDATE ... RETURNING id\<close>.\<close>

definition upsertInvitation :: "int \<Rightarrow> string \<Rightarrow> role \<Rightarrow> string \<Rightarrow> string \<Rightarrow> int \<Rightarrow> duration \<Rightarrow> int db" where
  "upsertInvitation orgID email r hash locale invitedBy ttl = insertRow (\<lambda>n s.
     let t = db_t s; same = (\<lambda>i. iv_org i = orgID \<and> iv_email i = email);
         new = \<lparr>iv_id = n, iv_org = orgID, iv_email = email, iv_role = r, iv_hash = hash, iv_locale = locale,
           iv_invited_by = Some invitedBy, iv_created = db_now s, iv_expires = db_now s + ttl\<rparr> in
     if \<not> validRole r \<or> \<not> list_ex (\<lambda>g. og_id g = orgID) (tb_orgs t) \<or> \<not> list_ex (\<lambda>u. ur_id u = invitedBy) (tb_users t)
     then Inl (DbErr DbDriver)
     else if list_ex (\<lambda>i. iv_hash i = hash \<and> \<not> same i) (tb_invites t) then Inl (DbErr (DbUnique ''invitations_token_hash_key''))
     else case find same (tb_invites t) of
       Some i \<Rightarrow> Inr (iv_id i, t\<lparr>tb_invites := updateWhere same (\<lambda>i. new\<lparr>iv_id := iv_id i\<rparr>) (tb_invites t)\<rparr>)
     | None \<Rightarrow> Inr (n, t\<lparr>tb_invites := tb_invites t @ [new]\<rparr>))"

definition CreateInvitation :: "crypto \<Rightarrow> int \<Rightarrow> string \<Rightarrow> role \<Rightarrow> string \<Rightarrow> int \<Rightarrow> duration \<Rightarrow> (invitation \<times> string) db" where
  "CreateInvitation C orgID email r locale invitedBy ttl = bindE (newToken C) (\<lambda>(raw, hash).
     bindE (upsertInvitation orgID (NormalizeEmail email) r hash locale invitedBy ttl) (\<lambda>iid.
     bindE (selectInvitation (DbErr DbDriver) (\<lambda>_ i. iv_id i = iid)) (\<lambda>inv. ret (inv, raw))))"

definition ReissueInvitation :: "crypto \<Rightarrow> int \<Rightarrow> int \<Rightarrow> duration \<Rightarrow> (invitation \<times> string) db" where
  "ReissueInvitation C orgID iid ttl = bindE (newToken C) (\<lambda>(raw, hash).
     bindE (exec (\<lambda>s. let t = db_t s; p = (\<lambda>i. iv_org i = orgID \<and> iv_id i = iid) in
         if list_ex (\<lambda>i. iv_hash i = hash \<and> \<not> p i) (tb_invites t) \<and> list_ex p (tb_invites t)
         then Inl (DbErr (DbUnique ''invitations_token_hash_key''))
         else Inr (countWhere p (tb_invites t), t\<lparr>tb_invites := updateWhere p
           (\<lambda>i. i\<lparr>iv_hash := hash, iv_created := db_now s, iv_expires := db_now s + ttl\<rparr>) (tb_invites t)\<rparr>))) (\<lambda>n.
     thenE (liftE (affectedOne n))
     (bindE (selectInvitation (DbErr DbDriver) (\<lambda>_ i. iv_id i = iid)) (\<lambda>inv. ret (inv, raw)))))"

definition ListInvitations :: "int \<Rightarrow> invitation list db" where
  "ListInvitations orgID =
     thenE (exec (\<lambda>s. let t = db_t s in Inr ((), t\<lparr>tb_invites := filter (\<lambda>i.
         \<not> (iv_org i = orgID \<and> iv_expires i < db_now s - 30 * 24 * 3600 * second)) (tb_invites t)\<rparr>)))
       (query (\<lambda>s. Inr (List.map_filter (scanInvitation s)
         (rev (sort_key iv_created (filter (\<lambda>i. iv_org i = orgID) (tb_invites (db_t s))))))))"

definition dropInvitation :: "(invite_row \<Rightarrow> bool) \<Rightarrow> nat db" where
  "dropInvitation p = exec (\<lambda>s. let t = db_t s in
     Inr (countWhere p (tb_invites t), t\<lparr>tb_invites := filter (\<lambda>i. \<not> p i) (tb_invites t)\<rparr>))"

definition DeleteInvitation :: "int \<Rightarrow> int \<Rightarrow> unit db" where
  "DeleteInvitation orgID iid = bindE (dropInvitation (\<lambda>i. iv_org i = orgID \<and> iv_id i = iid)) (\<lambda>n. liftE (affectedOne n))"

definition GetInvitationByToken :: "crypto \<Rightarrow> string \<Rightarrow> invitation db" where
  "GetInvitationByToken C token = selectInvitation (DbErr DbInvalidToken)
     (\<lambda>now i. iv_hash i = cr_sha C token \<and> now < iv_expires i)"

definition takeInvitation :: "crypto \<Rightarrow> string \<Rightarrow> invitation db" where
  "takeInvitation C token = bindE (GetInvitationByToken C token) (\<lambda>inv.
     thenE (dropInvitation (\<lambda>i. iv_id i = in_id inv)) (ret inv))"

definition AcceptInvitationNewUser :: "crypto \<Rightarrow> string \<Rightarrow> string \<Rightarrow> string \<Rightarrow> string \<Rightarrow> (user \<times> invitation) db" where
  "AcceptInvitationNewUser C token username password displayName = tx (
     bindE (takeInvitation C token) (\<lambda>inv.
     bindE (createUser C username (in_email inv) password False) (\<lambda>u.
     thenE (if displayName \<noteq> [] then thenE (updateUser (us_id u) (\<lambda>now r. r\<lparr>ur_profile := (ur_profile r)\<lparr>pf_display_name := displayName\<rparr>\<rparr>)) (ret ())
            else ret ())
     (thenE (insertMember (in_org inv) (us_id u) (in_role inv) False)
     (ret ((if displayName \<noteq> [] then u\<lparr>us_profile := (us_profile u)\<lparr>pf_display_name := displayName\<rparr>\<rparr> else u), inv))))))"

definition AcceptInvitationExistingUser :: "crypto \<Rightarrow> string \<Rightarrow> int \<Rightarrow> invitation db" where
  "AcceptInvitationExistingUser C token userID = tx (
     bindE (takeInvitation C token) (\<lambda>inv.
     bindE (mapErr (\<lambda>e. if e = DbErr DbNotFound then DbErr DbDriver else e) (findUser (\<lambda>u. ur_id u = userID))) (\<lambda>u.
       if ur_email u \<noteq> in_email inv then throw (DbErr DbWrongAccount)
       else thenE (insertMember (in_org inv) userID (in_role inv) True) (ret inv))))"

end
