(* ===== verification/Panel_Settings.thy ===== *)
theory Panel_Settings
  imports Panel_Orgs
begin

text \<open>
  Discord links, notification settings, platform settings and the audit log of the panel:
  \<open>internal/paneldb/discord.go\<close>, \<open>notifications.go\<close> and \<open>audit.go\<close>. Then every operation of the store that
  writes, as one type.
\<close>

section \<open>Discord\<close>

text \<open>\<open>UPDATE users\<close> under the unique index of \<open>discord_user_id\<close>; the index ignores NULL.\<close>

definition SetDiscordLink :: "int \<Rightarrow> string \<Rightarrow> string \<Rightarrow> unit db" where
  "SetDiscordLink userID discordID discordName = mapErr (uniqueIs (DbErr DbAlreadyExists))
     (bindE (exec (\<lambda>s. let t = db_t s; p = (\<lambda>u. ur_id u = userID) in
        if list_ex p (tb_users t) \<and> list_ex (\<lambda>u. \<not> p u \<and> ur_discord_id u = Some discordID) (tb_users t)
        then Inl (DbErr (DbUnique ''users_discord_user_id_key''))
        else Inr (countWhere p (tb_users t), t\<lparr>tb_users := updateWhere p (\<lambda>u. u\<lparr>ur_discord_id := Some discordID,
          ur_discord_name := discordName, ur_updated := db_now s\<rparr>) (tb_users t)\<rparr>))) (\<lambda>n. liftE (affectedOne n)))"

definition ClearDiscordLink :: "int \<Rightarrow> unit db" where
  "ClearDiscordLink userID = bindE (updateUser userID
     (\<lambda>now u. u\<lparr>ur_discord_id := None, ur_discord_name := [], ur_updated := now\<rparr>)) (\<lambda>n. liftE (affectedOne n))"

definition GetUserByDiscordID :: "string \<Rightarrow> user db" where
  "GetUserByDiscordID discordID = bindE (findUser (\<lambda>u. ur_discord_id u = Some discordID)) (\<lambda>u. ret (scanUser u))"

definition SetOrgGuild :: "int \<Rightarrow> string \<Rightarrow> string \<Rightarrow> int \<Rightarrow> unit db" where
  "SetOrgGuild orgID guildID guildName linkedBy = tx (
     bindE (query (\<lambda>s. Inr (find (\<lambda>g. gd_guild g = guildID) (tb_guilds (db_t s))))) (\<lambda>owner.
       if (case owner of None \<Rightarrow> False | Some g \<Rightarrow> gd_org g \<noteq> orgID) then throw (DbErr DbAlreadyExists)
       else thenE (exec (\<lambda>s. let t = db_t s in Inr ((), t\<lparr>tb_guilds := filter (\<lambda>g. gd_org g \<noteq> orgID) (tb_guilds t)\<rparr>)))
         (mapErr (uniqueIs (DbErr DbAlreadyExists)) (exec (\<lambda>s. let t = db_t s in
            if list_ex (\<lambda>g. gd_org g = orgID \<or> gd_guild g = guildID) (tb_guilds t) then Inl (DbErr (DbUnique ''org_discord_guilds''))
            else if \<not> list_ex (\<lambda>g. og_id g = orgID) (tb_orgs t) then Inl (DbErr DbDriver)
            else Inr ((), t\<lparr>tb_guilds := tb_guilds t @
              [\<lparr>gd_org = orgID, gd_guild = guildID, gd_name = guildName, gd_linked_by = linkedBy\<rparr>]\<rparr>))))))"

definition ClearOrgGuild :: "int \<Rightarrow> unit db" where
  "ClearOrgGuild orgID = exec (\<lambda>s. let t = db_t s in Inr ((), t\<lparr>tb_guilds := filter (\<lambda>g. gd_org g \<noteq> orgID) (tb_guilds t)\<rparr>))"

definition GetOrgGuild :: "int \<Rightarrow> (string \<times> string) db" where
  "GetOrgGuild orgID = query (\<lambda>s. case find (\<lambda>g. gd_org g = orgID) (tb_guilds (db_t s)) of
     None \<Rightarrow> Inl (DbErr DbNotFound) | Some g \<Rightarrow> Inr (gd_guild g, gd_name g))"

text \<open>The statement does not select \<open>require_2fa\<close>: the answer always says False.\<close>

definition GetOrgByGuild :: "string \<Rightarrow> org db" where
  "GetOrgByGuild guildID = query (\<lambda>s. let t = db_t s in
     case Option.bind (find (\<lambda>g. gd_guild g = guildID) (tb_guilds t)) (\<lambda>g. find (\<lambda>x. og_id x = gd_org g) (tb_orgs t)) of
       None \<Rightarrow> Inl (DbErr DbNotFound) | Some g \<Rightarrow> Inr (g\<lparr>og_require2fa := False\<rparr>))"

section \<open>Platform settings\<close>

definition GetSetting :: "string \<Rightarrow> string db" where
  "GetSetting k = query (\<lambda>s. Inr (case map_of (tb_settings (db_t s)) k of None \<Rightarrow> [] | Some v \<Rightarrow> v))"

text \<open>An update, and an insert when it changed no row, in one transaction.\<close>

definition updateOrInsert :: "(tables \<Rightarrow> ('k \<times> 'v) list) \<Rightarrow> (('k \<times> 'v) list \<Rightarrow> tables \<Rightarrow> tables) \<Rightarrow> (tables \<Rightarrow> bool) \<Rightarrow>
    'k \<Rightarrow> 'v \<Rightarrow> unit db" where
  "updateOrInsert get put refs k v = tx (
     bindE (exec (\<lambda>s. let t = db_t s in Inr (countWhere (\<lambda>r. fst r = k) (get t),
         put (updateWhere (\<lambda>r. fst r = k) (\<lambda>r. (k, v)) (get t)) t))) (\<lambda>n.
       if n \<noteq> 0 then ret ()
       else exec (\<lambda>s. let t = db_t s in
         if k \<in> fst ` set (get t) \<or> \<not> refs t then Inl (DbErr DbDriver) else Inr ((), put (get t @ [(k, v)]) t))))"

definition SetSetting :: "string \<Rightarrow> string \<Rightarrow> unit db" where
  "SetSetting k v = updateOrInsert tb_settings (\<lambda>x t. t\<lparr>tb_settings := x\<rparr>) (\<lambda>_. True) k v"

definition DeleteSetting :: "string \<Rightarrow> unit db" where
  "DeleteSetting k = exec (\<lambda>s. let t = db_t s in Inr ((), t\<lparr>tb_settings := filter (\<lambda>r. fst r \<noteq> k) (tb_settings t)\<rparr>))"

section \<open>Notifications\<close>

record notification_settings =
  ns_webhook :: string
  ns_muted :: "string list"

definition GetNotificationSettings :: "int \<Rightarrow> notification_settings db" where
  "GetNotificationSettings orgID =
     bindE (query (\<lambda>s. Inr (case map_of (tb_notify (db_t s)) orgID of Some (Some u) \<Rightarrow> u | _ \<Rightarrow> []))) (\<lambda>url.
     bindE (query (\<lambda>s. Inr (sort (map snd (filter (\<lambda>r. fst r = orgID) (tb_muted (db_t s))))))) (\<lambda>muted.
       ret \<lparr>ns_webhook = url, ns_muted = muted\<rparr>))"

definition SetDiscordWebhook :: "int \<Rightarrow> string \<Rightarrow> unit db" where
  "SetDiscordWebhook orgID url = updateOrInsert tb_notify (\<lambda>x t. t\<lparr>tb_notify := x\<rparr>)
     (\<lambda>t. list_ex (\<lambda>g. og_id g = orgID) (tb_orgs t)) orgID (if url \<noteq> [] then Some url else None)"

definition insertMuted :: "int \<Rightarrow> string \<Rightarrow> unit db" where
  "insertMuted orgID e = exec (\<lambda>s. let t = db_t s in
     if (orgID, e) \<in> set (tb_muted t) then Inl (DbErr (DbUnique ''org_notification_muted_pkey''))
     else if \<not> list_ex (\<lambda>g. og_id g = orgID) (tb_orgs t) then Inl (DbErr DbDriver)
     else Inr ((), t\<lparr>tb_muted := tb_muted t @ [(orgID, e)]\<rparr>))"

definition SetMutedEvents :: "int \<Rightarrow> string list \<Rightarrow> unit db" where
  "SetMutedEvents orgID events = tx (
     thenE (exec (\<lambda>s. let t = db_t s in Inr ((), t\<lparr>tb_muted := filter (\<lambda>r. fst r \<noteq> orgID) (tb_muted t)\<rparr>)))
       (forE (insertMuted orgID) events))"

text \<open>The owners and admins of the organization that want its mail.\<close>

definition ListAlertRecipients :: "int \<Rightarrow> (string \<times> string \<times> string) list db" where
  "ListAlertRecipients orgID = query (\<lambda>s. let t = db_t s in
     Inr (sort_key fst (concat (map (\<lambda>m. map (\<lambda>u. (ur_username u, ur_email u, pf_locale (ur_profile u)))
       (filter (\<lambda>u. ur_id u = mb_user m \<and> ur_notify u) (tb_users t)))
       (filter (\<lambda>m. mb_org m = orgID \<and> mb_role m \<in> {RoleOwner, RoleAdmin}) (tb_members t))))))"

definition SetNotifyEmail :: "int \<Rightarrow> bool \<Rightarrow> unit db" where
  "SetNotifyEmail userID on = bindE (updateUser userID (\<lambda>now u. u\<lparr>ur_notify := on, ur_updated := now\<rparr>)) (\<lambda>n. liftE (affectedOne n))"

section \<open>Audit log\<close>

text \<open>\<open>org_slug\<close> is NULL for an event of the platform; the model keeps the empty text for it, which no organization has.\<close>

definition RecordAudit :: "audit_event \<Rightarrow> unit db" where
  "RecordAudit e = insertRow (\<lambda>n s. let t = db_t s in
     Inr ((), t\<lparr>tb_audit := tb_audit t @ [\<lparr>ar_id = n, ar_event = e, ar_created = db_now s\<rparr>]\<rparr>))"

definition ListAudit :: "string \<Rightarrow> nat \<Rightarrow> int \<Rightarrow> audit_row list db" where
  "ListAudit orgSlug limit beforeID = query (\<lambda>s. Inr (take limit (rev (sort_key ar_id
     (filter (\<lambda>r. ae_org_slug (ar_event r) = orgSlug \<and> (beforeID = 0 \<or> ar_id r < beforeID)) (tb_audit (db_t s)))))))"

definition pruneAudit :: "(audit_row \<Rightarrow> bool) \<Rightarrow> nat db" where
  "pruneAudit p = exec (\<lambda>s. let t = db_t s in
     Inr (countWhere p (tb_audit t), t\<lparr>tb_audit := filter (\<lambda>r. \<not> p r) (tb_audit t)\<rparr>))"

definition PruneOrgAudit :: "string \<Rightarrow> time \<Rightarrow> nat db" where
  "PruneOrgAudit orgSlug before = pruneAudit (\<lambda>r. orgSlug \<noteq> [] \<and> ae_org_slug (ar_event r) = orgSlug \<and> ar_created r < before)"

text \<open>With no exception, or for events of the platform, only the age counts.\<close>

definition PruneAuditExcept :: "time \<Rightarrow> string list \<Rightarrow> nat db" where
  "PruneAuditExcept before keep = pruneAudit (\<lambda>r. ar_created r < before \<and>
     (keep = [] \<or> ae_org_slug (ar_event r) = [] \<or> ae_org_slug (ar_event r) \<notin> set keep))"

section \<open>Every operation that changes the store\<close>

text \<open>One constructor per exported method that writes.\<close>

datatype store_op =
    OpCreateUser string string string bool | OpUpsertUser string string string bool | OpUpdateProfile int profile
  | OpSetPassword int string | OpSetEmail int string | OpSetAdmin int bool | OpDeleteUser int
  | OpCreateSession int duration | OpRevokeSession string | OpRevokeUserSessions int string
  | OpIssueUserToken int token_purpose string duration | OpResetPassword string string | OpConfirmEmailChange string
  | OpEnableTOTP int string int "string list" | OpDisableTOTP int | OpAcceptTOTPStep int int
  | OpReplaceRecoveryCodes int "string list" | OpUseRecoveryCode int string
  | OpCreateOrg string string int | OpDeleteOrg string | OpSetOrgRequire2FA int bool
  | OpAddMember int int role | OpSetMemberRole int int role | OpRemoveMember int int
  | OpSetMemberGrants int int "grant list" | OpDeleteGameServerGrants int string
  | OpCreateInvitation int string role string int duration | OpReissueInvitation int int duration | OpListInvitations int
  | OpDeleteInvitation int int | OpAcceptNewUser string string string string | OpAcceptExistingUser string int
  | OpSetDiscordLink int string string | OpClearDiscordLink int | OpSetOrgGuild int string string int | OpClearOrgGuild int
  | OpSetSetting string string | OpDeleteSetting string | OpSetDiscordWebhook int string | OpSetMutedEvents int "string list"
  | OpSetNotifyEmail int bool | OpRecordAudit audit_event | OpPruneOrgAudit string time | OpPruneAuditExcept time "string list"

text \<open>The operation without its answer.\<close>

definition void :: "'a db \<Rightarrow> unit db" where
  "void m = thenE m (ret ())"

fun run_op :: "crypto \<Rightarrow> store_op \<Rightarrow> unit db" where
  "run_op C (OpCreateUser n e p a) = void (CreateUser C n e p a)"
| "run_op C (OpUpsertUser n e p a) = void (UpsertUser C n e p a)"
| "run_op C (OpUpdateProfile i p) = UpdateProfile i p"
| "run_op C (OpSetPassword i p) = SetPassword C i p"
| "run_op C (OpSetEmail i e) = void (SetEmail i e)"
| "run_op C (OpSetAdmin i a) = SetAdmin i a"
| "run_op C (OpDeleteUser i) = DeleteUser i"
| "run_op C (OpCreateSession i d) = void (CreateSession C i d)"
| "run_op C (OpRevokeSession t) = RevokeSession C t"
| "run_op C (OpRevokeUserSessions i t) = RevokeUserSessions C i t"
| "run_op C (OpIssueUserToken i p e d) = void (IssueUserToken C i p e d)"
| "run_op C (OpResetPassword t p) = void (ResetPassword C t p)"
| "run_op C (OpConfirmEmailChange t) = void (ConfirmEmailChange C t)"
| "run_op C (OpEnableTOTP i x st cs) = EnableTOTP i x st cs"
| "run_op C (OpDisableTOTP i) = DisableTOTP i"
| "run_op C (OpAcceptTOTPStep i st) = void (AcceptTOTPStep i st)"
| "run_op C (OpReplaceRecoveryCodes i cs) = ReplaceRecoveryCodes i cs"
| "run_op C (OpUseRecoveryCode i c) = void (UseRecoveryCode i c)"
| "run_op C (OpCreateOrg sl n u) = void (CreateOrg sl n u)"
| "run_op C (OpDeleteOrg sl) = DeleteOrg sl"
| "run_op C (OpSetOrgRequire2FA i b) = SetOrgRequire2FA i b"
| "run_op C (OpAddMember i u r) = AddMember i u r"
| "run_op C (OpSetMemberRole i u r) = SetMemberRole i u r"
| "run_op C (OpRemoveMember i u) = RemoveMember i u"
| "run_op C (OpSetMemberGrants i u gs) = SetMemberGrants i u gs"
| "run_op C (OpDeleteGameServerGrants i g) = DeleteGameServerGrants i g"
| "run_op C (OpCreateInvitation i e r l b d) = void (CreateInvitation C i e r l b d)"
| "run_op C (OpReissueInvitation i j d) = void (ReissueInvitation C i j d)"
| "run_op C (OpListInvitations i) = void (ListInvitations i)"
| "run_op C (OpDeleteInvitation i j) = DeleteInvitation i j"
| "run_op C (OpAcceptNewUser t u p d) = void (AcceptInvitationNewUser C t u p d)"
| "run_op C (OpAcceptExistingUser t u) = void (AcceptInvitationExistingUser C t u)"
| "run_op C (OpSetDiscordLink i d n) = SetDiscordLink i d n"
| "run_op C (OpClearDiscordLink i) = ClearDiscordLink i"
| "run_op C (OpSetOrgGuild i g n u) = SetOrgGuild i g n u"
| "run_op C (OpClearOrgGuild i) = ClearOrgGuild i"
| "run_op C (OpSetSetting k v) = SetSetting k v"
| "run_op C (OpDeleteSetting k) = DeleteSetting k"
| "run_op C (OpSetDiscordWebhook i u) = SetDiscordWebhook i u"
| "run_op C (OpSetMutedEvents i es) = SetMutedEvents i es"
| "run_op C (OpSetNotifyEmail i b) = SetNotifyEmail i b"
| "run_op C (OpRecordAudit e) = RecordAudit e"
| "run_op C (OpPruneOrgAudit sl b) = void (PruneOrgAudit sl b)"
| "run_op C (OpPruneAuditExcept b ks) = void (PruneAuditExcept b ks)"

end
