(* ===== verification/Panel_Invariants.thy ===== *)
theory Panel_Invariants
  imports Panel_Settings
begin

text \<open>
  What every operation of the panel's store keeps: the constraints the schema declares, and an owner for every
  organization that has one. What an operation that fails leaves behind.
\<close>

section \<open>The schema\<close>

text \<open>The unique index of \<open>discord_user_id\<close>, which ignores NULL; the unique columns and primary keys, and where the
  sequences stand.\<close>

definition discord_ok :: "user_row list \<Rightarrow> bool" where
  "discord_ok us \<longleftrightarrow> list_all (\<lambda>u. list_all (\<lambda>v. ur_discord_id u \<noteq> None \<and> ur_discord_id u = ur_discord_id v \<longrightarrow> ur_id u = ur_id v) us) us"

definition users_ok :: "int \<Rightarrow> user_row list \<Rightarrow> bool" where
  "users_ok n us \<longleftrightarrow> distinct (map ur_id us) \<and> distinct (map ur_username us) \<and> distinct (map ur_email us) \<and>
     list_all (\<lambda>u. 0 < ur_id u \<and> ur_id u < n) us \<and>
     discord_ok us"

definition orgs_ok :: "int \<Rightarrow> org list \<Rightarrow> bool" where
  "orgs_ok n gs \<longleftrightarrow> distinct (map og_id gs) \<and> distinct (map og_slug gs) \<and>
     list_all (\<lambda>g. 0 < og_id g \<and> og_id g < n) gs \<and> list_all (\<lambda>g. ValidSlug (og_slug g)) gs"

definition members_ok :: "tables \<Rightarrow> bool" where
  "members_ok t \<longleftrightarrow> distinct (map (\<lambda>m. (mb_org m, mb_user m)) (tb_members t)) \<and>
     list_all (\<lambda>m. mb_org m \<in> og_id ` set (tb_orgs t) \<and> mb_user m \<in> ur_id ` set (tb_users t) \<and> validRole (mb_role m)) (tb_members t)"

definition grants_ok :: "tables \<Rightarrow> bool" where
  "grants_ok t \<longleftrightarrow> distinct (tb_grants t) \<and>
     list_all (\<lambda>g. (gr_org g, gr_user g) \<in> (\<lambda>m. (mb_org m, mb_user m)) ` set (tb_members t)) (tb_grants t)"

definition invites_ok :: "int \<Rightarrow> tables \<Rightarrow> bool" where
  "invites_ok n t \<longleftrightarrow> distinct (map iv_id (tb_invites t)) \<and> distinct (map iv_hash (tb_invites t)) \<and>
     distinct (map (\<lambda>i. (iv_org i, iv_email i)) (tb_invites t)) \<and>
     list_all (\<lambda>i. iv_id i < n \<and> iv_org i \<in> og_id ` set (tb_orgs t) \<and> validRole (iv_role i) \<and>
       set_option (iv_invited_by i) \<subseteq> ur_id ` set (tb_users t)) (tb_invites t)"

text \<open>What hangs on an account.\<close>

definition keys_ok :: "tables \<Rightarrow> bool" where
  "keys_ok t \<longleftrightarrow> distinct (map sn_hash (tb_sessions t)) \<and> distinct (map tk_hash (tb_tokens t)) \<and> distinct (tb_codes t) \<and>
     list_all (\<lambda>x. sn_user x \<in> ur_id ` set (tb_users t)) (tb_sessions t) \<and>
     list_all (\<lambda>x. tk_user x \<in> ur_id ` set (tb_users t)) (tb_tokens t) \<and>
     list_all (\<lambda>c. fst c \<in> ur_id ` set (tb_users t)) (tb_codes t)"

text \<open>What hangs on an organization besides, and the tables that hang on nothing.\<close>

definition orgtabs_ok :: "tables \<Rightarrow> bool" where
  "orgtabs_ok t \<longleftrightarrow> distinct (map gd_org (tb_guilds t)) \<and> distinct (map gd_guild (tb_guilds t)) \<and>
     distinct (map fst (tb_notify t)) \<and> distinct (tb_muted t) \<and>
     list_all (\<lambda>g. gd_org g \<in> og_id ` set (tb_orgs t)) (tb_guilds t) \<and>
     list_all (\<lambda>x. fst x \<in> og_id ` set (tb_orgs t)) (tb_notify t) \<and>
     list_all (\<lambda>x. fst x \<in> og_id ` set (tb_orgs t)) (tb_muted t)"

definition logs_ok :: "int \<Rightarrow> tables \<Rightarrow> bool" where
  "logs_ok n t \<longleftrightarrow> distinct (map fst (tb_settings t)) \<and> distinct (map ar_id (tb_audit t)) \<and> list_all (\<lambda>r. ar_id r < n) (tb_audit t)"

definition schema_ok :: "int \<Rightarrow> tables \<Rightarrow> bool" where
  "schema_ok n t \<longleftrightarrow> 0 < n \<and> users_ok n (tb_users t) \<and> orgs_ok n (tb_orgs t) \<and> members_ok t \<and> grants_ok t \<and>
     invites_ok n t \<and> keys_ok t \<and> orgtabs_ok t \<and> logs_ok n t"

lemmas schema_defs = schema_ok_def users_ok_def orgs_ok_def members_ok_def grants_ok_def invites_ok_def keys_ok_def orgtabs_ok_def
  logs_ok_def list_all_iff

lemma numbered_schema: "numbered schema_ok"
  unfolding numbered_def by (force simp: schema_defs)

section \<open>Rows changed in place\<close>

lemma map_updateWhere: "(\<And>x. p x \<Longrightarrow> k (f x) = k x) \<Longrightarrow> map k (updateWhere p f xs) = map k xs"
  by (simp add: updateWhere_def)

lemma image_updateWhere: "(\<And>x. k (f x) = k x) \<Longrightarrow> k ` set (updateWhere p f xs) = k ` set xs"
  unfolding set_map [symmetric] by (simp add: map_updateWhere)

lemma set_updateWhere: "x \<in> set (updateWhere p f xs) \<longleftrightarrow> (\<exists>y\<in>set xs. x = (if p y then f y else y))"
  by (auto simp: updateWhere_def)

lemma ball_updateWhere:
  "(\<forall>x\<in>set (updateWhere p f xs). Q x) \<longleftrightarrow> (\<forall>y\<in>set xs. (p y \<longrightarrow> Q (f y)) \<and> (\<not> p y \<longrightarrow> Q y))"
  by (auto simp: updateWhere_def)

text \<open>A column set in the one row a key selects stays unique when no other row has the value.\<close>

lemma distinct_set_column:
  assumes k: "distinct (map k xs)" and c: "distinct (map c xs)" and v: "\<And>x. c (f x) = v"
    and p: "\<And>x. x \<in> set xs \<Longrightarrow> p x \<Longrightarrow> k x = i" and n: "\<And>x. x \<in> set xs \<Longrightarrow> \<not> p x \<Longrightarrow> c x \<noteq> v"
  shows "distinct (map c (updateWhere p f xs))"
proof -
  have "x = y" if "x \<in> set xs" "y \<in> set xs" "c (if p x then f x else x) = c (if p y then f y else y)" for x y
    using that p [of x] p [of y] n [of x] n [of y] v k c unfolding distinct_map inj_on_def by (metis (full_types))
  then show ?thesis using k unfolding updateWhere_def map_map distinct_map inj_on_def by simp
qed

lemma discord_okI:
  "(\<And>u v d. u \<in> set us \<Longrightarrow> v \<in> set us \<Longrightarrow> ur_discord_id u = Some d \<Longrightarrow> ur_discord_id v = Some d \<Longrightarrow> ur_id u = ur_id v) \<Longrightarrow>
   discord_ok us"
  unfolding discord_ok_def list_all_iff by (metis not_None_eq)

lemma discord_okD:
  "discord_ok us \<Longrightarrow> u \<in> set us \<Longrightarrow> v \<in> set us \<Longrightarrow> ur_discord_id u = Some d \<Longrightarrow> ur_discord_id v = Some d \<Longrightarrow> ur_id u = ur_id v"
  unfolding discord_ok_def list_all_iff by (metis option.discI)

lemma discord_ok_subset:
  assumes "discord_ok us" and "set vs \<subseteq> set us"
  shows "discord_ok vs"
proof (rule discord_okI)
  fix u v d assume "u \<in> set vs" "v \<in> set vs" "ur_discord_id u = Some d" "ur_discord_id v = Some d"
  with assms show "ur_id u = ur_id v" using discord_okD [of us u v d] by blast
qed

lemma discord_ok_filter: "discord_ok us \<Longrightarrow> discord_ok (filter p us)"
  by (rule discord_ok_subset) auto

lemma discord_ok_update:
  assumes "discord_ok us" and f: "\<And>u. ur_id (f u) = ur_id u \<and> (ur_discord_id (f u) = ur_discord_id u \<or> ur_discord_id (f u) = None)"
  shows "discord_ok (updateWhere p f us)"
proof (rule discord_okI)
  fix u v d assume u: "u \<in> set (updateWhere p f us)" and v: "v \<in> set (updateWhere p f us)"
    and d: "ur_discord_id u = Some d" "ur_discord_id v = Some d"
  have same: "\<exists>x\<in>set us. ur_id w = ur_id x \<and> ur_discord_id x = Some d"
    if "w \<in> set (updateWhere p f us)" "ur_discord_id w = Some d" for w
  proof -
    from that(1) obtain x where x: "x \<in> set us" "w = (if p x then f x else x)" unfolding set_updateWhere by blast
    with that(2) f [of x] show ?thesis by (cases "p x") auto
  qed
  from same [OF u d(1)] same [OF v d(2)] assms(1) show "ur_id u = ur_id v" by (auto dest: discord_okD)
qed

lemma discord_ok_snoc: "discord_ok us \<Longrightarrow> ur_discord_id u = None \<Longrightarrow> discord_ok (us @ [u])"
  by (rule discord_okI) (auto dest: discord_okD)

section \<open>What a change of one table leaves of the rest\<close>

lemma frame_ok [simp]:
  "members_ok (t\<lparr>tb_sessions := xs\<rparr>) = members_ok t" "members_ok (t\<lparr>tb_tokens := ts\<rparr>) = members_ok t"
  "members_ok (t\<lparr>tb_codes := cs\<rparr>) = members_ok t" "members_ok (t\<lparr>tb_grants := gs\<rparr>) = members_ok t"
  "members_ok (t\<lparr>tb_invites := is\<rparr>) = members_ok t" "members_ok (t\<lparr>tb_guilds := ds\<rparr>) = members_ok t"
  "members_ok (t\<lparr>tb_notify := ns\<rparr>) = members_ok t" "members_ok (t\<lparr>tb_muted := es\<rparr>) = members_ok t"
  "members_ok (t\<lparr>tb_settings := ps\<rparr>) = members_ok t" "members_ok (t\<lparr>tb_audit := as\<rparr>) = members_ok t"
  "grants_ok (t\<lparr>tb_users := us\<rparr>) = grants_ok t" "grants_ok (t\<lparr>tb_sessions := xs\<rparr>) = grants_ok t"
  "grants_ok (t\<lparr>tb_tokens := ts\<rparr>) = grants_ok t" "grants_ok (t\<lparr>tb_codes := cs\<rparr>) = grants_ok t"
  "grants_ok (t\<lparr>tb_orgs := os\<rparr>) = grants_ok t" "grants_ok (t\<lparr>tb_invites := is\<rparr>) = grants_ok t"
  "grants_ok (t\<lparr>tb_guilds := ds\<rparr>) = grants_ok t" "grants_ok (t\<lparr>tb_notify := ns\<rparr>) = grants_ok t"
  "grants_ok (t\<lparr>tb_muted := es\<rparr>) = grants_ok t" "grants_ok (t\<lparr>tb_settings := ps\<rparr>) = grants_ok t"
  "grants_ok (t\<lparr>tb_audit := as\<rparr>) = grants_ok t" "invites_ok n (t\<lparr>tb_sessions := xs\<rparr>) = invites_ok n t"
  "invites_ok n (t\<lparr>tb_tokens := ts\<rparr>) = invites_ok n t" "invites_ok n (t\<lparr>tb_codes := cs\<rparr>) = invites_ok n t"
  "invites_ok n (t\<lparr>tb_members := ms\<rparr>) = invites_ok n t" "invites_ok n (t\<lparr>tb_grants := gs\<rparr>) = invites_ok n t"
  "invites_ok n (t\<lparr>tb_guilds := ds\<rparr>) = invites_ok n t" "invites_ok n (t\<lparr>tb_notify := ns\<rparr>) = invites_ok n t"
  "invites_ok n (t\<lparr>tb_muted := es\<rparr>) = invites_ok n t" "invites_ok n (t\<lparr>tb_settings := ps\<rparr>) = invites_ok n t"
  "invites_ok n (t\<lparr>tb_audit := as\<rparr>) = invites_ok n t" "keys_ok (t\<lparr>tb_orgs := os\<rparr>) = keys_ok t"
  "keys_ok (t\<lparr>tb_members := ms\<rparr>) = keys_ok t" "keys_ok (t\<lparr>tb_grants := gs\<rparr>) = keys_ok t"
  "keys_ok (t\<lparr>tb_invites := is\<rparr>) = keys_ok t" "keys_ok (t\<lparr>tb_guilds := ds\<rparr>) = keys_ok t"
  "keys_ok (t\<lparr>tb_notify := ns\<rparr>) = keys_ok t" "keys_ok (t\<lparr>tb_muted := es\<rparr>) = keys_ok t"
  "keys_ok (t\<lparr>tb_settings := ps\<rparr>) = keys_ok t" "keys_ok (t\<lparr>tb_audit := as\<rparr>) = keys_ok t"
  "orgtabs_ok (t\<lparr>tb_users := us\<rparr>) = orgtabs_ok t" "orgtabs_ok (t\<lparr>tb_sessions := xs\<rparr>) = orgtabs_ok t"
  "orgtabs_ok (t\<lparr>tb_tokens := ts\<rparr>) = orgtabs_ok t" "orgtabs_ok (t\<lparr>tb_codes := cs\<rparr>) = orgtabs_ok t"
  "orgtabs_ok (t\<lparr>tb_members := ms\<rparr>) = orgtabs_ok t" "orgtabs_ok (t\<lparr>tb_grants := gs\<rparr>) = orgtabs_ok t"
  "orgtabs_ok (t\<lparr>tb_invites := is\<rparr>) = orgtabs_ok t" "orgtabs_ok (t\<lparr>tb_settings := ps\<rparr>) = orgtabs_ok t"
  "orgtabs_ok (t\<lparr>tb_audit := as\<rparr>) = orgtabs_ok t" "logs_ok n (t\<lparr>tb_users := us\<rparr>) = logs_ok n t"
  "logs_ok n (t\<lparr>tb_sessions := xs\<rparr>) = logs_ok n t" "logs_ok n (t\<lparr>tb_tokens := ts\<rparr>) = logs_ok n t"
  "logs_ok n (t\<lparr>tb_codes := cs\<rparr>) = logs_ok n t" "logs_ok n (t\<lparr>tb_orgs := os\<rparr>) = logs_ok n t"
  "logs_ok n (t\<lparr>tb_members := ms\<rparr>) = logs_ok n t" "logs_ok n (t\<lparr>tb_grants := gs\<rparr>) = logs_ok n t"
  "logs_ok n (t\<lparr>tb_invites := is\<rparr>) = logs_ok n t" "logs_ok n (t\<lparr>tb_guilds := ds\<rparr>) = logs_ok n t"
  "logs_ok n (t\<lparr>tb_notify := ns\<rparr>) = logs_ok n t" "logs_ok n (t\<lparr>tb_muted := es\<rparr>) = logs_ok n t"
  by (simp_all add: members_ok_def grants_ok_def invites_ok_def keys_ok_def orgtabs_ok_def logs_ok_def)

lemma schema_users:
  assumes "schema_ok n t" and "n \<le> n'" and "users_ok n' us" and "ur_id ` set (tb_users t) \<subseteq> ur_id ` set us"
  shows "schema_ok n' (t\<lparr>tb_users := us\<rparr>)"
proof -
  have "members_ok (t\<lparr>tb_users := us\<rparr>)" using assms unfolding schema_ok_def members_ok_def list_all_iff by auto
  moreover have "keys_ok (t\<lparr>tb_users := us\<rparr>)" using assms unfolding schema_ok_def keys_ok_def list_all_iff by auto
  moreover have "invites_ok n' (t\<lparr>tb_users := us\<rparr>)"
    using assms unfolding schema_ok_def invites_ok_def list_all_iff by fastforce
  moreover have "orgs_ok n' (tb_orgs t)" using assms unfolding schema_ok_def orgs_ok_def list_all_iff by force
  moreover have "logs_ok n' t" using assms unfolding schema_ok_def logs_ok_def list_all_iff by force
  ultimately show ?thesis using assms by (simp add: schema_ok_def)
qed

lemma schema_orgs:
  assumes "schema_ok n t" and "n \<le> n'" and "orgs_ok n' gs" and "og_id ` set (tb_orgs t) \<subseteq> og_id ` set gs"
  shows "schema_ok n' (t\<lparr>tb_orgs := gs\<rparr>)"
proof -
  have "members_ok (t\<lparr>tb_orgs := gs\<rparr>)" using assms unfolding schema_ok_def members_ok_def list_all_iff by auto
  moreover have "invites_ok n' (t\<lparr>tb_orgs := gs\<rparr>)"
    using assms unfolding schema_ok_def invites_ok_def list_all_iff by fastforce
  moreover have "orgtabs_ok (t\<lparr>tb_orgs := gs\<rparr>)" using assms unfolding schema_ok_def orgtabs_ok_def list_all_iff by (simp add: subset_iff)
  moreover have "users_ok n' (tb_users t)" using assms unfolding schema_ok_def users_ok_def list_all_iff by force
  moreover have "logs_ok n' t" using assms unfolding schema_ok_def logs_ok_def list_all_iff by force
  ultimately show ?thesis using assms by (simp add: schema_ok_def)
qed

text \<open>Whether an organization that exists has an owner.\<close>

definition has_owner :: "int \<Rightarrow> tables \<Rightarrow> bool" where
  "has_owner i t \<longleftrightarrow> i \<in> og_id ` set (tb_orgs t) \<longrightarrow> ownersOf i t \<noteq> []"

lemma ownersOf_frame [simp]:
  "ownersOf i (t\<lparr>tb_users := us\<rparr>) = ownersOf i t" "ownersOf i (t\<lparr>tb_sessions := xs\<rparr>) = ownersOf i t"
  "ownersOf i (t\<lparr>tb_tokens := ts\<rparr>) = ownersOf i t" "ownersOf i (t\<lparr>tb_codes := cs\<rparr>) = ownersOf i t"
  "ownersOf i (t\<lparr>tb_orgs := os\<rparr>) = ownersOf i t" "ownersOf i (t\<lparr>tb_grants := gs\<rparr>) = ownersOf i t"
  "ownersOf i (t\<lparr>tb_invites := is\<rparr>) = ownersOf i t" "ownersOf i (t\<lparr>tb_guilds := ds\<rparr>) = ownersOf i t"
  "ownersOf i (t\<lparr>tb_notify := ns\<rparr>) = ownersOf i t" "ownersOf i (t\<lparr>tb_muted := es\<rparr>) = ownersOf i t"
  "ownersOf i (t\<lparr>tb_settings := ps\<rparr>) = ownersOf i t" "ownersOf i (t\<lparr>tb_audit := as\<rparr>) = ownersOf i t"
  by (simp_all add: ownersOf_def)

lemma has_owner_frame [simp]:
  "has_owner i (t\<lparr>tb_users := us\<rparr>) = has_owner i t" "has_owner i (t\<lparr>tb_sessions := xs\<rparr>) = has_owner i t"
  "has_owner i (t\<lparr>tb_tokens := ts\<rparr>) = has_owner i t" "has_owner i (t\<lparr>tb_codes := cs\<rparr>) = has_owner i t"
  "has_owner i (t\<lparr>tb_grants := gs\<rparr>) = has_owner i t" "has_owner i (t\<lparr>tb_invites := is\<rparr>) = has_owner i t"
  "has_owner i (t\<lparr>tb_guilds := ds\<rparr>) = has_owner i t" "has_owner i (t\<lparr>tb_notify := ns\<rparr>) = has_owner i t"
  "has_owner i (t\<lparr>tb_muted := es\<rparr>) = has_owner i t" "has_owner i (t\<lparr>tb_settings := ps\<rparr>) = has_owner i t"
  "has_owner i (t\<lparr>tb_audit := as\<rparr>) = has_owner i t"
  by (simp_all add: has_owner_def)

definition store_ok :: "int \<Rightarrow> int \<Rightarrow> tables \<Rightarrow> bool" where
  "store_ok i n t \<longleftrightarrow> schema_ok n t \<and> i < n \<and> has_owner i t"

lemma numbered_store: "numbered (store_ok i)"
  using numbered_schema unfolding numbered_def store_ok_def by force

section \<open>Accounts\<close>

lemma keeps_updateUser:
  assumes "\<And>now u. ur_id (f now u) = ur_id u \<and> ur_username (f now u) = ur_username u \<and> ur_email (f now u) = ur_email u \<and>
    (ur_discord_id (f now u) = ur_discord_id u \<or> ur_discord_id (f now u) = None)"
  shows "keeps W (store_ok i) (updateUser uid f)"
  unfolding updateUser_def
proof (rule keeps_exec)
  fix s :: pdb and x t
  assume ok: "store_ok i (db_seq s) (db_t s)" and r: "(let p = \<lambda>u. ur_id u = uid; t = db_t s in
    Inr (countWhere p (tb_users t), t\<lparr>tb_users := updateWhere p (f (db_now s)) (tb_users t)\<rparr>)) = Inr (x, t)"
  let ?us = "updateWhere (\<lambda>u. ur_id u = uid) (f (db_now s)) (tb_users (db_t s))"
  have eq: "map ur_id ?us = map ur_id (tb_users (db_t s))" "map ur_username ?us = map ur_username (tb_users (db_t s))"
    "map ur_email ?us = map ur_email (tb_users (db_t s))"
    using assms by (simp_all add: map_updateWhere)
  have "discord_ok ?us" using ok assms by (intro discord_ok_update) (simp_all add: store_ok_def schema_ok_def users_ok_def)
  then have "users_ok (db_seq s) ?us"
    using ok assms unfolding store_ok_def schema_ok_def users_ok_def eq by (auto simp: list_all_iff set_updateWhere)
  moreover have "ur_id ` set ?us = ur_id ` set (tb_users (db_t s))" using assms by (simp add: image_updateWhere)
  ultimately have "schema_ok (db_seq s) ((db_t s)\<lparr>tb_users := ?us\<rparr>)" using ok by (intro schema_users) (auto simp: store_ok_def)
  with ok r show "store_ok i (db_seq s) t" by (auto simp: store_ok_def Let_def)
qed

lemma users_ok_snoc:
  assumes "users_ok n us" and "0 < n" and "\<not> list_ex (\<lambda>u. ur_username u = name) us" and "\<not> emailTaken email (\<lambda>_. True) us"
  shows "users_ok (n + 1) (us @ [newUserRow n now name email hash a])"
proof -
  have "discord_ok (us @ [newUserRow n now name email hash a])"
    using assms(1) by (intro discord_ok_snoc) (simp_all add: users_ok_def newUserRow_def)
  then show ?thesis using assms unfolding users_ok_def emailTaken_def list_all_iff list_ex_iff newUserRow_def by force
qed

lemma store_new_user:
  assumes "store_ok i n t" and "\<not> list_ex (\<lambda>u. ur_username u = name) (tb_users t)" and "\<not> emailTaken email (\<lambda>_. True) (tb_users t)"
  shows "store_ok i (n + 1) (t\<lparr>tb_users := tb_users t @ [newUserRow n now name email hash a]\<rparr>)"
proof -
  from assms(1) have ok: "schema_ok n t" "users_ok n (tb_users t)" "0 < n" by (auto simp: store_ok_def schema_ok_def)
  from schema_users [OF ok(1) _ users_ok_snoc [OF ok(2,3) assms(2,3)]] assms(1) show ?thesis by (auto simp: store_ok_def)
qed

lemma keeps_insertUser: "keeps W (store_ok i) (insertUser name email hash a)"
  unfolding insertUser_def
  by (rule keeps_insertRow [OF numbered_store]) (auto simp: Let_def split: if_splits intro!: store_new_user)

text \<open>A new address, or a new row under a known name, in the one row the key selects.\<close>

lemma store_set_email:
  assumes ok: "store_ok i n t" and "n \<le> n'" and f: "\<And>u. ur_id (f u) = ur_id u \<and> ur_username (f u) = ur_username u \<and> ur_email (f u) = email \<and> ur_discord_id (f u) = ur_discord_id u"
    and k: "distinct (map k (tb_users t))" and free: "\<not> emailTaken email (\<lambda>v. k v \<noteq> x) (tb_users t)"
  shows "store_ok i n' (t\<lparr>tb_users := updateWhere (\<lambda>v. k v = x) f (tb_users t)\<rparr>)"
proof -
  let ?us = "updateWhere (\<lambda>v. k v = x) f (tb_users t)"
  have eq: "map ur_id ?us = map ur_id (tb_users t)" "map ur_username ?us = map ur_username (tb_users t)"
    using f by (simp_all add: map_updateWhere)
  have "distinct (map ur_email ?us)"
    using ok free f by (intro distinct_set_column [OF k, of _ _ email _ x]) (auto simp: store_ok_def schema_ok_def users_ok_def emailTaken_def list_ex_iff)
  moreover have "discord_ok ?us" using ok f by (intro discord_ok_update) (auto simp: store_ok_def schema_ok_def users_ok_def)
  ultimately have "users_ok n' ?us" using ok f \<open>n \<le> n'\<close>
    unfolding store_ok_def schema_ok_def users_ok_def eq by (force simp: list_all_iff set_updateWhere)
  moreover have "ur_id ` set ?us = ur_id ` set (tb_users t)" using f by (simp add: image_updateWhere)
  ultimately have "schema_ok n' (t\<lparr>tb_users := ?us\<rparr>)" using ok \<open>n \<le> n'\<close> by (intro schema_users) (auto simp: store_ok_def)
  with ok \<open>n \<le> n'\<close> show ?thesis by (auto simp: store_ok_def)
qed

lemma store_names: "store_ok i n t \<Longrightarrow> distinct (map ur_id (tb_users t)) \<and> distinct (map ur_username (tb_users t))"
  by (auto simp: store_ok_def schema_ok_def users_ok_def)

lemma keeps_upsertRow: "keeps W (store_ok i) (upsertRow name email hash a)"
  unfolding upsertRow_def
  by (rule keeps_insertRow [OF numbered_store])
    (auto simp: Let_def find_None_iff list_ex_iff store_names split: if_splits option.splits intro!: store_new_user store_set_email)

lemma keeps_updateEmail: "keeps W (store_ok i) (updateEmail uid email)"
  unfolding updateEmail_def
  by (rule keeps_exec) (auto simp: Let_def store_names split: if_splits option.splits intro!: store_set_email)

section \<open>Sessions, links and codes\<close>

lemma store_keys:
  assumes "store_ok i n t" and "tb_users t' = tb_users t" and "tb_orgs t' = tb_orgs t" and "tb_members t' = tb_members t"
    and "tb_grants t' = tb_grants t" and "tb_invites t' = tb_invites t"
    and "tb_guilds t' = tb_guilds t" and "tb_notify t' = tb_notify t" and "tb_muted t' = tb_muted t"
    and "tb_settings t' = tb_settings t" and "tb_audit t' = tb_audit t" and "keys_ok t \<Longrightarrow> keys_ok t'"
  shows "store_ok i n t'"
  using assms unfolding store_ok_def schema_ok_def members_ok_def grants_ok_def invites_ok_def has_owner_def ownersOf_def
    orgtabs_ok_def logs_ok_def by simp

lemma keeps_create_session: "keeps W (store_ok i) (CreateSession C uid ttl)"
  unfolding CreateSession_def
  by (intro keeps_bindE keeps_rules keeps_case_prod keeps_exec)
    (auto simp: Let_def keys_ok_def list_all_iff list_ex_iff split: if_splits elim!: store_keys)

lemma keeps_revokeWhere: "keeps W (store_ok i) (revokeWhere p)"
  unfolding revokeWhere_def
  by (rule keeps_exec) (auto simp: Let_def keys_ok_def list_all_iff set_updateWhere map_updateWhere elim!: store_keys)

lemma keeps_consume: "keeps W (store_ok i) (consumeUserToken C token p)"
  unfolding consumeUserToken_def
  by (rule keeps_exec) (auto simp: Let_def keys_ok_def list_all_iff set_updateWhere map_updateWhere split: option.splits elim!: store_keys)

lemma keeps_issue: "keeps W (store_ok i) (IssueUserToken C uid p e ttl)"
  unfolding IssueUserToken_def
  by (intro keeps_bindE keeps_rules keeps_case_prod keeps_tx numbered_store keeps_exec)
    (auto simp: Let_def keys_ok_def list_all_iff list_ex_iff distinct_map_filter split: if_splits elim!: store_keys)

lemma keeps_replaceCodes: "keeps W (store_ok i) (replaceRecoveryCodes uid hs)"
  unfolding replaceRecoveryCodes_def insertCode_def
  by (intro keeps_bindE keeps_rules keeps_forE keeps_exec)
    (auto simp: Let_def keys_ok_def list_all_iff list_ex_iff split: if_splits elim!: store_keys)

lemma keeps_useCode: "keeps W (store_ok i) (UseRecoveryCode uid h)"
  unfolding UseRecoveryCode_def
  by (rule keeps_exec) (auto simp: Let_def keys_ok_def list_all_iff elim!: store_keys)

lemma keeps_step: "keeps W (store_ok i) (AcceptTOTPStep uid step)"
  unfolding AcceptTOTPStep_def
proof (rule keeps_exec)
  fix s :: pdb and x t
  assume ok: "store_ok i (db_seq s) (db_t s)" and r: "(let t = db_t s; p = \<lambda>u. ur_id u = uid \<and> ur_totp_step u < step
    in Inr (countWhere p (tb_users t) = 1, t\<lparr>tb_users := updateWhere p (\<lambda>u. u\<lparr>ur_totp_step := step\<rparr>) (tb_users t)\<rparr>)) = Inr (x, t)"
  let ?us = "updateWhere (\<lambda>u. ur_id u = uid \<and> ur_totp_step u < step) (\<lambda>u. u\<lparr>ur_totp_step := step\<rparr>) (tb_users (db_t s))"
  have "users_ok (db_seq s) ?us"
    using ok unfolding store_ok_def schema_ok_def users_ok_def
    by (auto simp: map_updateWhere list_all_iff set_updateWhere intro!: discord_ok_update)
  moreover have "ur_id ` set ?us = ur_id ` set (tb_users (db_t s))" by (simp add: image_updateWhere)
  ultimately have "schema_ok (db_seq s) ((db_t s)\<lparr>tb_users := ?us\<rparr>)" using ok by (intro schema_users) (auto simp: store_ok_def)
  with ok r show "store_ok i (db_seq s) t" by (auto simp: store_ok_def Let_def)
qed

section \<open>Owners\<close>

lemma owners_distinct: "schema_ok n t \<Longrightarrow> distinct (map mb_user (ownersOf i t))"
  unfolding schema_ok_def members_ok_def ownersOf_def distinct_map inj_on_def by (auto simp: distinct_map)

lemma another_owner:
  assumes "schema_ok n t" and "2 \<le> length (ownersOf i t)"
  shows "\<exists>m\<in>set (ownersOf i t). mb_user m \<noteq> uid"
proof (rule ccontr)
  assume "\<not> ?thesis"
  then have "set (map mb_user (ownersOf i t)) \<subseteq> {uid}" by auto
  then have "card (set (map mb_user (ownersOf i t))) \<le> 1" using card_mono [of "{uid}"] by fastforce
  with distinct_card [OF owners_distinct [OF assms(1)]] assms(2) show False by simp
qed

text \<open>An account that is not the only owner of any organization leaves another owner behind.\<close>

lemma not_sole_owner:
  assumes "schema_ok n t" and "\<not> soleOwner uid t" and "ownersOf i t \<noteq> []"
  shows "\<exists>m\<in>set (ownersOf i t). mb_user m \<noteq> uid"
proof (cases "length (ownersOf i t) = 1")
  case True
  then obtain m where m: "ownersOf i t = [m]" by (auto simp: length_Suc_conv)
  then have "m \<in> set (ownersOf i t)" by simp
  then have "m \<in> set (tb_members t) \<and> mb_org m = i \<and> mb_role m = RoleOwner" by (auto simp: ownersOf_def)
  with assms(2) m have "mb_user m \<noteq> uid" by (auto simp: soleOwner_def list_ex_iff)
  with m show ?thesis by simp
next
  case False
  with assms(3) have "2 \<le> length (ownersOf i t)" by (cases "ownersOf i t") (auto simp: Suc_le_eq)
  with assms(1) show ?thesis by (rule another_owner)
qed

section \<open>Rows removed with what hangs on them\<close>

lemma schema_deleteUser:
  assumes "schema_ok n t" shows "schema_ok n (deleteUserRow uid t)"
proof -
  let ?f = "\<lambda>i. if iv_invited_by i = Some uid then i\<lparr>iv_invited_by := None\<rparr> else i"
  have f: "iv_id (?f i) = iv_id i" "iv_hash (?f i) = iv_hash i" "iv_org (?f i) = iv_org i" "iv_email (?f i) = iv_email i"
    "iv_role (?f i) = iv_role i" "set_option (iv_invited_by (?f i)) = set_option (iv_invited_by i) - {uid}" for i by auto
  have inv: "invites_ok n t" using assms by (simp add: schema_ok_def)
  then have "x \<in> ur_id ` {u \<in> set (tb_users t). ur_id u \<noteq> uid}"
    if "i \<in> set (tb_invites t)" "iv_invited_by i = Some x" "x \<noteq> uid" for i x
    using that unfolding invites_ok_def list_all_iff by blast
  with inv have "invites_ok n (deleteUserRow uid t)"
    unfolding invites_ok_def deleteUserRow_def by (simp add: list_all_iff comp_def f del: if_split) auto
  moreover have "users_ok n (tb_users (deleteUserRow uid t))"
    using assms unfolding schema_ok_def by (simp add: deleteUserRow_def users_ok_def list_all_iff distinct_map_filter discord_ok_filter)
  moreover have "members_ok (deleteUserRow uid t)"
    using assms unfolding schema_ok_def members_ok_def deleteUserRow_def by (simp add: list_all_iff distinct_map_filter) fast
  moreover have "grants_ok (deleteUserRow uid t)"
    using assms unfolding schema_ok_def grants_ok_def deleteUserRow_def by (simp add: list_all_iff) fastforce
  moreover have "keys_ok (deleteUserRow uid t)"
    using assms unfolding schema_ok_def by (auto simp: deleteUserRow_def keys_ok_def list_all_iff distinct_map_filter)
  moreover have "orgtabs_ok (deleteUserRow uid t)" and "logs_ok n (deleteUserRow uid t)"
    using assms unfolding schema_ok_def deleteUserRow_def by simp_all
  ultimately show ?thesis using assms by (simp add: schema_ok_def deleteUserRow_def)
qed

lemma keeps_deleteUser: "keeps W (store_ok i) (DeleteUser uid)"
  unfolding DeleteUser_def
proof (intro keeps_tx numbered_store keeps_query keeps_if keeps_rules keeps_bindE keeps_exec)
  fix x sole s y t
  assume w: "((W (db_t s) \<and> (\<exists>sa. db_t sa = db_t s \<and> Inr () = (Inr x :: go_err + unit))) \<and>
      (\<exists>sa. db_t sa = db_t s \<and> Inr (soleOwner uid (db_t sa)) = (Inr sole :: go_err + bool)))"
    and sole: "\<not> sole" and ok: "store_ok i (db_seq s) (db_t s)"
    and r: "Inr (countWhere (\<lambda>u. ur_id u = uid) (usersOf s), deleteUserRow uid (db_t s)) = Inr (y, t)"
  from w sole have n: "\<not> soleOwner uid (db_t s)" by auto
  have "has_owner i (deleteUserRow uid (db_t s))"
  proof (cases "i \<in> og_id ` set (tb_orgs (db_t s))")
    case True
    with ok have "ownersOf i (db_t s) \<noteq> []" "schema_ok (db_seq s) (db_t s)" by (auto simp: store_ok_def has_owner_def)
    from not_sole_owner [OF this(2) n this(1)] show ?thesis
      by (auto simp: has_owner_def ownersOf_def deleteUserRow_def filter_empty_conv)
  qed (simp add: has_owner_def deleteUserRow_def)
  with ok r show "store_ok i (db_seq s) t" by (auto simp: store_ok_def schema_deleteUser)
qed

lemma store_deleteOrg:
  assumes "store_ok i n t" shows "store_ok i n (deleteOrgRows p t)"
proof -
  have "members_ok (deleteOrgRows p t)" and "grants_ok (deleteOrgRows p t)" and "orgs_ok n (tb_orgs (deleteOrgRows p t))"
    using assms unfolding store_ok_def schema_ok_def
    by (auto simp: deleteOrgRows_def members_ok_def grants_ok_def orgs_ok_def list_all_iff distinct_map_filter)
  moreover have "invites_ok n (deleteOrgRows p t)"
    using assms unfolding store_ok_def schema_ok_def by (auto simp: deleteOrgRows_def invites_ok_def list_all_iff distinct_map_filter)
  moreover have "has_owner i (deleteOrgRows p t)"
    using assms unfolding store_ok_def by (auto simp: has_owner_def ownersOf_def deleteOrgRows_def filter_empty_conv)
  moreover have "keys_ok (deleteOrgRows p t)"
    using assms unfolding store_ok_def schema_ok_def by (simp add: deleteOrgRows_def keys_ok_def)
  moreover have "orgtabs_ok (deleteOrgRows p t)"
    using assms unfolding store_ok_def schema_ok_def by (auto simp: deleteOrgRows_def orgtabs_ok_def list_all_iff distinct_map_filter)
  moreover have "logs_ok n (deleteOrgRows p t)"
    using assms unfolding store_ok_def schema_ok_def by (simp add: deleteOrgRows_def)
  ultimately show ?thesis using assms by (simp add: store_ok_def schema_ok_def deleteOrgRows_def)
qed

lemma keeps_deleteOrg: "keeps W (store_ok i) (DeleteOrg slug)"
  unfolding DeleteOrg_def by (intro keeps_bindE keeps_rules keeps_exec) (auto simp: Let_def intro: store_deleteOrg)

section \<open>Organizations and members\<close>

lemma keeps_require2FA: "keeps W (store_ok i) (SetOrgRequire2FA j on)"
  unfolding SetOrgRequire2FA_def
proof (rule keeps_exec)
  fix s :: pdb and x t
  assume ok: "store_ok i (db_seq s) (db_t s)" and r: "(let t = db_t s in Inr ((), t\<lparr>tb_orgs :=
    updateWhere (\<lambda>x. og_id x = j) (\<lambda>x. x\<lparr>og_require2fa := on\<rparr>) (tb_orgs t)\<rparr>)) = Inr (x, t)"
  let ?gs = "updateWhere (\<lambda>x. og_id x = j) (\<lambda>x. x\<lparr>og_require2fa := on\<rparr>) (tb_orgs (db_t s))"
  have im: "og_id ` set ?gs = og_id ` set (tb_orgs (db_t s))" by (simp add: image_updateWhere)
  have "orgs_ok (db_seq s) ?gs"
    using ok unfolding store_ok_def schema_ok_def orgs_ok_def by (auto simp: map_updateWhere list_all_iff set_updateWhere)
  then have "schema_ok (db_seq s) ((db_t s)\<lparr>tb_orgs := ?gs\<rparr>)"
    using ok im by (intro schema_orgs) (auto simp: store_ok_def)
  with ok r im show "store_ok i (db_seq s) t" by (auto simp: store_ok_def has_owner_def Let_def)
qed

lemma keeps_insertOrg: "ValidSlug slug \<Longrightarrow> keeps W (store_ok i) (insertOrg slug name)"
  unfolding insertOrg_def
proof (rule keeps_insertRow [OF numbered_store])
  fix s :: pdb and x t
  let ?g = "\<lparr>og_id = db_seq s, og_slug = slug, og_name = name, og_created = db_now s, og_require2fa = False\<rparr>"
  assume v: "ValidSlug slug" and ok: "store_ok i (db_seq s) (db_t s)"
    and r: "(let t = db_t s; g = ?g in if list_ex (\<lambda>x. og_slug x = slug) (tb_orgs t)
      then Inl (DbErr (DbUnique ''organizations_slug_key'')) else Inr (g, t\<lparr>tb_orgs := tb_orgs t @ [g]\<rparr>)) = Inr (x, t)"
  from ok have o0: "orgs_ok (db_seq s) (tb_orgs (db_t s))" "0 < db_seq s" "schema_ok (db_seq s) (db_t s)" "i < db_seq s"
    "has_owner i (db_t s)" by (auto simp: store_ok_def schema_ok_def)
  from r have t: "t = (db_t s)\<lparr>tb_orgs := tb_orgs (db_t s) @ [?g]\<rparr>" and f: "\<not> list_ex (\<lambda>x. og_slug x = slug) (tb_orgs (db_t s))"
    by (auto simp: Let_def split: if_splits)
  have "orgs_ok (db_seq s + 1) (tb_orgs (db_t s) @ [?g])"
    using o0(1,2) f v unfolding orgs_ok_def list_all_iff list_ex_iff by force
  then have "schema_ok (db_seq s + 1) t" unfolding t using o0(3) by (intro schema_orgs) auto
  then show "store_ok i (db_seq s + 1) t" using o0(4,5) by (auto simp: store_ok_def t has_owner_def)
qed

lemma members_more:
  "members_ok t \<Longrightarrow> j \<in> og_id ` set (tb_orgs t) \<Longrightarrow> u \<in> ur_id ` set (tb_users t) \<Longrightarrow> validRole r \<Longrightarrow>
   \<not> list_ex (\<lambda>m. mb_org m = j \<and> mb_user m = u) (tb_members t) \<Longrightarrow>
   members_ok (t\<lparr>tb_members := tb_members t @ [\<lparr>mb_org = j, mb_user = u, mb_role = r\<rparr>]\<rparr>)"
  unfolding members_ok_def list_all_iff list_ex_iff by auto

lemma keeps_insertMember: "keeps W (store_ok i) (insertMember j u r d)"
  unfolding insertMember_def
proof (rule keeps_exec)
  fix s :: pdb and x t
  let ?t = "db_t s" and ?m = "\<lparr>mb_org = j, mb_user = u, mb_role = r\<rparr>"
  assume ok: "store_ok i (db_seq s) ?t" and res: "(let t = db_t s in
      if \<not> validRole r \<or> \<not> list_ex (\<lambda>x. og_id x = j) (tb_orgs t) \<or> \<not> list_ex (\<lambda>v. ur_id v = u) (tb_users t) then Inl (DbErr DbDriver)
      else if list_ex (\<lambda>m. mb_org m = j \<and> mb_user m = u) (tb_members t)
        then if d then Inr ((), t) else Inl (DbErr (DbUnique ''memberships_pkey''))
        else Inr ((), t\<lparr>tb_members := tb_members t @ [?m]\<rparr>)) = Inr (x, t)"
  then consider "t = ?t" | "t = ?t\<lparr>tb_members := tb_members ?t @ [?m]\<rparr>" "j \<in> og_id ` set (tb_orgs ?t)" "u \<in> ur_id ` set (tb_users ?t)"
      "validRole r" "\<not> list_ex (\<lambda>m. mb_org m = j \<and> mb_user m = u) (tb_members ?t)"
    by (force simp: Let_def list_ex_iff split: if_splits)
  then show "store_ok i (db_seq s) t"
  proof cases
    case 2
    with ok have "members_ok t" by (auto simp: store_ok_def schema_ok_def intro: members_more)
    moreover have "grants_ok t" using ok 2(1) unfolding store_ok_def schema_ok_def by (auto simp: grants_ok_def list_all_iff)
    moreover have "has_owner i t" using ok 2(1) by (auto simp: store_ok_def has_owner_def ownersOf_def)
    ultimately show ?thesis using ok 2(1) by (simp add: store_ok_def schema_ok_def)
  qed (use ok in simp)
qed

text \<open>What the transaction has read before it changes or removes a membership.\<close>

definition may_leave :: "int \<Rightarrow> int \<Rightarrow> tables \<Rightarrow> bool" where
  "may_leave j u t \<longleftrightarrow> (\<exists>r. roleOf j u t = Some r \<and> (r = RoleOwner \<longrightarrow> 2 \<le> length (ownersOf j t)))"

lemma keeps_require:
  assumes "keeps (\<lambda>t. W t \<and> 2 \<le> length (ownersOf j t)) I m"
  shows "keeps W I (thenE (requireAnotherOwner j) m)"
  unfolding requireAnotherOwner_def bindE_assoc bindE_if bindE_throw bindE_ret
proof (intro keeps_query keeps_if keeps_rules)
  fix n :: nat assume "\<not> n < 2"
  then show "keeps (\<lambda>t. W t \<and> (\<exists>s. db_t s = t \<and> Inr (length (ownersOf j (db_t s))) = (Inr n :: go_err + nat))) I m"
    using assms unfolding keeps_def by auto
qed

lemma keeps_membership:
  assumes "\<And>r. keeps (\<lambda>t. roleOf j u t = Some r) I (f r)" and "numbered I"
  shows "keeps W I (changeMembership j u f)"
  unfolding changeMembership_def GetMembership_def
proof (intro keeps_tx keeps_query assms(2))
  fix x and r :: role
  show "keeps (\<lambda>t. (W t \<and> (\<exists>s. db_t s = t \<and> Inr () = (Inr x :: go_err + unit))) \<and>
      (\<exists>s. db_t s = t \<and> (case roleOf j u (db_t s) of None \<Rightarrow> Inl (DbErr DbNotFound) | Some r \<Rightarrow> Inr r) = Inr r)) I (f r)"
    using assms(1) [of r] unfolding keeps_def by (auto split: option.splits)
qed

lemma role_unique:
  assumes "members_ok t" and "roleOf j u t = Some r" and "m \<in> set (tb_members t)" and "mb_org m = j" and "mb_user m = u"
  shows "mb_role m = r"
proof -
  from assms(2) obtain m' where "m' \<in> set (tb_members t)" "mb_org m' = j" "mb_user m' = u" "mb_role m' = r"
    by (auto simp: roleOf_def find_Some_iff in_set_conv_nth)
  with assms show ?thesis unfolding members_ok_def distinct_map inj_on_def by (metis (mono_tags, lifting))
qed

text \<open>An owner of the organization other than the member that may leave.\<close>

lemma owner_stays:
  assumes ok: "store_ok i n t" and "i \<in> og_id ` set (tb_orgs t)" and "may_leave i u t"
  shows "\<exists>m\<in>set (tb_members t). mb_org m = i \<and> mb_role m = RoleOwner \<and> mb_user m \<noteq> u"
proof -
  from ok have sch: "schema_ok n t" and own: "ownersOf i t \<noteq> []" using assms(2) by (auto simp: store_ok_def has_owner_def)
  from assms(3) obtain r where r: "roleOf i u t = Some r" "r = RoleOwner \<longrightarrow> 2 \<le> length (ownersOf i t)" by (auto simp: may_leave_def)
  have "\<exists>m\<in>set (ownersOf i t). mb_user m \<noteq> u"
  proof (cases "r = RoleOwner")
    case True with r(2) sch show ?thesis by (blast intro: another_owner)
  next
    case False
    from own obtain m where m: "m \<in> set (ownersOf i t)" by (cases "ownersOf i t") auto
    with False r(1) sch have "mb_user m \<noteq> u" unfolding schema_ok_def by (auto simp: ownersOf_def dest: role_unique)
    with m show ?thesis by blast
  qed
  then show ?thesis by (auto simp: ownersOf_def)
qed

lemma store_remove_member:
  assumes ok: "store_ok i n t" and leave: "i = j \<Longrightarrow> may_leave i u t"
  shows "store_ok i n (deleteMemberRow j u t)"
proof -
  let ?t = "deleteMemberRow j u t"
  have mem: "members_ok t" and gr: "grants_ok t" using ok by (auto simp: store_ok_def schema_ok_def)
  have "members_ok ?t"
    using mem unfolding members_ok_def deleteMemberRow_def by (simp add: list_all_iff distinct_map_filter)
  moreover have "grants_ok ?t"
    using gr unfolding grants_ok_def deleteMemberRow_def by (simp add: list_all_iff) fastforce
  moreover have "has_owner i ?t"
  proof (cases "i \<in> og_id ` set (tb_orgs t)")
    case True
    then have own: "ownersOf i t \<noteq> []" using ok by (auto simp: store_ok_def has_owner_def)
    show ?thesis
    proof (cases "i = j")
      case True
      with owner_stays [OF ok \<open>i \<in> _\<close> leave] show ?thesis
        by (auto simp: has_owner_def ownersOf_def deleteMemberRow_def filter_empty_conv)
    qed (use own in \<open>auto simp: has_owner_def ownersOf_def deleteMemberRow_def filter_empty_conv\<close>)
  qed (simp add: has_owner_def deleteMemberRow_def)
  moreover have "invites_ok n ?t" and "keys_ok ?t" using ok by (auto simp: deleteMemberRow_def store_ok_def schema_ok_def)
  ultimately show ?thesis using ok by (simp add: store_ok_def schema_ok_def deleteMemberRow_def)
qed

lemma store_set_role:
  assumes ok: "store_ok i n t" and r: "validRole r" and leave: "i = j \<Longrightarrow> r \<noteq> RoleOwner \<Longrightarrow> may_leave i u t"
  shows "store_ok i n (t\<lparr>tb_members := updateWhere (\<lambda>m. mb_org m = j \<and> mb_user m = u) (\<lambda>m. m\<lparr>mb_role := r\<rparr>) (tb_members t)\<rparr>)"
    (is "store_ok i n (t\<lparr>tb_members := ?ms\<rparr>)")
proof -
  have mem: "members_ok t" and gr: "grants_ok t" using ok unfolding store_ok_def schema_ok_def by blast+
  have k: "map (\<lambda>m. (mb_org m, mb_user m)) ?ms = map (\<lambda>m. (mb_org m, mb_user m)) (tb_members t)" by (simp add: map_updateWhere)
  have im: "(\<lambda>m. (mb_org m, mb_user m)) ` set ?ms = (\<lambda>m. (mb_org m, mb_user m)) ` set (tb_members t)" by (rule image_updateWhere) simp
  have "members_ok (t\<lparr>tb_members := ?ms\<rparr>)"
    using mem r unfolding members_ok_def list_all_iff by (auto simp: k set_updateWhere)
  moreover have "grants_ok (t\<lparr>tb_members := ?ms\<rparr>)" using gr unfolding grants_ok_def by (simp add: im)
  moreover have "has_owner i (t\<lparr>tb_members := ?ms\<rparr>)"
  proof (cases "i \<in> og_id ` set (tb_orgs t)")
    case True
    then have "\<exists>m\<in>set (tb_members t). mb_org m = i \<and> mb_role m = RoleOwner"
      using ok by (auto simp: store_ok_def has_owner_def ownersOf_def filter_empty_conv)
    with owner_stays [OF ok True leave] obtain m where m: "m \<in> set (tb_members t)" "mb_org m = i" "mb_role m = RoleOwner"
      "i = j \<Longrightarrow> mb_user m = u \<Longrightarrow> r = RoleOwner" by blast
    let ?m = "if mb_org m = j \<and> mb_user m = u then m\<lparr>mb_role := r\<rparr> else m"
    have "?m \<in> set ?ms" using m by (auto simp: set_updateWhere)
    moreover have "mb_org ?m = i" "mb_role ?m = RoleOwner" using m by auto
    ultimately show ?thesis unfolding has_owner_def ownersOf_def by (fastforce simp: filter_empty_conv)
  qed (simp add: has_owner_def)
  ultimately show ?thesis using ok by (simp add: store_ok_def schema_ok_def)
qed

lemma keeps_removeMember: "keeps W (store_ok i) (RemoveMember j u)"
  unfolding RemoveMember_def bindE_if bindE_ret
  by (intro keeps_membership keeps_if keeps_require keeps_exec numbered_store)
    (auto intro!: store_remove_member simp: may_leave_def)

lemma keeps_setRole: "keeps W (store_ok i) (SetMemberRole j u r)"
  unfolding SetMemberRole_def bindE_if bindE_ret
  by (intro keeps_membership keeps_if keeps_require keeps_exec numbered_store)
    (auto intro!: store_set_role simp: may_leave_def Let_def split: if_splits)

section \<open>Grants and invitations\<close>

lemma role_member: "roleOf j u t \<noteq> None \<Longrightarrow> (j, u) \<in> (\<lambda>m. (mb_org m, mb_user m)) ` set (tb_members t)"
  unfolding roleOf_def by (auto simp: find_None_iff)

lemma store_grants:
  assumes ok: "store_ok i n t" and "distinct gs"
    and "\<forall>g\<in>set gs. g \<in> set (tb_grants t) \<or> roleOf (gr_org g) (gr_user g) t \<noteq> None"
  shows "store_ok i n (t\<lparr>tb_grants := gs\<rparr>)"
proof -
  have "grants_ok t" using ok by (simp add: store_ok_def schema_ok_def)
  then have "grants_ok (t\<lparr>tb_grants := gs\<rparr>)"
    using assms(2,3) role_member unfolding grants_ok_def list_all_iff by simp blast
  then show ?thesis using ok by (simp add: store_ok_def schema_ok_def)
qed

lemma store_distinct_grants: "store_ok i n t \<Longrightarrow> distinct (tb_grants t)"
  by (simp add: store_ok_def schema_ok_def grants_ok_def)

lemma keeps_grants: "keeps W (store_ok i) (SetMemberGrants j u gs)"
  unfolding SetMemberGrants_def insertGrant_def
  by (intro keeps_tx numbered_store keeps_bindE keeps_case_prod keeps_forE keeps_exec)
    (auto simp: Let_def store_distinct_grants split: if_splits intro!: store_grants)

lemma keeps_dropGrants: "keeps W (store_ok i) (DeleteGameServerGrants j g)"
  unfolding DeleteGameServerGrants_def
  by (intro keeps_exec) (auto simp: Let_def store_distinct_grants intro!: store_grants)

lemma store_invites:
  assumes "store_ok i n t" and "n \<le> n'" and "invites_ok n' (t\<lparr>tb_invites := is\<rparr>)"
  shows "store_ok i n' (t\<lparr>tb_invites := is\<rparr>)"
proof -
  have "users_ok n' (tb_users t)" and "orgs_ok n' (tb_orgs t)" and "logs_ok n' t"
    using assms(1,2) unfolding store_ok_def schema_ok_def users_ok_def orgs_ok_def logs_ok_def list_all_iff by force+
  then show ?thesis using assms unfolding store_ok_def schema_ok_def by simp
qed

lemma invites_filter: "store_ok i n t \<Longrightarrow> invites_ok n (t\<lparr>tb_invites := filter p (tb_invites t)\<rparr>)"
  unfolding store_ok_def schema_ok_def invites_ok_def by (simp add: list_all_iff distinct_map_filter)

lemma keeps_dropInvitation: "keeps W (store_ok i) (dropInvitation p)"
  unfolding dropInvitation_def
  by (rule keeps_exec) (auto simp: Let_def intro!: store_invites invites_filter)

lemma keeps_list_invites: "keeps W (store_ok i) (ListInvitations j)"
  unfolding ListInvitations_def
  by (intro keeps_bindE keeps_exec keeps_rules) (auto simp: Let_def intro!: store_invites invites_filter)

text \<open>A new hash in the rows a key selects.\<close>

lemma invites_update:
  assumes ok: "invites_ok n t" and f: "\<And>i. p i \<Longrightarrow> iv_id (f i) = iv_id i \<and> iv_org (f i) = iv_org i \<and> iv_email (f i) = iv_email i"
    and h: "\<And>i. iv_hash (f i) = hash"
    and k: "distinct (map k (tb_invites t))" and p: "\<And>i. p i \<Longrightarrow> k i = x"
    and free: "\<not> list_ex (\<lambda>i. iv_hash i = hash \<and> \<not> p i) (tb_invites t)"
    and row: "\<And>i. i \<in> set (tb_invites t) \<Longrightarrow> p i \<Longrightarrow> validRole (iv_role (f i)) \<and> set_option (iv_invited_by (f i)) \<subseteq> ur_id ` set (tb_users t)"
  shows "invites_ok n (t\<lparr>tb_invites := updateWhere p f (tb_invites t)\<rparr>)"
proof -
  let ?is = "updateWhere p f (tb_invites t)"
  have eq: "map iv_id ?is = map iv_id (tb_invites t)"
    "map (\<lambda>i. (iv_org i, iv_email i)) ?is = map (\<lambda>i. (iv_org i, iv_email i)) (tb_invites t)"
    using f by (simp_all add: map_updateWhere)
  have "distinct (map iv_hash ?is)"
    using ok free h p by (intro distinct_set_column [OF k, of _ _ hash _ x]) (auto simp: invites_ok_def list_ex_iff)
  moreover have "\<forall>i\<in>set ?is. iv_id i < n \<and> iv_org i \<in> og_id ` set (tb_orgs t) \<and> validRole (iv_role i) \<and>
      set_option (iv_invited_by i) \<subseteq> ur_id ` set (tb_users t)"
  proof
    fix j assume "j \<in> set ?is"
    then obtain y where y: "y \<in> set (tb_invites t)" "j = (if p y then f y else y)" by (auto simp: set_updateWhere)
    with ok have "iv_id y < n \<and> iv_org y \<in> og_id ` set (tb_orgs t) \<and> validRole (iv_role y) \<and>
        set_option (iv_invited_by y) \<subseteq> ur_id ` set (tb_users t)" unfolding invites_ok_def list_all_iff by blast
    with y row [OF y(1)] show "iv_id j < n \<and> iv_org j \<in> og_id ` set (tb_orgs t) \<and> validRole (iv_role j) \<and>
        set_option (iv_invited_by j) \<subseteq> ur_id ` set (tb_users t)" using f [of y] by (cases "p y") simp_all
  qed
  ultimately show ?thesis using ok eq unfolding invites_ok_def list_all_iff by simp
qed

lemma invites_numbered: "invites_ok n t \<Longrightarrow> n \<le> n' \<Longrightarrow> invites_ok n' t"
  unfolding invites_ok_def list_all_iff by fastforce

lemma keeps_reissue: "keeps W (store_ok i) (ReissueInvitation C j iid ttl)"
  unfolding ReissueInvitation_def selectInvitation_def
proof (intro keeps_bindE keeps_case_prod keeps_rules keeps_exec)
  fix raw hash and s :: pdb and x t
  let ?p = "\<lambda>i. iv_org i = j \<and> iv_id i = iid" and ?f = "\<lambda>i. i\<lparr>iv_hash := hash, iv_created := db_now s, iv_expires := db_now s + ttl\<rparr>"
  assume ok: "store_ok i (db_seq s) (db_t s)" and r: "(let t = db_t s; p = ?p in
     if list_ex (\<lambda>i. iv_hash i = hash \<and> \<not> p i) (tb_invites t) \<and> list_ex p (tb_invites t)
     then Inl (DbErr (DbUnique ''invitations_token_hash_key''))
     else Inr (countWhere p (tb_invites t), t\<lparr>tb_invites := updateWhere p ?f (tb_invites t)\<rparr>)) = Inr (x, t)"
  from ok have inv: "invites_ok (db_seq s) (db_t s)" by (auto simp: store_ok_def schema_ok_def)
  from r have t: "t = (db_t s)\<lparr>tb_invites := updateWhere ?p ?f (tb_invites (db_t s))\<rparr>"
    and free: "\<not> (list_ex (\<lambda>i. iv_hash i = hash \<and> \<not> ?p i) (tb_invites (db_t s)) \<and> list_ex ?p (tb_invites (db_t s)))"
    by (auto simp: Let_def split: if_splits)
  have "invites_ok (db_seq s) t"
  proof (cases "list_ex ?p (tb_invites (db_t s))")
    case True
    with free inv show ?thesis unfolding t
      by (intro invites_update [where hash = hash and k = iv_id and x = iid]) (auto simp: invites_ok_def list_all_iff)
  next
    case False
    then have "updateWhere ?p ?f (tb_invites (db_t s)) = tb_invites (db_t s)"
      unfolding updateWhere_def list_ex_iff by (intro map_idI) auto
    with inv show ?thesis unfolding t by simp
  qed
  with ok show "store_ok i (db_seq s) t" unfolding t by (intro store_invites) auto
qed

lemma keeps_upsertInvitation: "keeps W (store_ok i) (upsertInvitation j email r hash locale by ttl)"
  unfolding upsertInvitation_def
proof (rule keeps_insertRow [OF numbered_store])
  fix s :: pdb and x t
  let ?t = "db_t s" and ?same = "\<lambda>i. iv_org i = j \<and> iv_email i = email"
  let ?new = "\<lparr>iv_id = db_seq s, iv_org = j, iv_email = email, iv_role = r, iv_hash = hash, iv_locale = locale,
    iv_invited_by = Some by, iv_created = db_now s, iv_expires = db_now s + ttl\<rparr>"
  assume ok: "store_ok i (db_seq s) ?t" and res: "(let t = ?t; same = ?same; new = ?new in
     if \<not> validRole r \<or> \<not> list_ex (\<lambda>g. og_id g = j) (tb_orgs t) \<or> \<not> list_ex (\<lambda>u. ur_id u = by) (tb_users t) then Inl (DbErr DbDriver)
     else if list_ex (\<lambda>i. iv_hash i = hash \<and> \<not> same i) (tb_invites t) then Inl (DbErr (DbUnique ''invitations_token_hash_key''))
     else case find same (tb_invites t) of
       None \<Rightarrow> Inr (db_seq s, t\<lparr>tb_invites := tb_invites t @ [new]\<rparr>)
     | Some i \<Rightarrow> Inr (iv_id i, t\<lparr>tb_invites := updateWhere same (\<lambda>i. new\<lparr>iv_id := iv_id i\<rparr>) (tb_invites t)\<rparr>)) = Inr (x, t)"
  from ok have inv: "invites_ok (db_seq s) ?t" by (auto simp: store_ok_def schema_ok_def)
  from res have ref: "validRole r" "j \<in> og_id ` set (tb_orgs ?t)" "by \<in> ur_id ` set (tb_users ?t)"
    and free: "\<not> list_ex (\<lambda>i. iv_hash i = hash \<and> \<not> ?same i) (tb_invites ?t)"
    by (auto simp: Let_def list_ex_iff split: if_splits)
  have "invites_ok (db_seq s + 1) t \<and> (\<exists>is. t = ?t\<lparr>tb_invites := is\<rparr>)"
  proof (cases "find ?same (tb_invites ?t)")
    case None
    with res ref free have t: "t = ?t\<lparr>tb_invites := tb_invites ?t @ [?new]\<rparr>" by (auto simp: Let_def list_ex_iff split: if_splits)
    from None have n: "\<forall>i\<in>set (tb_invites ?t). \<not> ?same i" by (simp add: find_None_iff)
    with free have "\<forall>i\<in>set (tb_invites ?t). iv_hash i \<noteq> hash" by (auto simp: list_ex_iff)
    with inv ref n show ?thesis unfolding t invites_ok_def list_all_iff by force
  next
    case (Some i0)
    with res ref free have t: "t = ?t\<lparr>tb_invites := updateWhere ?same (\<lambda>i. ?new\<lparr>iv_id := iv_id i\<rparr>) (tb_invites ?t)\<rparr>"
      by (auto simp: Let_def list_ex_iff split: if_splits)
    have "invites_ok (db_seq s + 1) ?t" using inv by (rule invites_numbered) simp
    then have "invites_ok (db_seq s + 1) t" unfolding t using ref free inv
      by (intro invites_update [where hash = hash and k = "\<lambda>i. (iv_org i, iv_email i)" and x = "(j, email)"])
        (auto simp: invites_ok_def)
    with t show ?thesis by blast
  qed
  with ok show "store_ok i (db_seq s + 1) t" by (auto intro: store_invites)
qed

section \<open>Discord, settings and the audit log\<close>

lemma store_orgtabs:
  "store_ok i n t \<Longrightarrow> orgtabs_ok (t\<lparr>tb_guilds := ds\<rparr>) \<Longrightarrow> store_ok i n (t\<lparr>tb_guilds := ds\<rparr>)"
  "store_ok i n t \<Longrightarrow> orgtabs_ok (t\<lparr>tb_notify := ns\<rparr>) \<Longrightarrow> store_ok i n (t\<lparr>tb_notify := ns\<rparr>)"
  "store_ok i n t \<Longrightarrow> orgtabs_ok (t\<lparr>tb_muted := es\<rparr>) \<Longrightarrow> store_ok i n (t\<lparr>tb_muted := es\<rparr>)"
  by (simp_all add: store_ok_def schema_ok_def)

lemma store_settings:
  "store_ok i n t \<Longrightarrow> logs_ok n (t\<lparr>tb_settings := ps\<rparr>) \<Longrightarrow> store_ok i n (t\<lparr>tb_settings := ps\<rparr>)"
  "store_ok i n t \<Longrightarrow> logs_ok n (t\<lparr>tb_audit := as\<rparr>) \<Longrightarrow> store_ok i n (t\<lparr>tb_audit := as\<rparr>)"
  by (simp_all add: store_ok_def schema_ok_def)

lemma store_orgtabs_ok: "store_ok i n t \<Longrightarrow> orgtabs_ok t"
  by (simp add: store_ok_def schema_ok_def)

lemma store_logs_ok: "store_ok i n t \<Longrightarrow> logs_ok n t"
  by (simp add: store_ok_def schema_ok_def)

lemma orgtabs_guilds:
  "orgtabs_ok t \<Longrightarrow> orgtabs_ok (t\<lparr>tb_guilds := filter p (tb_guilds t)\<rparr>)"
  "orgtabs_ok t \<Longrightarrow> \<not> list_ex (\<lambda>g. gd_org g = j \<or> gd_guild g = d) (tb_guilds t) \<Longrightarrow> list_ex (\<lambda>g. og_id g = j) (tb_orgs t) \<Longrightarrow>
   orgtabs_ok (t\<lparr>tb_guilds := tb_guilds t @ [\<lparr>gd_org = j, gd_guild = d, gd_name = nm, gd_linked_by = u\<rparr>]\<rparr>)"
  unfolding orgtabs_ok_def list_all_iff list_ex_iff by (simp_all add: distinct_map_filter) force

lemma orgtabs_muted:
  "orgtabs_ok t \<Longrightarrow> orgtabs_ok (t\<lparr>tb_muted := filter p (tb_muted t)\<rparr>)"
  "orgtabs_ok t \<Longrightarrow> (j, e) \<notin> set (tb_muted t) \<Longrightarrow> list_ex (\<lambda>g. og_id g = j) (tb_orgs t) \<Longrightarrow>
   orgtabs_ok (t\<lparr>tb_muted := tb_muted t @ [(j, e)]\<rparr>)"
  unfolding orgtabs_ok_def list_all_iff list_ex_iff by (simp_all) force

lemma keeps_setGuild: "keeps W (store_ok i) (SetOrgGuild j g name u)"
  unfolding SetOrgGuild_def
  by (intro keeps_tx numbered_store keeps_bindE keeps_rules keeps_if keeps_mapErr keeps_exec)
    (auto simp: Let_def split: if_splits intro!: store_orgtabs orgtabs_guilds dest: store_orgtabs_ok)

lemma keeps_clearGuild: "keeps W (store_ok i) (ClearOrgGuild j)"
  unfolding ClearOrgGuild_def
  by (intro keeps_exec) (auto simp: Let_def intro!: store_orgtabs orgtabs_guilds dest: store_orgtabs_ok)

lemma keeps_muted: "keeps W (store_ok i) (SetMutedEvents j es)"
  unfolding SetMutedEvents_def insertMuted_def
  by (intro keeps_tx numbered_store keeps_bindE keeps_rules keeps_forE keeps_exec)
    (auto simp: Let_def split: if_splits intro!: store_orgtabs orgtabs_muted dest: store_orgtabs_ok)

lemma keeps_updateOrInsert:
  assumes u: "\<And>n t. store_ok i n t \<Longrightarrow> store_ok i n (put (updateWhere (\<lambda>r. fst r = k) (\<lambda>r. (k, v)) (get t)) t)"
    and a: "\<And>n t. store_ok i n t \<Longrightarrow> k \<notin> fst ` set (get t) \<Longrightarrow> refs t \<Longrightarrow> store_ok i n (put (get t @ [(k, v)]) t)"
  shows "keeps W (store_ok i) (updateOrInsert get put refs k v)"
  unfolding updateOrInsert_def
  by (intro keeps_tx numbered_store keeps_bindE keeps_rules keeps_if keeps_exec) (auto simp: Let_def u a split: if_splits)

lemma fst_updateWhere: "map fst (updateWhere (\<lambda>r. fst r = k) (\<lambda>r. (k, v)) xs) = map fst xs"
  by (rule map_updateWhere) simp

lemma keeps_setSetting: "keeps W (store_ok i) (SetSetting k v)"
  unfolding SetSetting_def
proof (rule keeps_updateOrInsert)
  fix n t assume ok: "store_ok i n t"
  then have l: "logs_ok n t" by (rule store_logs_ok)
  show "store_ok i n (t\<lparr>tb_settings := updateWhere (\<lambda>r. fst r = k) (\<lambda>r. (k, v)) (tb_settings t)\<rparr>)"
    using ok l by (intro store_settings) (simp_all add: logs_ok_def fst_updateWhere)
  assume "k \<notin> fst ` set (tb_settings t)"
  then show "store_ok i n (t\<lparr>tb_settings := tb_settings t @ [(k, v)]\<rparr>)"
    using ok l by (intro store_settings) (simp_all add: logs_ok_def)
qed

lemma keeps_deleteSetting: "keeps W (store_ok i) (DeleteSetting k)"
  unfolding DeleteSetting_def
proof (rule keeps_exec)
  fix s :: pdb and x t
  assume ok: "store_ok i (db_seq s) (db_t s)"
    and "(let t = db_t s in Inr ((), t\<lparr>tb_settings := filter (\<lambda>r. fst r \<noteq> k) (tb_settings t)\<rparr>)) = Inr (x, t)"
  then show "store_ok i (db_seq s) t" using store_logs_ok [OF ok]
    by (auto simp: Let_def logs_ok_def distinct_map_filter intro!: store_settings)
qed

lemma orgtabs_notify:
  assumes "orgtabs_ok t" and "map fst ns = map fst (tb_notify t)"
  shows "orgtabs_ok (t\<lparr>tb_notify := ns\<rparr>)"
proof -
  have "list_all (\<lambda>x. fst x \<in> og_id ` set (tb_orgs t)) us = (fst ` set us \<subseteq> og_id ` set (tb_orgs t))"
    for us :: "(int \<times> string option) list" unfolding list_all_iff by blast
  moreover have "fst ` set ns = fst ` set (tb_notify t)" using assms(2) by (metis set_map)
  ultimately show ?thesis using assms unfolding orgtabs_ok_def by simp
qed

lemma keeps_webhook: "keeps W (store_ok i) (SetDiscordWebhook j url)"
  unfolding SetDiscordWebhook_def
proof (rule keeps_updateOrInsert)
  let ?v = "if url \<noteq> [] then Some url else None"
  fix n t assume ok: "store_ok i n t"
  then have l: "orgtabs_ok t" by (rule store_orgtabs_ok)
  show "store_ok i n (t\<lparr>tb_notify := updateWhere (\<lambda>r. fst r = j) (\<lambda>r. (j, ?v)) (tb_notify t)\<rparr>)"
    by (intro store_orgtabs ok orgtabs_notify l fst_updateWhere)
  assume "j \<notin> fst ` set (tb_notify t)" and "list_ex (\<lambda>g. og_id g = j) (tb_orgs t)"
  then show "store_ok i n (t\<lparr>tb_notify := tb_notify t @ [(j, ?v)]\<rparr>)"
    using ok l by (intro store_orgtabs) (auto simp: orgtabs_ok_def list_ex_iff)
qed

lemma keeps_discordLink: "keeps W (store_ok i) (SetDiscordLink u d name)"
  unfolding SetDiscordLink_def
proof (intro keeps_mapErr keeps_bindE keeps_rules keeps_exec)
  fix s :: pdb and x t
  let ?p = "\<lambda>v. ur_id v = u" and ?t = "db_t s"
  let ?f = "\<lambda>v. v\<lparr>ur_discord_id := Some d, ur_discord_name := name, ur_updated := db_now s\<rparr>"
  let ?us = "updateWhere ?p ?f (tb_users ?t)"
  assume ok: "store_ok i (db_seq s) ?t" and r: "(let t = ?t; p = ?p in
     if list_ex p (tb_users t) \<and> list_ex (\<lambda>v. \<not> p v \<and> ur_discord_id v = Some d) (tb_users t)
     then Inl (DbErr (DbUnique ''users_discord_user_id_key''))
     else Inr (countWhere p (tb_users t), t\<lparr>tb_users := updateWhere p ?f (tb_users t)\<rparr>)) = Inr (x, t)"
  let ?c = "list_ex ?p (tb_users ?t) \<and> list_ex (\<lambda>v. \<not> ?p v \<and> ur_discord_id v = Some d) (tb_users ?t)"
  from r have r': "(if ?c then Inl (DbErr (DbUnique ''users_discord_user_id_key''))
     else Inr (countWhere ?p (tb_users ?t), ?t\<lparr>tb_users := ?us\<rparr>)) = Inr (x, t)" by (simp only: Let_def)
  then have free: "\<not> ?c" by (metis sum.distinct(1))
  with r' have t: "t = ?t\<lparr>tb_users := ?us\<rparr>" by (simp only: if_False sum.inject prod.inject)
  from ok have us: "users_ok (db_seq s) (tb_users ?t)" by (auto simp: store_ok_def schema_ok_def)
  have "discord_ok ?us"
  proof (rule discord_okI)
    fix a b e assume a: "a \<in> set ?us" and b: "b \<in> set ?us" and e: "ur_discord_id a = Some e" "ur_discord_id b = Some e"
    from a obtain a' where a': "a' \<in> set (tb_users ?t)" "a = (if ?p a' then ?f a' else a')" unfolding set_updateWhere by blast
    from b obtain b' where b': "b' \<in> set (tb_users ?t)" "b = (if ?p b' then ?f b' else b')" unfolding set_updateWhere by blast
    show "ur_id a = ur_id b"
      using a' b' e free us discord_okD [of "tb_users ?t" a' b' e]
      by (cases "?p a'"; cases "?p b'") (auto simp: users_ok_def list_ex_iff)
  qed
  then have "users_ok (db_seq s) ?us"
    using us unfolding users_ok_def by (auto simp: map_updateWhere list_all_iff set_updateWhere)
  moreover have "ur_id ` set ?us = ur_id ` set (tb_users ?t)" by (simp add: image_updateWhere)
  ultimately have "schema_ok (db_seq s) t" using ok unfolding t by (intro schema_users) (auto simp: store_ok_def)
  with ok show "store_ok i (db_seq s) t" by (auto simp: store_ok_def t)
qed

lemma keeps_audit: "keeps W (store_ok i) (RecordAudit e)"
  unfolding RecordAudit_def
proof (rule keeps_insertRow [OF numbered_store])
  fix s :: pdb and x t
  let ?r = "\<lparr>ar_id = db_seq s, ar_event = e, ar_created = db_now s\<rparr>"
  assume ok: "store_ok i (db_seq s) (db_t s)"
    and "(let t = db_t s in Inr ((), t\<lparr>tb_audit := tb_audit t @ [?r]\<rparr>)) = Inr (x, t)"
  then have t: "t = (db_t s)\<lparr>tb_audit := tb_audit (db_t s) @ [?r]\<rparr>" by (simp add: Let_def)
  have "store_ok i (db_seq s + 1) (db_t s)" using numbered_store ok unfolding numbered_def by fastforce
  then show "store_ok i (db_seq s + 1) t"
    unfolding t using store_logs_ok [OF ok] by (intro store_settings) (auto simp: logs_ok_def list_all_iff)
qed

lemma keeps_prune: "keeps W (store_ok i) (pruneAudit p)"
  unfolding pruneAudit_def
proof (rule keeps_exec)
  fix s :: pdb and x t
  assume ok: "store_ok i (db_seq s) (db_t s)" and "(let t = db_t s in
    Inr (countWhere p (tb_audit t), t\<lparr>tb_audit := filter (\<lambda>r. \<not> p r) (tb_audit t)\<rparr>)) = Inr (x, t)"
  then show "store_ok i (db_seq s) t" using store_logs_ok [OF ok]
    by (auto simp: Let_def logs_ok_def distinct_map_filter list_all_iff intro!: store_settings)
qed

section \<open>Every operation\<close>

lemmas keeps_leaves = keeps_insertUser keeps_upsertRow keeps_updateEmail keeps_deleteUser keeps_create_session keeps_revokeWhere
  keeps_consume keeps_issue keeps_replaceCodes keeps_useCode keeps_step keeps_deleteOrg keeps_require2FA keeps_insertMember
  keeps_removeMember keeps_setRole keeps_grants keeps_dropGrants keeps_dropInvitation keeps_list_invites keeps_reissue
  keeps_upsertInvitation keeps_setGuild keeps_clearGuild keeps_muted keeps_setSetting keeps_deleteSetting keeps_webhook
  keeps_discordLink keeps_audit keeps_prune

lemmas keeps_parts = keeps_rules keeps_case_prod keeps_mapErr keeps_if keeps_tx [OF numbered_store] keeps_bindE

lemma keeps_createUser: "keeps W (store_ok i) (createUser C name email password a)"
  unfolding createUser_def by (intro keeps_parts keeps_leaves)

lemma keeps_findUser: "keeps W I (findUser p)"
  unfolding findUser_def by (rule keeps_rules)

lemma keeps_getUser: "keeps W I (GetUser j)"
  unfolding GetUser_def by (intro keeps_bindE keeps_findUser keeps_rules)

lemma keeps_setPassword: "keeps W (store_ok i) (setPassword C u password)"
  unfolding setPassword_def by (intro keeps_parts keeps_updateUser) simp

lemma keeps_revokeUser: "keeps W (store_ok i) (revokeUserSessions C u e)"
  unfolding revokeUserSessions_def Let_def by (rule keeps_revokeWhere)

lemma keeps_reset: "keeps W (store_ok i) (ResetPassword C token password)"
  unfolding ResetPassword_def
  by (intro keeps_parts keeps_leaves keeps_setPassword keeps_revokeUser keeps_getUser)

lemma keeps_totp: "keeps W (store_ok i) (EnableTOTP u x st cs)" "keeps W (store_ok i) (DisableTOTP u)"
  unfolding EnableTOTP_def DisableTOTP_def by (intro keeps_parts keeps_leaves keeps_updateUser; simp)+

lemma keeps_setAdmin: "keeps W (store_ok i) (SetAdmin u a)"
  unfolding SetAdmin_def by (intro keeps_parts keeps_updateUser) simp

lemma keeps_createOrg: "keeps W (store_ok i) (CreateOrg slug name u)"
  unfolding CreateOrg_def by (intro keeps_parts keeps_insertOrg keeps_insertMember) simp

lemma keeps_take: "keeps W (store_ok i) (takeInvitation C token)"
  unfolding takeInvitation_def GetInvitationByToken_def selectInvitation_def by (intro keeps_parts keeps_leaves)

lemma keeps_accept: "keeps W (store_ok i) (AcceptInvitationNewUser C token name password d)"
    "keeps W (store_ok i) (AcceptInvitationExistingUser C token u)"
  unfolding AcceptInvitationNewUser_def AcceptInvitationExistingUser_def
  by (intro keeps_parts keeps_take keeps_createUser keeps_insertMember keeps_updateUser keeps_findUser; simp)+

lemma keeps_invite: "keeps W (store_ok i) (CreateInvitation C j e r l by ttl)"
  unfolding CreateInvitation_def selectInvitation_def by (intro keeps_parts keeps_leaves)

lemma keeps_run_op: "keeps (\<lambda>_. True) (store_ok i) (run_op C op)"
proof (cases op)
qed (simp_all add: void_def CreateUser_def UpsertUser_def UpdateProfile_def SetPassword_def SetEmail_def RevokeSession_def
      RevokeUserSessions_def ConfirmEmailChange_def ReplaceRecoveryCodes_def AddMember_def DeleteInvitation_def
      ClearDiscordLink_def SetNotifyEmail_def PruneOrgAudit_def PruneAuditExcept_def,
    (intro keeps_parts keeps_leaves keeps_createUser keeps_setPassword keeps_reset keeps_totp keeps_setAdmin keeps_createOrg keeps_revokeUser
      keeps_accept keeps_invite keeps_updateUser; simp?)+)

section \<open>Runs\<close>

text \<open>A new database, and a run of operations, whichever of them fail, each at its own time.\<close>

definition no_tables :: tables where
  "no_tables = \<lparr>tb_users = [], tb_sessions = [], tb_tokens = [], tb_codes = [], tb_orgs = [], tb_members = [], tb_grants = [],
     tb_invites = [], tb_guilds = [], tb_notify = [], tb_muted = [], tb_settings = [], tb_audit = []\<rparr>"

definition new_db :: "bool list \<Rightarrow> string list \<Rightarrow> pdb" where
  "new_db faults random = \<lparr>db_t = no_tables, db_now = 0, db_faults = faults, db_random = random, db_seq = 1\<rparr>"

fun run_ops :: "crypto \<Rightarrow> (time \<times> store_op) list \<Rightarrow> pdb \<Rightarrow> pdb" where
  "run_ops C [] s = s"
| "run_ops C ((now, op) # ops) s = run_ops C ops (snd (run_op C op (s\<lparr>db_now := now\<rparr>)))"

lemma run_ops_append: "run_ops C (ops @ ops') s = run_ops C ops' (run_ops C ops s)"
  by (induction C ops s rule: run_ops.induct) simp_all

lemma run_ops_store: "store_ok i (db_seq s) (db_t s) \<Longrightarrow> store_ok i (db_seq (run_ops C ops s)) (db_t (run_ops C ops s))"
proof (induction C ops s rule: run_ops.induct)
  case (2 C now op ops s)
  have "store_ok i (db_seq (s\<lparr>db_now := now\<rparr>)) (db_t (s\<lparr>db_now := now\<rparr>))" using 2 by simp
  then have "store_ok i (db_seq (snd (run_op C op (s\<lparr>db_now := now\<rparr>)))) (db_t (snd (run_op C op (s\<lparr>db_now := now\<rparr>))))"
    using keeps_run_op unfolding keeps_def by blast
  from 2(1) [OF this] show ?case by simp
qed simp

lemma run_ops_schema: "schema_ok (db_seq (run_ops C ops (new_db fs rs))) (db_t (run_ops C ops (new_db fs rs)))"
proof -
  have "store_ok 0 (db_seq (new_db fs rs)) (db_t (new_db fs rs))"
    by (simp add: store_ok_def schema_ok_def new_db_def no_tables_def users_ok_def orgs_ok_def members_ok_def grants_ok_def
        invites_ok_def keys_ok_def orgtabs_ok_def logs_ok_def discord_ok_def has_owner_def)
  from run_ops_store [OF this] show ?thesis by (auto simp: store_ok_def)
qed


text \<open>
  C8: (invariant) an organization that has an owner has one as long as it exists: no run of the store's
  operations, deleting accounts, changing roles and leaving included, takes its last owner away.
\<close>

theorem run_ops_owned:
  assumes "ownersOf i (db_t (run_ops C before (new_db fs rs))) \<noteq> []"
    and "i \<in> og_id ` set (tb_orgs (db_t (run_ops C (before @ after) (new_db fs rs))))"
  shows "ownersOf i (db_t (run_ops C (before @ after) (new_db fs rs))) \<noteq> []"
proof -
  let ?s = "run_ops C before (new_db fs rs)"
  have sch: "schema_ok (db_seq ?s) (db_t ?s)" by (rule run_ops_schema)
  from assms(1) obtain m where "m \<in> set (tb_members (db_t ?s))" "mb_org m = i" by (auto simp: ownersOf_def filter_empty_conv)
  with sch have "i \<in> og_id ` set (tb_orgs (db_t ?s))" unfolding schema_ok_def members_ok_def list_all_iff by blast
  with sch have "i < db_seq ?s" unfolding schema_ok_def orgs_ok_def list_all_iff by blast
  with sch assms(1) have "store_ok i (db_seq ?s) (db_t ?s)" by (auto simp: store_ok_def has_owner_def)
  from run_ops_store [OF this] assms(2) show ?thesis by (auto simp: store_ok_def has_owner_def run_ops_append)
qed

end
