(* ===== verification/Panel_Accounts.thy ===== *)
theory Panel_Accounts
  imports Panel_Invariants
begin

text \<open>
  What the store promises of accounts: an operation that fails changes nothing, a new password ends every
  session, a link works once, a one-time step and a recovery code are never accepted twice, and deleting an
  account or its admin flag.
\<close>

section \<open>Operations that fail\<close>

text \<open>The operations that are one statement, or run in a transaction.\<close>

definition atomic_op :: "store_op \<Rightarrow> bool" where
  "atomic_op op = (case op of OpCreateInvitation _ _ _ _ _ _ \<Rightarrow> False | OpReissueInvitation _ _ _ \<Rightarrow> False
     | OpListInvitations _ \<Rightarrow> False | _ \<Rightarrow> True)"

lemma updateWhere_none: "countWhere p xs = 0 \<Longrightarrow> updateWhere p f xs = xs"
  unfolding countWhere_def updateWhere_def by (intro map_idI) (auto simp: filter_empty_conv)

lemma filter_none: "countWhere p xs = 0 \<Longrightarrow> filter (\<lambda>x. \<not> p x) xs = xs"
  unfolding countWhere_def by (auto simp: filter_empty_conv intro!: filter_True)

text \<open>A statement whose row count is checked: no row, no change.\<close>

lemma clean_affected:
  assumes "\<And>s t. f s = Inr (0, t) \<Longrightarrow> t = db_t s"
  shows "clean (bindE (exec f) (\<lambda>n. liftE (affectedOne n)))"
  unfolding clean_def
proof (intro allI impI)
  fix s e s' assume r: "bindE (exec f) (\<lambda>n. liftE (affectedOne n)) s = (Inl e, s')"
  let ?s = "s\<lparr>db_faults := tl (db_faults s)\<rparr>"
  have "exec f s = (Inl (DbErr DbDriver), ?s) \<or> exec f s = (case f ?s of Inl e \<Rightarrow> (Inl e, ?s) | Inr (x, t) \<Rightarrow> (Inr x, ?s\<lparr>db_t := t\<rparr>))"
    unfolding exec_def by (rule stmt_run)
  with r consider "db_t s' = db_t s" | t where "f ?s = Inr (0, t)" "s' = ?s\<lparr>db_t := t\<rparr>"
    by (auto simp: bindE_def liftE_def affectedOne_def split: sum.splits prod.splits if_splits)
  then show "db_t s' = db_t s"
  proof cases
    case (2 t) with assms [OF 2(1)] show ?thesis by simp
  qed
qed

lemma clean_updateUser: "clean (bindE (updateUser u f) (\<lambda>n. liftE (affectedOne n)))"
  unfolding updateUser_def by (rule clean_affected) (auto simp: Let_def updateWhere_none)

lemma clean_void: "clean m \<Longrightarrow> clean (void m)"
  unfolding void_def by (rule clean_bindE_ret)

lemma deleteOrgRows_none: "length gone = 0 \<and> deleteOrgRows (\<lambda>i. i \<in> set (map og_id gone)) t = t' \<Longrightarrow> t' = t"
  by (auto simp: deleteOrgRows_def)

lemma clean_deleteOrg: "clean (DeleteOrg slug)"
  unfolding DeleteOrg_def by (rule clean_affected) (unfold Let_def sum.inject prod.inject, rule deleteOrgRows_none)

lemma clean_deleteInvitation: "clean (DeleteInvitation j iid)"
  unfolding DeleteInvitation_def dropInvitation_def
  by (rule clean_affected) (auto simp: Let_def filter_none simp del: de_Morgan_conj)

lemma clean_setPassword: "clean (setPassword C u p)"
  unfolding setPassword_def by (intro clean_bindE reads_rules clean_updateUser)

lemma clean_createUser: "clean (createUser C n e p a)"
  unfolding createUser_def insertUser_def by (intro clean_bindE reads_rules clean_mapErr clean_exec)

lemma clean_upsertUser: "clean (UpsertUser C n e p a)"
  unfolding UpsertUser_def upsertRow_def by (intro clean_bindE reads_rules clean_mapErr clean_exec)

lemma clean_createSession: "clean (CreateSession C u ttl)"
  unfolding CreateSession_def split_beta by (intro clean_bindE reads_rules clean_bindE_ret clean_exec)

lemma clean_issue: "clean (IssueUserToken C u p e ttl)"
  unfolding IssueUserToken_def split_beta by (intro clean_bindE reads_rules clean_tx)

lemma clean_createOrg: "clean (CreateOrg slug name u)"
  unfolding CreateOrg_def by (intro clean_if reads_clean [OF reads_rules(2)] clean_tx)

lemma clean_discordLink: "clean (SetDiscordLink u d name)"
  unfolding SetDiscordLink_def
  by (intro clean_mapErr clean_affected) (auto simp: Let_def updateWhere_none split: if_splits)

lemma clean_atomic: "atomic_op op \<Longrightarrow> clean (run_op C op)"
  by (cases op)
    (simp_all add: atomic_op_def UpdateProfile_def CreateUser_def SetPassword_def SetEmail_def SetAdmin_def DeleteUser_def RevokeSession_def
      RevokeUserSessions_def revokeUserSessions_def revokeWhere_def Let_def ResetPassword_def ConfirmEmailChange_def EnableTOTP_def
      DisableTOTP_def AcceptTOTPStep_def ReplaceRecoveryCodes_def UseRecoveryCode_def SetOrgRequire2FA_def AddMember_def insertMember_def
      SetMemberRole_def RemoveMember_def changeMembership_def SetMemberGrants_def DeleteGameServerGrants_def
      AcceptInvitationNewUser_def AcceptInvitationExistingUser_def updateEmail_def
      ClearDiscordLink_def SetOrgGuild_def ClearOrgGuild_def SetSetting_def SetDiscordWebhook_def updateOrInsert_def DeleteSetting_def
      SetMutedEvents_def SetNotifyEmail_def RecordAudit_def PruneOrgAudit_def PruneAuditExcept_def pruneAudit_def clean_discordLink
      clean_void clean_mapErr clean_exec clean_tx clean_updateUser clean_setPassword clean_createUser clean_upsertUser clean_createSession
      clean_issue clean_createOrg clean_deleteOrg clean_deleteInvitation)

text \<open>
  C27: (error) an operation of the store that is one statement or one transaction, and fails, leaves every table as
  it was. The other three are two statements each: a second one that fails leaves the first one done, so an
  invitation whose answer could not be read exists although no mail went out.
\<close>

theorem run_op_fails_clean:
  assumes "atomic_op op" and "run_op C op s = (Inl e, s')"
  shows "db_t s' = db_t s"
  using clean_atomic [OF assms(1)] assms(2) unfolding clean_def by blast

section \<open>What a successful statement did\<close>

text \<open>The state in which the next statement runs: its failure is used up, the tables and the clock are the same.\<close>

definition tick :: "pdb \<Rightarrow> pdb" where
  "tick s = s\<lparr>db_faults := tl (db_faults s)\<rparr>"

lemma tick_simps [simp]: "db_t (tick s) = db_t s" "db_now (tick s) = db_now s"
  by (simp_all add: tick_def)

lemma exec_Inr: "exec f s = (Inr x, s') \<Longrightarrow> f (tick s) = Inr (x, db_t s') \<and> db_now s' = db_now s"
  using stmt_run [of "\<lambda>s. case f s of Inl e \<Rightarrow> (Inl e, s) | Inr (x, t) \<Rightarrow> (Inr x, s\<lparr>db_t := t\<rparr>)" s]
  by (auto simp: exec_def tick_def split: sum.splits prod.splits)

lemma query_Inr: "query f s = (Inr x, s') \<Longrightarrow> f (tick s) = Inr x \<and> s' = tick s"
  using stmt_run [of "\<lambda>s. (f s, s)" s] by (auto simp: query_def tick_def)

lemma query_fst: "fst (query f s) = Inr x \<Longrightarrow> f (tick s) = Inr x"
  using query_Inr [of f s x "snd (query f s)"] by (metis prod.collapse)

lemma exec_fst: "fst (exec f s) = Inr x \<Longrightarrow> \<exists>t. f (tick s) = Inr (x, t)"
  using exec_Inr [of f s x "snd (exec f s)"] by (metis prod.collapse)

lemma liftE_Inr: "liftE r s = (Inr x, s') \<longleftrightarrow> r = Inr x \<and> s' = s"
  by (auto simp: liftE_def)

lemma tx_Inr:
  assumes "tx m s = (Inr x, s')"
  obtains s1 where "m (tick s) = (Inr x, s1)" and "db_t s' = db_t s1" and "db_now s' = db_now s1"
proof -
  have b: "stmt (ret ()) = query (\<lambda>_. Inr ())" by (simp add: query_def ret_def)
  from assms obtain s0 where "query (\<lambda>_. Inr ()) s = (Inr (), s0)"
    and t: "(case bindE m (\<lambda>x. thenE (stmt (ret ())) (ret x)) s0 of
      (Inl e, s') \<Rightarrow> (Inl e, s'\<lparr>db_t := db_t s0\<rparr>) | (Inr x, s') \<Rightarrow> (Inr x, s')) = (Inr x, s')"
    unfolding tx_def b by (auto simp: bindE_Inr)
  then have "s0 = tick s" by (auto dest: query_Inr)
  with t have "bindE m (\<lambda>x. thenE (query (\<lambda>_. Inr ())) (ret x)) (tick s) = (Inr x, s')"
    unfolding b by (auto split: prod.splits sum.splits)
  then obtain y s1 s2 where "m (tick s) = (Inr y, s1)" "query (\<lambda>_. Inr ()) s1 = (Inr (), s2)" "ret y s2 = (Inr x, s')"
    by (auto simp: bindE_Inr)
  then have "m (tick s) = (Inr x, s1)" "db_t s' = db_t s1" "db_now s' = db_now s1" by (auto simp: ret_def dest!: query_Inr)
  then show ?thesis by (rule that)
qed

section \<open>Password resets\<close>

lemma find_Some_mem: "find p xs = Some x \<Longrightarrow> x \<in> set xs \<and> p x"
  by (auto simp: find_Some_iff)

lemma consume_Inr:
  assumes "consumeUserToken C token p s = (Inr (u, e), s')"
  shows "tb_tokens (db_t s') = updateWhere (liveToken (db_now s) (cr_sha C token) p) (\<lambda>y. y\<lparr>tk_used := Some (db_now s)\<rparr>) (tb_tokens (db_t s))"
    and "tb_sessions (db_t s') = tb_sessions (db_t s)" and "db_now s' = db_now s"
  using exec_Inr [OF assms [unfolded consumeUserToken_def]] by (auto simp: Let_def eq_commute [of _ "db_t s'"] split: option.splits)

lemma setPassword_Inr:
  assumes "setPassword C u pw s = (Inr x, s')"
  shows "tb_tokens (db_t s') = tb_tokens (db_t s)" and "tb_sessions (db_t s') = tb_sessions (db_t s)" and "db_now s' = db_now s"
    and "\<exists>h. hashPassword C pw = Inr h \<and> (\<forall>r\<in>set (tb_users (db_t s')). ur_id r = u \<longrightarrow> ur_hash r = h)"
proof -
  from assms obtain h n s1 where h: "hashPassword C pw = Inr h"
    and e: "updateUser u (\<lambda>now u. u\<lparr>ur_hash := h, ur_updated := now\<rparr>) s = (Inr n, s1)" and s': "s' = s1"
    unfolding setPassword_def by (auto simp: bindE_Inr liftE_Inr)
  from exec_Inr [OF e [unfolded updateUser_def]] s'
  have t: "db_t s' = (db_t s)\<lparr>tb_users := updateWhere (\<lambda>r. ur_id r = u) (\<lambda>u. u\<lparr>ur_hash := h, ur_updated := db_now s\<rparr>) (tb_users (db_t s))\<rparr>"
    and now: "db_now s' = db_now s" by (auto simp: Let_def eq_commute [of _ "db_t s1"])
  from t show "tb_tokens (db_t s') = tb_tokens (db_t s)" "tb_sessions (db_t s') = tb_sessions (db_t s)" by simp_all
  show "db_now s' = db_now s" by (rule now)
  have "\<forall>r\<in>set (tb_users (db_t s')). ur_id r = u \<longrightarrow> ur_hash r = h" unfolding t by (simp add: ball_updateWhere)
  with h show "\<exists>h. hashPassword C pw = Inr h \<and> (\<forall>r\<in>set (tb_users (db_t s')). ur_id r = u \<longrightarrow> ur_hash r = h)" by blast
qed

lemma revoke_Inr:
  assumes "revokeWhere p s = (Inr x, s')"
  shows "tb_sessions (db_t s') = updateWhere (\<lambda>x. sn_revoked x = None \<and> p x) (\<lambda>x. x\<lparr>sn_revoked := Some (db_now s)\<rparr>) (tb_sessions (db_t s))"
    and "tb_tokens (db_t s') = tb_tokens (db_t s)" and "tb_users (db_t s') = tb_users (db_t s)" and "db_now s' = db_now s"
  using exec_Inr [OF assms [unfolded revokeWhere_def]] by (auto simp: Let_def eq_commute [of _ "db_t s'"])

lemma getUser_Inr:
  assumes "GetUser u s = (Inr v, s')" shows "us_id v = u" and "db_t s' = db_t s" and "db_now s' = db_now s"
proof -
  from assms obtain r s1 where q: "findUser (\<lambda>x. ur_id x = u) s = (Inr r, s1)" and v: "v = scanUser r" "s' = s1"
    unfolding GetUser_def by (auto simp: bindE_Inr ret_def)
  from query_Inr [OF q [unfolded findUser_def]] have f: "find (\<lambda>x. ur_id x = u) (usersOf (tick s)) = Some r" and s1: "s1 = tick s"
    by (auto split: option.splits)
  from find_Some_mem [OF f] v show "us_id v = u" by (simp add: scanUser_def)
  from s1 v show "db_t s' = db_t s" "db_now s' = db_now s" by simp_all
qed

text \<open>What a successful reset leaves: the link used, the sessions ended, the new hash in place.\<close>

lemma reset_Inr:
  assumes "ResetPassword C token pw s = (Inr u, s')" and h: "\<And>x. cr_sha C x \<noteq> []"
  shows "\<forall>x\<in>set (tb_sessions (db_t s')). sn_user x = us_id u \<longrightarrow> sn_hash x = [] \<or> sn_revoked x \<noteq> None"
    and "\<forall>x\<in>set (tb_tokens (db_t s')). \<not> (db_now s \<le> now \<and> liveToken now (cr_sha C token) PurposePasswordReset x)"
    and "\<exists>hash. hashPassword C pw = Inr hash \<and> (\<forall>r\<in>set (tb_users (db_t s')). ur_id r = us_id u \<longrightarrow> ur_hash r = hash)"
proof -
  obtain s1 where m: "bindE (consumeUserToken C token PurposePasswordReset) (\<lambda>(userID, _).
     thenE (setPassword C userID pw) (thenE (revokeUserSessions C userID []) (GetUser userID))) (tick s) = (Inr u, s1)"
    and t1: "db_t s' = db_t s1" by (rule tx_Inr [OF assms(1) [unfolded ResetPassword_def]])
  from m obtain uid e s2 s3 s4 where a: "consumeUserToken C token PurposePasswordReset (tick s) = (Inr (uid, e), s2)"
    and b: "setPassword C uid pw s2 = (Inr (), s3)" and c: "revokeUserSessions C uid [] s3 = (Inr (), s4)"
    and d: "GetUser uid s4 = (Inr u, s1)" by (auto simp: bindE_Inr)
  note A = consume_Inr [OF a] and B = setPassword_Inr [OF b] and D = getUser_Inr [OF d]
  note R = revoke_Inr [OF c [unfolded revokeUserSessions_def Let_def]]
  show "\<forall>x\<in>set (tb_sessions (db_t s')). sn_user x = us_id u \<longrightarrow> sn_hash x = [] \<or> sn_revoked x \<noteq> None"
    unfolding t1 D(1,2) R(1) ball_updateWhere by auto
  have "tb_tokens (db_t s') = updateWhere (liveToken (db_now s) (cr_sha C token) PurposePasswordReset)
      (\<lambda>y. y\<lparr>tk_used := Some (db_now s)\<rparr>) (tb_tokens (db_t s))"
    unfolding t1 D(2) R(2) B(1) A(1) by simp
  then show "\<forall>x\<in>set (tb_tokens (db_t s')). \<not> (db_now s \<le> now \<and> liveToken now (cr_sha C token) PurposePasswordReset x)"
    by (auto simp: ball_updateWhere liveToken_def)
  show "\<exists>hash. hashPassword C pw = Inr hash \<and> (\<forall>r\<in>set (tb_users (db_t s')). ur_id r = us_id u \<longrightarrow> ur_hash r = hash)"
    using B(4) unfolding t1 D(1,2) R(3) by auto
qed

lemma validate_Inr:
  assumes "fst (ValidateSession C tok s) = Inr v"
  obtains x where "x \<in> set (tb_sessions (db_t s))" and "liveSession (db_now s) (cr_sha C tok) x" and "us_id v = sn_user x"
proof -
  from query_fst [OF assms [unfolded ValidateSession_def]]
  obtain x u where x: "find (liveSession (db_now s) (cr_sha C tok)) (tb_sessions (db_t s)) = Some x"
    and u: "find (\<lambda>u. ur_id u = sn_user x) (usersOf (tick s)) = Some u" "v = scanUser u" by (auto split: option.splits)
  from find_Some_mem [OF x] find_Some_mem [OF u(1)] u(2) show ?thesis by (intro that [of x]) (auto simp: scanUser_def)
qed

lemma verify_Inr:
  assumes "fst (VerifyPassword C login pw s) = Inr v"
  obtains r where "r \<in> set (tb_users (db_t s))" and "cr_match C (ur_hash r) pw" and "us_id v = ur_id r"
proof -
  from assms obtain r s1 where q: "findUser (\<lambda>u. if CHR 0x40 \<in> set login then ur_email u = NormalizeEmail login else ur_username u = login) s = (Inr r, s1)"
    and m: "fst ((if cr_match C (ur_hash r) pw then ret (scanUser r) else throw (DbErr DbNotFound)) s1) = Inr v"
    unfolding VerifyPassword_def by (auto simp: fst_bindE)
  from query_Inr [OF q [unfolded findUser_def]] have "r \<in> set (tb_users (db_t s))"
    by (auto simp: usersOf_def split: option.splits dest: find_Some_mem)
  with m show ?thesis by (intro that [of r]) (auto simp: ret_def throw_def scanUser_def split: if_splits)
qed

lemma reset_used:
  assumes "fst (ResetPassword C token pw s) = Inr v"
  shows "\<exists>x\<in>set (tb_tokens (db_t s)). liveToken (db_now s) (cr_sha C token) PurposePasswordReset x"
proof -
  obtain s' where r: "ResetPassword C token pw s = (Inr v, s')" using assms by (metis prod.collapse)
  obtain s1 where "bindE (consumeUserToken C token PurposePasswordReset) (\<lambda>(userID, _).
     thenE (setPassword C userID pw) (thenE (revokeUserSessions C userID []) (GetUser userID))) (tick s) = (Inr v, s1)"
    by (rule tx_Inr [OF r [unfolded ResetPassword_def]])
  then obtain y s2 where "consumeUserToken C token PurposePasswordReset (tick s) = (Inr y, s2)" by (auto simp: bindE_Inr)
  from exec_Inr [OF this [unfolded consumeUserToken_def]] show ?thesis
    by (auto simp: Let_def split: option.splits dest: find_Some_mem)
qed

text \<open>
  C17: (safety) once a password was reset through a link, no session of that account is valid any more, the link
  does not work again, and only a password the new hash matches logs in to the account, until the tables
  change. SHA-256 never answers an empty text.
\<close>

theorem ResetPassword_ends:
  assumes "ResetPassword C token pw s = (Inr u, s')" and "\<And>x. cr_sha C x \<noteq> []"
    and "db_t s2 = db_t s'" and "db_now s \<le> db_now s2"
  shows "(fst (ValidateSession C tok s2) = Inr v \<longrightarrow> us_id v \<noteq> us_id u) \<and>
     fst (ResetPassword C token pw' s2) \<noteq> Inr v \<and>
     (fst (VerifyPassword C login pw' s2) = Inr v \<and> us_id v = us_id u \<longrightarrow>
       (\<exists>hash. cr_bcrypt C pw = Inr hash \<and> cr_match C hash pw'))"
proof (intro conjI impI notI)
  note R = reset_Inr [OF assms(1,2)]
  assume v: "fst (ValidateSession C tok s2) = Inr v" and "us_id v = us_id u"
  from validate_Inr [OF v] R(1) this(2) assms(2,3) show False by (metis liveSession_def)
next
  assume "fst (ResetPassword C token pw' s2) = Inr v"
  from reset_used [OF this] reset_Inr(2) [OF assms(1,2)] assms(3,4) show False by auto
next
  assume v: "fst (VerifyPassword C login pw' s2) = Inr v \<and> us_id v = us_id u"
  then obtain r where "r \<in> set (tb_users (db_t s2))" "cr_match C (ur_hash r) pw'" "ur_id r = us_id u"
    by (metis verify_Inr)
  with reset_Inr(3) [OF assms(1,2)] assms(3) show "\<exists>hash. cr_bcrypt C pw = Inr hash \<and> cr_match C hash pw'"
    by (auto simp: hashPassword_def split: sum.splits)
qed

section \<open>One-time steps\<close>

text \<open>The operations that set the last step of an account anew.\<close>

definition resets_step :: "int \<Rightarrow> store_op \<Rightarrow> bool" where
  "resets_step u op = (case op of OpEnableTOTP i _ _ _ \<Rightarrow> i = u | OpDisableTOTP i \<Rightarrow> i = u | _ \<Rightarrow> False)"

text \<open>No row of the account is behind the step.\<close>

definition stepped :: "int \<Rightarrow> int \<Rightarrow> int \<Rightarrow> tables \<Rightarrow> bool" where
  "stepped u k n t \<longleftrightarrow> u < n \<and> (\<forall>r\<in>set (tb_users t). ur_id r = u \<longrightarrow> k \<le> ur_totp_step r)"

lemma numbered_stepped: "numbered (stepped u k)"
  unfolding numbered_def stepped_def by auto

lemma stepped_insertRow:
  assumes "\<And>n s x t. f n s = Inr (x, t) \<Longrightarrow> \<forall>r\<in>set (tb_users t). ur_id r = n \<or> (\<exists>q\<in>set (tb_users (db_t s)).
     ur_id q = ur_id r \<and> ur_totp_step q = ur_totp_step r)"
  shows "keeps W (stepped u k) (insertRow f)"
proof (rule keeps_insertRow [OF numbered_stepped])
  fix s x t assume "stepped u k (db_seq s) (db_t s)" and "f (db_seq s) s = Inr (x, t)"
  from assms [OF this(2)] this(1) show "stepped u k (db_seq s + 1) t" unfolding stepped_def by force
qed

lemma stepped_exec:
  assumes "\<And>s x t. f s = Inr (x, t) \<Longrightarrow> \<forall>r\<in>set (tb_users t). \<exists>q\<in>set (tb_users (db_t s)).
     ur_id q = ur_id r \<and> (ur_id r = u \<longrightarrow> ur_totp_step q \<le> ur_totp_step r)"
  shows "keeps W (stepped u k) (exec f)"
proof (rule keeps_exec)
  fix s x t assume "stepped u k (db_seq s) (db_t s)" and "f s = Inr (x, t)"
  from assms [OF this(2)] this(1) show "stepped u k (db_seq s) t" unfolding stepped_def by force
qed

lemma stepped_same:
  assumes "\<And>s x t. f s = Inr (x, t) \<Longrightarrow> tb_users t = tb_users (db_t s)"
  shows "keeps W (stepped u k) (exec f)"
  by (rule stepped_exec) (auto dest!: assms)

lemma stepped_updateUser:
  assumes "\<And>now r. ur_id (f now r) = ur_id r \<and> (uid = u \<longrightarrow> ur_totp_step (f now r) = ur_totp_step r)"
  shows "keeps W (stepped u k) (updateUser uid f)"
  unfolding updateUser_def
  by (rule stepped_exec) (use assms in \<open>auto simp: Let_def ball_updateWhere eq_commute [of _ "tables_ext _ _ _ _ _ _ _ _ _ _ _ _ _ _"]\<close>)

lemma stepped_users:
  "keeps W (stepped u k) (insertUser name email hash a)" "keeps W (stepped u k) (upsertRow name email hash a)"
  "keeps W (stepped u k) (updateEmail uid email)"
  unfolding insertUser_def upsertRow_def updateEmail_def
  by (intro stepped_insertRow stepped_exec; auto simp: Let_def newUserRow_def ball_updateWhere split: if_splits option.splits)+

lemma stepped_deleteUser: "keeps W (stepped u k) (DeleteUser uid)"
  unfolding DeleteUser_def
  by (intro keeps_tx numbered_stepped keeps_bindE keeps_rules keeps_if stepped_exec) (auto simp: deleteUserRow_def)

lemma stepped_accept: "keeps W (stepped u k) (AcceptTOTPStep uid step)"
  unfolding AcceptTOTPStep_def by (rule stepped_exec) (auto simp: Let_def ball_updateWhere)

lemma stepped_discord: "keeps W (stepped u k) (SetDiscordLink uid d name)"
  unfolding SetDiscordLink_def
  by (intro keeps_mapErr keeps_bindE keeps_rules stepped_exec) (auto simp: Let_def ball_updateWhere split: if_splits)

lemma stepped_orgs:
  "keeps W (stepped u k) (insertOrg slug name)" "keeps W (stepped u k) (RecordAudit e)"
  "keeps W (stepped u k) (upsertInvitation j email r hash locale by ttl)"
  unfolding insertOrg_def RecordAudit_def upsertInvitation_def
  by (intro stepped_insertRow; auto simp: Let_def split: if_splits option.splits)+

lemmas stepped_parts = keeps_rules keeps_case_prod keeps_mapErr keeps_if keeps_tx [OF numbered_stepped] keeps_forE keeps_bindE

lemma stepped_accounts:
  "keeps W (stepped u k) (revokeWhere p)" "keeps W (stepped u k) (CreateSession C uid ttl)"
  "keeps W (stepped u k) (IssueUserToken C uid q e ttl)" "keeps W (stepped u k) (consumeUserToken C token q)"
  "keeps W (stepped u k) (replaceRecoveryCodes uid hs)" "keeps W (stepped u k) (UseRecoveryCode uid h)"
  unfolding revokeWhere_def CreateSession_def IssueUserToken_def consumeUserToken_def replaceRecoveryCodes_def insertCode_def
    UseRecoveryCode_def
  by (intro stepped_parts stepped_same; auto simp: Let_def split: if_splits option.splits)+

lemma stepped_members:
  "keeps W (stepped u k) (insertMember j uid r d)" "keeps W (stepped u k) (DeleteOrg slug)"
  "keeps W (stepped u k) (SetOrgRequire2FA j on)" "keeps W (stepped u k) (SetMemberRole j uid r)"
  "keeps W (stepped u k) (RemoveMember j uid)" "keeps W (stepped u k) (SetMemberGrants j uid gs)"
  "keeps W (stepped u k) (DeleteGameServerGrants j g)" "keeps W (stepped u k) (dropInvitation p)"
  "keeps W (stepped u k) (ListInvitations j)" "keeps W (stepped u k) (ReissueInvitation C j iid ttl)"
  unfolding insertMember_def DeleteOrg_def SetOrgRequire2FA_def SetMemberRole_def RemoveMember_def changeMembership_def
    GetMembership_def requireAnotherOwner_def SetMemberGrants_def insertGrant_def DeleteGameServerGrants_def dropInvitation_def
    ListInvitations_def ReissueInvitation_def selectInvitation_def
  by (intro stepped_parts stepped_same; auto simp: Let_def deleteOrgRows_def deleteMemberRow_def split: if_splits)+

lemma stepped_settings:
  "keeps W (stepped u k) (SetOrgGuild j g name uid)" "keeps W (stepped u k) (ClearOrgGuild j)"
  "keeps W (stepped u k) (SetSetting key v)" "keeps W (stepped u k) (DeleteSetting key)"
  "keeps W (stepped u k) (SetDiscordWebhook j url)" "keeps W (stepped u k) (SetMutedEvents j es)"
  "keeps W (stepped u k) (pruneAudit p)"
  unfolding SetOrgGuild_def ClearOrgGuild_def SetSetting_def DeleteSetting_def SetDiscordWebhook_def SetMutedEvents_def insertMuted_def
    updateOrInsert_def pruneAudit_def
  by (intro stepped_parts stepped_same; auto simp: Let_def split: if_splits)+

lemma stepped_createUser: "keeps W (stepped u k) (createUser C name email password a)"
  unfolding createUser_def by (intro stepped_parts stepped_users)

lemma stepped_setPassword: "keeps W (stepped u k) (setPassword C uid password)"
  unfolding setPassword_def by (intro stepped_parts stepped_updateUser) simp

lemma stepped_revokeUser: "keeps W (stepped u k) (revokeUserSessions C uid e)"
  unfolding revokeUserSessions_def Let_def by (rule stepped_accounts)

lemma stepped_reset: "keeps W (stepped u k) (ResetPassword C token password)"
  unfolding ResetPassword_def
  by (intro stepped_parts stepped_accounts stepped_revokeUser stepped_setPassword keeps_getUser)

lemma stepped_totp:
  "uid \<noteq> u \<Longrightarrow> keeps W (stepped u k) (EnableTOTP uid x st cs)" "uid \<noteq> u \<Longrightarrow> keeps W (stepped u k) (DisableTOTP uid)"
  unfolding EnableTOTP_def DisableTOTP_def by (intro stepped_parts stepped_accounts stepped_updateUser; simp)+

lemma stepped_setAdmin: "keeps W (stepped u k) (SetAdmin uid a)"
  unfolding SetAdmin_def by (intro stepped_parts stepped_updateUser) simp

lemma stepped_createOrg: "keeps W (stepped u k) (CreateOrg slug name uid)"
  unfolding CreateOrg_def by (intro stepped_parts stepped_orgs stepped_members)

lemma stepped_accepts: "keeps W (stepped u k) (AcceptInvitationNewUser C token name password d)"
    "keeps W (stepped u k) (AcceptInvitationExistingUser C token uid)"
  unfolding AcceptInvitationNewUser_def AcceptInvitationExistingUser_def takeInvitation_def GetInvitationByToken_def selectInvitation_def
  by (intro stepped_parts stepped_createUser stepped_members stepped_updateUser keeps_findUser; simp)+

lemma stepped_invite: "keeps W (stepped u k) (CreateInvitation C j e r l by ttl)"
  unfolding CreateInvitation_def selectInvitation_def by (intro stepped_parts stepped_orgs)

lemma stepped_run_op: "\<not> resets_step u op \<Longrightarrow> keeps (\<lambda>_. True) (stepped u k) (run_op C op)"
proof (cases op)
qed (simp_all add: resets_step_def void_def CreateUser_def UpsertUser_def UpdateProfile_def SetPassword_def SetEmail_def RevokeSession_def
      RevokeUserSessions_def ConfirmEmailChange_def ReplaceRecoveryCodes_def AddMember_def
      DeleteInvitation_def ClearDiscordLink_def SetNotifyEmail_def PruneOrgAudit_def PruneAuditExcept_def,
    (intro stepped_parts stepped_users stepped_deleteUser stepped_accept stepped_discord stepped_orgs stepped_accounts stepped_members
      stepped_settings stepped_createUser stepped_setPassword stepped_reset stepped_totp stepped_setAdmin stepped_createOrg
      stepped_accepts stepped_invite stepped_revokeUser stepped_updateUser; simp?)+)

lemma run_ops_stepped:
  assumes "list_all (\<lambda>x. \<not> resets_step u (snd x)) ops" and "stepped u k (db_seq s) (db_t s)"
  shows "stepped u k (db_seq (run_ops C ops s)) (db_t (run_ops C ops s))"
  using assms
proof (induction C ops s rule: run_ops.induct)
  case (2 C now op ops s)
  have "stepped u k (db_seq (s\<lparr>db_now := now\<rparr>)) (db_t (s\<lparr>db_now := now\<rparr>))" using 2 by simp
  then have "stepped u k (db_seq (snd (run_op C op (s\<lparr>db_now := now\<rparr>)))) (db_t (snd (run_op C op (s\<lparr>db_now := now\<rparr>))))"
    using stepped_run_op [of u op k C] 2(2) unfolding keeps_def by simp
  from 2(1) [OF _ this] 2(2) show ?case by simp
qed simp

lemma accept_Inr:
  assumes "AcceptTOTPStep u k s = (Inr ok, s')"
  shows "ok \<longleftrightarrow> countWhere (\<lambda>r. ur_id r = u \<and> ur_totp_step r < k) (tb_users (db_t s)) = 1"
    and "\<forall>r\<in>set (tb_users (db_t s')). ur_id r = u \<longrightarrow> k \<le> ur_totp_step r"
proof -
  from exec_Inr [OF assms [unfolded AcceptTOTPStep_def]]
  have ok: "ok \<longleftrightarrow> countWhere (\<lambda>r. ur_id r = u \<and> ur_totp_step r < k) (tb_users (db_t s)) = 1"
    and t: "db_t s' = (db_t s)\<lparr>tb_users := updateWhere (\<lambda>r. ur_id r = u \<and> ur_totp_step r < k) (\<lambda>r. r\<lparr>ur_totp_step := k\<rparr>) (tb_users (db_t s))\<rparr>"
    by (auto simp: Let_def eq_commute [of _ "db_t s'"])
  show "ok \<longleftrightarrow> countWhere (\<lambda>r. ur_id r = u \<and> ur_totp_step r < k) (tb_users (db_t s)) = 1" by (rule ok)
  show "\<forall>r\<in>set (tb_users (db_t s')). ur_id r = u \<longrightarrow> k \<le> ur_totp_step r" unfolding t by (auto simp: ball_updateWhere)
qed

lemma accept_known:
  assumes "schema_ok (db_seq s) (db_t s)" and "AcceptTOTPStep u k s = (Inr True, s')"
  shows "u < db_seq s'"
proof -
  from accept_Inr(1) [OF assms(2)] have "filter (\<lambda>r. ur_id r = u \<and> ur_totp_step r < k) (tb_users (db_t s)) \<noteq> []"
    by (auto simp: countWhere_def)
  then obtain r where "r \<in> set (tb_users (db_t s))" "ur_id r = u" unfolding filter_empty_conv by blast
  with assms(1) have "u < db_seq s" by (auto simp: schema_ok_def users_ok_def list_all_iff)
  moreover have k: "keeps (\<lambda>_. True) (\<lambda>_ _. True) (AcceptTOTPStep u k)" unfolding AcceptTOTPStep_def by (rule keeps_exec) simp
  ultimately show ?thesis using keepsD [OF k TrueI assms(2)] by simp
qed


section \<open>Concrete instances\<close>

definition sample_crypto :: crypto where
  "sample_crypto = \<lparr>cr_sha = (\<lambda>x. CHR ''h'' # x), cr_bcrypt = Inr, cr_match = (\<lambda>h p. h = p)\<rparr>"

text \<open>An account with a link to reset its password, and one with a second factor.\<close>

definition sample_link :: pdb where
  "sample_link = run_ops sample_crypto [(0, OpCreateUser ''ada'' ''ada@a.org'' ''first'' False), (1, OpCreateSession 1 50),
     (2, OpIssueUserToken 1 PurposePasswordReset [] 60)] (new_db [] [''s'', ''r''])"

definition sample_totp_ops :: "(time \<times> store_op) list" where
  "sample_totp_ops = [(0, OpCreateUser ''ada'' ''ada@a.org'' ''first'' False), (1, OpEnableTOTP 1 ''enc'' 7 [''c1'', ''c2''])]"

definition sample_reset :: pdb where
  "sample_reset = snd (ResetPassword sample_crypto ''r'' ''second'' sample_link)"

lemma ResetPassword_ends_witness:
  "\<forall>v. fst (ResetPassword sample_crypto ''r'' ''third'' sample_reset) \<noteq> Inr v"
proof
  fix v
  have "returns (fst (ResetPassword sample_crypto ''r'' ''second'' sample_link))" by code_simp
  then obtain u where r: "ResetPassword sample_crypto ''r'' ''second'' sample_link = (Inr u, sample_reset)"
    unfolding sample_reset_def by (rule returnsE)
  have now: "db_now sample_link \<le> db_now sample_reset" by code_simp
  from ResetPassword_ends [OF r _ refl now]
  show "fst (ResetPassword sample_crypto ''r'' ''third'' sample_reset) \<noteq> Inr v" by (simp add: sample_crypto_def)
qed

text \<open>The step 8 accepted, then 9, and the step 8 once more.\<close>

definition sample_totp :: pdb where
  "sample_totp = snd (AcceptTOTPStep 1 8 (run_ops sample_crypto sample_totp_ops (new_db [] [])))"


lemma run_op_fails_clean_witness:
  "db_t (snd (run_op sample_crypto (OpResetPassword ''x'' ''p'') sample_link)) = db_t sample_link"
proof -
  have "\<not> returns (fst (run_op sample_crypto (OpResetPassword ''x'' ''p'') sample_link))" by code_simp
  then obtain e where e: "run_op sample_crypto (OpResetPassword ''x'' ''p'') sample_link
      = (Inl e, snd (run_op sample_crypto (OpResetPassword ''x'' ''p'') sample_link))" by (rule not_returnsE)
  show ?thesis by (rule run_op_fails_clean [OF _ e]) (simp add: atomic_op_def)
qed

text \<open>An organization with two owners, one of whom leaves; the other cannot.\<close>

lemma run_ops_owned_witness:
  "ownersOf 3 (db_t (run_ops sample_crypto ([(0, OpCreateUser ''ada'' ''ada@a.org'' ''first'' False),
       (0, OpCreateUser ''bob'' ''bob@a.org'' ''first'' False), (1, OpCreateOrg ''acme'' ''Acme'' 1), (1, OpAddMember 3 2 RoleOwner)]
     @ [(2, OpDeleteUser 1), (3, OpRemoveMember 3 2)]) (new_db [] []))) \<noteq> []"
  by (rule run_ops_owned) code_simp+

end
