(* ===== verification/Panel_Cache.thy ===== *)
theory Panel_Cache
  imports Panel_Db "HOL-Library.AList"
begin

text \<open>
  The short-lived state of the panel (\<open>internal/panelcache\<close>): the stores it keeps in Redis, and the in-process ones
  that stand in for them. Redis is a list of keys with a value and the time it expires; a script runs as one
  step. A command may be lost before it runs, or run and its answer be lost: \<open>rd_fates\<close> says what becomes
  of the next ones.
\<close>

section \<open>Redis\<close>

record console_ticket =
  ct_user :: int
  ct_org :: string
  ct_gameserver :: string

datatype rval = RInt int | RStr string | RHash "(string \<times> int) list" | RTicket console_ticket

datatype fate = Done | Unheard | Lost

type_synonym rentry = "rval \<times> time option"

record redis =
  rd_keys :: "(string \<times> rentry) list"
  rd_now :: time
  rd_fates :: "fate list"
  rd_random :: "string list"

type_synonym 'a cached = "(redis, 'a) io"

definition redisDown :: go_err where "redisDown = MsgErr (Msg ''redis: connection'' [])"
definition redisNil :: go_err where "redisNil = MsgErr (Msg ''redis: nil'' [])"
definition wrongType :: go_err where "wrongType = MsgErr (Msg ''WRONGTYPE'' [])"
definition ErrTicketNotFound :: go_err where "ErrTicketNotFound = MsgErr (Msg ''ticket not found or expired'' [])"
definition ErrChallengeNotFound :: go_err where "ErrChallengeNotFound = MsgErr (Msg ''login challenge not found or expired'' [])"

definition cmd :: "'a cached \<Rightarrow> 'a cached" where
  "cmd f = (\<lambda>r. case rd_fates r of [] \<Rightarrow> f r
     | x # fs \<Rightarrow> let r' = r\<lparr>rd_fates := fs\<rparr> in
         case x of Done \<Rightarrow> f r' | Unheard \<Rightarrow> (Inl redisDown, snd (f r')) | Lost \<Rightarrow> (Inl redisDown, r'))"

definition unexpired :: "time \<Rightarrow> time option \<Rightarrow> bool" where
  "unexpired now e = (case e of None \<Rightarrow> True | Some t \<Rightarrow> now < t)"

definition look :: "string \<Rightarrow> redis \<Rightarrow> rentry option" where
  "look k r = (case map_of (rd_keys r) k of None \<Rightarrow> None
     | Some (v, e) \<Rightarrow> if unexpired (rd_now r) e then Some (v, e) else None)"

definition putKey :: "string \<Rightarrow> rentry \<Rightarrow> redis \<Rightarrow> redis" where
  "putKey k x r = r\<lparr>rd_keys := AList.update k x (rd_keys r)\<rparr>"

definition delKey :: "string \<Rightarrow> redis \<Rightarrow> redis" where
  "delKey k r = r\<lparr>rd_keys := AList.delete k (rd_keys r)\<rparr>"

text \<open>The commands: \<open>GET\<close>, \<open>SET\<close> with a lifetime, \<open>GETDEL\<close>, \<open>DEL\<close>, \<open>SETNX\<close>, \<open>PTTL\<close> (in milliseconds), and the reply "nil"
  as the caller's error.\<close>

definition rGet :: "string \<Rightarrow> rval cached" where
  "rGet k = cmd (\<lambda>r. (case look k r of None \<Rightarrow> Inl redisNil | Some (v, _) \<Rightarrow> Inr v, r))"

definition rSet :: "string \<Rightarrow> rval \<Rightarrow> duration \<Rightarrow> unit cached" where
  "rSet k v ttl = cmd (\<lambda>r. (Inr (), putKey k (v, if 0 < ttl then Some (rd_now r + ttl) else None) r))"

definition rGetDel :: "string \<Rightarrow> rval cached" where
  "rGetDel k = cmd (\<lambda>r. (case look k r of None \<Rightarrow> Inl redisNil | Some (v, _) \<Rightarrow> Inr v, delKey k r))"

definition rDel :: "string \<Rightarrow> unit cached" where
  "rDel k = cmd (\<lambda>r. (Inr (), delKey k r))"

definition rSetNX :: "string \<Rightarrow> rval \<Rightarrow> duration \<Rightarrow> bool cached" where
  "rSetNX k v ttl = cmd (\<lambda>r. if look k r = None then (Inr True, putKey k (v, Some (rd_now r + ttl)) r) else (Inr False, r))"

definition rPTTL :: "string \<Rightarrow> duration cached" where
  "rPTTL k = cmd (\<lambda>r. (case look k r of None \<Rightarrow> Inr (-2) | Some (_, None) \<Rightarrow> Inr (-1)
     | Some (_, Some t) \<Rightarrow> Inr ((t - rd_now r) div 1000000 * 1000000), r))"

text \<open>The script \<open>incrExpire\<close>: the first increment starts the window.\<close>

definition incrExpire :: "string \<Rightarrow> duration \<Rightarrow> int cached" where
  "incrExpire k window = cmd (\<lambda>r. case look k r of
       None \<Rightarrow> (Inr 1, putKey k (RInt 1, Some (rd_now r + window div 1000000 * 1000000)) r)
     | Some (RInt n, e) \<Rightarrow> (Inr (n + 1), putKey k (RInt (n + 1), e) r)
     | Some _ \<Rightarrow> (Inl wrongType, r))"

definition orNil :: "go_err \<Rightarrow> 'a cached \<Rightarrow> 'a cached" where
  "orNil e m = (\<lambda>r. case m r of (Inl x, r') \<Rightarrow> (Inl (if x = redisNil then e else x), r') | (Inr y, r') \<Rightarrow> (Inr y, r'))"

definition newTicketValue :: "string cached" where
  "newTicketValue = (\<lambda>r. case rd_random r of [] \<Rightarrow> (Inl (MsgErr (Msg ''rand'' [])), r) | x # xs \<Rightarrow> (Inr x, r\<lparr>rd_random := xs\<rparr>))"

section \<open>Console tickets\<close>

definition ticketKey :: "crypto \<Rightarrow> string \<Rightarrow> string" where
  "ticketKey C ticket = ''hatchery:console-ticket:'' @ cr_sha C ticket"

definition IssueTicket :: "crypto \<Rightarrow> console_ticket \<Rightarrow> duration \<Rightarrow> string cached" where
  "IssueTicket C t ttl = bindE newTicketValue (\<lambda>tok. thenE (rSet (ticketKey C tok) (RTicket t) ttl) (ret tok))"

definition ConsumeTicket :: "crypto \<Rightarrow> string \<Rightarrow> console_ticket cached" where
  "ConsumeTicket C ticket = bindE (orNil ErrTicketNotFound (rGetDel (ticketKey C ticket)))
     (\<lambda>v. case v of RTicket t \<Rightarrow> ret t | _ \<Rightarrow> throw wrongType)"

section \<open>Failed logins\<close>

record login_limits =
  ll_per_ip :: int
  ll_per_user_ip :: int
  ll_window :: duration

definition DefaultLoginLimits :: login_limits where
  "DefaultLoginLimits = \<lparr>ll_per_ip = 20, ll_per_user_ip = 5, ll_window = 15 * minute\<rparr>"

definition ipKey :: "crypto \<Rightarrow> string \<Rightarrow> string" where
  "ipKey C ip = ''hatchery:login-fail:ip:'' @ cr_sha C ip"

definition userIPKey :: "crypto \<Rightarrow> string \<Rightarrow> string \<Rightarrow> string" where
  "userIPKey C username ip = ''hatchery:login-fail:user-ip:'' @ cr_sha C (toLower username @ ''|'' @ ip)"

text \<open>One counter against its limit: \<open>None\<close> when it is not reached.\<close>

definition overLimit :: "duration \<Rightarrow> string \<Rightarrow> int \<Rightarrow> duration option cached" where
  "overLimit window k mx = bindE (attempt (rGet k)) (\<lambda>v. case v of
       Inl e \<Rightarrow> if e = redisNil then ret None else throw e
     | Inr (RInt n) \<Rightarrow> if mx \<le> n then bindE (rPTTL k) (\<lambda>ttl. ret (Some (if ttl \<le> 0 then window else ttl))) else ret None
     | Inr _ \<Rightarrow> throw wrongType)"

definition Blocked :: "crypto \<Rightarrow> login_limits \<Rightarrow> string \<Rightarrow> string \<Rightarrow> (bool \<times> duration) cached" where
  "Blocked C L username ip =
     bindE (overLimit (ll_window L) (ipKey C ip) (ll_per_ip L)) (\<lambda>a. case a of Some ttl \<Rightarrow> ret (True, ttl)
     | None \<Rightarrow> bindE (overLimit (ll_window L) (userIPKey C username ip) (ll_per_user_ip L)) (\<lambda>b. case b of Some ttl \<Rightarrow> ret (True, ttl)
     | None \<Rightarrow> ret (False, 0)))"

definition RecordFailure :: "crypto \<Rightarrow> login_limits \<Rightarrow> string \<Rightarrow> string \<Rightarrow> unit cached" where
  "RecordFailure C L username ip =
     forE (\<lambda>k. thenE (incrExpire k (ll_window L)) (ret ())) [ipKey C ip, userIPKey C username ip]"

definition RecordSuccess :: "crypto \<Rightarrow> string \<Rightarrow> string \<Rightarrow> unit cached" where
  "RecordSuccess C username ip = rDel (userIPKey C username ip)"

section \<open>Requests\<close>

definition Allow :: "crypto \<Rightarrow> string \<Rightarrow> int \<Rightarrow> duration \<Rightarrow> (bool \<times> duration) cached" where
  "Allow C k limit window =
     bindE (incrExpire (''hatchery:req:'' @ cr_sha C k) window) (\<lambda>n.
       if n \<le> limit then ret (True, 0)
       else bindE (rPTTL (''hatchery:req:'' @ cr_sha C k)) (\<lambda>ttl. ret (False, if ttl \<le> 0 then window else ttl)))"

section \<open>The second step of a login\<close>

definition challengeKey :: "crypto \<Rightarrow> string \<Rightarrow> string" where
  "challengeKey C token = ''hatchery:2fa-challenge:'' @ cr_sha C token"

definition IssueChallenge :: "crypto \<Rightarrow> int \<Rightarrow> duration \<Rightarrow> string cached" where
  "IssueChallenge C userID ttl = bindE newTicketValue (\<lambda>tok.
     thenE (rSet (challengeKey C tok) (RHash [(''u'', userID), (''f'', 0)]) ttl) (ret tok))"

definition hashField :: "string \<Rightarrow> rval \<Rightarrow> go_err + int" where
  "hashField f v = (case v of RHash fs \<Rightarrow> (case map_of fs f of None \<Rightarrow> Inl redisNil | Some n \<Rightarrow> Inr n) | _ \<Rightarrow> Inl wrongType)"

definition PeekChallenge :: "crypto \<Rightarrow> string \<Rightarrow> int cached" where
  "PeekChallenge C token = orNil ErrChallengeNotFound (bindE (rGet (challengeKey C token)) (\<lambda>v. liftE (hashField ''u'' v)))"

text \<open>The script \<open>challengeFail\<close>, which answers -1 for a token that is gone.\<close>

definition challengeFail :: "string \<Rightarrow> int \<Rightarrow> int cached" where
  "challengeFail k mx = cmd (\<lambda>r. case look k r of None \<Rightarrow> (Inr (-1), r)
     | Some (RHash fs, e) \<Rightarrow> let n = (case map_of fs ''f'' of None \<Rightarrow> 0 | Some m \<Rightarrow> m) + 1 in
         (Inr n, if mx \<le> n then delKey k r else putKey k (RHash (AList.update ''f'' n fs), e) r)
     | Some _ \<Rightarrow> (Inl wrongType, r))"

definition FailChallenge :: "crypto \<Rightarrow> string \<Rightarrow> int \<Rightarrow> bool cached" where
  "FailChallenge C token mx = bindE (challengeFail (challengeKey C token) mx) (\<lambda>n. ret (n < 0 \<or> mx \<le> n))"

text \<open>The script \<open>challengeConsume\<close>.\<close>

definition challengeConsume :: "string \<Rightarrow> int cached" where
  "challengeConsume k = cmd (\<lambda>r. case look k r of None \<Rightarrow> (Inl redisNil, r)
     | Some (v, _) \<Rightarrow> (case hashField ''u'' v of Inl e \<Rightarrow> (Inl e, r) | Inr u \<Rightarrow> (Inr u, delKey k r)))"

definition ConsumeChallenge :: "crypto \<Rightarrow> string \<Rightarrow> int cached" where
  "ConsumeChallenge C token = orNil ErrChallengeNotFound (challengeConsume (challengeKey C token))"

section \<open>Secrets that wait for their first code\<close>

definition pendingKey :: "int \<Rightarrow> string" where
  "pendingKey userID = ''hatchery:2fa-pending:'' @ formatInt userID 10"

definition PutPending :: "int \<Rightarrow> string \<Rightarrow> duration \<Rightarrow> unit cached" where
  "PutPending userID secretEnc ttl = rSet (pendingKey userID) (RStr secretEnc) ttl"

definition GetPending :: "int \<Rightarrow> string cached" where
  "GetPending userID = orNil ErrChallengeNotFound (bindE (rGet (pendingKey userID))
     (\<lambda>v. case v of RStr s \<Rightarrow> ret s | _ \<Rightarrow> throw wrongType))"

definition DeletePending :: "int \<Rightarrow> unit cached" where
  "DeletePending userID = rDel (pendingKey userID)"

section \<open>Alerts already sent, and the last known version of a game\<close>

definition NotifiedTTL :: duration where "NotifiedTTL = 24 * hour"

definition ClaimNotified :: "string \<Rightarrow> bool cached" where
  "ClaimNotified identity = rSetNX (''hatchery:notified:'' @ identity) (RInt 1) NotifiedTTL"

definition gameVersionTTL :: duration where "gameVersionTTL = 30 * 24 * hour"

definition gameVersionKey :: "string \<Rightarrow> string \<Rightarrow> string" where
  "gameVersionKey ns gs = ''hatchery:gameversion:'' @ ns @ ''/'' @ gs"

definition GetGameVersion :: "string \<Rightarrow> string \<Rightarrow> string cached" where
  "GetGameVersion ns gs = bindE (attempt (rGet (gameVersionKey ns gs))) (\<lambda>v. case v of
       Inl e \<Rightarrow> if e = redisNil then ret [] else throw e | Inr (RStr s) \<Rightarrow> ret s | Inr _ \<Rightarrow> throw wrongType)"

definition SetGameVersion :: "string \<Rightarrow> string \<Rightarrow> string \<Rightarrow> unit cached" where
  "SetGameVersion ns gs v = rSet (gameVersionKey ns gs) (RStr v) gameVersionTTL"

section \<open>The in-process stores\<close>

text \<open>A map to values with the time they expire; \<open>liveItem\<close> forgets what has expired.\<close>

type_synonym 'a items = "(string \<times> ('a \<times> time)) list"

definition liveItem :: "time \<Rightarrow> string \<Rightarrow> 'a items \<Rightarrow> ('a \<times> time) option \<times> 'a items" where
  "liveItem now k m = (case map_of m k of None \<Rightarrow> (None, AList.delete k m)
     | Some (x, e) \<Rightarrow> if now < e then (Some (x, e), m) else (None, AList.delete k m))"

definition memIssueTicket :: "time \<Rightarrow> string \<Rightarrow> console_ticket \<Rightarrow> duration \<Rightarrow> console_ticket items \<Rightarrow> console_ticket items" where
  "memIssueTicket now tok t ttl m = AList.update tok (t, now + ttl) m"

definition memConsumeTicket :: "time \<Rightarrow> string \<Rightarrow> console_ticket items \<Rightarrow> (go_err + console_ticket) \<times> console_ticket items" where
  "memConsumeTicket now ticket m = (case map_of m ticket of
       Some (t, e) \<Rightarrow> if now < e then Inr t else Inl ErrTicketNotFound | None \<Rightarrow> Inl ErrTicketNotFound, AList.delete ticket m)"

definition memIssueChallenge :: "time \<Rightarrow> string \<Rightarrow> int \<Rightarrow> duration \<Rightarrow> (int \<times> int) items \<Rightarrow> (int \<times> int) items" where
  "memIssueChallenge now tok userID ttl m = AList.update tok ((userID, 0), now + ttl) m"

definition memPeek :: "time \<Rightarrow> string \<Rightarrow> (int \<times> int) items \<Rightarrow> (go_err + int) \<times> (int \<times> int) items" where
  "memPeek now token m = (case liveItem now token m of
     (None, m') \<Rightarrow> (Inl ErrChallengeNotFound, m') | (Some ((u, _), _), m') \<Rightarrow> (Inr u, m'))"

definition memFail :: "time \<Rightarrow> string \<Rightarrow> int \<Rightarrow> (int \<times> int) items \<Rightarrow> (go_err + bool) \<times> (int \<times> int) items" where
  "memFail now token mx m = (case liveItem now token m of (None, m') \<Rightarrow> (Inr True, m')
     | (Some ((u, f), e), m') \<Rightarrow> if mx \<le> f + 1 then (Inr True, AList.delete token m')
         else (Inr False, AList.update token ((u, f + 1), e) m'))"

definition memConsume :: "time \<Rightarrow> string \<Rightarrow> (int \<times> int) items \<Rightarrow> (go_err + int) \<times> (int \<times> int) items" where
  "memConsume now token m = (case liveItem now token m of (None, m') \<Rightarrow> (Inl ErrChallengeNotFound, m')
     | (Some ((u, _), _), m') \<Rightarrow> (Inr u, AList.delete token m'))"

definition memIPKey :: "string \<Rightarrow> string" where
  "memIPKey ip = ''ip:'' @ ip"

definition memUserIPKey :: "string \<Rightarrow> string \<Rightarrow> string" where
  "memUserIPKey username ip = ''userip:'' @ toLower username @ ''|'' @ ip"

fun memOver :: "time \<Rightarrow> (string \<times> int) list \<Rightarrow> int items \<Rightarrow> (bool \<times> duration) \<times> int items" where
  "memOver now [] m = ((False, 0), m)"
| "memOver now ((k, mx) # ks) m = (case liveItem now k m of
     (Some (n, e), m') \<Rightarrow> if mx \<le> n then ((True, e - now), m') else memOver now ks m'
   | (None, m') \<Rightarrow> memOver now ks m')"

definition memBlocked :: "time \<Rightarrow> login_limits \<Rightarrow> string \<Rightarrow> string \<Rightarrow> int items \<Rightarrow> (bool \<times> duration) \<times> int items" where
  "memBlocked now L username ip m = memOver now [(memIPKey ip, ll_per_ip L), (memUserIPKey username ip, ll_per_user_ip L)] m"

definition memCount :: "time \<Rightarrow> duration \<Rightarrow> string \<Rightarrow> int items \<Rightarrow> int items" where
  "memCount now window k m = (case liveItem now k m of (None, m') \<Rightarrow> AList.update k (1, now + window) m'
     | (Some (n, e), m') \<Rightarrow> AList.update k (n + 1, e) m')"

definition memRecordFailure :: "time \<Rightarrow> login_limits \<Rightarrow> string \<Rightarrow> string \<Rightarrow> int items \<Rightarrow> int items" where
  "memRecordFailure now L username ip m =
     memCount now (ll_window L) (memUserIPKey username ip) (memCount now (ll_window L) (memIPKey ip) m)"

definition memRecordSuccess :: "string \<Rightarrow> string \<Rightarrow> int items \<Rightarrow> int items" where
  "memRecordSuccess username ip m = AList.delete (memUserIPKey username ip) m"

definition memAllow :: "time \<Rightarrow> string \<Rightarrow> int \<Rightarrow> duration \<Rightarrow> int items \<Rightarrow> (bool \<times> duration) \<times> int items" where
  "memAllow now k limit window m = (let m' = memCount now window k m in
     case map_of m' k of Some (n, e) \<Rightarrow> (if n \<le> limit then (True, 0) else (False, e - now), m') | None \<Rightarrow> ((True, 0), m'))"

definition memPutPending :: "time \<Rightarrow> int \<Rightarrow> string \<Rightarrow> duration \<Rightarrow> (int \<times> string \<times> time) list \<Rightarrow> (int \<times> string \<times> time) list" where
  "memPutPending now userID secretEnc ttl m = AList.update userID (secretEnc, now + ttl) m"

definition memGetPending :: "time \<Rightarrow> int \<Rightarrow> (int \<times> string \<times> time) list \<Rightarrow> (go_err + string) \<times> (int \<times> string \<times> time) list" where
  "memGetPending now userID m = (case map_of m userID of
     Some (x, e) \<Rightarrow> if now < e then (Inr x, m) else (Inl ErrChallengeNotFound, AList.delete userID m)
   | None \<Rightarrow> (Inl ErrChallengeNotFound, AList.delete userID m))"

definition memClaim :: "string \<Rightarrow> string list \<Rightarrow> bool \<times> string list" where
  "memClaim identity claimed = (if identity \<in> set claimed then (False, claimed) else (True, identity # claimed))"

section \<open>Keys and values\<close>

lemma look_putKey: "look k (putKey j (v, e) r) = (if k = j then if unexpired (rd_now r) e then Some (v, e) else None else look k r)"
  by (auto simp: look_def putKey_def update_conv' split: option.splits)

lemma look_delKey: "look k (delKey j r) = (if k = j then None else look k r)"
  by (auto simp: look_def delKey_def delete_conv' split: option.splits)

lemma putKey_frame [simp]:
  "rd_now (putKey k x r) = rd_now r" "rd_fates (putKey k x r) = rd_fates r" "rd_random (putKey k x r) = rd_random r"
  "rd_now (delKey k r) = rd_now r" "rd_fates (delKey k r) = rd_fates r" "rd_random (delKey k r) = rd_random r"
  by (simp_all add: putKey_def delKey_def)

lemma look_frame [simp]:
  "look k (r\<lparr>rd_random := xs\<rparr>) = look k r" "look k (r\<lparr>rd_fates := fs\<rparr>) = look k r"
  by (auto simp: look_def split: option.splits)

text \<open>With no failures to come a command just runs.\<close>

lemma cmd_run: "rd_fates r = [] \<Longrightarrow> cmd f r = f r"
  by (simp add: cmd_def)

end
