(* ===== verification/Panel_Challenges.thy ===== *)
theory Panel_Challenges
  imports Panel_Cache Panel_Accounts
begin

text \<open>
  The tickets between the two steps of a login, as a contract of the store that keeps them: what a ticket stands for,
  how many wrong codes it has seen, and when it dies. Redis (on the hashes of the tickets) and the in-process store both
  keep the contract, so they give the same answers; the lemmas on wrong codes and on single use are proved once.
\<close>

section \<open>The operations of a store\<close>

record 's challenges =
  co_issue :: "time \<Rightarrow> string \<Rightarrow> int \<Rightarrow> duration \<Rightarrow> 's \<Rightarrow> 's"
  co_peek :: "time \<Rightarrow> string \<Rightarrow> 's \<Rightarrow> (go_err + int) \<times> 's"
  co_fail :: "time \<Rightarrow> string \<Rightarrow> int \<Rightarrow> 's \<Rightarrow> (go_err + bool) \<times> 's"
  co_consume :: "time \<Rightarrow> string \<Rightarrow> 's \<Rightarrow> (go_err + int) \<times> 's"

datatype chal_op = ChIssue string int duration | ChPeek string | ChFail string int | ChConsume string

datatype chal_ans = AnsIssued | AnsUser "go_err + int" | AnsDead "go_err + bool"

fun chal_step :: "'s challenges \<Rightarrow> time \<times> chal_op \<Rightarrow> 's \<Rightarrow> chal_ans \<times> 's" where
  "chal_step S (now, ChIssue tok u ttl) s = (AnsIssued, co_issue S now tok u ttl s)"
| "chal_step S (now, ChPeek tok) s = apfst AnsUser (co_peek S now tok s)"
| "chal_step S (now, ChFail tok mx) s = apfst AnsDead (co_fail S now tok mx s)"
| "chal_step S (now, ChConsume tok) s = apfst AnsUser (co_consume S now tok s)"

fun chal_run :: "'s challenges \<Rightarrow> (time \<times> chal_op) list \<Rightarrow> 's \<Rightarrow> chal_ans list \<times> 's" where
  "chal_run S [] s = ([], s)"
| "chal_run S (x # xs) s = (case chal_step S x s of (a, s') \<Rightarrow> apfst (Cons a) (chal_run S xs s'))"

text \<open>The same calls on other names for the tickets; the ticket of a call.\<close>

fun chal_rename :: "(string \<Rightarrow> string) \<Rightarrow> chal_op \<Rightarrow> chal_op" where
  "chal_rename f (ChIssue tok u ttl) = ChIssue (f tok) u ttl"
| "chal_rename f (ChPeek tok) = ChPeek (f tok)"
| "chal_rename f (ChFail tok mx) = ChFail (f tok) mx"
| "chal_rename f (ChConsume tok) = ChConsume (f tok)"

fun chal_timed :: "time \<Rightarrow> (time \<times> chal_op) list \<Rightarrow> bool" where
  "chal_timed now [] \<longleftrightarrow> True"
| "chal_timed now ((t, x) # xs) \<longleftrightarrow> now \<le> t \<and> (case x of ChIssue _ _ ttl \<Rightarrow> 0 < ttl | _ \<Rightarrow> True) \<and> chal_timed t xs"

text \<open>Redis with the clock and the next random ticket of the call, and the in-process store.\<close>

definition redis_challenges :: "crypto \<Rightarrow> redis challenges" where
  "redis_challenges C = \<lparr>
     co_issue = (\<lambda>now tok u ttl r. snd (IssueChallenge C u ttl (r\<lparr>rd_now := now, rd_random := [tok]\<rparr>))),
     co_peek = (\<lambda>now tok r. PeekChallenge C tok (r\<lparr>rd_now := now\<rparr>)),
     co_fail = (\<lambda>now tok mx r. FailChallenge C tok mx (r\<lparr>rd_now := now\<rparr>)),
     co_consume = (\<lambda>now tok r. ConsumeChallenge C tok (r\<lparr>rd_now := now\<rparr>))\<rparr>"

definition mem_challenges :: "(int \<times> int) items challenges" where
  "mem_challenges = \<lparr>co_issue = memIssueChallenge, co_peek = memPeek, co_fail = memFail, co_consume = memConsume\<rparr>"

section \<open>The contract\<close>

text \<open>What a store knows of a ticket: its user, the wrong codes it has seen, and when it dies.\<close>

definition live_entry :: "time \<Rightarrow> (int \<times> int \<times> time) option \<Rightarrow> (int \<times> int \<times> time) option" where
  "live_entry now x = (case x of None \<Rightarrow> None | Some (u, f, e) \<Rightarrow> if now < e then Some (u, f, e) else None)"

definition user_ans :: "(int \<times> int \<times> time) option \<Rightarrow> chal_ans" where
  "user_ans x = AnsUser (case x of None \<Rightarrow> Inl ErrChallengeNotFound | Some (u, _) \<Rightarrow> Inr u)"

definition failed_entry :: "int \<Rightarrow> (int \<times> int \<times> time) option \<Rightarrow> (int \<times> int \<times> time) option" where
  "failed_entry mx x = (case x of None \<Rightarrow> None | Some (u, f, e) \<Rightarrow> if mx \<le> f + 1 then None else Some (u, f + 1, e))"

text \<open>The specification: a map from tickets to their entries, which forgets nothing but what a call removes.\<close>

fun abs_step :: "time \<times> chal_op \<Rightarrow> (string \<Rightarrow> (int \<times> int \<times> time) option) \<Rightarrow> chal_ans \<times> (string \<Rightarrow> (int \<times> int \<times> time) option)" where
  "abs_step (now, ChIssue h u ttl) A = (AnsIssued, A(h := Some (u, 0, now + ttl)))"
| "abs_step (now, ChPeek h) A = (user_ans (live_entry now (A h)), A)"
| "abs_step (now, ChFail h mx) A =
     (AnsDead (Inr (failed_entry mx (live_entry now (A h)) = None)), A(h := failed_entry mx (live_entry now (A h))))"
| "abs_step (now, ChConsume h) A = (user_ans (live_entry now (A h)), A(h := None))"

fun abs_run :: "(time \<times> chal_op) list \<Rightarrow> (string \<Rightarrow> (int \<times> int \<times> time) option) \<Rightarrow> chal_ans list \<times> (string \<Rightarrow> (int \<times> int \<times> time) option)" where
  "abs_run [] A = ([], A)"
| "abs_run (x # xs) A = (case abs_step x A of (a, A') \<Rightarrow> apfst (Cons a) (abs_run xs A'))"

text \<open>Wrong codes typed for a ticket under the same limit, and that no call issues it again.\<close>

definition fails_of :: "string \<Rightarrow> int \<Rightarrow> (time \<times> chal_op) list \<Rightarrow> nat" where
  "fails_of h mx xs = length (filter (\<lambda>x. snd x = ChFail h mx) xs)"

fun issues :: "string \<Rightarrow> chal_op \<Rightarrow> bool" where
  "issues h (ChIssue k u ttl) \<longleftrightarrow> h = k"
| "issues h x \<longleftrightarrow> False"

lemma live_mono: "live_entry now x = None \<Longrightarrow> now \<le> t \<Longrightarrow> live_entry t x = None"
  by (auto simp: live_entry_def split: option.splits if_splits)

lemma live_later: "live_entry now x = live_entry now y \<Longrightarrow> now \<le> t \<Longrightarrow> live_entry t x = live_entry t y"
  by (auto simp: live_entry_def split: option.splits if_splits)

lemma live_twice: "now \<le> t \<Longrightarrow> live_entry t (failed_entry mx (live_entry now x)) = live_entry t (failed_entry mx x)"
  by (auto simp: live_entry_def failed_entry_def split: option.splits if_splits)

text \<open>Each wrong code is counted, and the one that reaches the limit removes the ticket.\<close>

lemma abs_counts:
  assumes "list_all (\<lambda>x. \<not> issues h (snd x)) xs" and "\<And>u f e. A h = Some (u, f, e) \<Longrightarrow> int n \<le> f \<and> (0 < n \<longrightarrow> int n < mx)"
    and "snd (abs_run xs A) h = Some (u, f, e)"
  shows "int (n + fails_of h mx xs) \<le> f \<and> (0 < n + fails_of h mx xs \<longrightarrow> int (n + fails_of h mx xs) < mx)"
  using assms
proof (induction xs arbitrary: A n)
  case (Cons x xs)
  obtain t op where x: "x = (t, op)" by (cases x)
  let ?d = "if op = ChFail h mx then 1 else 0"
  obtain a A' where st: "abs_step x A = (a, A')" by (cases "abs_step x A")
  have "\<And>u f e. A' h = Some (u, f, e) \<Longrightarrow> int (n + ?d) \<le> f \<and> (0 < n + ?d \<longrightarrow> int (n + ?d) < mx)"
    using st Cons.prems(1,2) unfolding x
    by (cases op) (auto simp: failed_entry_def live_entry_def split: if_splits option.splits prod.splits)
  moreover from Cons.prems(3) st have "snd (abs_run xs A') h = Some (u, f, e)" by (simp split: prod.splits)
  ultimately have "int (n + ?d + fails_of h mx xs) \<le> f \<and> (0 < n + ?d + fails_of h mx xs \<longrightarrow> int (n + ?d + fails_of h mx xs) < mx)"
    using Cons.prems(1) by (intro Cons.IH [of A' "n + ?d"]) auto
  then show ?case unfolding x fails_of_def by (auto simp: ac_simps split: if_splits)
qed (simp add: fails_of_def)

locale challenge_store =
  fixes S :: "'s challenges" and view :: "'s \<Rightarrow> string \<Rightarrow> (int \<times> int \<times> time) option"
    and key :: "string \<Rightarrow> string" and inv :: "'s \<Rightarrow> bool"
  assumes inv_issue: "inv s \<Longrightarrow> 0 < ttl \<Longrightarrow> inv (co_issue S now tok u ttl s)"
    and inv_peek: "inv s \<Longrightarrow> inv (snd (co_peek S now tok s))"
    and inv_fail: "inv s \<Longrightarrow> inv (snd (co_fail S now tok mx s))"
    and inv_consume: "inv s \<Longrightarrow> inv (snd (co_consume S now tok s))"
    and issue_view: "inv s \<Longrightarrow> 0 < ttl \<Longrightarrow>
      view (co_issue S now tok u ttl s) h = (if h = key tok then Some (u, 0, now + ttl) else view s h)"
    and peek_ans: "inv s \<Longrightarrow> AnsUser (fst (co_peek S now tok s)) = user_ans (live_entry now (view s (key tok)))"
    and peek_view: "inv s \<Longrightarrow> now \<le> t \<Longrightarrow> live_entry t (view (snd (co_peek S now tok s)) h) = live_entry t (view s h)"
    and fail_ans: "inv s \<Longrightarrow> fst (co_fail S now tok mx s) = Inr (failed_entry mx (live_entry now (view s (key tok))) = None)"
    and fail_view: "inv s \<Longrightarrow> now \<le> t \<Longrightarrow> live_entry t (view (snd (co_fail S now tok mx s)) h) =
      live_entry t (if h = key tok then failed_entry mx (live_entry now (view s h)) else view s h)"
    and consume_ans: "inv s \<Longrightarrow> AnsUser (fst (co_consume S now tok s)) = user_ans (live_entry now (view s (key tok)))"
    and consume_view: "inv s \<Longrightarrow> now \<le> t \<Longrightarrow> live_entry t (view (snd (co_consume S now tok s)) h) =
      live_entry t (if h = key tok then None else view s h)"
begin

text \<open>A store in step with the specification from a time on.\<close>

definition in_step :: "time \<Rightarrow> 's \<Rightarrow> (string \<Rightarrow> (int \<times> int \<times> time) option) \<Rightarrow> bool" where
  "in_step now s A \<longleftrightarrow> inv s \<and> (\<forall>t\<ge>now. \<forall>h. live_entry t (view s h) = live_entry t (A h))"

lemma step_abs:
  assumes "in_step now s A" and "chal_timed now [(t, x)]"
  shows "fst (chal_step S (t, x) s) = fst (abs_step (t, chal_rename key x) A)"
    and "in_step t (snd (chal_step S (t, x) s)) (snd (abs_step (t, chal_rename key x) A))"
proof -
  from assms have i: "inv s" and v: "\<And>h t'. t \<le> t' \<Longrightarrow> live_entry t' (view s h) = live_entry t' (A h)"
    by (auto simp: in_step_def)
  show "fst (chal_step S (t, x) s) = fst (abs_step (t, chal_rename key x) A)"
    using i v [of t] by (cases x) (simp_all add: peek_ans fail_ans consume_ans)
  show "in_step t (snd (chal_step S (t, x) s)) (snd (abs_step (t, chal_rename key x) A))"
    using i v assms(2)
    by (cases x) (auto simp: in_step_def inv_issue inv_peek inv_fail inv_consume issue_view peek_view fail_view consume_view)
qed

lemma run_abs:
  "in_step now s A \<Longrightarrow> chal_timed now xs \<Longrightarrow>
   fst (chal_run S xs s) = fst (abs_run (map (apsnd (chal_rename key)) xs) A) \<and>
   (\<exists>t. in_step t (snd (chal_run S xs s)) (snd (abs_run (map (apsnd (chal_rename key)) xs) A)) \<and> t \<le> fold max (map fst xs) now)"
proof (induction xs arbitrary: now s A)
  case (Cons x xs)
  obtain t op where x: "x = (t, op)" by (cases x)
  with Cons.prems have "chal_timed now [(t, op)]" "chal_timed t xs" "now \<le> t" by auto
  note st = step_abs [OF Cons.prems(1) this(1)]
  from Cons.IH [OF st(2) \<open>chal_timed t xs\<close>] st(1) \<open>now \<le> t\<close> show ?case
    unfolding x by (auto simp: case_prod_beta max_def)
qed auto

text \<open>After the wrong codes a ticket allows, it is gone: whatever else happened in between.\<close>

lemma exhausted:
  assumes "inv s" and "chal_timed now xs" and "list_all (\<lambda>x. \<not> issues (key tok) (chal_rename key (snd x))) xs"
    and "\<And>u f e. view s (key tok) = Some (u, f, e) \<Longrightarrow> 0 \<le> f"
    and "mx \<le> int (length (filter (\<lambda>x. snd x = ChFail tok mx) xs))" and "0 < mx" and "fold max (map fst xs) now \<le> t"
  shows "fst (co_consume S t tok (snd (chal_run S xs s))) = Inl ErrChallengeNotFound"
proof -
  let ?ys = "map (apsnd (chal_rename key)) xs"
  have "in_step now s (view s)" using assms(1) by (simp add: in_step_def)
  from run_abs [OF this assms(2)] obtain t' where t': "in_step t' (snd (chal_run S xs s)) (snd (abs_run ?ys (view s)))"
    "t' \<le> fold max (map fst xs) now" by blast
  have "length (filter (\<lambda>x. snd x = ChFail tok mx) xs) \<le> fails_of (key tok) mx ?ys"
    by (induction xs) (auto simp: fails_of_def)
  then have n: "mx \<le> int (fails_of (key tok) mx ?ys)" using assms(5) by linarith
  have "snd (abs_run ?ys (view s)) (key tok) = None"
  proof (rule ccontr)
    assume "snd (abs_run ?ys (view s)) (key tok) \<noteq> None"
    then obtain u f e where "snd (abs_run ?ys (view s)) (key tok) = Some (u, f, e)" by auto
    from abs_counts [OF _ _ this, where n = 0 and mx = mx] assms(3,4,6) n show False by (auto simp: list_all_iff)
  qed
  moreover have "inv (snd (chal_run S xs s))"
    "live_entry t (view (snd (chal_run S xs s)) (key tok)) = live_entry t (snd (abs_run ?ys (view s)) (key tok))"
    using t' assms(7) by (auto simp: in_step_def)
  ultimately show ?thesis using consume_ans [of "snd (chal_run S xs s)" t tok] by (simp add: live_entry_def user_ans_def)
qed

text \<open>A ticket that was consumed is gone.\<close>

lemma consumed:
  assumes "inv s" and "now \<le> t"
  shows "fst (co_consume S t tok (snd (co_consume S now tok s))) = Inl ErrChallengeNotFound"
  using consume_ans [OF inv_consume [OF assms(1)], of t tok now tok] consume_view [OF assms, of tok "key tok"]
  by (simp add: live_entry_def user_ans_def)

end

section \<open>Redis and the in-process store keep the contract\<close>

definition chalKey :: "string \<Rightarrow> string" where
  "chalKey h = ''hatchery:2fa-challenge:'' @ h"

lemma chalKey_inj [simp]: "chalKey h = chalKey h' \<longleftrightarrow> h = h'"
  by (simp add: chalKey_def)

lemma challengeKey_chalKey: "challengeKey C tok = chalKey (cr_sha C tok)"
  by (simp add: challengeKey_def chalKey_def)

definition redis_view :: "redis \<Rightarrow> string \<Rightarrow> (int \<times> int \<times> time) option" where
  "redis_view r h = (case map_of (rd_keys r) (chalKey h) of
     Some (RHash [(_, u), (_, f)], Some t) \<Rightarrow> Some (u, f, t) | _ \<Rightarrow> None)"

definition redis_inv :: "redis \<Rightarrow> bool" where
  "redis_inv r \<longleftrightarrow> rd_fates r = [] \<and> (\<forall>h x. map_of (rd_keys r) (chalKey h) = Some x \<longrightarrow>
     (\<exists>u f t. x = (RHash [(''u'', u), (''f'', f)], Some t) \<and> 0 \<le> f))"

lemma redis_entry:
  assumes "redis_inv r"
  shows "map_of (rd_keys r) (chalKey h) =
    map_option (\<lambda>(u, f, e). (RHash [(''u'', u), (''f'', f)], Some e)) (redis_view r h)"
proof (cases "map_of (rd_keys r) (chalKey h)")
  case (Some x)
  with assms obtain u f t where "x = (RHash [(''u'', u), (''f'', f)], Some t)" unfolding redis_inv_def by blast
  with Some show ?thesis by (simp add: redis_view_def)
qed (simp add: redis_view_def)

lemma redis_look:
  "redis_inv r \<Longrightarrow> look (challengeKey C tok) r =
     map_option (\<lambda>(u, f, e). (RHash [(''u'', u), (''f'', f)], Some e)) (live_entry (rd_now r) (redis_view r (cr_sha C tok)))"
  by (auto simp: look_def challengeKey_chalKey redis_entry unexpired_def live_entry_def split: option.splits)

lemma redis_view_put:
  "redis_view (putKey (challengeKey C tok) (RHash [(''u'', u), (''f'', f)], Some e) r) h =
     (if h = cr_sha C tok then Some (u, f, e) else redis_view r h)"
  by (simp add: redis_view_def putKey_def challengeKey_chalKey update_conv')

lemma redis_view_del: "redis_view (delKey (challengeKey C tok) r) h = (if h = cr_sha C tok then None else redis_view r h)"
  by (simp add: redis_view_def delKey_def challengeKey_chalKey delete_conv')

lemma redis_inv_put:
  "redis_inv r \<Longrightarrow> 0 \<le> f \<Longrightarrow> redis_inv (putKey (challengeKey C tok) (RHash [(''u'', u), (''f'', f)], Some e) r)"
  by (auto simp: redis_inv_def putKey_def challengeKey_chalKey update_conv')

lemma redis_inv_del: "redis_inv r \<Longrightarrow> redis_inv (delKey (challengeKey C tok) r)"
  by (auto simp: redis_inv_def delKey_def challengeKey_chalKey delete_conv')

lemma redis_view_nonneg: "redis_inv r \<Longrightarrow> redis_view r h = Some (u, f, e) \<Longrightarrow> 0 \<le> f"
  using redis_entry [of r h] by (force simp: redis_inv_def)

lemma redis_frame [simp]:
  "redis_inv (r\<lparr>rd_now := t\<rparr>) = redis_inv r" "redis_inv (r\<lparr>rd_random := xs\<rparr>) = redis_inv r"
  "redis_view (r\<lparr>rd_now := t\<rparr>) = redis_view r" "redis_view (r\<lparr>rd_random := xs\<rparr>) = redis_view r"
  by (simp_all add: redis_inv_def redis_view_def fun_eq_iff)

text \<open>Each command on its key, with no failure to come.\<close>

lemma redis_runs:
  assumes "redis_inv r"
  shows "0 < ttl \<Longrightarrow> snd (IssueChallenge C u ttl (r\<lparr>rd_now := now, rd_random := [tok]\<rparr>)) =
      putKey (challengeKey C tok) (RHash [(''u'', u), (''f'', 0)], Some (now + ttl)) (r\<lparr>rd_now := now, rd_random := []\<rparr>)"
    and "PeekChallenge C tok (r\<lparr>rd_now := now\<rparr>) = (case live_entry now (redis_view r (cr_sha C tok)) of
      None \<Rightarrow> Inl ErrChallengeNotFound | Some (u, _) \<Rightarrow> Inr u, r\<lparr>rd_now := now\<rparr>)"
    and "FailChallenge C tok mx (r\<lparr>rd_now := now\<rparr>) = (case live_entry now (redis_view r (cr_sha C tok)) of
      None \<Rightarrow> (Inr True, r\<lparr>rd_now := now\<rparr>)
    | Some (u, f, e) \<Rightarrow> (Inr (mx \<le> f + 1), if mx \<le> f + 1 then delKey (challengeKey C tok) (r\<lparr>rd_now := now\<rparr>)
        else putKey (challengeKey C tok) (RHash [(''u'', u), (''f'', f + 1)], Some e) (r\<lparr>rd_now := now\<rparr>)))"
    and "ConsumeChallenge C tok (r\<lparr>rd_now := now\<rparr>) = (case live_entry now (redis_view r (cr_sha C tok)) of
      None \<Rightarrow> (Inl ErrChallengeNotFound, r\<lparr>rd_now := now\<rparr>) | Some (u, _) \<Rightarrow> (Inr u, delKey (challengeKey C tok) (r\<lparr>rd_now := now\<rparr>)))"
proof -
  from assms have f: "rd_fates r = []" by (simp add: redis_inv_def)
  have l: "look (challengeKey C tok) (r\<lparr>rd_now := now\<rparr>) =
      map_option (\<lambda>(u, f, e). (RHash [(''u'', u), (''f'', f)], Some e)) (live_entry now (redis_view r (cr_sha C tok)))"
    using redis_look [of "r\<lparr>rd_now := now\<rparr>"] assms by simp
  show "0 < ttl \<Longrightarrow> snd (IssueChallenge C u ttl (r\<lparr>rd_now := now, rd_random := [tok]\<rparr>)) =
      putKey (challengeKey C tok) (RHash [(''u'', u), (''f'', 0)], Some (now + ttl)) (r\<lparr>rd_now := now, rd_random := []\<rparr>)"
    using f by (simp add: IssueChallenge_def newTicketValue_def rSet_def cmd_def bindE_def ret_def)
  show "PeekChallenge C tok (r\<lparr>rd_now := now\<rparr>) = (case live_entry now (redis_view r (cr_sha C tok)) of
      None \<Rightarrow> Inl ErrChallengeNotFound | Some (u, _) \<Rightarrow> Inr u, r\<lparr>rd_now := now\<rparr>)"
    using f by (simp add: PeekChallenge_def orNil_def rGet_def cmd_def l bindE_def liftE_def hashField_def split: option.splits)
  show "ConsumeChallenge C tok (r\<lparr>rd_now := now\<rparr>) = (case live_entry now (redis_view r (cr_sha C tok)) of
      None \<Rightarrow> (Inl ErrChallengeNotFound, r\<lparr>rd_now := now\<rparr>) | Some (u, _) \<Rightarrow> (Inr u, delKey (challengeKey C tok) (r\<lparr>rd_now := now\<rparr>)))"
    using f by (simp add: ConsumeChallenge_def orNil_def challengeConsume_def cmd_def l hashField_def split: option.splits)
  have "\<And>u f e. live_entry now (redis_view r (cr_sha C tok)) = Some (u, f, e) \<Longrightarrow> 0 \<le> f"
    using redis_view_nonneg [OF assms] by (auto simp: live_entry_def split: option.splits if_splits)
  then show "FailChallenge C tok mx (r\<lparr>rd_now := now\<rparr>) = (case live_entry now (redis_view r (cr_sha C tok)) of
      None \<Rightarrow> (Inr True, r\<lparr>rd_now := now\<rparr>)
    | Some (u, f, e) \<Rightarrow> (Inr (mx \<le> f + 1), if mx \<le> f + 1 then delKey (challengeKey C tok) (r\<lparr>rd_now := now\<rparr>)
        else putKey (challengeKey C tok) (RHash [(''u'', u), (''f'', f + 1)], Some e) (r\<lparr>rd_now := now\<rparr>)))"
    using f by (fastforce simp: FailChallenge_def challengeFail_def cmd_def l bindE_def ret_def Let_def split: option.splits)
qed

interpretation redis_store: challenge_store "redis_challenges C" redis_view "cr_sha C" redis_inv for C
proof (unfold_locales, goal_cases)
  case (3 s now tok mx)
  then show ?case using redis_view_nonneg [OF 3, of "cr_sha C tok"]
    by (auto simp: redis_challenges_def redis_runs redis_inv_put redis_inv_del live_entry_def split: option.splits)
qed (auto simp: redis_challenges_def redis_runs redis_inv_put redis_inv_del redis_view_put redis_view_del user_ans_def
  failed_entry_def live_entry_def split: option.splits if_splits)

definition mem_view :: "(int \<times> int) items \<Rightarrow> string \<Rightarrow> (int \<times> int \<times> time) option" where
  "mem_view m h = map_option (\<lambda>((u, f), e). (u, f, e)) (map_of m h)"

lemma mem_view_update: "mem_view (AList.update k ((u, f), e) m) h = (if h = k then Some (u, f, e) else mem_view m h)"
  "mem_view (AList.delete k m) h = (if h = k then None else mem_view m h)"
  by (auto simp: mem_view_def update_conv' delete_conv')

lemma liveItem_eq: "liveItem now k m = (case live_entry now (mem_view m k) of
    None \<Rightarrow> (None, AList.delete k m) | Some (u, f, e) \<Rightarrow> (Some ((u, f), e), m))"
  by (auto simp: liveItem_def live_entry_def mem_view_def split: option.splits)

lemmas mem_defs = mem_challenges_def memIssueChallenge_def memPeek_def memFail_def memConsume_def liveItem_eq mem_view_update
  user_ans_def failed_entry_def live_entry_def

interpretation mem_store: challenge_store mem_challenges mem_view id "\<lambda>_. True"
  by unfold_locales (auto simp: mem_defs split: option.splits if_splits)

section \<open>What the panel relies on\<close>

text \<open>Redis as the panel starts with it: no ticket yet, and no failure to come.\<close>

definition fresh_redis :: "redis \<Rightarrow> bool" where
  "fresh_redis r \<longleftrightarrow> rd_fates r = [] \<and> list_all (\<lambda>(k, _). take 23 k \<noteq> ''hatchery:2fa-challenge:'') (rd_keys r)"

lemma fresh_redis_inv: "fresh_redis r \<Longrightarrow> redis_inv r \<and> redis_view r = (\<lambda>_. None)"
proof -
  assume f: "fresh_redis r"
  have "map_of (rd_keys r) (chalKey h) = None" for h
    using f by (force simp: fresh_redis_def map_of_eq_None_iff list_all_iff chalKey_def)
  with f show ?thesis by (auto simp: redis_inv_def redis_view_def fresh_redis_def fun_eq_iff)
qed

text \<open>
  C20: The store the panel uses for the tickets between the two steps of a login (Redis, with its two scripts) answers
  every sequence of calls as the in-process store of the tests does on the hashes of the tickets: what the tests
  of the login establish on the one holds for the other.
\<close>

theorem challenge_stores_agree:
  assumes "fresh_redis r" and "chal_timed now xs"
  shows "fst (chal_run (redis_challenges C) xs r) =
    fst (chal_run mem_challenges (map (apsnd (chal_rename (cr_sha C))) xs) [])"
proof -
  have same: "map (apsnd (chal_rename id)) ys = ys" for ys :: "(time \<times> chal_op) list"
  proof -
    have "chal_rename id = id"
    proof
      fix x show "chal_rename id x = id x" by (cases x) auto
    qed
    then show ?thesis by simp
  qed
  have timed: "chal_timed now (map (apsnd (chal_rename f)) xs)" for f using assms(2)
    by (induction now xs rule: chal_timed.induct) (auto split: chal_op.splits)
  from fresh_redis_inv [OF assms(1)] have "redis_store.in_step now r (\<lambda>_. None)" by (simp add: redis_store.in_step_def)
  moreover have "mem_store.in_step now [] (\<lambda>_. None)" by (simp add: mem_store.in_step_def mem_view_def)
  ultimately show ?thesis
    using redis_store.run_abs [where C = C and now = now and xs = xs] assms(2)
      mem_store.run_abs [OF _ timed, of "[]" "\<lambda>_. None" "cr_sha C"] by (simp add: same del: map_map)
qed

text \<open>
  C23: A login ticket is worth at most five guesses: once five wrong codes were counted against it, in whatever order with
  other calls for this and other tickets, it cannot be exchanged for a session any more.
\<close>

theorem ticket_guesses_bounded:
  assumes "redis_inv r" and "chal_timed now xs" and "5 \<le> length (filter (\<lambda>x. snd x = ChFail ticket 5) xs)"
    and "list_all (\<lambda>x. \<not> issues (cr_sha C ticket) (chal_rename (cr_sha C) (snd x))) xs"
    and "fold max (map fst xs) now \<le> t"
  shows "fst (ConsumeChallenge C ticket ((snd (chal_run (redis_challenges C) xs r))\<lparr>rd_now := t\<rparr>)) = Inl ErrChallengeNotFound"
  using redis_store.exhausted [of r now xs C ticket 5 t] assms redis_view_nonneg [OF assms(1)]
  by (simp add: redis_challenges_def)

section \<open>A sample\<close>

definition one_ticket :: redis where
  "one_ticket = snd (IssueChallenge sample_crypto 7 (5 * minute) \<lparr>rd_keys = [], rd_now = 0, rd_fates = [], rd_random = [''ticket'']\<rparr>)"

definition five_guesses :: "(time \<times> chal_op) list" where
  "five_guesses = (1, ChIssue ''other'' 8 60) # map (\<lambda>t. (t, ChFail ''ticket'' 5)) [1, 2, 3, 4, 5]"

theorem challenge_stores_agree_witness:
  "fst (chal_run (redis_challenges sample_crypto) five_guesses \<lparr>rd_keys = [], rd_now = 0, rd_fates = [], rd_random = []\<rparr>) =
    fst (chal_run mem_challenges (map (apsnd (chal_rename (cr_sha sample_crypto))) five_guesses) [])"
  by (rule challenge_stores_agree [of _ 0]) (simp_all add: fresh_redis_def five_guesses_def)

theorem ticket_guesses_bounded_witness:
  "redis_view one_ticket (cr_sha sample_crypto ''ticket'') = Some (7, 0, 5 * minute) \<and>
   fst (ConsumeChallenge sample_crypto ''ticket''
     ((snd (chal_run (redis_challenges sample_crypto) five_guesses one_ticket))\<lparr>rd_now := 6\<rparr>)) = Inl ErrChallengeNotFound"
proof -
  let ?r = "\<lparr>rd_keys = [], rd_now = 0, rd_fates = [], rd_random = [''ticket'']\<rparr>"
  have r: "one_ticket = putKey (challengeKey sample_crypto ''ticket'') (RHash [(''u'', 7), (''f'', 0)], Some (5 * minute)) (?r\<lparr>rd_random := []\<rparr>)"
    by (simp add: one_ticket_def IssueChallenge_def newTicketValue_def rSet_def cmd_def bindE_def ret_def minute_def second_def)
  have "redis_inv (?r\<lparr>rd_random := []\<rparr>)" by (simp add: redis_inv_def)
  then have "redis_inv one_ticket" unfolding r by (intro redis_inv_put) simp_all
  moreover have "redis_view one_ticket (cr_sha sample_crypto ''ticket'') = Some (7, 0, 5 * minute)" unfolding r by (simp add: redis_view_put)
  ultimately show ?thesis
    using ticket_guesses_bounded [of one_ticket 0 five_guesses "''ticket''" sample_crypto 6] by (simp add: five_guesses_def sample_crypto_def)
qed

end
