(* ===== verification/Go_Encoding.thy ===== *)
theory Go_Encoding
  imports Go_Strings
begin

text \<open>
  What the panel uses of \<open>encoding/base64\<close>, \<open>encoding/base32\<close> and \<open>net/url\<close>, over strings of bytes.
\<close>

section \<open>Base 64\<close>

definition b64Std :: string where
  "b64Std = ''ABCDEFGHIJKLMNOPQRSTUVWXYZabcdefghijklmnopqrstuvwxyz0123456789+/''"

definition byteOf :: "char \<Rightarrow> nat" where
  "byteOf c = of_char c"

definition b64Char :: "nat \<Rightarrow> char" where
  "b64Char n = b64Std ! n"

text \<open>Three bytes are four digits; the last group is padded.\<close>

fun b64Encode :: "string \<Rightarrow> string" where
  "b64Encode (a # b # c # s) = b64Char (byteOf a div 4) # b64Char (byteOf a mod 4 * 16 + byteOf b div 16)
     # b64Char (byteOf b mod 16 * 4 + byteOf c div 64) # b64Char (byteOf c mod 64) # b64Encode s"
| "b64Encode [a, b] = [b64Char (byteOf a div 4), b64Char (byteOf a mod 4 * 16 + byteOf b div 16), b64Char (byteOf b mod 16 * 4), CHR ''='']"
| "b64Encode [a] = [b64Char (byteOf a div 4), b64Char (byteOf a mod 4 * 16), CHR ''='', CHR ''='']"
| "b64Encode [] = []"

definition b64Val :: "char \<Rightarrow> nat option" where
  "b64Val c = (if isUpperA c then Some (byteOf c - 65) else if isLowerA c then Some (byteOf c - 71)
     else if isDigit c then Some (byteOf c + 4) else if c = CHR ''+'' then Some 62 else if c = CHR ''/'' then Some 63 else None)"

text \<open>Line ends are skipped; anything else outside the alphabet, a short last group or padding before the end is an error.\<close>

fun b64Groups :: "string \<Rightarrow> string option" where
  "b64Groups [] = Some []"
| "b64Groups (a # b # c # d # s) = (case (b64Val a, b64Val b) of
     (Some x, Some y) \<Rightarrow>
       if c = CHR ''='' then (if d = CHR ''='' \<and> s = [] then Some [char_of (x * 4 + y div 16)] else None)
       else (case b64Val c of None \<Rightarrow> None
         | Some z \<Rightarrow>
           if d = CHR ''='' then (if s = [] then Some [char_of (x * 4 + y div 16), char_of (y mod 16 * 16 + z div 4)] else None)
           else (case b64Val d of None \<Rightarrow> None
             | Some v \<Rightarrow> map_option (\<lambda>r. char_of (x * 4 + y div 16) # char_of (y mod 16 * 16 + z div 4) # char_of (z mod 4 * 64 + v) # r)
                 (b64Groups s)))
   | _ \<Rightarrow> None)"
| "b64Groups _ = None"

definition b64Decode :: "string \<Rightarrow> string option" where
  "b64Decode s = b64Groups (filter (\<lambda>c. c \<noteq> CHR 0x0A \<and> c \<noteq> CHR 0x0D) s)"

section \<open>Base 32\<close>

definition b32Std :: string where "b32Std = ''ABCDEFGHIJKLMNOPQRSTUVWXYZ234567''"

definition bits8 :: "char \<Rightarrow> bool list" where
  "bits8 c = map (\<lambda>i. odd (byteOf c div 2 ^ i)) [7, 6, 5, 4, 3, 2, 1, 0]"

fun bitsVal :: "nat \<Rightarrow> bool list \<Rightarrow> nat" where
  "bitsVal n [] = n"
| "bitsVal n (b # bs) = bitsVal (2 * n + (if b then 1 else 0)) bs"

text \<open>Five bits a digit, the last one filled with zeros; without padding.\<close>

fun b32Bits :: "bool list \<Rightarrow> string" where
  "b32Bits (a # b # c # d # e # bs) = b32Std ! bitsVal 0 [a, b, c, d, e] # b32Bits bs"
| "b32Bits [] = []"
| "b32Bits bs = [b32Std ! bitsVal 0 (take 5 (bs @ replicate 4 False))]"

definition b32Encode :: "string \<Rightarrow> string" where
  "b32Encode s = b32Bits (concat (map bits8 s))"

section \<open>URLs\<close>

definition unreserved :: "char \<Rightarrow> bool" where
  "unreserved c \<longleftrightarrow> isLowerA c \<or> isUpperA c \<or> isDigit c \<or> c \<in> {CHR ''-'', CHR ''_'', CHR ''.'', CHR ''~''}"

definition percent :: "char \<Rightarrow> string" where
  "percent c = CHR ''%'' # toUpper (if byteOf c < 16 then ''0'' @ formatNat 16 (byteOf c) else formatNat 16 (byteOf c))"

definition queryEscape :: "string \<Rightarrow> string" where
  "queryEscape s = concat (map (\<lambda>c. if unreserved c then [c] else if c = CHR '' '' then ''+'' else percent c) s)"

definition pathEscape :: "string \<Rightarrow> string" where
  "pathEscape s = concat (map (\<lambda>c. if unreserved c \<or> c \<in> {CHR ''$'', CHR ''&'', CHR ''+'', CHR '':'', CHR ''='', CHR ''@''} then [c] else percent c) s)"

section \<open>What is encoded can be decoded\<close>

lemma byteOf_less: "byteOf c < 256"
  by (simp add: byteOf_def)

lemma char_of_byteOf [simp]: "char_of (byteOf c) = c"
  by (simp add: byteOf_def)

lemma b64Val_b64Char: "n < 64 \<Longrightarrow> b64Val (b64Char n) = Some n \<and> b64Char n \<noteq> CHR ''='' \<and> b64Char n \<noteq> CHR 0x0A \<and> b64Char n \<noteq> CHR 0x0D"
proof -
  assume n: "n < 64"
  have v: "map b64Val b64Std = map Some [0..<64]" by code_simp
  have l: "length b64Std = 64" by (simp add: b64Std_def)
  from n l have "b64Val (b64Std ! n) = map b64Val b64Std ! n" by simp
  also have "\<dots> = Some n" unfolding v using n by simp
  finally show ?thesis by (auto simp: b64Char_def b64Val_def isUpperA_def isLowerA_def isDigit_def split: if_splits)
qed

text \<open>The digits of the bytes, and the bytes of the digits.\<close>

lemma digit_bounds:
  "byteOf a div 4 < 64" "byteOf a mod 4 * 16 + byteOf b div 16 < 64" "byteOf b mod 16 * 4 + byteOf c div 64 < 64" "byteOf c mod 64 < 64"
  "byteOf a mod 4 * 16 < 64" "byteOf b mod 16 * 4 < 64"
proof -
  have d: "byteOf b div 16 < 16" "byteOf c div 64 < 4" using byteOf_less [of b] byteOf_less [of c] by (simp_all add: div_less_iff_less_mult)
  have m: "byteOf a mod 4 < 4" "byteOf b mod 16 < 16" by simp_all
  show "byteOf a div 4 < 64" using byteOf_less [of a] by (simp add: div_less_iff_less_mult)
  show "byteOf a mod 4 * 16 + byteOf b div 16 < 64" "byteOf a mod 4 * 16 < 64" using d(1) m(1) by linarith+
  show "byteOf b mod 16 * 4 + byteOf c div 64 < 64" "byteOf b mod 16 * 4 < 64" using d(2) m(2) by linarith+
qed simp

lemma digit_joins:
  "byteOf b div 16 div 16 = 0" "byteOf c div 64 div 4 = 0"
  "byteOf b div 16 mod 16 * 16 + byteOf b mod 16 = byteOf b" "byteOf c div 64 mod 4 * 64 + byteOf c mod 64 = byteOf c"
proof -
  have d: "byteOf b div 16 < 16" "byteOf c div 64 < 4" using byteOf_less [of b] byteOf_less [of c] by (simp_all add: div_less_iff_less_mult)
  then show "byteOf b div 16 div 16 = 0" "byteOf c div 64 div 4 = 0" by simp_all
  from d show "byteOf b div 16 mod 16 * 16 + byteOf b mod 16 = byteOf b" "byteOf c div 64 mod 4 * 64 + byteOf c mod 64 = byteOf c"
    by (simp_all only: mod_less div_mult_mod_eq)
qed

lemma b64Encode_clean: "filter (\<lambda>c. c \<noteq> CHR 0x0A \<and> c \<noteq> CHR 0x0D) (b64Encode s) = b64Encode s"
  by (induction s rule: b64Encode.induct) (simp_all add: b64Val_b64Char digit_bounds)

lemma b64Groups_encode: "b64Groups (b64Encode s) = Some s"
  by (induction s rule: b64Encode.induct) (simp_all add: b64Val_b64Char digit_bounds digit_joins)

lemma b64Decode_encode: "b64Decode (b64Encode s) = Some s"
  by (simp add: b64Decode_def b64Encode_clean b64Groups_encode)

end
