(* ===== verification/Two_Factor.thy ===== *)
theory Two_Factor
  imports Go_Encoding Panel_Db "HOL-Library.Signed_Division"
begin

text \<open>
  The second factor (\<open>internal/twofactor\<close>): the secrets encrypted at rest, the recovery codes, and the check of a one-time
  code. AES-GCM and the code of a step (\<open>totp.GenerateCodeCustom\<close>) are parameters; random bytes are a list of what the
  random source gives.
\<close>

section \<open>Secrets at rest (\<open>cipher.go\<close>)\<close>

record aead =
  ad_nonce_size :: nat
  ad_overhead :: nat
  ad_seal :: "string \<Rightarrow> string \<Rightarrow> string" \<comment> \<open>nonce, plain text\<close>
  ad_open :: "string \<Rightarrow> string \<Rightarrow> string option"

definition Encrypt :: "aead \<Rightarrow> string \<Rightarrow> string \<Rightarrow> string" where
  "Encrypt A nonce plain = b64Encode (nonce @ ad_seal A nonce plain)"

definition Decrypt :: "aead \<Rightarrow> string \<Rightarrow> go_err + string" where
  "Decrypt A enc = (case b64Decode enc of None \<Rightarrow> Inl (MsgErr (Msg ''illegal base64 data'' []))
   | Some raw \<Rightarrow>
     if length raw < ad_nonce_size A + ad_overhead A then Inl (MsgErr (Msg ''ciphertext too short'' []))
     else case ad_open A (take (ad_nonce_size A) raw) (drop (ad_nonce_size A) raw) of
       None \<Rightarrow> Inl (MsgErr (Msg ''cipher: message authentication failed'' [])) | Some plain \<Rightarrow> Inr plain)"

section \<open>Recovery codes (\<open>recovery.go\<close>)\<close>

definition RecoveryCodeCount :: nat where "RecoveryCodeCount = 10"

definition base32C :: "char \<Rightarrow> bool" where
  "base32C c \<longleftrightarrow> isLowerA c \<or> c \<in> set ''234567''"

text \<open>\<open>^[a-z2-7]{5}-?[a-z2-7]{5}$\<close>.\<close>

definition recoveryFormat :: "string \<Rightarrow> bool" where
  "recoveryFormat s \<longleftrightarrow> list_all base32C (take 5 s) \<and>
     (length s = 10 \<and> list_all base32C (drop 5 s) \<or> length s = 11 \<and> s ! 5 = CHR ''-'' \<and> list_all base32C (drop 6 s))"

definition normalizeRecovery :: "string \<Rightarrow> string" where
  "normalizeRecovery code = filter (\<lambda>c. c \<noteq> CHR ''-'') (toLower (trimSpace code))"

definition HashRecoveryCode :: "crypto \<Rightarrow> string \<Rightarrow> string" where
  "HashRecoveryCode C code = cr_sha C (normalizeRecovery code)"

definition IsRecoveryCode :: "string \<Rightarrow> bool" where
  "IsRecoveryCode code = recoveryFormat (toLower (trimSpace code))"

text \<open>Each element of the random source is seven bytes; one that gives a code already drawn is skipped.\<close>

fun drawCodes :: "string list \<Rightarrow> string list \<Rightarrow> (string list \<times> string list) option" where
  "drawCodes plain random = (if RecoveryCodeCount \<le> length plain then Some (plain, random)
     else case random of [] \<Rightarrow> None
       | b # rest \<Rightarrow> let s = take 10 (toLower (b32Encode b)); code = take 5 s @ ''-'' @ drop 5 s in
           if code \<in> set plain then drawCodes plain rest else drawCodes (plain @ [code]) rest)"

declare drawCodes.simps [simp del]

definition NewRecoveryCodes :: "crypto \<Rightarrow> string list \<Rightarrow> (go_err + string list \<times> string list) \<times> string list" where
  "NewRecoveryCodes C random = (case drawCodes [] random of
     None \<Rightarrow> (Inl (MsgErr (Msg ''rand'' [])), []) | Some (plain, rest) \<Rightarrow> (Inr (plain, map (HashRecoveryCode C) plain), rest))"

section \<open>One-time codes (\<open>totp.go\<close>)\<close>

definition Issuer :: string where "Issuer = ''Hatchery''"
definition period :: int where "period = 30"

definition NewSecret :: "string \<Rightarrow> string" where
  "NewSecret bytes = b32Encode bytes"

text \<open>\<open>url.Values.Encode\<close> writes the keys in order.\<close>

definition OTPAuthURL :: "string \<Rightarrow> string \<Rightarrow> string" where
  "OTPAuthURL username secret = ''otpauth://totp/'' @ pathEscape (Issuer @ '':'' @ username) @
     ''?algorithm=SHA1&digits=6&issuer='' @ queryEscape Issuer @ ''&period=30&secret='' @ queryEscape secret"

text \<open>The code of a secret at a Unix time, when it can be made; the current step, the one before, and the next.\<close>

definition Verify :: "(string \<Rightarrow> int \<Rightarrow> string option) \<Rightarrow> string \<Rightarrow> string \<Rightarrow> time \<Rightarrow> int option" where
  "Verify codeAt secret code0 now = (let code = trimSpace code0; step = unix now sdiv period in
     if length code \<noteq> 6 then None
     else find (\<lambda>s. codeAt secret (s * period) = Some code) [step, step - 1, step + 1])"

section \<open>Properties\<close>

text \<open>
  A secret encrypted at rest decrypts to itself, for every nonce and every length, given what AES-GCM promises: a sealed text
  opens under its nonce, and is longer than the plain text by the overhead.
\<close>

theorem Decrypt_Encrypt:
  assumes "length nonce = ad_nonce_size A" and "ad_open A nonce (ad_seal A nonce plain) = Some plain"
    and "ad_overhead A \<le> length (ad_seal A nonce plain)"
  shows "Decrypt A (Encrypt A nonce plain) = Inr plain"
  using assms by (simp add: Decrypt_def Encrypt_def b64Decode_encode)

lemma drawCodes_distinct:
  "drawCodes plain random = Some (codes, rest) \<Longrightarrow> distinct plain \<Longrightarrow> length plain \<le> RecoveryCodeCount \<Longrightarrow>
   distinct codes \<and> length codes = RecoveryCodeCount"
proof (induction plain random rule: drawCodes.induct)
  case (1 plain random)
  show ?case
  proof (cases "RecoveryCodeCount \<le> length plain")
    case True with 1(3-5) show ?thesis by (simp add: drawCodes.simps [of plain random])
  next
    case False
    then obtain b r where r: "random = b # r" using 1(3) by (cases random) (simp_all add: drawCodes.simps [of plain "[]"])
    let ?s = "take 10 (toLower (b32Encode b))"
    let ?code = "take 5 ?s @ ''-'' @ drop 5 ?s"
    show ?thesis
    proof (cases "?code \<in> set plain")
      case True
      with False r 1(3) have "drawCodes plain r = Some (codes, rest)" by (simp add: drawCodes.simps [of plain "b # r"] Let_def)
      from 1(1) [OF False r refl refl True this 1(4,5)] show ?thesis .
    next
      case new: False
      with False r 1(3) have "drawCodes (plain @ [?code]) r = Some (codes, rest)" by (simp add: drawCodes.simps [of plain "b # r"] Let_def)
      from 1(2) [OF False r refl refl new this] new 1(4) False show ?thesis by simp
    qed
  qed
qed

text \<open>A code that is accepted was the code of its own step, and the step is within one of now.\<close>

lemma Verify_step:
  "Verify codeAt secret code now = Some s \<Longrightarrow> codeAt secret (s * period) = Some (trimSpace code) \<and> \<bar>s - unix now sdiv period\<bar> \<le> 1"
  by (auto simp: Verify_def Let_def find_Some_iff split: if_splits)

text \<open>An authenticated encryption that promises no more than the hypotheses: a tag of two characters in front.\<close>

definition sample_aead :: aead where
  "sample_aead = \<lparr>ad_nonce_size = 3, ad_overhead = 2, ad_seal = (\<lambda>n p. ''ok'' @ p),
     ad_open = (\<lambda>n c. if take 2 c = ''ok'' then Some (drop 2 c) else None)\<rparr>"

lemma Decrypt_Encrypt_witness: "Decrypt sample_aead (Encrypt sample_aead ''abc'' ''JBSWY3DP'') = Inr ''JBSWY3DP''"
  by (rule Decrypt_Encrypt) (simp_all add: sample_aead_def)

end
