(* ===== verification/Panel_Http.thy ===== *)
theory Panel_Http
  imports Panel_Accounts Panel_Cache Two_Factor Go_Net Go_Strconv Kube_Client
begin

text \<open>
  How the panel serves a request: the request as a handler reads it, the answers it writes, and the state it runs
  in: the cluster behind the Kubernetes client, the database, Redis and the random source (\<open>internal/panelapi/server.go\<close>,
  \<open>json.go\<close>, \<open>clientip.go\<close>, \<open>audit.go\<close>, \<open>mail.go\<close>). A handler returns its answer and the next state; between any two
  calls to the database other requests may run (\<open>hw_others\<close>). What \<open>encoding/json\<close> makes of a body is an argument of
  its handler: the error, or the decoded value.
\<close>

section \<open>Requests and answers\<close>

record request =
  rq_auth :: string \<comment> \<open>the \<open>Authorization\<close> header\<close>
  rq_remote :: string
  rq_forwarded :: string \<comment> \<open>the \<open>X-Forwarded-For\<close> header\<close>
  rq_query :: "(string \<times> string) list"
  rq_internal :: "(user \<times> string) option" \<comment> \<open>the user and the origin of a request made by \<open>dispatch\<close>\<close>

datatype json = JNull | JBool bool | JInt int | JStr string | JMsg msg | JTime time
  | JGameServer gameserver | JBackup backup | JRestore restore | JSchedule schedule | JEgg egg
  | JArr "json list" | JObj "(string \<times> json) list"

record reply =
  rp_status :: nat
  rp_headers :: "(string \<times> string) list"
  rp_body :: "json option"

text \<open>The state of the panel's process and what it talks to.\<close>

record 'w hw =
  hw_env :: 'w
  hw_db :: pdb
  hw_cache :: redis
  hw_random :: "string list" \<comment> \<open>what \<open>crypto/rand\<close> gives next\<close>
  hw_others :: "(pdb \<Rightarrow> pdb) list"

type_synonym 'w handler = "'w hw \<Rightarrow> reply \<times> 'w hw"

text \<open>Mail: what is rendered and to whom. The renderer and the transport are one parameter.\<close>

datatype mail_kind = KindInvitation | KindPasswordReset | KindEmailChange | KindEmailChangeNotice
  | KindAlert string \<comment> \<open>an alert, by its name\<close>

record mail =
  ml_to :: string
  ml_locale :: string
  ml_kind :: mail_kind
  ml_link :: string
  ml_fields :: "(string \<times> string) list"

text \<open>The fields of the server a handler uses.\<close>

record 'w server =
  sv_k :: "'w k8s"
  sv_crypto :: crypto
  sv_trusted :: "ipnet list"
  sv_audit_days :: int
  sv_limits :: login_limits
  sv_two_factor :: "aead option" \<comment> \<open>\<open>None\<close> when the panel has no encryption key\<close>
  sv_totp :: "string \<Rightarrow> int \<Rightarrow> string option" \<comment> \<open>the code of a secret at a Unix time\<close>
  sv_challenges :: bool \<comment> \<open>\<open>LoginChallenges\<close> is set\<close>
  sv_pending :: bool \<comment> \<open>\<open>PendingSecrets\<close> is set\<close>
  sv_send :: "(mail \<Rightarrow> ('w, unit) io) option"
  sv_public_url :: string
  sv_parse_address :: "string \<Rightarrow> (string \<times> string) option" \<comment> \<open>name and address\<close>
  sv_discord :: bool

section \<open>Steps of a handler\<close>

definition answer :: "reply \<Rightarrow> 'w handler" where
  "answer r = (\<lambda>w. (r, w))"

text \<open>The next of the other requests, before a call to the database.\<close>

definition turn :: "'w hw \<Rightarrow> 'w hw" where
  "turn w = (case hw_others w of [] \<Rightarrow> w | f # fs \<Rightarrow> w\<lparr>hw_db := f (hw_db w), hw_others := fs\<rparr>)"

text \<open>A call, what to do with its error, and what to do with its result.\<close>

definition callD :: "'a db \<Rightarrow> (go_err \<Rightarrow> 'w handler) \<Rightarrow> ('a \<Rightarrow> 'w handler) \<Rightarrow> 'w handler" where
  "callD m bad good = (\<lambda>w. let v = turn w in case m (hw_db v) of
     (Inl e, d) \<Rightarrow> bad e (v\<lparr>hw_db := d\<rparr>) | (Inr x, d) \<Rightarrow> good x (v\<lparr>hw_db := d\<rparr>))"

definition callK :: "('w, 'a) io \<Rightarrow> (go_err \<Rightarrow> 'w handler) \<Rightarrow> ('a \<Rightarrow> 'w handler) \<Rightarrow> 'w handler" where
  "callK m bad good = (\<lambda>w. case m (hw_env w) of
     (Inl e, k) \<Rightarrow> bad e (w\<lparr>hw_env := k\<rparr>) | (Inr x, k) \<Rightarrow> good x (w\<lparr>hw_env := k\<rparr>))"

definition callR :: "'a cached \<Rightarrow> (go_err \<Rightarrow> 'w handler) \<Rightarrow> ('a \<Rightarrow> 'w handler) \<Rightarrow> 'w handler" where
  "callR m bad good = (\<lambda>w. case m (hw_cache w) of
     (Inl e, c) \<Rightarrow> bad e (w\<lparr>hw_cache := c\<rparr>) | (Inr x, c) \<Rightarrow> good x (w\<lparr>hw_cache := c\<rparr>))"

definition callRand :: "(string list \<Rightarrow> (go_err + 'a) \<times> string list) \<Rightarrow> (go_err \<Rightarrow> 'w handler) \<Rightarrow> ('a \<Rightarrow> 'w handler) \<Rightarrow> 'w handler" where
  "callRand f bad good = (\<lambda>w. case f (hw_random w) of
     (Inl e, r) \<Rightarrow> bad e (w\<lparr>hw_random := r\<rparr>) | (Inr x, r) \<Rightarrow> good x (w\<lparr>hw_random := r\<rparr>))"

definition randBytes :: "string list \<Rightarrow> (go_err + string) \<times> string list" where
  "randBytes r = (case r of [] \<Rightarrow> (Inl (MsgErr (Msg ''rand'' [])), []) | x # xs \<Rightarrow> (Inr x, xs))"

definition readEnv :: "('w \<Rightarrow> 'a) \<Rightarrow> ('a \<Rightarrow> 'w handler) \<Rightarrow> 'w handler" where
  "readEnv f k = (\<lambda>w. k (f (hw_env w)) w)"

section \<open>Answers (\<open>json.go\<close>)\<close>

definition errText :: "go_err \<Rightarrow> msg" where
  "errText e = Msg ''%v'' [AErr e]"

definition writeJSON :: "nat \<Rightarrow> json \<Rightarrow> 'w handler" where
  "writeJSON status v = answer \<lparr>rp_status = status, rp_headers = [(''Content-Type'', ''application/json'')], rp_body = Some v\<rparr>"

definition writeError :: "nat \<Rightarrow> msg \<Rightarrow> 'w handler" where
  "writeError status m = writeJSON status (JObj [(''error'', JMsg m)])"

definition writeErrorCode :: "nat \<Rightarrow> string \<Rightarrow> msg \<Rightarrow> 'w handler" where
  "writeErrorCode status code m = writeJSON status (JObj [(''error'', JMsg m), (''code'', JStr code)])"

definition writeHeader :: "nat \<Rightarrow> 'w handler" where
  "writeHeader status = answer \<lparr>rp_status = status, rp_headers = [], rp_body = None\<rparr>"

definition withHeader :: "string \<Rightarrow> string \<Rightarrow> 'w handler \<Rightarrow> 'w handler" where
  "withHeader k v h = (\<lambda>w. apfst (\<lambda>r. r\<lparr>rp_headers := (k, v) # rp_headers r\<rparr>) (h w))"

abbreviation refuse :: "nat \<Rightarrow> string \<Rightarrow> 'w handler" where
  "refuse status s \<equiv> writeError status (Msg s [])"

abbreviation internalError :: "go_err \<Rightarrow> 'w handler" where
  "internalError e \<equiv> writeError 500 (errText e)"

definition badJSON :: "go_err \<Rightarrow> 'w handler" where
  "badJSON e = writeError 400 (Msg ''invalid JSON body: %v'' [AErr e])"

text \<open>The API errors the model does not tell apart are named by their reason.\<close>

definition statusFor :: "go_err \<Rightarrow> nat" where
  "statusFor e = (case api_cause e of
     Some ENotFound \<Rightarrow> 404
   | Some EAlreadyExists \<Rightarrow> 409
   | Some (EOtherApi r) \<Rightarrow> if r = ''Conflict'' then 409 else if r = ''Invalid'' \<or> r = ''BadRequest'' then 422
       else if r = ''Forbidden'' then 403 else 500
   | None \<Rightarrow> 500)"

section \<open>The client's address (\<open>clientip.go\<close>)\<close>

fun parseProxies :: "string list \<Rightarrow> string + ipnet list" where
  "parseProxies [] = Inr []"
| "parseProxies (part # parts) = (let p = trimSpace part in
     if p = [] then parseProxies parts
     else case ParseCIDR p of None \<Rightarrow> Inl p
       | Some n \<Rightarrow> (case parseProxies parts of Inl e \<Rightarrow> Inl e | Inr ns \<Rightarrow> Inr (n # ns)))"

definition ParseCIDRs :: "string \<Rightarrow> string + ipnet list" where
  "ParseCIDRs csv = parseProxies (splitOn CHR '','' csv)"

definition inNets :: "ip \<Rightarrow> ipnet list \<Rightarrow> bool" where
  "inNets i nets = list_ex (\<lambda>n. Contains n i) nets"

text \<open>The entries are walked from the last to the first.\<close>

fun firstUntrusted :: "string \<Rightarrow> ipnet list \<Rightarrow> string list \<Rightarrow> string" where
  "firstUntrusted host trusted [] = host"
| "firstUntrusted host trusted (e # es) = (case ParseIP (trimSpace e) of None \<Rightarrow> host
     | Some i \<Rightarrow> if \<not> inNets i trusted then ipString i else firstUntrusted host trusted es)"

definition clientIP :: "request \<Rightarrow> ipnet list \<Rightarrow> string" where
  "clientIP r trusted =
     (let host = (case SplitHostPort (rq_remote r) of Inl _ \<Rightarrow> rq_remote r | Inr (h, _) \<Rightarrow> h) in
      case ParseIP host of None \<Rightarrow> host
      | Some peer \<Rightarrow> if trusted = [] \<or> \<not> inNets peer trusted then host
          else firstUntrusted host trusted (rev (splitOn CHR '','' (rq_forwarded r))))"

section \<open>The audit trail (\<open>audit.go\<close>)\<close>

definition forbiddenMetaKeys :: "string list" where
  "forbiddenMetaKeys = [''password'', ''token'', ''ticket'', ''secret'', ''content'']"

fun containsStr :: "string \<Rightarrow> string \<Rightarrow> bool" where
  "containsStr [] t \<longleftrightarrow> t = []"
| "containsStr (c # cs) t \<longleftrightarrow> hasPrefix (c # cs) t \<or> containsStr cs t"

definition truncateStr :: "string \<Rightarrow> nat \<Rightarrow> string" where
  "truncateStr s n = (if length s \<le> n then s else take n s)"

definition forbiddenKey :: "string \<Rightarrow> bool" where
  "forbiddenKey k = list_ex (containsStr (toLower k)) forbiddenMetaKeys"

text \<open>\<open>json.Marshal\<close> of a map of strings: keys in order, text escaped as \<open>encoding/json\<close> does (text beyond ASCII is copied).\<close>

definition jsonChar :: "char \<Rightarrow> string" where
  "jsonChar c = (if c = CHR 0x22 \<or> c = CHR 0x5C then [CHR 0x5C, c]
     else if c = CHR 0x08 then [CHR 0x5C, CHR ''b''] else if c = CHR 0x0C then [CHR 0x5C, CHR ''f'']
     else if c = CHR 0x0A then [CHR 0x5C, CHR ''n''] else if c = CHR 0x0D then [CHR 0x5C, CHR ''r'']
     else if c = CHR 0x09 then [CHR 0x5C, CHR ''t'']
     else if of_char c < (0x20 :: nat) \<or> c \<in> {CHR ''<'', CHR ''>'', CHR ''&''} then
       CHR 0x5C # ''u00'' @ (if of_char c < (0x10 :: nat) then ''0'' else []) @ formatNat 16 (of_char c)
     else [c])"

definition jsonString :: "string \<Rightarrow> string" where
  "jsonString s = CHR 0x22 # concat (map jsonChar s) @ [CHR 0x22]"

definition jsonMap :: "(string \<times> string) list \<Rightarrow> string" where
  "jsonMap m = ''{'' @ joinWith CHR '','' (map (\<lambda>(k, v). jsonString k @ '':'' @ jsonString v) (sort_key fst m)) @ ''}''"

definition sanitizeMeta :: "(string \<times> string) list \<Rightarrow> string" where
  "sanitizeMeta meta = (let clean = map (apsnd (\<lambda>v. truncateStr v 512)) (filter (\<lambda>(k, v). \<not> forbiddenKey k) meta) in
     if clean = [] then [] else jsonMap clean)"

definition withVia :: "request \<Rightarrow> (string \<times> string) list \<Rightarrow> (string \<times> string) list" where
  "withVia r meta = (case rq_internal r of None \<Rightarrow> meta
     | Some (_, via) \<Rightarrow> if via = [] then meta else AList.update ''via'' via meta)"

text \<open>A failure to record is only logged.\<close>

definition writeAudit :: "audit_event \<Rightarrow> 'w handler \<Rightarrow> 'w handler" where
  "writeAudit e next = callD (RecordAudit e) (\<lambda>_. next) (\<lambda>_. next)"

definition maxLoggedUsername :: nat where "maxLoggedUsername = 128"

definition auditEventAs :: "'w server \<Rightarrow> request \<Rightarrow> user option \<Rightarrow> string \<Rightarrow> string \<Rightarrow> string \<Rightarrow> string \<Rightarrow> string \<Rightarrow>
    (string \<times> string) list \<Rightarrow> 'w handler \<Rightarrow> 'w handler" where
  "auditEventAs S r actor orgSlug action targetType targetName outcome meta next = writeAudit
     \<lparr>ae_org_slug = orgSlug, ae_actor = map_option us_id actor,
      ae_actor_name = (case actor of None \<Rightarrow> ''unknown'' | Some u \<Rightarrow> us_username u), ae_action = action,
      ae_target_type = targetType, ae_target = truncateStr targetName maxLoggedUsername, ae_outcome = outcome,
      ae_ip = clientIP r (sv_trusted S), ae_meta = sanitizeMeta (withVia r meta)\<rparr> next"

definition auditEvent :: "'w server \<Rightarrow> request \<Rightarrow> user option \<Rightarrow> string \<Rightarrow> string \<Rightarrow> string \<Rightarrow> string \<Rightarrow> string \<Rightarrow>
    (string \<times> string) list \<Rightarrow> 'w handler \<Rightarrow> 'w handler" where
  "auditEvent S r ctxUser orgSlug action targetType targetName outcome meta next =
     auditEventAs S r ctxUser orgSlug action targetType targetName outcome meta next"

section \<open>Mail (\<open>mail.go\<close>)\<close>

definition mailEnabled :: "'w server \<Rightarrow> bool" where
  "mailEnabled S \<longleftrightarrow> sv_send S \<noteq> None \<and> sv_public_url S \<noteq> []"

definition trimRightC :: "char \<Rightarrow> string \<Rightarrow> string" where
  "trimRightC c s = rev (dropWhile (\<lambda>x. x = c) (rev s))"

definition pageLink :: "'w server \<Rightarrow> string \<Rightarrow> string \<Rightarrow> string" where
  "pageLink S page token = trimRightC CHR ''/'' (sv_public_url S) @ ''/'' @ page @ ''#token='' @ queryEscape token"

definition sendMail :: "'w server \<Rightarrow> string \<Rightarrow> string \<Rightarrow> mail_kind \<Rightarrow> string \<Rightarrow> (string \<times> string) list \<Rightarrow> ('w, unit) io" where
  "sendMail S recipient locale kind link info = (case sv_send S of None \<Rightarrow> throw (MsgErr (Msg ''no mailer'' []))
     | Some f \<Rightarrow> f \<lparr>ml_to = recipient, ml_locale = locale, ml_kind = kind, ml_link = link, ml_fields = info\<rparr>)"

end
