(* ===== verification/Panel_Access.thy ===== *)
theory Panel_Access
  imports Panel_Http
begin

text \<open>
  Who may do what (\<open>internal/panelapi/auth.go\<close>, \<open>orgauth.go\<close>, \<open>permissions.go\<close>, \<open>security.go\<close>, and the wrappers of
  \<open>server.go\<close> and \<open>audit.go\<close>). A wrapper takes the handler it protects, which gets from it what the source puts in
  the request's context: the user, and the access to the organization.
\<close>

section \<open>Sessions\<close>

definition headerToken :: "request \<Rightarrow> string" where
  "headerToken r = (case splitN2 (rq_auth r) CHR '' '' of
     [scheme, token] \<Rightarrow> if scheme = ''Bearer'' then token else [] | _ \<Rightarrow> [])"

definition unauthorized :: "string \<Rightarrow> 'w handler" where
  "unauthorized m = withHeader ''WWW-Authenticate'' ''Bearer'' (refuse 401 m)"

definition authenticate :: "'w server \<Rightarrow> (user \<Rightarrow> 'w handler) \<Rightarrow> (request \<Rightarrow> string) \<Rightarrow> request \<Rightarrow> 'w handler" where
  "authenticate S next extractToken r = (case rq_internal r of Some (u, _) \<Rightarrow> next u
   | None \<Rightarrow>
     let token = extractToken r in
     if token = [] then unauthorized ''missing bearer token''
     else callD (ValidateSession (sv_crypto S) token) (\<lambda>_. unauthorized ''invalid or expired session'') next)"

definition requireAuth :: "'w server \<Rightarrow> (user \<Rightarrow> 'w handler) \<Rightarrow> request \<Rightarrow> 'w handler" where
  "requireAuth S next r = authenticate S next headerToken r"

definition optionalUser :: "'w server \<Rightarrow> request \<Rightarrow> (user option \<Rightarrow> 'w handler) \<Rightarrow> 'w handler" where
  "optionalUser S r k = (let token = headerToken r in
     if token = [] then k None
     else callD (ValidateSession (sv_crypto S) token) (\<lambda>_. k None) (\<lambda>u. k (Some u)))"

section \<open>Two-factor requirements (\<open>security.go\<close>)\<close>

definition settingRequireAdmin2FA :: string where "settingRequireAdmin2FA = ''require_2fa_admins''"

text \<open>These answer to their caller, who decides what an error means.\<close>

definition adminNeeds2FA :: "user \<Rightarrow> bool db" where
  "adminNeeds2FA u = (if \<not> us_admin u \<or> us_two_factor u then ret False
     else bindE (GetSetting settingRequireAdmin2FA) (\<lambda>v. ret (v = ''true'')))"

definition twoFactorBlocked :: "user \<Rightarrow> org \<Rightarrow> bool db" where
  "twoFactorBlocked u g = (if us_two_factor u then ret False else if og_require2fa g then ret True else adminNeeds2FA u)"

definition twoFactorRequiredMsg :: string where
  "twoFactorRequiredMsg = ''two-factor authentication is required here; turn it on under My account''"

section \<open>Administrators\<close>

definition requireAdminWith :: "'w server \<Rightarrow> (user \<Rightarrow> 'w handler) \<Rightarrow> bool \<Rightarrow> request \<Rightarrow> 'w handler" where
  "requireAdminWith S next enforce2FA r = requireAuth S (\<lambda>u.
     if \<not> us_admin u then refuse 403 ''admin access required''
     else if enforce2FA then
       callD (adminNeeds2FA u) internalError (\<lambda>needs.
         if needs then writeErrorCode 403 ''two_factor_required'' (Msg twoFactorRequiredMsg []) else next u)
     else next u) r"

definition requireAdmin :: "'w server \<Rightarrow> (user \<Rightarrow> 'w handler) \<Rightarrow> request \<Rightarrow> 'w handler" where
  "requireAdmin S next r = requireAdminWith S next True r"

section \<open>Access to an organization (\<open>orgauth.go\<close>)\<close>

record org_access =
  ac_org :: org
  ac_role :: role
  ac_grants :: "grant list"

text \<open>
  The access, or the status and text of the refusal. The calls to the database are made one by one, so the caller
  is the continuation.
\<close>

definition accessInRole :: "user \<Rightarrow> role \<Rightarrow> org \<Rightarrow> role \<Rightarrow> (nat \<Rightarrow> msg \<Rightarrow> 'w handler) \<Rightarrow> (org_access \<Rightarrow> 'w handler) \<Rightarrow> 'w handler" where
  "accessInRole u mn g r deny allow =
     (if \<not> AtLeast r mn then deny 403 (Msg ''insufficient role in this organization'' [])
      else if r = RoleMember then
        callD (ListMemberGrants (og_id g) (us_id u)) (\<lambda>e. deny 500 (errText e)) (\<lambda>grants.
          allow \<lparr>ac_org = g, ac_role = r, ac_grants = grants\<rparr>)
      else allow \<lparr>ac_org = g, ac_role = r, ac_grants = []\<rparr>)"

text \<open>After the membership check: a non-member still gets 404.\<close>

definition accessUnlessBlocked ::
    "user \<Rightarrow> role \<Rightarrow> bool \<Rightarrow> org \<Rightarrow> role \<Rightarrow> (nat \<Rightarrow> msg \<Rightarrow> 'w handler) \<Rightarrow> (org_access \<Rightarrow> 'w handler) \<Rightarrow> 'w handler" where
  "accessUnlessBlocked u mn enforce2FA g r deny allow =
     (if enforce2FA then
        callD (twoFactorBlocked u g) (\<lambda>e. deny 500 (errText e)) (\<lambda>blocked.
          if blocked then deny 403 (Msg twoFactorRequiredMsg []) else accessInRole u mn g r deny allow)
      else accessInRole u mn g r deny allow)"

definition resolveOrgAccessWith ::
    "user \<Rightarrow> string \<Rightarrow> role \<Rightarrow> bool \<Rightarrow> (nat \<Rightarrow> msg \<Rightarrow> 'w handler) \<Rightarrow> (org_access \<Rightarrow> 'w handler) \<Rightarrow> 'w handler" where
  "resolveOrgAccessWith u slug mn enforce2FA deny allow =
     callD (GetOrgBySlug slug)
       (\<lambda>e. if e = DbErr DbNotFound then deny 404 (Msg ''organization not found'' []) else deny 500 (errText e)) (\<lambda>g.
     if us_admin u then accessUnlessBlocked u mn enforce2FA g RoleOwner deny allow
     else callD (GetMembership (og_id g) (us_id u))
       (\<lambda>e. if e = DbErr DbNotFound then deny 404 (Msg ''organization not found'' []) else deny 500 (errText e))
       (\<lambda>r. accessUnlessBlocked u mn enforce2FA g r deny allow))"

definition resolveOrgAccess :: "user \<Rightarrow> string \<Rightarrow> role \<Rightarrow> (nat \<Rightarrow> msg \<Rightarrow> 'w handler) \<Rightarrow> (org_access \<Rightarrow> 'w handler) \<Rightarrow> 'w handler" where
  "resolveOrgAccess u slug mn deny allow = resolveOrgAccessWith u slug mn True deny allow"

definition writeOrgAccessError :: "nat \<Rightarrow> msg \<Rightarrow> 'w handler" where
  "writeOrgAccessError status m =
     (if m = Msg twoFactorRequiredMsg [] then writeErrorCode status ''two_factor_required'' m else writeError status m)"

text \<open>The protected handler gets the user and the access; the namespace is that of the organization.\<close>

definition requireOrgRole :: "'w server \<Rightarrow> role \<Rightarrow> (user \<Rightarrow> org_access \<Rightarrow> 'w handler) \<Rightarrow> request \<Rightarrow> string \<Rightarrow> 'w handler" where
  "requireOrgRole S mn next r slug = requireAuth S (\<lambda>u. resolveOrgAccess u slug mn writeOrgAccessError (next u)) r"

section \<open>Access to a server (\<open>permissions.go\<close>)\<close>

definition Effective :: "org_access \<Rightarrow> string \<Rightarrow> string list option" where
  "Effective a server =
     (if AtLeast (ac_role a) RoleAdmin then Some AllPermissions
      else let gs = filter (\<lambda>g. gn_gameserver g = AllServers \<or> gn_gameserver g = server) (ac_grants a) in
        if gs = [] then None
        else Some (filter (\<lambda>p. p \<in> set (concat (map gn_permissions gs))) AllPermissions))"

definition Sees :: "org_access \<Rightarrow> string \<Rightarrow> bool" where
  "Sees a server \<longleftrightarrow> Effective a server \<noteq> None"

definition Can :: "org_access \<Rightarrow> string \<Rightarrow> string \<Rightarrow> bool" where
  "Can a server p \<longleftrightarrow> (case Effective a server of None \<Rightarrow> False | Some qs \<Rightarrow> list_ex (\<lambda>q. q = p) qs)"

definition requireServerPermission :: "string \<Rightarrow> 'w handler \<Rightarrow> org_access \<Rightarrow> string \<Rightarrow> 'w handler" where
  "requireServerPermission p next acc server =
     (if \<not> Sees acc server then refuse 404 ''game server not found''
      else if p \<noteq> [] \<and> \<not> Can acc server p then refuse 403 (''you do not have the '' @ p @ '' permission on this server'')
      else next)"

section \<open>The outcome in the audit trail (\<open>audited\<close>)\<close>

definition outcomeOf :: "nat \<Rightarrow> string" where
  "outcomeOf status = (if status = 401 \<or> status = 403 then ''denied'' else if 400 \<le> status then ''failed'' else ''success'')"

definition audited :: "'w server \<Rightarrow> request \<Rightarrow> string \<Rightarrow> user \<Rightarrow> org_access \<Rightarrow> string \<Rightarrow> 'w handler \<Rightarrow> 'w handler" where
  "audited S r action u acc name next = (\<lambda>w. case next w of (rep, w') \<Rightarrow>
     auditEvent S r (Some u) (og_slug (ac_org acc)) action ''gameserver'' name (outcomeOf (rp_status rep)) [] (answer rep) w')"

text \<open>The routes of \<open>server.go\<close> for organizations; an empty action is not audited.\<close>

definition orgRoute :: "'w server \<Rightarrow> request \<Rightarrow> string \<Rightarrow> role \<Rightarrow> string \<Rightarrow> string \<Rightarrow> (user \<Rightarrow> org_access \<Rightarrow> 'w handler) \<Rightarrow> 'w handler" where
  "orgRoute S r slug mn action name h = requireOrgRole S mn (\<lambda>u acc.
     if action = [] then h u acc else audited S r action u acc name (h u acc)) r slug"

section \<open>Handlers of \<open>security.go\<close>\<close>

text \<open>A field with \<open>omitempty\<close>.\<close>

definition omitStr :: "string \<Rightarrow> string \<Rightarrow> (string \<times> json) list" where
  "omitStr k v = (if v = [] then [] else [(k, JStr v)])"

definition formatBool :: "bool \<Rightarrow> string" where
  "formatBool b = (if b then ''true'' else ''false'')"

definition securityJSON :: "bool \<Rightarrow> bool \<Rightarrow> (string \<times> json) list \<Rightarrow> json" where
  "securityJSON req blocked rest = JObj ([(''require2fa'', JBool req), (''blocked'', JBool blocked)] @ rest)"

definition handleGetOrgSecurity :: "user \<Rightarrow> string \<Rightarrow> 'w handler" where
  "handleGetOrgSecurity u slug = resolveOrgAccessWith u slug RoleMember False writeError (\<lambda>acc.
     callD (twoFactorBlocked u (ac_org acc)) internalError (\<lambda>blocked.
     let resp = securityJSON (og_require2fa (ac_org acc)) blocked in
     if AtLeast (ac_role acc) RoleAdmin \<and> \<not> blocked then
       callD (CountMembersWithout2FA (og_id (ac_org acc))) internalError (\<lambda>n.
         writeJSON 200 (resp [(''membersWithout2fa'', JInt (int n))]))
     else writeJSON 200 (resp [])))"

definition handlePutOrgSecurity :: "'w server \<Rightarrow> request \<Rightarrow> go_err + bool option \<Rightarrow> user \<Rightarrow> org_access \<Rightarrow> 'w handler" where
  "handlePutOrgSecurity S r body u acc = (case body of
       Inr (Some req) \<Rightarrow>
         if \<not> us_two_factor u then refuse 409 ''turn on your own two-factor authentication before changing this''
         else callD (SetOrgRequire2FA (og_id (ac_org acc)) req) internalError (\<lambda>_.
           auditEvent S r (Some u) (og_slug (ac_org acc)) ''org.security.update'' ''org'' (og_slug (ac_org acc)) ''success''
             [(''require2fa'', formatBool req)]
             (writeJSON 200 (securityJSON req False [])))
     | _ \<Rightarrow> refuse 400 ''body must be {\"require2fa\": true|false}'')"

definition platformSecurityJSON :: "bool \<Rightarrow> bool \<Rightarrow> json" where
  "platformSecurityJSON req blocked = JObj [(''requireAdminTwoFactor'', JBool req), (''blocked'', JBool blocked)]"

definition handleGetPlatformSecurity :: "user \<Rightarrow> 'w handler" where
  "handleGetPlatformSecurity u = callD (GetSetting settingRequireAdmin2FA) internalError (\<lambda>v.
     let reply = (\<lambda>needs. writeJSON 200 (platformSecurityJSON (v = ''true'') needs)) in
     callD (adminNeeds2FA u) (\<lambda>_. reply False) reply)"

definition handlePutPlatformSecurity :: "'w server \<Rightarrow> request \<Rightarrow> go_err + bool option \<Rightarrow> user \<Rightarrow> 'w handler" where
  "handlePutPlatformSecurity S r body u = (case body of
       Inr (Some req) \<Rightarrow>
         if \<not> us_two_factor u then refuse 409 ''turn on your own two-factor authentication before changing this''
         else callD (SetSetting settingRequireAdmin2FA (formatBool req)) internalError (\<lambda>_.
           auditEvent S r (Some u) [] ''platform.security.update'' ''platform'' ''security'' ''success''
             [(''requireAdminTwoFactor'', formatBool req)]
             (writeJSON 200 (platformSecurityJSON req False)))
     | _ \<Rightarrow> refuse 400 ''body must be {\"requireAdminTwoFactor\": true|false}'')"

section \<open>Reading the audit trail (\<open>serveAudit\<close>)\<close>

definition queryGet :: "request \<Rightarrow> string \<Rightarrow> string" where
  "queryGet r k = (case map_of (rq_query r) k of None \<Rightarrow> [] | Some v \<Rightarrow> v)"

definition defaultAuditLimit :: int where "defaultAuditLimit = 50"
definition maxAuditLimit :: int where "maxAuditLimit = 200"

definition auditJSON :: "audit_row \<Rightarrow> json" where
  "auditJSON a = (let e = ar_event a in JObj ([(''id'', JInt (audit_row.ar_id a))] @ omitStr ''orgSlug'' (ae_org_slug e) @
     (case ae_actor e of None \<Rightarrow> [] | Some u \<Rightarrow> [(''actorUserId'', JInt u)]) @
     [(''actorUsername'', JStr (ae_actor_name e)), (''action'', JStr (ae_action e))] @
     omitStr ''targetType'' (ae_target_type e) @ omitStr ''targetName'' (ae_target e) @ [(''outcome'', JStr (ae_outcome e))] @
     omitStr ''ip'' (ae_ip e) @ omitStr ''metadata'' (ae_meta e) @ [(''createdAt'', JTime (ar_created a))]))"

definition serveAudit :: "'w server \<Rightarrow> request \<Rightarrow> string \<Rightarrow> 'w handler" where
  "serveAudit S r orgSlug =
     (let limitText = queryGet r ''limit''; beforeText = queryGet r ''before'';
          limit = (if limitText = [] then Some defaultAuditLimit
                   else case atoi limitText of Inl _ \<Rightarrow> None | Inr n \<Rightarrow> if n < 1 then None else Some (min n maxAuditLimit));
          before = (if beforeText = [] then Some 0
                    else case parseInt 64 beforeText of Inl _ \<Rightarrow> None | Inr n \<Rightarrow> if n < 0 then None else Some n) in
      case limit of None \<Rightarrow> refuse 400 ''limit must be a positive integer''
      | Some n \<Rightarrow>
        (case before of None \<Rightarrow> refuse 400 ''before must be a non-negative integer''
         | Some b \<Rightarrow>
           callD (ListAudit orgSlug (nat n) b) internalError (\<lambda>events.
           let page = (\<lambda>days. writeJSON 200 (JObj [(''events'', JArr (map auditJSON events)),
                 (''nextBefore'', if int (length events) = n then JInt (audit_row.ar_id (last events)) else JNull),
                 (''retentionDays'', JInt days)])) in
           if orgSlug \<noteq> [] then
             callK (r_get (k_tenant (sv_k S)) [] orgSlug) (\<lambda>_. page (sv_audit_days S)) (\<lambda>t.
               page (case tq_audit_days (tn_quota t) of None \<Rightarrow> sv_audit_days S | Some d \<Rightarrow> d))
           else page (sv_audit_days S))))"

definition handleListOrgAudit :: "'w server \<Rightarrow> request \<Rightarrow> org_access \<Rightarrow> 'w handler" where
  "handleListOrgAudit S r acc = serveAudit S r (og_slug (ac_org acc))"

definition handleListPlatformAudit :: "'w server \<Rightarrow> request \<Rightarrow> 'w handler" where
  "handleListPlatformAudit S r = serveAudit S r []"

end
