(* ===== verification/Panel_Profile.thy ===== *)
theory Panel_Profile
  imports Go_Strings Go_Strconv Panel_Users Kube_Client
begin

text \<open>
  What the panel accepts as a name, an address, a password or a profile (\<open>internal/panelapi/profile.go\<close>), and the names it
  makes for servers (\<open>slug.go\<close>).
\<close>

section \<open>Accounts\<close>

definition asciiAlnum :: "char \<Rightarrow> bool" where
  "asciiAlnum c \<longleftrightarrow> isLowerA c \<or> isUpperA c \<or> isDigit c"

text \<open>The regular expressions: a class of characters and a range of lengths.\<close>

definition matches :: "(char \<Rightarrow> bool) \<Rightarrow> nat \<Rightarrow> nat \<Rightarrow> string \<Rightarrow> bool" where
  "matches p lo hi s \<longleftrightarrow> list_all p s \<and> lo \<le> length s \<and> length s \<le> hi"

definition usernameRE :: "string \<Rightarrow> bool" where
  "usernameRE = matches (\<lambda>c. asciiAlnum c \<or> c \<in> {CHR ''.'', CHR ''_'', CHR ''-''}) 2 32"

definition discordRE :: "string \<Rightarrow> bool" where
  "discordRE = matches (\<lambda>c. isLowerA c \<or> isDigit c \<or> c \<in> {CHR ''_'', CHR ''.''}) 2 32"

definition minecraftRE :: "string \<Rightarrow> bool" where
  "minecraftRE = matches (\<lambda>c. asciiAlnum c \<or> c = CHR ''_'') 3 16"

definition steamIDRE :: "string \<Rightarrow> bool" where
  "steamIDRE s \<longleftrightarrow> hasPrefix s ''7656119'' \<and> length s = 17 \<and> list_all isDigit s"

definition fieldError :: "string \<Rightarrow> go_err" where
  "fieldError s = MsgErr (Msg s [])"

text \<open>\<open>mail.ParseAddress\<close> gives the display name and the address.\<close>

definition validateEmail :: "(string \<Rightarrow> (string \<times> string) option) \<Rightarrow> string \<Rightarrow> go_err + string" where
  "validateEmail parse s0 = (let s = trimSpace s0 in
     case parse s of None \<Rightarrow> Inl (fieldError ''invalid e-mail address'')
     | Some (name, addr) \<Rightarrow> if name \<noteq> [] \<or> addr \<noteq> s then Inl (fieldError ''invalid e-mail address'') else Inr (NormalizeEmail s))"

definition validatePassword :: "string \<Rightarrow> go_err + unit" where
  "validatePassword p = (if length p < 8 \<or> 72 < length p then Inl (fieldError ''password must be 8 to 72 bytes long'') else Inr ())"

definition quoted :: "string \<Rightarrow> string" where
  "quoted s = CHR 0x27 # s @ [CHR 0x27]"

definition validateUsername :: "string \<Rightarrow> go_err + unit" where
  "validateUsername u = (if \<not> usernameRE u
     then Inl (fieldError (''username must be 2 to 32 characters: letters, digits, '' @ quoted ''.'' @ '', '' @ quoted ''_'' @
       '' or '' @ quoted ''-'')) else Inr ())"

text \<open>
  \<open>utf8.RuneCountInString\<close> of valid UTF-8, which is what \<open>encoding/json\<close> decodes to: the bytes that do not continue a rune.
\<close>

definition runeCount :: "string \<Rightarrow> nat" where
  "runeCount s = length (filter (\<lambda>c. \<not> (128 \<le> (of_char c :: nat) \<and> (of_char c :: nat) < 192)) s)"

definition maxDisplayNameRunes :: nat where "maxDisplayNameRunes = 64"

definition panelDisplayName :: "string \<Rightarrow> go_err + unit" where
  "panelDisplayName name =
     (if maxDisplayNameRunes < runeCount name
      then Inl (MsgErr (Msg ''displayName must have at most %d characters'' [AInt (int maxDisplayNameRunes)]))
      else if hasControl name then Inl (fieldError ''displayName must not contain control characters'')
      else Inr ())"

definition validateProfile :: "klib \<Rightarrow> profile \<Rightarrow> go_err + unit" where
  "validateProfile L p = (case panelDisplayName (pf_display_name p) of Inl e \<Rightarrow> Inl e
   | Inr _ \<Rightarrow>
     if pf_locale p \<noteq> [] \<and> pf_locale p \<noteq> ''pt-BR'' \<and> pf_locale p \<noteq> ''en'' then Inl (fieldError ''locale must be \"\", \"pt-BR\" or \"en\"'')
     else if pf_time_zone p \<noteq> [] \<and> (\<not> lib_time_zone L (pf_time_zone p) \<or> pf_time_zone p = ''Local'')
     then Inl (MsgErr (Msg ''unknown time zone %q'' [AStr (pf_time_zone p)]))
     else if pf_discord p \<noteq> [] \<and> \<not> discordRE (pf_discord p)
     then Inl (fieldError (''discord must be a Discord username: 2 to 32 lowercase letters, digits, '' @ quoted ''_'' @ '' or '' @ quoted ''.''))
     else if pf_minecraft p \<noteq> [] \<and> \<not> minecraftRE (pf_minecraft p)
     then Inl (fieldError (''minecraft username must be 3 to 16 letters, digits or '' @ quoted ''_''))
     else if pf_steam p \<noteq> [] \<and> \<not> steamIDRE (pf_steam p) then Inl (fieldError ''steam id must be a 17-digit SteamID64'')
     else Inr ())"

section \<open>Names of servers (\<open>slug.go\<close>)\<close>

definition maxSlugLen :: nat where "maxSlugLen = 50"

text \<open>The Unicode tables: the decomposed runes of the name in lower case, and which of them are marks.\<close>

record unicode =
  un_nfd_lower :: "string \<Rightarrow> nat list"
  un_mark :: "nat \<Rightarrow> bool"

definition slugRune :: "nat \<Rightarrow> bool" where
  "slugRune r \<longleftrightarrow> 97 \<le> r \<and> r \<le> 122 \<or> 48 \<le> r \<and> r \<le> 57"

text \<open>The loop over the runes: what is written, and whether the last thing written is a dash.\<close>

fun slugLoop :: "unicode \<Rightarrow> bool \<Rightarrow> nat list \<Rightarrow> string" where
  "slugLoop U lastDash [] = []"
| "slugLoop U lastDash (r # rs) =
     (if un_mark U r then slugLoop U lastDash rs
      else if slugRune r then char_of r # slugLoop U False rs
      else if \<not> lastDash then CHR ''-'' # slugLoop U True rs
      else slugLoop U lastDash rs)"

definition trimRightDash :: "string \<Rightarrow> string" where
  "trimRightDash s = rev (dropWhile (\<lambda>c. c = CHR ''-'') (rev s))"

definition slugify :: "unicode \<Rightarrow> string \<Rightarrow> string" where
  "slugify U name = (let s = trimRightDash (dropWhile (\<lambda>c. c = CHR ''-'') (slugLoop U True (un_nfd_lower U name))) in
     if s = [] then ''server''
     else let s1 = (if isDigit (hd s) then ''server-'' @ s else s) in
       if maxSlugLen < length s1 then trimRightDash (take maxSlugLen s1) else s1)"

definition slugCand :: "string \<Rightarrow> nat \<Rightarrow> string" where
  "slugCand base i = base @ ''-'' @ formatNat 10 i"

lemma formatNat_inj: "formatNat 10 m = formatNat 10 n \<Longrightarrow> m = n"
  using parseDigits_formatNat [of m "max m n"] parseDigits_formatNat [of n "max m n"] by (metis max.cobounded1 max.cobounded2 sum.inject(2))

lemma slugCand_inj: "slugCand base i = slugCand base j \<longleftrightarrow> i = j"
  by (auto simp: slugCand_def dest: formatNat_inj)

function uniqueFrom :: "string \<Rightarrow> string list \<Rightarrow> nat \<Rightarrow> string" where
  "uniqueFrom base taken i = (if slugCand base i \<notin> set taken then slugCand base i else uniqueFrom base taken (i + 1))"
  by auto

termination
proof (relation "measure (\<lambda>(base, taken, i). card {j. i \<le> j \<and> slugCand base j \<in> set taken})")
  fix base taken and i :: nat
  assume t: "\<not> slugCand base i \<notin> set taken"
  have "inj_on (slugCand base) {j. i \<le> j \<and> slugCand base j \<in> set taken}" by (simp add: inj_on_def slugCand_inj)
  moreover have "slugCand base ` {j. i \<le> j \<and> slugCand base j \<in> set taken} \<subseteq> set taken" by auto
  ultimately have "finite {j. i \<le> j \<and> slugCand base j \<in> set taken}" by (metis List.finite_set inj_on_finite)
  moreover have "{j. i + 1 \<le> j \<and> slugCand base j \<in> set taken} \<subset> {j. i \<le> j \<and> slugCand base j \<in> set taken}"
  proof (rule psubsetI)
    have "i \<in> {j. i \<le> j \<and> slugCand base j \<in> set taken}" "i \<notin> {j. i + 1 \<le> j \<and> slugCand base j \<in> set taken}" using t by auto
    then show "{j. i + 1 \<le> j \<and> slugCand base j \<in> set taken} \<noteq> {j. i \<le> j \<and> slugCand base j \<in> set taken}" by metis
  qed auto
  ultimately show "((base, taken, i + 1), (base, taken, i)) \<in> measure (\<lambda>(base, taken, i). card {j. i \<le> j \<and> slugCand base j \<in> set taken})"
    by (simp add: psubset_card_mono)
qed simp

declare uniqueFrom.simps [simp del]

definition uniqueSlug :: "string \<Rightarrow> string list \<Rightarrow> string" where
  "uniqueSlug base taken = (if base \<notin> set taken then base else uniqueFrom base taken 2)"

section \<open>Properties of names\<close>

definition slugC :: "char \<Rightarrow> bool" where
  "slugC c \<longleftrightarrow> isLowerA c \<or> isDigit c \<or> c = CHR ''-''"

lemma slugRune_char: "slugRune r \<Longrightarrow> slugC (char_of r)"
  by (auto simp: slugRune_def slugC_def isLowerA_def isDigit_def)

lemma slugLoop_chars: "c \<in> set (slugLoop U b rs) \<Longrightarrow> slugC c"
  by (induction U b rs rule: slugLoop.induct) (auto simp: slugRune_char slugC_def [of "CHR ''-''"] split: if_splits)

lemma hd_not_dash: "dropWhile (\<lambda>c. c = d) xs \<noteq> [] \<Longrightarrow> hd (dropWhile (\<lambda>c. c = d) xs) \<noteq> d"
  by (induction xs) auto

lemma trimRightDash_prefix: "\<exists>ds. s = trimRightDash s @ ds \<and> set ds \<subseteq> {CHR ''-''}"
proof -
  have "rev s = takeWhile (\<lambda>c. c = CHR ''-'') (rev s) @ dropWhile (\<lambda>c. c = CHR ''-'') (rev s)" by simp
  then have "s = trimRightDash s @ rev (takeWhile (\<lambda>c. c = CHR ''-'') (rev s))"
    unfolding trimRightDash_def by (metis rev_append rev_rev_ident)
  moreover have "set (rev (takeWhile (\<lambda>c. c = CHR ''-'') (rev s))) \<subseteq> {CHR ''-''}" by (auto dest: set_takeWhileD)
  ultimately show ?thesis by blast
qed

lemma trimRightDash_last: "trimRightDash s \<noteq> [] \<Longrightarrow> last (trimRightDash s) \<noteq> CHR ''-''"
  unfolding trimRightDash_def last_rev rev_is_Nil_conv by (rule hd_not_dash)

lemma trimRightDash_facts:
  assumes "s \<noteq> []" and "hd s \<noteq> CHR ''-''"
  shows "trimRightDash s \<noteq> []" "hd (trimRightDash s) = hd s" "length (trimRightDash s) \<le> length s" "set (trimRightDash s) \<subseteq> set s"
proof -
  obtain ds where d: "s = trimRightDash s @ ds" "set ds \<subseteq> {CHR ''-''}" using trimRightDash_prefix by blast
  show ne: "trimRightDash s \<noteq> []"
  proof
    assume "trimRightDash s = []"
    with d assms(1) have "s = ds" "hd s \<in> set ds" by auto
    with d(2) assms(2) show False by blast
  qed
  then show "hd (trimRightDash s) = hd s" using d(1) by (metis hd_append2)
  show "length (trimRightDash s) \<le> length s" "set (trimRightDash s) \<subseteq> set s"
    using arg_cong [OF d(1), of length] arg_cong [OF d(1), of set] by auto
qed

text \<open>
  The name the panel makes from any display name is a DNS label of at most fifty characters: it starts with a letter, ends
  with a letter or a digit, and has only lower-case letters, digits and dashes.
\<close>

theorem slugify_label:
  "slugify U name \<noteq> [] \<and> length (slugify U name) \<le> 50 \<and> isLowerA (hd (slugify U name)) \<and> last (slugify U name) \<noteq> CHR ''-'' \<and>
   set (slugify U name) \<subseteq> Collect slugC"
proof -
  let ?r = "dropWhile (\<lambda>c. c = CHR ''-'') (slugLoop U True (un_nfd_lower U name))"
  let ?s = "trimRightDash ?r" and ?p = "\<lambda>s. if isDigit (hd s) then ''server-'' @ s else s"
  have r: "set ?r \<subseteq> Collect slugC" by (auto dest!: set_dropWhileD slugLoop_chars)
  have server: "set ''server-'' \<subseteq> Collect slugC" by (simp add: slugC_def isLowerA_def)
  show ?thesis
  proof (cases "?s = []")
    case True
    then show ?thesis by (simp add: slugify_def slugC_def isLowerA_def)
  next
    case False
    have ne: "?r \<noteq> []"
    proof
      assume "?r = []"
      have "trimRightDash [] = []" by (simp add: trimRightDash_def)
      with \<open>?r = []\<close> False show False by (simp only:)
    qed
    have "hd ?r \<noteq> CHR ''-''" using ne by (rule hd_not_dash)
    note s = trimRightDash_facts [OF ne this]
    have hs: "slugC (hd ?s)" "hd ?s \<noteq> CHR ''-''" using s(1,2) r \<open>hd ?r \<noteq> CHR ''-''\<close> hd_in_set [OF ne] by auto
    have in_s: "set ?s \<subseteq> Collect slugC" using s(4) r by (rule order_trans)
    have p: "?p ?s \<noteq> []" "isLowerA (hd (?p ?s))" "set (?p ?s) \<subseteq> Collect slugC" "last (?p ?s) \<noteq> CHR ''-''"
    proof -
      show "?p ?s \<noteq> []" using s(1) by simp
      show "isLowerA (hd (?p ?s))" using hs by (cases "isDigit (hd ?s)") (simp_all add: slugC_def isLowerA_def)
      show "set (?p ?s) \<subseteq> Collect slugC" using in_s server by (cases "isDigit (hd ?s)") simp_all
      show "last (?p ?s) \<noteq> CHR ''-''" using trimRightDash_last [OF s(1)] s(1) by (cases "isDigit (hd ?s)") simp_all
    qed
    have p3: "hd (?p ?s) \<noteq> CHR ''-''" using p(2) by (auto simp: isLowerA_def)
    show ?thesis
    proof (cases "maxSlugLen < length (?p ?s)")
      case True
      have t: "take maxSlugLen (?p ?s) \<noteq> []" "hd (take maxSlugLen (?p ?s)) = hd (?p ?s)" using p(1) by (simp_all add: maxSlugLen_def)
      with p3 have "hd (take maxSlugLen (?p ?s)) \<noteq> CHR ''-''" by simp
      note q = trimRightDash_facts [OF t(1) this]
      have "slugify U name = trimRightDash (take maxSlugLen (?p ?s))" using True False by (simp add: slugify_def Let_def)
      moreover have "set (take maxSlugLen (?p ?s)) \<subseteq> Collect slugC" using p(3) set_take_subset by (rule order_trans [rotated])
      ultimately show ?thesis using q t p(2) trimRightDash_last [OF q(1)] by (auto simp: maxSlugLen_def)
    next
      case short: False
      then have "slugify U name = ?p ?s" using False by (simp add: slugify_def Let_def)
      then show ?thesis using p short by (simp add: maxSlugLen_def)
    qed
  qed
qed

text \<open>
  The name chosen for a new server is the wanted one when it is free, and otherwise the wanted one with the least number from 2
  on that makes it free; the search always ends.
\<close>

theorem uniqueSlug_free:
  "uniqueSlug base taken \<notin> set taken \<and> (uniqueSlug base taken = base \<or>
     base \<in> set taken \<and> (\<exists>i\<ge>2. uniqueSlug base taken = slugCand base i \<and> (\<forall>j. 2 \<le> j \<longrightarrow> j < i \<longrightarrow> slugCand base j \<in> set taken)))"
proof -
  have "\<exists>i\<ge>k. uniqueFrom base taken k = slugCand base i \<and> slugCand base i \<notin> set taken \<and> (\<forall>j. k \<le> j \<longrightarrow> j < i \<longrightarrow> slugCand base j \<in> set taken)" for k
  proof (induction base taken k rule: uniqueFrom.induct)
    case (1 base taken k)
    show ?case
    proof (cases "slugCand base k \<in> set taken")
      case True
      with 1 obtain i where "k + 1 \<le> i" "uniqueFrom base taken (k + 1) = slugCand base i" "slugCand base i \<notin> set taken"
        "\<forall>j. k + 1 \<le> j \<longrightarrow> j < i \<longrightarrow> slugCand base j \<in> set taken" by auto
      moreover from this(4) True have "\<forall>j. k \<le> j \<longrightarrow> j < i \<longrightarrow> slugCand base j \<in> set taken" by (metis Suc_eq_plus1 Suc_leI le_eq_less_or_eq)
      ultimately show ?thesis using True by (intro exI [of _ i]) (simp add: uniqueFrom.simps [of base taken k])
    next
      case False
      then show ?thesis by (intro exI [of _ k]) (auto simp: uniqueFrom.simps [of base taken k])
    qed
  qed
  from this [of 2] show ?thesis by (auto simp: uniqueSlug_def)
qed

lemma uniqueSlug_free_witness: "uniqueSlug ''mc'' [''mc'', ''mc-2''] \<notin> {''mc'', ''mc-2''}"
  using uniqueSlug_free [of "''mc''" "[''mc'', ''mc-2'']"] by simp

end
