(* ===== verification/Panel_Members.thy ===== *)
theory Panel_Members
  imports Panel_Access Panel_Profile
begin

text \<open>
  Who is in an organization and who may join it (\<open>internal/panelapi/members.go\<close>, \<open>invitations.go\<close>), and the accounts of the
  platform (\<open>users.go\<close>). \<open>ctx\<close> is the user of the request.
\<close>

section \<open>Users as the panel shows them (\<open>authhandlers.go\<close>)\<close>

definition roleText :: "role \<Rightarrow> string" where
  "roleText r = (case r of RoleOwner \<Rightarrow> ''owner'' | RoleAdmin \<Rightarrow> ''admin'' | RoleMember \<Rightarrow> ''member'' | OtherRole s \<Rightarrow> s)"

definition userJSON :: "user \<Rightarrow> nat option \<Rightarrow> json" where
  "userJSON u codes = (let p = us_profile u in
     JObj [(''id'', JInt (us_id u)), (''username'', JStr (us_username u)), (''email'', JStr (us_email u)),
       (''isAdmin'', JBool (us_admin u)), (''displayName'', JStr (pf_display_name p)), (''locale'', JStr (pf_locale p)),
       (''timeZone'', JStr (pf_time_zone p)), (''discord'', JStr (pf_discord p)), (''minecraftUsername'', JStr (pf_minecraft p)),
       (''steamId'', JStr (pf_steam p)), (''notifyEmail'', JBool (us_notify u)), (''discordUsername'', JStr (us_discord_name u)),
       (''twoFactor'', JObj ((''enabled'', JBool (us_two_factor u)) #
          (case codes of None \<Rightarrow> [] | Some n \<Rightarrow> [(''recoveryCodesLeft'', JInt (int n))])))])"

definition toUserResponse :: "user \<Rightarrow> json" where
  "toUserResponse u = userJSON u None"

section \<open>Members (\<open>members.go\<close>)\<close>

definition pathID :: "string \<Rightarrow> int option" where
  "pathID s = (case parseInt 64 s of Inl _ \<Rightarrow> None | Inr n \<Rightarrow> Some n)"

definition canTouchRole :: "role \<Rightarrow> role \<Rightarrow> bool" where
  "canTouchRole caller r \<longleftrightarrow> r \<noteq> RoleOwner \<or> caller = RoleOwner"

definition memberJSON :: "bool \<Rightarrow> member \<Rightarrow> json" where
  "memberJSON admin m = (let u = me_user m; p = us_profile u in
     JObj ([(''userId'', JInt (us_id u)), (''username'', JStr (us_username u)), (''role'', JStr (roleText (me_role m))),
       (''displayName'', JStr (pf_display_name p))] @ omitStr ''email'' (if admin then us_email u else []) @
      [(''discord'', JStr (pf_discord p)), (''minecraftUsername'', JStr (pf_minecraft p)), (''steamId'', JStr (pf_steam p))] @
      (if admin then [(''twoFactorEnabled'', JBool (us_two_factor u))] else [])))"

definition handleListMembers :: "org_access \<Rightarrow> 'w handler" where
  "handleListMembers acc = callD (ListMembers (og_id (ac_org acc))) internalError (\<lambda>members.
     writeJSON 200 (JArr (map (memberJSON (AtLeast (ac_role acc) RoleAdmin)) members)))"

text \<open>The answer after the change says whether the member can reach any server.\<close>

definition roleReply :: "org_access \<Rightarrow> int \<Rightarrow> role \<Rightarrow> 'w handler" where
  "roleReply acc uid r = (let out = (\<lambda>b. writeJSON 200 (JObj [(''role'', JStr (roleText r)), (''hasServerAccess'', JBool b)])) in
     if r = RoleMember then
       callD (ListMemberGrants (og_id (ac_org acc)) uid) internalError (\<lambda>grants. out (0 < length grants))
     else out True)"

definition handleSetMemberRole :: "'w server \<Rightarrow> request \<Rightarrow> string \<Rightarrow> go_err + role \<Rightarrow> user \<Rightarrow> org_access \<Rightarrow> 'w handler" where
  "handleSetMemberRole S r userId body ctx acc = (case pathID userId of None \<Rightarrow> refuse 400 ''invalid user id''
   | Some uid \<Rightarrow> (case body of Inl e \<Rightarrow> badJSON e
   | Inr role \<Rightarrow>
     if \<not> validRole role then refuse 400 ''role must be \"owner\", \"admin\" or \"member\"''
     else callD (GetMembership (og_id (ac_org acc)) uid)
       (\<lambda>e. if e = DbErr DbNotFound then refuse 404 ''user is not a member of this organization'' else internalError e) (\<lambda>current.
     if \<not> canTouchRole (ac_role acc) current \<or> \<not> canTouchRole (ac_role acc) role
     then refuse 403 ''only an owner can grant or change the owner role''
     else callD (SetMemberRole (og_id (ac_org acc)) uid role)
       (\<lambda>e. if e = DbErr DbLastOwner then writeError 409 (errText e) else internalError e) (\<lambda>_.
     auditEvent S r (Some ctx) (og_slug (ac_org acc)) ''member.role'' ''user'' (itoa uid) ''success'' [(''role'', roleText role)]
       (roleReply acc uid role)))))"

definition grantJSON :: "grant \<Rightarrow> json" where
  "grantJSON g = JObj [(''gameserver'', JStr (gn_gameserver g)), (''permissions'', JArr (map JStr (gn_permissions g)))]"

definition grantsReply :: "grant list \<Rightarrow> 'w handler" where
  "grantsReply grants = writeJSON 200 (JObj [(''grants'', JArr (map grantJSON grants))])"

definition handleGetMemberPermissions :: "string \<Rightarrow> org_access \<Rightarrow> 'w handler" where
  "handleGetMemberPermissions userId acc = (case pathID userId of None \<Rightarrow> refuse 400 ''invalid user id''
   | Some uid \<Rightarrow>
     callD (GetMembership (og_id (ac_org acc)) uid) (\<lambda>_. refuse 404 ''user is not a member of this organization'') (\<lambda>_.
     callD (ListMemberGrants (og_id (ac_org acc)) uid) internalError grantsReply))"

text \<open>The loop over the grants of the body: every permission known, every server in the namespace.\<close>

fun checkGrants :: "'w server \<Rightarrow> string \<Rightarrow> grant list \<Rightarrow> 'w handler \<Rightarrow> 'w handler" where
  "checkGrants S ns [] next = next"
| "checkGrants S ns (g # gs) next = (case find (\<lambda>p. \<not> validPermission p) (gn_permissions g) of
     Some p \<Rightarrow> writeError 422 (Msg ''unknown permission %q'' [AStr p])
   | None \<Rightarrow>
     if gn_gameserver g = AllServers then checkGrants S ns gs next
     else callK (r_get (k_gs (sv_k S)) ns (gn_gameserver g))
       (\<lambda>e. if is_not_found e then writeError 422 (Msg ''no game server named %q in this organization'' [AStr (gn_gameserver g)])
            else writeError (statusFor e) (errText e))
       (\<lambda>_. checkGrants S ns gs next))"

text \<open>\<open>json.Marshal\<close> of the grants, for the audit trail.\<close>

definition grantsText :: "grant list \<Rightarrow> string" where
  "grantsText gs = ''['' @ joinWith CHR '','' (map (\<lambda>g. ''{'' @ jsonString ''gameserver'' @ '':'' @ jsonString (gn_gameserver g) @ '','' @
     jsonString ''permissions'' @ '':['' @ joinWith CHR '','' (map jsonString (gn_permissions g)) @ '']}'') gs) @ '']''"

definition handlePutMemberPermissions :: "'w server \<Rightarrow> request \<Rightarrow> string \<Rightarrow> go_err + grant list \<Rightarrow> user \<Rightarrow> org_access \<Rightarrow> 'w handler" where
  "handlePutMemberPermissions S r userId body ctx acc = (case pathID userId of None \<Rightarrow> refuse 400 ''invalid user id''
   | Some uid \<Rightarrow> (case body of Inl e \<Rightarrow> badJSON e
   | Inr grants \<Rightarrow>
     callD (GetMembership (og_id (ac_org acc)) uid) (\<lambda>_. refuse 404 ''user is not a member of this organization'') (\<lambda>_.
     checkGrants S (TenantNamespace (og_slug (ac_org acc))) grants (
     callD (SetMemberGrants (og_id (ac_org acc)) uid grants) internalError (\<lambda>_.
     callD (ListMemberGrants (og_id (ac_org acc)) uid) internalError (\<lambda>stored.
     auditEvent S r (Some ctx) (og_slug (ac_org acc)) ''member.permissions.update'' ''user'' (itoa uid) ''success''
       [(''grants'', grantsText stored)] (grantsReply stored)))))))"

definition handleRemoveMember :: "'w server \<Rightarrow> request \<Rightarrow> string \<Rightarrow> user \<Rightarrow> org_access \<Rightarrow> 'w handler" where
  "handleRemoveMember S r userId ctx acc = (case pathID userId of None \<Rightarrow> refuse 400 ''invalid user id''
   | Some uid \<Rightarrow> let self = (us_id ctx = uid) in
     if \<not> self \<and> \<not> AtLeast (ac_role acc) RoleAdmin then refuse 403 ''only an admin can remove other members''
     else callD (GetMembership (og_id (ac_org acc)) uid)
       (\<lambda>e. if e = DbErr DbNotFound then refuse 404 ''user is not a member of this organization'' else internalError e) (\<lambda>current.
     if \<not> self \<and> \<not> canTouchRole (ac_role acc) current then refuse 403 ''only an owner can remove an owner''
     else callD (RemoveMember (og_id (ac_org acc)) uid)
       (\<lambda>e. if e = DbErr DbLastOwner then writeError 409 (errText e) else internalError e) (\<lambda>_.
     auditEvent S r (Some ctx) (og_slug (ac_org acc)) ''member.remove'' ''user'' (itoa uid) ''success'' [] (writeHeader 204))))"

section \<open>Invitations (\<open>invitations.go\<close>)\<close>

definition invitationTTL :: duration where "invitationTTL = 7 * 24 * hour"
definition sessionTTL :: duration where "sessionTTL = 24 * hour"

definition invitationJSON :: "invitation \<Rightarrow> json" where
  "invitationJSON i = JObj [(''id'', JInt (in_id i)), (''email'', JStr (in_email i)), (''role'', JStr (roleText (in_role i))),
     (''invitedBy'', JStr (in_invited_by i)), (''createdAt'', JTime (in_created i)), (''expiresAt'', JTime (in_expires i)),
     (''expired'', JBool (in_expired i))]"

definition inviteReply :: "nat \<Rightarrow> invitation \<Rightarrow> string \<Rightarrow> 'w handler" where
  "inviteReply status i url = writeJSON status (JObj ((''invitation'', invitationJSON i) # omitStr ''inviteUrl'' url))"

definition deliverInvitation :: "'w server \<Rightarrow> invitation \<Rightarrow> string \<Rightarrow> (go_err \<Rightarrow> 'w handler) \<Rightarrow> (string \<Rightarrow> 'w handler) \<Rightarrow> 'w handler" where
  "deliverInvitation S invt token bad good = (let link = pageLink S ''invite'' token in
     if \<not> mailEnabled S then good link
     else callK (sendMail S (in_email invt) (in_locale invt) KindInvitation link
         [(''org'', in_org_name invt), (''role'', roleText (in_role invt)), (''invitedBy'', in_invited_by invt)])
       bad (\<lambda>_. good []))"

definition handleListInvitations :: "org_access \<Rightarrow> 'w handler" where
  "handleListInvitations acc = callD (ListInvitations (og_id (ac_org acc))) internalError (\<lambda>l. writeJSON 200 (JArr (map invitationJSON l)))"

definition inviteNow :: "'w server \<Rightarrow> request \<Rightarrow> string \<Rightarrow> role \<Rightarrow> user \<Rightarrow> org_access \<Rightarrow> 'w handler" where
  "inviteNow S r email role ctx acc =
     callD (CreateInvitation (sv_crypto S) (og_id (ac_org acc)) email role (pf_locale (us_profile ctx)) (us_id ctx) invitationTTL)
       internalError (\<lambda>(invt, token).
     deliverInvitation S invt token
       (\<lambda>_. let after = auditEvent S r (Some ctx) (og_slug (ac_org acc)) ''invitation.create'' ''email'' email ''failed''
               [(''role'', roleText role)] (refuse 502 ''could not send the invitation e-mail'') in
            callD (DeleteInvitation (og_id (ac_org acc)) (in_id invt)) (\<lambda>_. after) (\<lambda>_. after))
       (\<lambda>url. auditEvent S r (Some ctx) (og_slug (ac_org acc)) ''invitation.create'' ''email'' email ''success''
               [(''role'', roleText role)] (inviteReply 201 invt url)))"

definition handleCreateInvitation :: "'w server \<Rightarrow> request \<Rightarrow> go_err + string \<times> role \<Rightarrow> user \<Rightarrow> org_access \<Rightarrow> 'w handler" where
  "handleCreateInvitation S r body ctx acc = (case body of Inl e \<Rightarrow> badJSON e
   | Inr (reqEmail, role) \<Rightarrow>
     if \<not> validRole role then refuse 400 ''role must be \"owner\", \"admin\" or \"member\"''
     else if \<not> canTouchRole (ac_role acc) role then refuse 403 ''only an owner can invite another owner''
     else case validateEmail (sv_parse_address S) reqEmail of Inl e \<Rightarrow> writeError 422 (errText e)
     | Inr email \<Rightarrow>
       callD (GetUserByEmail email)
         (\<lambda>e. if e = DbErr DbNotFound then inviteNow S r email role ctx acc else internalError e)
         (\<lambda>existing. callD (GetMembership (og_id (ac_org acc)) (us_id existing))
            (\<lambda>_. inviteNow S r email role ctx acc) (\<lambda>_. refuse 409 ''this person is already a member'')))"

definition handleResendInvitation :: "'w server \<Rightarrow> request \<Rightarrow> string \<Rightarrow> user \<Rightarrow> org_access \<Rightarrow> 'w handler" where
  "handleResendInvitation S r idText ctx acc = (case pathID idText of None \<Rightarrow> refuse 400 ''invalid invitation id''
   | Some iid \<Rightarrow>
     callD (ReissueInvitation (sv_crypto S) (og_id (ac_org acc)) iid invitationTTL)
       (\<lambda>e. if e = DbErr DbNotFound then refuse 404 ''invitation not found'' else internalError e) (\<lambda>(invt, token).
     if \<not> canTouchRole (ac_role acc) (in_role invt) then refuse 403 ''only an owner can resend an owner invitation''
     else deliverInvitation S invt token (\<lambda>_. refuse 502 ''could not send the invitation e-mail'')
       (\<lambda>url. auditEvent S r (Some ctx) (og_slug (ac_org acc)) ''invitation.resend'' ''email'' (in_email invt) ''success'' []
          (inviteReply 200 invt url))))"

definition handleDeleteInvitation :: "'w server \<Rightarrow> request \<Rightarrow> string \<Rightarrow> user \<Rightarrow> org_access \<Rightarrow> 'w handler" where
  "handleDeleteInvitation S r idText ctx acc = (case pathID idText of None \<Rightarrow> refuse 400 ''invalid invitation id''
   | Some iid \<Rightarrow>
     callD (DeleteInvitation (og_id (ac_org acc)) iid)
       (\<lambda>e. if e = DbErr DbNotFound then refuse 404 ''invitation not found'' else internalError e) (\<lambda>_.
     auditEvent S r (Some ctx) (og_slug (ac_org acc)) ''invitation.revoke'' ''invitation'' (itoa iid) ''success'' [] (writeHeader 204)))"

text \<open>Both pages below are open: the token is the credential.\<close>

definition withInvitation :: "'w server \<Rightarrow> string \<Rightarrow> (invitation \<Rightarrow> 'w handler) \<Rightarrow> 'w handler" where
  "withInvitation S token next = callD (GetInvitationByToken (sv_crypto S) token)
     (\<lambda>e. if e = DbErr DbInvalidToken then refuse 404 ''invalid or expired invitation'' else internalError e) next"

definition handleLookupInvitation :: "'w server \<Rightarrow> go_err + string \<Rightarrow> 'w handler" where
  "handleLookupInvitation S body = (case body of Inl e \<Rightarrow> badJSON e
   | Inr token \<Rightarrow> withInvitation S token (\<lambda>invt.
     let out = (\<lambda>exists. writeJSON 200 (JObj [(''orgName'', JStr (in_org_name invt)), (''orgSlug'', JStr (in_org_slug invt)),
           (''role'', JStr (roleText (in_role invt))), (''email'', JStr (in_email invt)), (''invitedBy'', JStr (in_invited_by invt)),
           (''accountExists'', JBool exists)])) in
     callD (GetUserByEmail (in_email invt)) (\<lambda>e. if e \<noteq> DbErr DbNotFound then internalError e else out False) (\<lambda>_. out True)))"

definition acceptAsExisting :: "'w server \<Rightarrow> request \<Rightarrow> string \<Rightarrow> user \<Rightarrow> 'w handler" where
  "acceptAsExisting S r token existing = optionalUser S r (\<lambda>c. case c of
     None \<Rightarrow> refuse 401 ''sign in with the invited account to accept''
   | Some caller \<Rightarrow>
     if us_id caller \<noteq> us_id existing then refuse 403 ''this invitation is for another account''
     else callD (AcceptInvitationExistingUser (sv_crypto S) token (us_id caller))
       (\<lambda>e. if e = DbErr DbInvalidToken then refuse 404 ''invalid or expired invitation''
            else if e = DbErr DbWrongAccount then refuse 403 ''this invitation is for another account''
            else internalError e) (\<lambda>invt.
     auditEventAs S r (Some caller) (in_org_slug invt) ''invitation.accept'' ''user'' (us_username caller) ''success''
       [(''role'', roleText (in_role invt))] (writeJSON 200 (JObj [(''orgSlug'', JStr (in_org_slug invt))]))))"

record accept_request =
  aq_token :: string
  aq_username :: string
  aq_password :: string
  aq_display_name :: string

definition loginJSON :: "string \<Rightarrow> time \<Rightarrow> user \<Rightarrow> (string \<times> json) list" where
  "loginJSON token expiresAt u = [(''token'', JStr token), (''expiresAt'', JTime expiresAt), (''user'', toUserResponse u)]"

definition acceptAsNew :: "'w server \<Rightarrow> request \<Rightarrow> accept_request \<Rightarrow> 'w handler" where
  "acceptAsNew S r q = (case validateUsername (aq_username q) of Inl e \<Rightarrow> writeError 422 (errText e)
   | Inr _ \<Rightarrow> (case validatePassword (aq_password q) of Inl e \<Rightarrow> writeError 422 (errText e)
   | Inr _ \<Rightarrow> (case panelDisplayName (aq_display_name q) of Inl e \<Rightarrow> writeError 422 (errText e)
   | Inr _ \<Rightarrow>
     callD (AcceptInvitationNewUser (sv_crypto S) (aq_token q) (aq_username q) (aq_password q) (aq_display_name q))
       (\<lambda>e. if e = DbErr DbInvalidToken then refuse 404 ''invalid or expired invitation''
            else if e = DbErr DbAlreadyExists then refuse 409 ''username already taken''
            else if e = DbErr DbEmailTaken then refuse 409 ''an account with this e-mail already exists: sign in to accept''
            else internalError e) (\<lambda>(u, invt).
     callD (CreateSession (sv_crypto S) (us_id u) sessionTTL) internalError (\<lambda>(token, expiresAt).
     auditEventAs S r (Some u) (in_org_slug invt) ''invitation.accept'' ''user'' (us_username u) ''success''
       [(''role'', roleText (in_role invt)), (''newAccount'', ''true'')] (writeJSON 201 (JObj (loginJSON token expiresAt u))))))))"

definition handleAcceptInvitation :: "'w server \<Rightarrow> request \<Rightarrow> go_err + accept_request \<Rightarrow> 'w handler" where
  "handleAcceptInvitation S r body = (case body of Inl e \<Rightarrow> badJSON e
   | Inr q \<Rightarrow> withInvitation S (aq_token q) (\<lambda>invt.
     callD (GetUserByEmail (in_email invt))
       (\<lambda>e. if e = DbErr DbNotFound then acceptAsNew S r q else internalError e)
       (acceptAsExisting S r (aq_token q))))"

section \<open>Accounts of the platform (\<open>users.go\<close>)\<close>

definition BootstrapAdminUsername :: string where "BootstrapAdminUsername = ''admin''"

definition handleListUsers :: "'w handler" where
  "handleListUsers = callD ListUsers internalError (\<lambda>us. writeJSON 200 (JArr (map toUserResponse us)))"

definition badPathID :: "string \<Rightarrow> 'w handler" where
  "badPathID s = writeError 400 (Msg ''strconv.ParseInt: parsing %q'' [AStr s])"

definition handleSetUserAdmin :: "'w server \<Rightarrow> request \<Rightarrow> string \<Rightarrow> go_err + bool option \<Rightarrow> user \<Rightarrow> 'w handler" where
  "handleSetUserAdmin S r idText body ctx = (case pathID idText of None \<Rightarrow> badPathID idText
   | Some uid \<Rightarrow> (case body of
       Inr (Some isAdmin) \<Rightarrow>
         if uid = us_id ctx then refuse 409 ''you cannot change your own admin flag''
         else callD (SetAdmin uid isAdmin)
           (\<lambda>e. if e = DbErr DbNotFound then refuse 404 ''user not found''
                else if e = DbErr DbLastAdmin then writeError 409 (errText e) else internalError e) (\<lambda>_.
         callD (GetUser uid) internalError (\<lambda>target.
         auditEvent S r (Some ctx) [] ''user.admin.update'' ''user'' (us_username target) ''success''
           [(''isAdmin'', formatBool isAdmin)] (writeJSON 200 (toUserResponse target))))
     | _ \<Rightarrow> refuse 400 ''body must be {\"isAdmin\": true|false}''))"

definition handleDeleteUser :: "string \<Rightarrow> 'w handler" where
  "handleDeleteUser idText = (case pathID idText of None \<Rightarrow> badPathID idText
   | Some uid \<Rightarrow>
     callD (GetUser uid) (\<lambda>e. if e = DbErr DbNotFound then refuse 404 ''user not found'' else internalError e) (\<lambda>target.
     if us_username target = BootstrapAdminUsername then refuse 409 ''the initial admin user cannot be deleted''
     else callD (DeleteUser uid)
       (\<lambda>e. if e = DbErr DbNotFound then refuse 404 ''user not found''
            else if e = DbErr DbLastOwner then refuse 409 ''user is the only owner of an organization: transfer ownership first''
            else internalError e)
       (\<lambda>_. writeHeader 204)))"

end
