(* ===== verification/Panel_Login.thy ===== *)
theory Panel_Login
  imports Panel_Members
begin

text \<open>
  Signing in and one's own account (\<open>internal/panelapi/authhandlers.go\<close>, \<open>account.go\<close>, \<open>twofactor.go\<close>): the password, the limit on
  failures, the second factor, forgotten passwords and new addresses.
\<close>

section \<open>What the handlers share\<close>

text \<open>\<open>Itoa(int(math.Ceil(d.Seconds())))\<close>.\<close>

definition retryAfter :: "duration \<Rightarrow> 'w handler \<Rightarrow> 'w handler" where
  "retryAfter d h = withHeader ''Retry-After'' (itoa (- ((- d) div second))) h"

definition limiterKey :: "string \<Rightarrow> (string \<Rightarrow> 'w handler) \<Rightarrow> 'w handler" where
  "limiterKey login k = (if CHR ''@'' \<in> set login
     then callD (GetUserByEmail login) (\<lambda>_. k (toLower login)) (\<lambda>u. k (us_username u)) else k (toLower login))"

text \<open>The limiter: when it cannot be asked the login goes on.\<close>

definition unlessBlocked :: "'w server \<Rightarrow> string \<Rightarrow> string \<Rightarrow> (duration \<Rightarrow> 'w handler) \<Rightarrow> 'w handler \<Rightarrow> 'w handler" where
  "unlessBlocked S key ip blockedH next = callR (Blocked (sv_crypto S) (sv_limits S) key ip) (\<lambda>_. next)
     (\<lambda>(blocked, d). if blocked then blockedH d else next)"

definition recordFailure :: "'w server \<Rightarrow> string \<Rightarrow> string \<Rightarrow> 'w handler \<Rightarrow> 'w handler" where
  "recordFailure S key ip next = callR (RecordFailure (sv_crypto S) (sv_limits S) key ip) (\<lambda>_. next) (\<lambda>_. next)"

definition recordSuccess :: "'w server \<Rightarrow> string \<Rightarrow> string \<Rightarrow> 'w handler \<Rightarrow> 'w handler" where
  "recordSuccess S key ip next = callR (RecordSuccess (sv_crypto S) key ip) (\<lambda>_. next) (\<lambda>_. next)"

definition twoFactorOn :: "'w server \<Rightarrow> bool" where
  "twoFactorOn S \<longleftrightarrow> sv_two_factor S \<noteq> None"

definition requireTwoFactorOn :: "'w server \<Rightarrow> 'w handler \<Rightarrow> 'w handler" where
  "requireTwoFactorOn S next = (if \<not> twoFactorOn S then refuse 404 ''two-factor authentication is not enabled on this panel'' else next)"

definition ownUserResponse :: "user \<Rightarrow> (json \<Rightarrow> 'w handler) \<Rightarrow> 'w handler" where
  "ownUserResponse u k = (if us_two_factor u
     then callD (CountRecoveryCodes (us_id u)) (\<lambda>_. k (userJSON u None)) (\<lambda>n. k (userJSON u (Some n)))
     else k (userJSON u None))"

section \<open>The second factor (\<open>twofactor.go\<close>)\<close>

definition loginChallengeTTL :: duration where "loginChallengeTTL = 5 * minute"
definition loginChallengeMaxFailures :: int where "loginChallengeMaxFailures = 5"
definition pendingSecretTTL :: duration where "pendingSecretTTL = 10 * minute"

definition unavailable :: "'w handler" where
  "unavailable = refuse 503 ''two-factor login is temporarily unavailable''"

definition startTwoFactorLogin :: "'w server \<Rightarrow> request \<Rightarrow> user \<Rightarrow> 'w handler" where
  "startTwoFactorLogin S r u =
     (if \<not> twoFactorOn S \<or> \<not> sv_challenges S then unavailable
      else callR (IssueChallenge (sv_crypto S) (us_id u) loginChallengeTTL) (\<lambda>_. unavailable) (\<lambda>ticket.
        auditEventAs S r (Some u) [] ''login.password_ok'' ''user'' (us_username u) ''success'' []
          (writeJSON 200 (JObj [(''twoFactorRequired'', JBool True), (''ticket'', JStr ticket),
             (''expiresInSeconds'', JInt (loginChallengeTTL div second))]))))"

text \<open>An error in checking counts as a wrong code; the caller only logs it.\<close>

definition checkSecondFactor :: "'w server \<Rightarrow> int \<Rightarrow> string \<Rightarrow> (string \<Rightarrow> bool \<Rightarrow> 'w handler) \<Rightarrow> 'w handler" where
  "checkSecondFactor S userID code k =
     (if IsRecoveryCode code
      then callD (UseRecoveryCode userID (HashRecoveryCode (sv_crypto S) code)) (\<lambda>_. k ''recovery'' False) (k ''recovery'')
      else callD (GetTOTP userID) (\<lambda>_. k ''totp'' False) (\<lambda>(enc, enabled).
        if \<not> enabled then k ''totp'' False
        else case sv_two_factor S of None \<Rightarrow> k ''totp'' False
        | Some A \<Rightarrow> (case Decrypt A enc of Inl _ \<Rightarrow> k ''totp'' False
          | Inr secret \<Rightarrow> readEnv (k_now (sv_k S)) (\<lambda>now. case Verify (sv_totp S) secret code now of
              None \<Rightarrow> k ''totp'' False
            | Some step \<Rightarrow> callD (AcceptTOTPStep userID step) (\<lambda>_. k ''totp'' False) (k ''totp'')))))"

definition ticketExpired :: "'w handler" where
  "ticketExpired = writeErrorCode 401 ''ticket_expired'' (Msg ''the login expired, enter your password again'' [])"

text \<open>What follows a right code: the ticket is used up before a session is made.\<close>

definition finishLogin2FA :: "'w server \<Rightarrow> request \<Rightarrow> string \<Rightarrow> user \<Rightarrow> string \<Rightarrow> string \<Rightarrow> string \<Rightarrow> 'w handler" where
  "finishLogin2FA S r ticket u key ip method =
     callR (ConsumeChallenge (sv_crypto S) ticket) (\<lambda>_. ticketExpired) (\<lambda>_.
     recordSuccess S key ip (
     callD (CreateSession (sv_crypto S) (us_id u) sessionTTL) internalError (\<lambda>(token, expiresAt).
     auditEventAs S r (Some u) [] ''login.success'' ''user'' (us_username u) ''success'' [(''method'', method)] (
       let out = (\<lambda>n. writeJSON 200 (JObj (loginJSON token expiresAt u @ n))) in
       if method = ''recovery''
       then callD (CountRecoveryCodes (us_id u)) (\<lambda>_. out []) (\<lambda>n. out [(''recoveryCodesLeft'', JInt (int n))])
       else out []))))"

definition failLogin2FA :: "'w server \<Rightarrow> request \<Rightarrow> string \<Rightarrow> user \<Rightarrow> string \<Rightarrow> string \<Rightarrow> 'w handler" where
  "failLogin2FA S r ticket u key ip =
     (let after = recordFailure S key ip (
            auditEventAs S r (Some u) [] ''login.2fa_failure'' ''user'' (us_username u) ''denied'' [] (refuse 401 ''invalid code'')) in
      callR (FailChallenge (sv_crypto S) ticket loginChallengeMaxFailures) (\<lambda>_. after) (\<lambda>_. after))"

text \<open>The second step once the ticket's user is known.\<close>

definition secondStep :: "'w server \<Rightarrow> request \<Rightarrow> string \<Rightarrow> string \<Rightarrow> user \<Rightarrow> 'w handler" where
  "secondStep S r ticket code u = (let ip = clientIP r (sv_trusted S) in
     limiterKey (us_username u) (\<lambda>key.
     unlessBlocked S key ip
       (\<lambda>d. auditEventAs S r (Some u) [] ''login.blocked'' ''user'' (us_username u) ''denied'' []
          (retryAfter d (refuse 429 ''too many failed login attempts, try again later'')))
       (checkSecondFactor S (us_id u) code (\<lambda>method ok.
          if \<not> ok then failLogin2FA S r ticket u key ip else finishLogin2FA S r ticket u key ip method))))"

definition handleLogin2FA :: "'w server \<Rightarrow> request \<Rightarrow> go_err + string \<times> string \<Rightarrow> 'w handler" where
  "handleLogin2FA S r body = (case body of Inl e \<Rightarrow> badJSON e
   | Inr (ticket, code) \<Rightarrow>
     if \<not> twoFactorOn S \<or> \<not> sv_challenges S then unavailable
     else callR (PeekChallenge (sv_crypto S) ticket) (\<lambda>e. if e = ErrChallengeNotFound then ticketExpired else unavailable) (\<lambda>userID.
       callD (GetUser userID) (\<lambda>_. ticketExpired) (secondStep S r ticket code)))"

definition handle2FASetup :: "'w server \<Rightarrow> user \<Rightarrow> 'w handler" where
  "handle2FASetup S u =
     (if us_two_factor u then refuse 409 ''two-factor authentication is already on; turn it off first to change devices''
      else if \<not> sv_pending S then refuse 503 ''two-factor setup is temporarily unavailable''
      else callRand randBytes internalError (\<lambda>bytes. let secret = NewSecret bytes in
        case sv_two_factor S of None \<Rightarrow> internalError (MsgErr (Msg ''nil cipher'' []))
        | Some A \<Rightarrow> callRand randBytes internalError (\<lambda>nonce.
          callR (PutPending (us_id u) (Encrypt A nonce secret) pendingSecretTTL)
            (\<lambda>_. refuse 503 ''two-factor setup is temporarily unavailable'') (\<lambda>_.
          writeJSON 200 (JObj [(''secret'', JStr secret), (''otpauthUrl'', JStr (OTPAuthURL (us_username u) secret))])))))"

definition recoveryCodesReply :: "string list \<Rightarrow> 'w handler" where
  "recoveryCodesReply plain = writeJSON 200 (JObj [(''recoveryCodes'', JArr (map JStr plain))])"

definition handle2FAEnable :: "'w server \<Rightarrow> request \<Rightarrow> go_err + string \<Rightarrow> user \<Rightarrow> 'w handler" where
  "handle2FAEnable S r body u = (case body of Inl e \<Rightarrow> badJSON e
   | Inr code \<Rightarrow>
     if us_two_factor u then refuse 409 ''two-factor authentication is already on''
     else if \<not> sv_pending S then refuse 503 ''two-factor setup is temporarily unavailable''
     else callR (GetPending (us_id u)) (\<lambda>_. refuse 409 ''no setup in progress, or it expired; start again'') (\<lambda>enc.
       case (case sv_two_factor S of None \<Rightarrow> Inl (MsgErr (Msg ''nil cipher'' [])) | Some A \<Rightarrow> Decrypt A enc) of
         Inl _ \<Rightarrow> refuse 409 ''the setup can no longer be read; start again''
       | Inr secret \<Rightarrow> readEnv (k_now (sv_k S)) (\<lambda>now. case Verify (sv_totp S) secret code now of
           None \<Rightarrow> refuse 422 ''the code does not match; check the authenticator app and the device clock''
         | Some step \<Rightarrow>
           callRand (NewRecoveryCodes (sv_crypto S)) internalError (\<lambda>(plain, hashes).
           callD (EnableTOTP (us_id u) enc step hashes) internalError (\<lambda>_.
           let after = auditEvent S r (Some u) [] ''user.2fa.enable'' ''user'' (us_username u) ''success'' [] (recoveryCodesReply plain) in
           callR (DeletePending (us_id u)) (\<lambda>_. after) (\<lambda>_. after))))))"

definition confirmIdentity :: "'w server \<Rightarrow> go_err + string \<times> string \<Rightarrow> user \<Rightarrow> 'w handler \<Rightarrow> 'w handler" where
  "confirmIdentity S body u next = (case body of Inl e \<Rightarrow> badJSON e
   | Inr (password, code) \<Rightarrow>
     if \<not> us_two_factor u then refuse 409 ''two-factor authentication is off''
     else callD (VerifyUserPassword (sv_crypto S) (us_id u) password) (\<lambda>_. refuse 403 ''wrong password or code'') (\<lambda>_.
       checkSecondFactor S (us_id u) code (\<lambda>_ ok. if \<not> ok then refuse 403 ''wrong password or code'' else next)))"

definition handle2FADisable :: "'w server \<Rightarrow> request \<Rightarrow> go_err + string \<times> string \<Rightarrow> user \<Rightarrow> 'w handler" where
  "handle2FADisable S r body u = confirmIdentity S body u (
     callD (DisableTOTP (us_id u)) internalError (\<lambda>_.
     auditEvent S r (Some u) [] ''user.2fa.disable'' ''user'' (us_username u) ''success'' [] (writeHeader 204)))"

definition handle2FARegenerateCodes :: "'w server \<Rightarrow> request \<Rightarrow> go_err + string \<times> string \<Rightarrow> user \<Rightarrow> 'w handler" where
  "handle2FARegenerateCodes S r body u = confirmIdentity S body u (
     callRand (NewRecoveryCodes (sv_crypto S)) internalError (\<lambda>(plain, hashes).
     callD (ReplaceRecoveryCodes (us_id u) hashes) internalError (\<lambda>_.
     auditEvent S r (Some u) [] ''user.2fa.recovery.regenerate'' ''user'' (us_username u) ''success'' [] (recoveryCodesReply plain))))"

definition handleAdminDisable2FA :: "'w server \<Rightarrow> request \<Rightarrow> string \<Rightarrow> user \<Rightarrow> 'w handler" where
  "handleAdminDisable2FA S r idText u = (case pathID idText of None \<Rightarrow> badPathID idText
   | Some uid \<Rightarrow>
     if uid = us_id u then refuse 409 ''use your own account page to turn off your two-factor authentication''
     else callD (GetUser uid) (\<lambda>_. refuse 404 ''user not found'') (\<lambda>target.
       callD (DisableTOTP uid) internalError (\<lambda>_.
       callD (RevokeUserSessions (sv_crypto S) uid []) internalError (\<lambda>_.
       auditEvent S r (Some u) [] ''user.2fa.admin_disable'' ''user'' (us_username target) ''success'' [] (writeHeader 204)))))"

section \<open>Signing in and out (\<open>authhandlers.go\<close>)\<close>

definition handleLogin :: "'w server \<Rightarrow> request \<Rightarrow> go_err + string \<times> string \<Rightarrow> 'w handler" where
  "handleLogin S r body = (case body of Inl e \<Rightarrow> badJSON e
   | Inr (username, password) \<Rightarrow>
     let ip = clientIP r (sv_trusted S); loggedName = truncateStr username maxLoggedUsername in
     limiterKey username (\<lambda>key.
     unlessBlocked S key ip
       (\<lambda>d. auditEvent S r None [] ''login.blocked'' ''user'' loggedName ''denied'' []
          (retryAfter d (refuse 429 ''too many failed login attempts, try again later'')))
       (callD (VerifyPassword (sv_crypto S) username password)
         (\<lambda>_. recordFailure S key ip (
            auditEvent S r None [] ''login.failure'' ''user'' loggedName ''denied'' []
              (refuse 401 ''invalid username, e-mail or password'')))
         (\<lambda>u. if us_two_factor u then startTwoFactorLogin S r u
            else recordSuccess S key ip (
              callD (CreateSession (sv_crypto S) (us_id u) sessionTTL) internalError (\<lambda>(token, expiresAt).
              auditEventAs S r (Some u) [] ''login.success'' ''user'' (us_username u) ''success'' []
                (writeJSON 200 (JObj (loginJSON token expiresAt u)))))))))"

text \<open>\<open>parts[1]\<close> of an \<open>Authorization\<close> header without a blank panics, which \<open>net/http\<close> turns into a broken answer; \<open>requireAuth\<close> has
  excluded it for a request from outside.\<close>

definition handleLogout :: "'w server \<Rightarrow> request \<Rightarrow> 'w handler" where
  "handleLogout S r = (case splitN2 (rq_auth r) CHR '' '' of
     [_, token] \<Rightarrow> callD (RevokeSession (sv_crypto S) token) internalError (\<lambda>_. writeHeader 204)
   | _ \<Rightarrow> writeHeader 500)"

definition handleMe :: "user \<Rightarrow> 'w handler" where
  "handleMe u = ownUserResponse u (writeJSON 200)"

section \<open>One's own account (\<open>account.go\<close>)\<close>

definition handleFeatures :: "'w server \<Rightarrow> 'w handler" where
  "handleFeatures S = writeJSON 200 (JObj [(''passwordReset'', JBool (mailEnabled S)), (''discord'', JBool (sv_discord S)),
     (''twoFactor'', JBool (twoFactorOn S))])"

record profile_patch =
  pp_display_name :: "string option"
  pp_locale :: "string option"
  pp_time_zone :: "string option"
  pp_discord :: "string option"
  pp_minecraft :: "string option"
  pp_steam :: "string option"
  pp_notify :: "bool option"

definition orKeep :: "'a option \<Rightarrow> 'a \<Rightarrow> 'a" where
  "orKeep v cur = (case v of None \<Rightarrow> cur | Some x \<Rightarrow> x)"

definition applyPatch :: "profile_patch \<Rightarrow> profile \<Rightarrow> profile" where
  "applyPatch p cur = \<lparr>pf_display_name = orKeep (pp_display_name p) (pf_display_name cur), pf_locale = orKeep (pp_locale p) (pf_locale cur),
     pf_time_zone = orKeep (pp_time_zone p) (pf_time_zone cur), pf_discord = orKeep (pp_discord p) (pf_discord cur),
     pf_minecraft = orKeep (pp_minecraft p) (pf_minecraft cur), pf_steam = orKeep (pp_steam p) (pf_steam cur)\<rparr>"

definition handleUpdateMe :: "'w server \<Rightarrow> request \<Rightarrow> go_err + profile_patch \<Rightarrow> user \<Rightarrow> 'w handler" where
  "handleUpdateMe S r body u = (case body of Inl e \<Rightarrow> badJSON e
   | Inr req \<Rightarrow> let p = applyPatch req (us_profile u) in
     case validateProfile (k_lib (sv_k S)) p of Inl e \<Rightarrow> writeError 422 (errText e)
     | Inr _ \<Rightarrow>
       callD (UpdateProfile (us_id u) p) internalError (\<lambda>_.
       let after = (\<lambda>v. auditEvent S r (Some v) [] ''user.profile.update'' ''user'' (us_username v) ''success'' []
             (ownUserResponse (v\<lparr>us_profile := p\<rparr>) (writeJSON 200))) in
       case pp_notify req of None \<Rightarrow> after u
       | Some on \<Rightarrow> callD (SetNotifyEmail (us_id u) on) internalError (\<lambda>_. after (u\<lparr>us_notify := on\<rparr>))))"

definition checkCurrentPassword :: "'w server \<Rightarrow> request \<Rightarrow> user \<Rightarrow> string \<Rightarrow> 'w handler \<Rightarrow> 'w handler" where
  "checkCurrentPassword S r u password next = (let ip = clientIP r (sv_trusted S) in
     unlessBlocked S (us_username u) ip (\<lambda>d. retryAfter d (refuse 429 ''too many failed attempts, try again later''))
       (callD (VerifyUserPassword (sv_crypto S) (us_id u) password)
         (\<lambda>e. if e = DbErr DbNotFound then recordFailure S (us_username u) ip (refuse 403 ''current password is wrong'') else internalError e)
         (\<lambda>_. next)))"

definition handleChangePassword :: "'w server \<Rightarrow> request \<Rightarrow> go_err + string \<times> string \<Rightarrow> user \<Rightarrow> 'w handler" where
  "handleChangePassword S r body u = (case body of Inl e \<Rightarrow> badJSON e
   | Inr (current, new) \<Rightarrow> (case validatePassword new of Inl e \<Rightarrow> writeError 422 (errText e)
   | Inr _ \<Rightarrow> checkCurrentPassword S r u current (
     callD (SetPassword (sv_crypto S) (us_id u) new) internalError (\<lambda>_.
     callD (RevokeUserSessions (sv_crypto S) (us_id u) (headerToken r)) internalError (\<lambda>_.
     auditEvent S r (Some u) [] ''user.password.change'' ''user'' (us_username u) ''success'' [] (writeHeader 204))))))"

definition resetTokenTTL :: duration where "resetTokenTTL = hour"
definition emailChangeTokenTTL :: duration where "emailChangeTokenTTL = 24 * hour"
definition forgotPerEmail :: int where "forgotPerEmail = 5"
definition forgotPerIP :: int where "forgotPerIP = 20"
definition forgotWindow :: duration where "forgotWindow = hour"

text \<open>The limits are asked in turn; one that cannot be asked is skipped.\<close>

fun withinLimits :: "'w server \<Rightarrow> (string \<times> int) list \<Rightarrow> 'w handler \<Rightarrow> 'w handler" where
  "withinLimits S [] next = next"
| "withinLimits S ((k, limit) # ls) next = callR (Allow (sv_crypto S) k limit forgotWindow) (\<lambda>_. withinLimits S ls next)
     (\<lambda>(ok, d). if \<not> ok then retryAfter d (refuse 429 ''too many requests, try again later'') else withinLimits S ls next)"

text \<open>What runs in the background answers nobody; it runs here after the answer is settled.\<close>

definition background :: "'w handler \<Rightarrow> reply \<Rightarrow> 'w handler" where
  "background job rep = (\<lambda>w. (rep, snd (job w)))"

definition forgotJob :: "'w server \<Rightarrow> string \<Rightarrow> 'w handler" where
  "forgotJob S email = (let stop = writeHeader 0 in
     callD (GetUserByEmail email) (\<lambda>_. stop) (\<lambda>u.
     callD (IssueUserToken (sv_crypto S) (us_id u) PurposePasswordReset [] resetTokenTTL) (\<lambda>_. stop) (\<lambda>token.
     callK (sendMail S (us_email u) (pf_locale (us_profile u)) KindPasswordReset (pageLink S ''reset-password'' token)
       [(''username'', us_username u)]) (\<lambda>_. stop) (\<lambda>_. stop))))"

definition forgotReply :: reply where
  "forgotReply = \<lparr>rp_status = 202, rp_headers = [(''Content-Type'', ''application/json'')],
     rp_body = Some (JObj [(''status'', JStr ''if the e-mail has an account, a link was sent'')])\<rparr>"

definition handleForgotPassword :: "'w server \<Rightarrow> request \<Rightarrow> go_err + string \<Rightarrow> 'w handler" where
  "handleForgotPassword S r body =
     (if \<not> mailEnabled S then refuse 503 ''e-mail is not configured on this panel''
      else case body of Inl e \<Rightarrow> badJSON e
      | Inr reqEmail \<Rightarrow> (case validateEmail (sv_parse_address S) reqEmail of Inl e \<Rightarrow> writeError 422 (errText e)
      | Inr email \<Rightarrow>
        withinLimits S [(''pwreset:ip:'' @ clientIP r (sv_trusted S), forgotPerIP), (''pwreset:email:'' @ email, forgotPerEmail)] (
        auditEventAs S r None [] ''user.password.forgot'' ''email'' email ''success'' [] (
        background (forgotJob S email) forgotReply))))"

definition handleResetPassword :: "'w server \<Rightarrow> request \<Rightarrow> go_err + string \<times> string \<Rightarrow> 'w handler" where
  "handleResetPassword S r body = (case body of Inl e \<Rightarrow> badJSON e
   | Inr (token, password) \<Rightarrow> (case validatePassword password of Inl e \<Rightarrow> writeError 422 (errText e)
   | Inr _ \<Rightarrow> callD (ResetPassword (sv_crypto S) token password)
       (\<lambda>e. if e = DbErr DbInvalidToken then refuse 400 ''invalid or expired link'' else internalError e) (\<lambda>u.
     auditEventAs S r (Some u) [] ''user.password.reset'' ''user'' (us_username u) ''success'' [] (writeHeader 204))))"

definition changeEmailNow :: "'w server \<Rightarrow> request \<Rightarrow> string \<Rightarrow> user \<Rightarrow> 'w handler" where
  "changeEmailNow S r email u = callD (SetEmail (us_id u) email)
     (\<lambda>e. if e = DbErr DbEmailTaken then refuse 409 ''e-mail already in use'' else internalError e) (\<lambda>updated.
     auditEvent S r (Some u) [] ''user.email.change.confirm'' ''user'' (us_username u) ''success''
       [(''newEmail'', email), (''confirmation'', ''none'')] (writeJSON 200 (toUserResponse updated)))"

definition mailEmailChange :: "'w server \<Rightarrow> request \<Rightarrow> string \<Rightarrow> user \<Rightarrow> 'w handler" where
  "mailEmailChange S r email u =
     callD (IssueUserToken (sv_crypto S) (us_id u) PurposeEmailChange email emailChangeTokenTTL) internalError (\<lambda>token.
     callK (sendMail S email (pf_locale (us_profile u)) KindEmailChange (pageLink S ''confirm-email'' token) [(''username'', us_username u)])
       (\<lambda>_. refuse 502 ''could not send the confirmation e-mail'') (\<lambda>_.
     let after = auditEvent S r (Some u) [] ''user.email.change.request'' ''user'' (us_username u) ''success'' [(''newEmail'', email)] (writeHeader 202) in
     callK (sendMail S (us_email u) (pf_locale (us_profile u)) KindEmailChangeNotice [] [(''username'', us_username u), (''newEmail'', email)])
       (\<lambda>_. after) (\<lambda>_. after)))"

definition handleChangeEmail :: "'w server \<Rightarrow> request \<Rightarrow> go_err + string \<times> string \<Rightarrow> user \<Rightarrow> 'w handler" where
  "handleChangeEmail S r body u = (case body of Inl e \<Rightarrow> badJSON e
   | Inr (newEmail, current) \<Rightarrow> (case validateEmail (sv_parse_address S) newEmail of Inl e \<Rightarrow> writeError 422 (errText e)
   | Inr email \<Rightarrow>
     if email = us_email u then refuse 422 ''that is already your e-mail''
     else checkCurrentPassword S r u current (
       callD (GetUserByEmail email)
         (\<lambda>e. if e \<noteq> DbErr DbNotFound then internalError e
              else if \<not> mailEnabled S then changeEmailNow S r email u else mailEmailChange S r email u)
         (\<lambda>_. refuse 409 ''e-mail already in use''))))"

definition handleConfirmEmail :: "'w server \<Rightarrow> request \<Rightarrow> go_err + string \<Rightarrow> 'w handler" where
  "handleConfirmEmail S r body = (case body of Inl e \<Rightarrow> badJSON e
   | Inr token \<Rightarrow> callD (ConfirmEmailChange (sv_crypto S) token)
       (\<lambda>e. if e = DbErr DbInvalidToken then refuse 400 ''invalid or expired link''
            else if e = DbErr DbEmailTaken then refuse 409 ''e-mail already in use'' else internalError e) (\<lambda>u.
     auditEventAs S r (Some u) [] ''user.email.change.confirm'' ''user'' (us_username u) ''success'' [] (writeJSON 200 (toUserResponse u))))"

end
