(* ===== verification/Panel_Limits.thy ===== *)
theory Panel_Limits
  imports Panel_Cache Panel_Accounts
begin

text \<open>
  What the limit on failed logins gives: enough failures close the door for the pair of account and address, whatever
  else is counted meanwhile, and nobody stays outside for longer than the window.
\<close>

section \<open>Runs of the limiter\<close>

datatype limit_op = LimitFailure string string | LimitSuccess string string

fun limit_step :: "crypto \<Rightarrow> login_limits \<Rightarrow> time \<times> limit_op \<Rightarrow> redis \<Rightarrow> redis" where
  "limit_step C L (now, LimitFailure u ip) r = snd (RecordFailure C L u ip (r\<lparr>rd_now := now\<rparr>))"
| "limit_step C L (now, LimitSuccess u ip) r = snd (RecordSuccess C u ip (r\<lparr>rd_now := now\<rparr>))"

definition limit_run :: "crypto \<Rightarrow> login_limits \<Rightarrow> (time \<times> limit_op) list \<Rightarrow> redis \<Rightarrow> redis" where
  "limit_run C L xs r = fold (limit_step C L) xs r"

text \<open>The counters: failures to reach Redis apart, a step only increments and deletes.\<close>

definition counters_ok :: "(time \<Rightarrow> bool) \<Rightarrow> redis \<Rightarrow> bool" where
  "counters_ok P r \<longleftrightarrow> rd_fates r = [] \<and> (\<forall>k x. map_of (rd_keys r) k = Some x \<longrightarrow> (\<exists>n e. x = (RInt n, Some e) \<and> 0 \<le> n \<and> P e))"

lemma counters_okD: "counters_ok P r \<Longrightarrow> map_of (rd_keys r) k = Some x \<Longrightarrow> \<exists>n e. x = (RInt n, Some e) \<and> 0 \<le> n \<and> P e"
  unfolding counters_ok_def by blast

definition bump :: "string \<Rightarrow> duration \<Rightarrow> redis \<Rightarrow> redis" where
  "bump k w r = (case map_of (rd_keys r) k of
     Some (RInt n, Some e) \<Rightarrow> if rd_now r < e then putKey k (RInt (n + 1), Some e) r else putKey k (RInt 1, Some (rd_now r + w)) r
   | _ \<Rightarrow> putKey k (RInt 1, Some (rd_now r + w)) r)"

lemma incrExpire_bump:
  assumes "counters_ok P r"
  shows "snd (incrExpire k window r) = bump k (window div 1000000 * 1000000) r" and "\<exists>n. fst (incrExpire k window r) = Inr n"
proof -
  have "snd (incrExpire k window r) = bump k (window div 1000000 * 1000000) r \<and> (\<exists>n. fst (incrExpire k window r) = Inr n)"
  proof (cases "map_of (rd_keys r) k")
    case None
    with assms show ?thesis by (simp add: incrExpire_def cmd_run counters_ok_def look_def bump_def)
  next
    case (Some x)
    with counters_okD [OF assms] obtain n e where "x = (RInt n, Some e)" by blast
    with Some assms show ?thesis
      by (simp add: incrExpire_def cmd_run counters_ok_def look_def unexpired_def bump_def)
  qed
  then show "snd (incrExpire k window r) = bump k (window div 1000000 * 1000000) r" "\<exists>n. fst (incrExpire k window r) = Inr n"
    by auto
qed

lemma bump_frame [simp]: "rd_now (bump k w r) = rd_now r" "rd_fates (bump k w r) = rd_fates r"
  by (auto simp: bump_def split: option.splits rval.splits prod.splits)

lemma map_of_bump:
  "map_of (rd_keys (bump k w r)) j = (if j = k then Some (case map_of (rd_keys r) k of
     Some (RInt n, Some e) \<Rightarrow> if rd_now r < e then (RInt (n + 1), Some e) else (RInt 1, Some (rd_now r + w))
   | _ \<Rightarrow> (RInt 1, Some (rd_now r + w))) else map_of (rd_keys r) j)"
  by (auto simp: bump_def putKey_def update_conv' split: option.splits rval.splits prod.splits)

lemma counters_bump:
  assumes "counters_ok P r" and "P (rd_now r + w)"
  shows "counters_ok P (bump k w r)"
proof -
  have "\<exists>n e. x = (RInt n, Some e) \<and> 0 \<le> n \<and> P e" if "map_of (rd_keys (bump k w r)) j = Some x" for j x
  proof (cases "map_of (rd_keys r) k")
    case None
    with that counters_okD [OF assms(1), of j x] assms(2) show ?thesis by (auto simp: map_of_bump split: if_splits)
  next
    case (Some y)
    with counters_okD [OF assms(1)] obtain n e where "y = (RInt n, Some e)" "0 \<le> n" "P e" by blast
    with Some that counters_okD [OF assms(1), of j x] assms(2) show ?thesis by (auto simp: map_of_bump split: if_splits)
  qed
  moreover from assms(1) have "rd_fates (bump k w r) = []" unfolding bump_frame counters_ok_def by blast
  ultimately show ?thesis unfolding counters_ok_def by blast
qed

abbreviation (input) ms_window :: "login_limits \<Rightarrow> duration" where
  "ms_window L \<equiv> ll_window L div 1000000 * 1000000"

lemma limit_failure:
  assumes "counters_ok P r" and "P (now + ms_window L)"
  shows "limit_step C L (now, LimitFailure u ip) r =
    bump (userIPKey C u ip) (ms_window L) (bump (ipKey C ip) (ms_window L) (r\<lparr>rd_now := now\<rparr>))"
proof -
  have ok: "counters_ok P (r\<lparr>rd_now := now\<rparr>)" using assms(1) by (simp add: counters_ok_def)
  then have ok': "counters_ok P (bump (ipKey C ip) (ms_window L) (r\<lparr>rd_now := now\<rparr>))" using assms(2) by (simp add: counters_bump)
  have inc: "\<exists>n. incrExpire k (ll_window L) x = (Inr n, bump k (ms_window L) x)" if "counters_ok P x" for k x
    using incrExpire_bump [OF that, of k "ll_window L"] by (cases "incrExpire k (ll_window L) x") auto
  from inc [OF ok, of "ipKey C ip"] inc [OF ok', of "userIPKey C u ip"] show ?thesis
    by (auto simp: RecordFailure_def bindE_def ret_def)
qed

lemma limit_success:
  "counters_ok P r \<Longrightarrow> limit_step C L (now, LimitSuccess u ip) r = delKey (userIPKey C u ip) (r\<lparr>rd_now := now\<rparr>)"
  by (simp add: RecordSuccess_def rDel_def cmd_def counters_ok_def)

lemma counters_step:
  "counters_ok P r \<Longrightarrow> P (now + ms_window L) \<Longrightarrow> counters_ok P (limit_step C L (now, x) r)"
proof (cases x)
  case (LimitFailure u ip)
  assume "counters_ok P r" "P (now + ms_window L)"
  then show ?thesis unfolding LimitFailure limit_failure [of P r now L C u ip, OF \<open>counters_ok P r\<close> \<open>P (now + ms_window L)\<close>]
    by (intro counters_bump) (simp_all add: counters_ok_def)
next
  case (LimitSuccess u ip)
  assume "counters_ok P r"
  then show ?thesis unfolding LimitSuccess limit_success [OF \<open>counters_ok P r\<close>]
    by (auto simp: counters_ok_def delKey_def delete_conv' split: if_splits)
qed

lemma counters_run:
  "counters_ok P r \<Longrightarrow> list_all (\<lambda>x. P (fst x + ms_window L)) xs \<Longrightarrow> counters_ok P (limit_run C L xs r)"
  unfolding limit_run_def by (induction xs arbitrary: r) (auto simp: counters_step)

text \<open>What the limiter answers from good counters.\<close>

definition over :: "time \<Rightarrow> (string \<times> rentry) list \<Rightarrow> string \<Rightarrow> int \<Rightarrow> bool" where
  "over t m k mx \<longleftrightarrow> (case map_of m k of Some (RInt n, Some e) \<Rightarrow> t < e \<and> mx \<le> n | _ \<Rightarrow> False)"

lemma overLimit_over:
  assumes "counters_ok P r"
  shows "\<exists>ttl. overLimit w k mx r = (Inr (if over (rd_now r) (rd_keys r) k mx then Some ttl else None), r)"
proof (cases "map_of (rd_keys r) k")
  case None
  with assms show ?thesis
    by (simp add: overLimit_def attempt_def rGet_def cmd_run counters_ok_def look_def bindE_def ret_def over_def)
next
  case (Some x)
  with counters_okD [OF assms] obtain n e where "x = (RInt n, Some e)" by blast
  with Some assms show ?thesis
    by (auto simp: overLimit_def attempt_def rGet_def rPTTL_def cmd_run counters_ok_def look_def unexpired_def bindE_def ret_def over_def)
qed

lemma Blocked_over:
  assumes "counters_ok P r"
  shows "\<exists>ttl. fst (Blocked C L u ip r) = Inr (if over (rd_now r) (rd_keys r) (ipKey C ip) (ll_per_ip L) \<or>
    over (rd_now r) (rd_keys r) (userIPKey C u ip) (ll_per_user_ip L) then (True, ttl) else (False, 0))"
proof -
  from overLimit_over [OF assms, of "ll_window L" "ipKey C ip" "ll_per_ip L"]
    overLimit_over [OF assms, of "ll_window L" "userIPKey C u ip" "ll_per_user_ip L"]
  show ?thesis by (auto simp: Blocked_def bindE_def ret_def)
qed

section \<open>The door closes and opens again\<close>


text \<open>How often a counter was incremented.\<close>

definition hits :: "crypto \<Rightarrow> string \<Rightarrow> (time \<times> limit_op) list \<Rightarrow> nat" where
  "hits C k xs = length (filter (\<lambda>x. case snd x of LimitFailure u ip \<Rightarrow> userIPKey C u ip = k | _ \<Rightarrow> False) xs)"

lemma ipKey_not_userIPKey [simp]: "ipKey C a \<noteq> userIPKey C u b" "userIPKey C u b \<noteq> ipKey C a"
  by (simp_all add: ipKey_def userIPKey_def)

definition counted :: "string \<Rightarrow> time \<Rightarrow> duration \<Rightarrow> nat \<Rightarrow> redis \<Rightarrow> bool" where
  "counted k t0 w j r \<longleftrightarrow> (case map_of (rd_keys r) k of
     Some (RInt n, Some e) \<Rightarrow> j = 0 \<and> e \<le> t0 \<or> int j \<le> n \<and> t0 + w \<le> e | Some _ \<Rightarrow> False | None \<Rightarrow> j = 0)"

lemma counted_bump:
  "counted k t0 w j r \<Longrightarrow> t0 \<le> rd_now r \<Longrightarrow> rd_now r < t0 + w \<Longrightarrow> counted k t0 w (if k = k' then Suc j else j) (bump k' w r)"
  by (auto simp: counted_def map_of_bump split: option.splits prod.splits rval.splits)

lemma counted_frame [simp]: "counted k t0 w j (r\<lparr>rd_now := t\<rparr>) = counted k t0 w j r"
  by (simp add: counted_def)

lemma hits_counted:
  assumes "counters_ok (\<lambda>_. True) r" and "counted (userIPKey C u0 ip0) t0 (ms_window L) j r"
    and "list_all (\<lambda>x. t0 \<le> fst x \<and> fst x < t0 + ms_window L \<and>
      (case snd x of LimitSuccess u ip \<Rightarrow> userIPKey C u ip \<noteq> userIPKey C u0 ip0 | _ \<Rightarrow> True)) xs"
  shows "counted (userIPKey C u0 ip0) t0 (ms_window L) (j + hits C (userIPKey C u0 ip0) xs) (limit_run C L xs r)"
  using assms
proof (induction xs arbitrary: j r)
  case (Cons x xs)
  obtain t op where x: "x = (t, op)" by (cases x)
  let ?k = "userIPKey C u0 ip0" and ?r = "limit_step C L x r"
  have ok: "counters_ok (\<lambda>_. True) ?r" using Cons.prems(1) by (simp add: x counters_step)
  have "counted ?k t0 (ms_window L) (j + hits C ?k [x]) ?r"
  proof (cases op)
    case (LimitFailure u ip)
    have "counted ?k t0 (ms_window L) (if ?k = ipKey C ip then Suc j else j) (bump (ipKey C ip) (ms_window L) (r\<lparr>rd_now := t\<rparr>))"
      using Cons.prems by (intro counted_bump) (auto simp: x)
    then have "counted ?k t0 (ms_window L) (if ?k = userIPKey C u ip then Suc j else j)
      (bump (userIPKey C u ip) (ms_window L) (bump (ipKey C ip) (ms_window L) (r\<lparr>rd_now := t\<rparr>)))"
      using Cons.prems by (intro counted_bump) (auto simp: x)
    with limit_failure [OF Cons.prems(1) TrueI, of C L t u ip] show ?thesis
      by (cases "userIPKey C u0 ip0 = userIPKey C u ip") (simp_all add: x LimitFailure hits_def eq_commute [of "userIPKey C u ip"])
  next
    case (LimitSuccess u ip)
    with Cons.prems(3) have "?k \<noteq> userIPKey C u ip" by (auto simp: x)
    with LimitSuccess show ?thesis using Cons.prems(2) limit_success [OF Cons.prems(1)]
      by (simp add: x hits_def counted_def delKey_def delete_conv')
  qed
  from Cons.IH [OF ok this] Cons.prems(3) show ?case by (simp add: hits_def limit_run_def add.assoc split: limit_op.splits if_splits)
qed (simp add: hits_def limit_run_def)

text \<open>
  Guessing is bounded: once as many failures as the limit allows were counted for an account and an address within one
  window, and none of its logins succeeded meanwhile, the limiter answers "blocked" for that pair until the window
  is over, whatever failures and successes of others are counted in between.
\<close>

theorem limiter_closes:
  assumes "rd_fates r = []" and "rd_keys r = []" and "t0 \<le> t" and "t < t0 + ms_window L"
    and "list_all (\<lambda>x. t0 \<le> fst x \<and> fst x \<le> t \<and>
      (case snd x of LimitSuccess u a \<Rightarrow> userIPKey C u a \<noteq> userIPKey C username ip | _ \<Rightarrow> True)) xs"
    and "0 < ll_per_user_ip L" and "ll_per_user_ip L \<le> int (length (filter (\<lambda>x. snd x = LimitFailure username ip) xs))"
  shows "\<exists>ttl. fst (Blocked C L username ip ((limit_run C L xs r)\<lparr>rd_now := t\<rparr>)) = Inr (True, ttl)"
proof -
  let ?k = "userIPKey C username ip" and ?r = "(limit_run C L xs r)\<lparr>rd_now := t\<rparr>"
  have ok: "counters_ok (\<lambda>_. True) r" using assms(1,2) by (simp add: counters_ok_def)
  have "counters_ok (\<lambda>_. True) (limit_run C L xs r)" by (rule counters_run [OF ok]) (simp add: list_all_iff)
  then have ok': "counters_ok (\<lambda>_. True) ?r" by (simp add: counters_ok_def)
  have "counted ?k t0 (ms_window L) (0 + hits C ?k xs) (limit_run C L xs r)"
  proof (rule hits_counted [OF ok])
    show "counted ?k t0 (ms_window L) 0 r" using assms(2) by (simp add: counted_def)
    show "list_all (\<lambda>x. t0 \<le> fst x \<and> fst x < t0 + ms_window L \<and>
      (case snd x of LimitSuccess u a \<Rightarrow> userIPKey C u a \<noteq> ?k | _ \<Rightarrow> True)) xs"
      by (rule list.pred_mono_strong [OF assms(5)]) (use assms(4) in auto)
  qed
  moreover have "length (filter (\<lambda>x. snd x = LimitFailure username ip) xs) \<le> hits C ?k xs"
    unfolding hits_def by (induction xs) auto
  ultimately have "over t (rd_keys (limit_run C L xs r)) ?k (ll_per_user_ip L)"
    using assms(4,6,7) by (auto simp: counted_def over_def split: option.splits prod.splits rval.splits)
  with Blocked_over [OF ok', of C L username ip] show ?thesis by auto
qed

section \<open>A sample\<close>

definition no_redis :: redis where
  "no_redis = \<lparr>rd_keys = [], rd_now = 0, rd_fates = [], rd_random = []\<rparr>"

definition five_failures :: "(time \<times> limit_op) list" where
  "five_failures = map (\<lambda>t. (t, LimitFailure ''ada'' ''10.0.0.1'')) [0, 1, 2, 3, 4]"


theorem limiter_closes_witness:
  "\<exists>ttl. fst (Blocked sample_crypto DefaultLoginLimits ''ada'' ''10.0.0.1''
     ((limit_run sample_crypto DefaultLoginLimits five_failures no_redis)\<lparr>rd_now := 14 * minute\<rparr>)) = Inr (True, ttl)"
  by (rule limiter_closes [of _ 0])
    (simp_all add: no_redis_def five_failures_def DefaultLoginLimits_def minute_def second_def)

end
