(* ===== verification/Panel_Samples.thy ===== *)
theory Panel_Samples
  imports Panel_Access Panel_Limits
begin

text \<open>
  One panel on which the witnesses of the handlers run: Ada owns the organization \<open>acme\<close>, Bob is a member of it who may
  read the console of every server and restart one, and Eve belongs to nothing. Each is signed in.
\<close>

definition sample_server :: "unit server" where
  "sample_server = \<lparr>sv_k = absent_k8s, sv_crypto = sample_crypto, sv_trusted = [], sv_audit_days = 90, sv_limits = DefaultLoginLimits,
     sv_two_factor = None, sv_totp = (\<lambda>s t. None), sv_challenges = True, sv_pending = True, sv_send = None, sv_public_url = [],
     sv_parse_address = (\<lambda>a. Some ([], a)), sv_discord = False\<rparr>"

definition bobs_grants :: "grant list" where
  "bobs_grants = [\<lparr>gn_gameserver = AllServers, gn_permissions = [''console.read'']\<rparr>, \<lparr>gn_gameserver = ''mc'', gn_permissions = [''power'']\<rparr>]"

definition sample_account :: "int \<Rightarrow> string \<Rightarrow> user_row" where
  "sample_account i name = newUserRow i 0 name (name @ ''@a.org'') ''first'' False"

definition sample_session :: "string \<Rightarrow> int \<Rightarrow> session_row" where
  "sample_session token i = \<lparr>sn_hash = cr_sha sample_crypto token, sn_user = i, sn_expires = 53, sn_revoked = None\<rparr>"

definition sample_acme :: org where
  "sample_acme = \<lparr>og_id = 4, og_slug = ''acme'', og_name = ''Acme'', og_created = 1, og_require2fa = False\<rparr>"

definition sample_db :: pdb where
  "sample_db = (new_db [] [''next'', ''other''])\<lparr>db_now := 3, db_seq := 5, db_t := no_tables\<lparr>
     tb_users := [sample_account 1 ''ada'', sample_account 2 ''bob'', sample_account 3 ''eve''],
     tb_sessions := [sample_session ''a'' 1, sample_session ''b'' 2, sample_session ''e'' 3],
     tb_orgs := [sample_acme],
     tb_members := [\<lparr>mb_org = 4, mb_user = 1, mb_role = RoleOwner\<rparr>, \<lparr>mb_org = 4, mb_user = 2, mb_role = RoleMember\<rparr>],
     tb_grants := [\<lparr>gr_org = 4, gr_user = 2, gr_gameserver = AllServers, gr_permission = ''console.read''\<rparr>,
       \<lparr>gr_org = 4, gr_user = 2, gr_gameserver = ''mc'', gr_permission = ''power''\<rparr>]\<rparr>\<rparr>"

definition sample_hw :: "unit hw" where
  "sample_hw = \<lparr>hw_env = (), hw_db = sample_db, hw_cache = no_redis, hw_random = [], hw_others = []\<rparr>"

text \<open>A request with a session.\<close>

definition signed_request :: "string \<Rightarrow> request" where
  "signed_request token = \<lparr>rq_auth = ''Bearer '' @ token, rq_remote = ''10.0.0.1:5000'', rq_forwarded = [], rq_query = [], rq_internal = None\<rparr>"

definition sample_user :: "int \<Rightarrow> user" where
  "sample_user i = scanUser (the (find (\<lambda>u. ur_id u = i) (tb_users (db_t sample_db))))"

lemma sample_quiet: "hw_others sample_hw = []" "db_faults (hw_db sample_hw) = []" "hw_db sample_hw = sample_db"
  by (simp_all add: sample_hw_def sample_db_def new_db_def)

lemma sample_orgs: "tb_orgs (db_t sample_db) = [sample_acme]" "og_slug sample_acme = ''acme''" "og_id sample_acme = 4"
  by (simp_all add: sample_db_def new_db_def no_tables_def sample_acme_def)

end
