(* ===== verification/Panel_Gate.thy ===== *)
theory Panel_Gate
  imports Panel_Samples
begin

text \<open>
  What the wrappers of \<open>Panel_Access\<close> let through: the handler behind an organization's route runs only for a signed-in
  user with the role, who otherwise learns nothing; what a member may do is what the grants say.
\<close>

section \<open>Calls that only read\<close>

definition peeks :: "'a db \<Rightarrow> bool" where
  "peeks m \<longleftrightarrow> (\<forall>s. db_t (snd (m s)) = db_t s \<and> db_now (snd (m s)) = db_now s)"

lemma peeks_query: "peeks (query f)"
  by (auto simp: peeks_def query_def stmt_def split: list.splits)

lemma peeks_ret: "peeks (ret x)"
  by (simp add: peeks_def ret_def)

lemma peeks_bindE: "peeks m \<Longrightarrow> (\<And>x. peeks (f x)) \<Longrightarrow> peeks (bindE m f)"
  by (auto simp: peeks_def bindE_def split: prod.splits sum.splits) (metis snd_conv)+

lemma peeks_if: "peeks m \<Longrightarrow> peeks n \<Longrightarrow> peeks (if b then m else n)"
  by simp

lemmas peeks_rules = peeks_query peeks_ret peeks_bindE peeks_if

lemma peeks_store:
  "peeks (ValidateSession C token)" "peeks (GetOrgBySlug slug)" "peeks (GetMembership i u)" "peeks (ListMemberGrants i u)"
  "peeks (GetSetting k)" "peeks (adminNeeds2FA u')" "peeks (twoFactorBlocked u' g)"
  by (auto simp: ValidateSession_def GetOrgBySlug_def GetMembership_def ListMemberGrants_def GetSetting_def adminNeeds2FA_def
      twoFactorBlocked_def intro: peeks_rules)

text \<open>The same cluster, cache and tables, and nobody else at work.\<close>

definition alike :: "'w hw \<Rightarrow> 'w hw \<Rightarrow> bool" where
  "alike w v \<longleftrightarrow> hw_env v = hw_env w \<and> hw_cache v = hw_cache w \<and> hw_random v = hw_random w \<and> db_t (hw_db v) = db_t (hw_db w) \<and>
     db_now (hw_db v) = db_now (hw_db w) \<and> hw_others v = []"

lemma alike_trans: "alike w v \<Longrightarrow> alike v x \<Longrightarrow> alike w x"
  by (simp add: alike_def)

lemma alike_refl: "hw_others w = [] \<Longrightarrow> alike w w"
  by (simp add: alike_def)

lemma alike_quiet: "alike w v \<Longrightarrow> hw_others v = []"
  by (simp add: alike_def)

lemma callD_peeks:
  assumes "peeks m" and "hw_others w = []"
  obtains (bad) e v where "alike w v" "callD m bad good w = bad e v"
  | (good) x v where "alike w v" "fst (m (hw_db w)) = Inr x" "callD m bad good w = good x v"
proof -
  obtain r d where m: "m (hw_db w) = (r, d)" by (cases "m (hw_db w)")
  with assms(1) have "db_t d = db_t (hw_db w)" "db_now d = db_now (hw_db w)" unfolding peeks_def by (metis snd_conv)+
  with assms(2) have "alike w (w\<lparr>hw_db := d\<rparr>)" by (simp add: alike_def)
  with m assms(2) that show thesis by (cases r) (auto simp: callD_def turn_def)
qed

section \<open>What the checks read\<close>

definition session_user :: "crypto \<Rightarrow> string \<Rightarrow> pdb \<Rightarrow> user \<Rightarrow> bool" where
  "session_user C token s u \<longleftrightarrow> (\<exists>x\<in>set (tb_sessions (db_t s)). liveSession (db_now s) (cr_sha C token) x \<and>
     (\<exists>row\<in>set (tb_users (db_t s)). ur_id row = sn_user x \<and> u = scanUser row))"

definition signed_in :: "'w server \<Rightarrow> request \<Rightarrow> pdb \<Rightarrow> user \<Rightarrow> bool" where
  "signed_in S r s u \<longleftrightarrow> (case rq_internal r of Some (v, _) \<Rightarrow> u = v
     | None \<Rightarrow> headerToken r \<noteq> [] \<and> session_user (sv_crypto S) (headerToken r) s u)"

definition may_enter :: "tables \<Rightarrow> user \<Rightarrow> string \<Rightarrow> role \<Rightarrow> org_access \<Rightarrow> bool" where
  "may_enter t u slug mn acc \<longleftrightarrow> ac_org acc \<in> set (tb_orgs t) \<and> og_slug (ac_org acc) = slug \<and> AtLeast (ac_role acc) mn \<and>
     (if us_admin u then ac_role acc = RoleOwner else roleOf (og_id (ac_org acc)) (us_id u) t = Some (ac_role acc)) \<and>
     (us_two_factor u \<or> \<not> og_require2fa (ac_org acc) \<and> (us_admin u \<longrightarrow> map_of (tb_settings t) settingRequireAdmin2FA \<noteq> Some ''true''))"

lemma find_someD: "find p xs = Some x \<Longrightarrow> x \<in> set xs \<and> p x"
  by (auto simp: find_Some_iff in_set_conv_nth)

lemma ValidateSession_gives: "fst (ValidateSession C token s) = Inr u \<Longrightarrow> session_user C token s u"
  unfolding ValidateSession_def
  by (drule query_fst) (auto simp: session_user_def usersOf_def split: option.splits dest!: find_someD)

lemma GetOrgBySlug_gives: "fst (GetOrgBySlug slug s) = Inr g \<Longrightarrow> g \<in> set (tb_orgs (db_t s)) \<and> og_slug g = slug"
  unfolding GetOrgBySlug_def by (drule query_fst) (auto split: option.splits dest!: find_someD)

lemma GetMembership_gives: "fst (GetMembership i u s) = Inr r \<Longrightarrow> roleOf i u (db_t s) = Some r"
  unfolding GetMembership_def by (drule query_fst) (auto split: option.splits)

lemma twoFactorBlocked_gives:
  "fst (twoFactorBlocked u g s) = Inr False \<Longrightarrow> us_two_factor u \<or> \<not> og_require2fa g \<and>
     (us_admin u \<longrightarrow> map_of (tb_settings (db_t s)) settingRequireAdmin2FA \<noteq> Some ''true'')"
  by (auto simp: twoFactorBlocked_def adminNeeds2FA_def GetSetting_def ret_def bindE_def split: if_splits prod.splits sum.splits option.splits
      dest!: query_Inr)

lemma alike_reads:
  "alike w v \<Longrightarrow> session_user C token (hw_db v) u = session_user C token (hw_db w) u"
  "alike w v \<Longrightarrow> signed_in S r (hw_db v) u = signed_in S r (hw_db w) u"
  by (auto simp: alike_def session_user_def signed_in_def split: option.splits)

section \<open>The gates\<close>

text \<open>A handler that was refused: the answer, and a state in which only reads happened.\<close>

definition refused :: "nat set \<Rightarrow> 'w hw \<Rightarrow> reply \<times> 'w hw \<Rightarrow> bool" where
  "refused codes w res \<longleftrightarrow> rp_status (fst res) \<in> codes \<and> alike w (snd res)"

lemma refusal_status [simp]:
  "rp_status (fst (writeError n m v)) = n" "snd (writeError n m v) = v"
  "rp_status (fst (writeErrorCode n c m v)) = n" "snd (writeErrorCode n c m v) = v"
  "rp_status (fst (writeJSON n j v)) = n" "snd (writeJSON n j v) = v"
  "rp_status (fst (writeHeader n v)) = n" "snd (writeHeader n v) = v"
  "rp_status (fst (withHeader k x h v)) = rp_status (fst (h v))" "snd (withHeader k x h v) = snd (h v)"
  by (simp_all add: writeError_def writeErrorCode_def writeJSON_def writeHeader_def withHeader_def answer_def)

text \<open>Every check either ends in one of its refusals or runs what it protects, after reads only.\<close>

definition gate :: "'w hw \<Rightarrow> ('d \<Rightarrow> bool) \<Rightarrow> ('d \<Rightarrow> 'w handler) \<Rightarrow> ('a \<Rightarrow> bool) \<Rightarrow> ('a \<Rightarrow> 'w handler) \<Rightarrow> reply \<times> 'w hw \<Rightarrow> bool" where
  "gate w D deny A allow res \<longleftrightarrow> (\<exists>d v. alike w v \<and> D d \<and> res = deny d v) \<or> (\<exists>a v. alike w v \<and> A a \<and> res = allow a v)"

lemma gate_deny: "alike w v \<Longrightarrow> D d \<Longrightarrow> gate w D deny A allow (deny d v)"
  by (auto simp: gate_def)

lemma gate_allow: "alike w v \<Longrightarrow> A a \<Longrightarrow> gate w D deny A allow (allow a v)"
  by (auto simp: gate_def)

lemma gate_callD:
  assumes "peeks m" and v: "alike w v"
    and "\<And>e x. alike w x \<Longrightarrow> gate w D deny A allow (bad e x)"
    and "\<And>y x. alike w x \<Longrightarrow> fst (m (hw_db v)) = Inr y \<Longrightarrow> gate w D deny A allow (good y x)"
  shows "gate w D deny A allow (callD m bad good v)"
proof (rule callD_peeks [OF assms(1) alike_quiet [OF v], of bad good])
  fix e x assume "alike v x" "callD m bad good v = bad e x"
  with assms(3) [of x e] alike_trans [OF v] show ?thesis by simp
next
  fix y x assume "alike v x" "fst (m (hw_db v)) = Inr y" "callD m bad good v = good y x"
  with assms(4) [of x y] alike_trans [OF v] show ?thesis by simp
qed

lemma requireAuth_gate:
  assumes v: "alike w v"
  shows "gate w (\<lambda>m. True) unauthorized (signed_in S r (hw_db w)) next (requireAuth S next r v)"
proof (cases "rq_internal r")
  case (Some i)
  with v show ?thesis
    by (cases i) (auto simp: requireAuth_def authenticate_def signed_in_def intro: gate_allow)
next
  case None
  with v show ?thesis
    by (auto simp: requireAuth_def authenticate_def Let_def signed_in_def alike_reads intro!: gate_deny gate_allow
        gate_callD peeks_store dest!: ValidateSession_gives)
qed

definition grants_read :: "tables \<Rightarrow> user \<Rightarrow> org_access \<Rightarrow> bool" where
  "grants_read t u acc \<longleftrightarrow> (ac_role acc = RoleMember \<longrightarrow> (\<forall>server p.
     (\<exists>g\<in>set (ac_grants acc). gn_gameserver g = server \<and> p \<in> set (gn_permissions g)) \<longleftrightarrow>
     \<lparr>gr_org = og_id (ac_org acc), gr_user = us_id u, gr_gameserver = server, gr_permission = p\<rparr> \<in> set (tb_grants t)))"

lemma ListMemberGrants_gives:
  assumes "fst (ListMemberGrants i u s) = Inr grants"
  shows "(\<exists>g\<in>set grants. gn_gameserver g = server \<and> p \<in> set (gn_permissions g)) \<longleftrightarrow>
    \<lparr>gr_org = i, gr_user = u, gr_gameserver = server, gr_permission = p\<rparr> \<in> set (tb_grants (db_t s))"
proof -
  let ?rows = "filter (\<lambda>g. gr_org g = i \<and> gr_user g = u) (tb_grants (db_t s))"
  let ?names = "remdups (map gr_gameserver ?rows)"
  let ?grant = "\<lambda>n. \<lparr>gn_gameserver = n, gn_permissions = sort_key permOrder (map gr_permission (filter (\<lambda>g. gr_gameserver g = n) ?rows))\<rparr>"
  define servers where "servers = filter (\<lambda>n. n = AllServers) ?names @ sort (filter (\<lambda>n. n \<noteq> AllServers) ?names)"
  from query_fst [OF assms [unfolded ListMemberGrants_def]] have grants: "map ?grant servers = grants"
    unfolding servers_def by (simp only: Let_def tick_simps sum.inject)
  have servers: "set servers = gr_gameserver ` set ?rows" unfolding servers_def by auto
  have "set grants = ?grant ` gr_gameserver ` set ?rows" by (simp only: grants [symmetric] set_map servers)
  then have "(\<exists>g\<in>set grants. gn_gameserver g = server \<and> p \<in> set (gn_permissions g)) \<longleftrightarrow>
    (\<exists>n\<in>gr_gameserver ` set ?rows. n = server \<and> p \<in> gr_permission ` {g \<in> set ?rows. gr_gameserver g = n})" by simp
  also have "\<dots> \<longleftrightarrow> (\<exists>g\<in>set ?rows. gr_gameserver g = server \<and> gr_permission g = p)" by blast
  also have "\<dots> \<longleftrightarrow> \<lparr>gr_org = i, gr_user = u, gr_gameserver = server, gr_permission = p\<rparr> \<in> set (tb_grants (db_t s))"
    (is "_ \<longleftrightarrow> ?row \<in> _")
  proof
    assume "\<exists>g\<in>set ?rows. gr_gameserver g = server \<and> gr_permission g = p"
    then obtain g where "g \<in> set (tb_grants (db_t s))" "gr_org g = i \<and> gr_user g = u \<and> gr_gameserver g = server \<and> gr_permission g = p"
      unfolding set_filter by blast
    moreover from this(2) have "g = ?row" by simp
    ultimately show "?row \<in> set (tb_grants (db_t s))" by simp
  qed (intro bexI [of _ ?row], simp_all)
  finally show ?thesis .
qed

text \<open>What \<open>resolveOrgAccess\<close> ends in.\<close>

definition denied :: "nat \<times> msg \<Rightarrow> bool" where
  "denied d \<longleftrightarrow> fst d \<in> {403, 404, 500}"

definition entered :: "tables \<Rightarrow> user \<Rightarrow> string \<Rightarrow> role \<Rightarrow> org_access \<Rightarrow> bool" where
  "entered t u slug mn acc \<longleftrightarrow> may_enter t u slug mn acc \<and> grants_read t u acc"

abbreviation (input) org_gate :: "'w hw \<Rightarrow> user \<Rightarrow> string \<Rightarrow> role \<Rightarrow> (nat \<Rightarrow> msg \<Rightarrow> 'w handler) \<Rightarrow> (org_access \<Rightarrow> 'w handler) \<Rightarrow> reply \<times> 'w hw \<Rightarrow> bool" where
  "org_gate w u slug mn deny allow res \<equiv> gate w denied (case_prod deny) (entered (db_t (hw_db w)) u slug mn) allow res"

lemma alike_tables: "alike w v \<Longrightarrow> db_t (hw_db v) = db_t (hw_db w)"
  by (simp add: alike_def)

lemma deny_gate: "alike w v \<Longrightarrow> n \<in> {403, 404, 500} \<Longrightarrow> gate w denied (case_prod deny) A allow (deny n m v)"
  using gate_deny [of w v denied "(n, m)" "case_prod deny" A allow] by (simp add: denied_def)

lemma accessInRole_gate:
  assumes v: "alike w v" and g: "g \<in> set (tb_orgs (db_t (hw_db w)))" "og_slug g = slug"
    and r: "if us_admin u then r = RoleOwner else roleOf (og_id g) (us_id u) (db_t (hw_db w)) = Some r"
    and b: "us_two_factor u \<or> \<not> og_require2fa g \<and> (us_admin u \<longrightarrow> map_of (tb_settings (db_t (hw_db w))) settingRequireAdmin2FA \<noteq> Some ''true'')"
  shows "org_gate w u slug mn deny allow (accessInRole u mn g r deny allow v)"
proof (cases "AtLeast r mn")
  case False
  then show ?thesis unfolding accessInRole_def by (simp add: deny_gate [OF v])
next
  case True
  have enter: "entered (db_t (hw_db w)) u slug mn \<lparr>ac_org = g, ac_role = r, ac_grants = gs\<rparr>"
    if "r = RoleMember \<Longrightarrow> fst (ListMemberGrants (og_id g) (us_id u) (hw_db v)) = Inr gs" for gs
    using g r b True ListMemberGrants_gives [OF that] by (simp add: entered_def may_enter_def grants_read_def alike_tables [OF v])
  have "org_gate w u slug mn deny allow (callD (ListMemberGrants (og_id g) (us_id u)) (\<lambda>e. deny 500 (errText e))
     (\<lambda>gs. allow \<lparr>ac_org = g, ac_role = r, ac_grants = gs\<rparr>) v)"
  proof (rule gate_callD [OF peeks_store(4) v deny_gate])
    fix gs x assume "alike w x" "fst (ListMemberGrants (og_id g) (us_id u) (hw_db v)) = Inr gs"
    then show "org_gate w u slug mn deny allow (allow \<lparr>ac_org = g, ac_role = r, ac_grants = gs\<rparr> x)"
      by (intro gate_allow enter)
  qed simp_all
  moreover have "r \<noteq> RoleMember \<Longrightarrow> org_gate w u slug mn deny allow (allow \<lparr>ac_org = g, ac_role = r, ac_grants = []\<rparr> v)"
    by (intro gate_allow v enter) simp
  ultimately show ?thesis using True unfolding accessInRole_def by (cases "r = RoleMember") simp_all
qed

lemma accessUnlessBlocked_gate:
  assumes v: "alike w v" and g: "g \<in> set (tb_orgs (db_t (hw_db w)))" "og_slug g = slug"
    and r: "if us_admin u then r = RoleOwner else roleOf (og_id g) (us_id u) (db_t (hw_db w)) = Some r"
  shows "org_gate w u slug mn deny allow (accessUnlessBlocked u mn True g r deny allow v)"
  unfolding accessUnlessBlocked_def if_True
proof (rule gate_callD [OF peeks_store(7) v deny_gate])
  fix blocked x assume x: "alike w x" and b: "fst (twoFactorBlocked u g (hw_db v)) = Inr blocked"
  show "org_gate w u slug mn deny allow ((if blocked then deny 403 (Msg twoFactorRequiredMsg []) else accessInRole u mn g r deny allow) x)"
  proof (cases blocked)
    case True with x show ?thesis by (simp add: deny_gate)
  next
    case False
    with b twoFactorBlocked_gives [of u g "hw_db v"] accessInRole_gate [OF x g r] show ?thesis by (simp add: alike_tables [OF v])
  qed
qed simp_all

lemma resolve_gate:
  assumes v: "alike w v"
  shows "org_gate w u slug mn deny allow (resolveOrgAccess u slug mn deny allow v)"
  unfolding resolveOrgAccess_def resolveOrgAccessWith_def
proof (rule gate_callD [OF peeks_store(2) v])
  fix e x assume "alike w x"
  then show "org_gate w u slug mn deny allow
    ((if e = DbErr DbNotFound then deny 404 (Msg ''organization not found'' []) else deny 500 (errText e)) x)"
    by (simp add: deny_gate)
next
  fix g x assume x: "alike w x" and "fst (GetOrgBySlug slug (hw_db v)) = Inr g"
  with GetOrgBySlug_gives [of slug "hw_db v" g] have g: "g \<in> set (tb_orgs (db_t (hw_db w)))" "og_slug g = slug"
    by (simp_all add: alike_tables [OF v])
  have "org_gate w u slug mn deny allow (callD (GetMembership (og_id g) (us_id u))
     (\<lambda>e. if e = DbErr DbNotFound then deny 404 (Msg ''organization not found'' []) else deny 500 (errText e))
     (\<lambda>r. accessUnlessBlocked u mn True g r deny allow) x)" if "\<not> us_admin u"
  proof (rule gate_callD [OF peeks_store(3) x])
    fix e y assume "alike w y"
    then show "org_gate w u slug mn deny allow
      ((if e = DbErr DbNotFound then deny 404 (Msg ''organization not found'' []) else deny 500 (errText e)) y)"
      by (simp add: deny_gate)
  next
    fix r y assume "alike w y" "fst (GetMembership (og_id g) (us_id u) (hw_db x)) = Inr r"
    with that GetMembership_gives [of "og_id g" "us_id u" "hw_db x" r]
    show "org_gate w u slug mn deny allow (accessUnlessBlocked u mn True g r deny allow y)"
      by (intro accessUnlessBlocked_gate g) (simp_all add: alike_tables [OF x])
  qed
  moreover have "org_gate w u slug mn deny allow (accessUnlessBlocked u mn True g RoleOwner deny allow x)" if "us_admin u"
    by (rule accessUnlessBlocked_gate [OF x g]) (simp add: that)
  ultimately show "org_gate w u slug mn deny allow ((if us_admin u then accessUnlessBlocked u mn True g RoleOwner deny allow
     else callD (GetMembership (og_id g) (us_id u))
       (\<lambda>e. if e = DbErr DbNotFound then deny 404 (Msg ''organization not found'' []) else deny 500 (errText e))
       (\<lambda>r. accessUnlessBlocked u mn True g r deny allow)) x)" by simp
qed

section \<open>Properties\<close>

lemma requireOrgRole_through:
  assumes "hw_others w = []"
  obtains (refused) "refused {401, 403, 404, 500} w (requireOrgRole S mn next r slug w)"
  | (through) u acc v where "alike w v" "signed_in S r (hw_db w) u" "entered (db_t (hw_db w)) u slug mn acc"
      "requireOrgRole S mn next r slug w = next u acc v"
proof -
  let ?in = "\<lambda>u. resolveOrgAccess u slug mn writeOrgAccessError (next u)"
  have "gate w (\<lambda>m. True) unauthorized (signed_in S r (hw_db w)) ?in (requireAuth S ?in r w)"
    by (rule requireAuth_gate [OF alike_refl [OF assms]])
  then consider m v where "alike w v" "requireOrgRole S mn next r slug w = unauthorized m v"
    | u v where "alike w v" "signed_in S r (hw_db w) u" "requireOrgRole S mn next r slug w = ?in u v"
    unfolding gate_def requireOrgRole_def by blast
  then show thesis
  proof cases
    case 1 then show thesis using refused by (simp add: refused_def unauthorized_def)
  next
    case (2 u v)
    from resolve_gate [OF 2(1)] have "org_gate w u slug mn writeOrgAccessError (next u) (?in u v)" .
    then show thesis unfolding gate_def
    proof (elim disjE exE conjE)
      fix d x assume "alike w x" "denied d" "?in u v = case_prod writeOrgAccessError d x"
      then show thesis using refused 2(3) by (cases d) (auto simp: denied_def refused_def writeOrgAccessError_def)
    next
      fix acc x assume "alike w x" "entered (db_t (hw_db w)) u slug mn acc" "?in u v = next u acc x"
      then show thesis using through 2 by simp
    qed
  qed
qed

text \<open>
  C4: Whatever handler stands behind a route of an organization, it runs only for a user whose session is live, who is an
  administrator of the platform or a member with at least the route's role, and whom no two-factor requirement
  blocks; every other request is answered 401, 403, 404 or 500 after nothing but reads.
\<close>

theorem org_route_guarded:
  assumes "hw_others w = []"
  shows "(rp_status (fst (requireOrgRole S mn next r slug w)) \<in> {401, 403, 404, 500} \<and> alike w (snd (requireOrgRole S mn next r slug w))) \<or>
    (\<exists>u acc v. alike w v \<and> signed_in S r (hw_db w) u \<and> may_enter (db_t (hw_db w)) u slug mn acc \<and>
       requireOrgRole S mn next r slug w = next u acc v)"
  by (rule requireOrgRole_through [OF assms, of S mn "next" r slug]) (auto simp: refused_def entered_def)

lemma AtLeast_cases: "AtLeast r mn \<Longrightarrow> AtLeast r RoleAdmin \<or> r = RoleMember"
  by (cases r) (auto simp: AtLeast_def roleRank_def)


text \<open>The answer to a user who is no member, and to one who asks for an organization that does not exist.\<close>

definition not_found_reply :: reply where
  "not_found_reply = \<lparr>rp_status = 404, rp_headers = [(''Content-Type'', ''application/json'')],
     rp_body = Some (JObj [(''error'', JMsg (Msg ''organization not found'' []))])\<rparr>"

lemma refuse_not_found: "fst (writeOrgAccessError 404 (Msg ''organization not found'' []) v) = not_found_reply"
  by (simp add: writeOrgAccessError_def twoFactorRequiredMsg_def writeError_def writeJSON_def answer_def not_found_reply_def)

definition stranger :: "tables \<Rightarrow> string \<Rightarrow> user \<Rightarrow> bool" where
  "stranger t slug u \<longleftrightarrow> (\<forall>g\<in>set (tb_orgs t). og_slug g = slug \<longrightarrow> \<not> us_admin u \<and> roleOf (og_id g) (us_id u) t = None)"

lemma query_quiet: "db_faults s = [] \<Longrightarrow> query f s = (f s, s)"
  by (simp add: query_def stmt_def)

lemma resolve_stranger:
  assumes "hw_others w = []" and "db_faults (hw_db w) = []" and "stranger (db_t (hw_db w)) slug u"
  shows "fst (resolveOrgAccess u slug mn writeOrgAccessError next w) = not_found_reply"
proof (cases "find (\<lambda>x. og_slug x = slug) (tb_orgs (db_t (hw_db w)))")
  case None
  with assms show ?thesis
    by (simp add: resolveOrgAccess_def resolveOrgAccessWith_def callD_def turn_def GetOrgBySlug_def query_quiet refuse_not_found)
next
  case (Some g)
  with find_someD [OF Some] assms have "\<not> us_admin u" "roleOf (og_id g) (us_id u) (db_t (hw_db w)) = None"
    by (auto simp: stranger_def)
  with Some assms show ?thesis
    by (simp add: resolveOrgAccess_def resolveOrgAccessWith_def callD_def turn_def GetOrgBySlug_def GetMembership_def
        query_quiet refuse_not_found)
qed

text \<open>
  C10: A signed-in user who is neither an administrator nor a member gets, for an organization that exists, word for word the
  answer for one that does not: an outsider cannot find out which organizations there are.
\<close>

theorem outsiders_learn_nothing:
  assumes "hw_others w = []" and "db_faults (hw_db w) = []"
    and "\<forall>u. signed_in S r (hw_db w) u \<longrightarrow> stranger (db_t (hw_db w)) slug u"
    and "slug' \<notin> og_slug ` set (tb_orgs (db_t (hw_db w)))"
  shows "fst (requireOrgRole S mn next r slug w) = fst (requireOrgRole S mn next' r slug' w)"
proof -
  have "(\<exists>u. signed_in S r (hw_db w) u \<and> (\<forall>f. requireAuth S f r w = f u w)) \<or> (\<exists>m. \<forall>f. requireAuth S f r w = unauthorized m w)"
  proof (cases "rq_internal r")
    case (Some i)
    then show ?thesis by (cases i) (simp add: requireAuth_def authenticate_def signed_in_def)
  next
    case None
    show ?thesis
    proof (cases "fst (ValidateSession (sv_crypto S) (headerToken r) (hw_db w))")
      case (Inl e)
      with None assms(1,2) show ?thesis
        by (auto simp: requireAuth_def authenticate_def Let_def callD_def turn_def ValidateSession_def query_quiet)
    next
      case (Inr u)
      with ValidateSession_gives [OF Inr] None assms(1,2) show ?thesis
        by (cases "headerToken r = []") (auto simp: requireAuth_def authenticate_def Let_def signed_in_def callD_def turn_def
            ValidateSession_def query_quiet)
    qed
  qed
  then show ?thesis
  proof (elim disjE exE conjE)
    fix u assume u: "signed_in S r (hw_db w) u" and run: "\<forall>f. requireAuth S f r w = f u w"
    have "stranger (db_t (hw_db w)) slug' u" using assms(4) by (auto simp: stranger_def)
    with u assms(1-3) run show ?thesis by (simp add: requireOrgRole_def resolve_stranger)
  next
    fix m assume "\<forall>f. requireAuth S f r w = unauthorized m w"
    then show ?thesis by (simp add: requireOrgRole_def)
  qed
qed

section \<open>On the sample panel\<close>

lemma org_route_guarded_witness:
  "\<exists>u acc v. alike sample_hw v \<and> signed_in sample_server (signed_request ''b'') sample_db u \<and>
     may_enter (db_t sample_db) u ''acme'' RoleMember acc \<and>
     requireOrgRole sample_server RoleMember (\<lambda>u acc. writeHeader 204) (signed_request ''b'') ''acme'' sample_hw = writeHeader 204 v"
proof -
  have "rp_status (fst (requireOrgRole sample_server RoleMember (\<lambda>u acc. writeHeader 204) (signed_request ''b'') ''acme'' sample_hw)) = 204"
    by code_simp
  with org_route_guarded [OF sample_quiet(1), of sample_server RoleMember "\<lambda>u acc. writeHeader 204" "signed_request ''b''" "''acme''"]
  show ?thesis by (auto simp: sample_quiet)
qed

definition bobs_access :: org_access where
  "bobs_access = \<lparr>ac_org = sample_acme, ac_role = RoleMember, ac_grants = bobs_grants\<rparr>"


text \<open>Eve asks for \<open>acme\<close> and for an organization that is not there.\<close>

lemma outsiders_learn_nothing_witness:
  "fst (requireOrgRole sample_server RoleMember (\<lambda>u acc. writeHeader 204) (signed_request ''e'') ''acme'' sample_hw) =
   fst (requireOrgRole sample_server RoleMember (\<lambda>u acc. writeHeader 204) (signed_request ''e'') ''nowhere'' sample_hw)"
proof (rule outsiders_learn_nothing [OF sample_quiet(1,2)])
  have "\<forall>x\<in>set (tb_sessions (db_t sample_db)). liveSession (db_now sample_db) (cr_sha sample_crypto ''e'') x \<longrightarrow>
      (\<forall>row\<in>set (tb_users (db_t sample_db)). ur_id row = sn_user x \<longrightarrow> stranger (db_t sample_db) ''acme'' (scanUser row))"
    unfolding stranger_def by code_simp
  moreover have "headerToken (signed_request ''e'') = ''e''" by code_simp
  ultimately show "\<forall>u. signed_in sample_server (signed_request ''e'') (hw_db sample_hw) u \<longrightarrow> stranger (db_t (hw_db sample_hw)) ''acme'' u"
    by (auto simp: signed_in_def session_user_def sample_quiet signed_request_def sample_server_def)
  show "''nowhere'' \<notin> og_slug ` set (tb_orgs (db_t (hw_db sample_hw)))" by (simp add: sample_quiet sample_orgs)
qed

end
