(* ===== verification/Panel_Signin.thy ===== *)
theory Panel_Signin
  imports Panel_Login Panel_Samples Panel_Gate
begin

text \<open>
  A session is made only for who has proved to be its user: with the password, and, when a second factor is on, with a code that
  then works no more and a ticket that is used up.
\<close>

section \<open>What a login depends on\<close>

type_synonym sign_in_db = "user_row list \<times> session_row list \<times> (int \<times> string) list"

record 'w core =
  co_env :: 'w
  co_entry :: "rentry option" \<comment> \<open>of one key of Redis\<close>
  co_db :: sign_in_db

definition dcore :: "pdb \<Rightarrow> sign_in_db" where
  "dcore s = (tb_users (db_t s), tb_sessions (db_t s), tb_codes (db_t s))"

definition coreOf :: "string \<Rightarrow> 'w hw \<Rightarrow> 'w core" where
  "coreOf k w = \<lparr>co_env = hw_env w, co_entry = look k (hw_cache w), co_db = dcore (hw_db w)\<rparr>"

text \<open>Run alone from \<open>c\<close>, a handler ends in \<open>Q\<close>.\<close>

definition ends :: "string \<Rightarrow> 'w core \<Rightarrow> 'w handler \<Rightarrow> ('w core \<Rightarrow> bool) \<Rightarrow> bool" where
  "ends k c h Q \<longleftrightarrow> (\<forall>w. hw_others w = [] \<longrightarrow> coreOf k w = c \<longrightarrow> Q (coreOf k (snd (h w))))"

lemma ends_answer: "Q c \<Longrightarrow> ends k c (answer r) Q"
  by (simp add: ends_def answer_def)

lemma ends_header: "ends k c h Q \<Longrightarrow> ends k c (withHeader n v h) Q"
  by (simp add: ends_def withHeader_def)

lemma ends_write: "Q c \<Longrightarrow> ends k c (writeJSON n j) Q" "Q c \<Longrightarrow> ends k c (writeError n m) Q"
    "Q c \<Longrightarrow> ends k c (writeErrorCode n s m) Q" "Q c \<Longrightarrow> ends k c (writeHeader n) Q" "Q c \<Longrightarrow> ends k c (badJSON e) Q"
  by (simp_all add: ends_def badJSON_def)

lemma ends_if: "(b \<Longrightarrow> ends k c h Q) \<Longrightarrow> (\<not> b \<Longrightarrow> ends k c h' Q) \<Longrightarrow> ends k c (if b then h else h') Q"
  by simp

lemma ends_readEnv: "ends k c (h (f (co_env c))) Q \<Longrightarrow> ends k c (readEnv f h) Q"
  by (auto simp: ends_def readEnv_def coreOf_def)

lemma ends_callD:
  assumes ok: "\<And>s x s'. m s = (Inr x, s') \<Longrightarrow> R x (dcore s) (dcore s')"
    and err: "\<And>s e s'. m s = (Inl e, s') \<Longrightarrow> dcore s' = dcore s"
    and "\<And>e. ends k c (bad e) Q" and "\<And>x d. R x (co_db c) d \<Longrightarrow> ends k (c\<lparr>co_db := d\<rparr>) (good x) Q"
  shows "ends k c (callD m bad good) Q"
  unfolding ends_def
proof (intro allI impI)
  fix w assume w: "hw_others w = []" "coreOf k w = c"
  obtain r d where m: "m (hw_db w) = (r, d)" by (cases "m (hw_db w)")
  show "Q (coreOf k (snd (callD m bad good w)))"
  proof (cases r)
    case (Inl e)
    with m err have "coreOf k (w\<lparr>hw_db := d\<rparr>) = c" using w(2) by (auto simp: coreOf_def)
    with assms(3) [of e] w m Inl show ?thesis by (simp add: ends_def callD_def turn_def)
  next
    case (Inr x)
    with m ok have "R x (co_db c) (dcore d)" using w(2) by (auto simp: coreOf_def)
    from assms(4) [OF this] w m Inr show ?thesis by (auto simp: ends_def callD_def turn_def coreOf_def)
  qed
qed

lemma dcore_eq: "db_t s' = db_t s \<Longrightarrow> dcore s' = dcore s"
  by (simp add: dcore_def)

text \<open>A query, and what its answer says of the tables.\<close>

lemma ends_query:
  assumes "peeks m" and "\<And>s x. fst (m s) = Inr x \<Longrightarrow> F x (dcore s)"
    and "\<And>e. ends k c (bad e) Q" and "\<And>x. F x (co_db c) \<Longrightarrow> ends k c (good x) Q"
  shows "ends k c (callD m bad good) Q"
proof (rule ends_callD [where R = "\<lambda>x d d'. d' = d \<and> F x d"])
  fix s x s' assume m: "m s = (Inr x, s')"
  then have "db_t s' = db_t s" using assms(1) unfolding peeks_def by (metis snd_conv)
  then have "dcore s' = dcore s" by (rule dcore_eq)
  with assms(2) [of s x] m show "dcore s' = dcore s \<and> F x (dcore s)" by simp
next
  fix s e s' assume "m s = (Inl e, s')"
  then have "db_t s' = db_t s" using assms(1) unfolding peeks_def by (metis snd_conv)
  then show "dcore s' = dcore s" by (rule dcore_eq)
next
  fix x d assume "d = co_db c \<and> F x (co_db c)"
  with assms(4) show "ends k (c\<lparr>co_db := d\<rparr>) (good x) Q" by simp
qed (rule assms(3))

lemma ends_audit:
  assumes "ends k c next Q"
  shows "ends k c (writeAudit e next) Q"
  unfolding writeAudit_def
proof (rule ends_callD [where R = "\<lambda>x d d'. d' = d"])
  have "dcore (snd (RecordAudit e s)) = dcore s" for s
    by (auto simp: RecordAudit_def insertRow_def stmt_def Let_def dcore_def split: list.splits)
  then show "RecordAudit e s = (Inr x, s') \<Longrightarrow> dcore s' = dcore s" "RecordAudit e s = (Inl x', s') \<Longrightarrow> dcore s' = dcore s" for s x x' s'
    by (metis snd_conv)+
qed (simp_all add: assms)

lemma ends_auditEvent: "ends k c next Q \<Longrightarrow> ends k c (auditEventAs S r a o' x1 x2 x3 x4 x5 next) Q"
    "ends k c next Q \<Longrightarrow> ends k c (auditEvent S r a o' x1 x2 x3 x4 x5 next) Q"
  by (simp_all add: auditEventAs_def auditEvent_def ends_audit)

text \<open>A call to Redis, about another key and about this one.\<close>

lemma ends_other:
  assumes "\<And>r. look k (snd (m r)) = look k r" and "\<And>e. ends k c (bad e) Q" and "\<And>x. ends k c (good x) Q"
  shows "ends k c (callR m bad good) Q"
  unfolding ends_def
proof (intro allI impI)
  fix w assume w: "hw_others w = []" "coreOf k w = c"
  obtain r d where m: "m (hw_cache w) = (r, d)" by (cases "m (hw_cache w)")
  with assms(1) [of "hw_cache w"] w(2) have "coreOf k (w\<lparr>hw_cache := d\<rparr>) = c" by (simp add: coreOf_def)
  with assms(2,3) w m show "Q (coreOf k (snd (callR m bad good w)))" by (auto simp: ends_def callR_def split: sum.splits)
qed

lemma ends_this:
  assumes "\<And>r x. fst (m r) = Inr x \<Longrightarrow> F x (look k r) (look k (snd (m r)))"
    and "\<And>e en. ends k (c\<lparr>co_entry := en\<rparr>) (bad e) Q"
    and "\<And>x en. F x (co_entry c) en \<Longrightarrow> ends k (c\<lparr>co_entry := en\<rparr>) (good x) Q"
  shows "ends k c (callR m bad good) Q"
  unfolding ends_def
proof (intro allI impI)
  fix w assume w: "hw_others w = []" "coreOf k w = c"
  obtain r d where m: "m (hw_cache w) = (r, d)" by (cases "m (hw_cache w)")
  have v: "coreOf k (w\<lparr>hw_cache := d\<rparr>) = c\<lparr>co_entry := look k d\<rparr>" using w(2) by (auto simp: coreOf_def)
  show "Q (coreOf k (snd (callR m bad good w)))"
  proof (cases r)
    case (Inl e)
    with assms(2) [of "look k d" e] v w m show ?thesis by (simp add: ends_def callR_def)
  next
    case (Inr x)
    with assms(1) [of "hw_cache w" x] m w(2) have "F x (co_entry c) (look k d)" by (auto simp: coreOf_def)
    from assms(3) [OF this] v w m Inr show ?thesis by (simp add: ends_def callR_def)
  qed
qed

section \<open>Calls of a login\<close>

lemma cmd_frame: "(\<And>r. look k (snd (f r)) = look k r) \<Longrightarrow> look k (snd (cmd f r)) = look k r"
  by (auto simp: cmd_def Let_def split: list.splits fate.splits)

lemma look_bindE: "(\<And>r. look k (snd (m r)) = look k r) \<Longrightarrow> (\<And>x r. look k (snd (f x r)) = look k r) \<Longrightarrow> look k (snd (bindE m f r)) = look k r"
  by (auto simp: bindE_def split: prod.splits sum.splits) (metis snd_conv)+

lemma look_rGet: "look k (snd (rGet j r)) = look k r"
  unfolding rGet_def by (rule cmd_frame) simp

lemma look_rPTTL: "look k (snd (rPTTL j r)) = look k r"
  unfolding rPTTL_def by (rule cmd_frame) (auto split: option.splits)

lemma look_rDel: "j \<noteq> k \<Longrightarrow> look k (snd (rDel j r)) = look k r"
  unfolding rDel_def by (rule cmd_frame) (simp add: look_delKey)

lemma look_incrExpire: "j \<noteq> k \<Longrightarrow> look k (snd (incrExpire j t r)) = look k r"
  unfolding incrExpire_def by (rule cmd_frame) (auto simp: look_putKey split: option.splits rval.splits)

lemma look_attempt: "(\<And>r. look k (snd (m r)) = look k r) \<Longrightarrow> look k (snd (attempt m r)) = look k r"
  by (auto simp: attempt_def split: prod.splits) (metis snd_conv)

lemma chal_key_other: "ipKey C ip \<noteq> challengeKey C t" "userIPKey C n ip \<noteq> challengeKey C t"
  by (simp_all add: ipKey_def userIPKey_def challengeKey_def)

lemma look_ret: "look k (snd (ret x r)) = look k r" "look k (snd (throw e r)) = look k r"
  by (simp_all add: ret_def throw_def)

lemma look_overLimit: "look k (snd (overLimit t j mx r)) = look k r"
  unfolding overLimit_def
  by (intro look_bindE look_attempt look_rGet) (auto simp: look_ret look_rPTTL intro!: look_bindE split: sum.splits rval.splits)

lemma look_Blocked: "look k (snd (Blocked C L n ip r)) = look k r"
  unfolding Blocked_def by (intro look_bindE look_overLimit) (auto simp: look_ret look_overLimit intro!: look_bindE split: option.splits)

lemma look_RecordFailure: "look (challengeKey C t) (snd (RecordFailure C L n ip r)) = look (challengeKey C t) r"
  unfolding RecordFailure_def
  by (auto simp: look_ret look_incrExpire chal_key_other intro!: look_bindE)

lemma look_RecordSuccess: "look (challengeKey C t) (snd (RecordSuccess C n ip r)) = look (challengeKey C t) r"
  unfolding RecordSuccess_def by (rule look_rDel) (rule chal_key_other)

lemma ends_limiterKey:
  assumes "\<And>key. ends k c (h key) Q"
  shows "ends k c (limiterKey login h) Q"
  unfolding limiterKey_def
  by (intro ends_if ends_query [where F = "\<lambda>x d. True"] assms)
    (auto simp: GetUserByEmail_def findUser_def intro: peeks_rules)

lemma ends_unlessBlocked: "(\<And>d. ends k c (b d) Q) \<Longrightarrow> ends k c next Q \<Longrightarrow> ends k c (unlessBlocked S key ip b next) Q"
  unfolding unlessBlocked_def by (intro ends_other look_Blocked) (auto split: prod.splits)

lemma ends_recordFailure:
  "ends (challengeKey (sv_crypto S) t) c next Q \<Longrightarrow> ends (challengeKey (sv_crypto S) t) c (recordFailure S key ip next) Q"
  unfolding recordFailure_def by (intro ends_other look_RecordFailure)

lemma ends_recordSuccess:
  "ends (challengeKey (sv_crypto S) t) c next Q \<Longrightarrow> ends (challengeKey (sv_crypto S) t) c (recordSuccess S key ip next) Q"
  unfolding recordSuccess_def by (intro ends_other look_RecordSuccess)

text \<open>What the calls to the database answer, and what they change.\<close>

lemma clean_dcore: "clean m \<Longrightarrow> m s = (Inl e, s') \<Longrightarrow> dcore s' = dcore s"
  by (rule dcore_eq) (auto simp: clean_def)

lemma peeks_throw: "peeks (throw e)"
  by (simp add: peeks_def throw_def)

lemma findUser_fst: "fst (bindE (findUser p) f s) = Inr x \<Longrightarrow> \<exists>row s'. row \<in> set (tb_users (db_t s)) \<and> p row \<and> fst (f row s') = Inr x"
  by (auto simp: findUser_def bindE_def usersOf_def split: prod.splits sum.splits option.splits dest!: query_Inr find_someD)

definition has_password :: "crypto \<Rightarrow> string \<Rightarrow> string \<Rightarrow> user_row \<Rightarrow> bool" where
  "has_password C name password row \<longleftrightarrow>
     (if CHR ''@'' \<in> set name then ur_email row = NormalizeEmail name else ur_username row = name) \<and> cr_match C (ur_hash row) password"

lemma ends_VerifyPassword:
  assumes "\<And>e. ends k c (bad e) Q"
    and "\<And>row. row \<in> set (fst (co_db c)) \<Longrightarrow> has_password C name password row \<Longrightarrow> ends k c (good (scanUser row)) Q"
  shows "ends k c (callD (VerifyPassword C name password) bad good) Q"
proof (rule ends_query [where F = "\<lambda>u d. \<exists>row\<in>set (fst d). has_password C name password row \<and> u = scanUser row"])
  show "peeks (VerifyPassword C name password)"
    unfolding VerifyPassword_def findUser_def by (intro peeks_rules peeks_throw)
  show "\<exists>row\<in>set (fst (dcore s)). has_password C name password row \<and> u = scanUser row"
    if "fst (VerifyPassword C name password s) = Inr u" for s u
    using findUser_fst [OF that [unfolded VerifyPassword_def]]
    by (auto simp: dcore_def has_password_def ret_def throw_def split: if_splits)
qed (use assms in blast)+

lemma CreateSession_Inr:
  assumes "CreateSession C uid ttl s = (Inr x, s')"
  shows "\<exists>row. dcore s' = (tb_users (db_t s), tb_sessions (db_t s) @ [row], tb_codes (db_t s)) \<and> sn_user row = uid"
proof -
  have "\<exists>row. (db_t s)\<lparr>tb_sessions := tb_sessions (db_t s) @ [row]\<rparr> = db_t s' \<and> sn_user row = uid"
    using assms unfolding CreateSession_def
    by (auto simp: bindE_Inr newToken_def gets_def ret_def Let_def split: list.splits if_splits dest!: exec_Inr)
  then obtain row where row: "(db_t s)\<lparr>tb_sessions := tb_sessions (db_t s) @ [row]\<rparr> = db_t s'" "sn_user row = uid" by auto
  from row(2) show ?thesis by (auto simp: dcore_def row(1) [symmetric])
qed

lemma ends_CreateSession:
  assumes "\<And>e. ends k c (bad e) Q"
    and "\<And>x row. sn_user row = uid \<Longrightarrow>
      ends k (c\<lparr>co_db := (fst (co_db c), fst (snd (co_db c)) @ [row], snd (snd (co_db c)))\<rparr>) (good x) Q"
  shows "ends k c (callD (CreateSession C uid ttl) bad good) Q"
proof (rule ends_callD [where R = "\<lambda>x d d'. \<exists>row. d' = (fst d, fst (snd d) @ [row], snd (snd d)) \<and> sn_user row = uid"])
  fix s x s' assume "CreateSession C uid ttl s = (Inr x, s')"
  from CreateSession_Inr [OF this]
  show "\<exists>row. dcore s' = (fst (dcore s), fst (snd (dcore s)) @ [row], snd (snd (dcore s))) \<and> sn_user row = uid"
    by (simp add: dcore_def)
next
  show "dcore s' = dcore s" if "CreateSession C uid ttl s = (Inl e, s')" for s e s'
    using clean_createSession that by (rule clean_dcore)
next
  fix x d assume "\<exists>row. d = (fst (co_db c), fst (snd (co_db c)) @ [row], snd (snd (co_db c))) \<and> sn_user row = uid"
  with assms(2) show "ends k (c\<lparr>co_db := d\<rparr>) (good x) Q" by blast
qed (rule assms(1))

section \<open>The password\<close>

definition sessions_in :: "'w core \<Rightarrow> session_row set" where
  "sessions_in c = set (fst (snd (co_db c)))"

lemma ends_IssueChallenge:
  assumes "\<And>c'. co_db c' = co_db c \<Longrightarrow> Q c'"
  shows "ends k c (startTwoFactorLogin S r u) Q"
  unfolding startTwoFactorLogin_def unavailable_def
  by (intro ends_if ends_write ends_this [where F = "\<lambda>x a b. True"] ends_auditEvent assms) simp_all

lemma handleLogin_ends:
  "ends (challengeKey (sv_crypto S) t) c (handleLogin S r (Inr (name, password)))
     (\<lambda>v. \<forall>x\<in>sessions_in v - sessions_in c. \<exists>row\<in>set (fst (co_db c)). has_password (sv_crypto S) name password row \<and>
        ur_totp_enabled row = None \<and> sn_user x = ur_id row)" (is "ends ?k c _ ?Q")
  unfolding handleLogin_def sum.case prod.case Let_def
proof (intro ends_limiterKey ends_unlessBlocked ends_auditEvent ends_VerifyPassword ends_recordFailure)
  fix d show "ends ?k c (retryAfter d (refuse 429 ''too many failed login attempts, try again later'')) ?Q"
    unfolding retryAfter_def by (intro ends_header ends_write) simp
next
  show "ends ?k c (refuse 401 ''invalid username, e-mail or password'') ?Q" by (intro ends_write) simp
next
  fix key row assume row: "row \<in> set (fst (co_db c))" "has_password (sv_crypto S) name password row"
  show "ends ?k c (if us_two_factor (scanUser row) then startTwoFactorLogin S r (scanUser row)
     else recordSuccess S key (clientIP r (sv_trusted S)) (
       callD (CreateSession (sv_crypto S) (us_id (scanUser row)) sessionTTL) internalError (\<lambda>(token, expiresAt).
         auditEventAs S r (Some (scanUser row)) [] ''login.success'' ''user'' (us_username (scanUser row)) ''success'' []
           (writeJSON 200 (JObj (loginJSON token expiresAt (scanUser row))))))) ?Q"
  proof (intro ends_if ends_IssueChallenge ends_recordSuccess ends_CreateSession ends_write)
    fix x and s :: session_row assume "\<not> us_two_factor (scanUser row)" "sn_user s = us_id (scanUser row)"
    with row show "ends ?k (c\<lparr>co_db := (fst (co_db c), fst (snd (co_db c)) @ [s], snd (snd (co_db c)))\<rparr>)
      (case x of (token, expiresAt) \<Rightarrow> auditEventAs S r (Some (scanUser row)) [] ''login.success'' ''user''
         (us_username (scanUser row)) ''success'' [] (writeJSON 200 (JObj (loginJSON token expiresAt (scanUser row))))) ?Q"
      by (cases x) (auto simp: sessions_in_def scanUser_def intro!: ends_auditEvent ends_write)
  qed (simp_all add: sessions_in_def)
qed

text \<open>
  C6: A login with name and password makes a session only of an account whose name (or address) and password these are, and
  only when the account has no second factor.
\<close>

theorem login_needs_password:
  assumes "hw_others w = []"
    and "x \<in> set (tb_sessions (db_t (hw_db (snd (handleLogin S r (Inr (name, password)) w)))))" and "x \<notin> set (tb_sessions (db_t (hw_db w)))"
  shows "\<exists>row\<in>set (tb_users (db_t (hw_db w))). has_password (sv_crypto S) name password row \<and> ur_totp_enabled row = None \<and> sn_user x = ur_id row"
  using handleLogin_ends [of S "[]" "coreOf (challengeKey (sv_crypto S) []) w" r name password] assms
  by (simp add: ends_def sessions_in_def coreOf_def dcore_def)

section \<open>The second factor\<close>

text \<open>The user of a login ticket, from what Redis holds of it.\<close>

definition chal_user :: "rentry option \<Rightarrow> int option" where
  "chal_user en = (case en of None \<Rightarrow> None | Some (v, _) \<Rightarrow> (case hashField ''u'' v of Inl _ \<Rightarrow> None | Inr u \<Rightarrow> Some u))"

text \<open>A one-time code that was right, for a step later than the last one accepted and that is the last one accepted afterwards.\<close>

definition totp_accepted :: "'w server \<Rightarrow> 'w \<Rightarrow> string \<Rightarrow> int \<Rightarrow> user_row list \<Rightarrow> user_row list \<Rightarrow> bool" where
  "totp_accepted S env code uid us us' \<longleftrightarrow> (\<exists>row\<in>set us. \<exists>A secret step. ur_id row = uid \<and> ur_totp_enabled row \<noteq> None \<and>
     sv_two_factor S = Some A \<and> Decrypt A (case ur_totp_secret row of None \<Rightarrow> [] | Some x \<Rightarrow> x) = Inr secret \<and>
     Verify (sv_totp S) secret code (k_now (sv_k S) env) = Some step \<and>
     (\<exists>row\<in>set us. ur_id row = uid \<and> ur_totp_step row < step) \<and> (\<forall>row\<in>set us'. ur_id row = uid \<longrightarrow> step \<le> ur_totp_step row))"

text \<open>A recovery code that was there, and is there no more.\<close>

definition recovery_used :: "'w server \<Rightarrow> string \<Rightarrow> int \<Rightarrow> (int \<times> string) list \<Rightarrow> (int \<times> string) list \<Rightarrow> bool" where
  "recovery_used S code uid cs cs' \<longleftrightarrow> IsRecoveryCode code \<and> (uid, HashRecoveryCode (sv_crypto S) code) \<in> set cs - set cs'"

definition factor_used :: "'w server \<Rightarrow> 'w \<Rightarrow> string \<Rightarrow> int \<Rightarrow> sign_in_db \<Rightarrow> sign_in_db \<Rightarrow> bool" where
  "factor_used S env code uid d d' \<longleftrightarrow> recovery_used S code uid (snd (snd d)) (snd (snd d')) \<or> totp_accepted S env code uid (fst d) (fst d')"

definition totp_row :: "int \<Rightarrow> string \<times> bool \<Rightarrow> sign_in_db \<Rightarrow> bool" where
  "totp_row uid x d \<longleftrightarrow> (\<exists>row\<in>set (fst d). ur_id row = uid \<and>
     x = (case ur_totp_secret row of None \<Rightarrow> [] | Some y \<Rightarrow> y, ur_totp_enabled row \<noteq> None))"

lemma GetTOTP_gives: "fst (GetTOTP uid s) = Inr x \<Longrightarrow> totp_row uid x (dcore s)"
  unfolding GetTOTP_def totp_row_def by (drule findUser_fst) (auto simp: dcore_def ret_def)

lemma UseRecoveryCode_Inr:
  assumes "UseRecoveryCode uid h s = (Inr b, s')"
  shows "fst (dcore s') = fst (dcore s) \<and> fst (snd (dcore s')) = fst (snd (dcore s)) \<and>
    (b \<longrightarrow> (uid, h) \<in> set (snd (snd (dcore s))) - set (snd (snd (dcore s'))))"
proof -
  from exec_Inr [OF assms [unfolded UseRecoveryCode_def Let_def]]
  have t: "db_t s' = (db_t s)\<lparr>tb_codes := filter (\<lambda>c. c \<noteq> (uid, h)) (tb_codes (db_t s))\<rparr>"
    and b: "b \<longleftrightarrow> countWhere (\<lambda>c. c = (uid, h)) (tb_codes (db_t s)) = 1" by auto
  have "(uid, h) \<in> set (tb_codes (db_t s))" if b
  proof (rule ccontr)
    assume "(uid, h) \<notin> set (tb_codes (db_t s))"
    then have "filter (\<lambda>c. c = (uid, h)) (tb_codes (db_t s)) = []" by (auto simp: filter_empty_conv)
    with b that show False by (simp add: countWhere_def)
  qed
  with t show ?thesis by (simp add: dcore_def)
qed

lemma AcceptTOTPStep_Inr:
  assumes "AcceptTOTPStep uid step s = (Inr b, s')"
  shows "snd (dcore s') = snd (dcore s) \<and> (b \<longrightarrow> (\<exists>row\<in>set (fst (dcore s)). ur_id row = uid \<and> ur_totp_step row < step) \<and>
    (\<forall>row\<in>set (fst (dcore s')). ur_id row = uid \<longrightarrow> step \<le> ur_totp_step row))"
proof -
  let ?p = "\<lambda>u. ur_id u = uid \<and> ur_totp_step u < step"
  from exec_Inr [OF assms [unfolded AcceptTOTPStep_def Let_def]]
  have t: "db_t s' = (db_t s)\<lparr>tb_users := updateWhere ?p (\<lambda>u. u\<lparr>ur_totp_step := step\<rparr>) (tb_users (db_t s))\<rparr>"
    and b: "b \<longleftrightarrow> countWhere ?p (tb_users (db_t s)) = 1" by auto
  have "\<exists>row\<in>set (tb_users (db_t s)). ?p row" if b
  proof (rule ccontr)
    assume "\<not> (\<exists>row\<in>set (tb_users (db_t s)). ?p row)"
    then have "filter ?p (tb_users (db_t s)) = []" unfolding filter_empty_conv by blast
    with b that show False by (simp add: countWhere_def)
  qed
  moreover have "\<forall>row\<in>set (updateWhere ?p (\<lambda>u. u\<lparr>ur_totp_step := step\<rparr>) (tb_users (db_t s))). ur_id row = uid \<longrightarrow> step \<le> ur_totp_step row"
  proof
    fix row assume "row \<in> set (updateWhere ?p (\<lambda>u. u\<lparr>ur_totp_step := step\<rparr>) (tb_users (db_t s)))"
    then obtain u where "row = (if ?p u then u\<lparr>ur_totp_step := step\<rparr> else u)" unfolding updateWhere_def set_map by blast
    then show "ur_id row = uid \<longrightarrow> step \<le> ur_totp_step row" by (cases "?p u") (simp_all add: not_less)
  qed
  ultimately show ?thesis unfolding dcore_def t by simp
qed

lemma clean_steps: "clean (UseRecoveryCode uid h)" "clean (AcceptTOTPStep uid step)"
  by (simp_all add: UseRecoveryCode_def AcceptTOTPStep_def clean_exec)

lemma ends_checkSecondFactor:
  assumes no: "\<And>m d. fst (snd d) = fst (snd (co_db c)) \<Longrightarrow> ends k (c\<lparr>co_db := d\<rparr>) (h m False) Q"
    and yes: "\<And>m d. fst (snd d) = fst (snd (co_db c)) \<Longrightarrow> factor_used S (co_env c) code uid (co_db c) d \<Longrightarrow> ends k (c\<lparr>co_db := d\<rparr>) (h m True) Q"
  shows "ends k c (checkSecondFactor S uid code h) Q"
proof (cases "IsRecoveryCode code")
  case True
  have "ends k c (callD (UseRecoveryCode uid (HashRecoveryCode (sv_crypto S) code)) (\<lambda>_. h ''recovery'' False) (h ''recovery'')) Q"
  proof (rule ends_callD [where R = "\<lambda>b d d'. fst d' = fst d \<and> fst (snd d') = fst (snd d) \<and>
      (b \<longrightarrow> (uid, HashRecoveryCode (sv_crypto S) code) \<in> set (snd (snd d)) - set (snd (snd d')))", OF UseRecoveryCode_Inr])
    show "dcore s' = dcore s" if "UseRecoveryCode uid (HashRecoveryCode (sv_crypto S) code) s = (Inl e, s')" for s e s'
      using clean_steps(1) that by (rule clean_dcore)
    show "ends k c (h ''recovery'' False) Q" using no [of "co_db c"] by simp
    fix b and d :: sign_in_db assume d: "fst d = fst (co_db c) \<and> fst (snd d) = fst (snd (co_db c)) \<and>
        (b \<longrightarrow> (uid, HashRecoveryCode (sv_crypto S) code) \<in> set (snd (snd (co_db c))) - set (snd (snd d)))"
    with no yes True show "ends k (c\<lparr>co_db := d\<rparr>) (h ''recovery'' b) Q"
      by (cases b) (auto simp: factor_used_def recovery_used_def)
  qed
  with True show ?thesis by (simp add: checkSecondFactor_def)
next
  case False
  have f: "ends k c (h ''totp'' False) Q" using no [of "co_db c"] by simp
  have step: "ends k c (callD (AcceptTOTPStep uid step) (\<lambda>_. h ''totp'' False) (h ''totp'')) Q"
    if row: "row \<in> set (fst (co_db c))" "ur_id row = uid" "ur_totp_enabled row \<noteq> None" and A: "sv_two_factor S = Some A"
      "Decrypt A (case ur_totp_secret row of None \<Rightarrow> [] | Some x \<Rightarrow> x) = Inr secret"
      "Verify (sv_totp S) secret code (k_now (sv_k S) (co_env c)) = Some step" for row A secret step
  proof (rule ends_callD [where R = "\<lambda>b d d'. snd d' = snd d \<and> (b \<longrightarrow> (\<exists>row\<in>set (fst d). ur_id row = uid \<and> ur_totp_step row < step) \<and>
      (\<forall>row\<in>set (fst d'). ur_id row = uid \<longrightarrow> step \<le> ur_totp_step row))", OF AcceptTOTPStep_Inr _ f])
    show "dcore s' = dcore s" if "AcceptTOTPStep uid step s = (Inl e, s')" for s e s'
      using clean_steps(2) that by (rule clean_dcore)
    fix b and d :: sign_in_db assume d: "snd d = snd (co_db c) \<and> (b \<longrightarrow> (\<exists>row\<in>set (fst (co_db c)). ur_id row = uid \<and> ur_totp_step row < step) \<and>
      (\<forall>row\<in>set (fst d). ur_id row = uid \<longrightarrow> step \<le> ur_totp_step row))"
    show "ends k (c\<lparr>co_db := d\<rparr>) (h ''totp'' b) Q"
    proof (cases b)
      case True
      with d have "totp_accepted S (co_env c) code uid (fst (co_db c)) (fst d)" unfolding totp_accepted_def using row A by blast
      with yes d True show ?thesis by (simp add: factor_used_def)
    next
      case False with no d show ?thesis by simp
    qed
  qed
  show ?thesis
    unfolding checkSecondFactor_def if_not_P [OF False]
  proof (rule ends_query [where F = "totp_row uid"])
    show "fst (GetTOTP uid s) = Inr x \<Longrightarrow> totp_row uid x (dcore s)" for s x by (rule GetTOTP_gives)
    show "peeks (GetTOTP uid)" unfolding GetTOTP_def findUser_def by (intro peeks_rules)
    fix x assume "totp_row uid x (co_db c)"
    then obtain row where row: "row \<in> set (fst (co_db c))" "ur_id row = uid"
      and x: "x = (case ur_totp_secret row of None \<Rightarrow> [] | Some y \<Rightarrow> y, ur_totp_enabled row \<noteq> None)"
      unfolding totp_row_def by blast
    show "ends k c (case x of (enc, enabled) \<Rightarrow> if \<not> enabled then h ''totp'' False else case sv_two_factor S of None \<Rightarrow> h ''totp'' False
       | Some A \<Rightarrow> (case Decrypt A enc of Inl _ \<Rightarrow> h ''totp'' False | Inr secret \<Rightarrow> readEnv (k_now (sv_k S)) (\<lambda>now.
           case Verify (sv_totp S) secret code now of None \<Rightarrow> h ''totp'' False
           | Some step \<Rightarrow> callD (AcceptTOTPStep uid step) (\<lambda>_. h ''totp'' False) (h ''totp'')))) Q"
      unfolding x prod.case
      using f step [OF row] by (auto split: option.splits sum.splits intro!: ends_readEnv)
  qed (rule f)
qed

lemma fst_cmd_Inr: "fst (cmd f r) = Inr x \<Longrightarrow> \<exists>fs. fst (f (r\<lparr>rd_fates := fs\<rparr>)) = Inr x \<and> snd (cmd f r) = snd (f (r\<lparr>rd_fates := fs\<rparr>))"
  by (cases r) (auto simp: cmd_def Let_def split: list.splits fate.splits)

lemma orNil_Inr: "fst (orNil e m r) = Inr x \<Longrightarrow> fst (m r) = Inr x \<and> snd (orNil e m r) = snd (m r)"
  by (auto simp: orNil_def split: prod.splits sum.splits)

lemma rGet_Inr: "fst (rGet k r) = Inr v \<Longrightarrow> \<exists>e. look k r = Some (v, e)"
  unfolding rGet_def by (drule fst_cmd_Inr) (auto split: option.splits)

lemma PeekChallenge_gives:
  assumes "fst (PeekChallenge C token r) = Inr x"
  shows "chal_user (look (challengeKey C token) r) = Some x"
proof -
  let ?m = "bindE (rGet (challengeKey C token)) (\<lambda>v. liftE (hashField ''u'' v))"
  from assms have "fst (?m r) = Inr x" unfolding PeekChallenge_def by (auto dest: orNil_Inr)
  then obtain v where "fst (rGet (challengeKey C token) r) = Inr v" "hashField ''u'' v = Inr x"
    by (auto simp: bindE_def liftE_def split: prod.splits sum.splits)
  with rGet_Inr show ?thesis by (fastforce simp: chal_user_def)
qed

lemma look_PeekChallenge: "look k (snd (PeekChallenge C token r)) = look k r"
proof -
  have "look k (snd (bindE (rGet (challengeKey C token)) (\<lambda>v. liftE (hashField ''u'' v)) r)) = look k r"
    by (rule look_bindE [OF look_rGet]) (simp add: liftE_def)
  then show ?thesis by (auto simp: PeekChallenge_def orNil_def split: prod.splits sum.splits)
qed

lemma ConsumeChallenge_gives:
  assumes "fst (ConsumeChallenge C token r) = Inr x"
  shows "look (challengeKey C token) (snd (ConsumeChallenge C token r)) = None"
proof -
  let ?k = "challengeKey C token"
  from orNil_Inr [OF assms [unfolded ConsumeChallenge_def]]
  have c: "fst (challengeConsume ?k r) = Inr x" "snd (ConsumeChallenge C token r) = snd (challengeConsume ?k r)"
    by (simp_all add: ConsumeChallenge_def)
  from fst_cmd_Inr [OF c(1) [unfolded challengeConsume_def]] obtain fs where
    f: "fst (case look ?k r of None \<Rightarrow> (Inl redisNil, r\<lparr>rd_fates := fs\<rparr>) | Some (v, _) \<Rightarrow> (case hashField ''u'' v of
       Inl e \<Rightarrow> (Inl e, r\<lparr>rd_fates := fs\<rparr>) | Inr u \<Rightarrow> (Inr u, delKey ?k (r\<lparr>rd_fates := fs\<rparr>)))) = Inr x"
    and s: "snd (challengeConsume ?k r) = snd (case look ?k r of None \<Rightarrow> (Inl redisNil, r\<lparr>rd_fates := fs\<rparr>) | Some (v, _) \<Rightarrow> (case hashField ''u'' v of
       Inl e \<Rightarrow> (Inl e, r\<lparr>rd_fates := fs\<rparr>) | Inr u \<Rightarrow> (Inr u, delKey ?k (r\<lparr>rd_fates := fs\<rparr>))))"
    unfolding challengeConsume_def by auto
  from f show ?thesis unfolding c(2) s by (auto simp: look_delKey split: option.splits sum.splits)
qed

text \<open>What a second step must have had for each session it made.\<close>

definition two_steps :: "'w server \<Rightarrow> string \<Rightarrow> 'w core \<Rightarrow> 'w core \<Rightarrow> bool" where
  "two_steps S code c v \<longleftrightarrow> (\<forall>x\<in>sessions_in v - sessions_in c. chal_user (co_entry c) = Some (sn_user x) \<and> co_entry v = None \<and>
     factor_used S (co_env c) code (sn_user x) (co_db c) (co_db v))"

lemma two_steps_same: "fst (snd (co_db v)) = fst (snd (co_db c)) \<Longrightarrow> two_steps S code c v"
  by (simp add: two_steps_def sessions_in_def)

lemma factor_used_sessions:
  "factor_used S env code uid d (fst e, ss, snd (snd e)) = factor_used S env code uid d e"
  by (simp add: factor_used_def)

lemma finish_ends:
  assumes d: "fst (snd d) = fst (snd (co_db c))" and f: "factor_used S (co_env c) code (us_id u) (co_db c) d"
    and ch: "chal_user (co_entry c) = Some (us_id u)"
  shows "ends (challengeKey (sv_crypto S) ticket) (c\<lparr>co_db := d\<rparr>) (finishLogin2FA S r ticket u key ip m) (two_steps S code c)"
  unfolding finishLogin2FA_def ticketExpired_def
proof (rule ends_this [where F = "\<lambda>x a b. b = None", OF ConsumeChallenge_gives])
  fix e en show "ends (challengeKey (sv_crypto S) ticket) (c\<lparr>co_db := d, co_entry := en\<rparr>)
      (writeErrorCode 401 ''ticket_expired'' (Msg ''the login expired, enter your password again'' [])) (two_steps S code c)"
    by (intro ends_write two_steps_same) (simp add: d)
next
  fix x en assume "en = (None :: rentry option)"
  let ?c = "c\<lparr>co_db := d, co_entry := en\<rparr>"
  have fin: "two_steps S code c (?c\<lparr>co_db := (fst d, fst (snd d) @ [row], snd (snd d))\<rparr>)" if "sn_user row = us_id u" for row
    using that ch f d \<open>en = None\<close> by (auto simp: two_steps_def sessions_in_def factor_used_sessions)
  show "ends (challengeKey (sv_crypto S) ticket) ?c (recordSuccess S key ip (
     callD (CreateSession (sv_crypto S) (us_id u) sessionTTL) internalError (\<lambda>(token, expiresAt).
     auditEventAs S r (Some u) [] ''login.success'' ''user'' (us_username u) ''success'' [(''method'', m)] (
       let out = (\<lambda>n. writeJSON 200 (JObj (loginJSON token expiresAt u @ n))) in
       if m = ''recovery''
       then callD (CountRecoveryCodes (us_id u)) (\<lambda>_. out []) (\<lambda>n. out [(''recoveryCodesLeft'', JInt (int n))])
       else out [])))) (two_steps S code c)"
  proof (intro ends_recordSuccess ends_CreateSession)
    show "ends (challengeKey (sv_crypto S) ticket) ?c (internalError e) (two_steps S code c)" for e
      by (intro ends_write two_steps_same) (simp add: d)
    fix x and row :: session_row assume "sn_user row = us_id u"
    from fin [OF this] show "ends (challengeKey (sv_crypto S) ticket) (?c\<lparr>co_db := (fst (co_db ?c), fst (snd (co_db ?c)) @ [row], snd (snd (co_db ?c)))\<rparr>)
     (case x of (token, expiresAt) \<Rightarrow> auditEventAs S r (Some u) [] ''login.success'' ''user'' (us_username u) ''success'' [(''method'', m)] (
       let out = (\<lambda>n. writeJSON 200 (JObj (loginJSON token expiresAt u @ n))) in
       if m = ''recovery''
       then callD (CountRecoveryCodes (us_id u)) (\<lambda>_. out []) (\<lambda>n. out [(''recoveryCodesLeft'', JInt (int n))])
       else out [])) (two_steps S code c)"
      unfolding Let_def
      by (cases x) (auto simp: CountRecoveryCodes_def intro!: ends_auditEvent ends_write ends_query [where F = "\<lambda>_ _. True"] peeks_rules)
  qed
qed

lemma fail_ends:
  assumes "fst (snd d) = fst (snd (co_db c))"
  shows "ends (challengeKey (sv_crypto S) ticket) (c\<lparr>co_db := d\<rparr>) (failLogin2FA S r ticket u key ip) (two_steps S code c)"
  unfolding failLogin2FA_def Let_def
  by (intro ends_this [where F = "\<lambda>x a b. True"] ends_recordFailure ends_auditEvent ends_write two_steps_same) (simp_all add: assms)

lemma secondStep_ends:
  assumes "chal_user (co_entry c) = Some (us_id u)"
  shows "ends (challengeKey (sv_crypto S) ticket) c (secondStep S r ticket code u) (two_steps S code c)" (is "ends ?k c _ ?Q")
  unfolding secondStep_def Let_def
proof (intro ends_limiterKey ends_unlessBlocked ends_auditEvent ends_checkSecondFactor)
  show "ends ?k c (retryAfter d (refuse 429 ''too many failed login attempts, try again later'')) ?Q" for d
    unfolding retryAfter_def by (intro ends_header ends_write two_steps_same) simp
qed (simp_all add: fail_ends finish_ends assms)

lemma handleLogin2FA_ends:
  "ends (challengeKey (sv_crypto S) ticket) c (handleLogin2FA S r (Inr (ticket, code))) (two_steps S code c)" (is "ends ?k c _ ?Q")
  unfolding handleLogin2FA_def sum.case prod.case
proof (intro ends_if ends_this [where F = "\<lambda>x a b. chal_user a = Some x \<and> b = a"])
  show "ends ?k c unavailable ?Q" unfolding unavailable_def by (intro ends_write two_steps_same) simp
  show "ends ?k (c\<lparr>co_entry := en\<rparr>) ticketExpired ?Q" "ends ?k (c\<lparr>co_entry := en\<rparr>) unavailable ?Q" for en
    unfolding ticketExpired_def unavailable_def by (intro ends_write two_steps_same; simp)+
  show "chal_user (look ?k q) = Some x \<and> look ?k (snd (PeekChallenge (sv_crypto S) ticket q)) = look ?k q"
    if "fst (PeekChallenge (sv_crypto S) ticket q) = Inr x" for q x
    using PeekChallenge_gives [OF that] look_PeekChallenge by blast
  fix userID en assume "chal_user (co_entry c) = Some userID \<and> en = co_entry c"
  then have ch: "chal_user (co_entry c) = Some userID" and en: "c\<lparr>co_entry := en\<rparr> = c" by simp_all
  show "ends ?k (c\<lparr>co_entry := en\<rparr>) (callD (GetUser userID) (\<lambda>_. ticketExpired) (secondStep S r ticket code)) ?Q"
    unfolding en
  proof (rule ends_query [where F = "\<lambda>u d. us_id u = userID"])
    show "peeks (GetUser userID)" unfolding GetUser_def findUser_def by (intro peeks_rules)
    show "us_id u = userID" if "fst (GetUser userID s) = Inr u" for s u
      using findUser_fst [OF that [unfolded GetUser_def]] by (auto simp: ret_def scanUser_def)
    show "ends ?k c ticketExpired ?Q" unfolding ticketExpired_def by (intro ends_write two_steps_same) simp
    show "ends ?k c (secondStep S r ticket code u) ?Q" if "us_id u = userID" for u
      by (rule secondStep_ends) (simp add: ch that)
  qed
qed

text \<open>
  C2: The second step of a login makes a session only for the user of its ticket, which is used up, and only with a code that was
  right and will not be accepted again: a recovery code that is gone afterwards, or a one-time code for a step later than
  the last one accepted, which is the last one accepted afterwards.
\<close>

theorem second_step_needs_both:
  assumes "hw_others w = []" and "handleLogin2FA S r (Inr (ticket, code)) w = (rep, v)"
    and "x \<in> set (tb_sessions (db_t (hw_db v)))" and "x \<notin> set (tb_sessions (db_t (hw_db w)))"
  shows "chal_user (look (challengeKey (sv_crypto S) ticket) (hw_cache w)) = Some (sn_user x) \<and>
    look (challengeKey (sv_crypto S) ticket) (hw_cache v) = None \<and>
    (recovery_used S code (sn_user x) (tb_codes (db_t (hw_db w))) (tb_codes (db_t (hw_db v))) \<or>
     totp_accepted S (hw_env w) code (sn_user x) (tb_users (db_t (hw_db w))) (tb_users (db_t (hw_db v))))"
proof -
  let ?k = "challengeKey (sv_crypto S) ticket"
  have "two_steps S code (coreOf ?k w) (coreOf ?k v)"
    using handleLogin2FA_ends [of S ticket "coreOf ?k w" r code] assms(1,2) unfolding ends_def by (metis snd_conv)
  moreover have "x \<in> sessions_in (coreOf ?k v) - sessions_in (coreOf ?k w)"
    using assms(3,4) by (simp add: sessions_in_def coreOf_def dcore_def)
  ultimately show ?thesis by (auto simp: two_steps_def coreOf_def dcore_def factor_used_def)
qed

section \<open>On a sample panel\<close>

definition eves_login :: "unit hw" where
  "eves_login = snd (handleLogin sample_server (signed_request []) (Inr (''eve'', ''first'')) sample_hw)"

lemma login_needs_password_witness:
  "\<exists>row\<in>set (tb_users (db_t sample_db)). has_password sample_crypto ''eve'' ''first'' row \<and> ur_totp_enabled row = None \<and>
     sn_user (last (tb_sessions (db_t (hw_db eves_login)))) = ur_id row"
proof -
  have s: "map sn_hash (tb_sessions (db_t (hw_db eves_login))) = [''ha'', ''hb'', ''he'', ''hnext'']" by code_simp
  have d: "map sn_hash (tb_sessions (db_t (hw_db sample_hw))) = [''ha'', ''hb'', ''he'']" by code_simp
  from s have ne: "tb_sessions (db_t (hw_db eves_login)) \<noteq> []" by auto
  then have m: "last (tb_sessions (db_t (hw_db eves_login))) \<in> set (tb_sessions (db_t (hw_db eves_login)))" by simp
  have h: "sn_hash (last (tb_sessions (db_t (hw_db eves_login)))) = ''hnext''" using s ne by (simp add: last_map [symmetric])
  have "last (tb_sessions (db_t (hw_db eves_login))) \<notin> set (tb_sessions (db_t (hw_db sample_hw)))"
  proof
    assume "last (tb_sessions (db_t (hw_db eves_login))) \<in> set (tb_sessions (db_t (hw_db sample_hw)))"
    then have "sn_hash (last (tb_sessions (db_t (hw_db eves_login)))) \<in> set (map sn_hash (tb_sessions (db_t (hw_db sample_hw))))" by simp
    then show False unfolding h d by simp
  qed
  from login_needs_password [OF sample_quiet(1) m [unfolded eves_login_def] this [unfolded eves_login_def]]
  show ?thesis by (simp add: sample_quiet eves_login_def sample_server_def)
qed

text \<open>Ada with a second factor and a ticket; she answers with a recovery code.\<close>

definition guarded_server :: "unit server" where
  "guarded_server = sample_server\<lparr>sv_two_factor := Some sample_aead\<rparr>"

definition guarded_hw :: "unit hw" where
  "guarded_hw = sample_hw\<lparr>hw_db := (new_db [] [''next''])\<lparr>db_t := no_tables\<lparr>
       tb_users := [(sample_account 1 ''ada'')\<lparr>ur_totp_secret := Some ''enc'', ur_totp_enabled := Some 1\<rparr>],
       tb_codes := [(1, HashRecoveryCode sample_crypto ''abcde-fghij'')]\<rparr>\<rparr>,
     hw_cache := snd (IssueChallenge sample_crypto 1 loginChallengeTTL (no_redis\<lparr>rd_random := [''t'']\<rparr>))\<rparr>"

definition adas_second_step :: "reply \<times> unit hw" where
  "adas_second_step = handleLogin2FA guarded_server (signed_request []) (Inr (''t'', ''ABCDE-fghij'')) guarded_hw"

lemma second_step_needs_both_witness:
  "chal_user (look (challengeKey sample_crypto ''t'') (hw_cache guarded_hw)) = Some 1 \<and>
   look (challengeKey sample_crypto ''t'') (hw_cache (snd adas_second_step)) = None"
proof -
  have "map sn_user (tb_sessions (db_t (hw_db (snd adas_second_step)))) = [1]" by code_simp
  then obtain x where x: "tb_sessions (db_t (hw_db (snd adas_second_step))) = [x]" "sn_user x = 1" by (auto simp: map_eq_Cons_conv)
  have none: "tb_sessions (db_t (hw_db guarded_hw)) = []" by (simp add: guarded_hw_def no_tables_def)
  have run: "handleLogin2FA guarded_server (signed_request []) (Inr (''t'', ''ABCDE-fghij'')) guarded_hw = (fst adas_second_step, snd adas_second_step)"
    by (simp add: adas_second_step_def)
  have "hw_others guarded_hw = []" by (simp add: guarded_hw_def sample_hw_def)
  from second_step_needs_both [OF this run, of x] x none show ?thesis by (simp add: guarded_server_def sample_server_def)
qed

end
