(* ===== verification/Panel_Alerts.thy ===== *)
theory Panel_Alerts
  imports Panel_Signin Backup_Plan
begin

text \<open>
  The alerts of an organization (\<open>internal/panelapi/notifyevents.go\<close>, \<open>notifier.go\<close>, \<open>notifications.go\<close>, \<open>discord.go\<close>):
  what went wrong in its namespace, who is told, and that nobody is told twice. Also the rest of the panel's
  configuration, which the later handlers share.
\<close>

section \<open>The rest of the server\<close>

text \<open>\<open>url.Parse\<close> and the HTTP client are parameters; \<open>pn_text\<close> is the text of a formatted message.\<close>

record url_parts =
  ul_scheme :: string
  ul_user :: bool
  ul_host :: string
  ul_port :: string
  ul_path :: string
  ul_raw_query :: string
  ul_force_query :: bool
  ul_fragment :: string

record discord_message =
  dm_title :: string
  dm_description :: string
  dm_url :: string
  dm_color :: int
  dm_at :: time

record players_snapshot =
  sp_online :: int
  sp_max :: int
  sp_players :: "string list"
  sp_at :: time

text \<open>How the snapshots of players are written to Redis and read from it (\<open>encoding/json\<close>).\<close>

record players_codec =
  pc_encode :: "players_snapshot \<Rightarrow> string"
  pc_decode :: "string \<Rightarrow> players_snapshot option"

record 'w panel =
  pn_server :: "'w server"
  pn_backup :: platform
  pn_text :: "msg \<Rightarrow> string"
  pn_parse_url :: "string \<Rightarrow> url_parts option"
  pn_unicode :: unicode
  pn_notified :: bool \<comment> \<open>\<open>Notified\<close> is set\<close>
  pn_discord :: "(string \<Rightarrow> discord_message \<Rightarrow> ('w, unit) io) option"
  pn_players :: "players_codec option"
  pn_registries :: "string list"
  pn_limiter :: bool \<comment> \<open>\<open>RequestLimiter\<close> is set\<close>

abbreviation pn_k :: "'w panel \<Rightarrow> 'w k8s" where
  "pn_k P \<equiv> sv_k (pn_server P)"

abbreviation orgNS :: "org_access \<Rightarrow> string" where
  "orgNS acc \<equiv> TenantNamespace (og_slug (ac_org acc))"

abbreviation apiError :: "go_err \<Rightarrow> 'w handler" where
  "apiError e \<equiv> writeError (statusFor e) (errText e)"

section \<open>What went wrong (\<open>notifyevents.go\<close>)\<close>

definition eventGaveUp :: string where "eventGaveUp = ''gameserver.gave_up''"
definition eventBackupFailed :: string where "eventBackupFailed = ''backup.failed''"
definition eventResumeFailed :: string where "eventResumeFailed = ''backup.resume_failed''"
definition eventScheduleFailed :: string where "eventScheduleFailed = ''schedule.failed''"
definition eventSuspended :: string where "eventSuspended = ''gameserver.suspended''"

definition notificationEvents :: "string list" where
  "notificationEvents = [eventGaveUp, eventBackupFailed, eventResumeFailed, eventScheduleFailed, eventSuspended]"

definition eventMailKinds :: "string \<Rightarrow> string" where
  "eventMailKinds e = (case map_of [(eventGaveUp, ''alert_gave_up''), (eventBackupFailed, ''alert_backup_failed''),
     (eventResumeFailed, ''alert_resume_failed''), (eventScheduleFailed, ''alert_schedule_failed''),
     (eventSuspended, ''alert_suspended'')] e of None \<Rightarrow> [] | Some k \<Rightarrow> k)"

record occurrence =
  oc_event :: string
  oc_identity :: string
  oc_gameserver :: string
  oc_detail :: string
  oc_at :: time

text \<open>The dash and the dot between the parts are \<open>U+2014\<close> and \<open>U+00B7\<close>.\<close>

definition crashDetail :: "(msg \<Rightarrow> string) \<Rightarrow> msg \<Rightarrow> gs_crash \<Rightarrow> string" where
  "crashDetail text m lc = trimSpace (text m @ '' '' @ [CHR 0xE2, CHR 0x80, CHR 0x94] @ '' '' @ joinStr ('' '' @ [CHR 0xC2, CHR 0xB7] @ '' '')
     ((if cr_reason lc = [] then [] else [cr_reason lc]) @ [''exit '' @ itoa (cr_exit_code lc)] @ (if cr_oom_killed lc then [''OOM''] else [])))"

definition serverOccurrence :: "klib \<Rightarrow> (msg \<Rightarrow> string) \<Rightarrow> gameserver \<Rightarrow> occurrence list" where
  "serverOccurrence L text gs = (case lib_find_condition L (gst_conditions (gs_status gs)) ConditionCrashed of None \<Rightarrow> []
   | Some c \<Rightarrow> if cond_status c \<noteq> CondTrue then [] else
       [\<lparr>oc_event = eventGaveUp,
         oc_identity = ''gave_up/'' @ om_uid (gs_meta gs) @ ''/'' @ itoa (unix (cond_transition c)),
         oc_gameserver = om_name (gs_meta gs),
         oc_detail = (case gst_last_crash (gs_status gs) of None \<Rightarrow> text (cond_message c) | Some lc \<Rightarrow> crashDetail text (cond_message c) lc),
         oc_at = cond_transition c\<rparr>])"

definition backupOccurrences :: "klib \<Rightarrow> (msg \<Rightarrow> string) \<Rightarrow> backup \<Rightarrow> occurrence list" where
  "backupOccurrences L text b =
     (if bst_phase (bk_status b) = BkFailed then
        [\<lparr>oc_event = eventBackupFailed, oc_identity = ''backup_failed/'' @ om_uid (bk_meta b),
          oc_gameserver = bks_gameserver (bk_spec b), oc_detail = om_name (bk_meta b),
          oc_at = (case bst_completion (bk_status b) of None \<Rightarrow> om_creation (bk_meta b) | Some t \<Rightarrow> t)\<rparr>] else [])
   @ (case lib_find_condition L (bst_conditions (bk_status b)) BackupConditionResumed of None \<Rightarrow> []
      | Some c \<Rightarrow> if cond_status c = CondFalse \<and> cond_reason c = QuiesceReasonSendFailed then
          [\<lparr>oc_event = eventResumeFailed, oc_identity = ''resume_failed/'' @ om_uid (bk_meta b),
            oc_gameserver = bks_gameserver (bk_spec b),
            oc_detail = trimSpace (om_name (bk_meta b) @ '': '' @ text (cond_message c)), oc_at = cond_transition c\<rparr>] else [])"

definition scheduleOccurrence :: "(msg \<Rightarrow> string) \<Rightarrow> schedule \<Rightarrow> occurrence list" where
  "scheduleOccurrence text s = (case sst_last_run (sch_status s) of None \<Rightarrow> []
   | Some run \<Rightarrow> if sr_result run \<noteq> RunFailed then [] else
       [\<lparr>oc_event = eventScheduleFailed,
         oc_identity = ''schedule_failed/'' @ om_uid (sch_meta s) @ ''/'' @ itoa (unix (sr_started run)),
         oc_gameserver = scs_gameserver (sch_spec s), oc_detail = trimSpace (om_name (sch_meta s) @ '': '' @ text (sr_message run)),
         oc_at = (case sr_finished run of None \<Rightarrow> sr_started run | Some t \<Rightarrow> t)\<rparr>])"

definition detectOccurrences :: "klib \<Rightarrow> (msg \<Rightarrow> string) \<Rightarrow> gameserver list \<Rightarrow> backup list \<Rightarrow> schedule list \<Rightarrow> occurrence list" where
  "detectOccurrences L text gss bkps schs =
     concat (map (serverOccurrence L text) gss) @ concat (map (backupOccurrences L text) bkps) @ concat (map (scheduleOccurrence text) schs)"

section \<open>Discord webhooks (\<open>discord.go\<close>)\<close>

definition discordHosts :: "string list" where
  "discordHosts = [''discord.com'', ''discordapp.com'', ''ptb.discord.com'', ''canary.discord.com'']"

definition tokenChar :: "char \<Rightarrow> bool" where
  "tokenChar c \<longleftrightarrow> asciiAlnum c \<or> c = CHR ''_'' \<or> c = CHR ''-''"

text \<open>The regular expression: digits, a slash, and a token. The digits end where the slash begins.\<close>

definition discordWebhookPath :: "string \<Rightarrow> bool" where
  "discordWebhookPath p \<longleftrightarrow> hasPrefix p ''/api/webhooks/'' \<and>
     (let r = drop (length ''/api/webhooks/'') p; tok = dropWhile isDigit r in
      takeWhile isDigit r \<noteq> [] \<and> tok \<noteq> [] \<and> hd tok = CHR ''/'' \<and> tl tok \<noteq> [] \<and> list_all tokenChar (tl tok))"

definition validDiscordWebhook :: "(string \<Rightarrow> url_parts option) \<Rightarrow> string \<Rightarrow> bool" where
  "validDiscordWebhook parse raw = (case parse raw of None \<Rightarrow> False
   | Some u \<Rightarrow> ul_scheme u = ''https'' \<and> \<not> ul_user u \<and> ul_port u = [] \<and> ul_host u \<in> set discordHosts \<and>
       ul_raw_query u = [] \<and> ul_fragment u = [] \<and> \<not> ul_force_query u \<and> discordWebhookPath (ul_path u))"

definition colorRed :: int where "colorRed = 0xE5484D"
definition colorOrange :: int where "colorOrange = 0xF5A524"

text \<open>Discord's answer: its status, and how long it asks to wait, in the body or in the header.\<close>

record http_answer =
  ha_status :: int
  ha_body_wait :: "duration option" \<comment> \<open>\<open>retry_after\<close>, when it is a positive number\<close>
  ha_header_wait :: "duration option" \<comment> \<open>\<open>Retry-After\<close>, when it is a number\<close>

definition maxDiscordRetryAfter :: duration where "maxDiscordRetryAfter = 5 * second"

record 'w discord_http =
  dh_do :: "string \<Rightarrow> json \<Rightarrow> ('w, http_answer) io"
  dh_sleep :: "duration \<Rightarrow> ('w, unit) io" \<comment> \<open>fails when the context is done first\<close>
  dh_skip_validation :: bool
  dh_retry_wait :: duration

text \<open>The wait before a retry is negative when a retry is not worth it.\<close>

definition post :: "'w discord_http \<Rightarrow> string \<Rightarrow> json \<Rightarrow> ('w, duration \<times> go_err option) io" where
  "post d url body = bindE (attempt (dh_do d url body)) (\<lambda>res. ret (case res of
       Inl e \<Rightarrow> (dh_retry_wait d, Some (Wrapped ''discord: '' e))
     | Inr a \<Rightarrow>
         if 200 \<le> ha_status a \<and> ha_status a < 300 then (0, None)
         else if ha_status a = 429 then
           (min (case ha_body_wait a of Some t \<Rightarrow> t | None \<Rightarrow> (case ha_header_wait a of Some t \<Rightarrow> t | None \<Rightarrow> second)) maxDiscordRetryAfter,
            Some (MsgErr (Msg ''discord: rate limited'' [])))
         else if 500 \<le> ha_status a then (dh_retry_wait d, Some (MsgErr (Msg ''discord: HTTP %d'' [AInt (ha_status a)])))
         else (- 1, Some (MsgErr (Msg ''discord: HTTP %d'' [AInt (ha_status a)])))))"

text \<open>The zero time of Go, which has no timestamp.\<close>

definition embedJSON :: "discord_message \<Rightarrow> json" where
  "embedJSON m = JObj ([(''title'', JStr (dm_title m)), (''description'', JStr (dm_description m)), (''color'', JInt (dm_color m))] @
     omitStr ''url'' (dm_url m) @ (if dm_at m = - 62135596800 * second then [] else [(''timestamp'', JTime (dm_at m))]))"

text \<open>At most two requests.\<close>

definition Send :: "'w discord_http \<Rightarrow> (string \<Rightarrow> url_parts option) \<Rightarrow> string \<Rightarrow> discord_message \<Rightarrow> ('w, unit) io" where
  "Send d parse url m =
     (if \<not> dh_skip_validation d \<and> \<not> validDiscordWebhook parse url then throw (MsgErr (Msg ''not a Discord webhook URL'' []))
      else let body = JObj [(''username'', JStr ''Hatchery''), (''embeds'', JArr [embedJSON m])] in
        bindE (post d url body) (\<lambda>(wait, err). case err of None \<Rightarrow> ret ()
        | Some e \<Rightarrow> if wait < 0 then throw e
            else thenE (dh_sleep d wait) (bindE (post d url body) (\<lambda>(_, err2). case err2 of None \<Rightarrow> ret () | Some e2 \<Rightarrow> throw e2))))"

section \<open>Telling people (\<open>notifier.go\<close>)\<close>

definition notifyMaxAge :: duration where "notifyMaxAge = 15 * minute"
definition discordLocale :: string where "discordLocale = ''pt-BR''"

record alert =
  al_kind :: string
  al_server :: string
  al_detail :: string
  al_link :: string
  al_color :: int
  al_at :: time

text \<open>The headlines of \<open>internal/mailer/templates.go\<close>, in UTF-8; an unknown locale is \<open>pt-BR\<close>.\<close>

definition titlesEn :: "(string \<times> string) list" where
  "titlesEn = [(''alert_gave_up'', ''Server stopped after crashing''), (''alert_backup_failed'', ''Backup failed''),
     (''alert_resume_failed'', ''World saving was not turned back on''), (''alert_schedule_failed'', ''Schedule failed''),
     (''alert_suspended'', ''Server suspended'')]"

definition titlesPt :: "(string \<times> string) list" where
  "titlesPt = [(''alert_gave_up'', ''Servidor parado ap'' @ [CHR 0xC3, CHR 0xB3] @ ''s falhas''), (''alert_backup_failed'', ''Backup falhou''),
     (''alert_resume_failed'', ''Salvamento do mundo n'' @ [CHR 0xC3, CHR 0xA3] @ ''o foi religado''), (''alert_schedule_failed'', ''Agendamento falhou''),
     (''alert_suspended'', ''Servidor suspenso'')]"

definition AlertTitle :: "string \<Rightarrow> string \<Rightarrow> string" where
  "AlertTitle kind locale = (case map_of (if locale = ''en'' then titlesEn else titlesPt) kind of None \<Rightarrow> [] | Some t \<Rightarrow> t)"

definition serverDisplayName :: "gameserver \<Rightarrow> string" where
  "serverDisplayName gs = (if gss_display_name (gs_spec gs) \<noteq> [] then gss_display_name (gs_spec gs) else om_name (gs_meta gs))"

definition serverLink :: "'w server \<Rightarrow> string \<Rightarrow> string \<Rightarrow> string" where
  "serverLink S slug name = (if sv_public_url S = [] \<or> name = [] then []
     else trimRightC CHR ''/'' (sv_public_url S) @ ''/orgs/'' @ slug @ ''/servers/'' @ name)"

definition discordText :: "org \<Rightarrow> alert \<Rightarrow> string \<times> string" where
  "discordText g a = (let desc = ''Organiza'' @ [CHR 0xC3, CHR 0xA7, CHR 0xC3, CHR 0xA3] @ ''o **'' @ og_name g @ ''**'';
       detail = (if al_detail a = [] then [] else CHR 0x0A # al_detail a) in
     if al_kind a = ''alert_test''
     then (''Teste de notifica'' @ [CHR 0xC3, CHR 0xA7, CHR 0xC3, CHR 0xB5] @ ''es do Hatchery'',
       desc @ CHR 0x0A # ''Se esta mensagem chegou, o webhook est'' @ [CHR 0xC3, CHR 0xA1] @ '' funcionando.'' @ detail)
     else (AlertTitle (al_kind a) discordLocale @ '': '' @ al_server a, desc @ detail))"

definition sendDiscordAlert :: "'w panel \<Rightarrow> string \<Rightarrow> org \<Rightarrow> alert \<Rightarrow> (string \<Rightarrow> 'w handler) \<Rightarrow> 'w handler" where
  "sendDiscordAlert P webhook g a k = (case pn_discord P of None \<Rightarrow> k ''notConfigured''
   | Some send \<Rightarrow>
     if webhook = [] then k ''notConfigured''
     else if \<not> validDiscordWebhook (pn_parse_url P) webhook then k ''failed: invalid webhook URL''
     else callK (send webhook \<lparr>dm_title = fst (discordText g a), dm_description = snd (discordText g a), dm_url = al_link a,
          dm_color = al_color a, dm_at = al_at a\<rparr>)
        (\<lambda>e. k (''failed: '' @ pn_text P (errText e))) (\<lambda>_. k ''sent''))"

text \<open>The loop over the recipients (name, address, locale): how many mails failed, and the last error.\<close>

fun mailEach :: "'w server \<Rightarrow> org \<Rightarrow> alert \<Rightarrow> (string \<times> string \<times> string) list \<Rightarrow> nat \<Rightarrow> go_err option \<Rightarrow>
    (nat \<Rightarrow> go_err option \<Rightarrow> 'w handler) \<Rightarrow> 'w handler" where
  "mailEach S g a [] failed lastErr k = k failed lastErr"
| "mailEach S g a ((_, email, locale) # rs) failed lastErr k =
     callK (sendMail S email locale (KindAlert (al_kind a)) (al_link a)
         [(''org'', og_name g), (''server'', al_server a), (''detail'', al_detail a)])
       (\<lambda>e. mailEach S g a rs (failed + 1) (Some e) k) (\<lambda>_. mailEach S g a rs failed lastErr k)"

definition sendAlertMail :: "'w panel \<Rightarrow> (string \<times> string \<times> string) list \<Rightarrow> org \<Rightarrow> alert \<Rightarrow> (string \<Rightarrow> 'w handler) \<Rightarrow> 'w handler" where
  "sendAlertMail P recipients g a k =
     (if sv_send (pn_server P) = None then k ''notConfigured''
      else if recipients = [] then k ''noRecipients''
      else mailEach (pn_server P) g a recipients 0 None (\<lambda>failed lastErr. case lastErr of None \<Rightarrow> k ''sent''
        | Some e \<Rightarrow> k (''failed: '' @ itoa (int failed) @ '' of '' @ itoa (int (length recipients)) @ '' ('' @ pn_text P (errText e) @ '')'')))"

definition alertFor :: "'w server \<Rightarrow> org \<Rightarrow> occurrence \<Rightarrow> string \<Rightarrow> alert" where
  "alertFor S g occ displayName = \<lparr>al_kind = eventMailKinds (oc_event occ), al_server = displayName, al_detail = oc_detail occ,
     al_link = serverLink S (og_slug g) (oc_gameserver occ),
     al_color = (if oc_event occ = eventScheduleFailed \<or> oc_event occ = eventSuspended then colorOrange else colorRed), al_at = oc_at occ\<rparr>"

definition deliver :: "'w panel \<Rightarrow> org \<Rightarrow> occurrence \<Rightarrow> string \<Rightarrow> string \<Rightarrow> (string \<times> string \<times> string) list \<Rightarrow> 'w handler \<Rightarrow> 'w handler" where
  "deliver P g occ displayName webhook recipients next = (let a = alertFor (pn_server P) g occ displayName in
     sendDiscordAlert P webhook g a (\<lambda>discord.
     sendAlertMail P recipients g a (\<lambda>email.
     writeAudit \<lparr>ae_org_slug = og_slug g, ae_actor = None, ae_actor_name = ''system'', ae_action = ''notification.sent'',
       ae_target_type = ''gameserver'', ae_target = oc_gameserver occ,
       ae_outcome = (if hasPrefix discord ''failed'' \<or> hasPrefix email ''failed'' then ''failed'' else ''success''), ae_ip = [],
       ae_meta = sanitizeMeta [(''event'', oc_event occ), (''discord'', discord), (''email'', email)]\<rparr> next)))"

text \<open>Errors are only logged. When the recipients cannot be read, nobody is mailed.\<close>

definition notify :: "'w panel \<Rightarrow> org \<Rightarrow> occurrence \<Rightarrow> string \<Rightarrow> 'w handler \<Rightarrow> 'w handler" where
  "notify P g occ displayName next =
     (if \<not> pn_notified P then next
      else callD (GetNotificationSettings (og_id g)) (\<lambda>_. next) (\<lambda>st.
        if oc_event occ \<in> set (ns_muted st) then next
        else callR (ClaimNotified (og_slug g @ ''/'' @ oc_identity occ)) (\<lambda>_. next) (\<lambda>claimed.
          if \<not> claimed then next
          else callD (ListAlertRecipients (og_id g)) (\<lambda>_. deliver P g occ displayName (ns_webhook st) [] next)
            (\<lambda>recipients. deliver P g occ displayName (ns_webhook st) recipients next))))"

fun notifyEach :: "'w panel \<Rightarrow> time \<Rightarrow> org \<Rightarrow> (string \<Rightarrow> string option) \<Rightarrow> occurrence list \<Rightarrow> 'w handler \<Rightarrow> 'w handler" where
  "notifyEach P now g display [] next = next"
| "notifyEach P now g display (occ # occs) next = (let rest = notifyEach P now g display occs next; age = now - oc_at occ in
     if notifyMaxAge < age \<or> age < - minute then rest
     else notify P g occ (case display (oc_gameserver occ) of None \<Rightarrow> oc_gameserver occ | Some n \<Rightarrow> if n = [] then oc_gameserver occ else n) rest)"

text \<open>All three lists are read before the first error is looked at.\<close>

definition listObjects :: "'w k8s \<Rightarrow> string \<Rightarrow> ('w, gameserver list \<times> backup list \<times> schedule list) io" where
  "listObjects k ns = bindE (attempt (r_list (k_gs k) (Some ns) [])) (\<lambda>a. bindE (attempt (r_list (k_backup k) (Some ns) [])) (\<lambda>b.
     bindE (attempt (r_list (k_sched k) (Some ns) [])) (\<lambda>c.
     bindE (liftE a) (\<lambda>gss. bindE (liftE b) (\<lambda>bks. bindE (liftE c) (\<lambda>schs. ret (gss, bks, schs)))))))"

fun notifyTenants :: "'w panel \<Rightarrow> time \<Rightarrow> tenant list \<Rightarrow> 'w handler \<Rightarrow> 'w handler" where
  "notifyTenants P now [] next = next"
| "notifyTenants P now (tn # tns) next = (let rest = notifyTenants P now tns next in
     if tst_phase (tn_status tn) \<noteq> TnActive \<or> tst_namespace (tn_status tn) = [] then rest
     else callD (GetOrgBySlug (om_name (tn_meta tn))) (\<lambda>_. rest) (\<lambda>g.
       callK (listObjects (pn_k P) (tst_namespace (tn_status tn))) (\<lambda>_. rest) (\<lambda>(gss, bks, schs).
       notifyEach P now g (map_of (rev (map (\<lambda>gs. (om_name (gs_meta gs), serverDisplayName gs)) gss)))
         (detectOccurrences (k_lib (pn_k P)) (pn_text P) gss bks schs) rest)))"

text \<open>One round; \<open>next\<close> is what the process does afterwards.\<close>

definition NotifyOnce :: "'w panel \<Rightarrow> 'w handler \<Rightarrow> 'w handler" where
  "NotifyOnce P next = (if \<not> pn_notified P then next
     else callK (r_list (k_tenant (pn_k P)) None []) (\<lambda>_. next) (\<lambda>tenants.
       readEnv (k_now (pn_k P)) (\<lambda>now. notifyTenants P now tenants next)))"

definition suspendedOccurrence :: "time \<Rightarrow> gameserver \<Rightarrow> occurrence" where
  "suspendedOccurrence now gs = \<lparr>oc_event = eventSuspended,
     oc_identity = ''suspended/'' @ om_uid (gs_meta gs) @ ''/'' @ itoa now,
     oc_gameserver = om_name (gs_meta gs), oc_detail = gss_suspend_reason (gs_spec gs), oc_at = now\<rparr>"

text \<open>In the background: the answer is already given.\<close>

definition notifySuspended :: "'w panel \<Rightarrow> org \<Rightarrow> gameserver \<Rightarrow> 'w handler \<Rightarrow> 'w handler" where
  "notifySuspended P g gs next = readEnv (k_now (pn_k P)) (\<lambda>now. notify P g (suspendedOccurrence now gs) (serverDisplayName gs) next)"

section \<open>Settings (\<open>notifications.go\<close>)\<close>

definition notificationsJSON :: "notification_settings \<Rightarrow> json" where
  "notificationsJSON st = JObj [(''discordConfigured'', JBool (ns_webhook st \<noteq> [])), (''muted'', JArr (map JStr (ns_muted st))),
     (''events'', JArr (map JStr notificationEvents))]"

definition handleGetNotifications :: "org_access \<Rightarrow> 'w handler" where
  "handleGetNotifications acc = callD (GetNotificationSettings (og_id (ac_org acc))) internalError (\<lambda>st. writeJSON 200 (notificationsJSON st))"

text \<open>The events of the body, each once, or the first unknown one.\<close>

fun mutedOf :: "string list \<Rightarrow> string list \<Rightarrow> string + string list" where
  "mutedOf [] muted = Inr muted"
| "mutedOf (e # es) muted = (if e \<notin> set notificationEvents then Inl e
     else mutedOf es (if e \<in> set muted then muted else muted @ [e]))"

definition jsonStrings :: "string list \<Rightarrow> string" where
  "jsonStrings xs = ''['' @ joinWith CHR '','' (map jsonString xs) @ '']''"

definition saveMuted :: "'w panel \<Rightarrow> request \<Rightarrow> string \<Rightarrow> string list \<Rightarrow> user \<Rightarrow> org_access \<Rightarrow> 'w handler" where
  "saveMuted P r discord muted u acc =
     callD (SetMutedEvents (og_id (ac_org acc)) muted) internalError (\<lambda>_.
     auditEvent (pn_server P) r (Some u) (og_slug (ac_org acc)) ''notification.settings.update'' ''organization'' (og_slug (ac_org acc)) ''success''
       [(''discord'', discord), (''muted'', jsonStrings muted)] (handleGetNotifications acc))"

definition handlePutNotifications :: "'w panel \<Rightarrow> request \<Rightarrow> go_err + string option \<times> string list \<Rightarrow> user \<Rightarrow> org_access \<Rightarrow> 'w handler" where
  "handlePutNotifications P r body u acc = (case body of Inl e \<Rightarrow> badJSON e
   | Inr (webhook, reqMuted) \<Rightarrow>
     if (case webhook of None \<Rightarrow> False | Some x \<Rightarrow> x \<noteq> [] \<and> \<not> validDiscordWebhook (pn_parse_url P) x) then
       refuse 422 ''discordWebhookUrl must be a Discord webhook URL (https://discord.com/api/webhooks/<id>/<token>)''
     else (case mutedOf reqMuted [] of Inl e \<Rightarrow> writeError 422 (Msg ''unknown event %q'' [AStr e])
     | Inr muted \<Rightarrow> (case webhook of None \<Rightarrow> saveMuted P r ''unchanged'' muted u acc
       | Some x \<Rightarrow> callD (SetDiscordWebhook (og_id (ac_org acc)) x) internalError (\<lambda>_.
           saveMuted P r (if x = [] then ''removed'' else ''set'') muted u acc))))"

definition notificationTestLimit :: int where "notificationTestLimit = 5"
definition notificationTestWindow :: duration where "notificationTestWindow = minute"

definition sendTest :: "'w panel \<Rightarrow> user \<Rightarrow> org_access \<Rightarrow> 'w handler" where
  "sendTest P u acc = callD (GetNotificationSettings (og_id (ac_org acc))) internalError (\<lambda>st.
     readEnv (k_now (pn_k P)) (\<lambda>now.
     let a = \<lparr>al_kind = ''alert_test'', al_server = [], al_detail = [], al_link = [], al_color = colorOrange, al_at = now\<rparr> in
     sendDiscordAlert P (ns_webhook st) (ac_org acc) a (\<lambda>discord.
     sendAlertMail P [(us_username u, us_email u, pf_locale (us_profile u))] (ac_org acc) a (\<lambda>email.
     writeJSON 200 (JObj [(''discord'', JStr discord), (''email'', JStr email)])))))"

definition handleTestNotifications :: "'w panel \<Rightarrow> user \<Rightarrow> org_access \<Rightarrow> 'w handler" where
  "handleTestNotifications P u acc =
     (if \<not> pn_limiter P then sendTest P u acc
      else callR (Allow (sv_crypto (pn_server P)) (''notify-test:'' @ og_slug (ac_org acc)) notificationTestLimit notificationTestWindow)
        (\<lambda>_. sendTest P u acc) (\<lambda>(ok, wait).
          if \<not> ok then Panel_Login.retryAfter wait (refuse 429 ''too many test notifications, try again later'')
          else sendTest P u acc))"

end
