(* ===== verification/Panel_Quota.thy ===== *)
theory Panel_Quota
  imports Panel_Alerts
begin

text \<open>
  Organizations and what they may use (\<open>internal/panelapi/quota.go\<close>, \<open>orgs.go\<close>), the first administrator
  (\<open>bootstrap.go\<close>), and the pruning of the audit trail (\<open>auditpruner.go\<close>). Sums of quantities are exact, as
  \<open>resource.Quantity\<close> makes them.
\<close>

section \<open>What an organization uses (\<open>quota.go\<close>)\<close>

record quota_totals =
  qt_cpu :: quantity
  qt_memory :: quantity
  qt_storage :: quantity
  qt_gameservers :: int

definition no_totals :: quota_totals where
  "no_totals = \<lparr>qt_cpu = 0, qt_memory = 0, qt_storage = 0, qt_gameservers = 0\<rparr>"

text \<open>A resource that a list does not name is zero.\<close>

definition resourceOf :: "string \<Rightarrow> (string \<times> quantity) list \<Rightarrow> quantity" where
  "resourceOf name l = (case map_of l name of None \<Rightarrow> 0 | Some q \<Rightarrow> q)"

definition storageOf :: "klib \<Rightarrow> gs_spec \<Rightarrow> quantity" where
  "storageOf L spec = (case lib_parse_quantity L (st_size (gss_storage spec)) of None \<Rightarrow> 0 | Some q \<Rightarrow> q)"

definition addServer :: "klib \<Rightarrow> gs_spec \<Rightarrow> quota_totals \<Rightarrow> quota_totals" where
  "addServer L spec t = \<lparr>qt_cpu = qt_cpu t + resourceOf ''cpu'' (rs_requests (gss_resources spec)),
     qt_memory = qt_memory t + resourceOf ''memory'' (rs_requests (gss_resources spec)),
     qt_storage = qt_storage t + storageOf L spec, qt_gameservers = qt_gameservers t + 1\<rparr>"

definition usedBy :: "klib \<Rightarrow> gameserver list \<Rightarrow> string \<Rightarrow> quota_totals" where
  "usedBy L existing exclude =
     fold (\<lambda>gs t. if om_name (gs_meta gs) \<noteq> exclude then addServer L (gs_spec gs) t else t) existing no_totals"

text \<open>\<open>None\<close> when the organization has no Tenant.\<close>

definition loadQuota :: "'w k8s \<Rightarrow> string \<Rightarrow> string \<Rightarrow> string \<Rightarrow> ('w, (tenant_quota \<times> quota_totals) option) io" where
  "loadQuota k orgSlug ns exclude = bindE (found_or_none (r_get (k_tenant k) [] orgSlug)) (\<lambda>r. case r of
       None \<Rightarrow> ret None
     | Some t \<Rightarrow> bindE (r_list (k_gs k) (Some ns) []) (\<lambda>existing.
         ret (Some (tn_quota t, usedBy (k_lib k) existing exclude))))"

definition overQuota :: "string \<Rightarrow> quantity \<Rightarrow> quantity \<Rightarrow> go_err" where
  "overQuota what used limit = MsgErr (Msg (''quota exceeded: '' @ what @ '' would total %s of the %s allowed'') [AInt used, AInt limit])"

definition checkTotals :: "tenant_quota \<Rightarrow> quota_totals \<Rightarrow> go_err + unit" where
  "checkTotals q used =
     (if tq_storage q < qt_storage used then Inl (overQuota ''storage'' (qt_storage used) (tq_storage q))
      else if tq_cpu q < qt_cpu used then Inl (overQuota ''requested CPU'' (qt_cpu used) (tq_cpu q))
      else if tq_memory q < qt_memory used then Inl (overQuota ''requested memory'' (qt_memory used) (tq_memory q))
      else Inr ())"

definition checkQuotaHeadroom :: "'w k8s \<Rightarrow> string \<Rightarrow> string \<Rightarrow> gs_spec \<Rightarrow> ('w, unit) io" where
  "checkQuotaHeadroom k orgSlug ns spec = bindE (loadQuota k orgSlug ns []) (\<lambda>r. case r of None \<Rightarrow> ret ()
     | Some (q, used) \<Rightarrow>
         if tq_max_gameservers q < qt_gameservers used + 1 then
           throw (MsgErr (Msg ''quota exceeded: this organization may have at most %d game server(s)'' [AInt (tq_max_gameservers q)]))
         else liftE (checkTotals q (addServer (k_lib k) spec used)))"

definition checkQuotaForUpdate :: "'w k8s \<Rightarrow> string \<Rightarrow> string \<Rightarrow> string \<Rightarrow> gs_spec \<Rightarrow> ('w, unit) io" where
  "checkQuotaForUpdate k orgSlug ns name spec = bindE (loadQuota k orgSlug ns name) (\<lambda>r. case r of None \<Rightarrow> ret ()
     | Some (q, used) \<Rightarrow> liftE (checkTotals q (addServer (k_lib k) spec used)))"

text \<open>The JSON shape of a quota, with its quantities as text.\<close>

record quota_request =
  qr_cpu :: string
  qr_memory :: string
  qr_storage :: string
  qr_max_gameservers :: int
  qr_backups :: "tenant_backup_quota option"
  qr_extra_registries :: "string list"
  qr_audit_days :: "int option"

definition parseQuotaField :: "klib \<Rightarrow> string \<Rightarrow> string \<Rightarrow> go_err + quantity" where
  "parseQuotaField L field v =
     (if v = [] then Inl (MsgErr (Msg (''quota.'' @ field @ '' is required'') []))
      else case lib_parse_quantity L v of
          None \<Rightarrow> Inl (Wrapped (''quota.'' @ field @ '': '') (MsgErr (Msg ''quantity %q'' [AStr v])))
        | Some q \<Rightarrow> Inr q)"

definition checkBackupLimits :: "tenant_backup_quota option \<Rightarrow> go_err + unit" where
  "checkBackupLimits b = (case b of None \<Rightarrow> Inr ()
     | Some l \<Rightarrow> if tb_max_per_server l < 0 \<or> tb_max_per_org l < 0 then Inl (fieldError ''quota.backups limits must not be negative'')
         else if tb_retention_days l < 1 then Inl (fieldError ''quota.backups.retentionDays must be at least 1'') else Inr ())"

text \<open>The loop over the registries: blanks are dropped.\<close>

fun quotaRegistries :: "string list \<Rightarrow> go_err + string list" where
  "quotaRegistries [] = Inr []"
| "quotaRegistries (e0 # es) = (let e = trimSpace e0 in
     if e = [] then quotaRegistries es
     else if list_ex (\<lambda>c. c \<in> {CHR '' '', CHR 0x09, CHR 0x0A}) e \<or> 253 < length e then
       Inl (MsgErr (Msg ''quota.extraImageRegistries: %q is not a registry path'' [AStr e]))
     else case quotaRegistries es of Inl x \<Rightarrow> Inl x | Inr rs \<Rightarrow> Inr (e # rs))"

definition checkAuditDays :: "int option \<Rightarrow> go_err + unit" where
  "checkAuditDays d = (case d of None \<Rightarrow> Inr ()
     | Some n \<Rightarrow> if n < 7 \<or> 3650 < n then Inl (fieldError ''quota.auditRetentionDays must be between 7 and 3650'') else Inr ())"

definition andThen :: "go_err + 'a \<Rightarrow> ('a \<Rightarrow> go_err + 'b) \<Rightarrow> go_err + 'b" where
  "andThen r f = (case r of Inl e \<Rightarrow> Inl e | Inr x \<Rightarrow> f x)"

definition toQuota :: "klib \<Rightarrow> quota_request \<Rightarrow> go_err + tenant_quota" where
  "toQuota L q =
     andThen (parseQuotaField L ''cpu'' (qr_cpu q)) (\<lambda>cpu. andThen (parseQuotaField L ''memory'' (qr_memory q)) (\<lambda>memory.
     andThen (parseQuotaField L ''storage'' (qr_storage q)) (\<lambda>storage.
     if qr_max_gameservers q < 0 then Inl (fieldError ''quota.maxGameServers must not be negative'')
     else andThen (checkBackupLimits (qr_backups q)) (\<lambda>_. andThen (quotaRegistries (qr_extra_registries q)) (\<lambda>registries.
     if 20 < length registries then Inl (fieldError ''quota.extraImageRegistries: at most 20 entries'')
     else andThen (checkAuditDays (qr_audit_days q)) (\<lambda>_. Inr \<lparr>tq_cpu = cpu, tq_memory = memory, tq_storage = storage,
       tq_max_gameservers = qr_max_gameservers q, tq_backups = qr_backups q, tq_extra_registries = registries,
       tq_audit_days = qr_audit_days q\<rparr>))))))"

text \<open>A quantity in an answer is its amount; the library writes it as text.\<close>

definition quantityJSON :: "quantity \<Rightarrow> json" where
  "quantityJSON q = JMsg (Msg ''%s'' [AInt q])"

definition limitsJSON :: "tenant_backup_quota \<Rightarrow> json" where
  "limitsJSON b = JObj [(''maxPerServer'', JInt (tb_max_per_server b)), (''maxPerOrg'', JInt (tb_max_per_org b)),
     (''retentionDays'', JInt (tb_retention_days b))]"

definition quotaResponseFrom :: "tenant_quota \<Rightarrow> json" where
  "quotaResponseFrom q = JObj ([(''cpu'', quantityJSON (tq_cpu q)), (''memory'', quantityJSON (tq_memory q)),
     (''storage'', quantityJSON (tq_storage q)), (''maxGameServers'', JInt (tq_max_gameservers q))] @
     (case tq_backups q of None \<Rightarrow> [] | Some b \<Rightarrow> [(''backups'', limitsJSON b)]) @
     (if tq_extra_registries q = [] then [] else [(''extraImageRegistries'', JArr (map JStr (tq_extra_registries q)))]) @
     (case tq_audit_days q of None \<Rightarrow> [] | Some d \<Rightarrow> [(''auditRetentionDays'', JInt d)]))"

definition handleGetQuota :: "'w panel \<Rightarrow> org_access \<Rightarrow> 'w handler" where
  "handleGetQuota P acc = callK (loadQuota (pn_k P) (og_slug (ac_org acc)) (orgNS acc) []) apiError (\<lambda>r. case r of
       None \<Rightarrow> refuse 404 ''organization has no quota''
     | Some (q, used) \<Rightarrow> writeJSON 200 (JObj [(''limit'', quotaResponseFrom q), (''used'', JObj [
         (''cpu'', quantityJSON (qt_cpu used)), (''memory'', quantityJSON (qt_memory used)),
         (''storage'', quantityJSON (qt_storage used)), (''gameServers'', JInt (qt_gameservers used))])]))"

section \<open>Organizations (\<open>orgs.go\<close>)\<close>

definition orgSummary :: "string \<Rightarrow> string \<Rightarrow> role \<Rightarrow> bool \<Rightarrow> string \<Rightarrow> string \<Rightarrow> json" where
  "orgSummary slug name r required inviteURL inviteError = JObj ([(''slug'', JStr slug), (''name'', JStr name),
     (''role'', JStr (roleText r)), (''twoFactorRequired'', JBool required)] @ omitStr ''inviteUrl'' inviteURL @ omitStr ''inviteError'' inviteError)"

definition handleListOrgs :: "user \<Rightarrow> 'w handler" where
  "handleListOrgs u =
     (if us_admin u then
        callD ListAllOrgs internalError (\<lambda>orgs.
        callD (adminNeeds2FA u) internalError (\<lambda>adminBlocked.
        writeJSON 200 (JArr (map (\<lambda>g. orgSummary (og_slug g) (og_name g) RoleOwner
          (adminBlocked \<or> og_require2fa g \<and> \<not> us_two_factor u) [] []) orgs))))
      else
        callD (ListOrgsForUser (us_id u)) internalError (\<lambda>orgs.
        writeJSON 200 (JArr (map (\<lambda>(g, r). orgSummary (og_slug g) (og_name g) r (og_require2fa g \<and> \<not> us_two_factor u) [] []) orgs))))"

record create_org_request =
  co_slug :: string
  co_name :: string
  co_owner_email :: string
  co_quota :: quota_request

definition tenantNamed :: "string \<Rightarrow> tenant" where
  "tenantNamed name = \<lparr>tn_meta = new_meta name [], tn_display_name = [],
     tn_quota = \<lparr>tq_cpu = 0, tq_memory = 0, tq_storage = 0, tq_max_gameservers = 0, tq_backups = None, tq_extra_registries = [], tq_audit_days = None\<rparr>,
     tn_status = \<lparr>tst_phase = TnUnset, tst_namespace = [], tst_observed_generation = 0, tst_conditions = []\<rparr>\<rparr>"

definition newTenant :: "org \<Rightarrow> tenant_quota \<Rightarrow> tenant" where
  "newTenant g q = (tenantNamed (og_slug g))\<lparr>tn_display_name := og_name g, tn_quota := q\<rparr>"

text \<open>After the Tenant: the invitation of an owner without an account, then the answer.\<close>

definition finishCreateOrg :: "'w server \<Rightarrow> request \<Rightarrow> user \<Rightarrow> org \<Rightarrow> string \<Rightarrow> string \<Rightarrow> string \<Rightarrow> 'w handler" where
  "finishCreateOrg S r u g ownerEmail url failure =
     auditEvent S r (Some u) (og_slug g) ''org.create'' ''org'' (og_slug g) ''success'' [(''owner'', ownerEmail)]
       (writeJSON 201 (orgSummary (og_slug g) (og_name g) RoleOwner False url failure))"

definition inviteOwner :: "'w server \<Rightarrow> request \<Rightarrow> user \<Rightarrow> org \<Rightarrow> string \<Rightarrow> 'w handler" where
  "inviteOwner S r u g ownerEmail =
     (let failed = finishCreateOrg S r u g ownerEmail []
            ''the organization was created but the owner invitation could not be sent: resend it from Members'' in
      callD (CreateInvitation (sv_crypto S) (og_id g) ownerEmail RoleOwner (pf_locale (us_profile u)) (us_id u) invitationTTL)
        (\<lambda>_. failed) (\<lambda>(invt, token).
      deliverInvitation S invt token (\<lambda>_. failed) (\<lambda>url.
      auditEvent S r (Some u) (og_slug g) ''invitation.create'' ''email'' ownerEmail ''success'' [(''role'', ''owner'')]
        (finishCreateOrg S r u g ownerEmail url []))))"

definition createOrgWith :: "'w server \<Rightarrow> request \<Rightarrow> create_org_request \<Rightarrow> tenant_quota \<Rightarrow> string \<Rightarrow> user \<Rightarrow> user option \<Rightarrow> 'w handler" where
  "createOrgWith S r req quota ownerEmail u owner =
     callD (CreateOrg (co_slug req) (co_name req) (case owner of None \<Rightarrow> 0 | Some x \<Rightarrow> us_id x))
       (\<lambda>e. if e = DbErr DbAlreadyExists then refuse 409 ''an organization with this slug already exists'' else internalError e) (\<lambda>g.
     callK (r_create (k_tenant (sv_k S)) (newTenant g quota))
       (\<lambda>e. let after = auditEvent S r (Some u) (og_slug g) ''org.create'' ''org'' (og_slug g) ''failed'' []
               (writeError (statusFor e) (Msg ''creating tenant: %v'' [AErr e])) in
            callD (DeleteOrg (og_slug g)) (\<lambda>_. after) (\<lambda>_. after))
       (\<lambda>_. if owner = None then inviteOwner S r u g ownerEmail else finishCreateOrg S r u g ownerEmail [] []))"

definition handleCreateOrg :: "'w server \<Rightarrow> request \<Rightarrow> go_err + create_org_request \<Rightarrow> user \<Rightarrow> 'w handler" where
  "handleCreateOrg S r body u = (case body of Inl e \<Rightarrow> badJSON e
   | Inr req \<Rightarrow>
     if \<not> ValidSlug (co_slug req) then
       refuse 400 (''slug must be a lowercase DNS label of at most 32 characters and cannot be '' @ quoted ''system'' @ '' or '' @ quoted ''catalog'')
     else if co_name req = [] then refuse 400 ''name is required''
     else (case toQuota (k_lib (sv_k S)) (co_quota req) of Inl e \<Rightarrow> writeError 400 (errText e)
     | Inr quota \<Rightarrow> (case validateEmail (sv_parse_address S) (co_owner_email req) of
         Inl e \<Rightarrow> writeError 422 (Msg ''ownerEmail: %v'' [AErr e])
       | Inr ownerEmail \<Rightarrow> callD (GetUserByEmail ownerEmail)
           (\<lambda>e. if e = DbErr DbNotFound then createOrgWith S r req quota ownerEmail u None else internalError e)
           (\<lambda>owner. createOrgWith S r req quota ownerEmail u (Some owner)))))"

definition tenantPhaseText :: "tenant_phase \<Rightarrow> string" where
  "tenantPhaseText p = (case p of TnUnset \<Rightarrow> ''Pending'' | TnPending \<Rightarrow> ''Pending'' | TnActive \<Rightarrow> ''Active''
     | TnTerminating \<Rightarrow> ''Terminating'' | TnFailed \<Rightarrow> ''Failed'')"

definition orgDetail :: "org_access \<Rightarrow> string \<Rightarrow> bool \<Rightarrow> (string \<times> json) list \<Rightarrow> json" where
  "orgDetail acc phase ready quota = JObj ([(''slug'', JStr (og_slug (ac_org acc))), (''name'', JStr (og_name (ac_org acc))),
     (''role'', JStr (roleText (ac_role acc))), (''namespace'', JStr (orgNS acc)), (''phase'', JStr phase), (''ready'', JBool ready)] @ quota)"

definition handleGetOrg :: "'w panel \<Rightarrow> org_access \<Rightarrow> 'w handler" where
  "handleGetOrg P acc = callK (r_get (k_tenant (pn_k P)) [] (og_slug (ac_org acc)))
     (\<lambda>e. if is_not_found e then writeJSON 200 (orgDetail acc ''Missing'' False []) else apiError e)
     (\<lambda>t. writeJSON 200 (orgDetail acc (tenantPhaseText (tst_phase (tn_status t))) (tst_phase (tn_status t) = TnActive)
        [(''quota'', quotaResponseFrom (tn_quota t))]))"

text \<open>One of the three lists; a missing kind is an empty list.\<close>

definition countLeft :: "('o, 'w) rest \<Rightarrow> string \<Rightarrow> ('w, nat) io" where
  "countLeft R ns = bindE (found_or_none (r_list R (Some ns) [])) (\<lambda>r. ret (case r of None \<Rightarrow> 0 | Some xs \<Rightarrow> length xs))"

definition objectsLeft :: "'w k8s \<Rightarrow> string \<Rightarrow> ('w, nat) io" where
  "objectsLeft k ns = bindE (countLeft (k_gs k) ns) (\<lambda>a. bindE (countLeft (k_backup k) ns) (\<lambda>b.
     bindE (countLeft (k_restore k) ns) (\<lambda>c. ret (a + b + c))))"

definition handleDeleteOrg :: "'w panel \<Rightarrow> request \<Rightarrow> user \<Rightarrow> org_access \<Rightarrow> 'w handler" where
  "handleDeleteOrg P r u acc = (let slug = og_slug (ac_org acc); S = pn_server P in
     callK (objectsLeft (pn_k P) (orgNS acc)) apiError (\<lambda>n.
     if 0 < n then auditEvent S r (Some u) slug ''org.delete'' ''org'' slug ''failed'' []
       (refuse 409 ''organization still has game servers, backups or restores: delete them first'')
     else callK (ignoring is_not_found (r_delete (k_tenant (pn_k P)) (tenantNamed slug)))
       apiError (\<lambda>_.
       let finish = auditEvent S r (Some u) slug ''org.delete'' ''org'' slug ''success'' [] (writeHeader 204) in
       callD (DeleteOrg slug) (\<lambda>e. if e = DbErr DbNotFound then finish else internalError e) (\<lambda>_. finish))))"

definition handleUpdateQuota :: "'w panel \<Rightarrow> request \<Rightarrow> go_err + quota_request \<Rightarrow> user \<Rightarrow> org_access \<Rightarrow> 'w handler" where
  "handleUpdateQuota P r body u acc = (case body of Inl e \<Rightarrow> badJSON e
   | Inr req \<Rightarrow> (case toQuota (k_lib (pn_k P)) req of Inl e \<Rightarrow> writeError 400 (errText e)
     | Inr quota \<Rightarrow>
       callK (r_get (k_tenant (pn_k P)) [] (og_slug (ac_org acc))) apiError (\<lambda>t.
       callK (r_update (k_tenant (pn_k P)) (t\<lparr>tn_quota := quota\<rparr>)) apiError (\<lambda>_.
       auditEvent (pn_server P) r (Some u) (og_slug (ac_org acc)) ''org.quota'' ''org'' (og_slug (ac_org acc)) ''success'' []
         (writeJSON 200 (quotaResponseFrom quota))))))"

section \<open>The first administrator (\<open>bootstrap.go\<close>)\<close>

text \<open>\<open>base64.RawURLEncoding\<close>: the alphabet of URLs, no padding.\<close>

definition b64EncodeURL :: "string \<Rightarrow> string" where
  "b64EncodeURL s = map (\<lambda>c. if c = CHR ''+'' then CHR ''-'' else if c = CHR ''/'' then CHR ''_'' else c) (filter (\<lambda>c. c \<noteq> CHR ''='') (b64Encode s))"

text \<open>The outcome is told to the caller: the error, or nothing.\<close>

definition BootstrapAdmin :: "'w server \<Rightarrow> string \<Rightarrow> string \<Rightarrow> string \<Rightarrow> (go_err \<Rightarrow> 'w handler) \<Rightarrow> 'w handler \<Rightarrow> 'w handler" where
  "BootstrapAdmin S ns secretName email bad good =
     callK (found_or_none (r_get (k_secret (sv_k S)) ns secretName))
       (\<lambda>e. bad (Wrapped ''checking for existing admin secret: '' e)) (\<lambda>existing.
     if existing \<noteq> None then good
     else callRand randBytes (\<lambda>e. bad (Wrapped ''generating admin password: '' e)) (\<lambda>raw.
       let password = b64EncodeURL raw in
       callD (UpsertUser (sv_crypto S) BootstrapAdminUsername email password True)
         (\<lambda>e. bad (Wrapped ''creating admin user: '' e)) (\<lambda>_.
       callK (r_create (k_secret (sv_k S)) \<lparr>sec_meta = new_meta secretName ns,
           sec_data = [''username'' \<mapsto> BootstrapAdminUsername, ''password'' \<mapsto> password]\<rparr>)
         (\<lambda>e. bad (Wrapped ''creating admin credentials secret: '' e)) (\<lambda>_. good))))"

section \<open>Pruning the audit trail (\<open>auditpruner.go\<close>)\<close>

definition DefaultAuditPruneInterval :: duration where "DefaultAuditPruneInterval = 24 * hour"

definition retentionStart :: "time \<Rightarrow> int \<Rightarrow> time" where
  "retentionStart now days = now + wrap64 (- days * (24 * hour))"

text \<open>The Tenants with a retention of their own, whose names are handed on.\<close>

fun pruneOwn :: "time \<Rightarrow> tenant list \<Rightarrow> string list \<Rightarrow> (go_err \<Rightarrow> 'w handler) \<Rightarrow> (string list \<Rightarrow> 'w handler) \<Rightarrow> 'w handler" where
  "pruneOwn now [] own bad k = k own"
| "pruneOwn now (t # ts) own bad k = (case tq_audit_days (tn_quota t) of None \<Rightarrow> pruneOwn now ts own bad k
     | Some d \<Rightarrow> callD (PruneOrgAudit (om_name (tn_meta t)) (retentionStart now d)) bad
         (\<lambda>_. pruneOwn now ts (own @ [om_name (tn_meta t)]) bad k))"

definition PruneOnce :: "'w k8s \<Rightarrow> int \<Rightarrow> (go_err \<Rightarrow> 'w handler) \<Rightarrow> 'w handler \<Rightarrow> 'w handler" where
  "PruneOnce k defaultDays bad good = readEnv (k_now k) (\<lambda>now.
     callK (r_list (k_tenant k) None []) bad (\<lambda>tenants.
     pruneOwn now tenants [] bad (\<lambda>own.
       if 0 < defaultDays then callD (PruneAuditExcept (retentionStart now defaultDays) own) bad (\<lambda>_. good) else good)))"

end
