(* ===== verification/Panel_Trace.thy ===== *)
theory Panel_Trace
  imports Panel_Http Client_Log
begin

text \<open>
  Triples over what a handler asks of the cluster: its client is \<open>logging k\<close>, and \<open>traced P h Q\<close> says that from a log
  with \<open>P\<close> the handler \<open>h\<close> ends with a log that has \<open>Q\<close>, whatever the database, Redis and the other requests do.
\<close>

definition traced :: "(event list \<Rightarrow> bool) \<Rightarrow> 'w logged handler \<Rightarrow> (event list \<Rightarrow> bool) \<Rightarrow> bool" where
  "traced P h Q \<longleftrightarrow> (\<forall>w. P (snd (hw_env w)) \<longrightarrow> Q (snd (hw_env (snd (h w)))))"

lemma tracedD: "traced P h Q \<Longrightarrow> P (snd (hw_env w)) \<Longrightarrow> Q (snd (hw_env (snd (h w))))"
  by (simp add: traced_def)

lemma traced_pre: "traced P' h Q \<Longrightarrow> (\<And>l. P l \<Longrightarrow> P' l) \<Longrightarrow> traced P h Q"
  by (simp add: traced_def)

lemma traced_post: "traced P h Q' \<Longrightarrow> (\<And>l. Q' l \<Longrightarrow> Q l) \<Longrightarrow> traced P h Q"
  by (simp add: traced_def)

lemma turn_env [simp]: "hw_env (turn w) = hw_env w"
  by (simp add: turn_def split: list.splits)

lemma traced_answer: "(\<And>l. P l \<Longrightarrow> Q l) \<Longrightarrow> traced P (answer r) Q"
  by (simp add: traced_def answer_def)

lemma traced_replies:
  assumes "\<And>l. P l \<Longrightarrow> Q l"
  shows "traced P (writeJSON n v) Q" "traced P (writeError n m) Q" "traced P (writeErrorCode n c m) Q" "traced P (writeHeader n) Q"
    "traced P (badJSON e) Q"
  using assms by (simp_all add: writeJSON_def writeError_def writeErrorCode_def writeHeader_def badJSON_def traced_answer)

lemma traced_callD: "(\<And>e. traced P (bad e) Q) \<Longrightarrow> (\<And>x. traced P (good x) Q) \<Longrightarrow> traced P (callD m bad good) Q"
  by (auto simp: traced_def callD_def Let_def split: prod.splits sum.splits)

lemma traced_callR: "(\<And>e. traced P (bad e) Q) \<Longrightarrow> (\<And>x. traced P (good x) Q) \<Longrightarrow> traced P (callR m bad good) Q"
  by (auto simp: traced_def callR_def split: prod.splits sum.splits)

lemma traced_callRand: "(\<And>e. traced P (bad e) Q) \<Longrightarrow> (\<And>x. traced P (good x) Q) \<Longrightarrow> traced P (callRand f bad good) Q"
  by (auto simp: traced_def callRand_def split: prod.splits sum.splits)

lemma traced_readEnv: "(\<And>x. traced P (k x) Q) \<Longrightarrow> traced P (readEnv f k) Q"
  by (auto simp: traced_def readEnv_def)

lemma traced_callK:
  assumes m: "logs P m R E" and "\<And>x. traced (R x) (good x) Q" "\<And>e. traced (E e) (bad e) Q"
  shows "traced P (callK m bad good) Q"
  unfolding traced_def
proof (intro allI impI)
  fix w :: "'a logged hw"
  assume P: "P (snd (hw_env w))"
  obtain r k where mw: "m (hw_env w) = (r, k)" by (cases "m (hw_env w)")
  then show "Q (snd (hw_env (snd (callK m bad good w))))"
  proof (cases r)
    case (Inl e)
    with m P mw have "E e (snd k)" by (auto simp: logs_def dest: hoare_InlD)
    with assms(3) Inl mw show ?thesis by (simp add: callK_def traced_def)
  next
    case (Inr x)
    with m P mw have "R x (snd k)" by (auto simp: logs_def dest: hoare_InrD)
    with assms(2) Inr mw show ?thesis by (simp add: callK_def traced_def)
  qed
qed

lemma traced_withHeader: "traced P h Q \<Longrightarrow> traced P (withHeader k v h) Q"
  by (simp add: traced_def withHeader_def)

lemma traced_writeAudit: "traced P h Q \<Longrightarrow> traced P (writeAudit e h) Q"
  unfolding writeAudit_def by (rule traced_callD)

lemma traced_auditEvent: "traced P h Q \<Longrightarrow> traced P (auditEvent S r u slug a tt tn out m h) Q"
  unfolding auditEvent_def auditEventAs_def by (rule traced_writeAudit)

lemma traced_if: "(c \<Longrightarrow> traced P g Q) \<Longrightarrow> (\<not> c \<Longrightarrow> traced P h Q) \<Longrightarrow> traced P (if c then g else h) Q"
  by simp

lemma traced_case_sum:
  "(\<And>e. r = Inl e \<Longrightarrow> traced P (f e) Q) \<Longrightarrow> (\<And>x. r = Inr x \<Longrightarrow> traced P (g x) Q) \<Longrightarrow>
   traced P (case r of Inl e \<Rightarrow> f e | Inr x \<Rightarrow> g x) Q"
  by (cases r) auto

lemma traced_case_option:
  "(r = None \<Longrightarrow> traced P h Q) \<Longrightarrow> (\<And>x. r = Some x \<Longrightarrow> traced P (g x) Q) \<Longrightarrow>
   traced P (case r of None \<Rightarrow> h | Some x \<Rightarrow> g x) Q"
  by (cases r) auto

lemma traced_case_prod:
  "(\<And>a b. r = (a, b) \<Longrightarrow> traced P (f a b) Q) \<Longrightarrow> traced P (case r of (a, b) \<Rightarrow> f a b) Q"
  by (cases r) auto

text \<open>A part of the precondition that does not speak of the log is a hypothesis.\<close>

lemma traced_fact: "(A \<Longrightarrow> traced P h Q) \<Longrightarrow> traced (\<lambda>l. P l \<and> A) h Q"
  by (cases A) (simp_all add: traced_def)

lemmas traced_rules = traced_replies traced_callD traced_callR traced_callRand traced_readEnv traced_withHeader traced_auditEvent
  traced_if traced_case_sum traced_case_option traced_case_prod

text \<open>A call that does not touch what the assertion is about.\<close>

lemma traced_quiet:
  assumes "only A m" and "\<And>l e. P l \<Longrightarrow> A e \<Longrightarrow> P (l @ [e])"
    and "\<And>x. traced P (good x) Q" "\<And>e. traced P (bad e) Q"
  shows "traced P (callK m bad good) Q"
  by (rule traced_callK [OF logs_only [OF assms(1), where P = P]]) (rule assms; assumption)+

text \<open>The calls that write no object of a kind.\<close>

fun written :: "event \<Rightarrow> obj option" where
  "written (EvCreate x ok) = Some x"
| "written (EvUpdate x ok) = Some x"
| "written (EvStatusUpdate x ok) = Some x"
| "written (EvPatch x y ok) = Some y"
| "written (EvStatusPatch x y ok) = Some y"
| "written (EvDelete x ok) = Some x"
| "written (EvEnsure x ok) = Some x"
| "written _ = None"

definition reading :: "event \<Rightarrow> bool" where
  "reading e \<longleftrightarrow> written e = None"

lemma reading_simps [simp]:
  "reading (EvGot ns n x)" "reading (EvGetFailed ns n b)" "reading (EvListed kd nso sel xs)" "reading (EvRandom b)"
  "\<not> reading (EvCreate x b)" "\<not> reading (EvUpdate x b)" "\<not> reading (EvDelete x b)" "\<not> reading (EvPatch x y b)"
  by (simp_all add: reading_def)

end
