(* ===== verification/Panel_Backups.thy ===== *)
theory Panel_Backups
  imports Panel_Quota Panel_Trace
begin

text \<open>
  Backups as an organization sees them (\<open>internal/panelapi/backups.go\<close>): its S3 connections, the destination of a
  server, the backups of a server and their restores. A handler gets the names of its path as arguments; a call that
  fails with a status and an error of its own returns them as a pair.
\<close>

section \<open>Connections\<close>

definition lowerAlnum :: "char \<Rightarrow> bool" where
  "lowerAlnum c \<longleftrightarrow> isLowerA c \<or> isDigit c"

text \<open>The two regular expressions: a class of inner characters, letters or digits at both ends, and a length.\<close>

definition labelLike :: "(char \<Rightarrow> bool) \<Rightarrow> nat \<Rightarrow> nat \<Rightarrow> string \<Rightarrow> bool" where
  "labelLike p lo hi s \<longleftrightarrow> s \<noteq> [] \<and> matches (\<lambda>c. lowerAlnum c \<or> p c) lo hi s \<and> lowerAlnum (hd s) \<and> lowerAlnum (last s)"

definition connectionName :: "string \<Rightarrow> bool" where
  "connectionName = labelLike (\<lambda>c. c = CHR ''-'') 1 32"

definition bucketName :: "string \<Rightarrow> bool" where
  "bucketName = labelLike (\<lambda>c. c = CHR ''.'' \<or> c = CHR ''-'') 3 63"

definition prefixString :: "string \<Rightarrow> bool" where
  "prefixString s \<longleftrightarrow> list_all (\<lambda>c. asciiAlnum c \<or> c \<in> {CHR ''.'', CHR ''_'', CHR ''/'', CHR ''-''}) s"

definition maxBucketsPerConnection :: nat where "maxBucketsPerConnection = 20"

definition connectionLabel :: "secret \<Rightarrow> string" where
  "connectionLabel sec = sget (om_labels (sec_meta sec)) ConnectionLabel"

definition connectionFromSecret :: "klib \<Rightarrow> secret \<Rightarrow> json" where
  "connectionFromSecret L sec = (case ConnectionBuckets L sec of (endpoint, buckets) \<Rightarrow>
     JObj ([(''name'', JStr (connectionLabel sec))] @ omitStr ''endpoint'' endpoint @ [(''buckets'', JArr (map JStr buckets))]))"

text \<open>\<open>HasLabels\<close>: the Secrets that have the label at all.\<close>

definition listConnections :: "'w k8s \<Rightarrow> string \<Rightarrow> ('w, secret list) io" where
  "listConnections k ns = bindE (r_list (k_secret k) (Some ns) []) (\<lambda>l.
     ret (sort_key connectionLabel (filter (\<lambda>s. om_labels (sec_meta s) ConnectionLabel \<noteq> None) l)))"

definition handleGetBackupSettings :: "'w panel \<Rightarrow> org_access \<Rightarrow> 'w handler" where
  "handleGetBackupSettings P acc =
     callK (OrgLimits (pn_k P) (pn_backup P) (og_slug (ac_org acc))) apiError (\<lambda>limits.
     callK (listConnections (pn_k P) (orgNS acc)) apiError (\<lambda>secrets.
     writeJSON 200 (JObj [(''platform'', JObj (case limits of None \<Rightarrow> [(''available'', JBool False)]
         | Some l \<Rightarrow> [(''available'', JBool True), (''limits'', limitsJSON l)])),
       (''connections'', JArr (map (connectionFromSecret (k_lib (pn_k P))) secrets))])))"

text \<open>The servers that send their backups to a connection, or to one of some buckets of it.\<close>

definition serversUsing :: "'w k8s \<Rightarrow> string \<Rightarrow> string \<Rightarrow> string list option \<Rightarrow> ('w, string list) io" where
  "serversUsing k ns conn buckets = bindE (r_list (k_gs k) (Some ns) []) (\<lambda>l. ret (map (\<lambda>gs. om_name (gs_meta gs))
     (filter (\<lambda>gs. case gss_backup_target (gs_spec gs) of None \<Rightarrow> False
        | Some t \<Rightarrow> bt_connection t = conn \<and> (case buckets of None \<Rightarrow> True | Some bs \<Rightarrow> bt_bucket t \<in> set bs)) l)))"

record connection_request =
  cq_endpoint :: string
  cq_buckets :: "string list"
  cq_access :: string
  cq_secret :: string

text \<open>The loop over the buckets: each once, or the first that is not a bucket's name.\<close>

fun uniqueBuckets :: "string list \<Rightarrow> string list \<Rightarrow> string + string list" where
  "uniqueBuckets [] seen = Inr seen"
| "uniqueBuckets (b0 # bs) seen = (let b = trimSpace b0 in
     if \<not> bucketName b then Inl b else uniqueBuckets bs (if b \<in> set seen then seen else seen @ [b]))"

definition httpURL :: "(string \<Rightarrow> url_parts option) \<Rightarrow> string \<Rightarrow> bool" where
  "httpURL parse s = (case parse s of None \<Rightarrow> False
     | Some u \<Rightarrow> (ul_scheme u = ''http'' \<or> ul_scheme u = ''https'') \<and> ul_host u \<noteq> [])"

definition connectionData :: "connection_request \<Rightarrow> string list \<Rightarrow> smap \<Rightarrow> smap" where
  "connectionData req buckets d = (let d' = d(''endpoint'' \<mapsto> trimSpace (cq_endpoint req), ''buckets'' \<mapsto> jsonStrings buckets) in
     if cq_access req \<noteq> [] then d'(''access-key'' \<mapsto> cq_access req, ''secret-key'' \<mapsto> cq_secret req) else d')"

definition failConnection :: "'w panel \<Rightarrow> request \<Rightarrow> string \<Rightarrow> string \<Rightarrow> user \<Rightarrow> org_access \<Rightarrow> nat \<Rightarrow> msg \<Rightarrow> 'w handler" where
  "failConnection P r action name u acc code m =
     auditEvent (pn_server P) r (Some u) (og_slug (ac_org acc)) action ''backup-connection'' name ''failed'' [] (writeError code m)"

definition savedConnection :: "'w panel \<Rightarrow> request \<Rightarrow> string \<Rightarrow> user \<Rightarrow> org_access \<Rightarrow> 'w handler" where
  "savedConnection P r name u acc = auditEvent (pn_server P) r (Some u) (og_slug (ac_org acc)) ''backup.connection.update''
     ''backup-connection'' name ''success'' [] (handleGetBackupSettings P acc)"

text \<open>A bucket that a server uses is not dropped; the keys stay unless new ones are given.\<close>

definition updateConnection :: "'w panel \<Rightarrow> request \<Rightarrow> string \<Rightarrow> connection_request \<Rightarrow> string list \<Rightarrow> user \<Rightarrow> org_access \<Rightarrow> secret \<Rightarrow> 'w handler" where
  "updateConnection P r name req buckets u acc sec =
     (let fail = failConnection P r ''backup.connection.update'' name u acc;
          removed = filter (\<lambda>b. b \<notin> set buckets) (snd (ConnectionBuckets (k_lib (pn_k P)) sec));
          save = callK (r_update (k_secret (pn_k P)) (sec\<lparr>sec_data := connectionData req buckets (sec_data sec)\<rparr>))
            (\<lambda>e. fail (statusFor e) (errText e)) (\<lambda>_. savedConnection P r name u acc) in
      if removed = [] then save
      else callK (serversUsing (pn_k P) (orgNS acc) name (Some removed)) (\<lambda>e. fail (statusFor e) (errText e)) (\<lambda>users.
        if users \<noteq> [] then fail 409 (Msg ''a bucket you removed is the backup destination of: %s'' [AStr (joinStr '', '' users)])
        else save))"

definition createConnection :: "'w panel \<Rightarrow> request \<Rightarrow> string \<Rightarrow> connection_request \<Rightarrow> string list \<Rightarrow> user \<Rightarrow> org_access \<Rightarrow> 'w handler" where
  "createConnection P r name req buckets u acc =
     (let fail = failConnection P r ''backup.connection.update'' name u acc in
      callK (RandomToken (pn_k P) 24) (\<lambda>e. fail 500 (errText e)) (\<lambda>password.
      callK (r_create (k_secret (pn_k P))
          \<lparr>sec_meta = (new_meta (ConnectionSecretName name) (orgNS acc))\<lparr>om_labels := [ConnectionLabel \<mapsto> name]\<rparr>,
           sec_data = connectionData req buckets [''restic-password'' \<mapsto> password]\<rparr>)
        (\<lambda>e. fail (statusFor e) (errText e)) (\<lambda>_. savedConnection P r name u acc)))"

definition handlePutBackupConnection :: "'w panel \<Rightarrow> request \<Rightarrow> string \<Rightarrow> go_err + connection_request \<Rightarrow> user \<Rightarrow> org_access \<Rightarrow> 'w handler" where
  "handlePutBackupConnection P r name body u acc = (let fail = failConnection P r ''backup.connection.update'' name u acc in
     if \<not> connectionName name \<or> name = PlatformConnection then
       fail 400 (Msg (''the connection name must be lowercase letters, digits and '' @ quoted ''-'' @ '' (up to 32 characters), and \"platform\" is reserved'') [])
     else (case body of Inl e \<Rightarrow> fail 400 (Msg ''invalid JSON body: %v'' [AErr e])
     | Inr req \<Rightarrow>
       if cq_buckets req = [] \<or> maxBucketsPerConnection < length (cq_buckets req) then
         fail 400 (Msg ''list between 1 and %d buckets'' [AInt (int maxBucketsPerConnection)])
       else (case uniqueBuckets (cq_buckets req) [] of Inl b \<Rightarrow> fail 400 (Msg ''%q is not a valid S3 bucket name'' [AStr b])
       | Inr buckets \<Rightarrow>
         if trimSpace (cq_endpoint req) \<noteq> [] \<and> \<not> httpURL (pn_parse_url P) (trimSpace (cq_endpoint req)) then
           fail 400 (Msg ''endpoint must be an http(s) URL'' [])
         else callK (found_or_none (r_get (k_secret (pn_k P)) (orgNS acc) (ConnectionSecretName name)))
             (\<lambda>e. fail (statusFor e) (errText e)) (\<lambda>existing.
           if (cq_access req = []) \<noteq> (cq_secret req = []) \<or> existing = None \<and> cq_access req = [] then
             fail 400 (Msg ''accessKey and secretKey are both required'' [])
           else (case existing of Some sec \<Rightarrow> updateConnection P r name req buckets u acc sec
             | None \<Rightarrow> createConnection P r name req buckets u acc)))))"

text \<open>Only the name and the namespace of the object to delete are looked at.\<close>

definition secretNamed :: "string \<Rightarrow> string \<Rightarrow> secret" where
  "secretNamed name ns = \<lparr>sec_meta = new_meta name ns, sec_data = Map.empty\<rparr>"

definition handleDeleteBackupConnection :: "'w panel \<Rightarrow> request \<Rightarrow> string \<Rightarrow> user \<Rightarrow> org_access \<Rightarrow> 'w handler" where
  "handleDeleteBackupConnection P r name u acc =
     (let fail = failConnection P r ''backup.connection.delete'' name u acc; apiFail = (\<lambda>e. fail (statusFor e) (errText e)) in
      callK (serversUsing (pn_k P) (orgNS acc) name None) apiFail (\<lambda>users.
      if users \<noteq> [] then fail 409 (Msg ''this connection is the backup destination of: %s'' [AStr (joinStr '', '' users)])
      else callK (r_list (k_backup (pn_k P)) (Some (orgNS acc)) []) apiFail (\<lambda>backups.
        if list_ex (\<lambda>b. sget (om_labels (bk_meta b)) BackupDestinationLabel = name) backups then
          fail 409 (Msg ''delete the backups stored through this connection first: restoring and cleaning them needs its credentials'' [])
        else callK (ignoring is_not_found (r_delete (k_secret (pn_k P)) (secretNamed (ConnectionSecretName name) (orgNS acc)))) apiFail (\<lambda>_.
          auditEvent (pn_server P) r (Some u) (og_slug (ac_org acc)) ''backup.connection.delete'' ''backup-connection'' name ''success'' []
            (writeHeader 204)))))"

section \<open>The destination of a server\<close>

definition trimSlashes :: "string \<Rightarrow> string" where
  "trimSlashes s = trimRightC CHR ''/'' (dropWhile (\<lambda>c. c = CHR ''/'') s)"

text \<open>The normalized destination, where \<open>None\<close> clears it, or the status of the refusal with its error.\<close>

definition validateBackupTarget :: "'w k8s \<Rightarrow> platform \<Rightarrow> string \<Rightarrow> string \<Rightarrow> backup_target \<Rightarrow> ('w, nat \<times> go_err + backup_target option) io" where
  "validateBackupTarget k B ns orgSlug t =
     (if bt_connection t = [] then ret (Inr None)
      else if bt_connection t = PlatformConnection then
        bindE (attempt (OrgLimits k B orgSlug)) (\<lambda>limits. ret (case limits of
           Inl e \<Rightarrow> Inl (500, e)
         | Inr None \<Rightarrow> Inl (409, fieldError ''the platform's backup storage is not available for this organization'')
         | Inr (Some _) \<Rightarrow> Inr (Some \<lparr>bt_connection = PlatformConnection, bt_bucket = [], bt_prefix = []\<rparr>)))
      else bindE (attempt (r_get (k_secret k) ns (ConnectionSecretName (bt_connection t)))) (\<lambda>sec. ret (case sec of
           Inl e \<Rightarrow> if is_not_found e then Inl (422, MsgErr (Msg ''unknown backup connection %q'' [AStr (bt_connection t)])) else Inl (500, e)
         | Inr s \<Rightarrow>
             if \<not> List.member (snd (ConnectionBuckets (k_lib k) s)) (bt_bucket t) then
               Inl (422, MsgErr (Msg ''bucket %q is not one of the buckets of connection %q'' [AStr (bt_bucket t), AStr (bt_connection t)]))
             else let prefix = trimSlashes (trimSpace (bt_prefix t)) in
               if 256 < length prefix \<or> \<not> prefixString prefix then
                 Inl (422, fieldError (''prefix may only contain letters, digits, '' @ quoted ''.'' @ '', '' @ quoted ''_'' @ '', '' @ quoted ''-'' @
                   '' and '' @ quoted ''/'' @ '' (up to 256 characters)''))
               else Inr (Some \<lparr>bt_connection = bt_connection t, bt_bucket = bt_bucket t, bt_prefix = prefix\<rparr>))))"

section \<open>Backups of a server\<close>

definition backupPhaseText :: "backup_phase \<Rightarrow> string" where
  "backupPhaseText p = (case p of BkUnset \<Rightarrow> [] | BkPending \<Rightarrow> ''Pending'' | BkRunning \<Rightarrow> ''Running'' | BkCompleted \<Rightarrow> ''Completed''
     | BkFailed \<Rightarrow> ''Failed'' | BkDeleting \<Rightarrow> ''Deleting'')"

definition restorePhaseText :: "restore_phase \<Rightarrow> string" where
  "restorePhaseText p = (case p of RsUnset \<Rightarrow> [] | RsPending \<Rightarrow> ''Pending'' | RsRunning \<Rightarrow> ''Running'' | RsCompleted \<Rightarrow> ''Completed''
     | RsFailed \<Rightarrow> ''Failed'')"

definition restoreItem :: "restore \<Rightarrow> json" where
  "restoreItem rs = JObj [(''name'', JStr (om_name (rs_meta rs))), (''phase'', JStr (restorePhaseText (rst_phase (rs_status rs)))),
     (''createdAt'', JTime (om_creation (rs_meta rs)))]"

text \<open>The newest restore of each backup; of two as old as each other, the first.\<close>

definition latestRestores :: "restore list \<Rightarrow> string \<Rightarrow> restore option" where
  "latestRestores l = fold (\<lambda>rs latest. let b = rss_backup (rs_spec rs) in
     case latest b of None \<Rightarrow> latest(b \<mapsto> rs)
     | Some cur \<Rightarrow> if om_creation (rs_meta cur) < om_creation (rs_meta rs) then latest(b \<mapsto> rs) else latest) l Map.empty"

definition quiesceText :: "klib \<Rightarrow> condition list \<Rightarrow> string" where
  "quiesceText L cs = (case lib_find_condition L cs BackupConditionQuiesced of None \<Rightarrow> []
     | Some c \<Rightarrow> if cond_status c \<noteq> CondFalse then [] else if cond_reason c = QuiesceReasonSendFailed then ''sendFailed'' else ''timeout'')"

definition resumeErrorItem :: "klib \<Rightarrow> condition list \<Rightarrow> (string \<times> json) list" where
  "resumeErrorItem L cs = (case lib_find_condition L cs BackupConditionResumed of None \<Rightarrow> []
     | Some c \<Rightarrow> if cond_status c = CondFalse \<and> cond_message c \<noteq> no_msg then [(''resumeError'', JMsg (cond_message c))] else [])"

definition backupHead :: "backup \<Rightarrow> (string \<times> json) list" where
  "backupHead b = [(''name'', JStr (om_name (bk_meta b))), (''createdAt'', JTime (om_creation (bk_meta b))),
     (''phase'', JStr (backupPhaseText (bst_phase (bk_status b)))), (''destination'', JStr (sget (om_labels (bk_meta b)) BackupDestinationLabel))] @
     omitStr ''bucket'' (s3_bucket (bks_s3 (bk_spec b))) @ omitStr ''prefix'' (s3_prefix (bks_s3 (bk_spec b))) @
     omitStr ''expiresAt'' (sget (om_annotations (bk_meta b)) BackupExpiresAtAnnotation)"

definition backupItem :: "klib \<Rightarrow> (string \<Rightarrow> restore option) \<Rightarrow> backup \<Rightarrow> json" where
  "backupItem L latest b = JObj (backupHead b @
     (case bst_completion (bk_status b) of None \<Rightarrow> [] | Some t \<Rightarrow> [(''completionTime'', JTime t)]) @
     (if is_deleting (bk_meta b) then [(''deleting'', JBool True)] else []) @
     (case latest (om_name (bk_meta b)) of None \<Rightarrow> [] | Some rs \<Rightarrow> [(''restore'', restoreItem rs)]) @
     omitStr ''quiesce'' (quiesceText L (bst_conditions (bk_status b))) @ resumeErrorItem L (bst_conditions (bk_status b)))"

definition handleListBackups :: "'w panel \<Rightarrow> string \<Rightarrow> org_access \<Rightarrow> 'w handler" where
  "handleListBackups P server acc =
     callK (r_list (k_backup (pn_k P)) (Some (orgNS acc)) []) apiError (\<lambda>all.
     callK (r_list (k_restore (pn_k P)) (Some (orgNS acc)) [(BackupGameServerLabel, server)]) apiError (\<lambda>restores.
     let sorted = sort_key (\<lambda>b. - om_creation (bk_meta b)) all;
         own = filter (\<lambda>b. sget (om_labels (bk_meta b)) BackupGameServerLabel = server) sorted in
     writeJSON 200 (JObj [(''items'', JArr (map (backupItem (k_lib (pn_k P)) (latestRestores restores)) own)),
       (''usage'', JObj [(''server'', JInt (int (length (filter CountsForLimits own)))), (''org'', JInt (int (length (filter CountsForLimits all))))])])))"

text \<open>\<open>errors.As\<close> looks through the wrapping.\<close>

fun conflictOf :: "go_err \<Rightarrow> msg option" where
  "conflictOf (ConflictErr m) = Some m"
| "conflictOf (Wrapped s e) = conflictOf e"
| "conflictOf _ = None"

text \<open>The planner's error for the platform's credentials, told by how its text begins.\<close>

definition credentialsError :: "go_err \<Rightarrow> bool" where
  "credentialsError e = (case e of Wrapped s _ \<Rightarrow> hasPrefix s ''could not prepare the platform's backup credentials'' | _ \<Rightarrow> False)"

definition planError :: "go_err \<Rightarrow> 'w handler" where
  "planError e = (case conflictOf e of Some m \<Rightarrow> writeError 409 m
     | None \<Rightarrow> if credentialsError e then writeError 502 (errText e) else apiError e)"

definition handleCreateBackup :: "'w panel \<Rightarrow> string \<Rightarrow> org_access \<Rightarrow> 'w handler" where
  "handleCreateBackup P server acc =
     callK (r_get (k_gs (pn_k P)) (orgNS acc) server) apiError (\<lambda>gs.
     callK (Plan (pn_k P) (pn_backup P) gs (og_slug (ac_org acc))) planError (\<lambda>bkp.
     callK (Create (pn_k P) bkp) apiError (\<lambda>created. writeJSON 202 (JObj (backupHead created)))))"

text \<open>A backup is looked up by its name and must be one of the server's.\<close>

definition backupOfServer :: "'w k8s \<Rightarrow> string \<Rightarrow> string \<Rightarrow> string \<Rightarrow> ('w, nat \<times> go_err + backup) io" where
  "backupOfServer k ns server name = bindE (attempt (r_get (k_backup k) ns name)) (\<lambda>r. ret (case r of
       Inl e \<Rightarrow> Inl (statusFor e, e)
     | Inr b \<Rightarrow> if sget (om_labels (bk_meta b)) BackupGameServerLabel \<noteq> server then Inl (404, fieldError ''backup not found for this server'')
         else Inr b))"

abbreviation (input) apiResult :: "('w, nat \<times> go_err + 'a) io \<Rightarrow> ('a \<Rightarrow> 'w handler) \<Rightarrow> 'w handler" where
  "apiResult m k \<equiv> callK m internalError (\<lambda>r. case r of Inl d \<Rightarrow> writeError (fst d) (errText (snd d)) | Inr x \<Rightarrow> k x)"

definition handleDeleteBackup :: "'w panel \<Rightarrow> string \<Rightarrow> string \<Rightarrow> org_access \<Rightarrow> 'w handler" where
  "handleDeleteBackup P server name acc = apiResult (backupOfServer (pn_k P) (orgNS acc) server name) (\<lambda>b.
     callK (ignoring is_not_found (r_delete (k_backup (pn_k P)) b)) apiError (\<lambda>_. writeHeader 202))"

definition restoreOf :: "time \<Rightarrow> gameserver \<Rightarrow> backup \<Rightarrow> restore" where
  "restoreOf now gs b = \<lparr>rs_meta = (new_meta (''rs-'' @ ObjectName (om_name (gs_meta gs)) now) (om_namespace (gs_meta gs)))
       \<lparr>om_labels := [BackupGameServerLabel \<mapsto> om_name (gs_meta gs)]\<rparr>,
     rs_spec = \<lparr>rss_gameserver = om_name (gs_meta gs), rss_backup = om_name (bk_meta b)\<rparr>,
     rs_status = \<lparr>rst_phase = RsUnset, rst_job_name = [], rst_start = None, rst_completion = None\<rparr>\<rparr>"

definition handleRestoreBackup :: "'w panel \<Rightarrow> string \<Rightarrow> string \<Rightarrow> org_access \<Rightarrow> 'w handler" where
  "handleRestoreBackup P server name acc = apiResult (backupOfServer (pn_k P) (orgNS acc) server name) (\<lambda>b.
     if bst_phase (bk_status b) \<noteq> BkCompleted \<or> is_deleting (bk_meta b) then refuse 409 ''only a completed backup can be restored''
     else callK (r_get (k_gs (pn_k P)) (orgNS acc) server) apiError (\<lambda>gs.
       if gss_state (gs_spec gs) \<noteq> StateStopped then refuse 409 ''stop the server before restoring: the restore overwrites its files''
       else readEnv (k_now (pn_k P)) (\<lambda>now.
         callK (r_create (k_restore (pn_k P)) (restoreOf now gs b)) apiError (\<lambda>rs. writeJSON 202 (restoreItem rs)))))"

end
