(* ===== verification/Panel_Schedules.thy ===== *)
theory Panel_Schedules
  imports Panel_Backups Schedule_Spec
begin

text \<open>
  The schedules of a server (\<open>internal/panelapi/schedules.go\<close>): their list, what a schedule may say, and a run by hand.
\<close>

definition maxSchedulesPerServer :: nat where "maxSchedulesPerServer = 10"

record schedule_write =
  sw_display_name :: string
  sw_cron :: string
  sw_time_zone :: string
  sw_suspend :: bool
  sw_only_when_running :: "bool option"
  sw_tasks :: "schedule_task list"

definition toScheduleItem :: "schedule \<Rightarrow> json" where
  "toScheduleItem sc = JObj [(''name'', JStr (om_name (sch_meta sc))), (''schedule'', JSchedule sc)]"

definition specFromWrite :: "string \<Rightarrow> schedule_write \<Rightarrow> schedule_spec" where
  "specFromWrite server req = \<lparr>scs_gameserver = server, scs_display_name = sw_display_name req, scs_cron = sw_cron req,
     scs_time_zone = sw_time_zone req, scs_suspend = sw_suspend req,
     scs_only_when_running = (case sw_only_when_running req of None \<Rightarrow> True | Some b \<Rightarrow> b), scs_tasks = sw_tasks req\<rparr>"

definition listServerSchedules :: "'w k8s \<Rightarrow> string \<Rightarrow> string \<Rightarrow> ('w, schedule list) io" where
  "listServerSchedules k ns server = bindE (r_list (k_sched k) (Some ns) []) (\<lambda>l.
     ret (filter (\<lambda>sc. scs_gameserver (sch_spec sc) = server) l))"

definition scheduleOfServer :: "'w k8s \<Rightarrow> string \<Rightarrow> string \<Rightarrow> string \<Rightarrow> ('w, nat \<times> go_err + schedule) io" where
  "scheduleOfServer k ns server name = bindE (attempt (r_get (k_sched k) ns name)) (\<lambda>r. ret (case r of
       Inl e \<Rightarrow> Inl (statusFor e, e)
     | Inr sc \<Rightarrow> if scs_gameserver (sch_spec sc) \<noteq> server then Inl (404, fieldError ''schedule not found for this server'') else Inr sc))"

definition handleListSchedules :: "'w panel \<Rightarrow> string \<Rightarrow> org_access \<Rightarrow> 'w handler" where
  "handleListSchedules P server acc = callK (listServerSchedules (pn_k P) (orgNS acc) server) apiError (\<lambda>l.
     writeJSON 200 (JArr (map toScheduleItem (sort_key (\<lambda>sc. om_name (sch_meta sc)) l))))"

definition handleGetSchedule :: "'w panel \<Rightarrow> string \<Rightarrow> string \<Rightarrow> org_access \<Rightarrow> 'w handler" where
  "handleGetSchedule P server name acc = apiResult (scheduleOfServer (pn_k P) (orgNS acc) server name) (\<lambda>sc.
     writeJSON 200 (toScheduleItem sc))"

text \<open>The text of the refusal, or \<open>None\<close> when there is nothing to refuse.\<close>

definition scheduleBackupHeadroom :: "'w k8s \<Rightarrow> platform \<Rightarrow> gameserver \<Rightarrow> string \<Rightarrow> schedule_spec \<Rightarrow> ('w, msg option) io" where
  "scheduleBackupHeadroom k B gs orgSlug spec =
     (if (case gss_backup_target (gs_spec gs) of None \<Rightarrow> True | Some t \<Rightarrow> bt_connection t \<noteq> PlatformConnection) then ret None
      else if \<not> list_ex (\<lambda>t. tk_action t = ActBackup) (scs_tasks spec) then ret None
      else bindE (OrgLimits k B orgSlug) (\<lambda>limits. ret (case limits of None \<Rightarrow> None
        | Some l \<Rightarrow> if list_ex (\<lambda>t. tk_action t = ActBackup \<and> (tk_keep_last t = 0 \<or> tb_max_per_server l \<le> tk_keep_last t)) (scs_tasks spec)
            then Some (Msg ''keepLast must be lower than this organization's platform limit of %d backups per server (the next backup needs room before an old one is rotated out)''
              [AInt (tb_max_per_server l)])
            else None)))"

text \<open>One retry, with a random suffix, when the name is taken.\<close>

definition createScheduleObject :: "'w k8s \<Rightarrow> schedule \<Rightarrow> ('w, schedule) io" where
  "createScheduleObject k sc = bindE (attempt (r_create (k_sched k) sc)) (\<lambda>r. case r of
      Inr made \<Rightarrow> ret made
    | Inl e \<Rightarrow> if is_already_exists e then
        bindE (RandomToken k 3) (\<lambda>suffix. r_create (k_sched k) (sc\<lparr>sch_meta := (sch_meta sc)\<lparr>om_name := om_name (sch_meta sc) @ ''-'' @
          toLower (filter (\<lambda>c. c \<noteq> CHR ''-'' \<and> c \<noteq> CHR ''_'') suffix)\<rparr>\<rparr>))
      else throw e)"

definition newSchedule :: "string \<Rightarrow> string \<Rightarrow> schedule_spec \<Rightarrow> schedule" where
  "newSchedule name ns spec = \<lparr>sch_meta = new_meta name ns, sch_spec = spec,
     sch_status = \<lparr>sst_next = None, sst_last = None, sst_last_run = None, sst_active = None, sst_last_run_now = [], sst_conditions = []\<rparr>\<rparr>"

text \<open>The two checks both writers make: the server exists, and the backups have room.\<close>

definition checkSchedule :: "'w panel \<Rightarrow> string \<Rightarrow> org_access \<Rightarrow> schedule_spec \<Rightarrow> 'w handler \<Rightarrow> 'w handler" where
  "checkSchedule P server acc spec next =
     callK (r_get (k_gs (pn_k P)) (orgNS acc) server) apiError (\<lambda>gs.
     callK (scheduleBackupHeadroom (pn_k P) (pn_backup P) gs (og_slug (ac_org acc)) spec) apiError (\<lambda>m. case m of
       Some text \<Rightarrow> writeError 422 text | None \<Rightarrow> next))"

definition handleCreateSchedule :: "'w panel \<Rightarrow> string \<Rightarrow> go_err + schedule_write \<Rightarrow> org_access \<Rightarrow> 'w handler" where
  "handleCreateSchedule P server body acc = (case body of Inl e \<Rightarrow> badJSON e
   | Inr req \<Rightarrow> let spec = specFromWrite server req; msgs = ValidateSchedule (k_lib (pn_k P)) spec in
     if msgs \<noteq> [] then writeError 422 (joinMsgs msgs)
     else callK (listServerSchedules (pn_k P) (orgNS acc) server) apiError (\<lambda>existing.
       if maxSchedulesPerServer \<le> length existing then
         writeError 409 (Msg ''this server already has the maximum of %d schedules'' [AInt (int maxSchedulesPerServer)])
       else checkSchedule P server acc spec (readEnv (k_now (pn_k P)) (\<lambda>now.
         callK (createScheduleObject (pn_k P) (newSchedule (ObjectName server now) (orgNS acc) spec)) apiError (\<lambda>sc.
         writeJSON 201 (toScheduleItem sc))))))"

definition handleUpdateSchedule :: "'w panel \<Rightarrow> string \<Rightarrow> string \<Rightarrow> go_err + schedule_write \<Rightarrow> org_access \<Rightarrow> 'w handler" where
  "handleUpdateSchedule P server name body acc = apiResult (scheduleOfServer (pn_k P) (orgNS acc) server name) (\<lambda>sc.
     case body of Inl e \<Rightarrow> badJSON e
     | Inr req \<Rightarrow> let spec = specFromWrite server req; msgs = ValidateSchedule (k_lib (pn_k P)) spec in
       if msgs \<noteq> [] then writeError 422 (joinMsgs msgs)
       else checkSchedule P server acc spec (
         callK (r_update (k_sched (pn_k P)) (sc\<lparr>sch_spec := spec\<rparr>)) apiError (\<lambda>stored. writeJSON 200 (toScheduleItem stored))))"

definition handleDeleteSchedule :: "'w panel \<Rightarrow> string \<Rightarrow> string \<Rightarrow> org_access \<Rightarrow> 'w handler" where
  "handleDeleteSchedule P server name acc = apiResult (scheduleOfServer (pn_k P) (orgNS acc) server name) (\<lambda>sc.
     callK (ignoring is_not_found (r_delete (k_sched (pn_k P)) sc)) apiError (\<lambda>_. writeHeader 204))"

definition runNow :: "klib \<Rightarrow> time \<Rightarrow> schedule \<Rightarrow> schedule" where
  "runNow L now sc = sc\<lparr>sch_meta := (sch_meta sc)\<lparr>om_annotations := (om_annotations (sch_meta sc))(RunNowAnnotation \<mapsto> lib_format_nanos L now)\<rparr>\<rparr>"

definition handleRunSchedule :: "'w panel \<Rightarrow> string \<Rightarrow> string \<Rightarrow> org_access \<Rightarrow> 'w handler" where
  "handleRunSchedule P server name acc = apiResult (scheduleOfServer (pn_k P) (orgNS acc) server name) (\<lambda>sc.
     readEnv (k_now (pn_k P)) (\<lambda>now.
     callK (r_patch (k_sched (pn_k P)) sc (runNow (k_lib (pn_k P)) now sc)) apiError (\<lambda>_. writeHeader 202)))"

end
