(* ===== verification/Panel_Servers.thy ===== *)
theory Panel_Servers
  imports Panel_Schedules Egg_Variables Ports
begin

text \<open>
  The game servers of an organization (\<open>internal/panelapi/gameservers.go\<close>, \<open>players.go\<close>, and \<open>internal/panelcache/players.go\<close>):
  their list, what is checked before one is created or changed, power, suspension and reinstalls, and the wrappers of
  \<open>server.go\<close> for their routes. In an answer, an embedded object is the entry with no name. The access that
  \<open>requireGameServerAccess\<close> asks for is the argument \<open>acc\<close> of a handler, which is always there behind these wrappers.
\<close>

section \<open>Who is playing\<close>

definition PlayersTTL :: duration where "PlayersTTL = 45 * second"

definition playersKey :: "string \<Rightarrow> string \<Rightarrow> string" where
  "playersKey ns name = ''hatchery:players:'' @ ns @ ''/'' @ name"

definition SetPlayers :: "players_codec \<Rightarrow> string \<Rightarrow> string \<Rightarrow> players_snapshot \<Rightarrow> unit cached" where
  "SetPlayers c ns name snap = rSet (playersKey ns name) (RStr (pc_encode c snap)) PlayersTTL"

text \<open>\<open>MGET\<close>: a key that is missing, or is no text, is nil.\<close>

definition rMGet :: "string list \<Rightarrow> string option list cached" where
  "rMGet keys = cmd (\<lambda>r. (Inr (map (\<lambda>k. case look k r of Some (RStr s, _) \<Rightarrow> Some s | _ \<Rightarrow> None) keys), r))"

fun decodePlayers :: "players_codec \<Rightarrow> (string \<times> string option) list \<Rightarrow> (string \<times> players_snapshot) list" where
  "decodePlayers c [] = []"
| "decodePlayers c ((name, None) # l) = decodePlayers c l"
| "decodePlayers c ((name, Some s) # l) = (case pc_decode c s of None \<Rightarrow> decodePlayers c l | Some snap \<Rightarrow> (name, snap) # decodePlayers c l)"

definition GetManyPlayers :: "players_codec \<Rightarrow> string \<Rightarrow> string list \<Rightarrow> (string \<times> players_snapshot) list cached" where
  "GetManyPlayers c ns names = (if names = [] then ret []
     else bindE (rMGet (map (playersKey ns) names)) (\<lambda>vals. ret (decodePlayers c (zip names vals))))"

definition playersFor :: "'w panel \<Rightarrow> string \<Rightarrow> gameserver list \<Rightarrow> ((string \<times> players_snapshot) list \<Rightarrow> 'w handler) \<Rightarrow> 'w handler" where
  "playersFor P ns gss k = (case pn_players P of None \<Rightarrow> k []
   | Some c \<Rightarrow> let names = map (\<lambda>gs. om_name (gs_meta gs)) (filter (\<lambda>gs. gst_phase (gs_status gs) = PhaseRunning) gss) in
     if names = [] then k [] else callR (GetManyPlayers c ns names) (\<lambda>_. k []) k)"

text \<open>Whether the server's Egg declares a usable query; an Egg that cannot be read does not.\<close>

definition eggQueryEnabled :: "'w k8s \<Rightarrow> gameserver \<Rightarrow> ('w, bool) io" where
  "eggQueryEnabled k gs = bindE (attempt (r_get (k_egg k) (EggNamespace gs) (er_name (gss_egg_ref (gs_spec gs))))) (\<lambda>r.
     ret (case r of Inl _ \<Rightarrow> False | Inr e \<Rightarrow> QueryPort (egg_spec e) \<noteq> None))"

section \<open>Reading\<close>

definition listItem :: "(string \<times> players_snapshot) list \<Rightarrow> gameserver \<Rightarrow> json" where
  "listItem snaps gs = JObj (([], JGameServer gs) # (case map_of snaps (om_name (gs_meta gs)) of None \<Rightarrow> []
     | Some p \<Rightarrow> [(''players'', JObj [(''online'', JInt (sp_online p)), (''max'', JInt (sp_max p))])]))"

definition handleListGameServers :: "'w panel \<Rightarrow> org_access \<Rightarrow> 'w handler" where
  "handleListGameServers P acc = callK (r_list (k_gs (pn_k P)) (Some (orgNS acc)) []) apiError (\<lambda>l.
     let visible = filter (\<lambda>gs. Sees acc (om_name (gs_meta gs))) l in
     playersFor P (orgNS acc) visible (\<lambda>snaps. writeJSON 200 (JObj [(''items'', JArr (map (listItem snaps) visible))])))"

definition serverJSON :: "org_access \<Rightarrow> bool \<Rightarrow> (string \<times> players_snapshot) list \<Rightarrow> gameserver \<Rightarrow> json" where
  "serverJSON acc canQuery snaps gs = JObj ([([], JGameServer gs),
     (''access'', JObj [(''permissions'', case Effective acc (om_name (gs_meta gs)) of None \<Rightarrow> JNull | Some ps \<Rightarrow> JArr (map JStr ps))])] @
     (case map_of snaps (om_name (gs_meta gs)) of None \<Rightarrow> [] | Some p \<Rightarrow> [(''players'', JObj [(''online'', JInt (sp_online p)),
       (''max'', JInt (sp_max p)), (''names'', JArr (map JStr (sp_players p))), (''at'', JTime (sp_at p))])]) @
     [(''queryEnabled'', JBool canQuery)])"

definition handleGetGameServer :: "'w panel \<Rightarrow> string \<Rightarrow> org_access \<Rightarrow> 'w handler" where
  "handleGetGameServer P name acc = callK (r_get (k_gs (pn_k P)) (orgNS acc) name) apiError (\<lambda>gs.
     callK (eggQueryEnabled (pn_k P) gs) apiError (\<lambda>canQuery.
     playersFor P (om_namespace (gs_meta gs)) [gs] (\<lambda>snaps. writeJSON 200 (serverJSON acc canQuery snaps gs))))"

section \<open>Checks\<close>

definition normalizeResources :: "resources \<Rightarrow> resources" where
  "normalizeResources rr = (if rs_limits rr \<noteq> [] then rr\<lparr>rs_requests := rs_limits rr\<rparr> else rr)"

fun prefixMsg :: "string \<Rightarrow> msg \<Rightarrow> msg" where
  "prefixMsg s (Msg f as) = Msg (s @ f) as"

definition eggMessages :: "klib \<Rightarrow> egg \<Rightarrow> string \<Rightarrow> string \<Rightarrow> gs_variable list \<Rightarrow> extra_port list \<Rightarrow> msg list" where
  "eggMessages L e imageName startCommand vars extras =
     (if ResolveImage e imageName = None then [Msg ''image %q is not declared by egg %q'' [AStr imageName, AStr (om_name (egg_meta e))]] else []) @
     ValidateStartCommand e startCommand @ ValidateVariableOverrides L e vars @ map (prefixMsg ''extra port '') (ValidateExtraPorts e extras)"

text \<open>An Egg that cannot be found is left to the admission webhook.\<close>

definition checkAgainstEgg :: "'w k8s \<Rightarrow> string \<Rightarrow> egg_ref \<Rightarrow> string \<Rightarrow> string \<Rightarrow> gs_variable list \<Rightarrow> extra_port list \<Rightarrow> ('w, unit) io" where
  "checkAgainstEgg k ns ref imageName startCommand vars extras =
     bindE (found_or_none (r_get (k_egg k) (if er_scope ref = ScopeCatalog then CatalogNamespace else ns) (er_name ref))) (\<lambda>r. case r of
       None \<Rightarrow> ret ()
     | Some e \<Rightarrow> let msgs = eggMessages (k_lib k) e imageName startCommand vars extras in
         if msgs = [] then ret () else throw (MsgErr (joinMsgs msgs)))"

section \<open>Creating and changing\<close>

definition newGameServer :: "string \<Rightarrow> string \<Rightarrow> gs_spec \<Rightarrow> gameserver" where
  "newGameServer name ns spec = \<lparr>gs_meta = new_meta name ns, gs_spec = spec,
     gs_status = \<lparr>gst_phase = PhaseUnset, gst_pod_name = [], gst_observed_generation = 0, gst_exposure = no_exposure,
       gst_recent_crashes = [], gst_last_crash = None, gst_conditions = []\<rparr>\<rparr>"

definition auditServer :: "'w panel \<Rightarrow> request \<Rightarrow> user \<Rightarrow> org_access \<Rightarrow> string \<Rightarrow> string \<Rightarrow> 'w handler \<Rightarrow> 'w handler" where
  "auditServer P r u acc name outcome next =
     auditEvent (pn_server P) r (Some u) (og_slug (ac_org acc)) ''gameserver.create'' ''gameserver'' name outcome [] next"

definition createNamed :: "'w panel \<Rightarrow> request \<Rightarrow> string \<Rightarrow> gs_spec \<Rightarrow> user \<Rightarrow> org_access \<Rightarrow> 'w handler" where
  "createNamed P r name spec u acc =
     callK (checkAgainstEgg (pn_k P) (orgNS acc) (gss_egg_ref spec) (gss_image_name spec) (gss_start_command spec) (gss_variables spec)
         (gss_extra_ports spec)) (\<lambda>e. writeError 422 (errText e)) (\<lambda>_.
     let spec' = spec\<lparr>gss_resources := normalizeResources (gss_resources spec)\<rparr> in
     callK (checkQuotaHeadroom (pn_k P) (og_slug (ac_org acc)) (orgNS acc) spec')
       (\<lambda>e. auditServer P r u acc name ''failed'' (writeError 409 (errText e))) (\<lambda>_.
     callK (r_create (k_gs (pn_k P)) (newGameServer name (orgNS acc) spec'))
       (\<lambda>e. auditServer P r u acc name ''failed'' (apiError e)) (\<lambda>gs.
     auditServer P r u acc name ''success'' (writeJSON 201 (JGameServer gs)))))"

definition handleCreateGameServer :: "'w panel \<Rightarrow> request \<Rightarrow> go_err + string \<times> gs_spec \<Rightarrow> user \<Rightarrow> org_access \<Rightarrow> 'w handler" where
  "handleCreateGameServer P r body u acc = (case body of Inl e \<Rightarrow> badJSON e
   | Inr (name, spec) \<Rightarrow>
     if name = [] \<and> gss_display_name spec = [] then refuse 400 ''name or displayName is required''
     else (case panelDisplayName (gss_display_name spec) of Inl e \<Rightarrow> writeError 400 (errText e)
     | Inr _ \<Rightarrow>
       if name = [] then callK (r_list (k_gs (pn_k P)) (Some (orgNS acc)) []) apiError (\<lambda>existing.
         createNamed P r (uniqueSlug (slugify (pn_unicode P) (gss_display_name spec)) (map (\<lambda>gs. om_name (gs_meta gs)) existing)) spec u acc)
       else createNamed P r name spec u acc))"

text \<open>The fields of an update that are \<open>None\<close> stay as they are.\<close>

record update_request =
  up_display_name :: "string option"
  up_image_name :: "string option"
  up_start_command :: "string option"
  up_backup_target :: "backup_target option"
  up_variables :: "gs_variable list option"
  up_resources :: "resources option"
  up_exposure :: "bool option"
  up_extra_ports :: "extra_port list option"
  up_auto_restart :: "bool option"

definition orElse :: "'a option \<Rightarrow> 'a \<Rightarrow> 'a" where
  "orElse x d = (case x of None \<Rightarrow> d | Some y \<Rightarrow> y)"

text \<open>The steps of \<open>applyGameServerUpdate\<close>: each ends with a status and an error, or hands on the changed spec.\<close>

definition applyDisplayName :: "update_request \<Rightarrow> (nat \<Rightarrow> go_err \<Rightarrow> 'w handler) \<Rightarrow> (gs_spec \<Rightarrow> 'w handler) \<Rightarrow> gs_spec \<Rightarrow> 'w handler" where
  "applyDisplayName req bad good spec = (case up_display_name req of None \<Rightarrow> good spec
     | Some n \<Rightarrow> (case panelDisplayName n of Inl e \<Rightarrow> bad 400 e | Inr _ \<Rightarrow> good (spec\<lparr>gss_display_name := n\<rparr>)))"

definition applyEggFields :: "'w k8s \<Rightarrow> string \<Rightarrow> update_request \<Rightarrow> (nat \<Rightarrow> go_err \<Rightarrow> 'w handler) \<Rightarrow> (gs_spec \<Rightarrow> 'w handler) \<Rightarrow> gs_spec \<Rightarrow> 'w handler" where
  "applyEggFields k ns req bad good spec =
     (if up_image_name req = None \<and> up_variables req = None \<and> up_start_command req = None \<and> up_extra_ports req = None then good spec
      else let image = orElse (up_image_name req) (gss_image_name spec); cmd = orElse (up_start_command req) (gss_start_command spec);
               vars = orElse (up_variables req) (gss_variables spec); extras = orElse (up_extra_ports req) (gss_extra_ports spec) in
        callK (checkAgainstEgg k ns (gss_egg_ref spec) image cmd vars extras) (bad 422) (\<lambda>_.
          good (spec\<lparr>gss_image_name := image, gss_start_command := cmd, gss_variables := vars, gss_extra_ports := extras\<rparr>)))"

definition applyBackupTarget :: "'w panel \<Rightarrow> string \<Rightarrow> string \<Rightarrow> update_request \<Rightarrow> (nat \<Rightarrow> go_err \<Rightarrow> 'w handler) \<Rightarrow> (gs_spec \<Rightarrow> 'w handler) \<Rightarrow> gs_spec \<Rightarrow> 'w handler" where
  "applyBackupTarget P ns orgSlug req bad good spec = (case up_backup_target req of None \<Rightarrow> good spec
     | Some t \<Rightarrow> callK (validateBackupTarget (pn_k P) (pn_backup P) ns orgSlug t) (bad 500) (\<lambda>v. case v of
         Inl d \<Rightarrow> bad (fst d) (snd d) | Inr target \<Rightarrow> good (spec\<lparr>gss_backup_target := target\<rparr>)))"

definition applyResources :: "'w k8s \<Rightarrow> string \<Rightarrow> string \<Rightarrow> string \<Rightarrow> update_request \<Rightarrow> (nat \<Rightarrow> go_err \<Rightarrow> 'w handler) \<Rightarrow> (gs_spec \<Rightarrow> 'w handler) \<Rightarrow> gs_spec \<Rightarrow> 'w handler" where
  "applyResources k orgSlug ns name req bad good spec = (case up_resources req of None \<Rightarrow> good spec
     | Some rr \<Rightarrow> let spec' = spec\<lparr>gss_resources := normalizeResources rr\<rparr> in
         callK (checkQuotaForUpdate k orgSlug ns name spec') (bad 409) (\<lambda>_. good spec'))"

definition applyFlags :: "update_request \<Rightarrow> gs_spec \<Rightarrow> gs_spec" where
  "applyFlags req spec = spec\<lparr>gss_exposure_enabled := orElse (up_exposure req) (gss_exposure_enabled spec),
     gss_auto_restart := (case up_auto_restart req of None \<Rightarrow> gss_auto_restart spec | Some b \<Rightarrow> Some b)\<rparr>"

definition applyGameServerUpdate :: "'w panel \<Rightarrow> string \<Rightarrow> update_request \<Rightarrow> org_access \<Rightarrow> (nat \<Rightarrow> go_err \<Rightarrow> 'w handler) \<Rightarrow> (gameserver \<Rightarrow> 'w handler) \<Rightarrow> 'w handler" where
  "applyGameServerUpdate P name req acc bad good =
     (let k = pn_k P; ns = orgNS acc; slug = og_slug (ac_org acc) in
      callK (r_get (k_gs k) ns name) (\<lambda>e. bad (statusFor e) e) (\<lambda>gs.
      applyDisplayName req bad
     (applyEggFields k ns req bad
     (applyBackupTarget P ns slug req bad
     (applyResources k slug ns (om_name (gs_meta gs)) req bad (\<lambda>spec.
        callK (r_update (k_gs k) (gs\<lparr>gs_spec := applyFlags req spec\<rparr>)) (\<lambda>e. bad (statusFor e) e) good)))) (gs_spec gs)))"

definition isConflict :: "go_err \<Rightarrow> bool" where
  "isConflict e \<longleftrightarrow> api_cause e = Some (EOtherApi ''Conflict'')"

text \<open>The loops of four attempts: \<open>left\<close> more are allowed after this one.\<close>

primrec updateAttempts :: "'w panel \<Rightarrow> string \<Rightarrow> update_request \<Rightarrow> org_access \<Rightarrow> nat \<Rightarrow> 'w handler" where
  "updateAttempts P name req acc 0 = applyGameServerUpdate P name req acc (\<lambda>code e. writeError code (errText e)) (\<lambda>gs. writeJSON 200 (JGameServer gs))"
| "updateAttempts P name req acc (Suc left) = applyGameServerUpdate P name req acc
     (\<lambda>code e. if isConflict e then updateAttempts P name req acc left else writeError code (errText e)) (\<lambda>gs. writeJSON 200 (JGameServer gs))"

definition handleUpdateGameServer :: "'w panel \<Rightarrow> string \<Rightarrow> go_err + update_request \<Rightarrow> org_access \<Rightarrow> 'w handler" where
  "handleUpdateGameServer P name body acc = (case body of Inl e \<Rightarrow> badJSON e | Inr req \<Rightarrow> updateAttempts P name req acc 3)"

text \<open>Only the name and the namespace of the object to delete are looked at. Stale grants do not fail the deletion.\<close>

definition emptySpec :: gs_spec where
  "emptySpec = \<lparr>gss_egg_ref = \<lparr>er_name = [], er_scope = ScopeUnset\<rparr>, gss_state = StateUnset, gss_display_name = [], gss_install_revision = 0,
     gss_suspended = False, gss_suspend_reason = [], gss_start_command = [], gss_auto_restart = None, gss_backup_target = None,
     gss_extra_ports = [], gss_exposure_enabled = False, gss_image_name = [], gss_variables = [], gss_resources = no_resources,
     gss_storage = \<lparr>st_size = [], st_class = None\<rparr>\<rparr>"

definition handleDeleteGameServer :: "'w panel \<Rightarrow> string \<Rightarrow> org_access \<Rightarrow> 'w handler" where
  "handleDeleteGameServer P name acc = callK (r_delete (k_gs (pn_k P)) (newGameServer name (orgNS acc) emptySpec)) apiError (\<lambda>_.
     callD (DeleteGameServerGrants (og_id (ac_org acc)) name) (\<lambda>_. writeHeader 202) (\<lambda>_. writeHeader 202))"

section \<open>Power\<close>

definition stateOf :: "string \<Rightarrow> gs_state option" where
  "stateOf s = (if s = ''Running'' then Some StateRunning else if s = ''Stopped'' then Some StateStopped else None)"

definition handleSetGameServerState :: "'w panel \<Rightarrow> string \<Rightarrow> go_err + string \<Rightarrow> org_access \<Rightarrow> 'w handler" where
  "handleSetGameServerState P name body acc = (case body of Inl e \<Rightarrow> badJSON e
   | Inr s \<Rightarrow> (case stateOf s of None \<Rightarrow> refuse 400 ''state must be \"Running\" or \"Stopped\"''
     | Some st \<Rightarrow> callK (r_get (k_gs (pn_k P)) (orgNS acc) name) apiError (\<lambda>gs.
         callK (r_update (k_gs (pn_k P)) (gs\<lparr>gs_spec := (gs_spec gs)\<lparr>gss_state := st\<rparr>\<rparr>)) apiError (\<lambda>stored.
         writeJSON 200 (JGameServer stored)))))"

definition restartAt :: "klib \<Rightarrow> time \<Rightarrow> gameserver \<Rightarrow> gameserver" where
  "restartAt L now gs = gs\<lparr>gs_meta := (gs_meta gs)\<lparr>om_annotations := (om_annotations (gs_meta gs))(RestartAnnotation \<mapsto> lib_format_nanos L now)\<rparr>\<rparr>"

definition handleRestartGameServer :: "'w panel \<Rightarrow> string \<Rightarrow> org_access \<Rightarrow> 'w handler" where
  "handleRestartGameServer P name acc = callK (r_get (k_gs (pn_k P)) (orgNS acc) name) apiError (\<lambda>gs.
     if gss_state (gs_spec gs) \<noteq> StateRunning then refuse 409 ''server is not running; start it instead''
     else readEnv (k_now (pn_k P)) (\<lambda>now.
       callK (r_update (k_gs (pn_k P)) (restartAt (k_lib (pn_k P)) now gs)) apiError (\<lambda>stored. writeJSON 202 (JGameServer stored))))"

section \<open>Suspension\<close>

definition unlessSuspended :: "'w k8s \<Rightarrow> user \<Rightarrow> string \<Rightarrow> string \<Rightarrow> 'w handler \<Rightarrow> 'w handler" where
  "unlessSuspended k u ns name next = (if us_admin u then next
     else callK (r_get (k_gs k) ns name) (\<lambda>_. next) (\<lambda>gs.
       if gss_suspended (gs_spec gs) then
         refuse 423 (''this server is suspended'' @ (if gss_suspend_reason (gs_spec gs) = [] then [] else '': '' @ gss_suspend_reason (gs_spec gs)))
       else next))"

text \<open>One attempt, and the loop of \<open>mutateGameServer\<close>; \<open>mutate\<close> gets the time it is applied at.\<close>

definition mutateOnce :: "'w k8s \<Rightarrow> string \<Rightarrow> string \<Rightarrow> (time \<Rightarrow> gameserver \<Rightarrow> gameserver) \<Rightarrow> (go_err \<Rightarrow> 'w handler) \<Rightarrow> (gameserver \<Rightarrow> 'w handler) \<Rightarrow> 'w handler" where
  "mutateOnce k ns name mutate again good = callK (r_get (k_gs k) ns name) apiError (\<lambda>gs. readEnv (k_now k) (\<lambda>now.
     callK (r_update (k_gs k) (mutate now gs)) (\<lambda>e. if isConflict e then again e else apiError e) good))"

primrec mutateAttempts :: "'w k8s \<Rightarrow> string \<Rightarrow> string \<Rightarrow> (time \<Rightarrow> gameserver \<Rightarrow> gameserver) \<Rightarrow> (gameserver \<Rightarrow> 'w handler) \<Rightarrow> nat \<Rightarrow> 'w handler" where
  "mutateAttempts k ns name mutate good 0 = mutateOnce k ns name mutate apiError good"
| "mutateAttempts k ns name mutate good (Suc left) = mutateOnce k ns name mutate (\<lambda>_. mutateAttempts k ns name mutate good left) good"

definition mutateGameServer :: "'w k8s \<Rightarrow> string \<Rightarrow> string \<Rightarrow> (time \<Rightarrow> gameserver \<Rightarrow> gameserver) \<Rightarrow> (gameserver \<Rightarrow> 'w handler) \<Rightarrow> 'w handler" where
  "mutateGameServer k ns name mutate good = mutateAttempts k ns name mutate good 3"

definition suspendWith :: "string \<Rightarrow> gameserver \<Rightarrow> gameserver" where
  "suspendWith reason gs = gs\<lparr>gs_spec := (gs_spec gs)\<lparr>gss_suspended := True, gss_suspend_reason := reason, gss_state := StateStopped\<rparr>\<rparr>"

definition unsuspend :: "gameserver \<Rightarrow> gameserver" where
  "unsuspend gs = gs\<lparr>gs_spec := (gs_spec gs)\<lparr>gss_suspended := False, gss_suspend_reason := []\<rparr>\<rparr>"

text \<open>The organization is told in the background, after the answer.\<close>

definition serverReply :: "nat \<Rightarrow> gameserver \<Rightarrow> reply" where
  "serverReply status gs = \<lparr>rp_status = status, rp_headers = [(''Content-Type'', ''application/json'')], rp_body = Some (JGameServer gs)\<rparr>"

definition handleSuspendGameServer :: "'w panel \<Rightarrow> string \<Rightarrow> go_err + string \<Rightarrow> org_access \<Rightarrow> 'w handler" where
  "handleSuspendGameServer P name body acc = (case body of Inl e \<Rightarrow> badJSON e
   | Inr text \<Rightarrow> let reason = trimSpace text in
     if reason = [] then refuse 400 ''a reason is required''
     else if 256 < runeCount reason then refuse 400 ''reason must have at most 256 characters''
     else if hasControl reason then refuse 400 ''reason must not contain control characters''
     else mutateGameServer (pn_k P) (orgNS acc) name (\<lambda>_. suspendWith reason) (\<lambda>gs.
       background (notifySuspended P (ac_org acc) gs (writeHeader 0)) (serverReply 202 gs)))"

definition handleUnsuspendGameServer :: "'w panel \<Rightarrow> string \<Rightarrow> org_access \<Rightarrow> 'w handler" where
  "handleUnsuspendGameServer P name acc =
     mutateGameServer (pn_k P) (orgNS acc) name (\<lambda>_. unsuspend) (\<lambda>gs. answer (serverReply 202 gs))"

text \<open>A reinstall also restarts a running server. The revision is an \<open>int64\<close>.\<close>

definition reinstallAt :: "klib \<Rightarrow> time \<Rightarrow> gameserver \<Rightarrow> gameserver" where
  "reinstallAt L now gs = (let gs' = gs\<lparr>gs_spec := (gs_spec gs)\<lparr>gss_install_revision := wrap64 (gss_install_revision (gs_spec gs) + 1)\<rparr>\<rparr> in
     if gss_state (gs_spec gs') = StateRunning then restartAt L now gs' else gs')"

definition handleReinstallGameServer :: "'w panel \<Rightarrow> string \<Rightarrow> org_access \<Rightarrow> 'w handler" where
  "handleReinstallGameServer P name acc =
     mutateAttempts (pn_k P) (orgNS acc) name (reinstallAt (k_lib (pn_k P))) (\<lambda>gs. answer (serverReply 202 gs)) 3"

section \<open>The routes of a server (\<open>server.go\<close>)\<close>

text \<open>An action that is empty is not audited.\<close>

definition maybeAudited :: "'w panel \<Rightarrow> request \<Rightarrow> string \<Rightarrow> user \<Rightarrow> org_access \<Rightarrow> string \<Rightarrow> 'w handler \<Rightarrow> 'w handler" where
  "maybeAudited P r action u acc name h = (if action = [] then h else audited (pn_server P) r action u acc name h)"

definition gsPermRoute :: "'w panel \<Rightarrow> request \<Rightarrow> string \<Rightarrow> string \<Rightarrow> string \<Rightarrow> string \<Rightarrow> (user \<Rightarrow> org_access \<Rightarrow> 'w handler) \<Rightarrow> 'w handler" where
  "gsPermRoute P r slug name p action h = requireOrgRole (pn_server P) RoleMember (\<lambda>u acc.
     requireServerPermission p (maybeAudited P r action u acc name (unlessSuspended (pn_k P) u (orgNS acc) name (h u acc))) acc name) r slug"

definition gsAdminRoute :: "'w panel \<Rightarrow> request \<Rightarrow> string \<Rightarrow> string \<Rightarrow> string \<Rightarrow> (user \<Rightarrow> org_access \<Rightarrow> 'w handler) \<Rightarrow> 'w handler" where
  "gsAdminRoute P r slug name action h = requireOrgRole (pn_server P) RoleAdmin (\<lambda>u acc.
     maybeAudited P r action u acc name (unlessSuspended (pn_k P) u (orgNS acc) name (h u acc))) r slug"

end
