(* ===== verification/Panel_Guarantees.thy ===== *)
theory Panel_Guarantees
  imports Panel_Servers
begin

text \<open>
  What the handlers of servers and backups promise: a server is created only where the organization has room, a suspended
  server is closed to it, a backup or a schedule is reached only through its own server.
\<close>

section \<open>A panel to run on\<close>

definition panelOn :: "'w k8s \<Rightarrow> 'w panel" where
  "panelOn k = \<lparr>pn_server = \<lparr>sv_k = k, sv_crypto = sample_crypto, sv_trusted = [], sv_audit_days = 90, sv_limits = DefaultLoginLimits,
       sv_two_factor = None, sv_totp = (\<lambda>s t. None), sv_challenges = True, sv_pending = True, sv_send = None, sv_public_url = [],
       sv_parse_address = (\<lambda>a. Some ([], a)), sv_discord = False\<rparr>,
     pn_backup = \<lparr>pf_endpoint = ''s3'', pf_bucket = [], pf_secret_ns = [], pf_secret_name = []\<rparr>, pn_text = (\<lambda>m. ''text''),
     pn_parse_url = (\<lambda>u. None), pn_unicode = \<lparr>un_nfd_lower = map of_char, un_mark = (\<lambda>r. False)\<rparr>, pn_notified = True,
     pn_discord = None, pn_players = None, pn_registries = [], pn_limiter = False\<rparr>"

definition worldOf :: "'w \<Rightarrow> 'w hw" where
  "worldOf e = \<lparr>hw_env = e, hw_db = sample_db, hw_cache = no_redis, hw_random = [], hw_others = []\<rparr>"

definition acmeOwner :: org_access where
  "acmeOwner = \<lparr>ac_org = sample_acme, ac_role = RoleOwner, ac_grants = []\<rparr>"

section \<open>Room in the quota\<close>

definition cpuOf :: "gs_spec \<Rightarrow> quantity" where
  "cpuOf spec = resourceOf ''cpu'' (rs_requests (gss_resources spec))"

definition memoryOf :: "gs_spec \<Rightarrow> quantity" where
  "memoryOf spec = resourceOf ''memory'' (rs_requests (gss_resources spec))"

text \<open>What the servers reserve together is within the quota.\<close>

definition within :: "klib \<Rightarrow> tenant_quota \<Rightarrow> gs_spec list \<Rightarrow> bool" where
  "within L q specs \<longleftrightarrow> int (length specs) \<le> tq_max_gameservers q \<and> sum_list (map cpuOf specs) \<le> tq_cpu q \<and>
     sum_list (map memoryOf specs) \<le> tq_memory q \<and> sum_list (map (storageOf L) specs) \<le> tq_storage q"

definition specsOf :: "gameserver list \<Rightarrow> string \<Rightarrow> gs_spec list" where
  "specsOf xs exclude = map gs_spec (filter (\<lambda>gs. om_name (gs_meta gs) \<noteq> exclude) xs)"

lemma usedBy_from:
  "fold (\<lambda>gs t. if om_name (gs_meta gs) \<noteq> exclude then addServer L (gs_spec gs) t else t) xs t =
    \<lparr>qt_cpu = qt_cpu t + sum_list (map cpuOf (specsOf xs exclude)), qt_memory = qt_memory t + sum_list (map memoryOf (specsOf xs exclude)),
     qt_storage = qt_storage t + sum_list (map (storageOf L) (specsOf xs exclude)),
     qt_gameservers = qt_gameservers t + int (length (specsOf xs exclude))\<rparr>"
  by (induction xs arbitrary: t) (simp_all add: specsOf_def addServer_def cpuOf_def memoryOf_def)

lemma usedBy_sums:
  "usedBy L xs exclude = \<lparr>qt_cpu = sum_list (map cpuOf (specsOf xs exclude)), qt_memory = sum_list (map memoryOf (specsOf xs exclude)),
     qt_storage = sum_list (map (storageOf L) (specsOf xs exclude)), qt_gameservers = int (length (specsOf xs exclude))\<rparr>"
  unfolding usedBy_def usedBy_from by (simp add: no_totals_def)

lemma headroom_within:
  assumes "\<not> tq_max_gameservers q < qt_gameservers (usedBy L xs []) + 1" and "checkTotals q (addServer L spec (usedBy L xs [])) = Inr u"
  shows "within L q (spec # specsOf xs [])"
  using assms by (auto simp: checkTotals_def within_def usedBy_sums addServer_def cpuOf_def memoryOf_def split: if_splits)

text \<open>
  The rule on the calls: a server is created after its organization's Tenant was read and the servers of the namespace were
  listed, and with the new one they are within the Tenant's quota; or there was no Tenant.
\<close>

definition room_rule :: "klib \<Rightarrow> string \<Rightarrow> event set \<Rightarrow> event \<Rightarrow> bool" where
  "room_rule L slug before e \<longleftrightarrow> (\<forall>g ok. e = EvCreate (OGs g) ok \<longrightarrow> EvGetFailed [] slug True \<in> before \<or>
     (\<exists>t xs. EvGot [] slug (OTenant t) \<in> before \<and>
        EvListed ''GameServer'' (Some (TenantNamespace slug)) [] (map OGs xs) \<in> before \<and>
        within L (tn_quota t) (gs_spec g # specsOf xs [])))"

lemma room_rule_quiet: "reading e \<Longrightarrow> room_rule L slug S e"
  by (auto simp: room_rule_def)

lemma checkAgainstEgg_reads: "only reading (checkAgainstEgg (logging k) ns ref i c vs xs)"
  unfolding checkAgainstEgg_def Let_def logging_kinds by (intro only_rules only_calls) simp_all

lemma checkQuotaHeadroom_room:
  fixes k :: "'w k8s" and slug :: string
  defines "I \<equiv> guarded (room_rule (k_lib k) slug)"
  shows "logs I (checkQuotaHeadroom (logging k) slug (TenantNamespace slug) spec)
    (\<lambda>_ l. I l \<and> (\<forall>g ok. gs_spec g = spec \<longrightarrow> room_rule (k_lib k) slug (set l) (EvCreate (OGs g) ok))) (\<lambda>_. I)"
  unfolding checkQuotaHeadroom_def loadQuota_def logging_kinds k_lib_logging
  apply (rule logs_bindE [where R = "\<lambda>r l. I l \<and> (case r of None \<Rightarrow> EvGetFailed [] slug True \<in> set l
      | Some (q, used) \<Rightarrow> \<exists>t xs. EvGot [] slug (OTenant t) \<in> set l \<and>
          EvListed ''GameServer'' (Some (TenantNamespace slug)) [] (map OGs xs) \<in> set l \<and> q = tn_quota t \<and> used = usedBy (k_lib k) xs [])"])
   apply (rule logs_bindE [where R = "\<lambda>r l. I l \<and> (case r of None \<Rightarrow> EvGetFailed [] slug True \<in> set l | Some t \<Rightarrow> EvGot [] slug (OTenant t) \<in> set l)"])
    apply (rule logs_found_or_none, rule log_rules; auto simp: I_def room_rule_def)
   apply (rule logs_case_option)
    apply (rule logs_ret, simp)
   apply (rule logs_bindE [where R = "\<lambda>xs l. I l \<and> EvGot [] slug (OTenant t) \<in> set l \<and>
      EvListed ''GameServer'' (Some (TenantNamespace slug)) [] (map OGs xs) \<in> set l" for t])
    apply (rule log_rules; auto simp: I_def room_rule_def)
   apply (rule logs_ret, auto)[1]
  apply (rule logs_case_option)
   apply (rule logs_ret, auto simp: room_rule_def)[1]
  apply (rule logs_case_prod)
  apply (rule logs_if)
   apply (rule logs_throw, simp)
  apply (rule logs_liftE)
   apply simp
  apply (rule conjI, simp)
  apply (intro allI impI)
  subgoal premises prems for r p q used l u g ok
    using prems headroom_within [of q "k_lib k" _ spec] by (auto simp: room_rule_def)
  done

lemma createNamed_room:
  assumes "pn_k P = logging k"
  shows "traced (guarded (room_rule (k_lib k) (og_slug (ac_org acc)))) (createNamed P r name spec u acc)
    (guarded (room_rule (k_lib k) (og_slug (ac_org acc))))"
  unfolding createNamed_def Let_def assms logging_kinds auditServer_def
  apply (rule traced_quiet [OF checkAgainstEgg_reads])
    apply (simp add: room_rule_quiet)
   apply (rule traced_callK [OF checkQuotaHeadroom_room])
    apply (rule traced_callK [where R = "\<lambda>_. guarded (room_rule (k_lib k) (og_slug (ac_org acc)))" and E = "\<lambda>_. guarded (room_rule (k_lib k) (og_slug (ac_org acc)))"])
      apply (rule log_rules; simp add: newGameServer_def)
     apply (intro traced_rules; assumption)+
  done

lemma handleCreateGameServer_room:
  assumes "pn_k P = logging k"
  shows "traced (guarded (room_rule (k_lib k) (og_slug (ac_org acc)))) (handleCreateGameServer P r body u acc)
    (guarded (room_rule (k_lib k) (og_slug (ac_org acc))))"
  unfolding handleCreateGameServer_def
  apply (intro traced_case_sum traced_case_prod traced_if)
      apply (intro traced_rules; assumption)
     apply (intro traced_rules; assumption)
    apply (intro traced_rules; assumption)
   apply (simp only: assms logging_kinds)
   apply (rule traced_quiet [where A = reading, OF only_calls(2)])
      apply simp
     apply (simp add: room_rule_quiet)
    apply (rule createNamed_room [OF assms])
   apply (intro traced_rules; assumption)
  apply (rule createNamed_room [OF assms])
  done

text \<open>
  C7: The panel creates a game server only after it read the organization's Tenant and listed the servers of its namespace, and
  when with the new one their number, CPU, memory and storage are within the Tenant's quota; without a Tenant the
  cluster's own ResourceQuota decides.
\<close>

theorem create_within_quota:
  assumes "pn_k P = logging k" and "snd (hw_env w) = []"
  shows "guarded (room_rule (k_lib k) (og_slug (ac_org acc))) (snd (hw_env (snd (handleCreateGameServer P r body u acc w))))"
  using tracedD [OF handleCreateGameServer_room [OF assms(1)]] assms(2) by simp

definition roomy_k8s :: "unit k8s" where
  "roomy_k8s = absent_k8s\<lparr>k_tenant := absent_rest\<lparr>r_get := (\<lambda>ns n. ret ex_tenant)\<rparr>,
     k_gs := accept_rest\<lparr>r_list := (\<lambda>ns sel. ret [ex_gs])\<rparr>\<rparr>"

definition created :: "event \<Rightarrow> bool" where
  "created e = (case e of EvCreate (OGs g) True \<Rightarrow> om_name (gs_meta g) = ''mc2'' | _ \<Rightarrow> False)"

lemma roomy_creates:
  "list_ex created (snd (hw_env (snd (handleCreateGameServer (panelOn (logging roomy_k8s)) (signed_request ''a'')
     (Inr (''mc2'', gs_spec ex_gs)) (sample_user 1) acmeOwner (worldOf ((), []))))))"
  by code_simp

lemma create_within_quota_witness:
  "let l = snd (hw_env (snd (handleCreateGameServer (panelOn (logging roomy_k8s)) (signed_request ''a'')
     (Inr (''mc2'', gs_spec ex_gs)) (sample_user 1) acmeOwner (worldOf ((), []))))) in
   guarded (room_rule std_lib ''acme'') l \<and> list_ex created l"
  using create_within_quota [of "panelOn (logging roomy_k8s)" roomy_k8s "worldOf ((), [])" acmeOwner "signed_request ''a''"
      "Inr (''mc2'', gs_spec ex_gs)" "sample_user 1"] roomy_creates
  by (simp add: Let_def panelOn_def worldOf_def acmeOwner_def sample_acme_def roomy_k8s_def absent_k8s_def)

section \<open>Suspended servers\<close>

text \<open>Every table but the audit trail.\<close>

definition unaudited :: "pdb \<Rightarrow> tables" where
  "unaudited s = (db_t s)\<lparr>tb_audit := []\<rparr>"

lemma unaudited_audit: "unaudited (snd (RecordAudit e s)) = unaudited s"
  by (auto simp: RecordAudit_def insertRow_def stmt_def Let_def unaudited_def split: list.splits)

lemma writeAudit_run:
  assumes "hw_others w = []"
  obtains d where "writeAudit e next w = next (w\<lparr>hw_db := d\<rparr>)" "unaudited d = unaudited (hw_db w)"
proof -
  obtain x d where "RecordAudit e (hw_db w) = (x, d)" by (cases "RecordAudit e (hw_db w)")
  with unaudited_audit [of e "hw_db w"] assms that show thesis by (cases x) (auto simp: writeAudit_def callD_def turn_def)
qed

text \<open>What is left of the world by a request that only read the server: the answer, the cluster, Redis and the tables.\<close>

definition locked_out :: "'w hw \<Rightarrow> 'w \<Rightarrow> reply \<times> 'w hw \<Rightarrow> bool" where
  "locked_out w e res \<longleftrightarrow> rp_status (fst res) \<in> {401, 403, 404, 423, 500} \<and> hw_env (snd res) \<in> {hw_env w, e} \<and>
     hw_cache (snd res) = hw_cache w \<and> unaudited (hw_db (snd res)) = unaudited (hw_db w)"

lemma alike_unaudited: "alike w v \<Longrightarrow> unaudited (hw_db v) = unaudited (hw_db w)"
  by (simp add: alike_def unaudited_def)

lemma locked_alike: "alike w v \<Longrightarrow> n \<in> {401, 403, 404, 423, 500} \<Longrightarrow> locked_out w e (refuse n m v)"
  by (auto simp: locked_out_def alike_unaudited alike_def)

lemma unlessSuspended_locked:
  assumes v: "alike w v" and "\<not> us_admin u" and get: "r_get (k_gs k) ns name (hw_env w) = (Inr gs, e)" and "gss_suspended (gs_spec gs)"
  obtains m where "unlessSuspended k u ns name h v = refuse 423 m (v\<lparr>hw_env := e\<rparr>)"
proof -
  from v get have "r_get (k_gs k) ns name (hw_env v) = (Inr gs, e)" by (simp add: alike_def)
  with assms that show thesis by (auto simp: unlessSuspended_def callK_def)
qed

lemma maybeAudited_locked:
  assumes v: "alike w v" and "\<not> us_admin u" and "r_get (k_gs (pn_k P)) ns name (hw_env w) = (Inr gs, e)" and "gss_suspended (gs_spec gs)"
  shows "locked_out w e (maybeAudited P r action u acc nm (unlessSuspended (pn_k P) u ns name h) v)"
proof -
  obtain m where m: "unlessSuspended (pn_k P) u ns name h v = refuse 423 m (v\<lparr>hw_env := e\<rparr>)"
    using unlessSuspended_locked [OF assms] by blast
  let ?v = "v\<lparr>hw_env := e\<rparr>"
  have at: "locked_out w e (refuse 423 m ?v)" using v by (auto simp: locked_out_def alike_def unaudited_def)
  obtain rep where rep: "refuse 423 m ?v = (rep, ?v)" "rp_status rep = 423"
    by (simp add: writeError_def writeJSON_def answer_def)
  have "locked_out w e (auditEvent S r a slug act tt tn out meta (answer rep) ?v)" for S a slug act tt tn out meta
  proof -
    have "hw_others ?v = []" using v by (simp add: alike_def)
    then obtain d where "auditEvent S r a slug act tt tn out meta (answer rep) ?v = answer rep (?v\<lparr>hw_db := d\<rparr>)" "unaudited d = unaudited (hw_db ?v)"
      unfolding auditEvent_def auditEventAs_def by (rule writeAudit_run)
    with v rep(2) show ?thesis by (auto simp: locked_out_def answer_def alike_def unaudited_def)
  qed
  with at rep m show ?thesis by (simp add: maybeAudited_def audited_def)
qed


definition suspended_gs :: gameserver where
  "suspended_gs = suspendWith ''abuse'' ex_gs"

definition lockedPanel :: "unit panel" where
  "lockedPanel = panelOn (absent_k8s\<lparr>k_gs := accept_rest\<lparr>r_get := (\<lambda>ns n. ret suspended_gs)\<rparr>\<rparr>)"

lemma no_sample_admin: "\<forall>row\<in>set (tb_users (db_t sample_db)). \<not> us_admin (scanUser row)"
  by code_simp

lemma sample_not_admin: "signed_in S (signed_request token) sample_db u \<Longrightarrow> \<not> us_admin u"
  using no_sample_admin by (auto simp: signed_in_def signed_request_def session_user_def)

lemma suspended_locked_run: "rp_status (fst (gsPermRoute lockedPanel (signed_request ''b'') ''acme'' ''mc'' ''power'' ''gameserver.restart''
    (\<lambda>u acc. writeHeader 200) (worldOf ()))) = 423"
  by code_simp


section \<open>Objects of other servers\<close>

text \<open>
  The rule on the calls: what is deleted, changed or restored is an object that was read from the organization's namespace and
  belongs to the server of the path; a restore also needs a completed backup and a stopped server.
\<close>

definition backup_of :: "string \<Rightarrow> backup \<Rightarrow> bool" where
  "backup_of server b \<longleftrightarrow> sget (om_labels (bk_meta b)) BackupGameServerLabel = server"

definition restorable :: "string \<Rightarrow> string \<Rightarrow> event set \<Rightarrow> restore \<Rightarrow> bool" where
  "restorable ns server before rs \<longleftrightarrow> (\<exists>name b gs. EvGot ns name (OBackup b) \<in> before \<and> backup_of server b \<and>
     bst_phase (bk_status b) = BkCompleted \<and> \<not> is_deleting (bk_meta b) \<and> EvGot ns server (OGs gs) \<in> before \<and>
     gss_state (gs_spec gs) = StateStopped \<and> rss_gameserver (rs_spec rs) = om_name (gs_meta gs) \<and> rss_backup (rs_spec rs) = om_name (bk_meta b))"

definition own_rule :: "string \<Rightarrow> string \<Rightarrow> event set \<Rightarrow> event \<Rightarrow> bool" where
  "own_rule ns server before e \<longleftrightarrow> (case written e of None \<Rightarrow> True
   | Some (OBackup b) \<Rightarrow> backup_of server b \<and> (\<exists>name. EvGot ns name (OBackup b) \<in> before)
   | Some (ORestore rs) \<Rightarrow> restorable ns server before rs
   | Some (OSched sc) \<Rightarrow> scs_gameserver (sch_spec sc) = server \<and>
       (\<exists>name old. EvGot ns name (OSched old) \<in> before \<and> scs_gameserver (sch_spec old) = server \<and> om_name (sch_meta sc) = om_name (sch_meta old))
   | Some _ \<Rightarrow> False)"

abbreviation owned_log :: "string \<Rightarrow> string \<Rightarrow> event list \<Rightarrow> bool" where
  "owned_log ns server \<equiv> guarded (own_rule ns server)"

lemma own_rule_quiet: "reading e \<Longrightarrow> own_rule ns server S e"
  by (simp add: own_rule_def reading_def)

lemma backupOfServer_own:
  "logs (owned_log ns server) (backupOfServer (logging k) ns server name)
     (\<lambda>r l. owned_log ns server l \<and> (case r of Inl d \<Rightarrow> True | Inr b \<Rightarrow> EvGot ns name (OBackup b) \<in> set l \<and> backup_of server b))
     (\<lambda>_. owned_log ns server)"
  unfolding backupOfServer_def logging_kinds
  apply (rule logs_bindE [where R = "\<lambda>r l. owned_log ns server l \<and> (case r of Inl d \<Rightarrow> True | Inr b \<Rightarrow> EvGot ns name (OBackup b) \<in> set l)"])
   apply (rule logs_attempt, rule log_rules; simp add: own_rule_quiet)
  apply (rule logs_ret)
  apply (auto simp: backup_of_def split: sum.splits if_splits)
  done

lemma scheduleOfServer_own:
  "logs (owned_log ns server) (scheduleOfServer (logging k) ns server name)
     (\<lambda>r l. owned_log ns server l \<and> (case r of Inl d \<Rightarrow> True | Inr sc \<Rightarrow> EvGot ns name (OSched sc) \<in> set l \<and> scs_gameserver (sch_spec sc) = server))
     (\<lambda>_. owned_log ns server)"
  unfolding scheduleOfServer_def logging_kinds
  apply (rule logs_bindE [where R = "\<lambda>r l. owned_log ns server l \<and> (case r of Inl d \<Rightarrow> True | Inr b \<Rightarrow> EvGot ns name (OSched b) \<in> set l)"])
   apply (rule logs_attempt, rule log_rules; simp add: own_rule_quiet)
  apply (rule logs_ret)
  apply (auto split: sum.splits if_splits)
  done

text \<open>After a look-up: the refusal, or a continuation that knows the object.\<close>

lemma traced_apiResult:
  assumes "logs I m (\<lambda>r l. I l \<and> (case r of Inl d \<Rightarrow> True | Inr x \<Rightarrow> F x l)) (\<lambda>_. I)" and "\<And>x. traced (\<lambda>l. I l \<and> F x l) (h x) I"
  shows "traced I (apiResult m h) I"
proof (rule traced_callK [OF assms(1)])
  fix r show "traced (\<lambda>l. I l \<and> (case r of Inl d \<Rightarrow> True | Inr x \<Rightarrow> F x l)) (case r of Inl d \<Rightarrow> writeError (fst d) (errText (snd d)) | Inr x \<Rightarrow> h x) I"
    using assms(2) by (cases r) (auto intro: traced_replies)
qed (intro traced_rules; assumption)

lemma OrgLimits_reads: "only reading (OrgLimits (logging k) B slug)"
  unfolding OrgLimits_def logging_kinds by (intro only_rules only_calls) simp_all

lemma scheduleBackupHeadroom_reads: "only reading (scheduleBackupHeadroom (logging k) B gs slug spec)"
  unfolding scheduleBackupHeadroom_def by (intro only_rules OrgLimits_reads)

lemma handleDeleteBackup_own:
  assumes "pn_k P = logging k"
  shows "traced (owned_log (orgNS acc) server) (handleDeleteBackup P server name acc) (owned_log (orgNS acc) server)"
  unfolding handleDeleteBackup_def assms
  apply (rule traced_apiResult [OF backupOfServer_own])
  apply (rule traced_callK [where R = "\<lambda>_. owned_log (orgNS acc) server" and E = "\<lambda>_. owned_log (orgNS acc) server"])
    apply (unfold logging_kinds, rule logs_ignoring, rule log_rules)
     apply (auto simp: own_rule_def)[2]
   apply (intro traced_rules; assumption)+
  done

lemma handleRestoreBackup_own:
  assumes "pn_k P = logging k"
  shows "traced (owned_log (orgNS acc) server) (handleRestoreBackup P server name acc) (owned_log (orgNS acc) server)"
  unfolding handleRestoreBackup_def assms
  apply (rule traced_apiResult [OF backupOfServer_own])
  apply (rule traced_if)
   apply (intro traced_rules; simp)
  subgoal for b
    apply (rule traced_callK [where R = "\<lambda>gs l. (owned_log (orgNS acc) server l \<and> EvGot (orgNS acc) name (OBackup b) \<in> set l \<and> backup_of server b) \<and>
        EvGot (orgNS acc) server (OGs gs) \<in> set l" and E = "\<lambda>_. owned_log (orgNS acc) server"])
      apply (unfold logging_kinds, rule log_rules; simp add: own_rule_quiet)
     apply (rule traced_if)
      apply (intro traced_rules; simp)
     apply (rule traced_readEnv)
     apply (rule traced_callK [where R = "\<lambda>_. owned_log (orgNS acc) server" and E = "\<lambda>_. owned_log (orgNS acc) server"])
       apply (unfold logging_kinds, rule log_rules)
        apply (fastforce simp: own_rule_def restorable_def restoreOf_def)+
      apply (intro traced_rules; assumption)+
    done
  done

lemma checkSchedule_own:
  assumes "pn_k P = logging k" and "traced I h I" and "\<And>l e. I l \<Longrightarrow> reading e \<Longrightarrow> I (l @ [e])"
  shows "traced I (checkSchedule P server acc spec h) I"
  unfolding checkSchedule_def assms(1)
  apply (rule traced_quiet [where A = reading])
     apply (unfold logging_kinds, rule only_calls; simp)
    apply (erule (1) assms(3))
   apply (rule traced_quiet [OF scheduleBackupHeadroom_reads])
     apply (erule (1) assms(3))
    apply (rule traced_case_option)
     apply (rule assms(2))
    apply (intro traced_rules; assumption)+
  done

text \<open>A write of a schedule that was looked up.\<close>

lemma own_rule_sched:
  assumes "EvGot ns name (OSched old) \<in> S" "scs_gameserver (sch_spec old) = server" "scs_gameserver (sch_spec sc) = server"
    "om_name (sch_meta sc) = om_name (sch_meta old)"
  shows "own_rule ns server S (EvUpdate (OSched sc) ok)" "own_rule ns server S (EvDelete (OSched sc) ok)"
    "own_rule ns server S (EvPatch x (OSched sc) ok)"
  using assms by (auto simp: own_rule_def)

lemma handleUpdateSchedule_own:
  assumes "pn_k P = logging k"
  shows "traced (owned_log (orgNS acc) server) (handleUpdateSchedule P server name body acc) (owned_log (orgNS acc) server)"
  unfolding handleUpdateSchedule_def assms Let_def
  apply (rule traced_apiResult [OF scheduleOfServer_own])
  apply (intro traced_case_sum traced_if)
    apply (intro traced_rules; simp)
   apply (intro traced_rules; simp)
  subgoal for sc req
    apply (rule traced_pre [where P' = "\<lambda>l. owned_log (orgNS acc) server l \<and> EvGot (orgNS acc) name (OSched sc) \<in> set l \<and> scs_gameserver (sch_spec sc) = server"])
     apply (rule traced_post)
      apply (rule checkSchedule_own [OF assms])
       apply (rule traced_callK [where R = "\<lambda>_ l. owned_log (orgNS acc) server l \<and> EvGot (orgNS acc) name (OSched sc) \<in> set l \<and> scs_gameserver (sch_spec sc) = server"
           and E = "\<lambda>_ l. owned_log (orgNS acc) server l \<and> EvGot (orgNS acc) name (OSched sc) \<in> set l \<and> scs_gameserver (sch_spec sc) = server"])
         apply (unfold logging_kinds, rule log_rules)
          apply (auto intro!: own_rule_sched simp: specFromWrite_def)[2]
        apply (intro traced_rules; assumption)+
      apply (simp add: own_rule_quiet)
     apply simp
    apply simp
    done
  done

lemma handleDeleteSchedule_own:
  assumes "pn_k P = logging k"
  shows "traced (owned_log (orgNS acc) server) (handleDeleteSchedule P server name acc) (owned_log (orgNS acc) server)"
  unfolding handleDeleteSchedule_def assms
  apply (rule traced_apiResult [OF scheduleOfServer_own])
  apply (rule traced_callK [where R = "\<lambda>_. owned_log (orgNS acc) server" and E = "\<lambda>_. owned_log (orgNS acc) server"])
    apply (unfold logging_kinds, rule logs_ignoring, rule log_rules)
     apply (auto intro!: own_rule_sched)[2]
   apply (intro traced_rules; assumption)+
  done

lemma handleRunSchedule_own:
  assumes "pn_k P = logging k"
  shows "traced (owned_log (orgNS acc) server) (handleRunSchedule P server name acc) (owned_log (orgNS acc) server)"
  unfolding handleRunSchedule_def assms
  apply (rule traced_apiResult [OF scheduleOfServer_own])
  apply (rule traced_readEnv)
  apply (rule traced_callK [where R = "\<lambda>_. owned_log (orgNS acc) server" and E = "\<lambda>_. owned_log (orgNS acc) server"])
    apply (unfold logging_kinds, rule log_rules)
     apply (auto intro!: own_rule_sched simp: runNow_def)[2]
   apply (intro traced_rules; assumption)+
  done

text \<open>
  C11: Through the address of a server only its own backups and schedules can be deleted, changed, run or restored, and a restore
  is made only from a completed backup that is not being deleted, onto a server that is stopped.
\<close>

theorem own_objects_only:
  assumes "pn_k P = logging k" and "snd (hw_env w) = []"
  shows "owned_log (orgNS acc) server (snd (hw_env (snd (handleDeleteBackup P server name acc w)))) \<and>
    owned_log (orgNS acc) server (snd (hw_env (snd (handleRestoreBackup P server name acc w)))) \<and>
    owned_log (orgNS acc) server (snd (hw_env (snd (handleUpdateSchedule P server name body acc w)))) \<and>
    owned_log (orgNS acc) server (snd (hw_env (snd (handleDeleteSchedule P server name acc w)))) \<and>
    owned_log (orgNS acc) server (snd (hw_env (snd (handleRunSchedule P server name acc w))))"
  using assms(2) handleDeleteBackup_own [OF assms(1), THEN tracedD] handleRestoreBackup_own [OF assms(1), THEN tracedD]
    handleUpdateSchedule_own [OF assms(1), THEN tracedD] handleDeleteSchedule_own [OF assms(1), THEN tracedD]
    handleRunSchedule_own [OF assms(1), THEN tracedD]
  by simp

definition mc_backup :: backup where
  "mc_backup = ex_backup\<lparr>bk_meta := (bk_meta ex_backup)\<lparr>om_labels := [BackupGameServerLabel \<mapsto> ''mc'']\<rparr>,
     bk_status := (bk_status ex_backup)\<lparr>bst_phase := BkCompleted\<rparr>\<rparr>"

definition backup_k8s :: "unit k8s" where
  "backup_k8s = absent_k8s\<lparr>k_backup := accept_rest\<lparr>r_get := (\<lambda>ns n. ret mc_backup)\<rparr>, k_restore := accept_rest,
     k_sched := accept_rest\<lparr>r_get := (\<lambda>ns n. ret ex_schedule)\<rparr>,
     k_gs := accept_rest\<lparr>r_get := (\<lambda>ns n. ret (ex_gs\<lparr>gs_spec := (gs_spec ex_gs)\<lparr>gss_state := StateStopped\<rparr>\<rparr>))\<rparr>\<rparr>"

definition restored :: "event \<Rightarrow> bool" where
  "restored e = (case e of EvCreate (ORestore rs) True \<Rightarrow> rss_backup (rs_spec rs) = ''mc-1'' | _ \<Rightarrow> False)"

lemma backup_restores:
  "list_ex restored (snd (hw_env (snd (handleRestoreBackup (panelOn (logging backup_k8s)) ''mc'' ''mc-1'' acmeOwner (worldOf ((), []))))))"
  by code_simp

lemma own_objects_only_witness:
  "owned_log ''hatchery-acme'' ''mc'' (snd (hw_env (snd (handleRestoreBackup (panelOn (logging backup_k8s)) ''mc'' ''mc-1'' acmeOwner (worldOf ((), [])))))) \<and>
   list_ex restored (snd (hw_env (snd (handleRestoreBackup (panelOn (logging backup_k8s)) ''mc'' ''mc-1'' acmeOwner (worldOf ((), []))))))"
  using own_objects_only [of "panelOn (logging backup_k8s)" backup_k8s "worldOf ((), [])" acmeOwner "''mc''" "''mc-1''"
      "Inl (DbErr DbDriver)"] backup_restores
  by (simp add: panelOn_def worldOf_def acmeOwner_def sample_acme_def TenantNamespace_def TenantNamespacePrefix_def)

end
