(* ===== verification/Panel_Upkeep.thy ===== *)
theory Panel_Upkeep
  imports Panel_Guarantees
begin

text \<open>
  What the panel does on its own: an alert goes out once, the audit trail loses what is past its retention and nothing else,
  and the password that the first start leaves in its Secret opens the account.
\<close>

section \<open>Alerts go out once\<close>

definition notifiedKey :: "org \<Rightarrow> occurrence \<Rightarrow> string" where
  "notifiedKey g occ = ''hatchery:notified:'' @ og_slug g @ ''/'' @ oc_identity occ"

lemma callD_cases:
  obtains (bad) e v where "hw_env v = hw_env w" "hw_cache v = hw_cache w" "callD m bad good w = bad e v"
  | (good) x v where "hw_env v = hw_env w" "hw_cache v = hw_cache w" "callD m bad good w = good x v"
proof -
  have t: "hw_env (turn w) = hw_env w" "hw_cache (turn w) = hw_cache w" by (auto simp: turn_def split: list.splits)
  obtain r d where m: "m (hw_db (turn w)) = (r, d)" by (cases "m (hw_db (turn w))")
  show thesis
  proof (cases r)
    case (Inl e) with m t show thesis by (intro bad [of "(turn w)\<lparr>hw_db := d\<rparr>" e]) (simp_all add: callD_def Let_def)
  next
    case (Inr x) with m t show thesis by (intro good [of "(turn w)\<lparr>hw_db := d\<rparr>" x]) (simp_all add: callD_def Let_def)
  qed
qed

text \<open>Handlers that leave Redis alone.\<close>

definition uncached :: "'w handler \<Rightarrow> bool" where
  "uncached h \<longleftrightarrow> (\<forall>v. hw_cache (snd (h v)) = hw_cache v)"

lemma uncached_reply: "uncached (writeHeader n)"
  by (simp add: uncached_def writeHeader_def answer_def)

lemma uncached_callD: "(\<And>e. uncached (bad e)) \<Longrightarrow> (\<And>x. uncached (good x)) \<Longrightarrow> uncached (callD m bad good)"
  unfolding uncached_def by (metis callD_cases)

lemma uncached_callK: "(\<And>e. uncached (bad e)) \<Longrightarrow> (\<And>x. uncached (good x)) \<Longrightarrow> uncached (callK m bad good)"
  by (auto simp: uncached_def callK_def split: prod.splits sum.splits)

lemma uncached_if: "uncached g \<Longrightarrow> uncached h \<Longrightarrow> uncached (if b then g else h)"
  by simp

lemma uncached_option: "uncached h \<Longrightarrow> (\<And>x. uncached (f x)) \<Longrightarrow> uncached (case r of None \<Rightarrow> h | Some x \<Rightarrow> f x)"
  by (cases r) auto

lemmas uncached_rules = uncached_reply uncached_callD uncached_callK uncached_if uncached_option

lemma uncached_mailEach: "(\<And>n e. uncached (k n e)) \<Longrightarrow> uncached (mailEach S g a rs n e k)"
  by (induction S g a rs n e k rule: mailEach.induct) (auto intro!: uncached_callK)

lemma uncached_deliver: "uncached h \<Longrightarrow> uncached (deliver P g occ name webhook rs h)"
  unfolding deliver_def Let_def sendDiscordAlert_def sendAlertMail_def writeAudit_def
  by (intro uncached_rules uncached_mailEach)

lemma rSetNX_taken: "look k c \<noteq> None \<Longrightarrow> fst (rSetNX k v ttl c) \<noteq> Inr True"
  by (auto simp: rSetNX_def cmd_def look_def Let_def split: list.splits fate.splits option.splits prod.splits if_splits)

lemma look_put_later: "look k ((putKey k x c)\<lparr>rd_now := t\<rparr>) = (if unexpired t (snd x) then Some x else None)"
  by (cases x) (simp add: look_def putKey_def update_conv)

lemma rSetNX_made:
  assumes "rSetNX k v ttl c = (Inr True, c')" and "t < rd_now c + ttl"
  shows "look k (c'\<lparr>rd_now := t, rd_fates := fs\<rparr>) \<noteq> None"
proof -
  from assms(1) obtain d where "c' = putKey k (v, Some (rd_now c + ttl)) d"
    by (auto simp: rSetNX_def cmd_def Let_def split: list.splits fate.splits if_splits)
  with assms(2) show ?thesis by (simp add: look_put_later unexpired_def)
qed

text \<open>An alert is stopped before the claim, or claims; the tail is what a claim that was won does.\<close>

definition afterClaim :: "'w panel \<Rightarrow> org \<Rightarrow> occurrence \<Rightarrow> string \<Rightarrow> 'w handler \<Rightarrow> notification_settings \<Rightarrow> bool \<Rightarrow> 'w handler" where
  "afterClaim P g occ name h st claimed = (if \<not> claimed then h
     else callD (ListAlertRecipients (og_id g)) (\<lambda>_. deliver P g occ name (ns_webhook st) [] h) (\<lambda>rs. deliver P g occ name (ns_webhook st) rs h))"

lemma ClaimNotified_key: "ClaimNotified (og_slug g @ ''/'' @ oc_identity occ) = rSetNX (notifiedKey g occ) (RInt 1) NotifiedTTL"
  by (simp add: ClaimNotified_def notifiedKey_def)

lemma notify_cases:
  obtains (stop) v where "hw_env v = hw_env w" "hw_cache v = hw_cache w" "notify P g occ name h w = h v"
  | (claim) st v where "hw_env v = hw_env w" "hw_cache v = hw_cache w"
      "notify P g occ name h w = callR (rSetNX (notifiedKey g occ) (RInt 1) NotifiedTTL) (\<lambda>_. h) (afterClaim P g occ name h st) v"
proof (cases "pn_notified P")
  case False
  with stop [of w] show thesis by (simp add: notify_def)
next
  case True
  let ?good = "\<lambda>st. if oc_event occ \<in> set (ns_muted st) then h
      else callR (rSetNX (notifiedKey g occ) (RInt 1) NotifiedTTL) (\<lambda>_. h) (afterClaim P g occ name h st)"
  have run: "notify P g occ name h w = callD (GetNotificationSettings (og_id g)) (\<lambda>_. h) ?good w"
    using True by (simp only: notify_def ClaimNotified_key afterClaim_def [abs_def] not_True_eq_False if_False)
  show thesis
  proof (rule callD_cases [of w "GetNotificationSettings (og_id g)" "\<lambda>_. h" ?good])
    fix e v assume "hw_env v = hw_env w" "hw_cache v = hw_cache w" "callD (GetNotificationSettings (og_id g)) (\<lambda>_. h) ?good w = h v"
    with stop run show thesis by simp
  next
    fix st v assume "hw_env v = hw_env w" "hw_cache v = hw_cache w" "callD (GetNotificationSettings (og_id g)) (\<lambda>_. h) ?good w = ?good st v"
    with stop claim run show thesis by (cases "oc_event occ \<in> set (ns_muted st)") simp_all
  qed
qed

lemma reply_env [simp]: "hw_env (snd (writeHeader n v)) = hw_env v"
  by (simp add: writeHeader_def answer_def)

text \<open>Once claimed, nobody is told again.\<close>

lemma notify_claimed:
  assumes "look (notifiedKey g occ) (hw_cache w) \<noteq> None"
  shows "hw_env (snd (notify P g occ name (writeHeader 0) w)) = hw_env w"
proof (rule notify_cases [of w P g occ name "writeHeader 0"])
  fix st v
  assume v: "hw_env v = hw_env w" "hw_cache v = hw_cache w"
    and run: "notify P g occ name (writeHeader 0) w =
      callR (rSetNX (notifiedKey g occ) (RInt 1) NotifiedTTL) (\<lambda>_. writeHeader 0) (afterClaim P g occ name (writeHeader 0) st) v"
  from assms rSetNX_taken [of "notifiedKey g occ" "hw_cache v" "RInt 1" NotifiedTTL] v(2)
  have "fst (rSetNX (notifiedKey g occ) (RInt 1) NotifiedTTL (hw_cache v)) \<noteq> Inr True" by simp
  then show ?thesis unfolding run using v(1) by (auto simp: callR_def afterClaim_def split: prod.splits sum.splits)
qed simp

lemma notify_claims:
  assumes changed: "hw_env (snd (notify P g occ name (writeHeader 0) w)) \<noteq> hw_env w" and t: "t < rd_now (hw_cache w) + NotifiedTTL"
  shows "look (notifiedKey g occ) ((hw_cache (snd (notify P g occ name (writeHeader 0) w)))\<lparr>rd_now := t, rd_fates := fs\<rparr>) \<noteq> None"
proof (rule notify_cases [of w P g occ name "writeHeader 0"])
  fix st v
  assume v: "hw_env v = hw_env w" "hw_cache v = hw_cache w"
    and run: "notify P g occ name (writeHeader 0) w =
      callR (rSetNX (notifiedKey g occ) (RInt 1) NotifiedTTL) (\<lambda>_. writeHeader 0) (afterClaim P g occ name (writeHeader 0) st) v"
  obtain r c where r: "rSetNX (notifiedKey g occ) (RInt 1) NotifiedTTL (hw_cache v) = (r, c)"
    by (cases "rSetNX (notifiedKey g occ) (RInt 1) NotifiedTTL (hw_cache v)")
  with changed v have won: "r = Inr True"
    unfolding run by (cases r; cases "r = Inr True") (auto simp: callR_def afterClaim_def)
  have "uncached (afterClaim P g occ name (writeHeader 0) st True)"
    unfolding afterClaim_def by (intro uncached_rules uncached_deliver)
  then have "hw_cache (snd (notify P g occ name (writeHeader 0) w)) = c"
    unfolding run using r won by (simp add: callR_def uncached_def)
  with rSetNX_made [of "notifiedKey g occ" "RInt 1" NotifiedTTL "hw_cache v" c t fs] r won t v(2) show ?thesis by simp
next
  fix v
  assume "hw_env v = hw_env w" "notify P g occ name (writeHeader 0) w = writeHeader 0 v"
  with changed show ?thesis by simp
qed

text \<open>
  C13: An alert goes out once: of two rounds that find the same occurrence within a day, on the same replica of the panel or on two
  of them, whatever Redis or the database do to either, at most one sends anything.
\<close>

theorem notify_once:
  assumes "t < rd_now (hw_cache w) + NotifiedTTL"
    and "hw_cache w2 = (hw_cache (snd (notify P g occ name (writeHeader 0) w)))\<lparr>rd_now := t, rd_fates := fs\<rparr>"
  shows "hw_env (snd (notify P g occ name (writeHeader 0) w)) = hw_env w \<or>
    hw_env (snd (notify P2 g occ name2 (writeHeader 0) w2)) = hw_env w2"
  using notify_claims [OF _ assms(1)] notify_claimed [of g occ w2 P2 name2] assms(2) by metis

definition tellingPanel :: "string list panel" where
  "tellingPanel = panelOn absent_k8s\<lparr>pn_server := pn_server (panelOn absent_k8s)\<lparr>sv_send := Some (\<lambda>m l. (Inr (), l @ [ml_to m]))\<rparr>\<rparr>"

definition crashedOnce :: occurrence where
  "crashedOnce = \<lparr>oc_event = eventGaveUp, oc_identity = ''gave_up/u/5'', oc_gameserver = ''mc'', oc_detail = ''exit 1'', oc_at = 5\<rparr>"

lemma notify_tells:
  "hw_env (snd (notify tellingPanel sample_acme crashedOnce ''mc'' (writeHeader 0) (worldOf []))) = [''ada@a.org'']"
  by code_simp

lemma notify_once_witness:
  "let w1 = snd (notify tellingPanel sample_acme crashedOnce ''mc'' (writeHeader 0) (worldOf []));
       w2 = worldOf []\<lparr>hw_cache := (hw_cache w1)\<lparr>rd_now := 9, rd_fates := []\<rparr>\<rparr> in
   hw_env w1 = [''ada@a.org''] \<and> hw_env (snd (notify tellingPanel sample_acme crashedOnce ''mc'' (writeHeader 0) w2)) = []"
  using notify_once [where t = 9 and w = "worldOf []" and P = tellingPanel and g = sample_acme and occ = crashedOnce and name = "''mc''"
      and fs = "[]" and ?P2.0 = tellingPanel and ?name2.0 = "''mc''" and
      ?w2.0 = "worldOf []\<lparr>hw_cache := (hw_cache (snd (notify tellingPanel sample_acme crashedOnce ''mc'' (writeHeader 0) (worldOf []))))\<lparr>rd_now := 9, rd_fates := []\<rparr>\<rparr>"] notify_tells
  by (simp add: Let_def worldOf_def no_redis_def NotifiedTTL_def hour_def minute_def second_def)

section \<open>The audit trail\<close>

text \<open>
  Past its retention: the organization's own, when its Tenant has one, or the default, which the events of the platform and of
  organizations without a retention of their own are held to.
\<close>

definition ownRetention :: "time \<Rightarrow> tenant list \<Rightarrow> audit_row \<Rightarrow> bool" where
  "ownRetention now ts a \<longleftrightarrow> (\<exists>t\<in>set ts. \<exists>n. tq_audit_days (tn_quota t) = Some n \<and> om_name (tn_meta t) = ae_org_slug (ar_event a) \<and>
     ae_org_slug (ar_event a) \<noteq> [] \<and> ar_created a < retentionStart now n)"

definition pastRetention :: "time \<Rightarrow> int \<Rightarrow> tenant list \<Rightarrow> audit_row \<Rightarrow> bool" where
  "pastRetention now days ts a \<longleftrightarrow> ownRetention now ts a \<or>
     0 < days \<and> ar_created a < retentionStart now days \<and>
     (ae_org_slug (ar_event a) = [] \<or> \<not> (\<exists>t\<in>set ts. tq_audit_days (tn_quota t) \<noteq> None \<and> om_name (tn_meta t) = ae_org_slug (ar_event a)))"

definition ownNames :: "tenant list \<Rightarrow> string list" where
  "ownNames ts = map (\<lambda>t. om_name (tn_meta t)) (filter (\<lambda>t. tq_audit_days (tn_quota t) \<noteq> None) ts)"

lemma pruneAudit_run:
  assumes "db_faults s = []"
  shows "pruneAudit p s = (Inr (countWhere p (tb_audit (db_t s))), s\<lparr>db_t := (db_t s)\<lparr>tb_audit := filter (\<lambda>r. \<not> p r) (tb_audit (db_t s))\<rparr>\<rparr>)"
  using assms by (simp add: pruneAudit_def exec_def stmt_def Let_def)

text \<open>What a prune with these events left is a filter of what was there.\<close>

definition leaves :: "(audit_row \<Rightarrow> bool) \<Rightarrow> 'w hw \<Rightarrow> 'w hw \<Rightarrow> bool" where
  "leaves p w v \<longleftrightarrow> hw_others v = [] \<and> db_faults (hw_db v) = [] \<and>
     db_t (hw_db v) = (db_t (hw_db w))\<lparr>tb_audit := filter (\<lambda>r. \<not> p r) (tb_audit (db_t (hw_db w)))\<rparr>"

lemma leaves_trans: "leaves p w v \<Longrightarrow> leaves q v x \<Longrightarrow> leaves (\<lambda>r. p r \<or> q r) w x"
  by (simp add: leaves_def conj_commute)

lemma prune_step:
  assumes "hw_others w = []" "db_faults (hw_db w) = []"
  obtains v where "leaves p w v" "callD (pruneAudit p) bad good w = good (countWhere p (tb_audit (db_t (hw_db w)))) v"
  using assms that [of "w\<lparr>hw_db := snd (pruneAudit p (hw_db w))\<rparr>"] by (simp add: callD_def turn_def leaves_def pruneAudit_run)

lemma pruneOwn_leaves:
  assumes "hw_others w = []" "db_faults (hw_db w) = []"
  shows "\<exists>v. leaves (ownRetention now ts) w v \<and> pruneOwn now ts own bad k w = k (own @ ownNames ts) v"
  using assms
proof (induction ts arbitrary: own w)
  case Nil
  then have "leaves (ownRetention now []) w w" by (simp add: leaves_def ownRetention_def)
  then show ?case by (auto simp: ownNames_def)
next
  case (Cons t ts)
  show ?case
  proof (cases "tq_audit_days (tn_quota t)")
    case None
    then have "ownRetention now (t # ts) = ownRetention now ts" by (auto simp: ownRetention_def fun_eq_iff)
    with Cons.IH [OF Cons.prems] None show ?thesis by (simp add: ownNames_def)
  next
    case (Some n)
    let ?p = "\<lambda>r. om_name (tn_meta t) \<noteq> [] \<and> ae_org_slug (ar_event r) = om_name (tn_meta t) \<and> ar_created r < retentionStart now n"
    obtain v where v: "leaves ?p w v" "pruneOwn now (t # ts) own bad k w = pruneOwn now ts (own @ [om_name (tn_meta t)]) bad k v"
      using prune_step [OF Cons.prems, of ?p bad "\<lambda>_. pruneOwn now ts (own @ [om_name (tn_meta t)]) bad k"] Some
      by (auto simp: PruneOrgAudit_def)
    obtain x where x: "leaves (ownRetention now ts) v x"
      "pruneOwn now ts (own @ [om_name (tn_meta t)]) bad k v = k ((own @ [om_name (tn_meta t)]) @ ownNames ts) x"
      using Cons.IH [of v "own @ [om_name (tn_meta t)]"] v(1) by (auto simp: leaves_def)
    have "(\<lambda>r. ?p r \<or> ownRetention now ts r) = ownRetention now (t # ts)" using Some by (auto simp: ownRetention_def fun_eq_iff)
    with leaves_trans [OF v(1) x(1)] v(2) x(2) Some show ?thesis by (auto simp: ownNames_def)
  qed
qed

text \<open>
  C16: A round of the audit pruner that nothing disturbs deletes exactly the events past their retention: the organization's own when
  its Tenant sets one, which may be longer or shorter than the default, and the default for every other event.
\<close>

theorem PruneOnce_exact:
  assumes "hw_others w = []" and "db_faults (hw_db w) = []" and "r_list (k_tenant k) None [] (hw_env w) = (Inr ts, e)"
  shows "db_t (hw_db (snd (PruneOnce k days bad (writeHeader 200) w))) =
    (db_t (hw_db w))\<lparr>tb_audit := filter (\<lambda>a. \<not> pastRetention (k_now k (hw_env w)) days ts a) (tb_audit (db_t (hw_db w)))\<rparr>"
proof -
  let ?now = "k_now k (hw_env w)" and ?w = "w\<lparr>hw_env := e\<rparr>"
  have slugs: "ae_org_slug (ar_event a) \<in> set (ownNames ts) \<longleftrightarrow>
      (\<exists>t\<in>set ts. tq_audit_days (tn_quota t) \<noteq> None \<and> om_name (tn_meta t) = ae_org_slug (ar_event a))" for a
    by (force simp: ownNames_def)
  have w: "hw_others ?w = []" "db_faults (hw_db ?w) = []" using assms by simp_all
  let ?next = "\<lambda>own. if 0 < days then callD (PruneAuditExcept (retentionStart ?now days) own) bad (\<lambda>_. writeHeader 200) else writeHeader 200"
  from pruneOwn_leaves [OF w, of ?now ts "[]" bad ?next]
  obtain v where v: "leaves (ownRetention ?now ts) w v" "pruneOwn ?now ts [] bad ?next ?w = ?next (ownNames ts) v"
    by (auto simp: leaves_def)
  have run: "PruneOnce k days bad (writeHeader 200) w = ?next (ownNames ts) v"
    using assms(3) v(2) by (simp add: PruneOnce_def readEnv_def callK_def)
  show ?thesis
  proof (cases "0 < days")
    case False
    then have "pastRetention ?now days ts = ownRetention ?now ts" by (simp add: pastRetention_def fun_eq_iff)
    with False v(1) show ?thesis unfolding run by (simp add: leaves_def writeHeader_def answer_def)
  next
    case True
    let ?p = "\<lambda>r. ar_created r < retentionStart ?now days \<and>
      (ownNames ts = [] \<or> ae_org_slug (ar_event r) = [] \<or> ae_org_slug (ar_event r) \<notin> set (ownNames ts))"
    from v(1) have "hw_others v = []" "db_faults (hw_db v) = []" by (simp_all add: leaves_def)
    from prune_step [OF this, of ?p bad "\<lambda>_. writeHeader 200"] obtain x where x: "leaves ?p v x"
      "?next (ownNames ts) v = writeHeader 200 x" using True by (auto simp: PruneAuditExcept_def)
    have "(\<lambda>r. ownRetention ?now ts r \<or> ?p r) = pastRetention ?now days ts"
      using True unfolding pastRetention_def slugs [symmetric] by (auto simp: fun_eq_iff)
    with leaves_trans [OF v(1) x(1)] have "leaves (pastRetention ?now days ts) w x" by simp
    then show ?thesis unfolding run x(2) by (simp add: leaves_def writeHeader_def answer_def)
  qed
qed

definition old_event :: "int \<Rightarrow> string \<Rightarrow> time \<Rightarrow> audit_row" where
  "old_event i slug t = \<lparr>audit_row.ar_id = i, ar_event = \<lparr>ae_org_slug = slug, ae_actor = None, ae_actor_name = ''ada'', ae_action = ''login'',
     ae_target_type = [], ae_target = [], ae_outcome = ''success'', ae_ip = [], ae_meta = []\<rparr>, ar_created = t\<rparr>"

definition tenMonths :: time where "tenMonths = 300 * 24 * hour"

definition pruned_k8s :: "unit k8s" where
  "pruned_k8s = absent_k8s\<lparr>k_now := (\<lambda>_. tenMonths),
     k_tenant := absent_rest\<lparr>r_list := (\<lambda>ns sel. ret [ex_tenant\<lparr>tn_quota := (tn_quota ex_tenant)\<lparr>tq_audit_days := Some 200\<rparr>\<rparr>])\<rparr>\<rparr>"

definition auditedWorld :: "unit hw" where
  "auditedWorld = worldOf ()\<lparr>hw_db := sample_db\<lparr>db_t := (db_t sample_db)\<lparr>tb_audit :=
     [old_event 1 ''acme'' 0, old_event 2 ''acme'' (150 * 24 * hour), old_event 3 [] (150 * 24 * hour), old_event 4 ''gone'' (280 * 24 * hour)]\<rparr>\<rparr>\<rparr>"

lemma pruned_filter:
  "map audit_row.ar_id (filter (\<lambda>a. \<not> pastRetention tenMonths 90 [ex_tenant\<lparr>tn_quota := (tn_quota ex_tenant)\<lparr>tq_audit_days := Some 200\<rparr>\<rparr>] a)
     (tb_audit (db_t (hw_db auditedWorld)))) = [2, 4]"
  by (simp add: auditedWorld_def old_event_def pastRetention_def ownRetention_def retentionStart_def tenMonths_def ex_tenant_def new_meta_def
      wrap64_id hour_def minute_def second_def)

lemma PruneOnce_exact_witness:
  "map audit_row.ar_id (tb_audit (db_t (hw_db (snd (PruneOnce pruned_k8s 90 (\<lambda>_. writeHeader 500) (writeHeader 200) auditedWorld))))) = [2, 4]"
  using PruneOnce_exact [of auditedWorld pruned_k8s "[ex_tenant\<lparr>tn_quota := (tn_quota ex_tenant)\<lparr>tq_audit_days := Some 200\<rparr>\<rparr>]" "()"
      90 "\<lambda>_. writeHeader 500"] pruned_filter
  by (simp add: auditedWorld_def worldOf_def sample_db_def new_db_def pruned_k8s_def ret_def)

section \<open>The first administrator\<close>

lemma find_Some_of: "x \<in> set xs \<Longrightarrow> p x \<Longrightarrow> \<exists>y. find p xs = Some y"
  by (induction xs) auto

lemma newUserRow_named: "ur_username (newUserRow n t name email h adm) = name" "ur_hash (newUserRow n t name email h adm) = h"
    "ur_admin (newUserRow n t name email h adm) = adm"
  by (simp_all add: newUserRow_def)

lemma UpsertUser_opens:
  assumes match: "\<And>p h. cr_bcrypt C p = Inr h \<Longrightarrow> cr_match C h p" and quiet: "db_faults s = []"
    and up: "UpsertUser C name email pw True s = (Inr u, s')" and name: "CHR 0x40 \<notin> set name"
  shows "db_faults s' = [] \<and> (\<exists>v. fst (VerifyPassword C name pw s') = Inr v \<and> us_username v = name \<and> us_admin v)"
proof -
  from up obtain h where h: "cr_bcrypt C pw = Inr h" and row: "upsertRow name (NormalizeEmail email) h True s = (Inr u, s')"
    by (auto simp: UpsertUser_def hashPassword_def mapErr_def bindE_def liftE_def split: sum.splits prod.splits)
  let ?mine = "\<lambda>v. ur_username v = name"
  let ?us = "tb_users (db_t s)" and ?row = "newUserRow (db_seq s) (db_now s) name (NormalizeEmail email) h True"
  let ?upd = "\<lambda>u. u\<lparr>ur_email := NormalizeEmail email, ur_hash := h, ur_admin := True, ur_updated := db_now s\<rparr>"
  from row quiet have faults: "db_faults s' = []"
    and users: "find ?mine ?us = None \<and> tb_users (db_t s') = ?us @ [?row] \<or>
      find ?mine ?us \<noteq> None \<and> tb_users (db_t s') = updateWhere ?mine ?upd ?us"
    by (auto simp: upsertRow_def insertRow_def stmt_def Let_def split: option.splits if_splits)
  from users have all: "\<forall>v\<in>set (tb_users (db_t s')). ?mine v \<longrightarrow> ur_hash v = h \<and> ur_admin v"
    by (elim disjE) (simp_all add: ball_Un newUserRow_named find_None_iff updateWhere_def)
  from users have some: "\<exists>v\<in>set (tb_users (db_t s')). ?mine v"
  proof (elim disjE conjE)
    assume "find ?mine ?us \<noteq> None" "tb_users (db_t s') = updateWhere ?mine ?upd ?us"
    then obtain x where "x \<in> set ?us" "?mine x" "tb_users (db_t s') = updateWhere ?mine ?upd ?us" by (auto simp: find_None_iff)
    then have "?upd x \<in> set (tb_users (db_t s'))" "?mine (?upd x)" by (force simp: updateWhere_def, simp)
    then show ?thesis by blast
  qed (simp add: newUserRow_named)
  from some obtain v where v: "find ?mine (tb_users (db_t s')) = Some v" using find_Some_of [of _ _ ?mine] by blast
  then have "?mine v \<and> ur_hash v = h \<and> ur_admin v" using all by (auto dest: find_someD)
  with v match [OF h] faults name show ?thesis
    by (simp add: VerifyPassword_def findUser_def query_def stmt_def bindE_def usersOf_def ret_def scanUser_def)
qed

text \<open>
  C21: When the first start says it is done and there was no Secret, the administrator's account opens with the password that
  the new Secret holds.
\<close>

theorem BootstrapAdmin_opens:
  assumes "hw_others w = []" and "db_faults (hw_db w) = []" and "\<And>p h. cr_bcrypt (sv_crypto S) p = Inr h \<Longrightarrow> cr_match (sv_crypto S) h p"
    and "r_get (k_secret (sv_k S)) ns name (hw_env w) = (Inl (ApiErr ENotFound), e)"
    and "BootstrapAdmin S ns name email (\<lambda>_. writeHeader 500) (writeHeader 200) w = (rep, v)" and "rp_status rep = 200"
  shows "\<exists>pw u sec. r_create (k_secret (sv_k S)) \<lparr>sec_meta = new_meta name ns,
       sec_data = [''username'' \<mapsto> BootstrapAdminUsername, ''password'' \<mapsto> pw]\<rparr> e = (Inr sec, hw_env v) \<and>
     fst (VerifyPassword (sv_crypto S) BootstrapAdminUsername pw (hw_db v)) = Inr u \<and> us_username u = BootstrapAdminUsername \<and> us_admin u"
proof -
  have at: "CHR 0x40 \<notin> set BootstrapAdminUsername" by (simp add: BootstrapAdminUsername_def)
  obtain raw rest where rand: "hw_random w = raw # rest"
    using assms by (cases "hw_random w") (auto simp: BootstrapAdmin_def callK_def callRand_def randBytes_def found_or_none_run writeHeader_def answer_def)
  let ?pw = "b64EncodeURL raw" and ?s = "hw_db w"
  let ?sec = "\<lparr>sec_meta = new_meta name ns, sec_data = [''username'' \<mapsto> BootstrapAdminUsername, ''password'' \<mapsto> ?pw]\<rparr>"
  obtain r d where up: "UpsertUser (sv_crypto S) BootstrapAdminUsername email ?pw True ?s = (r, d)"
    by (cases "UpsertUser (sv_crypto S) BootstrapAdminUsername email ?pw True ?s")
  obtain c k where cr: "r_create (k_secret (sv_k S)) ?sec e = (c, k)" by (cases "r_create (k_secret (sv_k S)) ?sec e")
  have run: "BootstrapAdmin S ns name email (\<lambda>_. writeHeader 500) (writeHeader 200) w =
      (case r of Inl x \<Rightarrow> writeHeader 500 (w\<lparr>hw_env := e, hw_random := rest, hw_db := d\<rparr>)
       | Inr u \<Rightarrow> (case c of Inl x \<Rightarrow> writeHeader 500 (w\<lparr>hw_random := rest, hw_db := d, hw_env := k\<rparr>)
          | Inr y \<Rightarrow> writeHeader 200 (w\<lparr>hw_random := rest, hw_db := d, hw_env := k\<rparr>)))"
    using assms(1,4) rand up cr
    by (simp add: BootstrapAdmin_def callK_def callRand_def callD_def turn_def randBytes_def found_or_none_run Let_def split: sum.splits)
  with assms(5,6) obtain u y where ok: "r = Inr u" "c = Inr y" "v = w\<lparr>hw_random := rest, hw_db := d, hw_env := k\<rparr>"
    by (auto simp: writeHeader_def answer_def split: sum.splits)
  from UpsertUser_opens [OF assms(3,2) up [unfolded ok(1)] at] obtain x where
    "fst (VerifyPassword (sv_crypto S) BootstrapAdminUsername ?pw d) = Inr x" "us_username x = BootstrapAdminUsername" "us_admin x" by blast
  with cr ok show ?thesis by (intro exI [of _ ?pw] exI [of _ x] exI [of _ y]) simp
qed

section \<open>Changes that meet others\<close>

text \<open>Attempts to write a server, and how many of them were accepted.\<close>

definition attempts :: "event list \<Rightarrow> nat" where
  "attempts l = length (filter (\<lambda>e. case e of EvUpdate x ok \<Rightarrow> True | _ \<Rightarrow> False) l)"

definition accepted :: "event list \<Rightarrow> nat" where
  "accepted l = length (filter (\<lambda>e. case e of EvUpdate x ok \<Rightarrow> ok | _ \<Rightarrow> False) l)"

text \<open>At most \<open>n\<close> attempts and \<open>m\<close> of them accepted, each with what \<open>F\<close> allows.\<close>

definition tried :: "(gameserver \<Rightarrow> bool) \<Rightarrow> nat \<Rightarrow> nat \<Rightarrow> event list \<Rightarrow> bool" where
  "tried F n m l \<longleftrightarrow> attempts l \<le> n \<and> accepted l \<le> m \<and> (\<forall>x ok. EvUpdate x ok \<in> set l \<longrightarrow> (\<exists>g. x = OGs g \<and> F g))"

lemma tried_reads [simp]:
  "tried F n m (l @ [EvGot ns nm x]) = tried F n m l" "tried F n m (l @ [EvGetFailed ns nm b]) = tried F n m l"
  by (auto simp: tried_def attempts_def accepted_def)

lemma tried_more: "tried F n m l \<Longrightarrow> n \<le> n' \<Longrightarrow> m \<le> m' \<Longrightarrow> tried F n' m' l"
  by (auto simp: tried_def)

lemma tried_update:
  "tried F n 0 l \<Longrightarrow> F g \<Longrightarrow> tried F (Suc n) 1 (l @ [EvUpdate (OGs g) True])"
  "tried F n 0 l \<Longrightarrow> F g \<Longrightarrow> tried F (Suc n) 0 (l @ [EvUpdate (OGs g) False])"
  by (auto simp: tried_def attempts_def accepted_def)

lemma mutateOnce_tried:
  assumes F: "\<And>now g. F (mutate now g)" and le: "Suc n \<le> N"
    and again: "\<And>e. traced (tried F (Suc n) 0) (again e) (tried F N 1)" and good: "\<And>g. traced (tried F (Suc n) 1) (good g) (tried F N 1)"
  shows "traced (tried F n 0) (mutateOnce (logging k) ns name mutate again good) (tried F N 1)"
  unfolding mutateOnce_def logging_kinds
  apply (rule traced_callK [where R = "\<lambda>_. tried F n 0" and E = "\<lambda>_. tried F n 0"])
    apply (rule log_rules; simp)
   apply (rule traced_readEnv)
   apply (rule traced_callK [where R = "\<lambda>_. tried F (Suc n) 1" and E = "\<lambda>_. tried F (Suc n) 0"])
     apply (rule log_rules; erule tried_update; rule F)
    apply (rule good)
   apply (rule traced_if)
    apply (rule again)
   apply (rule traced_replies, erule tried_more; use le in simp)
  apply (rule traced_replies, erule tried_more; use le in simp)
  done

lemma mutateAttempts_tried:
  assumes F: "\<And>now g. F (mutate now g)"
  shows "traced (tried F n 0) (mutateAttempts (logging k) ns name mutate (\<lambda>g. answer (f g)) left) (tried F (n + left + 1) 1)"
proof (induction left arbitrary: n)
  case 0
  show ?case unfolding mutateAttempts.simps
    by (rule mutateOnce_tried [where n = n and F = F and mutate = mutate, OF F]) (auto intro: traced_replies traced_answer elim: tried_more)
next
  case (Suc left)
  have step: "traced (tried F (Suc n) 0) (mutateAttempts (logging k) ns name mutate (\<lambda>g. answer (f g)) left) (tried F (n + Suc left + 1) 1)"
    using Suc [of "Suc n"] by simp
  show ?case unfolding mutateAttempts.simps
    apply (rule mutateOnce_tried [where n = n and F = F and mutate = mutate, OF F])
      apply simp
     apply (rule step)
    apply (rule traced_answer, erule tried_more; simp)
    done
qed

text \<open>
  A change that meets others' writes is tried at most four times and made at most once, and every attempt writes the change onto
  the server as it was just read: lifting a suspension writes a server that is not suspended, however often it had to be repeated.
\<close>

lemma mutate_bounded:
  assumes "\<And>now g. F (mutate now g)" and "snd (hw_env w) = []"
  shows "tried F 4 1 (snd (hw_env (snd (mutateGameServer (logging k) ns name mutate (\<lambda>g. answer (f g)) w))))"
  using tracedD [OF mutateAttempts_tried [where F = F and mutate = mutate, OF assms(1), where n = 0 and left = 3 and k = k and ns = ns and name = name and f = f], of w] assms(2)
  by (simp add: mutateGameServer_def tried_def [of F 0 0] attempts_def accepted_def)

definition busy_k8s :: "unit k8s" where
  "busy_k8s = absent_k8s\<lparr>k_gs := absent_rest\<lparr>r_get := (\<lambda>ns n. ret suspended_gs), r_update := (\<lambda>g. throw (ApiErr (EOtherApi ''Conflict'')))\<rparr>\<rparr>"

lemma busy_run:
  "attempts (snd (hw_env (snd (mutateGameServer (logging busy_k8s) ''hatchery-acme'' ''mc'' (\<lambda>_. unsuspend) (\<lambda>g. answer (serverReply 202 g))
     (worldOf ((), [])))))) = 4"
  by code_simp

lemma mutate_bounded_witness:
  "let l = snd (hw_env (snd (mutateGameServer (logging busy_k8s) ''hatchery-acme'' ''mc'' (\<lambda>_. unsuspend) (\<lambda>g. answer (serverReply 202 g))
     (worldOf ((), []))))) in tried (\<lambda>g. \<not> gss_suspended (gs_spec g)) 4 1 l \<and> attempts l = 4"
  using mutate_bounded [of "\<lambda>g. \<not> gss_suspended (gs_spec g)" "\<lambda>_. unsuspend" "worldOf ((), [])" busy_k8s "''hatchery-acme''" "''mc''" "serverReply 202"] busy_run
  by (simp add: Let_def unsuspend_def worldOf_def)

definition emptyCluster :: "unit server" where
  "emptyCluster = (pn_server (panelOn absent_k8s))\<lparr>sv_k := absent_k8s\<lparr>k_secret := accept_rest\<rparr>\<rparr>"

definition firstStart :: "reply \<times> unit hw" where
  "firstStart = BootstrapAdmin emptyCluster ''hatchery'' ''admin'' ''root@a.org'' (\<lambda>_. writeHeader 500) (writeHeader 200)
     (worldOf ()\<lparr>hw_random := [''secret'']\<rparr>)"

lemma bootstrap_run: "rp_status (fst firstStart) = 200"
  by code_simp

lemma BootstrapAdmin_opens_witness:
  "\<exists>pw u. fst (VerifyPassword sample_crypto ''admin'' pw (hw_db (snd firstStart))) = Inr u \<and> us_admin u"
proof -
  let ?w = "worldOf ()\<lparr>hw_random := [''secret'']\<rparr>"
  have w: "hw_others ?w = []" "db_faults (hw_db ?w) = []" by (simp_all add: worldOf_def sample_db_def new_db_def)
  have c: "sv_crypto emptyCluster = sample_crypto" by (simp add: emptyCluster_def panelOn_def)
  have g: "r_get (k_secret (sv_k emptyCluster)) ''hatchery'' ''admin'' (hw_env ?w) = (Inl (ApiErr ENotFound), ())"
    by (simp add: emptyCluster_def accept_rest_def absent_rest_def throw_def)
  have m: "cr_bcrypt sample_crypto p = Inr h \<Longrightarrow> cr_match sample_crypto h p" for p h by (simp add: sample_crypto_def)
  have run: "BootstrapAdmin emptyCluster ''hatchery'' ''admin'' ''root@a.org'' (\<lambda>_. writeHeader 500) (writeHeader 200) ?w =
      (fst firstStart, snd firstStart)" by (simp only: firstStart_def prod.collapse)
  obtain pw u where "fst (VerifyPassword (sv_crypto emptyCluster) BootstrapAdminUsername pw (hw_db (snd firstStart))) = Inr u" "us_admin u"
    using BootstrapAdmin_opens [OF w m [folded c] g run bootstrap_run] by blast
  then show ?thesis unfolding c BootstrapAdminUsername_def by blast
qed

end
