(* ===== verification/Spec2Isabelle.thy ===== *)
theory Spec2Isabelle
  imports Image_Policy Schedule_Controller Restore_Controller Gateway_Exposure Tenant_Controller Webhooks Operator_Flags Catalog Game_Query Panel_Accounts Panel_Challenges Panel_Signin Panel_Upkeep
begin

text \<open>
  Hatchery is a Kubernetes operator for game servers, with a panel on top of it. Users write custom
  resources (Egg, GameServer, GameServerBackup, GameServerRestore, GameServerSchedule, Tenant); the
  operator's reconcilers read them through the API server and create Pods, Jobs, Services, policies and
  routes. This development models the API package (\<open>src/api/v1alpha1\<close>) and the reconcilers
  (\<open>src/internal/controller\<close>, \<open>src/internal/backup\<close>, \<open>src/internal/backupplan\<close>, \<open>src/internal/volumes\<close>), the
  admission webhooks, the operator's flags, the game queries, and of the panel its store, its caches and the
  handlers for signing in, accounts, organizations and their members, servers, backups, schedules and alerts, and proves
  what makes them correct.

  \<^bold>\<open>How the code is modelled.\<close> A function without effects is a HOL function of the same name. A method of
  a reconciler is a function of a client \<open>k\<close> (\<open>Kube_Client.k8s\<close>: the typed API client, the clock, the
  random source, exec and logs) that maps a world of any type to a result and the next world;
  \<open>Inl\<close> is a Go error, \<open>Inr\<close> a normal return. Nothing is assumed of the client, so a theorem over all
  clients covers every failure and every interleaving with other writers between two calls. Structs are
  records, enumerations datatypes, \<open>map[string]string\<close> is a partial map, a nil pointer \<open>None\<close>. Times and
  durations are integers of nanoseconds; counters that the code bounds by validation are integers. A
  message is its format string with its arguments. A loop that may not end (the catch-up of
  \<open>maybeStart\<close>) is a partial function into an option, whose \<open>None\<close> is proved away.

  \<^bold>\<open>What the statements look like.\<close> \<open>Client_Log\<close> wraps a client so that it records its calls.
  \<open>guarded G (trace m w)\<close> says that every call \<open>m\<close> makes satisfies \<open>G\<close> of the calls made before it: this
  is how orders such as "the crash is recorded before the Pod is deleted" are stated against any cluster.
  Where a property needs more of a library (conditions are kept by \<open>SetStatusCondition\<close>, a status write
  answers what was written, the next cron time is later), the law is a locale in \<open>Kube_Client\<close>,
  \<open>Client_Log\<close> or \<open>Schedule_Controller\<close>, interpreted on a concrete function that satisfies it.

  \<^bold>\<open>Theories.\<close>
  \<^item> \<open>Prelude\<close>: errors, state passing, Hoare rules. \<open>Go_Strings\<close>: what the code uses of \<open>strings\<close>, \<open>path\<close>
    and \<open>strconv\<close>. \<open>Kube_Types\<close>, \<open>Api_Types\<close>: the data. \<open>Kube_Client\<close>: the parameters and their laws.
    \<open>Client_Log\<close>: the recording client. \<open>Samples\<close>: one object per kind, for the witnesses.
  \<^item> \<open>Egg_Validate\<close>, \<open>Egg_Variables\<close>, \<open>Ports\<close>, \<open>Image_Policy\<close>, \<open>Schedule_Spec\<close>: the validations and derived
    values of \<open>api/v1alpha1\<close> (\<open>egg_validate.go\<close>, \<open>consoleinput.go\<close>, \<open>variables.go\<close>, \<open>startcommand.go\<close>,
    \<open>images.go\<close>, \<open>extraports.go\<close>, \<open>imagepolicy.go\<close>, \<open>schedule.go\<close>).
  \<^item> \<open>GameServer_Pod\<close> (\<open>buildPod\<close> and what it is made of, \<open>sftpagent/spec.go\<close>), \<open>Crash\<close> (\<open>crash.go\<close>,
    \<open>gameserver_crash.go\<close>), \<open>GameServer_Status\<close> (\<open>gameserver_status.go\<close>), \<open>GameServer_Controller\<close>
    (\<open>gameserver_controller.go\<close>, \<open>metrics.go\<close>): the GameServer reconciler, when Pods come and go, what a
    crash does, what the status says and that writing it settles.
  \<^item> \<open>Backup_Plan\<close> (\<open>backupplan/plan.go\<close>), \<open>Backup_Job\<close> (\<open>backup/job.go\<close>, \<open>volumes/affinity.go\<close>),
    \<open>Backup_Controller\<close> (\<open>gameserverbackup_controller.go\<close>, \<open>gameserverbackup_quiesce.go\<close>,
    \<open>backup_quiesce.go\<close>), \<open>Restore_Controller\<close> (\<open>gameserverrestore_controller.go\<close>): limits and
    credentials, the Jobs, the phase machine of a backup, the pause of world saving, the restore lock.
  \<^item> \<open>Schedule_Controller\<close> (\<open>gameserverschedule_controller.go\<close>): due runs, tasks in order, rotation.
  \<^item> \<open>Gateway_Exposure\<close> (\<open>publicexposure.go\<close>, \<open>gatewayexposure_controller.go\<close>): the pool of public ports, the
    routes and the shared Gateway.
  \<^item> \<open>Tenant_Controller\<close> (\<open>tenant_controller.go\<close>, \<open>tenant_resources.go\<close>): a tenant's namespace is never adopted
    and only deleted when empty; what its network policies let through. \<open>Catalog\<close> (\<open>catalog.go\<close>): seeding only adds.
  \<^item> \<open>Webhooks\<close> (\<open>internal/webhook/v1alpha1\<close>): what is admitted can be built, never runs while it is locked or
    suspended, pulls allowed images only, and nothing is admitted without the reads it needs.
  \<^item> \<open>Go_Strconv\<close>, \<open>Go_Net\<close>: \<open>strconv\<close> and \<open>net\<close> as the code uses them. \<open>Operator_Flags\<close> (\<open>cmd/flags.go\<close>).
  \<^item> \<open>Panel_Db\<close>, \<open>Panel_Users\<close>, \<open>Panel_Orgs\<close>, \<open>Panel_Settings\<close> (\<open>internal/paneldb\<close>): the panel's store, one operation
    per method, over tables with the constraints of the migrations; \<open>run_op\<close> is every operation that writes.
    \<open>Panel_Invariants\<close>: the schema holds and organizations keep an owner over every run. \<open>Panel_Accounts\<close>: a failed
    operation changes nothing, a reset ends sessions, a one-time code works once.
  \<^item> \<open>Panel_Cache\<close> (\<open>internal/panelcache\<close>): Redis as keys with an end of life, commands that may be lost or unheard, and the
    stores in memory. \<open>Panel_Challenges\<close>: one contract for login tickets, kept by both stores. \<open>Panel_Limits\<close>: the
    limit on failed logins closes, and opens again. \<open>Go_Encoding\<close>, \<open>Two_Factor\<close> (\<open>internal/twofactor\<close>).
  \<^item> \<open>Panel_Http\<close> (\<open>json.go\<close>, \<open>clientip.go\<close>, \<open>audit.go\<close>, \<open>mail.go\<close> of \<open>internal/panelapi\<close>): a handler maps the state of the panel's
    process, its cluster, database, Redis and random source, to an answer and the next state; its calls to the
    database are single steps, between which other requests may run (\<open>hw_others\<close>). The theorems about handlers are about
    requests that run alone, except where they say otherwise. \<open>Panel_Access\<close> (\<open>auth.go\<close>, \<open>orgauth.go\<close>,
    \<open>permissions.go\<close>, \<open>security.go\<close>), \<open>Panel_Gate\<close>: who gets past the wrappers of a route, and what the others learn.
  \<^item> \<open>Panel_Profile\<close> (\<open>profile.go\<close>, \<open>slug.go\<close>), \<open>Panel_Members\<close> (\<open>members.go\<close>, \<open>invitations.go\<close>, \<open>users.go\<close>), \<open>Panel_Login\<close>
    (\<open>authhandlers.go\<close>, \<open>account.go\<close>, \<open>twofactor.go\<close>), \<open>Panel_Signin\<close>: what a new session presupposes. \<open>Panel_Samples\<close>: one
    panel for the witnesses.
  \<^item> \<open>Panel_Alerts\<close> (\<open>notifyevents.go\<close>, \<open>notifier.go\<close>, \<open>notifications.go\<close>, \<open>discord.go\<close>), \<open>Panel_Quota\<close> (\<open>quota.go\<close>, \<open>orgs.go\<close>,
    \<open>bootstrap.go\<close>, \<open>auditpruner.go\<close>), \<open>Panel_Backups\<close>, \<open>Panel_Schedules\<close>, \<open>Panel_Servers\<close> (\<open>backups.go\<close>, \<open>schedules.go\<close>,
    \<open>gameservers.go\<close>, \<open>players.go\<close>): the handlers that work on the cluster. \<open>Panel_Trace\<close> brings the log of \<open>Client_Log\<close> to
    handlers. \<open>Panel_Guarantees\<close>: a new server fits the quota, a suspended one is locked, backups and schedules are reached through
    their own server only. \<open>Panel_Upkeep\<close>: alerts are told once, the pruner removes what is past its retention, the first
    administrator can sign in.
  \<^item> \<open>Game_Query\<close> (\<open>internal/gamequery\<close>): the two status protocols over bytes, VarInts on 32-bit words.

  \<^bold>\<open>Not modelled.\<close> The panel's handlers for the console, files, mods and metrics, the Discord bot and the sending of mail, the SFTP server
  and the mod catalogs; two operations of the store running at once (the source locks rows); the wiring of managers and watches; generated code. Log lines are
  dropped; formatting a message, regular expressions of an Egg, cron expressions, time zones, RFC 3339
  and quantities are parameters of the model.
\<close>

end
